(* ===== verification/Prelude.thy ===== *)
theory Prelude
  imports Main "HOL-Library.AList"
begin

text \<open>
  Shared base of the library: the types every component uses (identifiers, times, strings),
  the standard-library string functions the source calls, the hint collections the component
  theories fill, and generic lemmas on lists, maps and association lists.

  Conventions. A \<open>u64\<close> identifier (event id, token, execution id) is a \<open>nat\<close>: the code only
  ever increments such counters by one, so wrapping would need \<open>2 ^ 64\<close> events. Where the code
  saturates or can overflow, the width is written out (\<open>u64_max\<close>, words in the backoff theory).
  A \<open>String\<close> is an Isabelle \<open>string\<close>, whose characters are bytes, so \<open>length\<close> is Rust's
  \<open>str::len\<close>. A \<open>HashMap\<close> that is only looked up is a map; one that the code iterates or counts
  is an association list kept by \<open>AList.update\<close> and \<open>AList.delete\<close>; a \<open>HashSet\<close> that the code
  iterates is a list without duplicates, in insertion order (the iteration order of the source is
  unspecified, and no theorem about such a set depends on it).
\<close>

type_synonym id64 = nat
type_synonym millis = nat
type_synonym nanos = nat

definition u64_max :: nat where
  "u64_max = 2 ^ 64 - 1"

definition u32_max :: nat where
  "u32_max = 2 ^ 32 - 1"

text \<open>Hint collections: definitional equations, and facts about event identifiers.\<close>

named_theorems ctx_defs "operations of the orchestration context"
named_theorems engine_defs "operations of the replay engine"
named_theorems history_simps "facts about event histories"

subsection \<open>Strings\<close>

text \<open>Rust's \<open>format!("{n}")\<close> on an unsigned integer: the decimal digits.\<close>

fun show_nat :: "nat \<Rightarrow> string" where
  "show_nat n = (if n < 10 then [char_of (48 + n)]
                 else show_nat (n div 10) @ [char_of (48 + n mod 10)])"

declare show_nat.simps [simp del]

text \<open>Rust's \<open>str::starts_with\<close> on a string pattern.\<close>

definition starts_with :: "string \<Rightarrow> string \<Rightarrow> bool" where
  "starts_with s p \<longleftrightarrow> take (length p) s = p"

lemma starts_with_append [simp]: "starts_with (p @ s) p"
  by (simp add: starts_with_def)

lemma starts_with_conv: "starts_with s p \<longleftrightarrow> (\<exists>t. s = p @ t)"
  unfolding starts_with_def
  by (metis append_eq_conv_conj append_take_drop_id)

definition digit_val :: "char \<Rightarrow> nat" where
  "digit_val c = of_char c - 48"

lemma digit_val_digit [simp]: "n < 10 \<Longrightarrow> digit_val (char_of (48 + n)) = n"
  by (simp add: digit_val_def)

fun read_nat :: "string \<Rightarrow> nat \<Rightarrow> nat" where
  "read_nat [] acc = acc"
| "read_nat (c # cs) acc = read_nat cs (10 * acc + digit_val c)"

lemma read_nat_append: "read_nat (xs @ ys) acc = read_nat ys (read_nat xs acc)"
  by (induction xs arbitrary: acc) auto

lemma read_show_nat: "read_nat (show_nat n) 0 = n"
proof (induction n rule: show_nat.induct)
  case (1 n)
  then show ?case
    by (cases "n < 10") (simp_all add: show_nat.simps [of n] read_nat_append)
qed

lemma show_nat_inj [simp]: "show_nat m = show_nat n \<longleftrightarrow> m = n"
  by (metis read_show_nat)

subsection \<open>Lists, options and maps\<close>

lemma find_Some_mem: "List.find P xs = Some x \<Longrightarrow> x \<in> set xs \<and> P x"
  by (induction xs) (auto split: if_splits)

lemma find_None_all: "List.find P xs = None \<longleftrightarrow> (\<forall>x \<in> set xs. \<not> P x)"
  by (induction xs) auto

lemma takeWhile_neq_take:
  assumes "distinct (map f xs)" and "i < length xs"
  shows "takeWhile (\<lambda>x. f x \<noteq> f (xs ! i)) xs = take i xs"
proof -
  have "takeWhile (\<lambda>x. f x \<noteq> f (xs ! i)) xs = takeWhile (\<lambda>x. f x \<noteq> f (xs ! i)) (take i xs @ xs ! i # drop (Suc i) xs)"
    using id_take_nth_drop [OF assms(2)] by simp
  also have "\<dots> = take i xs"
  proof (subst takeWhile_append2)
    fix x assume "x \<in> set (take i xs)"
    then obtain j where j: "j < i" "x = xs ! j" using assms(2) by (auto simp: in_set_conv_nth)
    then show "f x \<noteq> f (xs ! i)"
      using assms nth_eq_iff_index_eq [OF assms(1), of j i] by auto
  qed simp
  finally show ?thesis .
qed

lemma find_distinct_fst:
  assumes "distinct (map fst xs)" and "i < length xs"
  shows "List.find (\<lambda>p. fst p = fst (xs ! i)) xs = Some (xs ! i)"
  using assms
proof (induction xs arbitrary: i)
  case (Cons x xs)
  show ?case
  proof (cases i)
    case (Suc j)
    with Cons.prems have "fst (xs ! j) \<in> fst ` set xs" by simp
    with Cons.prems(1) have "fst x \<noteq> fst (xs ! j)" by (metis distinct.simps(2) list.map(2) set_map)
    with Suc Cons show ?thesis by simp
  qed simp
qed simp

text \<open>Every filtered element comes from a position of the unfiltered list.\<close>

lemma filter_nth_origin:
  assumes "j < length (filter P xs)"
  obtains i where "i < length xs" "P (xs ! i)" "filter P xs ! j = xs ! i"
    "j = length (filter P (take i xs))"
proof -
  have "\<exists>i < length xs. P (xs ! i) \<and> filter P xs ! j = xs ! i \<and> j = length (filter P (take i xs))"
    using assms
  proof (induction xs arbitrary: j)
    case (Cons x xs)
    show ?case
    proof (cases "P x \<and> j = 0")
      case True
      then show ?thesis by (intro exI [of _ 0]) simp
    next
      case False
      define j' where "j' = (if P x then j - 1 else j)"
      from False Cons.prems have "j' < length (filter P xs)"
        by (auto simp: j'_def split: if_splits)
      from Cons.IH [OF this] obtain i where "i < length xs" "P (xs ! i)"
        "filter P xs ! j' = xs ! i" "j' = length (filter P (take i xs))" by blast
      with False show ?thesis
        by (intro exI [of _ "Suc i"]) (auto simp: j'_def nth_Cons' split: if_splits)
    qed
  qed simp
  with that show ?thesis by blast
qed

text \<open>Rust's \<open>HashSet::insert\<close> returns whether the value was new.\<close>

definition set_insert_new :: "'a \<Rightarrow> 'a set \<Rightarrow> bool \<times> 'a set" where
  "set_insert_new x s = (x \<notin> s, insert x s)"

definition opt_or :: "'a option \<Rightarrow> 'a \<Rightarrow> 'a" where
  "opt_or m d = (case m of None \<Rightarrow> d | Some x \<Rightarrow> x)"

lemma opt_or_simps [simp]: "opt_or None d = d" "opt_or (Some x) d = x"
  by (simp_all add: opt_or_def)

lemma map_of_update [simp]: "map_of (AList.update k v al) = (map_of al)(k \<mapsto> v)"
  by (rule update_conv')

lemma map_of_delete [simp]: "map_of (AList.delete k al) = (map_of al)(k := None)"
  by (rule delete_conv')

text \<open>The \<open>?\<close> operator: continue with the value of an \<open>Ok\<close>, return the \<open>Err\<close> at once.\<close>

definition and_then :: "'e + 'a \<Rightarrow> ('a \<Rightarrow> 'e + 'b) \<Rightarrow> 'e + 'b" where
  "and_then m f = (case m of Inl e \<Rightarrow> Inl e | Inr x \<Rightarrow> f x)"

lemma and_then_simps [simp]: "and_then (Inl e) f = Inl e" "and_then (Inr x) f = f x"
  by (simp_all add: and_then_def)

end
