(* ===== verification/Events.thy ===== *)
theory Events
  imports Prelude
begin

text \<open>
  The data model of \<open>src/src/lib.rs\<close> and of the queue messages in \<open>src/src/providers/mod.rs\<close>:
  error details, history events, actions, completion results, schedule kinds and work items, with
  the pure functions the source defines on them. Constructor names are the source's; where two
  Rust enums share a variant name the Isabelle constructors carry the enum's initials
  (\<open>WI_\<close> for \<open>WorkItem\<close>, \<open>CR_\<close> for \<open>CompletionResult\<close>, \<open>SK_\<close> for \<open>ScheduleKind\<close>,
  \<open>AE_\<close> for \<open>AppErrorKind\<close>, \<open>PM_\<close> for \<open>PoisonMessageType\<close>, \<open>ACT_\<close> for two of \<open>Action\<close>).

  The variants behind the feature \<open>replay-version-test\<close> (\<open>ExternalSubscribed2\<close>,
  \<open>ExternalEvent2\<close>, \<open>WaitExternal2\<close>, \<open>ExternalRaised2\<close>) are not part of a normal build and are
  left out. The field \<open>timestamp_ms\<close> of an event is left out: it is written from the wall clock
  when the event is made and no code under \<open>src/src\<close> outside tests reads it.
\<close>

subsection \<open>Error details\<close>

datatype config_error_kind = Nondeterminism

datatype app_error_kind =
    AE_ActivityFailed
  | AE_OrchestrationFailed
  | AE_Panicked
  | AE_Cancelled string

datatype poison_message_type =
    PM_Orchestration string id64
  | PM_Activity string id64 string id64
  | PM_FailedDeserialization string id64 string

text \<open>The fields, in the source's order: \<open>Infrastructure operation message retryable\<close>,
  \<open>Configuration kind resource message\<close>, \<open>Application kind message retryable\<close>,
  \<open>Poison attempt_count max_attempts message_type message\<close>.\<close>

datatype error_details =
    Infrastructure string string bool
  | Configuration config_error_kind string "string option"
  | Application app_error_kind string bool
  | Poison nat nat poison_message_type string

fun category :: "error_details \<Rightarrow> string" where
  "category (Infrastructure _ _ _) = ''infrastructure''"
| "category (Configuration _ _ _) = ''configuration''"
| "category (Application _ _ _) = ''application''"
| "category (Poison _ _ _ _) = ''poison''"

fun is_retryable :: "error_details \<Rightarrow> bool" where
  "is_retryable (Infrastructure _ _ r) = r"
| "is_retryable (Application _ _ r) = r"
| "is_retryable (Configuration _ _ _) = False"
| "is_retryable (Poison _ _ _ _) = False"

fun display_message :: "error_details \<Rightarrow> string" where
  "display_message (Infrastructure operation message _) =
     ''infrastructure:'' @ operation @ '': '' @ message"
| "display_message (Configuration Nondeterminism resource message) =
     (case message of Some m \<Rightarrow> ''nondeterministic: '' @ m
                    | None \<Rightarrow> ''nondeterministic in '' @ resource)"
| "display_message (Application kind message _) =
     (case kind of AE_Cancelled reason \<Rightarrow> ''canceled: '' @ reason
                 | AE_Panicked \<Rightarrow> ''orchestration panicked: '' @ message
                 | _ \<Rightarrow> message)"
| "display_message (Poison attempt_count max_attempts message_type _) =
     (case message_type of
        PM_Orchestration inst _ \<Rightarrow>
          ''poison: orchestration '' @ inst @ '' exceeded '' @ show_nat attempt_count
            @ '' attempts (max '' @ show_nat max_attempts @ '')''
      | PM_Activity _ _ activity_name activity_id \<Rightarrow>
          ''poison: activity '' @ activity_name @ ''#'' @ show_nat activity_id @ '' exceeded ''
            @ show_nat attempt_count @ '' attempts (max '' @ show_nat max_attempts @ '')''
      | PM_FailedDeserialization inst _ err \<Rightarrow>
          ''poison: orchestration '' @ inst @ '' history deserialization failed after ''
            @ show_nat attempt_count @ '' attempts (max '' @ show_nat max_attempts @ ''): '' @ err)"

subsection \<open>History events\<close>

text \<open>
  Fields of the larger variants, in the source's order:
  \<open>OrchestrationStarted name version input parent_instance parent_id carry_forward_events
  initial_custom_status\<close>, \<open>ActivityScheduled name input session_id tag\<close>,
  \<open>OrchestrationChained name instance input\<close>,
  \<open>SubOrchestrationScheduled name instance input\<close>, \<open>KeyValueSet key value last_updated_at_ms\<close>.
\<close>

datatype event_kind =
    OrchestrationStarted string string string "string option" "id64 option"
      "(string \<times> string) list option" "string option"
  | OrchestrationCompleted string
  | OrchestrationFailed error_details
  | ActivityScheduled string string "string option" "string option"
  | ActivityCompleted string
  | ActivityFailed error_details
  | ActivityCancelRequested string
  | TimerCreated millis
  | TimerFired millis
  | ExternalSubscribed string
  | ExternalEvent string string
  | OrchestrationChained string string string
  | SubOrchestrationScheduled string string string
  | SubOrchestrationCompleted string
  | SubOrchestrationFailed error_details
  | SubOrchestrationCancelRequested string
  | OrchestrationContinuedAsNew string
  | OrchestrationCancelRequested string
  | ExternalSubscribedCancelled string
  | QueueSubscribed string
  | QueueEventDelivered string string
  | QueueSubscriptionCancelled string
  | CustomStatusUpdated "string option"
  | KeyValueSet string string millis
  | KeyValueCleared string
  | KeyValuesCleared

record event =
  ev_event_id :: id64
  ev_source_event_id :: "id64 option"
  ev_instance_id :: string
  ev_execution_id :: id64
  ev_duroxide_version :: string
  ev_kind :: event_kind

text \<open>\<open>env!("CARGO_PKG_VERSION")\<close> of \<open>src/Cargo.toml\<close>.\<close>

definition pkg_version :: string where
  "pkg_version = ''0.1.28''"

definition with_event_id ::
    "id64 \<Rightarrow> string \<Rightarrow> id64 \<Rightarrow> id64 option \<Rightarrow> event_kind \<Rightarrow> event" where
  "with_event_id event_id inst execution_id source_event_id kind =
     \<lparr>ev_event_id = event_id, ev_source_event_id = source_event_id, ev_instance_id = inst,
      ev_execution_id = execution_id, ev_duroxide_version = pkg_version, ev_kind = kind\<rparr>"

definition event_new :: "string \<Rightarrow> id64 \<Rightarrow> id64 option \<Rightarrow> event_kind \<Rightarrow> event" where
  "event_new inst execution_id source_event_id kind =
     with_event_id 0 inst execution_id source_event_id kind"

definition set_event_id :: "event \<Rightarrow> id64 \<Rightarrow> event" where
  "set_event_id e i = e\<lparr>ev_event_id := i\<rparr>"

fun is_terminal_kind :: "event_kind \<Rightarrow> bool" where
  "is_terminal_kind (OrchestrationCompleted _) = True"
| "is_terminal_kind (OrchestrationFailed _) = True"
| "is_terminal_kind (OrchestrationContinuedAsNew _) = True"
| "is_terminal_kind _ = False"

definition is_terminal :: "event \<Rightarrow> bool" where
  "is_terminal e = is_terminal_kind (ev_kind e)"

lemma with_event_id_simps [simp]:
  "ev_event_id (with_event_id i inst x src k) = i"
  "ev_source_event_id (with_event_id i inst x src k) = src"
  "ev_instance_id (with_event_id i inst x src k) = inst"
  "ev_execution_id (with_event_id i inst x src k) = x"
  "ev_duroxide_version (with_event_id i inst x src k) = pkg_version"
  "ev_kind (with_event_id i inst x src k) = k"
  by (simp_all add: with_event_id_def)

lemma event_new_simps [simp]:
  "ev_event_id (event_new inst x src k) = 0"
  "ev_source_event_id (event_new inst x src k) = src"
  "ev_instance_id (event_new inst x src k) = inst"
  "ev_execution_id (event_new inst x src k) = x"
  "ev_kind (event_new inst x src k) = k"
  by (simp_all add: event_new_def)

lemma set_event_id_simps [simp]:
  "ev_event_id (set_event_id e i) = i"
  "ev_source_event_id (set_event_id e i) = ev_source_event_id e"
  "ev_instance_id (set_event_id e i) = ev_instance_id e"
  "ev_execution_id (set_event_id e i) = ev_execution_id e"
  "ev_kind (set_event_id e i) = ev_kind e"
  by (simp_all add: set_event_id_def)

subsection \<open>Actions, completion results, schedule kinds\<close>

text \<open>
  Fields in the source's order: \<open>CallActivity scheduling_event_id name input session_id tag\<close>,
  \<open>CreateTimer scheduling_event_id fire_at_ms\<close>, \<open>WaitExternal scheduling_event_id name\<close>,
  \<open>StartOrchestrationDetached scheduling_event_id name version instance input\<close>,
  \<open>StartSubOrchestration scheduling_event_id name version instance input\<close>,
  \<open>ACT_ContinueAsNew input version\<close>, \<open>DequeueEvent scheduling_event_id name\<close>,
  \<open>SetKeyValue key value last_updated_at_ms\<close>.
\<close>

datatype action =
    CallActivity id64 string string "string option" "string option"
  | CreateTimer id64 millis
  | WaitExternal id64 string
  | StartOrchestrationDetached id64 string "string option" string string
  | StartSubOrchestration id64 string "string option" string string
  | ACT_ContinueAsNew string "string option"
  | UpdateCustomStatus "string option"
  | DequeueEvent id64 string
  | SetKeyValue string string millis
  | ClearKeyValue string
  | ACT_ClearKeyValues

datatype completion_result =
    CR_ActivityOk string
  | CR_ActivityErr string
  | CR_TimerFired
  | CR_SubOrchOk string
  | CR_SubOrchErr string
  | CR_ExternalData string

datatype schedule_kind =
    SK_Activity string
  | SK_Timer
  | SK_ExternalWait string
  | SK_QueueDequeue string
  | SK_SubOrchestration id64

subsection \<open>Sub-orchestration instance identifiers\<close>

definition INITIAL_EXECUTION_ID :: id64 where "INITIAL_EXECUTION_ID = 1"
definition INITIAL_EVENT_ID :: id64 where "INITIAL_EVENT_ID = 1"

definition SUB_ORCH_AUTO_PREFIX :: string where "SUB_ORCH_AUTO_PREFIX = ''sub::''"
definition SUB_ORCH_PENDING_PREFIX :: string where "SUB_ORCH_PENDING_PREFIX = ''sub::pending_''"

definition is_auto_generated_sub_orch_id :: "string \<Rightarrow> bool" where
  "is_auto_generated_sub_orch_id inst = starts_with inst SUB_ORCH_AUTO_PREFIX"

definition build_child_instance_id :: "string \<Rightarrow> string \<Rightarrow> string" where
  "build_child_instance_id parent_instance child_instance =
     (if is_auto_generated_sub_orch_id child_instance
      then parent_instance @ ''::'' @ child_instance
      else child_instance)"

lemma build_child_auto_inj:
  "is_auto_generated_sub_orch_id a \<Longrightarrow> is_auto_generated_sub_orch_id b \<Longrightarrow>
   build_child_instance_id p a = build_child_instance_id p b \<longleftrightarrow> a = b"
  by (simp add: build_child_instance_id_def)

subsection \<open>Work items and provider data\<close>

text \<open>
  Fields in the source's order: \<open>WI_StartOrchestration instance orchestration input version
  parent_instance parent_id execution_id\<close>, \<open>WI_ActivityExecute instance execution_id id name input
  session_id tag\<close>, \<open>WI_ActivityCompleted instance execution_id id result\<close>,
  \<open>WI_ActivityFailed instance execution_id id details\<close>,
  \<open>WI_TimerFired instance execution_id id fire_at_ms\<close>, \<open>WI_ExternalRaised instance name data\<close>,
  \<open>WI_SubOrchCompleted parent_instance parent_execution_id parent_id result\<close>,
  \<open>WI_SubOrchFailed parent_instance parent_execution_id parent_id details\<close>,
  \<open>WI_CancelInstance instance reason\<close>, \<open>WI_ContinueAsNew instance orchestration input version
  carry_forward_events initial_custom_status\<close>, \<open>WI_QueueMessage instance name data\<close>.
\<close>

datatype work_item =
    WI_StartOrchestration string string string "string option" "string option" "id64 option" id64
  | WI_ActivityExecute string id64 id64 string string "string option" "string option"
  | WI_ActivityCompleted string id64 id64 string
  | WI_ActivityFailed string id64 id64 error_details
  | WI_TimerFired string id64 id64 millis
  | WI_ExternalRaised string string string
  | WI_SubOrchCompleted string id64 id64 string
  | WI_SubOrchFailed string id64 id64 error_details
  | WI_CancelInstance string string
  | WI_ContinueAsNew string string string "string option" "(string \<times> string) list" "string option"
  | WI_QueueMessage string string string

fun kind_of :: "work_item \<Rightarrow> string" where
  "kind_of (WI_StartOrchestration _ _ _ _ _ _ _) = ''StartOrchestration''"
| "kind_of (WI_ActivityExecute _ _ _ _ _ _ _) = ''ActivityExecute''"
| "kind_of (WI_ActivityCompleted _ _ _ _) = ''ActivityCompleted''"
| "kind_of (WI_ActivityFailed _ _ _ _) = ''ActivityFailed''"
| "kind_of (WI_TimerFired _ _ _ _) = ''TimerFired''"
| "kind_of (WI_ExternalRaised _ _ _) = ''ExternalRaised''"
| "kind_of (WI_QueueMessage _ _ _) = ''ExternalRaisedPersistent''"
| "kind_of (WI_SubOrchCompleted _ _ _ _) = ''SubOrchCompleted''"
| "kind_of (WI_SubOrchFailed _ _ _ _) = ''SubOrchFailed''"
| "kind_of (WI_CancelInstance _ _) = ''CancelInstance''"
| "kind_of (WI_ContinueAsNew _ _ _ _ _ _) = ''ContinueAsNew''"

record kv_entry =
  kv_value :: string
  kv_last_updated_at_ms :: millis

record scheduled_activity_identifier =
  sa_instance :: string
  sa_execution_id :: id64
  sa_activity_id :: id64

text \<open>\<open>ProviderError\<close> of \<open>src/src/providers/error.rs\<close>.\<close>

record provider_error =
  pe_operation :: string
  pe_message :: string
  pe_retryable :: bool

definition to_infrastructure_error :: "provider_error \<Rightarrow> error_details" where
  "to_infrastructure_error e = Infrastructure (pe_operation e) (pe_message e) (pe_retryable e)"

end
