(* ===== verification/Ctx_Inner.thy ===== *)
theory Ctx_Inner
  imports Events
begin

text \<open>
  \<open>CtxInner\<close> of \<open>src/src/lib.rs\<close>: the state behind \<open>OrchestrationContext\<close>, shared by the user's
  orchestration code (which emits actions and reads results) and the replay engine (which binds
  tokens to history events and delivers completions). One definition per method.

  There is one waker per turn (the engine's \<open>ReplayWakeState\<close>), so \<open>token_wakers\<close> is the set of
  tokens that hold it, and \<open>deliver_result\<close> returns whether there is a waker to wake.
  A mutex guards the structure in the source; each operation below is one critical section.
\<close>

record ctx_inner =
  cx_is_replaying :: bool
  cx_next_token :: id64
  cx_emitted_actions :: "(id64 \<times> action) list"
  cx_completion_results :: "id64 \<rightharpoonup> completion_result"
  cx_token_bindings :: "id64 \<rightharpoonup> id64"
  cx_schedule_bindings :: "id64 \<rightharpoonup> id64"
  cx_token_wakers :: "id64 set"
  cx_external_subscriptions :: "(id64 \<times> string \<times> nat) list"
  cx_external_arrivals :: "string \<rightharpoonup> string list"
  cx_external_next_index :: "string \<rightharpoonup> nat"
  cx_external_cancelled_subscriptions :: "id64 set"
  cx_queue_subscriptions :: "(id64 \<times> string) list"
  cx_queue_arrivals :: "string \<rightharpoonup> string list"
  cx_queue_cancelled_subscriptions :: "id64 set"
  cx_queue_resolved_subscriptions :: "id64 set"
  cx_sub_orchestration_instances :: "id64 \<rightharpoonup> string"
  cx_cancelled_tokens :: "id64 list"
  cx_cancelled_token_kinds :: "id64 \<rightharpoonup> schedule_kind"
  cx_execution_id :: id64
  cx_instance_id :: string
  cx_orchestration_name :: string
  cx_orchestration_version :: string
  cx_logging_enabled_this_poll :: bool
  cx_accumulated_custom_status :: "string option"
  cx_kv_state :: "(string \<times> string) list"
  cx_kv_metadata :: "(string \<times> millis) list"

text \<open>\<open>CtxInner::new\<close>; the history and worker id arguments are unused in the source.\<close>

definition ctx_new :: "id64 \<Rightarrow> string \<Rightarrow> string \<Rightarrow> string \<Rightarrow> ctx_inner" where
  "ctx_new execution_id inst orchestration_name orchestration_version =
     \<lparr>cx_is_replaying = True,
      cx_next_token = 0,
      cx_emitted_actions = [],
      cx_completion_results = Map.empty,
      cx_token_bindings = Map.empty,
      cx_schedule_bindings = Map.empty,
      cx_token_wakers = {},
      cx_external_subscriptions = [],
      cx_external_arrivals = Map.empty,
      cx_external_next_index = Map.empty,
      cx_external_cancelled_subscriptions = {},
      cx_queue_subscriptions = [],
      cx_queue_arrivals = Map.empty,
      cx_queue_cancelled_subscriptions = {},
      cx_queue_resolved_subscriptions = {},
      cx_sub_orchestration_instances = Map.empty,
      cx_cancelled_tokens = [],
      cx_cancelled_token_kinds = Map.empty,
      cx_execution_id = execution_id,
      cx_instance_id = inst,
      cx_orchestration_name = orchestration_name,
      cx_orchestration_version = orchestration_version,
      cx_logging_enabled_this_poll = False,
      cx_accumulated_custom_status = None,
      cx_kv_state = [],
      cx_kv_metadata = []\<rparr>"

subsection \<open>Actions, tokens and results\<close>

definition emit_action :: "action \<Rightarrow> ctx_inner \<Rightarrow> id64 \<times> ctx_inner" where
  "emit_action a c =
     (let token = cx_next_token c + 1
      in (token, c\<lparr>cx_next_token := token,
                   cx_emitted_actions := cx_emitted_actions c @ [(token, a)]\<rparr>))"

definition drain_emitted_actions :: "ctx_inner \<Rightarrow> (id64 \<times> action) list \<times> ctx_inner" where
  "drain_emitted_actions c = (cx_emitted_actions c, c\<lparr>cx_emitted_actions := []\<rparr>)"

definition bind_token :: "id64 \<Rightarrow> id64 \<Rightarrow> ctx_inner \<Rightarrow> ctx_inner" where
  "bind_token token schedule_id c =
     (let sb = (case cx_token_bindings c token of
                  Some old_schedule_id \<Rightarrow> (cx_schedule_bindings c)(old_schedule_id := None)
                | None \<Rightarrow> cx_schedule_bindings c)
      in c\<lparr>cx_token_bindings := (cx_token_bindings c)(token \<mapsto> schedule_id),
           cx_schedule_bindings := sb(schedule_id \<mapsto> token)\<rparr>)"

definition get_bound_schedule_id :: "id64 \<Rightarrow> ctx_inner \<Rightarrow> id64 option" where
  "get_bound_schedule_id token c = cx_token_bindings c token"

definition deliver_result :: "id64 \<Rightarrow> completion_result \<Rightarrow> ctx_inner \<Rightarrow> bool \<times> ctx_inner" where
  "deliver_result schedule_id result c =
     (case cx_schedule_bindings c schedule_id of
        Some token \<Rightarrow>
          (token \<in> cx_token_wakers c,
           c\<lparr>cx_completion_results := (cx_completion_results c)(token \<mapsto> result),
             cx_token_wakers := cx_token_wakers c - {token}\<rparr>)
      | None \<Rightarrow> (False, c))"

definition get_result :: "id64 \<Rightarrow> ctx_inner \<Rightarrow> completion_result option" where
  "get_result token c = cx_completion_results c token"

definition register_token_waker :: "id64 \<Rightarrow> ctx_inner \<Rightarrow> ctx_inner" where
  "register_token_waker token c = c\<lparr>cx_token_wakers := insert token (cx_token_wakers c)\<rparr>"

definition clear_token_waker :: "id64 \<Rightarrow> ctx_inner \<Rightarrow> ctx_inner" where
  "clear_token_waker token c = c\<lparr>cx_token_wakers := cx_token_wakers c - {token}\<rparr>"

definition set_is_replaying :: "bool \<Rightarrow> ctx_inner \<Rightarrow> ctx_inner" where
  "set_is_replaying b c = c\<lparr>cx_is_replaying := b\<rparr>"

subsection \<open>Positional external events\<close>

definition bind_external_subscription :: "id64 \<Rightarrow> string \<Rightarrow> ctx_inner \<Rightarrow> ctx_inner" where
  "bind_external_subscription schedule_id name c =
     (let idx = opt_or (cx_external_next_index c name) 0
      in c\<lparr>cx_external_next_index := (cx_external_next_index c)(name \<mapsto> idx + 1),
           cx_external_subscriptions :=
             AList.update schedule_id (name, idx) (cx_external_subscriptions c)\<rparr>)"

definition has_pending_subscription_slot :: "string \<Rightarrow> ctx_inner \<Rightarrow> bool" where
  "has_pending_subscription_slot name c =
     (let active_subs = length (filter (\<lambda>(sid, n, _).
            n = name \<and> sid \<notin> cx_external_cancelled_subscriptions c) (cx_external_subscriptions c));
          delivered = (case cx_external_arrivals c name of None \<Rightarrow> 0 | Some v \<Rightarrow> length v)
      in active_subs > delivered)"

definition deliver_external_event :: "string \<Rightarrow> string \<Rightarrow> ctx_inner \<Rightarrow> ctx_inner" where
  "deliver_external_event name data c =
     c\<lparr>cx_external_arrivals :=
         (cx_external_arrivals c)(name \<mapsto> opt_or (cx_external_arrivals c name) [] @ [data])\<rparr>"

definition nth_opt :: "'a list \<Rightarrow> nat \<Rightarrow> 'a option" where
  "nth_opt xs i = (if i < length xs then Some (xs ! i) else None)"

text \<open>\<open>cancelled_below\<close>: subscriptions of this name with a lower raw index whose own schedule id is
  cancelled. The subtraction of the source cannot underflow: \<open>external_index_no_underflow\<close> below.\<close>

definition cancelled_below :: "string \<Rightarrow> nat \<Rightarrow> ctx_inner \<Rightarrow> nat" where
  "cancelled_below name subscription_index c =
     length (filter (\<lambda>(_, n, idx). n = name \<and> idx < subscription_index \<and>
         list_ex (\<lambda>(sid, n', i). n' = name \<and> i = idx \<and>
                    sid \<in> cx_external_cancelled_subscriptions c) (cx_external_subscriptions c))
       (cx_external_subscriptions c))"

definition get_external_event :: "id64 \<Rightarrow> ctx_inner \<Rightarrow> string option" where
  "get_external_event schedule_id c =
     (case map_of (cx_external_subscriptions c) schedule_id of
        None \<Rightarrow> None
      | Some (name, subscription_index) \<Rightarrow>
          if schedule_id \<in> cx_external_cancelled_subscriptions c then None
          else (case cx_external_arrivals c name of
                  None \<Rightarrow> None
                | Some arrivals \<Rightarrow>
                    nth_opt arrivals (subscription_index - cancelled_below name subscription_index c)))"

definition mark_external_subscription_cancelled :: "id64 \<Rightarrow> ctx_inner \<Rightarrow> ctx_inner" where
  "mark_external_subscription_cancelled schedule_id c =
     c\<lparr>cx_external_cancelled_subscriptions :=
         insert schedule_id (cx_external_cancelled_subscriptions c)\<rparr>"

subsection \<open>Queue (persistent) events\<close>

definition bind_queue_subscription :: "id64 \<Rightarrow> string \<Rightarrow> ctx_inner \<Rightarrow> ctx_inner" where
  "bind_queue_subscription schedule_id name c =
     c\<lparr>cx_queue_subscriptions := cx_queue_subscriptions c @ [(schedule_id, name)]\<rparr>"

definition deliver_queue_message :: "string \<Rightarrow> string \<Rightarrow> ctx_inner \<Rightarrow> ctx_inner" where
  "deliver_queue_message name data c =
     c\<lparr>cx_queue_arrivals :=
         (cx_queue_arrivals c)(name \<mapsto> opt_or (cx_queue_arrivals c name) [] @ [data])\<rparr>"

definition mark_queue_subscription_cancelled :: "id64 \<Rightarrow> ctx_inner \<Rightarrow> ctx_inner" where
  "mark_queue_subscription_cancelled schedule_id c =
     c\<lparr>cx_queue_cancelled_subscriptions := insert schedule_id (cx_queue_cancelled_subscriptions c)\<rparr>"

text \<open>The arrival index of \<open>get_queue_message\<close>: active subscriptions of this name made before.\<close>

definition queue_arrival_index :: "id64 \<Rightarrow> string \<Rightarrow> ctx_inner \<Rightarrow> nat" where
  "queue_arrival_index schedule_id name c =
     length (filter (\<lambda>(sid, n). n = name \<and> sid \<notin> cx_queue_cancelled_subscriptions c)
       (takeWhile (\<lambda>(sid, _). sid \<noteq> schedule_id) (cx_queue_subscriptions c)))"

definition get_queue_message :: "id64 \<Rightarrow> ctx_inner \<Rightarrow> string option \<times> ctx_inner" where
  "get_queue_message schedule_id c =
     (case map_option snd (List.find (\<lambda>(sid, _). sid = schedule_id) (cx_queue_subscriptions c)) of
        None \<Rightarrow> (None, c)
      | Some name \<Rightarrow>
          if schedule_id \<in> cx_queue_resolved_subscriptions c then (None, c)
          else if schedule_id \<in> cx_queue_cancelled_subscriptions c then (None, c)
          else (case cx_queue_arrivals c name of
                  None \<Rightarrow> (None, c)
                | Some arrivals \<Rightarrow>
                    let arrival_index = queue_arrival_index schedule_id name c
                    in if arrival_index < length arrivals
                       then (Some (arrivals ! arrival_index),
                             c\<lparr>cx_queue_resolved_subscriptions :=
                                 insert schedule_id (cx_queue_resolved_subscriptions c)\<rparr>)
                       else (None, c)))"

subsection \<open>Cancellation of dropped futures\<close>

definition mark_token_cancelled :: "id64 \<Rightarrow> schedule_kind \<Rightarrow> ctx_inner \<Rightarrow> ctx_inner" where
  "mark_token_cancelled token kind c =
     c\<lparr>cx_cancelled_tokens :=
         (if token \<in> set (cx_cancelled_tokens c) then cx_cancelled_tokens c
          else cx_cancelled_tokens c @ [token]),
       cx_cancelled_token_kinds := (cx_cancelled_token_kinds c)(token \<mapsto> kind)\<rparr>"

text \<open>The loop the three \<open>get_cancelled_*_ids\<close> share: cancelled tokens of one kind that are bound.\<close>

definition cancelled_ids_of :: "(schedule_kind \<Rightarrow> bool) \<Rightarrow> ctx_inner \<Rightarrow> id64 list" where
  "cancelled_ids_of is_kind c =
     List.map_filter (\<lambda>token.
       case cx_cancelled_token_kinds c token of
         Some kind \<Rightarrow> if is_kind kind then cx_token_bindings c token else None
       | None \<Rightarrow> None) (cx_cancelled_tokens c)"

fun is_activity_kind :: "schedule_kind \<Rightarrow> bool" where
  "is_activity_kind (SK_Activity _) = True" | "is_activity_kind _ = False"

fun is_external_wait_kind :: "schedule_kind \<Rightarrow> bool" where
  "is_external_wait_kind (SK_ExternalWait _) = True" | "is_external_wait_kind _ = False"

fun is_queue_dequeue_kind :: "schedule_kind \<Rightarrow> bool" where
  "is_queue_dequeue_kind (SK_QueueDequeue _) = True" | "is_queue_dequeue_kind _ = False"

definition get_cancelled_queue_ids :: "ctx_inner \<Rightarrow> id64 list" where
  "get_cancelled_queue_ids c = cancelled_ids_of is_queue_dequeue_kind c"

definition get_cancelled_activity_ids :: "ctx_inner \<Rightarrow> id64 list" where
  "get_cancelled_activity_ids c = cancelled_ids_of is_activity_kind c"

definition get_cancelled_external_wait_ids :: "ctx_inner \<Rightarrow> id64 list" where
  "get_cancelled_external_wait_ids c = cancelled_ids_of is_external_wait_kind c"

definition get_cancelled_sub_orchestration_cancellations ::
    "ctx_inner \<Rightarrow> (id64 \<times> string) list" where
  "get_cancelled_sub_orchestration_cancellations c =
     List.map_filter (\<lambda>token.
       case cx_cancelled_token_kinds c token of
         Some (SK_SubOrchestration sub_token) \<Rightarrow>
           (case cx_token_bindings c token of
              Some schedule_id \<Rightarrow>
                map_option (\<lambda>inst. (schedule_id, inst)) (cx_sub_orchestration_instances c sub_token)
            | None \<Rightarrow> None)
       | _ \<Rightarrow> None) (cx_cancelled_tokens c)"

definition bind_sub_orchestration_instance :: "id64 \<Rightarrow> string \<Rightarrow> ctx_inner \<Rightarrow> ctx_inner" where
  "bind_sub_orchestration_instance token inst c =
     c\<lparr>cx_sub_orchestration_instances := (cx_sub_orchestration_instances c)(token \<mapsto> inst)\<rparr>"

definition clear_cancelled_tokens :: "ctx_inner \<Rightarrow> ctx_inner" where
  "clear_cancelled_tokens c = c\<lparr>cx_cancelled_tokens := [], cx_cancelled_token_kinds := Map.empty\<rparr>"

subsection \<open>Matching arrivals to subscriptions\<close>

text \<open>
  The contract the two kinds of external waits share: the active (not cancelled) subscriptions to
  a name, in subscription order, are served by the arrivals for that name, in arrival order, the
  k-th by the k-th. \<open>waiting\<close> says that the subscription has not consumed its arrival yet.
\<close>

locale arrival_matching =
  fixes inv :: "'c \<Rightarrow> bool"
    and active :: "string \<Rightarrow> 'c \<Rightarrow> id64 list"
    and waiting :: "id64 \<Rightarrow> 'c \<Rightarrow> bool"
    and arrivals :: "string \<Rightarrow> 'c \<Rightarrow> string list"
    and get :: "id64 \<Rightarrow> 'c \<Rightarrow> string option"
  assumes active_distinct: "inv c \<Longrightarrow> distinct (active n c)"
    and get_active: "inv c \<Longrightarrow> i < length (active n c) \<Longrightarrow> waiting (active n c ! i) c \<Longrightarrow>
      get (active n c ! i) c = nth_opt (arrivals n c) i"
begin

lemma served_in_order:
  assumes "inv c" and "i \<le> j" and "j < length (active n c)"
    and "waiting (active n c ! i) c" and "waiting (active n c ! j) c"
    and "get (active n c ! j) c = Some d"
  shows "d = arrivals n c ! j \<and> get (active n c ! i) c = Some (arrivals n c ! i)"
  using assms get_active [of c j n] get_active [of c i n]
  by (auto simp: nth_opt_def split: if_splits)

lemma not_served:
  assumes "inv c" and "j < length (active n c)" and "waiting (active n c ! j) c"
  shows "get (active n c ! j) c = None \<longleftrightarrow> length (arrivals n c) \<le> j"
  using assms by (simp add: get_active nth_opt_def)

end


subsection \<open>Queue events match in strict FIFO order\<close>

text \<open>The schedule ids of queue subscriptions are event ids, so they are distinct.\<close>

definition queue_wf :: "ctx_inner \<Rightarrow> bool" where
  "queue_wf c \<longleftrightarrow> distinct (map fst (cx_queue_subscriptions c))"

definition active_queue_subs :: "string \<Rightarrow> ctx_inner \<Rightarrow> id64 list" where
  "active_queue_subs name c = map fst (filter (\<lambda>(sid, n).
     n = name \<and> sid \<notin> cx_queue_cancelled_subscriptions c) (cx_queue_subscriptions c))"

definition queue_waiting :: "id64 \<Rightarrow> ctx_inner \<Rightarrow> bool" where
  "queue_waiting sid c \<longleftrightarrow> sid \<notin> cx_queue_resolved_subscriptions c"

definition queue_arrivals_of :: "string \<Rightarrow> ctx_inner \<Rightarrow> string list" where
  "queue_arrivals_of name c = opt_or (cx_queue_arrivals c name) []"

lemma get_queue_active:
  assumes wf: "queue_wf c" and j: "j < length (active_queue_subs n c)"
    and w: "queue_waiting (active_queue_subs n c ! j) c"
  shows "fst (get_queue_message (active_queue_subs n c ! j) c) = nth_opt (queue_arrivals_of n c) j"
proof -
  let ?P = "\<lambda>(sid, m). m = n \<and> sid \<notin> cx_queue_cancelled_subscriptions c"
  let ?xs = "cx_queue_subscriptions c"
  from j have "j < length (filter ?P ?xs)" by (simp add: active_queue_subs_def)
  then obtain i where i: "i < length ?xs" "?P (?xs ! i)" "filter ?P ?xs ! j = ?xs ! i"
    "j = length (filter ?P (take i ?xs))" by (rule filter_nth_origin)
  define s where "s = fst (?xs ! i)"
  have sj: "active_queue_subs n c ! j = s"
    using j i(3) by (simp add: active_queue_subs_def s_def)
  have sn: "?xs ! i = (s, n)" and sc: "s \<notin> cx_queue_cancelled_subscriptions c"
    using i(2) by (auto simp: s_def split: prod.splits)
  have tw: "takeWhile (\<lambda>p. fst p \<noteq> s) ?xs = take i ?xs"
    unfolding s_def using wf i(1) by (intro takeWhile_neq_take) (simp_all add: queue_wf_def)
  have fd: "List.find (\<lambda>p. fst p = s) ?xs = Some (s, n)"
    using find_distinct_fst [of ?xs i] wf i(1) sn by (simp add: queue_wf_def)
  have ix: "queue_arrival_index s n c = j"
    using tw i(4) by (simp add: queue_arrival_index_def case_prod_unfold)
  show ?thesis
    using w sc fd
    by (simp add: sj get_queue_message_def queue_waiting_def ix queue_arrivals_of_def nth_opt_def
        case_prod_unfold Let_def split: option.splits)
qed

lemma active_queue_distinct: "queue_wf c \<Longrightarrow> distinct (active_queue_subs n c)"
  by (simp add: queue_wf_def active_queue_subs_def distinct_map_filter)

interpretation queue_events: arrival_matching
  queue_wf active_queue_subs queue_waiting queue_arrivals_of "\<lambda>s c. fst (get_queue_message s c)"
  by unfold_locales (simp_all add: active_queue_distinct get_queue_active)

subsection \<open>Positional external events match by compressed index\<close>

text \<open>
  The raw indices of the subscriptions to one name are \<open>0, 1, 2, ...\<close> in subscription order, and
  \<open>external_next_index\<close> is the next one; binding keeps this (\<open>bind_external_wf\<close>).
\<close>

definition external_subs_named :: "string \<Rightarrow> ctx_inner \<Rightarrow> (id64 \<times> string \<times> nat) list" where
  "external_subs_named name c = filter (\<lambda>(_, n, _). n = name) (cx_external_subscriptions c)"

definition external_wf :: "ctx_inner \<Rightarrow> bool" where
  "external_wf c \<longleftrightarrow> distinct (map fst (cx_external_subscriptions c)) \<and>
     (\<forall>name. map (\<lambda>(_, _, idx). idx) (external_subs_named name c)
             = [0..<opt_or (cx_external_next_index c name) 0])"

definition active_external_subs :: "string \<Rightarrow> ctx_inner \<Rightarrow> id64 list" where
  "active_external_subs name c = map fst (filter (\<lambda>(sid, _).
     sid \<notin> cx_external_cancelled_subscriptions c) (external_subs_named name c))"

definition external_waiting :: "id64 \<Rightarrow> ctx_inner \<Rightarrow> bool" where
  "external_waiting sid c \<longleftrightarrow> True"

definition external_arrivals_of :: "string \<Rightarrow> ctx_inner \<Rightarrow> string list" where
  "external_arrivals_of name c = opt_or (cx_external_arrivals c name) []"

lemma external_subs_named_nth:
  assumes "external_wf c" and "i < length (external_subs_named n c)"
  shows "\<exists>s. external_subs_named n c ! i = (s, n, i)"
proof -
  obtain s m idx where e: "external_subs_named n c ! i = (s, m, idx)" by (cases "external_subs_named n c ! i")
  have "m = n"
    using nth_mem [OF assms(2)] e by (auto simp: external_subs_named_def)
  moreover have "idx = i"
  proof -
    have "map (\<lambda>(_, _, idx). idx) (external_subs_named n c) ! i = i"
      using assms by (metis (no_types, lifting) add_0 external_wf_def length_map nth_upt length_upt diff_zero)
    with e assms(2) show ?thesis by simp
  qed
  ultimately show ?thesis using e by simp
qed


lemma external_named_cancelled:
  assumes wf: "external_wf c" and p: "p < length (external_subs_named n c)"
  shows "list_ex (\<lambda>(sid, n', i). n' = n \<and> i = p \<and> sid \<in> cx_external_cancelled_subscriptions c)
           (cx_external_subscriptions c)
         \<longleftrightarrow> fst (external_subs_named n c ! p) \<in> cx_external_cancelled_subscriptions c"
    (is "?L \<longleftrightarrow> ?R")
proof
  assume ?L
  then obtain s where s: "(s, n, p) \<in> set (external_subs_named n c)"
    "s \<in> cx_external_cancelled_subscriptions c"
    by (auto simp: list_ex_iff external_subs_named_def)
  then obtain q where q: "q < length (external_subs_named n c)" "external_subs_named n c ! q = (s, n, p)"
    by (auto simp: in_set_conv_nth)
  with external_subs_named_nth [OF wf q(1)] have "q = p" by auto
  with q s show ?R by simp
next
  assume ?R
  moreover obtain s where s: "external_subs_named n c ! p = (s, n, p)"
    using external_subs_named_nth [OF wf p] by blast
  moreover from nth_mem [OF p] s have "(s, n, p) \<in> set (cx_external_subscriptions c)"
    by (simp add: external_subs_named_def)
  ultimately show ?L by (force simp: list_ex_iff)
qed

lemma cancelled_below_take:
  assumes wf: "external_wf c" and i: "i \<le> length (external_subs_named n c)"
  shows "cancelled_below n i c =
    length (filter (\<lambda>e. fst e \<in> cx_external_cancelled_subscriptions c) (take i (external_subs_named n c)))"
proof -
  let ?L = "external_subs_named n c" and ?C = "cx_external_cancelled_subscriptions c"
  define Q :: "id64 \<times> string \<times> nat \<Rightarrow> bool" where "Q = (\<lambda>e. snd (snd e) < i \<and>
     list_ex (\<lambda>(sid, n', k). n' = n \<and> k = snd (snd e) \<and> sid \<in> ?C) (cx_external_subscriptions c))"
  have at: "Q (?L ! p) \<longleftrightarrow> p < i \<and> fst (?L ! p) \<in> ?C" if "p < length ?L" for p
    using external_named_cancelled [OF wf that] external_subs_named_nth [OF wf that]
    by (auto simp: Q_def)
  have "cancelled_below n i c = length (filter Q ?L)"
    unfolding cancelled_below_def external_subs_named_def filter_filter Q_def
    by (rule arg_cong [where f = length], rule filter_cong) (auto split: prod.splits)
  also have "filter Q ?L = filter Q (take i ?L) @ filter Q (drop i ?L)"
    by (metis append_take_drop_id filter_append)
  also have "filter Q (drop i ?L) = []"
  proof -
    have "\<not> Q e" if "e \<in> set (drop i ?L)" for e
    proof -
      from that obtain k where k: "k < length ?L - i" "e = ?L ! (i + k)"
        by (auto simp: in_set_conv_nth)
      then have "i + k < length ?L" by simp
      with at [of "i + k"] k(2) show ?thesis by simp
    qed
    then show ?thesis by (simp add: filter_empty_conv)
  qed
  also have "filter Q (take i ?L) = filter (\<lambda>e. fst e \<in> ?C) (take i ?L)"
  proof (rule filter_cong [OF refl])
    fix e assume "e \<in> set (take i ?L)"
    then obtain k where "k < i" "k < length ?L" "e = ?L ! k" by (auto simp: in_set_conv_nth)
    with at [of k] show "Q e \<longleftrightarrow> fst e \<in> ?C" by simp
  qed
  finally show ?thesis by simp
qed

lemma get_external_active:
  assumes wf: "external_wf c" and j: "j < length (active_external_subs n c)"
  shows "get_external_event (active_external_subs n c ! j) c = nth_opt (external_arrivals_of n c) j"
proof -
  let ?L = "external_subs_named n c" and ?C = "cx_external_cancelled_subscriptions c"
  let ?P = "\<lambda>e. fst e \<notin> ?C"
  have act: "active_external_subs n c = map fst (filter ?P ?L)"
    by (simp add: active_external_subs_def case_prod_unfold)
  from j have "j < length (filter ?P ?L)" by (simp add: act)
  then obtain i where i: "i < length ?L" "?P (?L ! i)" "filter ?P ?L ! j = ?L ! i"
    "j = length (filter ?P (take i ?L))" by (rule filter_nth_origin)
  obtain s where s: "?L ! i = (s, n, i)" using external_subs_named_nth [OF wf i(1)] by blast
  have sj: "active_external_subs n c ! j = s" using j i(3) s by (simp add: act)
  have "(s, n, i) \<in> set (cx_external_subscriptions c)"
    using nth_mem [OF i(1)] s by (simp add: external_subs_named_def)
  then have m: "map_of (cx_external_subscriptions c) s = Some (n, i)"
    using wf by (simp add: external_wf_def)
  have "i = length (filter ?P (take i ?L)) + length (filter (\<lambda>e. \<not> ?P e) (take i ?L))"
    using i(1) sum_length_filter_compl [of ?P "take i ?L"] by simp
  then have "i - cancelled_below n i c = j"
    using cancelled_below_take [OF wf, of i n] i(1,4) by simp
  with m i(2) s show ?thesis
    by (simp add: sj get_external_event_def external_arrivals_of_def nth_opt_def split: option.splits)
qed

lemma external_index_no_underflow:
  assumes "external_wf c" and "i \<le> length (external_subs_named n c)"
  shows "cancelled_below n i c \<le> i"
  using cancelled_below_take [OF assms] assms(2)
  by (metis (no_types, lifting) length_filter_le length_take min.absorb2)

lemma active_external_distinct: "external_wf c \<Longrightarrow> distinct (active_external_subs n c)"
  by (simp add: external_wf_def active_external_subs_def external_subs_named_def distinct_map_filter)

interpretation external_events: arrival_matching
  external_wf active_external_subs external_waiting external_arrivals_of get_external_event
  by unfold_locales (simp_all add: active_external_distinct get_external_active)

lemma slot_iff_active:
  "external_wf c \<Longrightarrow> has_pending_subscription_slot n c \<longleftrightarrow>
     length (external_arrivals_of n c) < length (active_external_subs n c)"
  by (auto simp: has_pending_subscription_slot_def external_arrivals_of_def active_external_subs_def
      external_subs_named_def case_prod_unfold conj_commute Let_def split: option.splits)

lemma bind_external_wf:
  assumes wf: "external_wf c" and fresh: "sid \<notin> fst ` set (cx_external_subscriptions c)"
  shows "external_wf (bind_external_subscription sid n c)"
proof -
  have "AList.update sid v al = al @ [(sid, v)]" if "sid \<notin> fst ` set al" for v and al :: "(id64 \<times> string \<times> nat) list"
    using that by (induction al) auto
  with wf fresh show ?thesis
    by (auto simp: external_wf_def bind_external_subscription_def external_subs_named_def Let_def)
qed



subsection \<open>Token bindings\<close>

text \<open>\<open>token_bindings\<close> and \<open>schedule_bindings\<close> are inverse to each other.\<close>

definition bindings_wf :: "ctx_inner \<Rightarrow> bool" where
  "bindings_wf c \<longleftrightarrow>
     (\<forall>t s. cx_token_bindings c t = Some s \<longleftrightarrow> cx_schedule_bindings c s = Some t)"

lemma bind_token_wf:
  assumes "bindings_wf c" and "cx_schedule_bindings c s = None"
  shows "bindings_wf (bind_token t s c)"
  using assms unfolding bindings_wf_def bind_token_def Let_def
  by (auto split: option.splits) (metis option.inject option.distinct(1))+

lemma bind_token_frame:
  "cx_completion_results (bind_token t s c) = cx_completion_results c"
  "cx_token_wakers (bind_token t s c) = cx_token_wakers c"
  by (simp_all add: bind_token_def Let_def)

text \<open>A completion reaches exactly the future it belongs to: after a token is bound to a schedule
  event, delivering a result for that event makes it the token's result, takes its waker (the
  engine is told to wake when the future had registered one) and leaves every other token's
  result alone.\<close>

theorem completion_reaches_its_future:
  "get_result token (snd (deliver_result schedule_id r (bind_token token schedule_id c))) = Some r
   \<and> (t \<noteq> token \<longrightarrow>
        get_result t (snd (deliver_result schedule_id r (bind_token token schedule_id c)))
          = get_result t c)
   \<and> (fst (deliver_result schedule_id r (bind_token token schedule_id c))
        \<longleftrightarrow> token \<in> cx_token_wakers c)"
  by (simp add: deliver_result_def get_result_def bind_token_def Let_def)

theorem completion_reaches_its_future_witness:
  "get_result 2 (snd (deliver_result 7 (CR_ActivityOk ''r'')
     (bind_token 1 7 (ctx_new 1 ''i'' ''o'' ''1.0.0'')))) = None"
  using completion_reaches_its_future
    [of 1 7 "CR_ActivityOk ''r''" "ctx_new 1 ''i'' ''o'' ''1.0.0''" 2]
  by (simp add: get_result_def ctx_new_def)

text \<open>Queue events are matched strictly first in, first out: when the j-th active subscription to
  a queue gets a message, it is the j-th message that arrived, and every earlier active
  subscription that is still waiting is offered exactly the message of its own position; none is
  skipped and none is shared.\<close>

theorem queue_fifo:
  assumes "queue_wf c" and "i \<le> j" and "j < length (active_queue_subs n c)"
    and "queue_waiting (active_queue_subs n c ! i) c"
    and "queue_waiting (active_queue_subs n c ! j) c"
    and "fst (get_queue_message (active_queue_subs n c ! j) c) = Some d"
  shows "d = queue_arrivals_of n c ! j
    \<and> fst (get_queue_message (active_queue_subs n c ! i) c) = Some (queue_arrivals_of n c ! i)"
  using assms by (rule queue_events.served_in_order)

definition queue_sample :: ctx_inner where
  "queue_sample = deliver_queue_message ''q'' ''m1'' (deliver_queue_message ''q'' ''m0''
     (bind_queue_subscription 5 ''q'' (bind_queue_subscription 4 ''p''
       (bind_queue_subscription 3 ''q'' (ctx_new 1 ''i'' ''o'' ''1.0.0'')))))"

theorem queue_fifo_witness:
  "fst (get_queue_message 3 queue_sample) = Some ''m0''"
  using queue_fifo [of queue_sample 0 1 "''q''" "''m1''"]
  by (simp add: queue_sample_def queue_wf_def queue_waiting_def active_queue_subs_def ctx_new_def
      bind_queue_subscription_def deliver_queue_message_def get_queue_message_def
      queue_arrivals_of_def queue_arrival_index_def)

text \<open>Positional external events: when the j-th active subscription to a name resolves, its data
  is the j-th event that was accepted for that name and every earlier active subscription has
  its own event; cancelled subscriptions occupy no position. The index computation of
  \<open>get_external_event\<close> (raw index minus the number of cancelled subscriptions below it) is
  exactly this position.\<close>

theorem external_positional:
  assumes "external_wf c" and "i \<le> j" and "j < length (active_external_subs n c)"
    and "get_external_event (active_external_subs n c ! j) c = Some d"
  shows "d = external_arrivals_of n c ! j
    \<and> get_external_event (active_external_subs n c ! i) c = Some (external_arrivals_of n c ! i)"
  using assms by (intro external_events.served_in_order) (simp_all add: external_waiting_def)

definition external_sample :: ctx_inner where
  "external_sample = deliver_external_event ''e'' ''d1'' (deliver_external_event ''e'' ''d0''
     (mark_external_subscription_cancelled 3
       (bind_external_subscription 5 ''e'' (bind_external_subscription 4 ''e''
         (bind_external_subscription 3 ''e'' (ctx_new 1 ''i'' ''o'' ''1.0.0''))))))"

lemma external_sample_wf: "external_wf external_sample"
  by (simp add: external_sample_def external_wf_def external_subs_named_def ctx_new_def Let_def
      bind_external_subscription_def deliver_external_event_def
      mark_external_subscription_cancelled_def upt_rec)

theorem external_positional_witness: "get_external_event 4 external_sample = Some ''d0''"
  using external_positional [OF external_sample_wf, of 0 1 "''e''" "''d1''"]
  by (simp add: external_sample_def active_external_subs_def external_subs_named_def ctx_new_def
      Let_def bind_external_subscription_def deliver_external_event_def external_arrivals_of_def
      mark_external_subscription_cancelled_def get_external_event_def cancelled_below_def nth_opt_def)

text \<open>A subscription that is cancelled after a later one on the same queue has consumed its
  message shifts the positions of the subscriptions that follow: here subscriptions 3 and 4 wait
  on one queue, 4 takes the second message, 3 is dropped, and the next subscription 5 is served
  the second message again while the first is never delivered.\<close>

theorem queue_cancel_redelivers:
  "let c0 = deliver_queue_message ''q'' ''m1'' (deliver_queue_message ''q'' ''m0''
              (bind_queue_subscription 4 ''q'' (bind_queue_subscription 3 ''q''
                (ctx_new 1 ''i'' ''o'' ''1.0.0''))));
       (d4, c1) = get_queue_message 4 c0;
       c2 = bind_queue_subscription 5 ''q'' (mark_queue_subscription_cancelled 3 c1);
       (d5, c3) = get_queue_message 5 c2
   in d4 = Some ''m1'' \<and> d5 = Some ''m1''"
  by (simp add: ctx_new_def bind_queue_subscription_def deliver_queue_message_def
      get_queue_message_def queue_arrival_index_def mark_queue_subscription_cancelled_def)

end
