(* ===== verification/Replay_Prep.thy ===== *)
theory Replay_Prep
  imports Ctx_Inner
begin

text \<open>
  The state of \<open>ReplayEngine\<close> (\<open>src/src/runtime/replay_engine.rs\<close>) and its first stage,
  \<open>prep_completions\<close>: the messages of a batch become history events, after filtering by execution,
  removing duplicates and checking that each completion has a matching schedule event.
\<close>

record replay_engine =
  re_instance :: string
  re_execution_id :: id64
  re_history_delta :: "event list"
  re_pending_actions :: "action list"
  re_cancelled_activity_ids :: "id64 list"
  re_cancelled_sub_orchestration_ids :: "string list"
  re_baseline_history :: "event list"
  re_next_event_id :: id64
  re_abort_error :: "error_details option"
  re_persisted_history_len :: nat
  re_kv_snapshot :: "(string \<times> kv_entry) list"

definition engine_new :: "string \<Rightarrow> id64 \<Rightarrow> event list \<Rightarrow> replay_engine" where
  "engine_new inst execution_id baseline_history =
     \<lparr>re_instance = inst,
      re_execution_id = execution_id,
      re_history_delta = [],
      re_pending_actions = [],
      re_cancelled_activity_ids = [],
      re_cancelled_sub_orchestration_ids = [],
      re_baseline_history = baseline_history,
      re_next_event_id = (if baseline_history = [] then 1 else ev_event_id (last baseline_history) + 1),
      re_abort_error = None,
      re_persisted_history_len = length baseline_history,
      re_kv_snapshot = []\<rparr>"

definition with_persisted_history_len :: "nat \<Rightarrow> replay_engine \<Rightarrow> replay_engine" where
  "with_persisted_history_len n e = e\<lparr>re_persisted_history_len := n\<rparr>"

definition with_kv_snapshot :: "(string \<times> kv_entry) list \<Rightarrow> replay_engine \<Rightarrow> replay_engine" where
  "with_kv_snapshot snapshot e = e\<lparr>re_kv_snapshot := snapshot\<rparr>"

text \<open>\<open>baseline_history.iter().chain(history_delta.iter())\<close>.\<close>

definition engine_history :: "replay_engine \<Rightarrow> event list" where
  "engine_history e = re_baseline_history e @ re_history_delta e"

definition nondeterminism_error :: "string \<Rightarrow> error_details" where
  "nondeterminism_error msg = Configuration Nondeterminism [] (Some msg)"

subsection \<open>Filtering\<close>

fun is_completion_for_current_execution :: "replay_engine \<Rightarrow> work_item \<Rightarrow> bool" where
  "is_completion_for_current_execution e (WI_ActivityCompleted _ x _ _) = (x = re_execution_id e)"
| "is_completion_for_current_execution e (WI_ActivityFailed _ x _ _) = (x = re_execution_id e)"
| "is_completion_for_current_execution e (WI_TimerFired _ x _ _) = (x = re_execution_id e)"
| "is_completion_for_current_execution e (WI_SubOrchCompleted _ x _ _) = (x = re_execution_id e)"
| "is_completion_for_current_execution e (WI_SubOrchFailed _ x _ _) = (x = re_execution_id e)"
| "is_completion_for_current_execution e (WI_ExternalRaised _ _ _) = True"
| "is_completion_for_current_execution e (WI_QueueMessage _ _ _) = True"
| "is_completion_for_current_execution e (WI_CancelInstance _ _) = True"
| "is_completion_for_current_execution e _ = False"

fun is_activity_completed :: "event_kind \<Rightarrow> bool" where
  "is_activity_completed (ActivityCompleted _) = True" | "is_activity_completed _ = False"

fun is_activity_failed :: "event_kind \<Rightarrow> bool" where
  "is_activity_failed (ActivityFailed _) = True" | "is_activity_failed _ = False"

fun is_timer_fired :: "event_kind \<Rightarrow> bool" where
  "is_timer_fired (TimerFired _) = True" | "is_timer_fired _ = False"

fun is_sub_orch_completed :: "event_kind \<Rightarrow> bool" where
  "is_sub_orch_completed (SubOrchestrationCompleted _) = True" | "is_sub_orch_completed _ = False"

fun is_sub_orch_failed :: "event_kind \<Rightarrow> bool" where
  "is_sub_orch_failed (SubOrchestrationFailed _) = True" | "is_sub_orch_failed _ = False"

fun is_cancel_requested :: "event_kind \<Rightarrow> bool" where
  "is_cancel_requested (OrchestrationCancelRequested _) = True" | "is_cancel_requested _ = False"

fun is_completed_or_failed :: "event_kind \<Rightarrow> bool" where
  "is_completed_or_failed (OrchestrationCompleted _) = True"
| "is_completed_or_failed (OrchestrationFailed _) = True"
| "is_completed_or_failed _ = False"

text \<open>\<open>events.iter().any(|e| e.source_event_id == Some(id) && matches!(e.kind, ..))\<close>.\<close>

definition has_event_for :: "(event_kind \<Rightarrow> bool) \<Rightarrow> id64 \<Rightarrow> event list \<Rightarrow> bool" where
  "has_event_for P i es = list_ex (\<lambda>ev. ev_source_event_id ev = Some i \<and> P (ev_kind ev)) es"

text \<open>The source has no case for \<open>ActivityFailed\<close> here; it falls under the final \<open>_ => false\<close>.\<close>

fun is_completion_already_in_history :: "replay_engine \<Rightarrow> work_item \<Rightarrow> bool" where
  "is_completion_already_in_history e (WI_ActivityCompleted _ _ i _) =
     has_event_for is_activity_completed i (re_baseline_history e)"
| "is_completion_already_in_history e (WI_TimerFired _ _ i _) =
     has_event_for is_timer_fired i (re_baseline_history e)"
| "is_completion_already_in_history e (WI_SubOrchCompleted _ _ i _) =
     has_event_for is_sub_orch_completed i (re_baseline_history e)"
| "is_completion_already_in_history e (WI_SubOrchFailed _ _ i _) =
     has_event_for is_sub_orch_failed i (re_baseline_history e)"
| "is_completion_already_in_history e _ = False"

definition is_activity_result :: "event_kind \<Rightarrow> bool" where
  "is_activity_result k \<longleftrightarrow> is_activity_completed k \<or> is_activity_failed k"

definition is_sub_orch_result :: "event_kind \<Rightarrow> bool" where
  "is_sub_orch_result k \<longleftrightarrow> is_sub_orch_completed k \<or> is_sub_orch_failed k"

fun already_in_delta :: "replay_engine \<Rightarrow> work_item \<Rightarrow> bool" where
  "already_in_delta e (WI_ActivityCompleted _ _ i _) =
     has_event_for is_activity_result i (re_history_delta e)"
| "already_in_delta e (WI_ActivityFailed _ _ i _) =
     has_event_for is_activity_result i (re_history_delta e)"
| "already_in_delta e (WI_TimerFired _ _ i _) = has_event_for is_timer_fired i (re_history_delta e)"
| "already_in_delta e (WI_SubOrchCompleted _ _ i _) =
     has_event_for is_sub_orch_result i (re_history_delta e)"
| "already_in_delta e (WI_SubOrchFailed _ _ i _) =
     has_event_for is_sub_orch_result i (re_history_delta e)"
| "already_in_delta e _ = False"

subsection \<open>Nondeterminism check\<close>

fun schedule_kind_name :: "event_kind \<Rightarrow> string option" where
  "schedule_kind_name (ActivityScheduled _ _ _ _) = Some ''activity''"
| "schedule_kind_name (TimerCreated _) = Some ''timer''"
| "schedule_kind_name (SubOrchestrationScheduled _ _ _) = Some ''suborchestration''"
| "schedule_kind_name _ = None"

text \<open>The closure \<open>schedule_kind\<close>: the first event with this id that is a schedule of some kind.\<close>

fun schedule_kind_in :: "event list \<Rightarrow> id64 \<Rightarrow> string option" where
  "schedule_kind_in [] i = None"
| "schedule_kind_in (ev # es) i =
     (if ev_event_id ev \<noteq> i then schedule_kind_in es i
      else case schedule_kind_name (ev_kind ev) of Some k \<Rightarrow> Some k | None \<Rightarrow> schedule_kind_in es i)"

definition quoted :: "string \<Rightarrow> string" where
  "quoted s = CHR 0x27 # s @ [CHR 0x27]"

definition check_schedule :: "event list \<Rightarrow> string \<Rightarrow> string \<Rightarrow> id64 \<Rightarrow> error_details option" where
  "check_schedule hist expected missing i =
     (case schedule_kind_in hist i of
        Some other \<Rightarrow>
          if other = expected then None
          else Some (nondeterminism_error (''completion kind mismatch for id='' @ show_nat i
                 @ '', expected '' @ quoted other @ '', got '' @ quoted expected))
      | None \<Rightarrow> Some (nondeterminism_error (missing @ show_nat i)))"

fun nd_error :: "replay_engine \<Rightarrow> work_item \<Rightarrow> error_details option" where
  "nd_error e (WI_ActivityCompleted _ _ i _) =
     check_schedule (engine_history e) ''activity'' ''no matching schedule for completion id='' i"
| "nd_error e (WI_ActivityFailed _ _ i _) =
     check_schedule (engine_history e) ''activity'' ''no matching schedule for completion id='' i"
| "nd_error e (WI_TimerFired _ _ i _) =
     check_schedule (engine_history e) ''timer'' ''no matching schedule for timer id='' i"
| "nd_error e (WI_SubOrchCompleted _ _ i _) =
     check_schedule (engine_history e) ''suborchestration''
       ''no matching schedule for sub-orchestration id='' i"
| "nd_error e (WI_SubOrchFailed _ _ i _) =
     check_schedule (engine_history e) ''suborchestration''
       ''no matching schedule for sub-orchestration id='' i"
| "nd_error e _ = None"

subsection \<open>Conversion\<close>

fun is_system_error :: "error_details \<Rightarrow> bool" where
  "is_system_error (Application _ _ _) = False"
| "is_system_error _ = True"

text \<open>The error a completion carries when it aborts the turn: a system error of an activity or child.\<close>

fun system_error_of :: "work_item \<Rightarrow> error_details option" where
  "system_error_of (WI_ActivityFailed _ _ _ d) = (if is_system_error d then Some d else None)"
| "system_error_of (WI_SubOrchFailed _ _ _ d) = (if is_system_error d then Some d else None)"
| "system_error_of _ = None"

definition already_terminated :: "replay_engine \<Rightarrow> bool" where
  "already_terminated e = list_ex (\<lambda>ev. is_completed_or_failed (ev_kind ev)) (re_baseline_history e)"

definition already_cancelled :: "replay_engine \<Rightarrow> bool" where
  "already_cancelled e = list_ex (\<lambda>ev. is_cancel_requested (ev_kind ev)) (engine_history e)"

fun completion_event :: "replay_engine \<Rightarrow> work_item \<Rightarrow> event option" where
  "completion_event e (WI_ActivityCompleted _ _ i result) =
     Some (event_new (re_instance e) (re_execution_id e) (Some i) (ActivityCompleted result))"
| "completion_event e (WI_ActivityFailed _ _ i details) =
     Some (event_new (re_instance e) (re_execution_id e) (Some i) (ActivityFailed details))"
| "completion_event e (WI_TimerFired _ _ i fire_at_ms) =
     Some (event_new (re_instance e) (re_execution_id e) (Some i) (TimerFired fire_at_ms))"
| "completion_event e (WI_ExternalRaised _ name data) =
     Some (event_new (re_instance e) (re_execution_id e) None (ExternalEvent name data))"
| "completion_event e (WI_QueueMessage _ name data) =
     Some (event_new (re_instance e) (re_execution_id e) None (QueueEventDelivered name data))"
| "completion_event e (WI_SubOrchCompleted _ _ i result) =
     Some (event_new (re_instance e) (re_execution_id e) (Some i) (SubOrchestrationCompleted result))"
| "completion_event e (WI_SubOrchFailed _ _ i details) =
     Some (event_new (re_instance e) (re_execution_id e) (Some i) (SubOrchestrationFailed details))"
| "completion_event e (WI_CancelInstance _ reason) =
     (if \<not> already_terminated e \<and> \<not> already_cancelled e
      then Some (event_new (re_instance e) (re_execution_id e) None (OrchestrationCancelRequested reason))
      else None)"
| "completion_event e _ = None"

text \<open>Assign the next event id and append to \<open>history_delta\<close>.\<close>

definition push_event :: "event \<Rightarrow> replay_engine \<Rightarrow> replay_engine" where
  "push_event ev e =
     e\<lparr>re_history_delta := re_history_delta e @ [set_event_id ev (re_next_event_id e)],
       re_next_event_id := re_next_event_id e + 1\<rparr>"

definition note_abort :: "error_details option \<Rightarrow> replay_engine \<Rightarrow> replay_engine" where
  "note_abort err e =
     (case err of Some d \<Rightarrow> if re_abort_error e = None then e\<lparr>re_abort_error := Some d\<rparr> else e
                | None \<Rightarrow> e)"

text \<open>One iteration of the loop; each \<open>continue\<close> of the source is a branch. Note that a
  nondeterminism error overwrites an earlier abort error, a system error does not.\<close>

definition prep_completion :: "work_item \<Rightarrow> replay_engine \<Rightarrow> replay_engine" where
  "prep_completion msg e =
     (if \<not> is_completion_for_current_execution e msg then e
      else if is_completion_already_in_history e msg then e
      else if already_in_delta e msg then e
      else case nd_error e msg of
             Some err \<Rightarrow> e\<lparr>re_abort_error := Some err\<rparr>
           | None \<Rightarrow>
               (let e' = note_abort (system_error_of msg) e
                in case completion_event e msg of
                     Some ev \<Rightarrow> push_event ev e'
                   | None \<Rightarrow> e'))"

definition prep_completions :: "work_item list \<Rightarrow> replay_engine \<Rightarrow> replay_engine" where
  "prep_completions messages e = fold prep_completion messages e"

end
