(* ===== verification/Replay_Engine.thy ===== *)
theory Replay_Engine
  imports Replay_Prep
begin

text \<open>
  The second stage of \<open>src/src/runtime/replay_engine.rs\<close>: matching the actions the orchestration
  emits against the history, delivering completions, turning new actions into events, the
  quiescence loop and the turn result.

  The user's orchestration is a parameter, the record \<open>handler\<close>: \<open>h_invoke\<close> makes the future (or
  panics) and \<open>h_poll\<close> polls it, reading and changing the context; its last component says whether
  the poll woke the engine's waker. \<open>None\<close> as the result of a definition below is a poll that never
  returns (a future that wakes itself forever without emitting an action).

  The Debug renderings the source appends to three kinds of nondeterminism messages are left out:
  the message is the constant part.
\<close>

datatype panic_payload = PP_Str string | PP_String string | PP_Other

datatype poll_outcome = PollReady "string + string" | PollPending | PollPanicked panic_payload

record 's handler =
  h_invoke :: "string \<Rightarrow> panic_payload + 's"
  h_poll :: "'s \<Rightarrow> ctx_inner \<Rightarrow> poll_outcome \<times> 's \<times> ctx_inner \<times> bool"

datatype turn_result =
    TR_Continue
  | TR_Completed string
  | TR_Failed error_details
  | TR_ContinueAsNew string "string option"
  | TR_Cancelled string

datatype action_kind =
    AK_Activity string string
  | AK_Timer millis
  | AK_External string
  | AK_Persistent string
  | AK_SubOrch string string string

text \<open>The local variables of \<open>execute_orchestration\<close>; \<open>rr_woken\<close> is \<open>ReplayWakeState\<close>.\<close>

record 's replay_run =
  rr_fut :: 's
  rr_ctx :: ctx_inner
  rr_emitted_actions :: "(id64 \<times> action) list"
  rr_open_schedules :: "id64 set"
  rr_schedule_kinds :: "id64 \<rightharpoonup> action_kind"
  rr_must_poll :: bool
  rr_woken :: bool

fun extract_panic_message :: "panic_payload \<Rightarrow> string" where
  "extract_panic_message (PP_Str s) = s"
| "extract_panic_message (PP_String s) = s"
| "extract_panic_message PP_Other = ''orchestration panicked''"

definition panicked :: "panic_payload \<Rightarrow> turn_result" where
  "panicked p = TR_Failed (Application AE_Panicked (extract_panic_message p) False)"

definition nondeterminism :: "string \<Rightarrow> turn_result" where
  "nondeterminism msg = TR_Failed (nondeterminism_error msg)"

subsection \<open>Actions and events\<close>

fun action_event_kind :: "action \<Rightarrow> event_kind option" where
  "action_event_kind (CallActivity _ name input session_id tag) =
     Some (ActivityScheduled name input session_id tag)"
| "action_event_kind (CreateTimer _ fire_at_ms) = Some (TimerCreated fire_at_ms)"
| "action_event_kind (WaitExternal _ name) = Some (ExternalSubscribed name)"
| "action_event_kind (DequeueEvent _ name) = Some (QueueSubscribed name)"
| "action_event_kind (StartSubOrchestration _ name _ sub_instance input) =
     Some (SubOrchestrationScheduled name sub_instance input)"
| "action_event_kind (StartOrchestrationDetached _ name _ inst input) =
     Some (OrchestrationChained name inst input)"
| "action_event_kind (ACT_ContinueAsNew _ _) = None"
| "action_event_kind (UpdateCustomStatus status) = Some (CustomStatusUpdated status)"
| "action_event_kind (SetKeyValue key v ts) = Some (KeyValueSet key v ts)"
| "action_event_kind (ClearKeyValue key) = Some (KeyValueCleared key)"
| "action_event_kind ACT_ClearKeyValues = Some KeyValuesCleared"

definition action_to_event :: "action \<Rightarrow> string \<Rightarrow> id64 \<Rightarrow> id64 \<Rightarrow> event option" where
  "action_to_event a inst execution_id event_id =
     map_option (with_event_id event_id inst execution_id None) (action_event_kind a)"

definition final_sub_instance :: "string \<Rightarrow> id64 \<Rightarrow> string" where
  "final_sub_instance inst event_id =
     (if starts_with inst SUB_ORCH_PENDING_PREFIX
      then SUB_ORCH_AUTO_PREFIX @ show_nat event_id else inst)"

fun update_action_event_id :: "action \<Rightarrow> id64 \<Rightarrow> action" where
  "update_action_event_id (CallActivity _ name input session_id tag) i =
     CallActivity i name input session_id tag"
| "update_action_event_id (CreateTimer _ fire_at_ms) i = CreateTimer i fire_at_ms"
| "update_action_event_id (WaitExternal _ name) i = WaitExternal i name"
| "update_action_event_id (DequeueEvent _ name) i = DequeueEvent i name"
| "update_action_event_id (StartSubOrchestration _ name version inst input) i =
     StartSubOrchestration i name version (final_sub_instance inst i) input"
| "update_action_event_id (StartOrchestrationDetached _ name version inst input) i =
     StartOrchestrationDetached i name version inst input"
| "update_action_event_id (ACT_ContinueAsNew input version) i = ACT_ContinueAsNew input version"
| "update_action_event_id (UpdateCustomStatus status) i = UpdateCustomStatus status"
| "update_action_event_id (SetKeyValue key v ts) i = SetKeyValue key v ts"
| "update_action_event_id (ClearKeyValue key) i = ClearKeyValue key"
| "update_action_event_id ACT_ClearKeyValues i = ACT_ClearKeyValues"

text \<open>Timers match by position, custom status by kind, key-value sets without the timestamp,
  sub-orchestrations without the instance id.\<close>

definition action_matches_event_kind :: "action \<Rightarrow> event_kind \<Rightarrow> bool" where
  "action_matches_event_kind a k =
     (case a of
        CallActivity _ name input session_id tag \<Rightarrow>
          (case k of ActivityScheduled en ei es et \<Rightarrow>
                       name = en \<and> input = ei \<and> session_id = es \<and> tag = et
                   | _ \<Rightarrow> False)
      | CreateTimer _ _ \<Rightarrow> (case k of TimerCreated _ \<Rightarrow> True | _ \<Rightarrow> False)
      | WaitExternal _ name \<Rightarrow> (case k of ExternalSubscribed en \<Rightarrow> name = en | _ \<Rightarrow> False)
      | DequeueEvent _ name \<Rightarrow> (case k of QueueSubscribed en \<Rightarrow> name = en | _ \<Rightarrow> False)
      | StartSubOrchestration _ name _ _ input \<Rightarrow>
          (case k of SubOrchestrationScheduled en _ ei \<Rightarrow> name = en \<and> input = ei | _ \<Rightarrow> False)
      | StartOrchestrationDetached _ name _ inst input \<Rightarrow>
          (case k of OrchestrationChained en ei inp \<Rightarrow> name = en \<and> inst = ei \<and> input = inp
                   | _ \<Rightarrow> False)
      | UpdateCustomStatus _ \<Rightarrow> (case k of CustomStatusUpdated _ \<Rightarrow> True | _ \<Rightarrow> False)
      | SetKeyValue key v _ \<Rightarrow> (case k of KeyValueSet ek ev _ \<Rightarrow> key = ek \<and> v = ev | _ \<Rightarrow> False)
      | ClearKeyValue key \<Rightarrow> (case k of KeyValueCleared ek \<Rightarrow> key = ek | _ \<Rightarrow> False)
      | ACT_ClearKeyValues \<Rightarrow> (case k of KeyValuesCleared \<Rightarrow> True | _ \<Rightarrow> False)
      | ACT_ContinueAsNew _ _ \<Rightarrow> False)"

subsection \<open>Polling the orchestration\<close>

definition after_poll ::
    "'s \<Rightarrow> ctx_inner \<Rightarrow> bool \<Rightarrow> 's replay_run \<Rightarrow> 's replay_run" where
  "after_poll fut ctx woken r =
     (let (acts, ctx') = drain_emitted_actions ctx
      in r\<lparr>rr_fut := fut, rr_ctx := ctx',
           rr_emitted_actions := rr_emitted_actions r @ acts, rr_woken := woken\<rparr>)"

partial_function (option) poll_orchestration_future ::
    "('s \<Rightarrow> ctx_inner \<Rightarrow> poll_outcome \<times> 's \<times> ctx_inner \<times> bool) \<Rightarrow> 's replay_run
       \<Rightarrow> ((turn_result + (string + string) option) \<times> 's replay_run) option" where
  "poll_orchestration_future poll r =
     (case poll (rr_fut r) (rr_ctx r) of
        (outcome, fut, ctx, woken) \<Rightarrow>
          (case outcome of
             PollReady result \<Rightarrow> Some (Inr (Some result), after_poll fut ctx woken r)
           | PollPending \<Rightarrow>
               if cx_emitted_actions ctx \<noteq> [] \<or> \<not> woken
               then Some (Inr None, after_poll fut ctx woken r)
               else poll_orchestration_future poll (after_poll fut ctx False r)
           | PollPanicked p \<Rightarrow>
               Some (Inl (panicked p), r\<lparr>rr_fut := fut, rr_ctx := ctx, rr_woken := woken\<rparr>)))"

declare poll_orchestration_future.simps [code]

subsection \<open>Applying one history event\<close>

text \<open>A front action, if there is one, must match the event and is consumed.\<close>

definition consume_matching_action ::
    "string \<Rightarrow> event \<Rightarrow> 's replay_run \<Rightarrow> turn_result + 's replay_run" where
  "consume_matching_action msg ev r =
     (case rr_emitted_actions r of
        [] \<Rightarrow> Inr r
      | (_, a) # rest \<Rightarrow>
          if action_matches_event_kind a (ev_kind ev) then Inr (r\<lparr>rr_emitted_actions := rest\<rparr>)
          else Inl (nondeterminism msg))"

definition apply_status_kv_event :: "event \<Rightarrow> 's replay_run \<Rightarrow> turn_result + 's replay_run" where
  "apply_status_kv_event ev r =
     (case ev_kind ev of
        OrchestrationStarted _ _ _ _ _ _ (Some status) \<Rightarrow>
          Inr (r\<lparr>rr_ctx := (rr_ctx r)\<lparr>cx_accumulated_custom_status := Some status\<rparr>\<rparr>)
      | CustomStatusUpdated _ \<Rightarrow> consume_matching_action ''custom status mismatch'' ev r
      | KeyValueSet _ _ _ \<Rightarrow> consume_matching_action ''kv set mismatch'' ev r
      | KeyValueCleared _ \<Rightarrow> consume_matching_action ''kv clear mismatch'' ev r
      | KeyValuesCleared \<Rightarrow> consume_matching_action ''kv clear_all mismatch'' ev r
      | _ \<Rightarrow> Inr r)"

definition match_and_bind_schedule ::
    "event \<Rightarrow> action_kind \<Rightarrow> 's replay_run \<Rightarrow> turn_result + (id64 \<times> 's replay_run)" where
  "match_and_bind_schedule ev expected_kind r =
     (case rr_emitted_actions r of
        [] \<Rightarrow> Inl (nondeterminism ''history schedule but no emitted action'')
      | (token, a) # rest \<Rightarrow>
          if \<not> action_matches_event_kind a (ev_kind ev) then Inl (nondeterminism ''schedule mismatch'')
          else Inr (token,
                 r\<lparr>rr_emitted_actions := rest,
                   rr_ctx := bind_token token (ev_event_id ev) (rr_ctx r),
                   rr_open_schedules := insert (ev_event_id ev) (rr_open_schedules r),
                   rr_schedule_kinds := (rr_schedule_kinds r)(ev_event_id ev \<mapsto> expected_kind)\<rparr>))"

definition apply_chained_event :: "event \<Rightarrow> 's replay_run \<Rightarrow> turn_result + 's replay_run" where
  "apply_chained_event ev r =
     (case rr_emitted_actions r of
        [] \<Rightarrow> Inl (nondeterminism ''history OrchestrationChained but no emitted action'')
      | (token, a) # rest \<Rightarrow>
          if \<not> action_matches_event_kind a (ev_kind ev) then Inl (nondeterminism ''schedule mismatch'')
          else Inr (r\<lparr>rr_emitted_actions := rest,
                      rr_ctx := bind_token token (ev_event_id ev) (rr_ctx r)\<rparr>))"

definition apply_schedule_event :: "event \<Rightarrow> 's replay_run \<Rightarrow> turn_result + 's replay_run" where
  "apply_schedule_event ev r =
     (case ev_kind ev of
        ActivityScheduled name inp _ _ \<Rightarrow>
          and_then (match_and_bind_schedule ev (AK_Activity name inp) r) (\<lambda>(_, r'). Inr r')
      | TimerCreated fire_at_ms \<Rightarrow>
          and_then (match_and_bind_schedule ev (AK_Timer fire_at_ms) r) (\<lambda>(_, r'). Inr r')
      | ExternalSubscribed name \<Rightarrow>
          and_then (match_and_bind_schedule ev (AK_External name) r) (\<lambda>(_, r').
            Inr (r'\<lparr>rr_ctx := bind_external_subscription (ev_event_id ev) name (rr_ctx r')\<rparr>))
      | QueueSubscribed name \<Rightarrow>
          and_then (match_and_bind_schedule ev (AK_Persistent name) r) (\<lambda>(_, r').
            Inr (r'\<lparr>rr_ctx := bind_queue_subscription (ev_event_id ev) name (rr_ctx r'),
                    rr_must_poll := True\<rparr>))
      | SubOrchestrationScheduled name inst inp \<Rightarrow>
          and_then (match_and_bind_schedule ev (AK_SubOrch name inst inp) r) (\<lambda>(token, r').
            Inr (r'\<lparr>rr_ctx := bind_sub_orchestration_instance token inst (rr_ctx r')\<rparr>))
      | OrchestrationChained _ _ _ \<Rightarrow> apply_chained_event ev r
      | _ \<Rightarrow> Inr r)"

text \<open>\<open>deliver_result\<close> on an open schedule, which it closes.\<close>

definition deliver_completion ::
    "event \<Rightarrow> (action_kind option \<Rightarrow> bool) \<Rightarrow> completion_result \<Rightarrow> 's replay_run
       \<Rightarrow> turn_result + 's replay_run" where
  "deliver_completion ev kind_ok result r =
     (case ev_source_event_id ev of
        None \<Rightarrow> Inr r
      | Some source_id \<Rightarrow>
          if source_id \<notin> rr_open_schedules r
          then Inl (nondeterminism ''completion without open schedule'')
          else if \<not> kind_ok (rr_schedule_kinds r source_id)
          then Inl (nondeterminism ''completion kind mismatch: expected activity'')
          else (let (wake, ctx') = deliver_result source_id result (rr_ctx r)
                in Inr (r\<lparr>rr_ctx := ctx',
                          rr_open_schedules := rr_open_schedules r - {source_id},
                          rr_must_poll := True,
                          rr_woken := rr_woken r \<or> wake\<rparr>)))"

definition is_AK_Activity :: "action_kind option \<Rightarrow> bool" where
  "is_AK_Activity k = (case k of Some (AK_Activity _ _) \<Rightarrow> True | _ \<Rightarrow> False)"

definition apply_completion_event :: "event \<Rightarrow> 's replay_run \<Rightarrow> turn_result + 's replay_run" where
  "apply_completion_event ev r =
     (case ev_kind ev of
        ActivityCompleted result \<Rightarrow>
          deliver_completion ev is_AK_Activity (CR_ActivityOk result) r
      | ActivityFailed details \<Rightarrow>
          deliver_completion ev (\<lambda>_. True) (CR_ActivityErr (display_message details)) r
      | TimerFired _ \<Rightarrow> deliver_completion ev (\<lambda>_. True) CR_TimerFired r
      | SubOrchestrationCompleted result \<Rightarrow> deliver_completion ev (\<lambda>_. True) (CR_SubOrchOk result) r
      | SubOrchestrationFailed details \<Rightarrow>
          deliver_completion ev (\<lambda>_. True) (CR_SubOrchErr (display_message details)) r
      | _ \<Rightarrow> Inr r)"

definition apply_arrival_event :: "event \<Rightarrow> 's replay_run \<Rightarrow> 's replay_run" where
  "apply_arrival_event ev r =
     (case ev_kind ev of
        ExternalSubscribedCancelled _ \<Rightarrow>
          (case ev_source_event_id ev of
             Some i \<Rightarrow> r\<lparr>rr_ctx := mark_external_subscription_cancelled i (rr_ctx r)\<rparr>
           | None \<Rightarrow> r)
      | QueueSubscriptionCancelled _ \<Rightarrow>
          (case ev_source_event_id ev of
             Some i \<Rightarrow> r\<lparr>rr_ctx := mark_queue_subscription_cancelled i (rr_ctx r)\<rparr>
           | None \<Rightarrow> r)
      | ExternalEvent name data \<Rightarrow>
          if has_pending_subscription_slot name (rr_ctx r)
          then r\<lparr>rr_ctx := deliver_external_event name data (rr_ctx r), rr_must_poll := True\<rparr>
          else r
      | QueueEventDelivered name data \<Rightarrow>
          r\<lparr>rr_ctx := deliver_queue_message name data (rr_ctx r), rr_must_poll := True\<rparr>
      | _ \<Rightarrow> r)"

text \<open>The \<open>match\<close> of the source, by groups of variants: each group leaves the other variants alone,
  so exactly one of the four does something, and the remaining variants are no-ops.\<close>

definition apply_history_event :: "event \<Rightarrow> 's replay_run \<Rightarrow> turn_result + 's replay_run" where
  "apply_history_event ev r =
     and_then (apply_status_kv_event ev r) (\<lambda>r1.
     and_then (apply_schedule_event ev r1) (\<lambda>r2.
     and_then (apply_completion_event ev r2) (\<lambda>r3. Inr (apply_arrival_event ev r3))))"

subsection \<open>The replay loop\<close>

definition run_set_is_replaying :: "bool \<Rightarrow> 's replay_run \<Rightarrow> 's replay_run" where
  "run_set_is_replaying b r = r\<lparr>rr_ctx := set_is_replaying b (rr_ctx r)\<rparr>"

definition poll_if_needed ::
    "('s \<Rightarrow> ctx_inner \<Rightarrow> poll_outcome \<times> 's \<times> ctx_inner \<times> bool) \<Rightarrow> 's replay_run
       \<Rightarrow> ((turn_result + (string + string) option) \<times> 's replay_run) option" where
  "poll_if_needed poll r =
     (if rr_must_poll r then poll_orchestration_future poll r else Some (Inr None, r))"

text \<open>The \<open>for\<close> loop over \<open>working_history.iter().enumerate()\<close>; the list is what is left from
  \<open>event_index\<close> on. It ends early with the output (\<open>break\<close>) or with an error.\<close>

fun replay_events ::
    "('s \<Rightarrow> ctx_inner \<Rightarrow> poll_outcome \<times> 's \<times> ctx_inner \<times> bool) \<Rightarrow> nat \<Rightarrow> nat \<Rightarrow> event list
       \<Rightarrow> 's replay_run \<Rightarrow> ((turn_result + (string + string) option) \<times> 's replay_run) option" where
  "replay_events poll replay_boundary event_index [] r = Some (Inr None, r)"
| "replay_events poll replay_boundary event_index (ev # evs) r =
     (let r1 = (if event_index \<ge> replay_boundary then run_set_is_replaying False r else r)
      in case poll_if_needed poll r1 of
           None \<Rightarrow> None
         | Some (Inl err, r2) \<Rightarrow> Some (Inl err, r2)
         | Some (Inr (Some result), r2) \<Rightarrow> Some (Inr (Some result), r2)
         | Some (Inr None, r2) \<Rightarrow>
             (case apply_history_event ev (r2\<lparr>rr_must_poll := False\<rparr>) of
                Inl err \<Rightarrow> Some (Inl err, r2)
              | Inr r3 \<Rightarrow>
                  replay_events poll replay_boundary (event_index + 1) evs
                    (r3\<lparr>rr_must_poll := rr_must_poll r3 \<or> rr_woken r3\<rparr>)))"

text \<open>The loop, then \<open>set_is_replaying(false)\<close> and the poll that may still be due.\<close>

definition replay_history ::
    "('s \<Rightarrow> ctx_inner \<Rightarrow> poll_outcome \<times> 's \<times> ctx_inner \<times> bool) \<Rightarrow> nat \<Rightarrow> event list
       \<Rightarrow> 's replay_run \<Rightarrow> ((turn_result + (string + string) option) \<times> 's replay_run) option" where
  "replay_history poll replay_boundary working_history r =
     (case replay_events poll replay_boundary 0 working_history r of
        Some (Inr None, r1) \<Rightarrow> poll_if_needed poll (run_set_is_replaying False r1)
      | Some (Inr (Some result), r1) \<Rightarrow> Some (Inr (Some result), run_set_is_replaying False r1)
      | other \<Rightarrow> other)"

subsection \<open>New actions become events\<close>

definition bind_converted :: "id64 \<Rightarrow> id64 \<Rightarrow> action \<Rightarrow> ctx_inner \<Rightarrow> ctx_inner" where
  "bind_converted token event_id a c =
     (let c1 = bind_token token event_id c
      in case a of
           StartSubOrchestration _ _ _ inst _ \<Rightarrow> bind_sub_orchestration_instance token inst c1
         | WaitExternal _ name \<Rightarrow> bind_external_subscription event_id name c1
         | DequeueEvent _ name \<Rightarrow> bind_queue_subscription event_id name c1
         | _ \<Rightarrow> c1)"

definition convert_action ::
    "id64 \<times> action \<Rightarrow> replay_engine \<times> ctx_inner \<Rightarrow> replay_engine \<times> ctx_inner" where
  "convert_action = (\<lambda>(token, a) (e, c).
     (let event_id = re_next_event_id e;
          updated_action = update_action_event_id a event_id;
          delta = (case action_to_event updated_action (re_instance e) (re_execution_id e) event_id of
                     Some ev \<Rightarrow> re_history_delta e @ [ev]
                   | None \<Rightarrow> re_history_delta e)
      in (e\<lparr>re_next_event_id := event_id + 1, re_history_delta := delta,
            re_pending_actions := re_pending_actions e @ [updated_action]\<rparr>,
          bind_converted token event_id updated_action c)))"

definition convert_emitted_actions ::
    "(id64 \<times> action) list \<Rightarrow> replay_engine \<Rightarrow> ctx_inner \<Rightarrow> replay_engine \<times> ctx_inner" where
  "convert_emitted_actions acts e c = fold convert_action acts (e, c)"

end
