(* ===== verification/Replay_Turn.thy ===== *)
theory Replay_Turn
  imports Replay_Engine
begin

text \<open>
  The end of a turn in \<open>src/src/runtime/replay_engine.rs\<close>: the quiescence loop, the reconciliation
  of dropped futures with the cancellation breadcrumbs of the history, the turn result, and
  \<open>execute_orchestration\<close>, which composes the stages.
\<close>

subsection \<open>Quiescence\<close>

definition MAX_QUIESCENCE_ITERATIONS :: nat where "MAX_QUIESCENCE_ITERATIONS = 100"

definition quiescence_error :: turn_result where
  "quiescence_error = TR_Failed (Infrastructure ''quiescence_loop''
     (''quiescence loop exceeded '' @ show_nat MAX_QUIESCENCE_ITERATIONS
        @ '' iterations - orchestration is emitting unbounded persistent event subscriptions'') False)"

type_synonym 's turn_state = "'s replay_run \<times> replay_engine"

text \<open>\<open>n\<close> is the number of iterations left. Reaching 0 is the error, also when the last iteration
  produced the output. (The dash of the message is not ASCII in the source.) \<open>rr_emitted_actions\<close> is the loop's own, initially empty, queue.\<close>

fun quiescence_loop ::
    "('s \<Rightarrow> ctx_inner \<Rightarrow> poll_outcome \<times> 's \<times> ctx_inner \<times> bool) \<Rightarrow> nat
       \<Rightarrow> (string + string) option \<Rightarrow> 's replay_run \<Rightarrow> replay_engine
       \<Rightarrow> ((turn_result + (string + string) option) \<times> 's turn_state) option" where
  "quiescence_loop poll 0 out r e = Some (Inl quiescence_error, r, e)"
| "quiescence_loop poll (Suc n) out r e =
     (if out \<noteq> None \<or> re_pending_actions e = [] then Some (Inr out, r, e)
      else case poll_orchestration_future poll r of
             None \<Rightarrow> None
           | Some (Inl err, r1) \<Rightarrow> Some (Inl err, r1, e)
           | Some (Inr out', r1) \<Rightarrow>
               (let (e', ctx') = convert_emitted_actions (rr_emitted_actions r1) e (rr_ctx r1);
                    r2 = r1\<lparr>rr_ctx := ctx', rr_emitted_actions := []\<rparr>
                in if length (re_pending_actions e') = length (re_pending_actions e) \<and> n \<noteq> 0
                   then Some (Inr out', r2, e')
                   else quiescence_loop poll n out' r2 e'))"

definition run_quiescence_loop ::
    "('s \<Rightarrow> ctx_inner \<Rightarrow> poll_outcome \<times> 's \<times> ctx_inner \<times> bool)
       \<Rightarrow> (string + string) option \<Rightarrow> 's replay_run \<Rightarrow> replay_engine
       \<Rightarrow> ((turn_result + (string + string) option) \<times> 's turn_state) option" where
  "run_quiescence_loop poll out r e =
     quiescence_loop poll MAX_QUIESCENCE_ITERATIONS out (r\<lparr>rr_emitted_actions := []\<rparr>) e"

subsection \<open>Dropped futures and cancellation breadcrumbs\<close>

definition dropped_future :: string where "dropped_future = ''dropped_future''"

fun activity_cancel_reason :: "event_kind \<Rightarrow> string option" where
  "activity_cancel_reason (ActivityCancelRequested reason) = Some reason"
| "activity_cancel_reason _ = None"

fun sub_orch_cancel_reason :: "event_kind \<Rightarrow> string option" where
  "sub_orch_cancel_reason (SubOrchestrationCancelRequested reason) = Some reason"
| "sub_orch_cancel_reason _ = None"

fun external_cancel_reason :: "event_kind \<Rightarrow> string option" where
  "external_cancel_reason (ExternalSubscribedCancelled reason) = Some reason"
| "external_cancel_reason _ = None"

fun queue_cancel_reason :: "event_kind \<Rightarrow> string option" where
  "queue_cancel_reason (QueueSubscriptionCancelled reason) = Some reason"
| "queue_cancel_reason _ = None"

fun is_activity_scheduled :: "event_kind \<Rightarrow> bool" where
  "is_activity_scheduled (ActivityScheduled _ _ _ _) = True" | "is_activity_scheduled _ = False"

fun is_sub_orch_scheduled :: "event_kind \<Rightarrow> bool" where
  "is_sub_orch_scheduled (SubOrchestrationScheduled _ _ _) = True" | "is_sub_orch_scheduled _ = False"

fun is_external_subscribed :: "event_kind \<Rightarrow> bool" where
  "is_external_subscribed (ExternalSubscribed _) = True" | "is_external_subscribed _ = False"

fun is_queue_subscribed :: "event_kind \<Rightarrow> bool" where
  "is_queue_subscribed (QueueSubscribed _) = True" | "is_queue_subscribed _ = False"

text \<open>\<open>baseline_dropped_future_cancel_requests_*\<close>: sources of the breadcrumbs of one kind with the
  reason \<open>dropped_future\<close> in the persisted segment.\<close>

definition baseline_dropped_requests ::
    "(event_kind \<Rightarrow> string option) \<Rightarrow> event list \<Rightarrow> id64 list" where
  "baseline_dropped_requests reason_of es =
     List.map_filter (\<lambda>ev. if reason_of (ev_kind ev) = Some dropped_future
                           then ev_source_event_id ev else None) es"

text \<open>\<open>baseline_persisted_*_schedules\<close>.\<close>

definition baseline_schedules :: "(event_kind \<Rightarrow> bool) \<Rightarrow> event list \<Rightarrow> id64 list" where
  "baseline_schedules is_sched es = map ev_event_id (filter (\<lambda>ev. is_sched (ev_kind ev)) es)"

text \<open>The subset check of one stream, with the intersection with the persisted schedules.\<close>

definition check_cancel_stream ::
    "string \<Rightarrow> (event_kind \<Rightarrow> string option) \<Rightarrow> (event_kind \<Rightarrow> bool) \<Rightarrow> id64 list \<Rightarrow> event list
       \<Rightarrow> turn_result option" where
  "check_cancel_stream msg reason_of is_sched ctx_cancelled es =
     (let requests = set (baseline_dropped_requests reason_of es);
          in_replayed_segment = set ctx_cancelled \<inter> set (baseline_schedules is_sched es)
      in if requests \<noteq> {} \<and> \<not> requests \<subseteq> in_replayed_segment
         then Some (nondeterminism msg) else None)"

definition check_cancellations :: "replay_engine \<Rightarrow> ctx_inner \<Rightarrow> turn_result option" where
  "check_cancellations e c =
     (let es = take (re_persisted_history_len e) (re_baseline_history e)
      in if re_persisted_history_len e = 0 then None
         else case check_cancel_stream ''cancellation mismatch (activities)''
                activity_cancel_reason is_activity_scheduled (get_cancelled_activity_ids c) es of
                Some err \<Rightarrow> Some err
              | None \<Rightarrow>
              (case check_cancel_stream ''cancellation mismatch (sub-orchestrations)''
                sub_orch_cancel_reason is_sub_orch_scheduled
                (map fst (get_cancelled_sub_orchestration_cancellations c)) es of
                Some err \<Rightarrow> Some err
              | None \<Rightarrow>
              (case check_cancel_stream ''cancellation mismatch (external waits)''
                external_cancel_reason is_external_subscribed (get_cancelled_external_wait_ids c) es of
                Some err \<Rightarrow> Some err
              | None \<Rightarrow>
               check_cancel_stream ''cancellation mismatch (persistent waits)''
                queue_cancel_reason is_queue_subscribed (get_cancelled_queue_ids c) es)))"

text \<open>\<open>already_cancelled_*\<close>: breadcrumbs of one kind, of any reason, in the whole history.\<close>

definition already_cancelled_ids :: "(event_kind \<Rightarrow> string option) \<Rightarrow> event list \<Rightarrow> id64 set" where
  "already_cancelled_ids reason_of es =
     set (List.map_filter (\<lambda>ev. if reason_of (ev_kind ev) \<noteq> None
                                then ev_source_event_id ev else None) es)"

definition push_breadcrumb :: "event_kind \<Rightarrow> id64 \<Rightarrow> replay_engine \<Rightarrow> replay_engine" where
  "push_breadcrumb kind schedule_id e =
     e\<lparr>re_next_event_id := re_next_event_id e + 1,
       re_history_delta := re_history_delta e
         @ [with_event_id (re_next_event_id e) (re_instance e) (re_execution_id e)
              (Some schedule_id) kind]\<rparr>"

text \<open>The loop the four streams share: \<open>already.insert(id)\<close> guards the side channel and the event.\<close>

fun emit_cancel_requests ::
    "event_kind \<Rightarrow> (id64 \<times> string \<Rightarrow> replay_engine \<Rightarrow> replay_engine) \<Rightarrow> id64 set
       \<Rightarrow> (id64 \<times> string) list \<Rightarrow> replay_engine \<Rightarrow> replay_engine" where
  "emit_cancel_requests kind side already [] e = e"
| "emit_cancel_requests kind side already (x # xs) e =
     (if fst x \<in> already then emit_cancel_requests kind side already xs e
      else emit_cancel_requests kind side (insert (fst x) already) xs
             (push_breadcrumb kind (fst x) (side x e)))"

definition side_activity :: "id64 \<times> string \<Rightarrow> replay_engine \<Rightarrow> replay_engine" where
  "side_activity x e = e\<lparr>re_cancelled_activity_ids := re_cancelled_activity_ids e @ [fst x]\<rparr>"

definition side_sub_orch :: "id64 \<times> string \<Rightarrow> replay_engine \<Rightarrow> replay_engine" where
  "side_sub_orch x e =
     e\<lparr>re_cancelled_sub_orchestration_ids := re_cancelled_sub_orchestration_ids e @ [snd x]\<rparr>"

definition no_side :: "id64 \<times> string \<Rightarrow> replay_engine \<Rightarrow> replay_engine" where
  "no_side x e = e"

definition plain_ids :: "id64 list \<Rightarrow> (id64 \<times> string) list" where
  "plain_ids is = map (\<lambda>i. (i, [])) is"

definition emit_cancellations :: "ctx_inner \<Rightarrow> replay_engine \<Rightarrow> replay_engine" where
  "emit_cancellations c e0 =
     (let hist = engine_history e0;
          e1 = emit_cancel_requests (ActivityCancelRequested dropped_future) side_activity
                 (already_cancelled_ids activity_cancel_reason hist)
                 (plain_ids (get_cancelled_activity_ids c)) e0;
          e2 = emit_cancel_requests (SubOrchestrationCancelRequested dropped_future) side_sub_orch
                 (already_cancelled_ids sub_orch_cancel_reason hist)
                 (get_cancelled_sub_orchestration_cancellations c) e1;
          e3 = emit_cancel_requests (ExternalSubscribedCancelled dropped_future) no_side
                 (already_cancelled_ids external_cancel_reason hist)
                 (plain_ids (get_cancelled_external_wait_ids c)) e2
      in emit_cancel_requests (QueueSubscriptionCancelled dropped_future) no_side
           (already_cancelled_ids queue_cancel_reason (engine_history e3))
           (plain_ids (get_cancelled_queue_ids c)) e3)"

definition collect_cancelled_from_context ::
    "replay_engine \<Rightarrow> ctx_inner \<Rightarrow> (turn_result option \<times> replay_engine \<times> ctx_inner)" where
  "collect_cancelled_from_context e c =
     (case check_cancellations e c of
        Some err \<Rightarrow> (Some err, e, c)
      | None \<Rightarrow> (None, emit_cancellations c e, clear_cancelled_tokens c))"

subsection \<open>Turn result\<close>

fun cancel_request_reason :: "event_kind \<Rightarrow> string option" where
  "cancel_request_reason (OrchestrationCancelRequested reason) = Some reason"
| "cancel_request_reason _ = None"

text \<open>The first cancel request of the history, and the first \<open>ContinueAsNew\<close> decision.\<close>

fun first_cancel_reason :: "event list \<Rightarrow> string option" where
  "first_cancel_reason [] = None"
| "first_cancel_reason (ev # evs) =
     (case cancel_request_reason (ev_kind ev) of
        Some reason \<Rightarrow> Some reason | None \<Rightarrow> first_cancel_reason evs)"

fun first_continue_as_new :: "action list \<Rightarrow> (string \<times> string option) option" where
  "first_continue_as_new [] = None"
| "first_continue_as_new (a # as) =
     (case a of ACT_ContinueAsNew input version \<Rightarrow> Some (input, version)
              | _ \<Rightarrow> first_continue_as_new as)"

fun output_result :: "(string + string) option \<Rightarrow> turn_result" where
  "output_result None = TR_Continue"
| "output_result (Some (Inr result)) = TR_Completed result"
| "output_result (Some (Inl err)) = TR_Failed (Application AE_OrchestrationFailed err False)"

definition finalize_turn ::
    "(string + string) option \<Rightarrow> replay_engine \<Rightarrow> ctx_inner \<Rightarrow> turn_result \<times> replay_engine" where
  "finalize_turn out e c =
     (case first_cancel_reason (engine_history e) of
        Some reason \<Rightarrow> (TR_Cancelled reason, e)
      | None \<Rightarrow>
          (case first_continue_as_new (re_pending_actions e) of
             Some (input, version) \<Rightarrow> (TR_ContinueAsNew input version, e)
           | None \<Rightarrow>
               (case collect_cancelled_from_context e c of
                  (Some err, e', _) \<Rightarrow> (err, e')
                | (None, e', _) \<Rightarrow> (output_result out, e'))))"

subsection \<open>One turn\<close>

definition seed_kv :: "(string \<times> kv_entry) list \<Rightarrow> ctx_inner \<Rightarrow> ctx_inner" where
  "seed_kv snapshot c =
     fold (\<lambda>(key, entry) c.
       c\<lparr>cx_kv_state := AList.update key (kv_value entry) (cx_kv_state c),
         cx_kv_metadata := AList.update key (kv_last_updated_at_ms entry) (cx_kv_metadata c)\<rparr>)
       snapshot c"

fun initial_status_of :: "event_kind \<Rightarrow> string option" where
  "initial_status_of (OrchestrationStarted _ _ _ _ _ _ st) = st"
| "initial_status_of _ = None"

fun is_started :: "event_kind \<Rightarrow> bool" where
  "is_started (OrchestrationStarted _ _ _ _ _ _ _) = True" | "is_started _ = False"

text \<open>The checks before any orchestration code runs: an abort error of the preparation stage, a
  history that already has a terminal event, an empty history, a wrong first event.\<close>

definition turn_precheck :: "replay_engine \<Rightarrow> turn_result option" where
  "turn_precheck e =
     (let working_history = engine_history e
      in case re_abort_error e of
           Some err \<Rightarrow> Some (TR_Failed err)
         | None \<Rightarrow>
             if list_ex is_terminal working_history then Some TR_Continue
             else if working_history = []
             then Some (nondeterminism ''corrupted history: empty'')
             else if \<not> is_started (ev_kind (hd working_history))
             then Some (nondeterminism ''corrupted history: first event must be OrchestrationStarted'')
             else None)"

definition initial_ctx :: "string \<Rightarrow> string \<Rightarrow> replay_engine \<Rightarrow> ctx_inner" where
  "initial_ctx orchestration_name orchestration_version e =
     (let c0 = ctx_new (re_execution_id e) (re_instance e) orchestration_name orchestration_version;
          c1 = seed_kv (re_kv_snapshot e) c0;
          c2 = (if re_persisted_history_len e = 0 then set_is_replaying False c1 else c1)
      in case initial_status_of (ev_kind (hd (engine_history e))) of
           Some st \<Rightarrow> c2\<lparr>cx_accumulated_custom_status := Some st\<rparr>
         | None \<Rightarrow> c2)"

definition initial_run :: "'s \<Rightarrow> ctx_inner \<Rightarrow> 's replay_run" where
  "initial_run fut c =
     \<lparr>rr_fut = fut, rr_ctx = c, rr_emitted_actions = [], rr_open_schedules = {},
      rr_schedule_kinds = Map.empty, rr_must_poll = True, rr_woken = False\<rparr>"

definition mark_cancelled_queue_waits :: "ctx_inner \<Rightarrow> ctx_inner" where
  "mark_cancelled_queue_waits c =
     fold mark_queue_subscription_cancelled (get_cancelled_queue_ids c) c"

text \<open>After the replay: convert the new actions, run to quiescence, decide the result.\<close>

definition complete_turn ::
    "'s handler \<Rightarrow> (string + string) option \<Rightarrow> 's replay_run \<Rightarrow> replay_engine
       \<Rightarrow> (turn_result \<times> replay_engine) option" where
  "complete_turn h out r e =
     (let (e1, c1) = convert_emitted_actions (rr_emitted_actions r) e
                       (mark_cancelled_queue_waits (rr_ctx r))
      in case run_quiescence_loop (h_poll h) out (r\<lparr>rr_ctx := c1\<rparr>) e1 of
           None \<Rightarrow> None
         | Some (Inl err, _, e2) \<Rightarrow> Some (err, e2)
         | Some (Inr out', r2, e2) \<Rightarrow> Some (finalize_turn out' e2 (rr_ctx r2)))"

definition execute_orchestration ::
    "'s handler \<Rightarrow> string \<Rightarrow> string \<Rightarrow> string \<Rightarrow> replay_engine
       \<Rightarrow> (turn_result \<times> replay_engine) option" where
  "execute_orchestration h input orchestration_name orchestration_version e =
     (case turn_precheck e of
        Some res \<Rightarrow> Some (res, e)
      | None \<Rightarrow>
          (case h_invoke h input of
             Inl p \<Rightarrow> Some (panicked p, e)
           | Inr fut \<Rightarrow>
               (case replay_history (h_poll h) (re_persisted_history_len e) (engine_history e)
                       (initial_run fut (initial_ctx orchestration_name orchestration_version e)) of
                  None \<Rightarrow> None
                | Some (Inl err, _) \<Rightarrow> Some (err, e)
                | Some (Inr out, r) \<Rightarrow> complete_turn h out r e)))"

definition final_history :: "replay_engine \<Rightarrow> event list" where
  "final_history e = re_baseline_history e @ re_history_delta e"

definition made_progress :: "replay_engine \<Rightarrow> bool" where
  "made_progress e = (re_history_delta e \<noteq> [])"

end
