(* ===== verification/Replay_Flag.thy ===== *)
theory Replay_Flag
  imports Replay_Turn
begin

text \<open>
  The replay flag does not matter to the engine: two runs that differ only in \<open>is_replaying\<close> stay so,
  step by step, as long as the orchestration does not read the flag. With it, a history can be
  replayed under any replay boundary (\<open>Replay_Determinism\<close>).
\<close>

lemma update_matches: "action_event_kind (update_action_event_id a i) = Some k \<Longrightarrow> action_matches_event_kind a k"
  by (cases a) (auto simp: action_matches_event_kind_def)

lemmas apply_event_defs = apply_history_event_def apply_status_kv_event_def apply_schedule_event_def
  apply_completion_event_def apply_arrival_event_def

lemma run_flag_simps [simp]:
  "rr_fut (run_set_is_replaying b r) = rr_fut r"
  "rr_ctx (run_set_is_replaying b r) = set_is_replaying b (rr_ctx r)"
  "rr_emitted_actions (run_set_is_replaying b r) = rr_emitted_actions r"
  "rr_open_schedules (run_set_is_replaying b r) = rr_open_schedules r"
  "rr_schedule_kinds (run_set_is_replaying b r) = rr_schedule_kinds r"
  "rr_must_poll (run_set_is_replaying b r) = rr_must_poll r"
  "rr_woken (run_set_is_replaying b r) = rr_woken r"
  by (simp_all add: run_set_is_replaying_def)

lemma run_flag_updates [simp]:
  "run_set_is_replaying b (r\<lparr>rr_emitted_actions := x\<rparr>) = (run_set_is_replaying b r)\<lparr>rr_emitted_actions := x\<rparr>"
  "run_set_is_replaying b (r\<lparr>rr_must_poll := p\<rparr>) = (run_set_is_replaying b r)\<lparr>rr_must_poll := p\<rparr>"
  "run_set_is_replaying b (r\<lparr>rr_woken := p\<rparr>) = (run_set_is_replaying b r)\<lparr>rr_woken := p\<rparr>"
  "run_set_is_replaying b (r\<lparr>rr_open_schedules := s\<rparr>) = (run_set_is_replaying b r)\<lparr>rr_open_schedules := s\<rparr>"
  "run_set_is_replaying b (r\<lparr>rr_schedule_kinds := k\<rparr>) = (run_set_is_replaying b r)\<lparr>rr_schedule_kinds := k\<rparr>"
  "run_set_is_replaying b (r\<lparr>rr_fut := f\<rparr>) = (run_set_is_replaying b r)\<lparr>rr_fut := f\<rparr>"
  "run_set_is_replaying b (r\<lparr>rr_ctx := c\<rparr>) = r\<lparr>rr_ctx := set_is_replaying b c\<rparr>"
  "(run_set_is_replaying b r)\<lparr>rr_ctx := c\<rparr> = r\<lparr>rr_ctx := c\<rparr>"
  "run_set_is_replaying b (run_set_is_replaying b' r) = run_set_is_replaying b r"
  by (simp_all add: run_set_is_replaying_def set_is_replaying_def)

lemma set_flag_ops [simp]:
  "bind_token t s (set_is_replaying b c) = set_is_replaying b (bind_token t s c)"
  "bind_external_subscription i n (set_is_replaying b c) = set_is_replaying b (bind_external_subscription i n c)"
  "bind_queue_subscription i n (set_is_replaying b c) = set_is_replaying b (bind_queue_subscription i n c)"
  "bind_sub_orchestration_instance t x (set_is_replaying b c) = set_is_replaying b (bind_sub_orchestration_instance t x c)"
  "deliver_result i res (set_is_replaying b c) = apsnd (set_is_replaying b) (deliver_result i res c)"
  "mark_external_subscription_cancelled i (set_is_replaying b c) = set_is_replaying b (mark_external_subscription_cancelled i c)"
  "mark_queue_subscription_cancelled i (set_is_replaying b c) = set_is_replaying b (mark_queue_subscription_cancelled i c)"
  "has_pending_subscription_slot n (set_is_replaying b c) = has_pending_subscription_slot n c"
  "deliver_external_event n d (set_is_replaying b c) = set_is_replaying b (deliver_external_event n d c)"
  "deliver_queue_message n d (set_is_replaying b c) = set_is_replaying b (deliver_queue_message n d c)"
  "(set_is_replaying b c)\<lparr>cx_accumulated_custom_status := st\<rparr> = set_is_replaying b (c\<lparr>cx_accumulated_custom_status := st\<rparr>)"
  "cx_emitted_actions (set_is_replaying b c) = cx_emitted_actions c"
  "drain_emitted_actions (set_is_replaying b c) = apsnd (set_is_replaying b) (drain_emitted_actions c)"
  by (simp_all add: set_is_replaying_def bind_token_def bind_external_subscription_def Let_def
      bind_queue_subscription_def bind_sub_orchestration_instance_def deliver_result_def
      mark_external_subscription_cancelled_def mark_queue_subscription_cancelled_def
      has_pending_subscription_slot_def deliver_external_event_def deliver_queue_message_def drain_emitted_actions_def split: option.splits)

lemma consume_flag:
  "consume_matching_action m ev (run_set_is_replaying b r)
    = map_sum id (run_set_is_replaying b) (consume_matching_action m ev r)"
  by (simp add: consume_matching_action_def split: list.splits prod.splits)

lemma match_flag:
  "match_and_bind_schedule ev k (run_set_is_replaying b r)
    = map_sum id (apsnd (run_set_is_replaying b)) (match_and_bind_schedule ev k r)"
  by (simp add: match_and_bind_schedule_def split: list.splits prod.splits)

lemma chained_flag:
  "apply_chained_event ev (run_set_is_replaying b r)
    = map_sum id (run_set_is_replaying b) (apply_chained_event ev r)"
  by (simp add: apply_chained_event_def split: list.splits prod.splits)

lemma deliver_flag:
  "deliver_completion ev ok res (run_set_is_replaying b r)
    = map_sum id (run_set_is_replaying b) (deliver_completion ev ok res r)"
  by (simp add: deliver_completion_def Let_def split: option.splits prod.splits)

lemma and_then_map_sum: "and_then (map_sum id f m) g = and_then m (g \<circ> f)"
  by (cases m) auto

lemma map_sum_and_then: "map_sum id f (and_then m g) = and_then m (map_sum id f \<circ> g)"
  by (cases m) auto

lemma status_flag: "apply_status_kv_event ev (run_set_is_replaying b r)
    = map_sum id (run_set_is_replaying b) (apply_status_kv_event ev r)"
  by (cases "ev_kind ev") (simp_all add: apply_status_kv_event_def consume_flag split: option.splits)

lemma schedule_flag: "apply_schedule_event ev (run_set_is_replaying b r)
    = map_sum id (run_set_is_replaying b) (apply_schedule_event ev r)"
  by (cases "ev_kind ev") (simp_all add: apply_schedule_event_def match_flag chained_flag and_then_map_sum map_sum_and_then comp_def case_prod_unfold)

lemma completion_flag: "apply_completion_event ev (run_set_is_replaying b r)
    = map_sum id (run_set_is_replaying b) (apply_completion_event ev r)"
  by (cases "ev_kind ev") (simp_all add: apply_completion_event_def deliver_flag)

lemma arrival_flag: "apply_arrival_event ev (run_set_is_replaying b r)
    = run_set_is_replaying b (apply_arrival_event ev r)"
  by (cases "ev_kind ev") (simp_all add: apply_arrival_event_def split: option.splits)

lemma apply_flag:
  "apply_history_event ev (run_set_is_replaying b r)
    = map_sum id (run_set_is_replaying b) (apply_history_event ev r)"
  by (simp add: apply_history_event_def status_flag schedule_flag completion_flag arrival_flag and_then_map_sum map_sum_and_then comp_def)

text \<open>User code may not depend on \<open>is_replaying\<close> (documented as for logging only), and cannot set it.\<close>

definition ignores_replay_flag ::
    "('s \<Rightarrow> ctx_inner \<Rightarrow> poll_outcome \<times> 's \<times> ctx_inner \<times> bool) \<Rightarrow> bool" where
  "ignores_replay_flag poll \<longleftrightarrow> (\<forall>s c b.
     poll s (set_is_replaying b c) = (case poll s c of (o1, s', c', w) \<Rightarrow> (o1, s', set_is_replaying b c', w)))"

lemma after_poll_flag:
  "after_poll fut (set_is_replaying b c) w (run_set_is_replaying b r)
    = run_set_is_replaying b (after_poll fut c w r)"
  by (simp add: after_poll_def case_prod_unfold drain_emitted_actions_def run_set_is_replaying_def set_is_replaying_def)

lemma poll_flag:
  assumes ig: "ignores_replay_flag poll" and p: "poll_orchestration_future poll r = Some (res, r1)"
  shows "poll_orchestration_future poll (run_set_is_replaying b r) = Some (res, run_set_is_replaying b r1)"
proof -
  have "poll_orchestration_future poll r = Some y \<Longrightarrow>
     ignores_replay_flag poll \<longrightarrow> poll_orchestration_future poll (run_set_is_replaying b r)
      = Some (fst y, run_set_is_replaying b (snd y))"
    for y
  proof (erule poll_orchestration_future.raw_induct [rotated], intro impI)
    fix self q and r :: "'a replay_run" and y
    assume IH: "\<And>q r y. self q r = Some y \<Longrightarrow> ignores_replay_flag q \<longrightarrow>
        poll_orchestration_future q (run_set_is_replaying b r) = Some (fst y, run_set_is_replaying b (snd y))"
      and body: "(case q (rr_fut r) (rr_ctx r) of
        (outcome, fut, ctx, woken) \<Rightarrow>
          (case outcome of
             PollReady result \<Rightarrow> Some (Inr (Some result), after_poll fut ctx woken r)
           | PollPending \<Rightarrow>
               if cx_emitted_actions ctx \<noteq> [] \<or> \<not> woken
               then Some (Inr None, after_poll fut ctx woken r)
               else self q (after_poll fut ctx False r)
           | PollPanicked p \<Rightarrow>
               Some (Inl (panicked p), r\<lparr>rr_fut := fut, rr_ctx := ctx, rr_woken := woken\<rparr>))) = Some y"
      and igq: "ignores_replay_flag q"
    obtain o1 s c w where e: "q (rr_fut r) (rr_ctx r) = (o1, s, c, w)"
      by (cases "q (rr_fut r) (rr_ctx r)")
    with igq have e': "q (rr_fut r) (set_is_replaying b (rr_ctx r)) = (o1, s, set_is_replaying b c, w)"
      by (simp add: ignores_replay_flag_def)
    show "poll_orchestration_future q (run_set_is_replaying b r) = Some (fst y, run_set_is_replaying b (snd y))"
      using body e e' IH igq
      by (subst poll_orchestration_future.simps)
        (auto simp: after_poll_flag split: poll_outcome.splits if_splits)
  qed
  from this [OF p] ig show ?thesis by simp
qed

lemma poll_if_needed_flag:
  assumes "ignores_replay_flag poll" and "poll_if_needed poll r = Some (res, r1)"
  shows "poll_if_needed poll (run_set_is_replaying b r) = Some (res, run_set_is_replaying b r1)"
  using assms poll_flag by (auto simp: poll_if_needed_def split: if_splits)

text \<open>Two runs that differ only in the flag.\<close>

definition same_but_flag :: "'s replay_run \<Rightarrow> 's replay_run \<Rightarrow> bool" where
  "same_but_flag r r' \<longleftrightarrow> run_set_is_replaying False r = run_set_is_replaying False r'"

lemma same_but_flag_iff: "same_but_flag r r' \<longleftrightarrow> (\<exists>b. r' = run_set_is_replaying b r)"
proof
  assume eq: "same_but_flag r r'"
  let ?b = "cx_is_replaying (rr_ctx r')"
  have "r' = run_set_is_replaying ?b (run_set_is_replaying False r')"
    by (simp only: run_flag_updates) (simp add: run_set_is_replaying_def set_is_replaying_def)
  also have "\<dots> = run_set_is_replaying ?b (run_set_is_replaying False r)"
    by (simp only: eq [unfolded same_but_flag_def])
  finally show "\<exists>b. r' = run_set_is_replaying b r" by auto
qed (auto simp: same_but_flag_def)

lemma same_but_flag_set [simp]:
  "same_but_flag (run_set_is_replaying b r) r' \<longleftrightarrow> same_but_flag r r'"
  "same_but_flag r (run_set_is_replaying b r') \<longleftrightarrow> same_but_flag r r'"
  by (simp_all add: same_but_flag_def)

lemma same_but_flag_refl [simp]: "same_but_flag r r"
  by (simp add: same_but_flag_def)

lemma same_but_flag_poll:
  assumes "ignores_replay_flag poll" and "poll_if_needed poll r = Some (res, r1)" and "same_but_flag r r'"
  obtains r1' where "poll_if_needed poll r' = Some (res, r1')" "same_but_flag r1 r1'"
  using assms poll_if_needed_flag same_but_flag_iff by metis

lemma same_but_flag_must_poll:
  "same_but_flag r r' \<Longrightarrow> same_but_flag (r\<lparr>rr_must_poll := p\<rparr>) (r'\<lparr>rr_must_poll := p\<rparr>)"
  by (auto simp: same_but_flag_iff)

lemma same_but_flag_apply:
  assumes "apply_history_event ev r = Inr r1" and "same_but_flag r r'"
  obtains r1' where "apply_history_event ev r' = Inr r1'" "same_but_flag r1 r1'"
  using assms apply_flag same_but_flag_iff by (metis map_sum.simps(2))

lemma same_but_flag_fields:
  assumes "same_but_flag r r'"
  shows "rr_fut r' = rr_fut r" "rr_emitted_actions r' = rr_emitted_actions r"
    "rr_must_poll r' = rr_must_poll r" "rr_woken r' = rr_woken r"
    "set_is_replaying b (rr_ctx r') = set_is_replaying b (rr_ctx r)"
  using assms by (auto simp: same_but_flag_iff set_is_replaying_def)

text \<open>The replay boundary does not matter to such code.\<close>

lemma replay_events_boundary:
  assumes ig: "ignores_replay_flag poll"
  shows "replay_events poll b i es r = Some (Inr None, r1) \<Longrightarrow> same_but_flag r r'
    \<Longrightarrow> \<exists>r1'. replay_events poll b' i' es r' = Some (Inr None, r1') \<and> same_but_flag r1 r1'"
proof (induction es arbitrary: i i' r r')
  case (Cons ev es)
  let ?f = "if i \<ge> b then run_set_is_replaying False r else r"
  let ?f' = "if i' \<ge> b' then run_set_is_replaying False r' else r'"
  have sf: "same_but_flag ?f ?f'" using Cons.prems(2) by simp
  from Cons.prems(1) obtain r2 where p: "poll_if_needed poll ?f = Some (Inr None, r2)"
    by (auto simp: Let_def split: option.splits sum.splits)
  from same_but_flag_poll [OF ig p sf] obtain r2' where
    p': "poll_if_needed poll ?f' = Some (Inr None, r2')" and s2: "same_but_flag r2 r2'" .
  from Cons.prems(1) p obtain r3 where a: "apply_history_event ev (r2\<lparr>rr_must_poll := False\<rparr>) = Inr r3"
    and rest: "replay_events poll b (i + 1) es (r3\<lparr>rr_must_poll := rr_must_poll r3 \<or> rr_woken r3\<rparr>) = Some (Inr None, r1)"
    by (auto simp: Let_def split: sum.splits)
  from same_but_flag_apply [OF a same_but_flag_must_poll [OF s2]] obtain r3' where
    a': "apply_history_event ev (r2'\<lparr>rr_must_poll := False\<rparr>) = Inr r3'" and s3: "same_but_flag r3 r3'" .
  from Cons.IH [OF rest, of "r3'\<lparr>rr_must_poll := rr_must_poll r3' \<or> rr_woken r3'\<rparr>" "i' + 1"] s3
  obtain r1' where "replay_events poll b' (i' + 1) es (r3'\<lparr>rr_must_poll := rr_must_poll r3' \<or> rr_woken r3'\<rparr>)
       = Some (Inr None, r1') \<and> same_but_flag r1 r1'"
    using same_but_flag_fields [OF s3] same_but_flag_must_poll [OF s3] by auto
  with p' a' show ?case by (simp add: Let_def)
qed simp

lemma replay_events_append:
  "replay_events poll b i (es @ fs) r =
     (case replay_events poll b i es r of
        Some (Inr None, r1) \<Rightarrow> replay_events poll b (i + length es) fs r1
      | other \<Rightarrow> other)"
  by (induction es arbitrary: i r) (auto simp: Let_def split: option.splits sum.splits)

end
