(* ===== verification/Futures.thy ===== *)
theory Futures
  imports Ctx_Inner
begin

text \<open>
  The scheduling API of \<open>OrchestrationContext\<close> and \<open>DurableFuture\<close> (\<open>src/src/lib.rs\<close>). A
  \<open>schedule_*\<close> call emits an action and returns a future for its token; polling the future reads the
  context, dropping it unfinished records a cancellation. An operation that reads the clock takes
  \<open>now\<close>, the value of \<open>now_ms\<close>, as an argument.
\<close>

subsection \<open>Durable futures\<close>

record durable_future =
  df_token :: id64
  df_kind :: schedule_kind
  df_completed :: bool

text \<open>What the inner future of each kind yields: \<open>Result<String, String>\<close>, \<open>()\<close> or \<open>String\<close>
  (\<open>Inl\<close> is \<open>Err\<close>, \<open>Inr\<close> is \<open>Ok\<close>).\<close>

datatype fut_output = FO_Result "string + string" | FO_Unit | FO_Data string

definition df_new :: "id64 \<Rightarrow> schedule_kind \<Rightarrow> durable_future" where
  "df_new token kind = \<lparr>df_token = token, df_kind = kind, df_completed = False\<rparr>"

definition poll_activity :: "id64 \<Rightarrow> ctx_inner \<Rightarrow> fut_output option" where
  "poll_activity token c =
     (case get_result token c of
        Some (CR_ActivityOk s) \<Rightarrow> Some (FO_Result (Inr s))
      | Some (CR_ActivityErr e) \<Rightarrow> Some (FO_Result (Inl e))
      | _ \<Rightarrow> None)"

definition poll_timer :: "id64 \<Rightarrow> ctx_inner \<Rightarrow> fut_output option" where
  "poll_timer token c = (case get_result token c of Some CR_TimerFired \<Rightarrow> Some FO_Unit | _ \<Rightarrow> None)"

definition poll_wait :: "id64 \<Rightarrow> ctx_inner \<Rightarrow> fut_output option" where
  "poll_wait token c =
     (case get_bound_schedule_id token c of
        Some bound_id \<Rightarrow> map_option FO_Data (get_external_event bound_id c)
      | None \<Rightarrow> None)"

definition poll_dequeue :: "id64 \<Rightarrow> ctx_inner \<Rightarrow> fut_output option \<times> ctx_inner" where
  "poll_dequeue token c =
     (case get_bound_schedule_id token c of
        Some bound_id \<Rightarrow> (let (m, c') = get_queue_message bound_id c in (map_option FO_Data m, c'))
      | None \<Rightarrow> (None, c))"

definition poll_sub_orchestration :: "id64 \<Rightarrow> ctx_inner \<Rightarrow> fut_output option" where
  "poll_sub_orchestration token c =
     (case get_result token c of
        Some (CR_SubOrchOk s) \<Rightarrow> Some (FO_Result (Inr s))
      | Some (CR_SubOrchErr e) \<Rightarrow> Some (FO_Result (Inl e))
      | _ \<Rightarrow> None)"

text \<open>The inner future of a \<open>DurableFuture\<close> is fixed by the \<open>schedule_*\<close> call that made it, that is
  by its kind.\<close>

definition inner_poll :: "durable_future \<Rightarrow> ctx_inner \<Rightarrow> fut_output option \<times> ctx_inner" where
  "inner_poll f c =
     (case df_kind f of
        SK_Activity _ \<Rightarrow> (poll_activity (df_token f) c, c)
      | SK_Timer \<Rightarrow> (poll_timer (df_token f) c, c)
      | SK_ExternalWait _ \<Rightarrow> (poll_wait (df_token f) c, c)
      | SK_QueueDequeue _ \<Rightarrow> poll_dequeue (df_token f) c
      | SK_SubOrchestration _ \<Rightarrow> (poll_sub_orchestration (df_token f) c, c))"

definition df_poll ::
    "durable_future \<Rightarrow> ctx_inner \<Rightarrow> fut_output option \<times> durable_future \<times> ctx_inner" where
  "df_poll f c =
     (case inner_poll f c of
        (Some v, c') \<Rightarrow> (Some v, f\<lparr>df_completed := True\<rparr>, clear_token_waker (df_token f) c')
      | (None, c') \<Rightarrow> (None, f, register_token_waker (df_token f) c'))"

definition df_drop :: "durable_future \<Rightarrow> ctx_inner \<Rightarrow> ctx_inner" where
  "df_drop f c =
     (let c' = clear_token_waker (df_token f) c
      in if \<not> df_completed f then mark_token_cancelled (df_token f) (df_kind f) c' else c')"

text \<open>\<open>with_tag\<close> rewrites the action just emitted; \<open>None\<close> is one of its three panics (not an activity
  future, the token's action is not \<open>CallActivity\<close>, the token is no longer queued).\<close>

fun set_tag_first :: "id64 \<Rightarrow> string \<Rightarrow> (id64 \<times> action) list \<Rightarrow> (id64 \<times> action) list option" where
  "set_tag_first token tag [] = None"
| "set_tag_first token tag ((t, a) # rest) =
     (if t = token
      then (case a of CallActivity i n inp sess _ \<Rightarrow> Some ((t, CallActivity i n inp sess (Some tag)) # rest)
                    | _ \<Rightarrow> None)
      else map_option (Cons (t, a)) (set_tag_first token tag rest))"

definition with_tag ::
    "durable_future \<Rightarrow> string \<Rightarrow> ctx_inner \<Rightarrow> (durable_future \<times> ctx_inner) option" where
  "with_tag f tag c =
     (case df_kind f of
        SK_Activity _ \<Rightarrow>
          map_option (\<lambda>acts. (f, c\<lparr>cx_emitted_actions := acts\<rparr>))
            (set_tag_first (df_token f) tag (cx_emitted_actions c))
      | _ \<Rightarrow> None)"

subsection \<open>Scheduling\<close>

definition schedule_activity_internal ::
    "string \<Rightarrow> string \<Rightarrow> string option \<Rightarrow> ctx_inner \<Rightarrow> durable_future \<times> ctx_inner" where
  "schedule_activity_internal name input session_id c =
     (let (token, c') = emit_action (CallActivity 0 name input session_id None) c
      in (df_new token (SK_Activity name), c'))"

definition schedule_activity ::
    "string \<Rightarrow> string \<Rightarrow> ctx_inner \<Rightarrow> durable_future \<times> ctx_inner" where
  "schedule_activity name input c = schedule_activity_internal name input None c"

definition schedule_activity_on_session ::
    "string \<Rightarrow> string \<Rightarrow> string \<Rightarrow> ctx_inner \<Rightarrow> durable_future \<times> ctx_inner" where
  "schedule_activity_on_session name input session_id c =
     schedule_activity_internal name input (Some session_id) c"

text \<open>\<open>delay.as_millis() as u64\<close> truncates to 64 bits; \<open>now.saturating_add(delay_ms)\<close> saturates.\<close>

definition delay_millis :: "nanos \<Rightarrow> millis" where
  "delay_millis d = (d div 1000000) mod 2 ^ 64"

definition saturating_add_u64 :: "nat \<Rightarrow> nat \<Rightarrow> nat" where
  "saturating_add_u64 a b = min u64_max (a + b)"

definition schedule_timer :: "millis \<Rightarrow> nanos \<Rightarrow> ctx_inner \<Rightarrow> durable_future \<times> ctx_inner" where
  "schedule_timer now delay c =
     (let fire_at_ms = saturating_add_u64 now (delay_millis delay);
          (token, c') = emit_action (CreateTimer 0 fire_at_ms) c
      in (df_new token SK_Timer, c'))"

definition schedule_wait :: "string \<Rightarrow> ctx_inner \<Rightarrow> durable_future \<times> ctx_inner" where
  "schedule_wait name c =
     (let (token, c') = emit_action (WaitExternal 0 name) c
      in (df_new token (SK_ExternalWait name), c'))"

definition dequeue_event :: "string \<Rightarrow> ctx_inner \<Rightarrow> durable_future \<times> ctx_inner" where
  "dequeue_event name c =
     (let (token, c') = emit_action (DequeueEvent 0 name) c
      in (df_new token (SK_QueueDequeue name), c'))"

definition schedule_sub_orchestration_internal ::
    "string \<Rightarrow> string option \<Rightarrow> string option \<Rightarrow> string \<Rightarrow> ctx_inner
       \<Rightarrow> durable_future \<times> ctx_inner" where
  "schedule_sub_orchestration_internal name version inst input c =
     (let action_instance =
            (case inst of Some explicit_id \<Rightarrow> explicit_id
             | None \<Rightarrow> SUB_ORCH_PENDING_PREFIX @ show_nat (cx_next_token c + 1));
          (token, c') = emit_action (StartSubOrchestration 0 name version action_instance input) c
      in (df_new token (SK_SubOrchestration token), c'))"

definition schedule_orchestration_versioned ::
    "string \<Rightarrow> string option \<Rightarrow> string \<Rightarrow> string \<Rightarrow> ctx_inner \<Rightarrow> ctx_inner" where
  "schedule_orchestration_versioned name version inst input c =
     snd (emit_action (StartOrchestrationDetached 0 name version inst input) c)"

definition schedule_orchestration :: "string \<Rightarrow> string \<Rightarrow> string \<Rightarrow> ctx_inner \<Rightarrow> ctx_inner" where
  "schedule_orchestration name inst input c =
     snd (emit_action (StartOrchestrationDetached 0 name None inst input) c)"

text \<open>The future \<open>continue_as_new\<close> returns never resolves; only the action matters.\<close>

definition continue_as_new :: "string \<Rightarrow> ctx_inner \<Rightarrow> ctx_inner" where
  "continue_as_new input c = snd (emit_action (ACT_ContinueAsNew input None) c)"

definition continue_as_new_versioned :: "string \<Rightarrow> string \<Rightarrow> ctx_inner \<Rightarrow> ctx_inner" where
  "continue_as_new_versioned version input c =
     snd (emit_action (ACT_ContinueAsNew input (Some version)) c)"

subsection \<open>Custom status and key-value store\<close>

definition set_custom_status :: "string \<Rightarrow> ctx_inner \<Rightarrow> ctx_inner" where
  "set_custom_status status c =
     snd (emit_action (UpdateCustomStatus (Some status))
       (c\<lparr>cx_accumulated_custom_status := Some status\<rparr>))"

definition reset_custom_status :: "ctx_inner \<Rightarrow> ctx_inner" where
  "reset_custom_status c =
     snd (emit_action (UpdateCustomStatus None) (c\<lparr>cx_accumulated_custom_status := None\<rparr>))"

definition set_kv_value :: "millis \<Rightarrow> string \<Rightarrow> string \<Rightarrow> ctx_inner \<Rightarrow> ctx_inner" where
  "set_kv_value now key v c =
     snd (emit_action (SetKeyValue key v now)
       (c\<lparr>cx_kv_state := AList.update key v (cx_kv_state c),
          cx_kv_metadata := AList.update key now (cx_kv_metadata c)\<rparr>))"

definition get_kv_value :: "string \<Rightarrow> ctx_inner \<Rightarrow> string option" where
  "get_kv_value key c = map_of (cx_kv_state c) key"

definition get_kv_length :: "ctx_inner \<Rightarrow> nat" where
  "get_kv_length c = length (cx_kv_state c)"

definition clear_kv_value :: "string \<Rightarrow> ctx_inner \<Rightarrow> ctx_inner" where
  "clear_kv_value key c =
     snd (emit_action (ClearKeyValue key)
       (c\<lparr>cx_kv_state := AList.delete key (cx_kv_state c),
          cx_kv_metadata := AList.delete key (cx_kv_metadata c)\<rparr>))"

definition clear_all_kv_values :: "ctx_inner \<Rightarrow> ctx_inner" where
  "clear_all_kv_values c =
     snd (emit_action ACT_ClearKeyValues (c\<lparr>cx_kv_state := [], cx_kv_metadata := []\<rparr>))"

definition keys_to_clear :: "millis \<Rightarrow> ctx_inner \<Rightarrow> string list" where
  "keys_to_clear updated_before_ms c =
     map fst (filter (\<lambda>(key, ts). ts < updated_before_ms \<and> map_of (cx_kv_state c) key \<noteq> None)
       (cx_kv_metadata c))"

definition prune_kv_values_updated_before :: "millis \<Rightarrow> ctx_inner \<Rightarrow> nat \<times> ctx_inner" where
  "prune_kv_values_updated_before updated_before_ms c =
     (let ks = keys_to_clear updated_before_ms c in (length ks, fold clear_kv_value ks c))"

end
