(* ===== verification/Retry.thy ===== *)
theory Retry
  imports Futures
begin

text \<open>
  \<open>BackoffStrategy\<close>, \<open>RetryPolicy\<close> and \<open>schedule_activity_with_retry\<close> of \<open>src/src/lib.rs\<close>. A
  \<open>Duration\<close> is its number of nanoseconds, at most \<open>duration_max\<close>. The floating-point product of
  the exponential strategy, \<open>(base.as_nanos() as f64 * multiplier.powi(n)) as u128\<close>, is the
  parameter \<open>scale\<close> over an abstract type of multipliers.
\<close>

definition duration_max :: nanos where
  "duration_max = (2 ^ 64 - 1) * 1000000000 + 999999999"

definition duration_saturating_mul :: "nanos \<Rightarrow> nat \<Rightarrow> nanos" where
  "duration_saturating_mul d n = min duration_max (d * n)"

definition from_millis :: "nat \<Rightarrow> nanos" where "from_millis ms = ms * 1000000"
definition from_secs :: "nat \<Rightarrow> nanos" where "from_secs s = s * 1000000000"

datatype 'f backoff_strategy =
    BS_None
  | BS_Fixed nanos
  | BS_Linear nanos nanos
  | BS_Exponential nanos 'f nanos

text \<open>\<open>x as i32\<close> of a \<open>u32\<close>.\<close>

definition u32_as_i32 :: "nat \<Rightarrow> int" where
  "u32_as_i32 n = (if n < 2 ^ 31 then int n else int n - 2 ^ 32)"

definition delay_for_attempt ::
    "(nanos \<Rightarrow> 'f \<Rightarrow> int \<Rightarrow> nat) \<Rightarrow> 'f backoff_strategy \<Rightarrow> nat \<Rightarrow> nanos" where
  "delay_for_attempt scale b attempt =
     (case b of
        BS_None \<Rightarrow> 0
      | BS_Fixed delay \<Rightarrow> delay
      | BS_Linear base mx \<Rightarrow> min (duration_saturating_mul base attempt) mx
      | BS_Exponential base multiplier mx \<Rightarrow>
          (let delay_nanos = scale base multiplier (u32_as_i32 (attempt - 1));
               delay = min delay_nanos u64_max
           in min delay mx))"

record 'f retry_policy =
  rp_max_attempts :: nat
  rp_backoff :: "'f backoff_strategy"
  rp_timeout :: "nanos option"

text \<open>\<open>BackoffStrategy::default\<close> and \<open>RetryPolicy::new\<close>, which panics on 0 (\<open>None\<close>); \<open>two\<close> is the
  multiplier \<open>2.0\<close>.\<close>

definition backoff_default :: "'f \<Rightarrow> 'f backoff_strategy" where
  "backoff_default two = BS_Exponential (from_millis 100) two (from_secs 30)"

definition retry_policy_new :: "'f \<Rightarrow> nat \<Rightarrow> 'f retry_policy option" where
  "retry_policy_new two max_attempts =
     (if max_attempts \<ge> 1
      then Some \<lparr>rp_max_attempts = max_attempts, rp_backoff = backoff_default two, rp_timeout = None\<rparr>
      else None)"

subsection \<open>The retry loop as a state machine\<close>

text \<open>
  The \<open>async\<close> function suspends at three awaits: the race of the activity with the deadline (the
  deadline's timer is made when the race first polls it), the activity alone, and the backoff
  timer. \<open>RS_Attempt n e\<close> is the head of the loop body for attempt \<open>n\<close> with \<open>last_error = e\<close>.
\<close>

datatype retry_state =
    RS_Attempt nat string
  | RS_Race nat durable_future "durable_future option"
  | RS_Await nat durable_future
  | RS_Backoff nat string durable_future
  | RS_Done

record retry_call =
  rc_name :: string
  rc_input :: string
  rc_session :: "string option"

definition timed_out :: string where
  "timed_out = ''timeout: activity timed out''"

text \<open>The head of the loop: past the last attempt the function returns \<open>Err(last_error)\<close>.\<close>

definition retry_attempt ::
    "'f retry_policy \<Rightarrow> retry_call \<Rightarrow> nat \<Rightarrow> string \<Rightarrow> ctx_inner
       \<Rightarrow> (string + string) option \<times> retry_state \<times> ctx_inner" where
  "retry_attempt policy call attempt last_error c =
     (if rp_max_attempts policy < attempt then (Some (Inl last_error), RS_Done, c)
      else let (activity, c') = schedule_activity_internal (rc_name call) (rc_input call) (rc_session call) c
           in (None, (case rp_timeout policy of Some _ \<Rightarrow> RS_Race attempt activity None
                                              | None \<Rightarrow> RS_Await attempt activity), c'))"

text \<open>After an attempt's activity has resolved: return, or schedule the backoff timer, or go round
  the loop at once (no delay, or no attempt left).\<close>

definition retry_result ::
    "(nanos \<Rightarrow> 'f \<Rightarrow> int \<Rightarrow> nat) \<Rightarrow> 'f retry_policy \<Rightarrow> millis \<Rightarrow> nat \<Rightarrow> string + string \<Rightarrow> ctx_inner
       \<Rightarrow> (string + string) option \<times> retry_state \<times> ctx_inner" where
  "retry_result scale policy now attempt res c =
     (case res of
        Inr v \<Rightarrow> (Some (Inr v), RS_Done, c)
      | Inl e \<Rightarrow>
          if attempt < rp_max_attempts policy
          then let delay = delay_for_attempt scale (rp_backoff policy) attempt
               in if delay \<noteq> 0
                  then let (t, c') = schedule_timer now delay c in (None, RS_Backoff attempt e t, c')
                  else (None, RS_Attempt (attempt + 1) e, c)
          else (None, RS_Attempt (attempt + 1) e, c))"

text \<open>
  \<open>select_biased!\<close> polls the activity first, then the deadline. When the activity wins, the deadline
  (with its timer, if made) is dropped; when the timer wins, the activity is dropped and the
  function returns the timeout error without another attempt. \<open>Either\<close> result of the second
  component says whether the machine made a step (\<open>True\<close>) or must wait.
\<close>

definition retry_race ::
    "(nanos \<Rightarrow> 'f \<Rightarrow> int \<Rightarrow> nat) \<Rightarrow> 'f retry_policy \<Rightarrow> millis \<Rightarrow> nat \<Rightarrow> durable_future
       \<Rightarrow> durable_future option \<Rightarrow> ctx_inner
       \<Rightarrow> (string + string) option \<times> retry_state \<times> ctx_inner \<times> bool" where
  "retry_race scale policy now attempt activity deadline c =
     (case df_poll activity c of
        (Some (FO_Result res), _, c1) \<Rightarrow>
          (let c2 = (case deadline of Some t \<Rightarrow> df_drop t c1 | None \<Rightarrow> c1);
               (out, st, c3) = retry_result scale policy now attempt res c2
           in (out, st, c3, True))
      | (_, activity', c1) \<Rightarrow>
          (let (t, c2) = (case deadline of
                            Some t \<Rightarrow> (t, c1)
                          | None \<Rightarrow> schedule_timer now (opt_or (rp_timeout policy) 0) c1);
               (fired, t', c3) = df_poll t c2
           in case fired of
                Some _ \<Rightarrow> (Some (Inl timed_out), RS_Done, df_drop activity' c3, True)
              | None \<Rightarrow> (None, RS_Race attempt activity' (Some t'), c3, False)))"

definition retry_step ::
    "(nanos \<Rightarrow> 'f \<Rightarrow> int \<Rightarrow> nat) \<Rightarrow> 'f retry_policy \<Rightarrow> retry_call \<Rightarrow> millis \<Rightarrow> retry_state \<Rightarrow> ctx_inner
       \<Rightarrow> (string + string) option \<times> retry_state \<times> ctx_inner \<times> bool" where
  "retry_step scale policy call now st c =
     (case st of
        RS_Attempt attempt last_error \<Rightarrow>
          (let (out, st', c') = retry_attempt policy call attempt last_error c in (out, st', c', True))
      | RS_Race attempt activity deadline \<Rightarrow> retry_race scale policy now attempt activity deadline c
      | RS_Await attempt activity \<Rightarrow>
          (case df_poll activity c of
             (Some (FO_Result res), _, c1) \<Rightarrow>
               (let (out, st', c2) = retry_result scale policy now attempt res c1
                in (out, st', c2, True))
           | (_, activity', c1) \<Rightarrow> (None, RS_Await attempt activity', c1, False))
      | RS_Backoff attempt last_error t \<Rightarrow>
          (case df_poll t c of
             (Some _, _, c1) \<Rightarrow> (None, RS_Attempt (attempt + 1) last_error, c1, True)
           | (None, t', c1) \<Rightarrow> (None, RS_Backoff attempt last_error t', c1, False))
      | RS_Done \<Rightarrow> (None, RS_Done, c, False))"

text \<open>Steps to go: at most two per attempt left, plus where in the attempt the machine is.\<close>

fun retry_rank :: "'f retry_policy \<Rightarrow> retry_state \<Rightarrow> nat" where
  "retry_rank policy (RS_Attempt n _) = 4 * (rp_max_attempts policy + 2 - n) + 3"
| "retry_rank policy (RS_Race n _ _) = 4 * (rp_max_attempts policy + 2 - n) + 2"
| "retry_rank policy (RS_Await n _) = 4 * (rp_max_attempts policy + 2 - n) + 2"
| "retry_rank policy (RS_Backoff n _ _) = 4 * (rp_max_attempts policy + 2 - n) + 1"
| "retry_rank policy RS_Done = 0"



text \<open>
  One poll of the future runs the machine until it returns or must wait. \<open>fuel\<close> bounds the steps;
  \<open>None\<close> would be a poll that does not return, which \<open>retry_poll_returns\<close> excludes.
\<close>

fun retry_poll ::
    "nat \<Rightarrow> (nanos \<Rightarrow> 'f \<Rightarrow> int \<Rightarrow> nat) \<Rightarrow> 'f retry_policy \<Rightarrow> retry_call \<Rightarrow> millis \<Rightarrow> retry_state
       \<Rightarrow> ctx_inner \<Rightarrow> ((string + string) option \<times> retry_state \<times> ctx_inner) option" where
  "retry_poll 0 scale policy call now st c = None"
| "retry_poll (Suc fuel) scale policy call now st c =
     (case retry_step scale policy call now st c of
        (Some out, st', c', _) \<Rightarrow> Some (Some out, st', c')
      | (None, st', c', True) \<Rightarrow> retry_poll fuel scale policy call now st' c'
      | (None, st', c', False) \<Rightarrow> Some (None, st', c'))"

subsection \<open>Attempts are bounded and every poll returns\<close>

fun attempt_of :: "retry_state \<Rightarrow> nat" where
  "attempt_of (RS_Attempt n _) = n - 1"
| "attempt_of (RS_Race n _ _) = n"
| "attempt_of (RS_Await n _) = n"
| "attempt_of (RS_Backoff n _ _) = n"
| "attempt_of RS_Done = 0"

definition attempts_start_at_1 :: "retry_state \<Rightarrow> bool" where
  "attempts_start_at_1 st = (case st of RS_Attempt n _ \<Rightarrow> 1 \<le> n | _ \<Rightarrow> True)"

lemma attempts_start_at_1_simps [simp]:
  "attempts_start_at_1 (RS_Attempt n e) \<longleftrightarrow> 1 \<le> n"
  "attempts_start_at_1 (RS_Race n a d)" "attempts_start_at_1 (RS_Await n a)"
  "attempts_start_at_1 (RS_Backoff n e a)" "attempts_start_at_1 RS_Done"
  by (simp_all add: attempts_start_at_1_def)

definition retry_state_wf :: "'f retry_policy \<Rightarrow> retry_state \<Rightarrow> bool" where
  "retry_state_wf policy st \<longleftrightarrow> attempt_of st \<le> rp_max_attempts policy
     \<and> attempts_start_at_1 st"

definition call_count :: "ctx_inner \<Rightarrow> nat" where
  "call_count c = length (filter (\<lambda>(_, a). case a of CallActivity _ _ _ _ _ \<Rightarrow> True | _ \<Rightarrow> False)
     (cx_emitted_actions c))"

lemma emitted_frame [simp]:
  "cx_emitted_actions (register_token_waker t c) = cx_emitted_actions c"
  "cx_emitted_actions (clear_token_waker t c) = cx_emitted_actions c"
  "cx_emitted_actions (mark_token_cancelled t k c) = cx_emitted_actions c"
  by (simp_all add: register_token_waker_def clear_token_waker_def mark_token_cancelled_def)

lemma df_drop_emitted [simp]: "cx_emitted_actions (df_drop f c) = cx_emitted_actions c"
  by (simp add: df_drop_def Let_def)

lemma get_queue_message_emitted [simp]:
  "cx_emitted_actions (snd (get_queue_message s c)) = cx_emitted_actions c"
  by (simp add: get_queue_message_def Let_def split: option.splits)

lemma inner_poll_emitted: "cx_emitted_actions (snd (inner_poll f c)) = cx_emitted_actions c"
  by (auto simp: inner_poll_def poll_dequeue_def case_prod_unfold Let_def split: schedule_kind.splits option.splits)

lemma df_poll_emitted: "df_poll f c = (r, f', c') \<Longrightarrow> cx_emitted_actions c' = cx_emitted_actions c"
  using inner_poll_emitted [of f c]
  by (auto simp: df_poll_def split: prod.splits option.splits)

lemma call_count_df_poll: "df_poll f c = (r, f', c') \<Longrightarrow> call_count c' = call_count c"
  by (simp add: call_count_def df_poll_emitted)

lemma call_count_df_drop [simp]: "call_count (df_drop f c) = call_count c"
  by (simp add: call_count_def)

lemma call_count_timer: "schedule_timer now d c = (t, c') \<Longrightarrow> call_count c' = call_count c"
  by (auto simp: schedule_timer_def emit_action_def Let_def call_count_def)

lemma call_count_activity:
  "schedule_activity_internal n i s c = (t, c') \<Longrightarrow> call_count c' = Suc (call_count c)"
  by (auto simp: schedule_activity_internal_def emit_action_def Let_def call_count_def)

lemma retry_attempt_count:
  assumes "retry_attempt policy call n e c = (out, st', c')"
  shows "call_count c' = call_count c + (if n \<le> rp_max_attempts policy then 1 else 0)
    \<and> (n \<le> rp_max_attempts policy \<longrightarrow> out = None \<and> attempts_start_at_1 st' \<and> attempt_of st' = n \<and> retry_rank policy st' < retry_rank policy (RS_Attempt n e))
    \<and> (rp_max_attempts policy < n \<longrightarrow> out = Some (Inl e) \<and> st' = RS_Done)"
  using assms call_count_activity
  by (auto simp: retry_attempt_def split: prod.splits if_splits option.splits)

lemma retry_result_count:
  assumes "retry_result scale policy now n res c = (out, st', c')" and "n \<le> rp_max_attempts policy"
  shows "call_count c' = call_count c
    \<and> (out = None \<longrightarrow> attempts_start_at_1 st' \<and> attempt_of st' = n \<and> retry_rank policy st' < 4 * (rp_max_attempts policy + 2 - n) + 2)
    \<and> (out \<noteq> None \<longrightarrow> st' = RS_Done)"
  using assms call_count_timer
  by (auto simp: retry_result_def Let_def split: prod.splits if_splits sum.splits)

lemma retry_race_count:
  assumes "retry_race scale policy now n a d c = (out, st', c', go)" and "n \<le> rp_max_attempts policy"
  shows "call_count c' = call_count c
    \<and> (out = None \<longrightarrow> attempts_start_at_1 st' \<and> attempt_of st' = n \<and> (go \<longrightarrow> retry_rank policy st' < 4 * (rp_max_attempts policy + 2 - n) + 2))
    \<and> (out \<noteq> None \<longrightarrow> st' = RS_Done)"
  using assms
  by (auto simp: retry_race_def Let_def split: prod.splits option.splits fut_output.splits
      dest!: call_count_df_poll call_count_timer retry_result_count)


lemma retry_step_count:
  assumes "retry_step scale policy call now st c = (out, st', c', go)" and "retry_state_wf policy st"
  shows "call_count c' + attempt_of st \<le> call_count c + rp_max_attempts policy
    \<and> call_count c \<le> call_count c' \<and> (out = None \<longrightarrow> retry_state_wf policy st' \<and> call_count c' + attempt_of st = call_count c + attempt_of st'
         \<and> (go \<longrightarrow> retry_rank policy st' < retry_rank policy st))
    \<and> (out \<noteq> None \<longrightarrow> st' = RS_Done)"
proof (cases st)
  case (RS_Attempt n e)
  with assms show ?thesis
    by (auto simp: retry_step_def retry_state_wf_def split: prod.splits if_splits
        dest!: retry_attempt_count)
next
  case (RS_Race n a d)
  with assms show ?thesis
    by (auto simp: retry_step_def retry_state_wf_def dest!: retry_race_count)
next
  case (RS_Await n a)
  with assms show ?thesis
    by (auto simp: retry_step_def retry_state_wf_def Let_def
        split: prod.splits option.splits fut_output.splits
        dest!: call_count_df_poll retry_result_count)
next
  case (RS_Backoff n e t)
  with assms show ?thesis
    by (auto simp: retry_step_def retry_state_wf_def Let_def
        split: prod.splits option.splits dest!: call_count_df_poll)
next
  case RS_Done
  with assms show ?thesis by (auto simp: retry_step_def retry_state_wf_def)
qed

lemma retry_poll_returns:
  assumes "retry_state_wf policy st" and "retry_rank policy st < fuel"
  shows "retry_poll fuel scale policy call now st c \<noteq> None"
  using assms
proof (induction fuel arbitrary: st c)
  case (Suc fuel)
  obtain out st' c' go where step: "retry_step scale policy call now st c = (out, st', c', go)"
    by (cases "retry_step scale policy call now st c")
  show ?case
  proof (cases "out = None \<and> go")
    case True
    with retry_step_count [OF step Suc.prems(1)] Suc.prems(2)
    have "retry_state_wf policy st'" "retry_rank policy st' < fuel" by auto
    with Suc.IH step True show ?thesis by simp
  next
    case False
    with step show ?thesis by (cases out) (auto split: bool.splits)
  qed
qed simp


lemma retry_poll_count:
  assumes "retry_poll fuel scale policy call now st c = Some (out, st', c')" and "retry_state_wf policy st"
  shows "retry_state_wf policy st' \<and> call_count c \<le> call_count c'
    \<and> call_count c' + attempt_of st \<le> call_count c + rp_max_attempts policy
    \<and> (out = None \<longrightarrow> call_count c' + attempt_of st = call_count c + attempt_of st')
    \<and> (out \<noteq> None \<longrightarrow> st' = RS_Done)"
  using assms
proof (induction fuel arbitrary: st c)
  case (Suc fuel)
  obtain out1 s1 c1 go where step: "retry_step scale policy call now st c = (out1, s1, c1, go)"
    by (cases "retry_step scale policy call now st c")
  note count = retry_step_count [OF step Suc.prems(2)]
  show ?case
  proof (cases "out1 = None \<and> go")
    case True
    with step Suc.prems(1) have rec: "retry_poll fuel scale policy call now s1 c1 = Some (out, st', c')"
      by simp
    from True count have "retry_state_wf policy s1"
      and "call_count c1 + attempt_of st = call_count c + attempt_of s1"
      and "call_count c \<le> call_count c1" by auto
    with Suc.IH [OF rec] show ?thesis by auto
  next
    case False
    with step Suc.prems(1) have eq: "out = out1 \<and> st' = s1 \<and> c' = c1"
      by (cases out1) (auto split: bool.splits)
    from count have "retry_state_wf policy s1"
      by (cases out1) (simp_all add: retry_state_wf_def)
    with count eq show ?thesis by simp
  qed
qed simp


text \<open>
  A run of the retry future: it is polled any number of times, and between two polls the engine may
  change the context in any way (bind tokens, deliver results, drain actions). The number counts
  the \<open>CallActivity\<close> actions the polls have emitted.
\<close>

inductive retry_run ::
    "(nanos \<Rightarrow> 'f \<Rightarrow> int \<Rightarrow> nat) \<Rightarrow> 'f retry_policy \<Rightarrow> retry_call \<Rightarrow> retry_state \<Rightarrow> nat \<Rightarrow> bool"
  for scale policy call where
  start: "retry_run scale policy call (RS_Attempt 1 []) 0"
| poll: "retry_run scale policy call st n \<Longrightarrow>
     retry_poll fuel scale policy call now st c = Some (out, st', c') \<Longrightarrow>
     retry_run scale policy call st' (n + (call_count c' - call_count c))"

lemma retry_run_inv:
  assumes "retry_run scale policy call st n"
  shows "retry_state_wf policy st \<and> n \<le> rp_max_attempts policy \<and> (st \<noteq> RS_Done \<longrightarrow> n = attempt_of st)"
  using assms
proof (induction rule: retry_run.induct)
  case start
  show ?case by (simp add: retry_state_wf_def)
next
  case (poll st n fuel now c out st' c')
  note count = retry_poll_count [OF poll.hyps(2)]
  show ?case
  proof (cases "st = RS_Done")
    case True
    with poll.hyps(2) have "st' = RS_Done \<and> c' = c"
      by (cases fuel) (auto simp: retry_step_def)
    with poll.IH True show ?thesis by simp
  next
    case False
    with count poll.IH show ?thesis by (auto split: option.splits)
  qed
qed


text \<open>However the activity behaves, whatever is delivered between polls and whichever timeout and
  backoff are configured, \<open>schedule_activity_with_retry\<close> schedules the activity at most
  \<open>max_attempts\<close> times.\<close>

theorem retry_attempts_bounded:
  assumes "retry_run scale policy call st n"
  shows "n \<le> rp_max_attempts policy"
  using retry_run_inv [OF assms] by simp

definition sample_policy :: "nat retry_policy" where
  "sample_policy = \<lparr>rp_max_attempts = 2, rp_backoff = BS_None, rp_timeout = None\<rparr>"

definition sample_call :: retry_call where
  "sample_call = \<lparr>rc_name = ''a'', rc_input = ''x'', rc_session = None\<rparr>"

theorem retry_attempts_bounded_witness:
  "retry_run (\<lambda>_ _ _. 0) sample_policy sample_call
     (RS_Await 1 \<lparr>df_token = 1, df_kind = SK_Activity ''a'', df_completed = False\<rparr>) 1
   \<and> 1 \<le> rp_max_attempts sample_policy"
proof -
  let ?f = "\<lparr>df_token = 1, df_kind = SK_Activity ''a'', df_completed = False\<rparr>"
  let ?c = "ctx_new 1 ''i'' ''o'' ''1.0.0''"
  let ?c1 = "snd (emit_action (CallActivity 0 ''a'' ''x'' None None) ?c)"
  have "retry_poll 3 (\<lambda>_ _ _. 0) sample_policy sample_call 0 (RS_Attempt 1 []) ?c
      = Some (None, RS_Await 1 ?f, register_token_waker 1 ?c1)"
    by (simp add: numeral_3_eq_3 retry_step_def retry_attempt_def sample_policy_def sample_call_def
        schedule_activity_internal_def emit_action_def Let_def df_poll_def inner_poll_def df_new_def
        poll_activity_def get_result_def ctx_new_def)
  from retry_run.poll [OF retry_run.start this]
  have "retry_run (\<lambda>_ _ _. 0) sample_policy sample_call (RS_Await 1 ?f) 1"
    by (simp add: call_count_def emit_action_def ctx_new_def register_token_waker_def Let_def)
  then show ?thesis using retry_attempts_bounded by blast
qed

text \<open>One poll of the retry future always returns: from any state a run can reach, at most
  \<open>4 * max_attempts + 12\<close> steps lead to a result or to a wait.\<close>

theorem retry_poll_terminates:
  assumes "retry_run scale policy call st n"
  shows "retry_poll (4 * rp_max_attempts policy + 12) scale policy call now st c \<noteq> None"
proof (rule retry_poll_returns)
  show "retry_state_wf policy st" using retry_run_inv [OF assms] by simp
  show "retry_rank policy st < 4 * rp_max_attempts policy + 12" by (cases st) auto
qed

theorem retry_poll_terminates_witness:
  "retry_poll 20 (\<lambda>_ _ _. 0) sample_policy sample_call 0 (RS_Attempt 1 [])
     (ctx_new 1 ''i'' ''o'' ''1.0.0'') \<noteq> None"
  using retry_poll_terminates [OF retry_run.start, of sample_policy] by (simp add: sample_policy_def)

text \<open>The delay before a retry never exceeds the configured maximum, and linear backoff never
  shortens from one attempt to the next, also where the product saturates.\<close>

theorem backoff_capped:
  "delay_for_attempt scale (BS_Linear base mx) k \<le> mx
   \<and> delay_for_attempt scale (BS_Exponential base mult mx) k \<le> mx
   \<and> delay_for_attempt scale (BS_Linear base mx) k
       \<le> delay_for_attempt scale (BS_Linear base mx) (Suc k)"
  by (auto simp: delay_for_attempt_def duration_saturating_mul_def Let_def min_def)

end
