(* ===== verification/Samples.thy ===== *)
theory Samples
  imports Retry Replay_Turn
begin

text \<open>
  Small orchestrations written with the scheduling API, as handlers: the concrete instances the
  witnesses and the counterexamples of the replay theories run.
\<close>

text \<open>\<open>set_custom_status("s"); schedule_activity("a", "x").await\<close>.\<close>

datatype one_activity = OA_Start | OA_Wait durable_future | OA_End

definition one_activity_await :: "durable_future \<Rightarrow> ctx_inner
    \<Rightarrow> poll_outcome \<times> one_activity \<times> ctx_inner \<times> bool" where
  "one_activity_await f c =
     (case df_poll f c of
        (Some (FO_Result res), f', c') \<Rightarrow> (PollReady res, OA_End, df_drop f' c', False)
      | (_, f', c') \<Rightarrow> (PollPending, OA_Wait f', c', False))"

definition one_activity_poll :: "one_activity \<Rightarrow> ctx_inner
    \<Rightarrow> poll_outcome \<times> one_activity \<times> ctx_inner \<times> bool" where
  "one_activity_poll s c =
     (case s of
        OA_Start \<Rightarrow>
          (let (f, c') = schedule_activity ''a'' ''x'' (set_custom_status ''s'' c)
           in one_activity_await f c')
      | OA_Wait f \<Rightarrow> one_activity_await f c
      | OA_End \<Rightarrow> (PollPending, OA_End, c, False))"

definition one_activity_handler :: "one_activity handler" where
  "one_activity_handler = \<lparr>h_invoke = (\<lambda>_. Inr OA_Start), h_poll = one_activity_poll\<rparr>"

lemmas api_defs = schedule_activity_def schedule_activity_internal_def set_custom_status_def
  emit_action_def df_new_def df_poll_def inner_poll_def poll_activity_def get_result_def
  register_token_waker_def clear_token_waker_def df_drop_def mark_token_cancelled_def
  dequeue_event_def poll_dequeue_def get_bound_schedule_id_def drain_emitted_actions_def

lemmas sample_defs = one_activity_poll_def one_activity_await_def one_activity_handler_def

definition started_event :: event where
  "started_event = with_event_id 1 ''i'' 1 None (OrchestrationStarted ''o'' ''1.0.0'' ''x'' None None None None)"

text \<open>Two dequeues joined, each followed by an activity: \<open>f1 = dequeue_event("p"); f2 =
  dequeue_event("q")\<close>, then a join that polls the branch of \<open>f2\<close> first. \<open>None\<close> marks a branch that
  has scheduled its activity.\<close>

type_synonym two_queues = "(durable_future option \<times> durable_future option) option"

definition queue_branch :: "string \<Rightarrow> durable_future option \<Rightarrow> ctx_inner
    \<Rightarrow> durable_future option \<times> ctx_inner" where
  "queue_branch act b c =
     (case b of
        None \<Rightarrow> (None, c)
      | Some f \<Rightarrow>
          (case df_poll f c of
             (Some (FO_Data d), _, c') \<Rightarrow> (None, snd (schedule_activity act d c'))
           | (_, f', c') \<Rightarrow> (Some f', c')))"

definition two_queues_poll :: "two_queues \<Rightarrow> ctx_inner
    \<Rightarrow> poll_outcome \<times> two_queues \<times> ctx_inner \<times> bool" where
  "two_queues_poll s c =
     (let ((b1, b2), c0) =
            (case s of
               Some bs \<Rightarrow> (bs, c)
             | None \<Rightarrow> (let (f1, c1) = dequeue_event ''p'' c;
                           (f2, c2) = dequeue_event ''q'' c1 in ((Some f1, Some f2), c2)));
          (b2', c') = queue_branch ''b'' b2 c0;
          (b1', c'') = queue_branch ''a'' b1 c'
      in (PollPending, Some (b1', b2'), c'', False))"

definition two_queues_handler :: "two_queues handler" where
  "two_queues_handler = \<lparr>h_invoke = (\<lambda>_. Inr None), h_poll = two_queues_poll\<rparr>"

text \<open>\<open>schedule_activity_with_retry("a", "x", policy)\<close> with two attempts, no backoff and no timeout
  (so the clock is not read).\<close>

definition retrying_poll :: "retry_state \<Rightarrow> ctx_inner \<Rightarrow> poll_outcome \<times> retry_state \<times> ctx_inner \<times> bool" where
  "retrying_poll s c =
     (case retry_poll 20 (\<lambda>_ _ _. 0) sample_policy sample_call 0 s c of
        Some (Some res, s', c') \<Rightarrow> (PollReady res, s', c', False)
      | Some (None, s', c') \<Rightarrow> (PollPending, s', c', False)
      | None \<Rightarrow> (PollPending, s, c, True))"

definition retrying_handler :: "retry_state handler" where
  "retrying_handler = \<lparr>h_invoke = (\<lambda>_. Inr (RS_Attempt 1 [])), h_poll = retrying_poll\<rparr>"

definition activity_failure :: error_details where
  "activity_failure = Application AE_ActivityFailed ''e'' True"

text \<open>The history after the first attempt failed and the second was scheduled.\<close>

definition retrying_history :: "event list" where
  "retrying_history =
     [started_event,
      with_event_id 2 ''i'' 1 None (ActivityScheduled ''a'' ''x'' None None),
      with_event_id 3 ''i'' 1 (Some 2) (ActivityFailed activity_failure),
      with_event_id 4 ''i'' 1 None (ActivityScheduled ''a'' ''x'' None None)]"

end
