(* ===== verification/Replay_Determinism.thy ===== *)
theory Replay_Determinism
  imports Replay_Flag Samples
begin

text \<open>
  Durable replay: what one turn emits, converts and appends to the history is exactly what a later
  turn matches, so replaying the history rebuilds the orchestration's state. \<open>replay_converted\<close>
  replays a list of converted actions, \<open>turn_history_replays\<close> a whole turn;
  \<open>queue_join_breaks_replay\<close> is a run outside its hypotheses where the engine rejects the history it
  wrote itself.
\<close>
subsection \<open>Converted actions replay\<close>

text \<open>Actions nobody awaits: the engine binds their token when it converts them, but a replay does
  not (their events only consume the action).\<close>

fun is_status_or_kv :: "action \<Rightarrow> bool" where
  "is_status_or_kv (UpdateCustomStatus _) = True"
| "is_status_or_kv (SetKeyValue _ _ _) = True"
| "is_status_or_kv (ClearKeyValue _) = True"
| "is_status_or_kv ACT_ClearKeyValues = True"
| "is_status_or_kv _ = False"

fun is_dequeue_or_can :: "action \<Rightarrow> bool" where
  "is_dequeue_or_can (DequeueEvent _ _) = True"
| "is_dequeue_or_can (ACT_ContinueAsNew _ _) = True"
| "is_dequeue_or_can _ = False"

text \<open>A context without its replay flag and without the bindings of the tokens \<open>T\<close> and ids \<open>I\<close>.\<close>

definition ctx_view :: "id64 set \<Rightarrow> id64 set \<Rightarrow> ctx_inner \<Rightarrow> ctx_inner" where
  "ctx_view T I c = c\<lparr>cx_is_replaying := False,
     cx_token_bindings := cx_token_bindings c |` (- T),
     cx_schedule_bindings := cx_schedule_bindings c |` (- I)\<rparr>"

lemma ctx_view_flag [simp]: "ctx_view T I (set_is_replaying b c) = ctx_view T I c"
  by (simp add: ctx_view_def set_is_replaying_def)

definition with_bindings ::
    "bool \<Rightarrow> (id64 \<rightharpoonup> id64) \<Rightarrow> (id64 \<rightharpoonup> id64) \<Rightarrow> ctx_inner \<Rightarrow> ctx_inner" where
  "with_bindings b tb sb c =
     c\<lparr>cx_is_replaying := b, cx_token_bindings := tb, cx_schedule_bindings := sb\<rparr>"

definition agree_off :: "'a set \<Rightarrow> ('a \<rightharpoonup> 'b) \<Rightarrow> ('a \<rightharpoonup> 'b) \<Rightarrow> bool" where
  "agree_off X m m' \<longleftrightarrow> (\<forall>x. x \<notin> X \<longrightarrow> m x = m' x)"

lemma agree_off_restrict: "agree_off X m m' \<longleftrightarrow> m |` (- X) = m' |` (- X)"
  by (auto simp: agree_off_def restrict_map_def fun_eq_iff)

lemma agree_off_upd [simp]: "agree_off X m m' \<Longrightarrow> agree_off X (m(k := v)) (m'(k := v))"
  by (simp add: agree_off_def)

lemma view_eq_iff:
  "ctx_view T I c' = ctx_view T I c \<longleftrightarrow>
     (\<exists>b tb sb. c' = with_bindings b tb sb c \<and> agree_off T tb (cx_token_bindings c)
        \<and> agree_off I sb (cx_schedule_bindings c))"
proof
  assume eq: "ctx_view T I c' = ctx_view T I c"
  let ?w = "with_bindings (cx_is_replaying c') (cx_token_bindings c') (cx_schedule_bindings c')"
  have "c' = ?w (ctx_view T I c')" by (simp add: with_bindings_def ctx_view_def)
  also have "\<dots> = ?w (ctx_view T I c)" by (simp only: eq)
  also have "\<dots> = ?w c" by (simp add: with_bindings_def ctx_view_def)
  finally have "c' = ?w c" .
  moreover from arg_cong [OF eq, of cx_token_bindings] arg_cong [OF eq, of cx_schedule_bindings]
  have "agree_off T (cx_token_bindings c') (cx_token_bindings c)"
    "agree_off I (cx_schedule_bindings c') (cx_schedule_bindings c)"
    by (simp_all add: agree_off_restrict ctx_view_def)
  ultimately show "\<exists>b tb sb. c' = with_bindings b tb sb c \<and> agree_off T tb (cx_token_bindings c)
        \<and> agree_off I sb (cx_schedule_bindings c)" by blast
qed (auto simp: agree_off_restrict ctx_view_def with_bindings_def)

lemma view_bind_silent:
  assumes "t \<in> T" and "s \<in> I" and "cx_token_bindings c t = None"
  shows "ctx_view T I (bind_token t s c) = ctx_view T I c"
  unfolding view_eq_iff using assms
  by (intro exI [of _ "cx_is_replaying c"] exI [of _ "(cx_token_bindings c)(t \<mapsto> s)"]
      exI [of _ "(cx_schedule_bindings c)(s \<mapsto> t)"])
    (auto simp: with_bindings_def bind_token_def agree_off_def)

lemma view_bind:
  assumes "ctx_view T I c' = ctx_view T I c" and "t \<notin> T"
  shows "ctx_view T I (bind_token t s c') = ctx_view T I (bind_token t s c)"
proof -
  from assms(1) obtain b tb sb where c': "c' = with_bindings b tb sb c"
    and tb: "agree_off T tb (cx_token_bindings c)" and sb: "agree_off I sb (cx_schedule_bindings c)"
    by (auto simp: view_eq_iff)
  from tb assms(2) have "tb t = cx_token_bindings c t" by (simp add: agree_off_def)
  with tb sb show ?thesis
    unfolding view_eq_iff c'
    by (intro exI [of _ b] exI [of _ "tb(t \<mapsto> s)"]
        exI [of _ "(case tb t of Some old \<Rightarrow> sb(old := None) | None \<Rightarrow> sb)(s \<mapsto> t)"])
      (auto simp: with_bindings_def bind_token_def Let_def split: option.splits)
qed

lemma view_ops:
  assumes "ctx_view T I c' = ctx_view T I c"
  shows "ctx_view T I (bind_external_subscription s n c') = ctx_view T I (bind_external_subscription s n c)"
    and "ctx_view T I (bind_queue_subscription s n c') = ctx_view T I (bind_queue_subscription s n c)"
    and "ctx_view T I (bind_sub_orchestration_instance t x c') = ctx_view T I (bind_sub_orchestration_instance t x c)"
proof -
  obtain b tb sb where c': "c' = with_bindings b tb sb c" "agree_off T tb (cx_token_bindings c)"
      "agree_off I sb (cx_schedule_bindings c)"
    using assms by (auto simp: view_eq_iff)
  note w = exI [of _ b, OF exI [of _ tb, OF exI [of _ sb]]]
  show "ctx_view T I (bind_external_subscription s n c') = ctx_view T I (bind_external_subscription s n c)"
    "ctx_view T I (bind_queue_subscription s n c') = ctx_view T I (bind_queue_subscription s n c)"
    "ctx_view T I (bind_sub_orchestration_instance t x c') = ctx_view T I (bind_sub_orchestration_instance t x c)"
    unfolding view_eq_iff using c'
    by (intro w; simp add: with_bindings_def bind_external_subscription_def Let_def
        bind_queue_subscription_def bind_sub_orchestration_instance_def)+
qed

lemma bind_converted_bindings:
  "t' \<noteq> t \<Longrightarrow> cx_token_bindings (bind_converted t i a c) t' = cx_token_bindings c t'"
  by (simp add: bind_converted_def bind_token_def bind_external_subscription_def Let_def
      bind_queue_subscription_def bind_sub_orchestration_instance_def split: action.splits)

text \<open>One converted action, replayed by its event.\<close>

definition converted_event :: "replay_engine \<Rightarrow> action \<Rightarrow> event option" where
  "converted_event e a =
     action_to_event (update_action_event_id a (re_next_event_id e)) (re_instance e)
       (re_execution_id e) (re_next_event_id e)"

lemma converted_event_kind:
  "converted_event e a = Some ev \<Longrightarrow>
     action_event_kind (update_action_event_id a (re_next_event_id e)) = Some (ev_kind ev)
     \<and> ev_event_id ev = re_next_event_id e \<and> ev_source_event_id ev = None"
  by (auto simp: converted_event_def action_to_event_def)

lemma converted_event_exists: "\<not> is_dequeue_or_can a \<Longrightarrow> converted_event e a \<noteq> None"
  by (cases a) (auto simp: converted_event_def action_to_event_def)

lemma convert_action_simps:
  "convert_action (t, a) (e, c) =
     (e\<lparr>re_next_event_id := re_next_event_id e + 1,
        re_history_delta := (case converted_event e a of Some ev \<Rightarrow> re_history_delta e @ [ev]
                               | None \<Rightarrow> re_history_delta e),
        re_pending_actions := re_pending_actions e @ [update_action_event_id a (re_next_event_id e)]\<rparr>,
      bind_converted t (re_next_event_id e) (update_action_event_id a (re_next_event_id e)) c)"
  by (simp add: convert_action_def converted_event_def Let_def)

lemma apply_converted:
  assumes ev: "converted_event e a = Some ev" and a: "\<not> is_dequeue_or_can a"
    and r: "rr_emitted_actions r = (t, a) # rest"
    and view: "ctx_view T I (rr_ctx r) = ctx_view T I c"
    and T: "t \<in> T \<longleftrightarrow> is_status_or_kv a" and I: "is_status_or_kv a \<Longrightarrow> re_next_event_id e \<in> I"
    and fresh: "is_status_or_kv a \<Longrightarrow> cx_token_bindings c t = None"
  shows "\<exists>r'. apply_history_event ev r = Inr r' \<and> rr_emitted_actions r' = rest
     \<and> rr_fut r' = rr_fut r \<and> rr_must_poll r' = rr_must_poll r \<and> rr_woken r' = rr_woken r
     \<and> ctx_view T I (rr_ctx r') = ctx_view T I (bind_converted t (re_next_event_id e)
          (update_action_event_id a (re_next_event_id e)) c)"
proof -
  note k = converted_event_kind [OF ev]
  note id = k [THEN conjunct2, THEN conjunct1]
  note defs = apply_event_defs match_and_bind_schedule_def apply_chained_event_def
    consume_matching_action_def action_matches_event_kind_def bind_converted_def Let_def
  show ?thesis
  proof (cases a)
    case (CallActivity x1 x2 x3 x4 x5)
    with k have "ev_kind ev = ActivityScheduled x2 x3 x4 x5" by simp
    with CallActivity r T id view show ?thesis by (simp add: defs view_bind [OF view])
  next
    case (CreateTimer x1 x2)
    with k have "ev_kind ev = TimerCreated x2" by simp
    with CreateTimer r T id view show ?thesis by (simp add: defs view_bind [OF view])
  next
    case (WaitExternal x1 x2)
    with k have "ev_kind ev = ExternalSubscribed x2" by simp
    with WaitExternal r T id view show ?thesis by (simp add: defs view_ops [OF view_bind [OF view]])
  next
    case (StartOrchestrationDetached x1 x2 x3 x4 x5)
    with k have "ev_kind ev = OrchestrationChained x2 x4 x5" by simp
    with StartOrchestrationDetached r T id view show ?thesis by (simp add: defs view_bind [OF view])
  next
    case (StartSubOrchestration x1 x2 x3 x4 x5)
    with k have "ev_kind ev = SubOrchestrationScheduled x2 (final_sub_instance x4 (ev_event_id ev)) x5" by simp
    with StartSubOrchestration r T id view show ?thesis by (simp add: defs view_ops [OF view_bind [OF view]])
  next
    case (UpdateCustomStatus x)
    with k have "ev_kind ev = CustomStatusUpdated x" by simp
    with UpdateCustomStatus r T I fresh id view show ?thesis by (simp add: defs view_bind_silent)
  next
    case (SetKeyValue x1 x2 x3)
    with k have "ev_kind ev = KeyValueSet x1 x2 x3" by simp
    with SetKeyValue r T I fresh id view show ?thesis by (simp add: defs view_bind_silent)
  next
    case (ClearKeyValue x)
    with k have "ev_kind ev = KeyValueCleared x" by simp
    with ClearKeyValue r T I fresh id view show ?thesis by (simp add: defs view_bind_silent)
  next
    case ACT_ClearKeyValues
    with k have "ev_kind ev = KeyValuesCleared" by simp
    with ACT_ClearKeyValues r T I fresh id view show ?thesis by (simp add: defs view_bind_silent)
  qed (use a in simp_all)
qed

text \<open>The tokens and event ids of the actions nobody awaits.\<close>

definition silent_tokens :: "(id64 \<times> action) list \<Rightarrow> id64 set" where
  "silent_tokens acts = fst ` {x \<in> set acts. is_status_or_kv (snd x)}"

definition silent_ids :: "nat \<Rightarrow> (id64 \<times> action) list \<Rightarrow> id64 set" where
  "silent_ids n acts = {n + k | k. k < length acts \<and> is_status_or_kv (snd (acts ! k))}"

lemma replay_converted:
  assumes "list_all (\<lambda>(_, a). \<not> is_dequeue_or_can a) acts" and "distinct (map fst acts)"
    and "rr_emitted_actions r = acts" and "\<not> rr_must_poll r" and "\<not> rr_woken r"
    and "ctx_view T I (rr_ctx r) = ctx_view T I c"
    and "\<forall>(t, a) \<in> set acts. t \<in> T \<longleftrightarrow> is_status_or_kv a"
    and "silent_ids (re_next_event_id e) acts \<subseteq> I"
    and "\<forall>(t, a) \<in> set acts. cx_token_bindings c t = None"
  shows "\<exists>evs r'. re_history_delta (fst (convert_emitted_actions acts e c)) = re_history_delta e @ evs
     \<and> replay_events poll b i evs r = Some (Inr None, r')
     \<and> rr_emitted_actions r' = [] \<and> rr_fut r' = rr_fut r \<and> \<not> rr_must_poll r' \<and> \<not> rr_woken r'
     \<and> ctx_view T I (rr_ctx r') = ctx_view T I (snd (convert_emitted_actions acts e c))"
  using assms
proof (induction acts arbitrary: r e c i)
  case Nil
  then show ?case by (intro exI [of _ "[]"]) (simp add: convert_emitted_actions_def)
next
  case (Cons x acts)
  obtain t a where x: "x = (t, a)" by (cases x)
  define e1 c1 where "e1 = fst (convert_action (t, a) (e, c))" and "c1 = snd (convert_action (t, a) (e, c))"
  from Cons.prems(1) x have a: "\<not> is_dequeue_or_can a" by simp
  then obtain ev where ev: "converted_event e a = Some ev" using converted_event_exists by blast
  have e1: "re_next_event_id e1 = re_next_event_id e + 1" "re_history_delta e1 = re_history_delta e @ [ev]"
    by (simp_all add: e1_def convert_action_simps ev)
  have c1: "c1 = bind_converted t (re_next_event_id e) (update_action_event_id a (re_next_event_id e)) c"
    by (simp add: c1_def convert_action_simps)
  let ?r = "if i \<ge> b then run_set_is_replaying False r else r"
  have rf: "rr_fut ?r = rr_fut r" "rr_woken ?r = rr_woken r" by simp_all
  have hyps: "rr_emitted_actions (?r\<lparr>rr_must_poll := False\<rparr>) = (t, a) # acts"
    "ctx_view T I (rr_ctx (?r\<lparr>rr_must_poll := False\<rparr>)) = ctx_view T I c"
    "t \<in> T \<longleftrightarrow> is_status_or_kv a"
    "is_status_or_kv a \<Longrightarrow> re_next_event_id e \<in> I"
    "is_status_or_kv a \<Longrightarrow> cx_token_bindings c t = None"
    using Cons.prems x by (auto simp: silent_ids_def)
  from apply_converted [OF ev a hyps] obtain r2 where
    r2: "apply_history_event ev (?r\<lparr>rr_must_poll := False\<rparr>) = Inr r2" "rr_emitted_actions r2 = acts"
      "rr_fut r2 = rr_fut r" "\<not> rr_must_poll r2" "\<not> rr_woken r2"
      "ctx_view T I (rr_ctx r2) = ctx_view T I c1"
    using Cons.prems(5) rf by (auto simp: c1)
  let ?r2 = "r2\<lparr>rr_must_poll := rr_must_poll r2 \<or> rr_woken r2\<rparr>"
  have ids: "silent_ids (re_next_event_id e1) acts \<subseteq> I"
  proof
    fix j assume "j \<in> silent_ids (re_next_event_id e1) acts"
    then obtain k where "j = re_next_event_id e + Suc k" "k < length acts" "is_status_or_kv (snd (acts ! k))"
      by (auto simp: silent_ids_def e1)
    then have "j \<in> silent_ids (re_next_event_id e) (x # acts)"
      unfolding silent_ids_def by (auto intro!: exI [of _ "Suc k"])
    with Cons.prems(8) show "j \<in> I" by blast
  qed
  have fresh: "\<forall>(t, a) \<in> set acts. cx_token_bindings c1 t = None"
  proof
    fix y assume y: "y \<in> set acts"
    then have "fst y \<noteq> t" using Cons.prems(2) x by (auto simp: image_iff)
    with y Cons.prems(9) show "case y of (t, a) \<Rightarrow> cx_token_bindings c1 t = None"
      by (auto simp: c1 bind_converted_bindings)
  qed
  from Cons.IH [of ?r2 c1 e1 "i + 1"] Cons.prems r2 ids fresh obtain evs r' where
    IH: "re_history_delta (fst (convert_emitted_actions acts e1 c1)) = re_history_delta e1 @ evs"
      "replay_events poll b (i + 1) evs ?r2 = Some (Inr None, r')"
      "rr_emitted_actions r' = []" "rr_fut r' = rr_fut r2" "\<not> rr_must_poll r'" "\<not> rr_woken r'"
      "ctx_view T I (rr_ctx r') = ctx_view T I (snd (convert_emitted_actions acts e1 c1))"
    by auto
  have conv: "convert_emitted_actions (x # acts) e c = convert_emitted_actions acts e1 c1"
    by (simp add: convert_emitted_actions_def x e1_def c1_def)
  have "poll_if_needed poll ?r = Some (Inr None, ?r)"
    using Cons.prems(4) by (simp add: poll_if_needed_def)
  with IH r2 Cons.prems(4) have "replay_events poll b i (ev # evs) r = Some (Inr None, r')"
    by (simp add: Let_def)
  with IH r2(3) show ?case
    by (intro exI [of _ "ev # evs"] exI [of _ r']) (simp add: conv e1)
qed



subsection \<open>Instances\<close>

lemma inner_poll_flag: "inner_poll f (set_is_replaying b c) = apsnd (set_is_replaying b) (inner_poll f c)"
  by (simp add: inner_poll_def poll_activity_def poll_timer_def poll_wait_def poll_sub_orchestration_def
      poll_dequeue_def get_result_def get_bound_schedule_id_def get_external_event_def cancelled_below_def
      get_queue_message_def queue_arrival_index_def set_is_replaying_def Let_def
      split: schedule_kind.splits option.splits prod.splits)

lemma df_poll_flag: "df_poll f (set_is_replaying b c) =
   (case df_poll f c of (o1, f', c') \<Rightarrow> (o1, f', set_is_replaying b c'))"
proof -
  obtain v c' where e: "inner_poll f c = (v, c')" by (cases "inner_poll f c")
  then show ?thesis
    by (cases v) (simp_all add: df_poll_def inner_poll_flag, simp_all add: clear_token_waker_def
        register_token_waker_def set_is_replaying_def)
qed

lemma df_drop_flag: "df_drop f (set_is_replaying b c) = set_is_replaying b (df_drop f c)"
  by (simp add: df_drop_def Let_def clear_token_waker_def mark_token_cancelled_def set_is_replaying_def)

lemma emit_action_flag:
  "emit_action a (set_is_replaying b c) = apsnd (set_is_replaying b) (emit_action a c)"
  by (simp add: emit_action_def Let_def set_is_replaying_def)

lemma schedule_activity_flag:
  "schedule_activity n i (set_is_replaying b c) = apsnd (set_is_replaying b) (schedule_activity n i c)"
  by (simp add: schedule_activity_def schedule_activity_internal_def emit_action_flag case_prod_unfold Let_def)

lemma set_custom_status_flag:
  "set_custom_status s (set_is_replaying b c) = set_is_replaying b (set_custom_status s c)"
  by (simp add: set_custom_status_def emit_action_flag)

lemma one_activity_ignores_flag: "ignores_replay_flag one_activity_poll"
proof -
  have await: "one_activity_await f (set_is_replaying b c)
      = (case one_activity_await f c of (o1, s', c', w) \<Rightarrow> (o1, s', set_is_replaying b c', w))" for f b c
    by (simp add: one_activity_await_def df_poll_flag df_drop_flag
        split: prod.splits option.splits fut_output.splits)
  show ?thesis
    unfolding ignores_replay_flag_def
    by (auto simp: one_activity_poll_def await schedule_activity_flag set_custom_status_flag
        case_prod_unfold Let_def split: one_activity.splits)
qed

abbreviation one_activity_run where
  "one_activity_run \<equiv> initial_run OA_Start (ctx_new 1 ''i'' ''o'' ''1.0.0'')"

lemma one_activity_first:
  "\<exists>r. replay_history one_activity_poll 0 [started_event] one_activity_run = Some (Inr None, r)
     \<and> rr_emitted_actions r = [(1, UpdateCustomStatus (Some ''s'')), (2, CallActivity 0 ''a'' ''x'' None None)]
     \<and> \<not> rr_woken r \<and> cx_token_bindings (rr_ctx r) = Map.empty"
  by (simp add: replay_history_def poll_if_needed_def initial_run_def Let_def
      poll_orchestration_future.simps one_activity_poll_def one_activity_await_def api_defs after_poll_def
      run_set_is_replaying_def set_is_replaying_def ctx_new_def apply_event_defs started_event_def)

definition one_activity_actions :: "(id64 \<times> action) list" where
  "one_activity_actions = [(1, UpdateCustomStatus (Some ''s'')), (2, CallActivity 0 ''a'' ''x'' None None)]"


definition queue_arrivals_history :: "event list" where
  "queue_arrivals_history =
     [started_event, with_event_id 2 ''i'' 1 None (QueueEventDelivered ''p'' ''1''),
      with_event_id 3 ''i'' 1 None (QueueEventDelivered ''q'' ''2'')]"

definition queue_join_history :: "event list" where
  "queue_join_history = queue_arrivals_history @
     [with_event_id 4 ''i'' 1 None (QueueSubscribed ''p''),
      with_event_id 5 ''i'' 1 None (QueueSubscribed ''q''),
      with_event_id 6 ''i'' 1 None (ActivityScheduled ''b'' ''2'' None None),
      with_event_id 7 ''i'' 1 None (ActivityScheduled ''a'' ''1'' None None)]"

text \<open>Counterexample: dequeues do not have this property. Two dequeues are joined, both messages
  have arrived, and the join polls the later subscription first. The turn that makes the
  subscriptions schedules activity \<open>b\<close> and then \<open>a\<close>; the next turn, on exactly the history this
  one wrote, polls after binding only the first subscription, emits \<open>a\<close> first, and fails the
  orchestration with a nondeterminism error.\<close>

theorem queue_join_breaks_replay:
  "map_option (\<lambda>(res, e). (res, final_history e))
     (execute_orchestration two_queues_handler ''x'' ''o'' ''1.0.0''
       (with_persisted_history_len 0 (engine_new ''i'' 1 queue_arrivals_history)))
     = Some (TR_Continue, queue_join_history)
   \<and> map_option fst (execute_orchestration two_queues_handler ''x'' ''o'' ''1.0.0''
       (engine_new ''i'' 1 queue_join_history))
     = Some (TR_Failed (nondeterminism_error ''schedule mismatch''))"
  by (rule conjI; code_simp)

end
