(* ===== verification/Replay_Cancel.thy ===== *)
theory Replay_Cancel
  imports Replay_Turn
begin

text \<open>
  Dropped futures. Each of the four kinds of durable wait has its own stream of cancellation
  breadcrumbs; the contract they share is the locale \<open>breadcrumb_stream\<close>: the request event is
  recognised by the stream's reader, the side channel does not touch the history.
\<close>

definition request_sources :: "(event_kind \<Rightarrow> string option) \<Rightarrow> event list \<Rightarrow> id64 list" where
  "request_sources reason_of es =
     List.map_filter (\<lambda>ev. if reason_of (ev_kind ev) \<noteq> None then ev_source_event_id ev else None) es"

lemma already_cancelled_sources: "already_cancelled_ids r es = set (request_sources r es)"
  by (simp add: already_cancelled_ids_def request_sources_def)

lemma request_sources_append [simp]:
  "request_sources r (xs @ ys) = request_sources r xs @ request_sources r ys"
  by (simp add: request_sources_def map_filter_def)

text \<open>The ids of a list that are not in \<open>already\<close>, each once: what a stream newly requests.\<close>

fun new_ids :: "id64 set \<Rightarrow> id64 list \<Rightarrow> id64 list" where
  "new_ids already [] = []"
| "new_ids already (i # is) =
     (if i \<in> already then new_ids already is else i # new_ids (insert i already) is)"

lemma set_new_ids: "set (new_ids already is) = set is - already"
  by (induction already "is" rule: new_ids.induct) auto

lemma distinct_new_ids: "distinct (new_ids already is)"
  by (induction already "is" rule: new_ids.induct) (auto simp: set_new_ids)

lemma new_ids_subset: "set is \<subseteq> already \<Longrightarrow> new_ids already is = []"
  by (induction "is") auto

text \<open>\<open>history_frame\<close>: nothing but the side channels changed.\<close>

definition history_frame :: "replay_engine \<Rightarrow> replay_engine \<Rightarrow> bool" where
  "history_frame e e' \<longleftrightarrow> re_history_delta e' = re_history_delta e
     \<and> re_baseline_history e' = re_baseline_history e \<and> re_next_event_id e' = re_next_event_id e
     \<and> re_instance e' = re_instance e \<and> re_execution_id e' = re_execution_id e"

locale breadcrumb_stream =
  fixes reason_of :: "event_kind \<Rightarrow> string option"
    and request :: event_kind
    and side :: "id64 \<times> string \<Rightarrow> replay_engine \<Rightarrow> replay_engine"
  assumes reads_request: "reason_of request = Some dropped_future"
    and side_keeps_history: "history_frame e (side x e)"
begin

lemma emitted_history:
  "\<exists>evs. engine_history (emit_cancel_requests request side already xs e) = engine_history e @ evs
     \<and> map ev_source_event_id evs = map Some (new_ids already (map fst xs))
     \<and> (\<forall>ev \<in> set evs. ev_kind ev = request)"
proof (induction xs arbitrary: already e)
  case (Cons x xs)
  show ?case
  proof (cases "fst x \<in> already")
    case False
    let ?e = "push_breadcrumb request (fst x) (side x e)"
    from Cons.IH [of "insert (fst x) already" ?e] obtain evs where
      "engine_history (emit_cancel_requests request side (insert (fst x) already) xs ?e) = engine_history ?e @ evs"
      "map ev_source_event_id evs = map Some (new_ids (insert (fst x) already) (map fst xs))"
      "\<forall>ev \<in> set evs. ev_kind ev = request" by blast
    moreover have "\<exists>ev. engine_history ?e = engine_history e @ [ev] \<and> ev_source_event_id ev = Some (fst x)
        \<and> ev_kind ev = request"
      using side_keeps_history [of e x]
      by (simp add: push_breadcrumb_def engine_history_def history_frame_def)
    then obtain ev where "engine_history ?e = engine_history e @ [ev]" "ev_source_event_id ev = Some (fst x)"
        "ev_kind ev = request" by blast
    ultimately show ?thesis using False by (intro exI [of _ "ev # evs"]) simp
  qed (use Cons.IH in simp)
qed (auto intro: exI [of _ "[]"])

lemma emitted_sources:
  "request_sources reason_of (engine_history (emit_cancel_requests request side already xs e))
     = request_sources reason_of (engine_history e) @ new_ids already (map fst xs)"
proof -
  have "map ev_source_event_id evs = map Some is \<Longrightarrow> \<forall>ev \<in> set evs. ev_kind ev = request \<Longrightarrow>
     request_sources reason_of evs = is" for evs "is"
  proof (induction evs arbitrary: "is")
    case (Cons ev evs)
    then show ?case by (cases "is") (auto simp: request_sources_def map_filter_simps reads_request)
  qed (simp add: request_sources_def map_filter_simps)
  with emitted_history [of already xs e] show ?thesis by auto
qed

lemma other_sources:
  assumes "other request = None"
  shows "request_sources other (engine_history (emit_cancel_requests request side already xs e))
     = request_sources other (engine_history e)"
proof -
  have "\<forall>ev \<in> set evs. ev_kind ev = request \<Longrightarrow> request_sources other evs = []" for evs
    using assms by (induction evs) (auto simp: request_sources_def map_filter_simps)
  with emitted_history [of already xs e] show ?thesis by auto
qed

text \<open>With \<open>already\<close> read off the history, a stream never requests a schedule twice, and asking again
  for the same schedules changes nothing.\<close>

lemma requests_stay_distinct:
  assumes "distinct (request_sources reason_of (engine_history e))"
  shows "distinct (request_sources reason_of (engine_history
           (emit_cancel_requests request side (set (request_sources reason_of (engine_history e))) xs e)))"
  using assms by (auto simp: emitted_sources set_new_ids distinct_new_ids)

lemma nothing_new: "fst ` set xs \<subseteq> already \<Longrightarrow> emit_cancel_requests request side already xs e = e"
  by (induction xs) auto

end

interpretation activity_stream: breadcrumb_stream
  activity_cancel_reason "ActivityCancelRequested dropped_future" side_activity
  by unfold_locales (simp_all add: history_frame_def side_activity_def)

interpretation sub_orch_stream: breadcrumb_stream
  sub_orch_cancel_reason "SubOrchestrationCancelRequested dropped_future" side_sub_orch
  by unfold_locales (simp_all add: history_frame_def side_sub_orch_def)

interpretation external_stream: breadcrumb_stream
  external_cancel_reason "ExternalSubscribedCancelled dropped_future" no_side
  by unfold_locales (simp_all add: history_frame_def no_side_def)

interpretation queue_stream: breadcrumb_stream
  queue_cancel_reason "QueueSubscriptionCancelled dropped_future" no_side
  by unfold_locales (simp_all add: history_frame_def no_side_def)

lemmas stream_sources = activity_stream.emitted_sources sub_orch_stream.emitted_sources
  external_stream.emitted_sources queue_stream.emitted_sources
  activity_stream.other_sources sub_orch_stream.other_sources
  external_stream.other_sources queue_stream.other_sources

lemma plain_ids_fst [simp]: "map fst (plain_ids is) = is"
  by (induction "is") (simp_all add: plain_ids_def)

text \<open>What each stream of the history holds after \<open>emit_cancellations\<close>.\<close>

lemma emit_cancellations_sources:
  "request_sources activity_cancel_reason (engine_history (emit_cancellations c e)) =
     request_sources activity_cancel_reason (engine_history e)
       @ new_ids (set (request_sources activity_cancel_reason (engine_history e))) (get_cancelled_activity_ids c)"
  "request_sources sub_orch_cancel_reason (engine_history (emit_cancellations c e)) =
     request_sources sub_orch_cancel_reason (engine_history e)
       @ new_ids (set (request_sources sub_orch_cancel_reason (engine_history e)))
           (map fst (get_cancelled_sub_orchestration_cancellations c))"
  "request_sources external_cancel_reason (engine_history (emit_cancellations c e)) =
     request_sources external_cancel_reason (engine_history e)
       @ new_ids (set (request_sources external_cancel_reason (engine_history e))) (get_cancelled_external_wait_ids c)"
  "request_sources queue_cancel_reason (engine_history (emit_cancellations c e)) =
     request_sources queue_cancel_reason (engine_history e)
       @ new_ids (set (request_sources queue_cancel_reason (engine_history e))) (get_cancelled_queue_ids c)"
  by (simp_all add: emit_cancellations_def Let_def already_cancelled_sources stream_sources)

lemma emit_side_activity:
  "re_cancelled_activity_ids (emit_cancel_requests k side_activity already xs e)
     = re_cancelled_activity_ids e @ new_ids already (map fst xs)"
  by (induction xs arbitrary: already e) (simp_all add: push_breadcrumb_def side_activity_def)

lemma emit_side_sub_orch:
  "length (re_cancelled_sub_orchestration_ids (emit_cancel_requests k side_sub_orch already xs e))
     = length (re_cancelled_sub_orchestration_ids e) + length (new_ids already (map fst xs))"
  by (induction xs arbitrary: already e) (simp_all add: push_breadcrumb_def side_sub_orch_def)

lemma emit_other_side:
  "(\<And>x e. re_cancelled_activity_ids (side x e) = re_cancelled_activity_ids e) \<Longrightarrow>
   re_cancelled_activity_ids (emit_cancel_requests k side already xs e) = re_cancelled_activity_ids e"
  "(\<And>x e. re_cancelled_sub_orchestration_ids (side x e) = re_cancelled_sub_orchestration_ids e) \<Longrightarrow>
   re_cancelled_sub_orchestration_ids (emit_cancel_requests k side already xs e)
     = re_cancelled_sub_orchestration_ids e"
  by (induction xs arbitrary: already e) (simp_all add: push_breadcrumb_def del: split_paired_All)

text \<open>Every dropped activity is cancelled exactly once: a turn appends to the lock-stealing side
  channel, and records in the history, precisely the bound activities dropped so far that no
  earlier request names, each once; and it sends one \<open>CancelInstance\<close> per newly requested
  sub-orchestration.\<close>

theorem dropped_activity_cancelled_once:
  "let requested = request_sources activity_cancel_reason (engine_history e);
       e' = emit_cancellations c e;
       new = new_ids (set requested) (get_cancelled_activity_ids c);
       sub_requested = request_sources sub_orch_cancel_reason (engine_history e)
   in re_cancelled_activity_ids e' = re_cancelled_activity_ids e @ new
      \<and> request_sources activity_cancel_reason (engine_history e') = requested @ new
      \<and> distinct new \<and> set new = set (get_cancelled_activity_ids c) - set requested
      \<and> length (re_cancelled_sub_orchestration_ids e') =
          length (re_cancelled_sub_orchestration_ids e)
          + card (fst ` set (get_cancelled_sub_orchestration_cancellations c) - set sub_requested)"
proof -
  have card: "length (new_ids s is) = card (set is - s)" for s "is"
    using distinct_card [OF distinct_new_ids [of s "is"]] by (simp add: set_new_ids)
  have sides: "re_cancelled_activity_ids (side_sub_orch x e) = re_cancelled_activity_ids e"
    "re_cancelled_activity_ids (no_side x e) = re_cancelled_activity_ids e"
    "re_cancelled_sub_orchestration_ids (side_activity x e) = re_cancelled_sub_orchestration_ids e"
    "re_cancelled_sub_orchestration_ids (no_side x e) = re_cancelled_sub_orchestration_ids e" for x e
    by (simp_all add: side_sub_orch_def no_side_def side_activity_def)
  show ?thesis
    unfolding Let_def
    by (intro conjI emit_cancellations_sources distinct_new_ids set_new_ids)
      (simp_all add: emit_cancellations_def Let_def already_cancelled_sources emit_side_activity
        emit_side_sub_orch emit_other_side sides card)
qed

text \<open>Recording the cancellations is idempotent: collecting the same dropped futures again
  appends no event, assigns no id and sends nothing to the provider.\<close>

theorem cancellation_idempotent:
  "emit_cancellations c (emit_cancellations c e) = emit_cancellations c e"
proof -
  let ?e = "emit_cancellations c e"
  have sub: "set is \<subseteq> set (requested @ new_ids (set requested) is)" for "is" requested :: "id64 list"
    by (auto simp: set_new_ids)
  have a: "fst ` set (plain_ids (get_cancelled_activity_ids c))
        \<subseteq> set (request_sources activity_cancel_reason (engine_history ?e))"
    and s: "fst ` set (get_cancelled_sub_orchestration_cancellations c)
        \<subseteq> set (request_sources sub_orch_cancel_reason (engine_history ?e))"
    and x: "fst ` set (plain_ids (get_cancelled_external_wait_ids c))
        \<subseteq> set (request_sources external_cancel_reason (engine_history ?e))"
    and q: "fst ` set (plain_ids (get_cancelled_queue_ids c))
        \<subseteq> set (request_sources queue_cancel_reason (engine_history ?e))"
    unfolding emit_cancellations_sources set_map [symmetric] plain_ids_fst by (rule sub)+
  show ?thesis
    by (subst emit_cancellations_def)
      (simp add: Let_def already_cancelled_sources activity_stream.nothing_new [OF a]
        sub_orch_stream.nothing_new [OF s] external_stream.nothing_new [OF x] queue_stream.nothing_new [OF q])
qed

text \<open>The dropped-future requests of a history: a part of all requests of the stream.\<close>

lemma dropped_subset: "set (baseline_dropped_requests r es) \<subseteq> set (request_sources r es)"
  by (auto simp: baseline_dropped_requests_def request_sources_def map_filter_def split: if_splits)

lemma check_stream_None:
  "set (baseline_dropped_requests r es) \<subseteq> set ids \<inter> set (baseline_schedules sch es)
    \<Longrightarrow> check_cancel_stream msg r sch ids es = None"
  by (simp add: check_cancel_stream_def Let_def)

lemma baseline_dropped_append [simp]:
  "baseline_dropped_requests r (xs @ ys) = baseline_dropped_requests r xs @ baseline_dropped_requests r ys"
  by (simp add: baseline_dropped_requests_def map_filter_def)

context breadcrumb_stream
begin

lemma emitted_dropped:
  "set (baseline_dropped_requests reason_of (engine_history (emit_cancel_requests request side already xs e)))
     \<subseteq> set (baseline_dropped_requests reason_of (engine_history e)) \<union> set (map fst xs)"
proof -
  obtain evs where evs: "engine_history (emit_cancel_requests request side already xs e) = engine_history e @ evs"
    "map ev_source_event_id evs = map Some (new_ids already (map fst xs))"
    using emitted_history [of already xs e] by blast
  have "set (baseline_dropped_requests reason_of evs) \<subseteq> set (map fst xs)"
  proof
    fix i assume "i \<in> set (baseline_dropped_requests reason_of evs)"
    then have "Some i \<in> set (map ev_source_event_id evs)"
      by (auto simp: baseline_dropped_requests_def map_filter_def image_iff split: if_splits)
    then show "i \<in> set (map fst xs)" by (auto simp: evs(2) set_new_ids)
  qed
  then show ?thesis by (auto simp: evs(1))
qed

lemma other_dropped:
  assumes "other request = None"
  shows "baseline_dropped_requests other (engine_history (emit_cancel_requests request side already xs e))
     = baseline_dropped_requests other (engine_history e)"
proof -
  have "\<forall>ev \<in> set evs. ev_kind ev = request \<Longrightarrow> baseline_dropped_requests other evs = []" for evs
    using assms by (induction evs) (auto simp: baseline_dropped_requests_def map_filter_simps)
  with emitted_history [of already xs e] show ?thesis by auto
qed

lemma schedules_kept:
  "set (baseline_schedules sch (engine_history e))
     \<subseteq> set (baseline_schedules sch (engine_history (emit_cancel_requests request side already xs e)))"
  using emitted_history [of already xs e] by (auto simp: baseline_schedules_def)

end

text \<open>A history and a context agree on one stream: the recorded requests are futures the code drops,
  and these are schedules of the history.\<close>

definition stream_consistent ::
    "(event_kind \<Rightarrow> string option) \<Rightarrow> (event_kind \<Rightarrow> bool) \<Rightarrow> id64 list \<Rightarrow> event list \<Rightarrow> bool" where
  "stream_consistent r sch ids es \<longleftrightarrow>
     set (baseline_dropped_requests r es) \<subseteq> set ids \<and> set ids \<subseteq> set (baseline_schedules sch es)"

definition cancellations_consistent :: "ctx_inner \<Rightarrow> event list \<Rightarrow> bool" where
  "cancellations_consistent c es \<longleftrightarrow>
     stream_consistent activity_cancel_reason is_activity_scheduled (get_cancelled_activity_ids c) es
     \<and> stream_consistent sub_orch_cancel_reason is_sub_orch_scheduled
         (map fst (get_cancelled_sub_orchestration_cancellations c)) es
     \<and> stream_consistent external_cancel_reason is_external_subscribed (get_cancelled_external_wait_ids c) es
     \<and> stream_consistent queue_cancel_reason is_queue_subscribed (get_cancelled_queue_ids c) es"

lemma stream_consistent_check:
  "stream_consistent r sch ids es \<Longrightarrow> check_cancel_stream msg r sch ids es = None"
  by (rule check_stream_None) (auto simp: stream_consistent_def)

lemma consistent_check:
  "cancellations_consistent c hist \<Longrightarrow> check_cancellations (engine_new i x hist) c = None"
  by (simp add: cancellations_consistent_def check_cancellations_def engine_new_def stream_consistent_check)

lemma emit_keeps_consistent:
  assumes "cancellations_consistent c (engine_history e)"
  shows "cancellations_consistent c (engine_history (emit_cancellations c e))"
proof -
  let ?H = "engine_history (emit_cancellations c e)"
  have sch: "set (baseline_schedules s (engine_history e)) \<subseteq> set (baseline_schedules s ?H)" for s
    unfolding emit_cancellations_def Let_def
    by (rule order_trans [OF activity_stream.schedules_kept order_trans [OF sub_orch_stream.schedules_kept
          order_trans [OF external_stream.schedules_kept queue_stream.schedules_kept]]])
  note dropped = activity_stream.emitted_dropped sub_orch_stream.emitted_dropped
    external_stream.emitted_dropped queue_stream.emitted_dropped
  note other = activity_stream.other_dropped sub_orch_stream.other_dropped
    external_stream.other_dropped queue_stream.other_dropped
  have "set (baseline_dropped_requests activity_cancel_reason ?H)
      \<subseteq> set (baseline_dropped_requests activity_cancel_reason (engine_history e)) \<union> set (get_cancelled_activity_ids c)"
    "set (baseline_dropped_requests sub_orch_cancel_reason ?H)
      \<subseteq> set (baseline_dropped_requests sub_orch_cancel_reason (engine_history e))
        \<union> set (map fst (get_cancelled_sub_orchestration_cancellations c))"
    "set (baseline_dropped_requests external_cancel_reason ?H)
      \<subseteq> set (baseline_dropped_requests external_cancel_reason (engine_history e)) \<union> set (get_cancelled_external_wait_ids c)"
    "set (baseline_dropped_requests queue_cancel_reason ?H)
      \<subseteq> set (baseline_dropped_requests queue_cancel_reason (engine_history e)) \<union> set (get_cancelled_queue_ids c)"
    unfolding emit_cancellations_def Let_def
    by (simp_all add: other del: set_map,
        (rule order_trans [OF dropped(1)] order_trans [OF dropped(2)] order_trans [OF dropped(3)]
          order_trans [OF dropped(4)]; simp add: other del: set_map)+)
  with assms sch show ?thesis
    by (auto simp: cancellations_consistent_def stream_consistent_def subset_iff)
qed

text \<open>C33. A turn's cancellation breadcrumbs are accepted by every later replay whose code drops the same
  futures: if the history and the context agree before the breadcrumbs are written, they agree
  after, and an engine over the longer history finds no cancellation mismatch.\<close>

theorem recorded_cancellations_replay:
  assumes "cancellations_consistent c (engine_history e)"
  shows "cancellations_consistent c (engine_history (emit_cancellations c e))
    \<and> check_cancellations (engine_new i x (engine_history (emit_cancellations c e))) c = None"
  using emit_keeps_consistent [OF assms] consistent_check by blast

definition dropped_activity_ctx :: ctx_inner where
  "dropped_activity_ctx =
     mark_token_cancelled 1 (SK_Activity ''a'') (bind_token 1 2 (ctx_new 1 ''i'' ''o'' ''1.0.0''))"

definition activity_history :: "event list" where
  "activity_history =
     [with_event_id 1 ''i'' 1 None (OrchestrationStarted ''o'' ''1.0.0'' ''x'' None None None None),
      with_event_id 2 ''i'' 1 None (ActivityScheduled ''a'' ''x'' None None)]"

lemma dropped_activity_ctx_ids:
  "get_cancelled_activity_ids dropped_activity_ctx = [2]"
  "get_cancelled_sub_orchestration_cancellations dropped_activity_ctx = []"
  "get_cancelled_external_wait_ids dropped_activity_ctx = []"
  "get_cancelled_queue_ids dropped_activity_ctx = []"
  by (simp_all add: dropped_activity_ctx_def get_cancelled_activity_ids_def get_cancelled_queue_ids_def
      get_cancelled_sub_orchestration_cancellations_def get_cancelled_external_wait_ids_def
      cancelled_ids_of_def mark_token_cancelled_def bind_token_def ctx_new_def map_filter_simps)

theorem recorded_cancellations_replay_witness:
  "check_cancellations (engine_new ''i'' 1
     (engine_history (emit_cancellations dropped_activity_ctx (engine_new ''i'' 1 activity_history))))
     dropped_activity_ctx = None"
proof -
  have "cancellations_consistent dropped_activity_ctx
      (engine_history (engine_new ''i'' 1 activity_history))"
    by (simp add: cancellations_consistent_def stream_consistent_def dropped_activity_ctx_ids
        activity_history_def engine_new_def engine_history_def baseline_dropped_requests_def
        baseline_schedules_def map_filter_simps)
  then show ?thesis using recorded_cancellations_replay by blast
qed

definition cancel_streams :: "ctx_inner \<Rightarrow> ((event_kind \<Rightarrow> string option) \<times> id64 list) list" where
  "cancel_streams c =
     [(activity_cancel_reason, get_cancelled_activity_ids c),
      (sub_orch_cancel_reason, map fst (get_cancelled_sub_orchestration_cancellations c)),
      (external_cancel_reason, get_cancelled_external_wait_ids c),
      (queue_cancel_reason, get_cancelled_queue_ids c)]"

lemma check_stream_Some:
  assumes "i \<in> set (baseline_dropped_requests r es)" and "i \<notin> set ids"
  shows "check_cancel_stream msg r sch ids es = Some (nondeterminism msg)"
  using assms by (auto simp: check_cancel_stream_def Let_def)

lemma check_stream_cases:
  "check_cancel_stream msg r sch ids es = None \<or> check_cancel_stream msg r sch ids es = Some (nondeterminism msg)"
  by (simp add: check_cancel_stream_def Let_def)

text \<open>A removed drop is detected: if the persisted history says that a future was dropped and the
  code of this replay did not drop it, whatever its kind, the turn fails with a nondeterminism
  error before anything is recorded or cancelled.\<close>

theorem removed_drop_detected:
  assumes "0 < re_persisted_history_len e" and "(r, ids) \<in> set (cancel_streams c)"
    and "i \<in> set (baseline_dropped_requests r (take (re_persisted_history_len e) (re_baseline_history e)))"
    and "i \<notin> set ids"
  shows "\<exists>msg. collect_cancelled_from_context e c = (Some (nondeterminism msg), e, c)"
proof -
  have some: "check_cancel_stream msg r sch ids
      (take (re_persisted_history_len e) (re_baseline_history e)) = Some (nondeterminism msg)" for msg sch
    by (rule check_stream_Some [OF assms(3,4)])
  let ?C = "\<lambda>msg r sch ids. check_cancel_stream msg r sch ids
      (take (re_persisted_history_len e) (re_baseline_history e))"
  note cases = check_stream_cases [where es = "take (re_persisted_history_len e) (re_baseline_history e)"]
  have "\<exists>msg. check_cancellations e c = Some (nondeterminism msg)"
    using assms(1,2) some
      cases [of "''cancellation mismatch (activities)''" activity_cancel_reason is_activity_scheduled "get_cancelled_activity_ids c"]
      cases [of "''cancellation mismatch (sub-orchestrations)''" sub_orch_cancel_reason is_sub_orch_scheduled
        "map fst (get_cancelled_sub_orchestration_cancellations c)"]
      cases [of "''cancellation mismatch (external waits)''" external_cancel_reason is_external_subscribed
        "get_cancelled_external_wait_ids c"]
    by (auto simp: check_cancellations_def Let_def cancel_streams_def)
  then show ?thesis by (auto simp: collect_cancelled_from_context_def)
qed

theorem removed_drop_detected_witness:
  "\<exists>msg. collect_cancelled_from_context (engine_new ''i'' 1 (activity_history
       @ [with_event_id 3 ''i'' 1 (Some 2) (ActivityCancelRequested dropped_future)]))
     (ctx_new 1 ''i'' ''o'' ''1.0.0'')
     = (Some (nondeterminism msg), engine_new ''i'' 1 (activity_history
       @ [with_event_id 3 ''i'' 1 (Some 2) (ActivityCancelRequested dropped_future)]),
       ctx_new 1 ''i'' ''o'' ''1.0.0'')"
  by (rule removed_drop_detected [where r = activity_cancel_reason and ids = "[]" and i = 2])
    (simp_all add: engine_new_def activity_history_def cancel_streams_def get_cancelled_activity_ids_def
      cancelled_ids_of_def ctx_new_def map_filter_simps baseline_dropped_requests_def)

end
