(* ===== verification/Replay_Ids.thy ===== *)
theory Replay_Ids
  imports Samples
begin

text \<open>
  The history only grows: every operation of the engine appends events with fresh, increasing ids
  that carry the engine's instance and execution, none of them terminal. \<open>grows\<close> is the relation between the engine before
  and after; it is reflexive and transitive, and each operation is one lemma.
\<close>

definition appends :: "event list \<Rightarrow> replay_engine \<Rightarrow> replay_engine \<Rightarrow> bool" where
  "appends evs e e' \<longleftrightarrow>
     re_history_delta e' = re_history_delta e @ evs
     \<and> re_baseline_history e' = re_baseline_history e
     \<and> re_instance e' = re_instance e \<and> re_execution_id e' = re_execution_id e
     \<and> re_next_event_id e \<le> re_next_event_id e'
     \<and> sorted_wrt (<) (map ev_event_id evs)
     \<and> (\<forall>ev \<in> set evs. re_next_event_id e \<le> ev_event_id ev \<and> ev_event_id ev < re_next_event_id e'
          \<and> ev_instance_id ev = re_instance e \<and> ev_execution_id ev = re_execution_id e
          \<and> \<not> is_terminal ev)"

definition grows :: "replay_engine \<Rightarrow> replay_engine \<Rightarrow> bool" where
  "grows e e' \<longleftrightarrow> (\<exists>evs. appends evs e e')"

lemma grows_refl [simp, intro]: "grows e e"
  unfolding grows_def appends_def by (intro exI [of _ "[]"]) simp

lemma appends_trans: "appends xs e e' \<Longrightarrow> appends ys e' e'' \<Longrightarrow> appends (xs @ ys) e e''"
  unfolding appends_def by (fastforce simp: sorted_wrt_append)

lemma grows_trans [trans]: "grows e e' \<Longrightarrow> grows e' e'' \<Longrightarrow> grows e e''"
  unfolding grows_def using appends_trans by blast

lemma grows_push_event [simp]:
  "ev_instance_id ev = re_instance e \<Longrightarrow> ev_execution_id ev = re_execution_id e \<Longrightarrow> \<not> is_terminal ev \<Longrightarrow>
   grows e (push_event ev e)"
  unfolding grows_def appends_def push_event_def
  by (intro exI [of _ "[set_event_id ev (re_next_event_id e)]"]) (simp add: is_terminal_def)

lemma completion_event_origin:
  "completion_event e m = Some ev \<Longrightarrow>
     ev_instance_id ev = re_instance e \<and> ev_execution_id ev = re_execution_id e \<and> \<not> is_terminal ev"
  by (cases m) (auto simp: is_terminal_def split: if_splits)

lemma note_abort_frame [simp]:
  "re_history_delta (note_abort d e) = re_history_delta e"
  "re_baseline_history (note_abort d e) = re_baseline_history e"
  "re_instance (note_abort d e) = re_instance e"
  "re_execution_id (note_abort d e) = re_execution_id e"
  "re_next_event_id (note_abort d e) = re_next_event_id e"
  "re_pending_actions (note_abort d e) = re_pending_actions e"
  by (simp_all add: note_abort_def split: option.splits)

lemma grows_frame:
  "re_history_delta e' = re_history_delta e \<Longrightarrow> re_baseline_history e' = re_baseline_history e \<Longrightarrow>
   re_instance e' = re_instance e \<Longrightarrow> re_execution_id e' = re_execution_id e \<Longrightarrow>
   re_next_event_id e' = re_next_event_id e \<Longrightarrow> grows e e'"
  unfolding grows_def appends_def by (intro exI [of _ "[]"]) simp

lemma grows_prep_completion: "grows e (prep_completion m e)"
proof -
  let ?e = "note_abort (system_error_of m) e"
  have "grows e ?e" by (rule grows_frame) simp_all
  moreover have "grows ?e (push_event ev ?e)" if "completion_event e m = Some ev" for ev
    using completion_event_origin [OF that] by simp
  moreover have "grows e (e\<lparr>re_abort_error := Some err\<rparr>)" for err
    by (rule grows_frame) simp_all
  ultimately show ?thesis
    by (auto simp: prep_completion_def Let_def intro: grows_trans split: option.splits)
qed

lemma grows_fold: "(\<And>x e. grows e (f x e)) \<Longrightarrow> grows e (fold f xs e)"
  by (induction xs arbitrary: e) (auto intro: grows_trans)

lemma grows_prep_completions: "grows e (prep_completions ms e)"
  unfolding prep_completions_def by (rule grows_fold) (rule grows_prep_completion)

lemma converted_not_terminal: "action_event_kind a = Some k \<Longrightarrow> \<not> is_terminal_kind k"
  by (cases a) auto

lemma grows_convert_action: "grows e (fst (convert_action x (e, c)))"
proof -
  obtain t a where x: "x = (t, a)" by (cases x)
  let ?a = "update_action_event_id a (re_next_event_id e)"
  let ?ev = "action_to_event ?a (re_instance e) (re_execution_id e) (re_next_event_id e)"
  show ?thesis
    unfolding x grows_def appends_def convert_action_def Let_def
    by (cases ?ev; intro exI [of _ "case ?ev of Some ev \<Rightarrow> [ev] | None \<Rightarrow> []"])
      (auto simp: action_to_event_def is_terminal_def converted_not_terminal)
qed

lemma grows_convert: "grows e (fst (convert_emitted_actions acts e c))"
proof (induction acts arbitrary: e c)
  case (Cons x acts)
  obtain e1 c1 where x: "convert_action x (e, c) = (e1, c1)" by (cases "convert_action x (e, c)")
  with grows_convert_action [of e x c] have "grows e e1" by simp
  also have "grows e1 (fst (convert_emitted_actions acts e1 c1))" by (rule Cons.IH)
  finally show ?case using x by (simp add: convert_emitted_actions_def)
qed (simp add: convert_emitted_actions_def)

lemma grows_push_breadcrumb: "\<not> is_terminal_kind k \<Longrightarrow> grows e (push_breadcrumb k i e)"
  unfolding grows_def appends_def push_breadcrumb_def
  by (intro exI [of _ "[with_event_id (re_next_event_id e) (re_instance e) (re_execution_id e) (Some i) k]"])
    (simp add: is_terminal_def)

lemma grows_emit_cancel_requests:
  "\<not> is_terminal_kind k \<Longrightarrow> (\<And>x e. grows e (side x e)) \<Longrightarrow> grows e (emit_cancel_requests k side already xs e)"
proof (induction xs arbitrary: already e)
  case (Cons x xs)
  have "grows e (push_breadcrumb k (fst x) (side x e))"
    using Cons.prems(2) grows_push_breadcrumb [OF Cons.prems(1)] grows_trans by blast
  with Cons.IH [OF Cons.prems] show ?case
    by (simp add: grows_trans)
qed simp

lemma grows_sides: "grows e (side_activity x e)" "grows e (side_sub_orch x e)" "grows e (no_side x e)"
  by (rule grows_frame; simp add: side_activity_def side_sub_orch_def no_side_def)+

lemma grows_emit_cancellations: "grows e (emit_cancellations c e)"
  unfolding emit_cancellations_def Let_def
  by (intro grows_trans [OF _ grows_emit_cancel_requests] grows_emit_cancel_requests grows_sides) simp_all

text \<open>
  What a turn does to the engine, step by step: it converts emitted actions and, at the end, emits
  cancellations. A relation that both respect relates the engine before the turn to the one after it.
\<close>

lemma quiescence_relation:
  assumes refl: "\<And>e. R e e" and trans: "\<And>a b c. R a b \<Longrightarrow> R b c \<Longrightarrow> R a c"
    and conv: "\<And>acts e c. R e (fst (convert_emitted_actions acts e c))"
  shows "quiescence_loop poll n out r e = Some (res, r', e') \<Longrightarrow> R e e'"
proof (induction poll n out r e arbitrary: res r' e' rule: quiescence_loop.induct)
  case (2 poll n out r e)
  show ?case
  proof (cases "out \<noteq> None \<or> re_pending_actions e = []")
    case False
    from 2(2) False show ?thesis
    proof (cases "poll_orchestration_future poll r")
      case (Some p)
      obtain q r1 where p: "p = (q, r1)" by (cases p)
      show ?thesis
      proof (cases q)
        case (Inr out')
        obtain e2 c2 where c: "convert_emitted_actions (rr_emitted_actions r1) e (rr_ctx r1) = (e2, c2)"
          by (cases "convert_emitted_actions (rr_emitted_actions r1) e (rr_ctx r1)")
        have g: "R e e2" using conv [of e "rr_emitted_actions r1" "rr_ctx r1"] by (simp add: c)
        show ?thesis
          using 2 False Some p Inr c g by (auto simp: Let_def intro: trans split: if_splits)
      qed (use 2(2) False Some p refl in auto)
    qed auto
  qed (use 2 refl in auto)
qed (auto simp: refl)

lemma execute_relation:
  assumes refl: "\<And>e. R e e" and trans: "\<And>a b c. R a b \<Longrightarrow> R b c \<Longrightarrow> R a c"
    and conv: "\<And>acts e c. R e (fst (convert_emitted_actions acts e c))"
    and canc: "\<And>e c. R e (emit_cancellations c e)"
    and ex: "execute_orchestration h input n v e = Some (res, e')"
  shows "R e e'"
proof -
  have fin: "R e1 (snd (finalize_turn out e1 c))" for out e1 c
    by (simp add: finalize_turn_def collect_cancelled_from_context_def canc refl split: option.splits)
  have comp: "R e e1" if c: "complete_turn h out r e = Some (res1, e1)" for out r res1 e1
  proof -
    obtain e2 c2 where cv: "convert_emitted_actions (rr_emitted_actions r) e
        (mark_cancelled_queue_waits (rr_ctx r)) = (e2, c2)"
      by (cases "convert_emitted_actions (rr_emitted_actions r) e (mark_cancelled_queue_waits (rr_ctx r))")
    then have g: "R e e2" using conv by (metis fst_conv)
    from c cv obtain q r3 e3 where q: "run_quiescence_loop (h_poll h) out (r\<lparr>rr_ctx := c2\<rparr>) e2 = Some (q, r3, e3)"
      by (auto simp: complete_turn_def split: option.splits)
    then have "R e2 e3" unfolding run_quiescence_loop_def by (rule quiescence_relation [where R = R, rotated -1]) (rule refl, erule (1) trans, rule conv)
    with g have g3: "R e e3" by (rule trans)
    show ?thesis
    proof (cases q)
      case (Inl err)
      with c cv q g3 show ?thesis by (simp add: complete_turn_def)
    next
      case (Inr out')
      with c cv q have "finalize_turn out' e3 (rr_ctx r3) = (res1, e1)" by (simp add: complete_turn_def)
      with fin have "R e3 e1" by (metis snd_conv)
      with g3 show ?thesis by (rule trans)
    qed
  qed
  from ex comp refl show ?thesis
    by (auto simp: execute_orchestration_def split: option.splits sum.splits prod.splits)
qed

lemma grows_quiescence: "quiescence_loop poll n out r e = Some (res, r', e') \<Longrightarrow> grows e e'"
  by (erule quiescence_relation [where R = grows, rotated -1]) (rule grows_refl, erule (1) grows_trans, rule grows_convert)

lemma grows_execute: "execute_orchestration h input n v e = Some (res, e') \<Longrightarrow> grows e e'"
  by (erule execute_relation [where R = grows, rotated -1])
    (rule grows_refl, erule (1) grows_trans, rule grows_convert, rule grows_emit_cancellations)


subsection \<open>Consequences\<close>

text \<open>An engine whose history has strictly increasing ids, all below the next one.\<close>

definition ids_ok :: "replay_engine \<Rightarrow> bool" where
  "ids_ok e \<longleftrightarrow> sorted_wrt (<) (map ev_event_id (engine_history e))
     \<and> (\<forall>ev \<in> set (engine_history e). ev_event_id ev < re_next_event_id e)"

lemma grows_ids_ok:
  assumes "ids_ok e" and "grows e e'"
  shows "ids_ok e'"
proof -
  from assms(2) obtain evs where a: "appends evs e e'" by (auto simp: grows_def)
  then have h: "engine_history e' = engine_history e @ evs"
    by (simp add: appends_def engine_history_def)
  from a have new: "\<forall>ev \<in> set evs. re_next_event_id e \<le> ev_event_id ev \<and> ev_event_id ev < re_next_event_id e'"
    and "sorted_wrt (<) (map ev_event_id evs)" and le: "re_next_event_id e \<le> re_next_event_id e'"
    by (simp_all add: appends_def)
  moreover from assms(1) have old: "\<forall>ev \<in> set (engine_history e). ev_event_id ev < re_next_event_id e"
    and "sorted_wrt (<) (map ev_event_id (engine_history e))" by (simp_all add: ids_ok_def)
  ultimately have "sorted_wrt (<) (map ev_event_id (engine_history e'))"
    unfolding h by (fastforce simp: sorted_wrt_append)
  moreover have "\<forall>ev \<in> set (engine_history e'). ev_event_id ev < re_next_event_id e'"
    unfolding h using old new le by fastforce
  ultimately show ?thesis by (simp add: ids_ok_def)
qed

lemma sorted_last_max:
  "sorted_wrt (<) (map f xs) \<Longrightarrow> x \<in> set xs \<Longrightarrow> (f x :: nat) \<le> f (last xs)"
proof (induction xs)
  case (Cons a xs)
  show ?case
  proof (cases xs)
    case (Cons b ys)
    with Cons.prems have "f a < f (last xs)" by simp
    with Cons.IH Cons.prems Cons show ?thesis by auto
  qed (use Cons.prems in simp)
qed simp

lemma engine_new_ids_ok:
  assumes "sorted_wrt (<) (map ev_event_id hist)"
  shows "ids_ok (engine_new i x hist)"
  using assms sorted_last_max [of ev_event_id hist]
  by (auto simp: ids_ok_def engine_new_def engine_history_def less_Suc_eq_le)

text \<open>The engine of one turn: as the dispatcher builds it, after the preparation stage.\<close>

definition prepared_engine ::
    "string \<Rightarrow> id64 \<Rightarrow> event list \<Rightarrow> nat \<Rightarrow> (string \<times> kv_entry) list \<Rightarrow> work_item list \<Rightarrow> replay_engine" where
  "prepared_engine inst execution_id hist persisted snapshot messages =
     prep_completions messages (with_kv_snapshot snapshot
       (with_persisted_history_len persisted (engine_new inst execution_id hist)))"

lemma prepared_grows:
  "grows (with_kv_snapshot s (with_persisted_history_len n (engine_new i x hist)))
     (prepared_engine i x hist n s ms)"
  unfolding prepared_engine_def by (rule grows_prep_completions)

text \<open>C16. A turn only appends to the history: whatever messages arrive and whatever the
  orchestration does, the history after the turn is the one before followed by new events of this
  instance and execution, and event ids stay strictly increasing (so they stay unique, which
  completions and bindings rely on). None of the new events is terminal.\<close>

theorem turn_appends_increasing_ids:
  assumes "sorted_wrt (<) (map ev_event_id hist)"
    and "execute_orchestration h input name ver (prepared_engine inst x hist persisted snapshot messages)
           = Some (res, e')"
  shows "\<exists>evs. final_history e' = hist @ evs
     \<and> sorted_wrt (<) (map ev_event_id (final_history e'))
     \<and> (\<forall>ev \<in> set evs. ev_instance_id ev = inst \<and> ev_execution_id ev = x \<and> \<not> is_terminal ev)"
proof -
  let ?e0 = "with_kv_snapshot snapshot (with_persisted_history_len persisted (engine_new inst x hist))"
  have g: "grows ?e0 e'"
    using prepared_grows grows_execute [OF assms(2)] by (rule grows_trans)
  have "ids_ok ?e0"
    using engine_new_ids_ok [OF assms(1)]
    by (simp add: ids_ok_def with_kv_snapshot_def with_persisted_history_len_def engine_history_def)
  with g have "ids_ok e'" using grows_ids_ok by blast
  with g show ?thesis
    by (auto simp: grows_def appends_def final_history_def engine_history_def ids_ok_def
        with_kv_snapshot_def with_persisted_history_len_def engine_new_def)
qed

lemma one_activity_turn_runs:
  "execute_orchestration one_activity_handler ''x'' ''o'' ''1.0.0''
     (prepared_engine ''i'' 1 [started_event] 0 [] []) \<noteq> None"
  by code_simp

theorem turn_appends_increasing_ids_witness:
  "\<exists>res e'. execute_orchestration one_activity_handler ''x'' ''o'' ''1.0.0''
       (prepared_engine ''i'' 1 [started_event] 0 [] []) = Some (res, e')
     \<and> sorted_wrt (<) (map ev_event_id (final_history e'))"
proof -
  obtain res e' where r: "execute_orchestration one_activity_handler ''x'' ''o'' ''1.0.0''
     (prepared_engine ''i'' 1 [started_event] 0 [] []) = Some (res, e')"
    using one_activity_turn_runs by auto
  have "sorted_wrt (<) (map ev_event_id [started_event])" by simp
  from turn_appends_increasing_ids [OF this r] r show ?thesis by blast
qed

end
