(* ===== verification/Replay_Once.thy ===== *)
theory Replay_Once
  imports Replay_Flag Replay_Ids
begin

text \<open>
  Exactly-once delivery. The preparation stage records at most one completion per schedule and only
  completions of this execution that answer a schedule of the right kind (\<open>prep_inv\<close>); the replay
  accepts at most one completion per schedule (\<open>open_inv\<close>).
\<close>

subsection \<open>The preparation stage\<close>

definition result_sources :: "(event_kind \<Rightarrow> bool) \<Rightarrow> event list \<Rightarrow> id64 list" where
  "result_sources P es = List.map_filter (\<lambda>ev. if P (ev_kind ev) then ev_source_event_id ev else None) es"

lemma result_sources_append [simp]:
  "result_sources P (xs @ ys) = result_sources P xs @ result_sources P ys"
  by (simp add: result_sources_def map_filter_def)

lemma result_sources_single [simp]:
  "result_sources P [ev] = (if P (ev_kind ev) then (case ev_source_event_id ev of Some i \<Rightarrow> [i] | None \<Rightarrow> []) else [])"
  by (simp add: result_sources_def map_filter_simps split: option.splits)

lemma has_event_for_sources: "has_event_for P i es \<longleftrightarrow> i \<in> set (result_sources P es)"
  by (induction es) (auto simp: has_event_for_def result_sources_def map_filter_simps split: option.splits)

text \<open>The three groups of completions the stage deduplicates, with the kind of schedule each answers.\<close>

fun result_group :: "event_kind \<Rightarrow> string option" where
  "result_group (ActivityCompleted _) = Some ''activity''"
| "result_group (ActivityFailed _) = Some ''activity''"
| "result_group (TimerFired _) = Some ''timer''"
| "result_group (SubOrchestrationCompleted _) = Some ''suborchestration''"
| "result_group (SubOrchestrationFailed _) = Some ''suborchestration''"
| "result_group _ = None"

definition in_group :: "string \<Rightarrow> event_kind \<Rightarrow> bool" where
  "in_group g k \<longleftrightarrow> result_group k = Some g"

text \<open>The messages that become completions: group, execution and schedule id.\<close>

fun message_group :: "work_item \<Rightarrow> (string \<times> id64 \<times> id64) option" where
  "message_group (WI_ActivityCompleted _ x i _) = Some (''activity'', x, i)"
| "message_group (WI_ActivityFailed _ x i _) = Some (''activity'', x, i)"
| "message_group (WI_TimerFired _ x i _) = Some (''timer'', x, i)"
| "message_group (WI_SubOrchCompleted _ x i _) = Some (''suborchestration'', x, i)"
| "message_group (WI_SubOrchFailed _ x i _) = Some (''suborchestration'', x, i)"
| "message_group _ = None"

lemma in_group_preds:
  "is_activity_result k \<longleftrightarrow> in_group ''activity'' k"
  "is_timer_fired k \<longleftrightarrow> in_group ''timer'' k"
  "is_sub_orch_result k \<longleftrightarrow> in_group ''suborchestration'' k"
  by (cases k; simp add: is_activity_result_def is_sub_orch_result_def in_group_def)+

lemma in_group_pred_fun:
  "is_activity_result = in_group ''activity''" "is_timer_fired = in_group ''timer''"
  "is_sub_orch_result = in_group ''suborchestration''"
  by (rule ext, rule in_group_preds)+

lemma accepted_message:
  assumes "message_group m = Some (g, x, i)"
  shows "is_completion_for_current_execution e m \<longleftrightarrow> x = re_execution_id e"
    and "already_in_delta e m \<longleftrightarrow> i \<in> set (result_sources (in_group g) (re_history_delta e))"
    and "nd_error e m = None \<longleftrightarrow> schedule_kind_in (engine_history e) i = Some g"
    and "\<exists>ev. completion_event e m = Some ev \<and> in_group g (ev_kind ev) \<and> ev_source_event_id ev = Some i"
  using assms
  by (cases m; auto simp: has_event_for_sources in_group_pred_fun check_schedule_def in_group_def split: option.splits if_splits)+

lemma other_message:
  assumes "message_group m = None" and "completion_event e m = Some ev"
  shows "result_group (ev_kind ev) = None"
  using assms by (cases m) (auto split: if_splits)

text \<open>One message either leaves the delta alone or adds one event.\<close>

lemma prep_completion_delta:
  "re_history_delta (prep_completion m e) = re_history_delta e
   \<or> (\<exists>ev. completion_event e m = Some ev
        \<and> re_history_delta (prep_completion m e) = re_history_delta e @ [set_event_id ev (re_next_event_id e)]
        \<and> is_completion_for_current_execution e m \<and> \<not> is_completion_already_in_history e m
        \<and> \<not> already_in_delta e m \<and> nd_error e m = None)"
proof -
  have ce: "completion_event (note_abort d e) m = completion_event e m" for d
    by (cases m) (auto simp: note_abort_def already_terminated_def already_cancelled_def engine_history_def split: option.splits)
  show ?thesis
    by (auto simp: prep_completion_def Let_def push_event_def note_abort_def split: option.splits)
qed

lemma prep_completion_frame:
  "re_baseline_history (prep_completion m e) = re_baseline_history e"
  "re_execution_id (prep_completion m e) = re_execution_id e"
  by (auto simp: prep_completion_def Let_def push_event_def note_abort_def split: option.splits)

lemma schedule_kind_in_append:
  "schedule_kind_in es i = Some k \<Longrightarrow> schedule_kind_in (es @ fs) i = Some k"
  by (induction es) (auto split: option.splits if_splits)

definition prep_inv :: "replay_engine \<Rightarrow> bool" where
  "prep_inv e \<longleftrightarrow> (\<forall>g. distinct (result_sources (in_group g) (re_history_delta e))
     \<and> (\<forall>i \<in> set (result_sources (in_group g) (re_history_delta e)).
          schedule_kind_in (engine_history e) i = Some g))"

lemma prep_completion_inv:
  assumes "prep_inv e"
  shows "prep_inv (prep_completion m e)"
proof (rule disjE [OF prep_completion_delta [of m e]])
  assume "re_history_delta (prep_completion m e) = re_history_delta e"
  with assms show ?thesis by (simp add: prep_inv_def engine_history_def prep_completion_frame)
next
  assume "\<exists>ev. completion_event e m = Some ev
        \<and> re_history_delta (prep_completion m e) = re_history_delta e @ [set_event_id ev (re_next_event_id e)]
        \<and> is_completion_for_current_execution e m \<and> \<not> is_completion_already_in_history e m
        \<and> \<not> already_in_delta e m \<and> nd_error e m = None"
  then obtain ev where ev: "completion_event e m = Some ev"
    "re_history_delta (prep_completion m e) = re_history_delta e @ [set_event_id ev (re_next_event_id e)]"
    "\<not> already_in_delta e m" "nd_error e m = None" by blast
  have hist: "engine_history (prep_completion m e) = engine_history e @ [set_event_id ev (re_next_event_id e)]"
    by (simp add: engine_history_def prep_completion_frame ev(2))
  show ?thesis
  proof (cases "message_group m")
    case None
    with other_message [OF None ev(1)] assms show ?thesis
      by (auto simp: prep_inv_def ev(2) hist in_group_def schedule_kind_in_append)
  next
    case (Some gxi)
    obtain g x i where m: "message_group m = Some (g, x, i)" using Some by (cases gxi) auto
    note acc = accepted_message [OF m, of e]
    from acc(4) ev(1) have k: "in_group g (ev_kind ev)" "ev_source_event_id ev = Some i" by auto
    have "in_group h (ev_kind ev) \<longleftrightarrow> h = g" for h using k(1) by (auto simp: in_group_def)
    then have src: "result_sources (in_group h) (re_history_delta (prep_completion m e))
        = result_sources (in_group h) (re_history_delta e) @ (if h = g then [i] else [])" for h
      by (simp add: ev(2) k(2))
    have new: "i \<notin> set (result_sources (in_group g) (re_history_delta e))" using acc(2) ev(3) by simp
    have sch: "schedule_kind_in (engine_history e) i = Some g" using acc(3) ev(4) by simp
    have old: "distinct (result_sources (in_group h) (re_history_delta e))"
      "j \<in> set (result_sources (in_group h) (re_history_delta e)) \<Longrightarrow> schedule_kind_in (engine_history e) j = Some h"
      for h j using assms by (simp_all add: prep_inv_def)
    show ?thesis
      unfolding prep_inv_def
    proof (intro allI conjI ballI)
      show "distinct (result_sources (in_group h) (re_history_delta (prep_completion m e)))" for h
        using old(1) new by (simp add: src)
      fix h j assume "j \<in> set (result_sources (in_group h) (re_history_delta (prep_completion m e)))"
      then have "schedule_kind_in (engine_history e) j = Some h"
        using old(2) sch by (auto simp: src split: if_splits)
      then show "schedule_kind_in (engine_history (prep_completion m e)) j = Some h"
        unfolding hist by (rule schedule_kind_in_append)
    qed
  qed
qed

lemma prep_completions_inv: "prep_inv e \<Longrightarrow> prep_inv (prep_completions ms e)"
  unfolding prep_completions_def by (induction ms arbitrary: e) (simp_all add: prep_completion_inv)

lemma engine_new_prep_inv [simp]: "prep_inv (engine_new i x hist)"
  by (simp add: prep_inv_def engine_new_def result_sources_def map_filter_simps)


text \<open>The result events of a prepared engine come from messages of the batch.\<close>

lemma prep_completions_from_batch:
  "ev \<in> set (re_history_delta (prep_completions ms e)) \<Longrightarrow> ev \<in> set (re_history_delta e) \<or>
     (\<exists>m \<in> set ms. \<exists>e' ev'. completion_event e' m = Some ev' \<and> re_execution_id e' = re_execution_id e
        \<and> is_completion_for_current_execution e' m \<and> ev_kind ev = ev_kind ev'
        \<and> ev_source_event_id ev = ev_source_event_id ev')"
  unfolding prep_completions_def
proof (induction ms arbitrary: e)
  case (Cons m ms)
  from Cons.prems have "ev \<in> set (re_history_delta (fold prep_completion ms (prep_completion m e)))" by simp
  from Cons.IH [OF this] show ?case
  proof
    assume "ev \<in> set (re_history_delta (prep_completion m e))"
    with prep_completion_delta [of m e] show ?thesis
      by (auto intro!: exI [of _ e])
  next
    assume "\<exists>m' \<in> set ms. \<exists>e' ev'. completion_event e' m' = Some ev'
        \<and> re_execution_id e' = re_execution_id (prep_completion m e)
        \<and> is_completion_for_current_execution e' m' \<and> ev_kind ev = ev_kind ev'
        \<and> ev_source_event_id ev = ev_source_event_id ev'"
    then show ?thesis by (simp add: prep_completion_frame)
  qed
qed simp

text \<open>Starting from an engine without new events, every recorded result answers a message of the batch.\<close>

lemma prepared_results:
  assumes "re_history_delta e = []" and "ev \<in> set (re_history_delta (prep_completions ms e))"
    and "in_group g (ev_kind ev)" and "ev_source_event_id ev = Some i"
  shows "\<exists>m \<in> set ms. message_group m = Some (g, re_execution_id e, i)"
proof -
  from prep_completions_from_batch [OF assms(2)] assms(1) obtain m e' ev' where
    m: "m \<in> set ms" "completion_event e' m = Some ev'" "re_execution_id e' = re_execution_id e"
      "is_completion_for_current_execution e' m" "ev_kind ev = ev_kind ev'" "ev_source_event_id ev = ev_source_event_id ev'"
    by auto
  show ?thesis
  proof (cases "message_group m")
    case None
    with other_message [OF None m(2)] m(5) assms(3) show ?thesis by (simp add: in_group_def)
  next
    case (Some gxi)
    obtain g' x' i' where gxi: "message_group m = Some (g', x', i')" using Some by (cases gxi) auto
    from accepted_message(1,4) [OF gxi, of e'] m assms(3,4) have "g' = g \<and> x' = re_execution_id e \<and> i' = i"
      by (auto simp: in_group_def)
    with gxi m(1) show ?thesis by blast
  qed
qed

text \<open>C3. The preparation stage records each completion once and only where it belongs: among the new
  events of a batch no two results answer the same schedule (of activities, timers or
  sub-orchestrations), and every result answers a schedule of its own kind in this history and
  comes from a message of the batch addressed to this execution.\<close>

theorem completions_recorded_once:
  "let e' = prep_completions ms (engine_new inst x hist)
   in distinct (result_sources (in_group g) (re_history_delta e'))
      \<and> (\<forall>ev \<in> set (re_history_delta e'). \<forall>i. in_group g (ev_kind ev) \<longrightarrow> ev_source_event_id ev = Some i \<longrightarrow>
           schedule_kind_in (engine_history e') i = Some g
           \<and> (\<exists>m \<in> set ms. message_group m = Some (g, x, i)))"
proof -
  let ?e = "prep_completions ms (engine_new inst x hist)"
  have inv: "prep_inv ?e" by (rule prep_completions_inv) simp
  have "schedule_kind_in (engine_history ?e) i = Some g \<and> (\<exists>m \<in> set ms. message_group m = Some (g, x, i))"
    if ev: "ev \<in> set (re_history_delta ?e)" "in_group g (ev_kind ev)" "ev_source_event_id ev = Some i" for ev i
  proof
    from ev have "i \<in> set (result_sources (in_group g) (re_history_delta ?e))"
      unfolding result_sources_def map_filter_def by force
    with inv show "schedule_kind_in (engine_history ?e) i = Some g" by (simp add: prep_inv_def)
    show "\<exists>m \<in> set ms. message_group m = Some (g, x, i)"
      using prepared_results [OF _ ev] by (simp add: engine_new_def)
  qed
  with inv show ?thesis by (simp add: Let_def prep_inv_def)
qed


definition two_results :: "work_item list" where
  "two_results = [WI_ActivityCompleted ''i'' 1 2 ''r'', WI_ActivityFailed ''i'' 1 2 (Application AE_ActivityFailed ''e'' False),
     WI_ActivityCompleted ''i'' 7 2 ''r'']"

definition scheduled_history :: "event list" where
  "scheduled_history =
     [with_event_id 1 ''i'' 1 None (OrchestrationStarted ''o'' ''1.0.0'' ''x'' None None None None),
      with_event_id 2 ''i'' 1 None (ActivityScheduled ''a'' ''x'' None None)]"

theorem completions_recorded_once_witness:
  "distinct (result_sources (in_group ''activity'')
      (re_history_delta (prep_completions two_results (engine_new ''i'' 1 scheduled_history))))
   \<and> re_history_delta (prep_completions two_results (engine_new ''i'' 1 scheduled_history))
      = [with_event_id 3 ''i'' 1 (Some 2) (ActivityCompleted ''r'')]"
  using completions_recorded_once [of two_results "''i''" 1 scheduled_history "''activity''"]
  by (simp add: Let_def two_results_def scheduled_history_def prep_completions_def prep_completion_def
      engine_new_def engine_history_def has_event_for_def check_schedule_def push_event_def
      note_abort_def event_new_def with_event_id_def set_event_id_def is_activity_result_def)

subsection \<open>The replay\<close>

lemma poll_keeps_schedules:
  assumes "poll_orchestration_future poll r = Some (res, r')"
  shows "rr_open_schedules r' = rr_open_schedules r"
proof -
  have "poll_orchestration_future poll r = Some y \<Longrightarrow> rr_open_schedules (snd y) = rr_open_schedules r" for y
  proof (erule poll_orchestration_future.raw_induct [rotated])
    fix self q and r :: "'a replay_run" and y
    assume IH: "\<And>q r y. self q r = Some y \<Longrightarrow> rr_open_schedules (snd y) = rr_open_schedules r"
      and body: "(case q (rr_fut r) (rr_ctx r) of
        (outcome, fut, ctx, woken) \<Rightarrow>
          (case outcome of
             PollReady result \<Rightarrow> Some (Inr (Some result), after_poll fut ctx woken r)
           | PollPending \<Rightarrow>
               if cx_emitted_actions ctx \<noteq> [] \<or> \<not> woken
               then Some (Inr None, after_poll fut ctx woken r)
               else self q (after_poll fut ctx False r)
           | PollPanicked p \<Rightarrow>
               Some (Inl (panicked p), r\<lparr>rr_fut := fut, rr_ctx := ctx, rr_woken := woken\<rparr>))) = Some y"
    have after: "rr_open_schedules (after_poll f c w r) = rr_open_schedules r" for f c w
      by (simp add: after_poll_def drain_emitted_actions_def)
    from body show "rr_open_schedules (snd y) = rr_open_schedules r"
      by (auto simp: after dest: IH split: prod.splits poll_outcome.splits if_splits)
  qed
  from this [OF assms] show ?thesis by simp
qed

lemma poll_if_needed_keeps_schedules:
  "poll_if_needed poll r = Some (res, r') \<Longrightarrow> rr_open_schedules r' = rr_open_schedules r"
  by (auto simp: poll_if_needed_def poll_keeps_schedules split: if_splits)

fun is_awaited_schedule :: "event_kind \<Rightarrow> bool" where
  "is_awaited_schedule (ActivityScheduled _ _ _ _) = True"
| "is_awaited_schedule (TimerCreated _) = True"
| "is_awaited_schedule (ExternalSubscribed _) = True"
| "is_awaited_schedule (QueueSubscribed _) = True"
| "is_awaited_schedule (SubOrchestrationScheduled _ _ _) = True"
| "is_awaited_schedule _ = False"

definition is_result :: "event_kind \<Rightarrow> bool" where
  "is_result k \<longleftrightarrow> result_group k \<noteq> None"

text \<open>How an event changes the set of open schedules.\<close>

lemma apply_open_schedules:
  assumes "apply_history_event ev r = Inr r'"
  shows "is_awaited_schedule (ev_kind ev) \<Longrightarrow>
           rr_open_schedules r' = insert (ev_event_id ev) (rr_open_schedules r)"
    and "is_result (ev_kind ev) \<Longrightarrow> ev_source_event_id ev = Some i \<Longrightarrow>
           i \<in> rr_open_schedules r \<and> rr_open_schedules r' = rr_open_schedules r - {i}"
    and "\<not> is_awaited_schedule (ev_kind ev) \<Longrightarrow>
          \<not> (is_result (ev_kind ev) \<and> ev_source_event_id ev \<noteq> None) \<Longrightarrow> rr_open_schedules r' = rr_open_schedules r"
  using assms
  by (cases "ev_kind ev"; auto simp: apply_event_defs match_and_bind_schedule_def deliver_completion_def
      consume_matching_action_def apply_chained_event_def is_result_def Let_def and_then_def
      split: list.splits prod.splits option.splits if_splits sum.splits)+

lemma replay_events_once:
  assumes "replay_events poll b n es r = Some (Inr None, r')"
    and "distinct (map ev_event_id es)" and "ev_event_id ` set es \<inter> S = {}"
    and "rr_open_schedules r \<subseteq> S" and "D \<subseteq> S" and "D \<inter> rr_open_schedules r = {}"
  shows "distinct (result_sources is_result es) \<and> set (result_sources is_result es) \<inter> D = {}
    \<and> set (result_sources is_result es) \<subseteq>
        rr_open_schedules r \<union> ev_event_id ` {ev \<in> set es. is_awaited_schedule (ev_kind ev)}"
  using assms
proof (induction es arbitrary: n r S D)
  case (Cons ev es)
  let ?r = "if n \<ge> b then run_set_is_replaying False r else r"
  from Cons.prems(1) obtain r2 r3 where p: "poll_if_needed poll ?r = Some (Inr None, r2)"
    and a: "apply_history_event ev (r2\<lparr>rr_must_poll := False\<rparr>) = Inr r3"
    and rest: "replay_events poll b (n + 1) es (r3\<lparr>rr_must_poll := rr_must_poll r3 \<or> rr_woken r3\<rparr>) = Some (Inr None, r')"
    by (auto simp: Let_def split: option.splits sum.splits)
  have o2: "rr_open_schedules (r2\<lparr>rr_must_poll := False\<rparr>) = rr_open_schedules r"
    using poll_if_needed_keeps_schedules [OF p] by simp
  note eff = apply_open_schedules [OF a, unfolded o2]
  let ?S = "insert (ev_event_id ev) S"
  have ids: "distinct (map ev_event_id es)" "ev_event_id ` set es \<inter> ?S = {}" "ev_event_id ev \<notin> S"
    using Cons.prems(2,3) by auto
  consider (sched) "is_awaited_schedule (ev_kind ev)" "\<not> is_result (ev_kind ev)"
    | (result) i where "is_result (ev_kind ev)" "ev_source_event_id ev = Some i" "\<not> is_awaited_schedule (ev_kind ev)"
    | (other) "\<not> is_awaited_schedule (ev_kind ev)" "\<not> (is_result (ev_kind ev) \<and> ev_source_event_id ev \<noteq> None)"
    by (cases "ev_kind ev"; cases "ev_source_event_id ev"; auto simp: is_result_def)
  then show ?case
  proof cases
    case sched
    have "rr_open_schedules r3 = insert (ev_event_id ev) (rr_open_schedules r)" by (rule eff(1) [OF sched(1)])
    with Cons.IH [OF rest ids(1,2), of D] Cons.prems(4-6) ids(3) sched show ?thesis
      by (auto simp: result_sources_def map_filter_simps)
  next
    case (result i)
    have i: "i \<in> rr_open_schedules r" "rr_open_schedules r3 = rr_open_schedules r - {i}"
      using eff(2) [OF result(1,2)] by auto
    with Cons.IH [OF rest ids(1,2), of "insert i D"] Cons.prems(4-6) result show ?thesis
      by (auto simp: result_sources_def map_filter_simps)
  next
    case other
    have "rr_open_schedules r3 = rr_open_schedules r" by (rule eff(3) [OF other])
    with Cons.IH [OF rest ids(1,2), of D] Cons.prems(4-6) other show ?thesis
      by (auto simp: result_sources_def map_filter_simps split: option.splits)
  qed
qed (simp add: result_sources_def map_filter_simps)



definition is_schedule_event :: "event_kind \<Rightarrow> bool" where
  "is_schedule_event k \<longleftrightarrow> is_awaited_schedule k \<or> (case k of OrchestrationChained _ _ _ \<Rightarrow> True | _ \<Rightarrow> False)"

lemma binding_after [simp]:
  "cx_token_bindings (bind_token t s c) t = Some s"
  "cx_token_bindings (bind_external_subscription i n c) = cx_token_bindings c"
  "cx_token_bindings (bind_queue_subscription i n c) = cx_token_bindings c"
  "cx_token_bindings (bind_sub_orchestration_instance t' x c) = cx_token_bindings c"
  by (simp_all add: bind_token_def Let_def bind_external_subscription_def bind_queue_subscription_def
      bind_sub_orchestration_instance_def)

text \<open>Nondeterminism is detected at every schedule: when the replay reaches a schedule event, the
  oldest emitted action must be of the same kind with the same name, input, session and tag (and
  so on, by kind); then it is consumed and its token bound to the event, otherwise the turn fails
  with a nondeterminism error.\<close>

theorem schedule_needs_matching_action:
  assumes "is_schedule_event (ev_kind ev)"
  shows "case rr_emitted_actions r of
      (t, a) # rest \<Rightarrow>
        if action_matches_event_kind a (ev_kind ev)
        then \<exists>r'. apply_history_event ev r = Inr r' \<and> rr_emitted_actions r' = rest
               \<and> get_bound_schedule_id t (rr_ctx r') = Some (ev_event_id ev)
        else \<exists>msg. apply_history_event ev r = Inl (nondeterminism msg)
    | [] \<Rightarrow> \<exists>msg. apply_history_event ev r = Inl (nondeterminism msg)"
  using assms
  by (cases "ev_kind ev"; auto simp: is_schedule_event_def apply_event_defs match_and_bind_schedule_def
      apply_chained_event_def get_bound_schedule_id_def split: list.splits prod.splits)

theorem schedule_needs_matching_action_witness:
  "\<exists>msg. apply_history_event (with_event_id 2 ''i'' 1 None (ActivityScheduled ''a'' ''x'' None None))
     (initial_run () (ctx_new 1 ''i'' ''o'' ''1.0.0'')) = Inl (nondeterminism msg)"
  using schedule_needs_matching_action
    [of "with_event_id 2 ''i'' 1 None (ActivityScheduled ''a'' ''x'' None None)"
        "initial_run () (ctx_new 1 ''i'' ''o'' ''1.0.0'')"]
  by (simp add: is_schedule_event_def initial_run_def)

text \<open>A failure delivered twice kills the orchestration: \<open>is_completion_already_in_history\<close> has no
  case for \<open>ActivityFailed\<close>. Here the first attempt of a retry has failed and the second is
  running; when the same failure arrives again it is recorded a second time and the turn fails
  with a nondeterminism error. A repeated \<open>ActivityCompleted\<close> is dropped by the same stage.\<close>

theorem duplicate_failure_fails_turn:
  "map_option fst (execute_orchestration retrying_handler ''x'' ''o'' ''1.0.0''
     (prepared_engine ''i'' 1 retrying_history 4 [] [WI_ActivityFailed ''i'' 1 2 activity_failure]))
     = Some (TR_Failed (nondeterminism_error ''completion without open schedule''))
   \<and> re_history_delta (prepared_engine ''i'' 1 retrying_history 4 [] [])
     = re_history_delta (prepared_engine ''i'' 1
         (retrying_history @ [with_event_id 5 ''i'' 1 (Some 4) (ActivityCompleted ''r'')]) 5 []
         [WI_ActivityCompleted ''i'' 1 4 ''r''])"
  by (rule conjI; code_simp)

end
