(* ===== verification/Replay_Outcome.thy ===== *)
theory Replay_Outcome
  imports Replay_Ids
begin

text \<open>
  Outcomes of a turn: it returns whenever the future does not wake itself forever, the stages run to
  a result, and a cancellation request takes precedence over what the orchestration does.
\<close>

subsection \<open>Turns return\<close>

text \<open>A poll that emits no action and does not finish leaves the waker alone (a future that breaks
  this makes \<open>poll_orchestration_future\<close> spin).\<close>

definition no_idle_wake ::
    "('s \<Rightarrow> ctx_inner \<Rightarrow> poll_outcome \<times> 's \<times> ctx_inner \<times> bool) \<Rightarrow> bool" where
  "no_idle_wake poll \<longleftrightarrow> (\<forall>s c s' c' w. poll s c = (PollPending, s', c', w) \<longrightarrow>
     cx_emitted_actions c' = [] \<longrightarrow> \<not> w)"

lemma poll_returns: "no_idle_wake poll \<Longrightarrow> poll_orchestration_future poll r \<noteq> None"
proof -
  assume n: "no_idle_wake poll"
  obtain o1 s c w where e: "poll (rr_fut r) (rr_ctx r) = (o1, s, c, w)" by (cases "poll (rr_fut r) (rr_ctx r)")
  have "poll (rr_fut r) (rr_ctx r) = (PollPending, s, c, w) \<Longrightarrow> cx_emitted_actions c = [] \<Longrightarrow> \<not> w"
    using n unfolding no_idle_wake_def by blast
  with e show ?thesis
    by (subst poll_orchestration_future.simps) (auto split: poll_outcome.splits)
qed

lemma poll_if_needed_returns: "no_idle_wake poll \<Longrightarrow> poll_if_needed poll r \<noteq> None"
  using poll_returns [of poll r] by (auto simp: poll_if_needed_def simp del: not_None_eq)

lemma replay_events_returns: "no_idle_wake poll \<Longrightarrow> replay_events poll b i es r \<noteq> None"
  by (induction es arbitrary: i r)
    (auto simp: Let_def poll_if_needed_returns split: option.splits sum.splits)

lemma replay_history_returns: "no_idle_wake poll \<Longrightarrow> replay_history poll b es r \<noteq> None"
  using replay_events_returns [of poll b 0 es r] poll_if_needed_returns [of poll]
  by (auto simp: replay_history_def simp del: not_None_eq split: option.splits sum.splits)

lemma quiescence_returns: "no_idle_wake poll \<Longrightarrow> quiescence_loop poll n out r e \<noteq> None"
proof (induction n arbitrary: out r e)
  case (Suc n)
  from poll_returns [OF Suc.prems, of r] obtain q r1 where p: "poll_orchestration_future poll r = Some (q, r1)"
    by auto
  with Suc show ?case
    by (cases q) (auto simp: Let_def split: prod.splits)
qed simp

text \<open>C24. A turn always returns: whatever the history, the messages and the orchestration's actions, if
  no poll wakes itself without emitting an action, \<open>execute_orchestration\<close> has a result. In
  particular the quiescence loop ends, by its bound of 100 iterations if nothing else.\<close>

theorem turn_returns:
  assumes "no_idle_wake (h_poll h)"
  shows "execute_orchestration h input name ver e \<noteq> None"
proof -
  have "complete_turn h out r e1 \<noteq> None" for out r e1
    using quiescence_returns [OF assms]
    by (auto simp: complete_turn_def run_quiescence_loop_def simp del: not_None_eq
        split: option.splits sum.splits prod.splits)
  with replay_history_returns [OF assms] show ?thesis
    by (auto simp: execute_orchestration_def simp del: not_None_eq split: option.splits sum.splits)
qed

lemma one_activity_no_idle_wake: "no_idle_wake one_activity_poll"
  by (auto simp: no_idle_wake_def one_activity_poll_def one_activity_await_def case_prod_unfold Let_def
      split: one_activity.splits prod.splits option.splits fut_output.splits)

theorem turn_returns_witness:
  "execute_orchestration one_activity_handler ''x'' ''o'' ''1.0.0'' (engine_new ''i'' 1 [started_event]) \<noteq> None"
  by (rule turn_returns) (simp add: one_activity_handler_def one_activity_no_idle_wake)

subsection \<open>Cancellation wins\<close>

lemma first_cancel_append:
  "first_cancel_reason es = Some reason \<Longrightarrow> first_cancel_reason (es @ fs) = Some reason"
  by (induction es) (auto split: option.splits)

lemma grows_cancel_reason:
  assumes "grows e e'" and "first_cancel_reason (engine_history e) = Some reason"
  shows "first_cancel_reason (engine_history e') = Some reason"
  using assms first_cancel_append [of "engine_history e" reason]
  by (auto simp: grows_def appends_def engine_history_def)

lemma replay_errors:
  "poll_orchestration_future poll r = Some (Inl err, r1) \<Longrightarrow> \<exists>d. err = TR_Failed d"
proof -
  have "poll_orchestration_future poll r = Some y \<Longrightarrow> (\<forall>err. fst y = Inl err \<longrightarrow> (\<exists>d. err = TR_Failed d))" for y
  proof (erule poll_orchestration_future.raw_induct [rotated])
    fix self q and r :: "'a replay_run" and y
    assume IH: "\<And>q r y. self q r = Some y \<Longrightarrow> (\<forall>err. fst y = Inl err \<longrightarrow> (\<exists>d. err = TR_Failed d))"
      and body: "(case q (rr_fut r) (rr_ctx r) of
        (outcome, fut, ctx, woken) \<Rightarrow>
          (case outcome of
             PollReady result \<Rightarrow> Some (Inr (Some result), after_poll fut ctx woken r)
           | PollPending \<Rightarrow>
               if cx_emitted_actions ctx \<noteq> [] \<or> \<not> woken
               then Some (Inr None, after_poll fut ctx woken r)
               else self q (after_poll fut ctx False r)
           | PollPanicked p \<Rightarrow>
               Some (Inl (panicked p), r\<lparr>rr_fut := fut, rr_ctx := ctx, rr_woken := woken\<rparr>))) = Some y"
    then show "\<forall>err. fst y = Inl err \<longrightarrow> (\<exists>d. err = TR_Failed d)"
      using IH by (auto simp: panicked_def split: prod.splits poll_outcome.splits if_splits)
  qed
  from this [of "(Inl err, r1)"] show "poll_orchestration_future poll r = Some (Inl err, r1) \<Longrightarrow> ?thesis" by simp
qed

lemma apply_errors: "apply_history_event ev r = Inl err \<Longrightarrow> \<exists>d. err = TR_Failed d"
  by (cases "ev_kind ev") (auto simp: apply_history_event_def apply_status_kv_event_def apply_schedule_event_def
      apply_completion_event_def apply_arrival_event_def match_and_bind_schedule_def deliver_completion_def
      consume_matching_action_def apply_chained_event_def nondeterminism_def Let_def and_then_def
      split: list.splits prod.splits option.splits if_splits sum.splits)

lemma poll_if_needed_errors: "poll_if_needed poll r = Some (Inl err, r1) \<Longrightarrow> \<exists>d. err = TR_Failed d"
  using replay_errors by (auto simp: poll_if_needed_def split: if_splits)

lemma replay_events_errors:
  "replay_events poll b i es r = Some (Inl err, r1) \<Longrightarrow> \<exists>d. err = TR_Failed d"
  by (induction es arbitrary: i r)
    (auto simp: Let_def dest: poll_if_needed_errors apply_errors split: option.splits sum.splits)

lemma replay_history_errors:
  "replay_history poll b es r = Some (Inl err, r1) \<Longrightarrow> \<exists>d. err = TR_Failed d"
  by (auto simp: replay_history_def dest: poll_if_needed_errors replay_events_errors split: option.splits sum.splits)

lemma quiescence_errors:
  "quiescence_loop poll n out r e = Some (Inl err, x) \<Longrightarrow> \<exists>d. err = TR_Failed d"
proof (induction n arbitrary: out r e)
  case (Suc n)
  then show ?case
    by (auto simp: Let_def dest: replay_errors split: if_splits option.splits sum.splits prod.splits)
qed (auto simp: quiescence_error_def)

lemma precheck_results:
  "turn_precheck e = Some res \<Longrightarrow> (\<exists>d. res = TR_Failed d) \<or> (res = TR_Continue \<and> list_ex is_terminal (engine_history e))"
  by (auto simp: turn_precheck_def Let_def nondeterminism_def split: option.splits if_splits)

text \<open>C10. Cancellation takes precedence: once the history (old or from this turn's messages) holds a
  cancel request, the turn ends as cancelled with the first request's reason, or fails with an
  error, or leaves an already terminal history untouched; it never completes and never continues
  as new, whatever the orchestration returned.\<close>

theorem cancellation_wins:
  assumes "first_cancel_reason (engine_history e) = Some reason"
    and "execute_orchestration h input name ver e = Some (res, e')"
  shows "res = TR_Cancelled reason \<or> (\<exists>d. res = TR_Failed d)
    \<or> (res = TR_Continue \<and> e' = e \<and> list_ex is_terminal (engine_history e))"
proof -
  have comp: "res1 = TR_Cancelled reason \<or> (\<exists>d. res1 = TR_Failed d)"
    if c: "complete_turn h out r e = Some (res1, e1)" for out r res1 e1
  proof -
    obtain e2 c2 where conv: "convert_emitted_actions (rr_emitted_actions r) e
        (mark_cancelled_queue_waits (rr_ctx r)) = (e2, c2)"
      by (cases "convert_emitted_actions (rr_emitted_actions r) e (mark_cancelled_queue_waits (rr_ctx r))")
    with grows_convert have g: "grows e e2" by (metis fst_conv)
    from c conv obtain q r3 e3 where q: "run_quiescence_loop (h_poll h) out (r\<lparr>rr_ctx := c2\<rparr>) e2 = Some (q, r3, e3)"
      by (auto simp: complete_turn_def split: option.splits)
    then have "grows e2 e3" unfolding run_quiescence_loop_def by (rule grows_quiescence)
    with g have "grows e e3" by (rule grows_trans)
    from grows_cancel_reason [OF this assms(1)]
    have cr: "first_cancel_reason (engine_history e3) = Some reason" .
    show ?thesis
      using c conv q cr
      by (cases q) (auto simp: complete_turn_def finalize_turn_def run_quiescence_loop_def
          dest: quiescence_errors)
  qed
  from assms(2) consider (pre) "turn_precheck e = Some res" "e' = e"
    | (panic) p where "res = panicked p"
    | (err) r r' where "replay_history (h_poll h) (re_persisted_history_len e) (engine_history e) r = Some (Inl res, r')"
    | (fin) out r where "complete_turn h out r e = Some (res, e')"
    by (auto simp: execute_orchestration_def split: option.splits sum.splits)
  then show ?thesis
  proof cases
    case pre
    with precheck_results show ?thesis by blast
  next
    case err
    with replay_history_errors show ?thesis by blast
  next
    case fin
    with comp show ?thesis by blast
  qed (simp add: panicked_def)
qed

definition cancel_history :: "event list" where
  "cancel_history = [started_event, with_event_id 2 ''i'' 1 None (OrchestrationCancelRequested ''stop'')]"

lemma cancel_turn_runs:
  "map_option fst (execute_orchestration one_activity_handler ''x'' ''o'' ''1.0.0''
     (engine_new ''i'' 1 cancel_history)) = Some (TR_Cancelled ''stop'')"
  by code_simp

theorem cancellation_wins_witness:
  "\<exists>res e'. execute_orchestration one_activity_handler ''x'' ''o'' ''1.0.0''
        (engine_new ''i'' 1 cancel_history) = Some (res, e')
     \<and> (res = TR_Cancelled ''stop'' \<or> (\<exists>d. res = TR_Failed d)
       \<or> (res = TR_Continue \<and> e' = engine_new ''i'' 1 cancel_history
             \<and> list_ex is_terminal (engine_history (engine_new ''i'' 1 cancel_history))))"
proof -
  obtain res e' where r: "execute_orchestration one_activity_handler ''x'' ''o'' ''1.0.0''
        (engine_new ''i'' 1 cancel_history) = Some (res, e')"
    using cancel_turn_runs by auto
  have "first_cancel_reason (engine_history (engine_new ''i'' 1 cancel_history)) = Some ''stop''"
    by (simp add: engine_new_def engine_history_def cancel_history_def started_event_def)
  from cancellation_wins [OF this r] r show ?thesis by blast
qed

end
