(* ===== verification/Kv_Store.thy ===== *)
theory Kv_Store
  imports Futures Replay_Engine
begin

text \<open>
  The key-value store of an orchestration, against its abstract specification: a map from keys to
  entries on which the key-value events of the history act. The context keeps two tables (values and
  timestamps); \<open>kv_view\<close> is the abstraction, \<open>kv_apply\<close> the specification, and the refinement says
  that the context's tables are always what the emitted actions' events build.
\<close>

type_synonym kv_map = "string \<rightharpoonup> kv_entry"

definition kv_view :: "ctx_inner \<Rightarrow> kv_map" where
  "kv_view c = (\<lambda>key. case (map_of (cx_kv_state c) key, map_of (cx_kv_metadata c) key) of
     (Some v, Some ts) \<Rightarrow> Some \<lparr>kv_value = v, kv_last_updated_at_ms = ts\<rparr> | _ \<Rightarrow> None)"

fun kv_apply :: "event_kind \<Rightarrow> kv_map \<Rightarrow> kv_map" where
  "kv_apply (KeyValueSet key v ts) m = m(key \<mapsto> \<lparr>kv_value = v, kv_last_updated_at_ms = ts\<rparr>)"
| "kv_apply (KeyValueCleared key) m = m(key := None)"
| "kv_apply KeyValuesCleared m = Map.empty"
| "kv_apply _ m = m"

definition kv_wf :: "ctx_inner \<Rightarrow> bool" where
  "kv_wf c \<longleftrightarrow> distinct (map fst (cx_kv_state c)) \<and> distinct (map fst (cx_kv_metadata c))
     \<and> dom (map_of (cx_kv_state c)) = dom (map_of (cx_kv_metadata c))"

text \<open>The operations of the API that change the store, with the clock they read.\<close>

datatype kv_op = KV_Set millis string string | KV_Clear string | KV_ClearAll | KV_Prune millis

fun kv_run :: "kv_op \<Rightarrow> ctx_inner \<Rightarrow> ctx_inner" where
  "kv_run (KV_Set now key v) c = set_kv_value now key v c"
| "kv_run (KV_Clear key) c = clear_kv_value key c"
| "kv_run KV_ClearAll c = clear_all_kv_values c"
| "kv_run (KV_Prune before) c = snd (prune_kv_values_updated_before before c)"

text \<open>The events of the actions a context has queued, in order.\<close>

definition queued_kinds :: "ctx_inner \<Rightarrow> event_kind list" where
  "queued_kinds c = List.map_filter (\<lambda>x. action_event_kind (snd x)) (cx_emitted_actions c)"

definition kv_step_ok :: "ctx_inner \<Rightarrow> ctx_inner \<Rightarrow> bool" where
  "kv_step_ok c c' \<longleftrightarrow> kv_wf c' \<and> (\<exists>ks. queued_kinds c' = queued_kinds c @ ks
     \<and> kv_view c' = fold kv_apply ks (kv_view c))"

lemma set_kv_step: "kv_wf c \<Longrightarrow> kv_step_ok c (set_kv_value now key v c)"
  unfolding kv_step_ok_def
  by (intro conjI exI [of _ "[KeyValueSet key v now]"])
    (auto simp: kv_wf_def set_kv_value_def emit_action_def Let_def queued_kinds_def map_filter_def
      kv_view_def distinct_update fun_eq_iff)

lemma clear_kv_step: "kv_wf c \<Longrightarrow> kv_step_ok c (clear_kv_value key c)"
  unfolding kv_step_ok_def
  by (intro conjI exI [of _ "[KeyValueCleared key]"])
    (auto simp: kv_wf_def clear_kv_value_def emit_action_def Let_def queued_kinds_def map_filter_def
      kv_view_def distinct_delete fun_eq_iff)

lemma clear_all_step: "kv_wf c \<Longrightarrow> kv_step_ok c (clear_all_kv_values c)"
  unfolding kv_step_ok_def
  by (intro conjI exI [of _ "[KeyValuesCleared]"])
    (auto simp: kv_wf_def clear_all_kv_values_def emit_action_def Let_def queued_kinds_def map_filter_def
      kv_view_def fun_eq_iff)

lemma kv_step_trans: "kv_step_ok c c' \<Longrightarrow> kv_step_ok c' c'' \<Longrightarrow> kv_step_ok c c''"
  unfolding kv_step_ok_def by (auto intro: exI [of _ "_ @ _"])

lemma kv_step_refl: "kv_wf c \<Longrightarrow> kv_step_ok c c"
  unfolding kv_step_ok_def by (auto intro: exI [of _ "[]"])

lemma clear_fold_step: "kv_wf c \<Longrightarrow> kv_step_ok c (fold clear_kv_value ks c)"
proof (induction ks arbitrary: c)
  case (Cons k ks)
  note one = clear_kv_step [OF Cons.prems, of k]
  then have "kv_wf (clear_kv_value k c)" by (simp add: kv_step_ok_def)
  from kv_step_trans [OF one Cons.IH [OF this]] show ?case by simp
qed (simp add: kv_step_refl)

lemma kv_run_step: "kv_wf c \<Longrightarrow> kv_step_ok c (kv_run kop c)"
  by (cases kop) (simp_all add: set_kv_step clear_kv_step clear_all_step clear_fold_step
      prune_kv_values_updated_before_def Let_def)

lemma kv_runs_step: "kv_wf c \<Longrightarrow> kv_step_ok c (fold kv_run ops c)"
proof (induction ops arbitrary: c)
  case (Cons kop ops)
  note one = kv_run_step [OF Cons.prems, of kop]
  then have "kv_wf (kv_run kop c)" by (simp add: kv_step_ok_def)
  from kv_step_trans [OF one Cons.IH [OF this]] show ?case by simp
qed (simp add: kv_step_refl)

lemma get_kv_view: "kv_wf c \<Longrightarrow> get_kv_value key c = map_option kv_value (kv_view c key)"
proof -
  assume "kv_wf c"
  then have "map_of (cx_kv_state c) key = None \<longleftrightarrow> map_of (cx_kv_metadata c) key = None"
    by (metis domIff kv_wf_def)
  then show ?thesis
    by (cases "map_of (cx_kv_state c) key"; cases "map_of (cx_kv_metadata c) key")
      (simp_all add: get_kv_value_def kv_view_def)
qed

text \<open>The key-value store refines its specification: after any sequence of sets, clears, clear-alls
  and prunes, reading a key gives exactly what the events of the actions emitted so far build on
  the snapshot the turn started with, so the store that is rebuilt from the history is the store
  the orchestration saw.\<close>

theorem kv_store_refines_events:
  assumes "kv_wf c"
  shows "\<exists>ks. queued_kinds (fold kv_run ops c) = queued_kinds c @ ks
     \<and> get_kv_value key (fold kv_run ops c) = map_option kv_value (fold kv_apply ks (kv_view c) key)"
  using kv_runs_step [OF assms, of ops] get_kv_view
  by (auto simp: kv_step_ok_def)

theorem kv_store_refines_events_witness:
  "\<exists>ks. queued_kinds (fold kv_run [KV_Set 5 ''k'' ''v'', KV_Prune 9] (ctx_new 1 ''i'' ''o'' ''1.0.0''))
       = queued_kinds (ctx_new 1 ''i'' ''o'' ''1.0.0'') @ ks
     \<and> get_kv_value ''k'' (fold kv_run [KV_Set 5 ''k'' ''v'', KV_Prune 9] (ctx_new 1 ''i'' ''o'' ''1.0.0''))
       = map_option kv_value (fold kv_apply ks (kv_view (ctx_new 1 ''i'' ''o'' ''1.0.0'')) ''k'')"
proof -
  have "kv_wf (ctx_new 1 ''i'' ''o'' ''1.0.0'')" by (simp add: kv_wf_def ctx_new_def)
  then show ?thesis by (rule kv_store_refines_events)
qed

subsection \<open>Pruning\<close>

lemma fold_clear_view: "kv_wf c \<Longrightarrow> kv_view (fold clear_kv_value ks c) = kv_view c |` (- set ks)"
proof (induction ks arbitrary: c)
  case (Cons k ks)
  have "kv_wf (clear_kv_value k c)" using clear_kv_step [OF Cons.prems] by (simp add: kv_step_ok_def)
  moreover have "kv_view (clear_kv_value k c) = (kv_view c)(k := None)"
    by (auto simp: kv_view_def clear_kv_value_def emit_action_def Let_def fun_eq_iff)
  ultimately show ?case using Cons.IH by (auto simp: restrict_map_def fun_eq_iff)
qed (simp add: restrict_map_def)

lemma keys_to_clear_set:
  assumes "kv_wf c"
  shows "set (keys_to_clear t c) = {k. \<exists>en. kv_view c k = Some en \<and> kv_last_updated_at_ms en < t}"
    and "distinct (keys_to_clear t c)"
proof -
  have d: "distinct (map fst (cx_kv_metadata c))" using assms by (simp add: kv_wf_def)
  show "distinct (keys_to_clear t c)"
    using d by (simp add: keys_to_clear_def distinct_map_filter)
  have "k \<in> set (keys_to_clear t c) \<longleftrightarrow>
      (\<exists>ts. map_of (cx_kv_metadata c) k = Some ts \<and> ts < t \<and> map_of (cx_kv_state c) k \<noteq> None)" for k
    using d by (force simp: keys_to_clear_def image_iff)
  then show "set (keys_to_clear t c) = {k. \<exists>en. kv_view c k = Some en \<and> kv_last_updated_at_ms en < t}"
    by (auto simp: kv_view_def split: option.splits)
qed

text \<open>Pruning removes exactly the entries last written before the bound and returns their number;
  every other entry keeps its value and timestamp.\<close>

theorem prune_exact:
  assumes "kv_wf c"
  shows "let (n, c') = prune_kv_values_updated_before t c;
             old = {k. \<exists>en. kv_view c k = Some en \<and> kv_last_updated_at_ms en < t}
         in n = card old \<and> kv_view c' = kv_view c |` (- old)"
  using keys_to_clear_set [OF assms, of t] distinct_card [of "keys_to_clear t c"] fold_clear_view [OF assms]
  by (simp add: prune_kv_values_updated_before_def Let_def)

definition kv_sample :: ctx_inner where
  "kv_sample = set_kv_value 20 ''new'' ''b'' (set_kv_value 10 ''old'' ''a'' (ctx_new 1 ''i'' ''o'' ''1.0.0''))"

theorem prune_exact_witness:
  "let (n, c') = prune_kv_values_updated_before 15 kv_sample;
       old = {k. \<exists>en. kv_view kv_sample k = Some en \<and> kv_last_updated_at_ms en < 15}
   in n = card old \<and> kv_view c' = kv_view kv_sample |` (- old)"
proof -
  have "kv_wf kv_sample"
    by (auto simp: kv_sample_def kv_wf_def set_kv_value_def emit_action_def ctx_new_def Let_def)
  then show ?thesis by (rule prune_exact)
qed

text \<open>Pruning a key written in the same turn depends on the clock, so it is not deterministic under
  replay: the two runs below differ only in the time \<open>set_kv_value\<close> reads, and one emits a
  \<open>ClearKeyValue\<close> the other does not. (The comment on \<open>kv_metadata\<close> says such keys carry
  \<open>u64::MAX\<close> and are never pruned.)\<close>

theorem prune_depends_on_clock:
  "queued_kinds (fold kv_run [KV_Set 5 ''k'' ''v'', KV_Prune 9] (ctx_new 1 ''i'' ''o'' ''1.0.0''))
     = [KeyValueSet ''k'' ''v'' 5, KeyValueCleared ''k'']
   \<and> queued_kinds (fold kv_run [KV_Set 10 ''k'' ''v'', KV_Prune 9] (ctx_new 1 ''i'' ''o'' ''1.0.0''))
     = [KeyValueSet ''k'' ''v'' 10]"
  by (rule conjI; code_simp)

end
