(* ===== verification/History.thy ===== *)
theory History
  imports Replay_Turn
begin

text \<open>
  \<open>src/src/runtime/state_helpers.rs\<close>: \<open>HistoryManager\<close>, the history of the current execution with
  the metadata read from it and the events this turn adds, and \<open>WorkItemReader\<close>, which splits a
  batch of messages into the start item and the completion messages.
\<close>

subsection \<open>HistoryManager\<close>

record history_manager =
  hm_orchestration_name :: "string option"
  hm_orchestration_version :: "string option"
  hm_orchestration_input :: "string option"
  hm_parent_instance :: "string option"
  hm_parent_id :: "id64 option"
  hm_is_completed :: bool
  hm_is_failed :: bool
  hm_is_continued_as_new :: bool
  hm_current_execution_id :: "id64 option"
  hm_history :: "event list"
  hm_delta :: "event list"

text \<open>The forward scan: each \<open>OrchestrationStarted\<close> overwrites the metadata and counts.\<close>

definition hm_note_started :: "event \<Rightarrow> history_manager \<Rightarrow> history_manager" where
  "hm_note_started ev m =
     (case ev_kind ev of
        OrchestrationStarted name version input parent_instance parent_id _ _ \<Rightarrow>
          m\<lparr>hm_orchestration_name := Some name, hm_orchestration_version := Some version,
            hm_orchestration_input := Some input, hm_parent_instance := parent_instance,
            hm_parent_id := parent_id,
            hm_current_execution_id := Some (opt_or (hm_current_execution_id m) 0 + 1)\<rparr>
      | _ \<Rightarrow> m)"

text \<open>The events after the last \<open>OrchestrationStarted\<close>.\<close>

fun after_last_started :: "event list \<Rightarrow> event list option" where
  "after_last_started [] = None"
| "after_last_started (ev # evs) =
     (case after_last_started evs of
        Some rest \<Rightarrow> Some rest
      | None \<Rightarrow> if is_started (ev_kind ev) then Some evs else None)"

fun hm_note_terminal :: "event list \<Rightarrow> history_manager \<Rightarrow> history_manager" where
  "hm_note_terminal [] m = m"
| "hm_note_terminal (ev # evs) m =
     (case ev_kind ev of
        OrchestrationCompleted _ \<Rightarrow> m\<lparr>hm_is_completed := True\<rparr>
      | OrchestrationFailed _ \<Rightarrow> m\<lparr>hm_is_failed := True\<rparr>
      | OrchestrationContinuedAsNew _ \<Rightarrow> m\<lparr>hm_is_continued_as_new := True\<rparr>
      | _ \<Rightarrow> hm_note_terminal evs m)"

definition from_history :: "event list \<Rightarrow> history_manager" where
  "from_history hist =
     (let m0 = \<lparr>hm_orchestration_name = None, hm_orchestration_version = None,
                hm_orchestration_input = None, hm_parent_instance = None, hm_parent_id = None,
                hm_is_completed = False, hm_is_failed = False, hm_is_continued_as_new = False,
                hm_current_execution_id = None, hm_history = hist, hm_delta = []\<rparr>;
          m1 = fold hm_note_started hist m0
      in case after_last_started hist of
           Some rest \<Rightarrow> hm_note_terminal rest m1
         | None \<Rightarrow> m1)"

definition hm_is_terminal :: "history_manager \<Rightarrow> bool" where
  "hm_is_terminal m \<longleftrightarrow> hm_is_completed m \<or> hm_is_failed m \<or> hm_is_continued_as_new m"

definition hm_is_empty :: "history_manager \<Rightarrow> bool" where
  "hm_is_empty m \<longleftrightarrow> hm_history m = [] \<and> hm_delta m = []"

definition original_len :: "history_manager \<Rightarrow> nat" where
  "original_len m = length (hm_history m)"

definition hm_status :: "history_manager \<Rightarrow> string" where
  "hm_status m =
     (if hm_is_completed m then ''Completed''
      else if hm_is_failed m then ''Failed''
      else if hm_is_continued_as_new m then ''ContinuedAsNew''
      else ''Running'')"

definition full_history :: "history_manager \<Rightarrow> event list" where
  "full_history m = hm_history m @ hm_delta m"

definition next_event_id :: "history_manager \<Rightarrow> id64" where
  "next_event_id m = fold max (map ev_event_id (full_history m)) 0 + 1"

definition hm_append :: "event \<Rightarrow> history_manager \<Rightarrow> history_manager" where
  "hm_append ev m = m\<lparr>hm_delta := hm_delta m @ [ev]\<rparr>"

text \<open>The source writes an empty instance id and execution id 0 here ("should be set by caller").\<close>

definition append_failed :: "error_details \<Rightarrow> history_manager \<Rightarrow> history_manager" where
  "append_failed details m =
     hm_append (with_event_id (next_event_id m) [] 0 None (OrchestrationFailed details)) m"

definition hm_extend :: "event list \<Rightarrow> history_manager \<Rightarrow> history_manager" where
  "hm_extend evs m = m\<lparr>hm_delta := hm_delta m @ evs\<rparr>"

definition full_history_len :: "history_manager \<Rightarrow> nat" where
  "full_history_len m = length (hm_history m) + length (hm_delta m)"

definition is_full_history_empty :: "history_manager \<Rightarrow> bool" where
  "is_full_history_empty m \<longleftrightarrow> hm_history m = [] \<and> hm_delta m = []"

definition registered_version :: "string \<Rightarrow> string option" where
  "registered_version v = (if v = ''0.0.0'' then None else Some v)"

text \<open>The newest \<open>OrchestrationStarted\<close> of a list, as \<open>(version, input, parent_instance, parent_id)\<close>.\<close>

fun newest_started :: "event list \<Rightarrow> (string \<times> string \<times> string option \<times> id64 option) option" where
  "newest_started [] = None"
| "newest_started (ev # evs) =
     (case newest_started evs of
        Some s \<Rightarrow> Some s
      | None \<Rightarrow>
          (case ev_kind ev of
             OrchestrationStarted _ version input pinst pid _ _ \<Rightarrow> Some (version, input, pinst, pid)
           | _ \<Rightarrow> None))"

definition hm_version :: "history_manager \<Rightarrow> string option" where
  "hm_version m =
     (case hm_orchestration_version m of
        Some v \<Rightarrow> registered_version v
      | None \<Rightarrow>
          (case newest_started (hm_delta m) of
             Some (version, _) \<Rightarrow> registered_version version
           | None \<Rightarrow> None))"

definition parent_link_of :: "string option \<Rightarrow> id64 option \<Rightarrow> (string \<times> id64) option" where
  "parent_link_of pinst pid =
     (case (pinst, pid) of (Some p, Some i) \<Rightarrow> Some (p, i) | _ \<Rightarrow> None)"

definition extract_context :: "history_manager \<Rightarrow> string \<times> (string \<times> id64) option" where
  "extract_context m =
     (case hm_orchestration_input m of
        Some input \<Rightarrow> (input, parent_link_of (hm_parent_instance m) (hm_parent_id m))
      | None \<Rightarrow>
          (case newest_started (hm_delta m) of
             Some (_, input, pinst, pid) \<Rightarrow> (input, parent_link_of pinst pid)
           | None \<Rightarrow> ([], None)))"

text \<open>Scheduled, less completed or failed, less cancel-requested.\<close>

definition compute_inflight_activities ::
    "string \<Rightarrow> id64 \<Rightarrow> history_manager \<Rightarrow> scheduled_activity_identifier list" where
  "compute_inflight_activities inst execution_id m =
     (let es = full_history m;
          scheduled = remdups (map ev_event_id (filter (\<lambda>ev. is_activity_scheduled (ev_kind ev)) es));
          completed = List.map_filter (\<lambda>ev. if is_activity_result (ev_kind ev)
                                            then ev_source_event_id ev else None) es;
          cancel_requested = List.map_filter (\<lambda>ev. if activity_cancel_reason (ev_kind ev) \<noteq> None
                                                   then ev_source_event_id ev else None) es
      in map (\<lambda>i. \<lparr>sa_instance = inst, sa_execution_id = execution_id, sa_activity_id = i\<rparr>)
           (filter (\<lambda>i. i \<notin> set completed \<and> i \<notin> set cancel_requested) scheduled))"

subsection \<open>WorkItemReader\<close>

record work_item_reader =
  wr_start_item :: "work_item option"
  wr_completion_messages :: "work_item list"
  wr_orchestration_name :: string
  wr_input :: string
  wr_version :: "string option"
  wr_parent_instance :: "string option"
  wr_parent_id :: "id64 option"
  wr_is_continue_as_new :: bool

fun is_start_item :: "work_item \<Rightarrow> bool" where
  "is_start_item (WI_StartOrchestration _ _ _ _ _ _ _) = True"
| "is_start_item (WI_ContinueAsNew _ _ _ _ _ _) = True"
| "is_start_item _ = False"

fun is_completion_message :: "work_item \<Rightarrow> bool" where
  "is_completion_message (WI_StartOrchestration _ _ _ _ _ _ _) = False"
| "is_completion_message (WI_ContinueAsNew _ _ _ _ _ _) = False"
| "is_completion_message (WI_ActivityExecute _ _ _ _ _ _ _) = False"
| "is_completion_message _ = True"

text \<open>The separating loop: the first start item is kept, later ones are ignored.\<close>

definition separate_messages :: "work_item list \<Rightarrow> work_item option \<times> work_item list" where
  "separate_messages messages =
     (List.find is_start_item messages, filter is_completion_message messages)"

definition from_messages ::
    "work_item list \<Rightarrow> history_manager \<Rightarrow> string \<Rightarrow> work_item_reader" where
  "from_messages messages m inst =
     (let (start_item, completions) = separate_messages messages
      in case start_item of
           Some (WI_StartOrchestration _ orchestration input version parent_instance parent_id _) \<Rightarrow>
             \<lparr>wr_start_item = start_item, wr_completion_messages = completions,
              wr_orchestration_name = orchestration, wr_input = input, wr_version = version,
              wr_parent_instance = parent_instance, wr_parent_id = parent_id,
              wr_is_continue_as_new = False\<rparr>
         | Some (WI_ContinueAsNew _ orchestration input version carry_forward_events _) \<Rightarrow>
             \<lparr>wr_start_item = start_item,
              wr_completion_messages =
                map (\<lambda>(name, data). WI_QueueMessage inst name data) carry_forward_events @ completions,
              wr_orchestration_name = orchestration, wr_input = input, wr_version = version,
              wr_parent_instance = None, wr_parent_id = None, wr_is_continue_as_new = True\<rparr>
         | _ \<Rightarrow>
             \<lparr>wr_start_item = start_item, wr_completion_messages = completions,
              wr_orchestration_name = opt_or (hm_orchestration_name m) [],
              wr_input = opt_or (hm_orchestration_input m) [], wr_version = hm_version m,
              wr_parent_instance = hm_parent_instance m, wr_parent_id = hm_parent_id m,
              wr_is_continue_as_new = False\<rparr>)"

definition has_orchestration_name :: "work_item_reader \<Rightarrow> bool" where
  "has_orchestration_name r \<longleftrightarrow> wr_orchestration_name r \<noteq> []"

end
