(* ===== verification/Execution.thy ===== *)
theory Execution
  imports History
begin

text \<open>
  \<open>run_single_execution_atomic\<close> of \<open>src/src/runtime/execution.rs\<close>: one orchestration turn and
  everything it produces for the atomic commit: history events, worker items, orchestrator items,
  cancelled activities and the result. Metrics and logging are left out. \<open>exec_ids\<close> is the field
  \<open>current_execution_ids\<close> of the runtime (\<open>src/src/runtime/mod.rs\<close>), which is in memory only.
\<close>

type_synonym exec_ids = "string \<rightharpoonup> id64"

definition get_execution_id_for_instance ::
    "string \<Rightarrow> id64 option \<Rightarrow> exec_ids \<Rightarrow> id64 \<times> exec_ids" where
  "get_execution_id_for_instance inst current_execution_id ids =
     (case current_execution_id of
        Some exec_id \<Rightarrow> (exec_id, ids(inst \<mapsto> exec_id))
      | None \<Rightarrow>
          (case ids inst of
             Some exec_id \<Rightarrow> (exec_id, ids)
           | None \<Rightarrow> (INITIAL_EXECUTION_ID, ids)))"

subsection \<open>Carry-forward across continue-as-new\<close>

definition MAX_CARRY_FORWARD :: nat where "MAX_CARRY_FORWARD = 100"

fun compute_accumulated_custom_status :: "event list \<Rightarrow> string option \<Rightarrow> string option" where
  "compute_accumulated_custom_status [] status = status"
| "compute_accumulated_custom_status (ev # evs) status =
     compute_accumulated_custom_status evs
       (case ev_kind ev of
          OrchestrationStarted _ _ _ _ _ _ (Some s) \<Rightarrow> Some s
        | CustomStatusUpdated s \<Rightarrow> s
        | _ \<Rightarrow> status)"

definition queue_cancelled_ids :: "event list \<Rightarrow> id64 list" where
  "queue_cancelled_ids es =
     List.map_filter (\<lambda>ev. if queue_cancel_reason (ev_kind ev) \<noteq> None
                           then ev_source_event_id ev else None) es"

definition queue_sub_events :: "event list \<Rightarrow> (id64 \<times> string) list" where
  "queue_sub_events es =
     List.map_filter (\<lambda>ev. case ev_kind ev of QueueSubscribed name \<Rightarrow> Some (ev_event_id ev, name)
                                             | _ \<Rightarrow> None) es"

definition queue_arrival_events :: "event list \<Rightarrow> (string \<times> string) list" where
  "queue_arrival_events es =
     List.map_filter (\<lambda>ev. case ev_kind ev of QueueEventDelivered name data \<Rightarrow> Some (name, data)
                                             | _ \<Rightarrow> None) es"

text \<open>\<open>active_subs_by_name\<close>; a name without entry counts 0, as \<open>unwrap_or(0)\<close>.\<close>

definition active_subs_by_name :: "id64 list \<Rightarrow> (id64 \<times> string) list \<Rightarrow> string \<Rightarrow> nat" where
  "active_subs_by_name cancelled subs name =
     length (filter (\<lambda>(eid, n). n = name \<and> eid \<notin> set cancelled) subs)"

text \<open>The walk over the arrivals; \<open>consumed\<close> is \<open>consumed_by_name\<close>.\<close>

fun unmatched_arrivals ::
    "(string \<Rightarrow> nat) \<Rightarrow> (string \<Rightarrow> nat) \<Rightarrow> (string \<times> string) list \<Rightarrow> (string \<times> string) list" where
  "unmatched_arrivals active consumed [] = []"
| "unmatched_arrivals active consumed ((name, data) # rest) =
     (if consumed name < active name
      then unmatched_arrivals active (consumed(name := consumed name + 1)) rest
      else (name, data) # unmatched_arrivals active consumed rest)"

definition collect_unmatched_queue_messages :: "event list \<Rightarrow> (string \<times> string) list" where
  "collect_unmatched_queue_messages es =
     unmatched_arrivals (active_subs_by_name (queue_cancelled_ids es) (queue_sub_events es))
       (\<lambda>_. 0) (queue_arrival_events es)"

subsection \<open>Outstanding schedules\<close>

record outstanding_schedules =
  os_activities :: "id64 list"
  os_sub_orchestrations :: "(id64 \<times> string) list"
  os_positional_subscriptions :: "id64 list"
  os_queue_subscriptions :: "id64 list"

text \<open>Causal matching of positional events: pending subscriptions per name, and resolved ones.\<close>

definition positional_step ::
    "event \<Rightarrow> (string \<Rightarrow> id64 list) \<times> id64 set \<Rightarrow> (string \<Rightarrow> id64 list) \<times> id64 set" where
  "positional_step ev = (\<lambda>(pending, resolved).
     (case ev_kind ev of
        ExternalSubscribed name \<Rightarrow> (pending(name := pending name @ [ev_event_id ev]), resolved)
      | ExternalEvent name _ \<Rightarrow>
          (case pending name of
             [] \<Rightarrow> (pending, resolved)
           | sub_id # rest \<Rightarrow> (pending(name := rest), insert sub_id resolved))
      | ExternalSubscribedCancelled _ \<Rightarrow>
          (case ev_source_event_id ev of
             Some src \<Rightarrow> (\<lambda>name. filter (\<lambda>i. i \<noteq> src) (pending name), resolved)
           | None \<Rightarrow> (pending, resolved))
      | _ \<Rightarrow> (pending, resolved)))"

definition resolved_positional :: "event list \<Rightarrow> id64 set" where
  "resolved_positional es = snd (fold positional_step es (\<lambda>_. [], {}))"

text \<open>Persistent subscriptions consume the arrivals for their name in subscription order.\<close>

fun resolved_queue_subs ::
    "id64 list \<Rightarrow> (string \<Rightarrow> nat) \<Rightarrow> (string \<Rightarrow> nat) \<Rightarrow> (id64 \<times> string) list \<Rightarrow> id64 list" where
  "resolved_queue_subs cancelled available consumed [] = []"
| "resolved_queue_subs cancelled available consumed ((eid, name) # rest) =
     (if eid \<in> set cancelled then resolved_queue_subs cancelled available consumed rest
      else if consumed name < available name
      then eid # resolved_queue_subs cancelled available (consumed(name := consumed name + 1)) rest
      else resolved_queue_subs cancelled available consumed rest)"

definition arrival_count :: "event list \<Rightarrow> string \<Rightarrow> nat" where
  "arrival_count es name = length (filter (\<lambda>(n, _). n = name) (queue_arrival_events es))"

definition sources_of :: "(event_kind \<Rightarrow> bool) \<Rightarrow> event list \<Rightarrow> id64 list" where
  "sources_of P es =
     List.map_filter (\<lambda>ev. if P (ev_kind ev) then ev_source_event_id ev else None) es"

definition sub_orch_schedules :: "event list \<Rightarrow> (id64 \<times> string) list" where
  "sub_orch_schedules es =
     List.map_filter (\<lambda>ev. case ev_kind ev of
       SubOrchestrationScheduled _ child _ \<Rightarrow> Some (ev_event_id ev, child) | _ \<Rightarrow> None) es"

definition get_outstanding_schedule_ids :: "event list \<Rightarrow> outstanding_schedules" where
  "get_outstanding_schedule_ids es =
     (let resolved_activities = sources_of is_activity_result es;
          cancelled_activities = sources_of (\<lambda>k. activity_cancel_reason k \<noteq> None) es;
          resolved_sub_orchs = sources_of is_sub_orch_result es;
          cancelled_sub_orchs = sources_of (\<lambda>k. sub_orch_cancel_reason k \<noteq> None) es;
          cancelled_positional = sources_of (\<lambda>k. external_cancel_reason k \<noteq> None) es;
          cancelled_persistent = queue_cancelled_ids es;
          resolved_pos = resolved_positional es;
          resolved_persistent = resolved_queue_subs cancelled_persistent (arrival_count es) (\<lambda>_. 0)
                                  (queue_sub_events es)
      in \<lparr>os_activities = filter (\<lambda>i. i \<notin> set resolved_activities \<and> i \<notin> set cancelled_activities)
            (baseline_schedules is_activity_scheduled es),
          os_sub_orchestrations =
            filter (\<lambda>(i, _). i \<notin> set resolved_sub_orchs \<and> i \<notin> set cancelled_sub_orchs)
              (sub_orch_schedules es),
          os_positional_subscriptions =
            filter (\<lambda>i. i \<notin> resolved_pos \<and> i \<notin> set cancelled_positional)
              (baseline_schedules is_external_subscribed es),
          os_queue_subscriptions =
            filter (\<lambda>i. i \<notin> set resolved_persistent \<and> i \<notin> set cancelled_persistent)
              (baseline_schedules is_queue_subscribed es)\<rparr>)"

definition orchestration_terminal :: string where
  "orchestration_terminal = ''orchestration_terminal''"

definition append_cancelled ::
    "string \<Rightarrow> id64 \<Rightarrow> event_kind \<Rightarrow> id64 \<Rightarrow> history_manager \<Rightarrow> history_manager" where
  "append_cancelled inst execution_id kind schedule_id m =
     hm_append (with_event_id (next_event_id m) inst execution_id (Some schedule_id) kind) m"

definition emit_terminal_cancellation_breadcrumbs ::
    "string \<Rightarrow> id64 \<Rightarrow> outstanding_schedules \<Rightarrow> history_manager \<Rightarrow> history_manager" where
  "emit_terminal_cancellation_breadcrumbs inst execution_id outstanding m =
     fold (append_cancelled inst execution_id (QueueSubscriptionCancelled orchestration_terminal))
       (os_queue_subscriptions outstanding)
       (fold (append_cancelled inst execution_id (ExternalSubscribedCancelled orchestration_terminal))
         (os_positional_subscriptions outstanding) m)"

text \<open>The pair the terminal branches share: outstanding schedules of the full history, breadcrumbs.\<close>

definition outstanding_and_breadcrumbs ::
    "string \<Rightarrow> id64 \<Rightarrow> history_manager \<Rightarrow> outstanding_schedules \<times> history_manager" where
  "outstanding_and_breadcrumbs inst execution_id m =
     (let outstanding = get_outstanding_schedule_ids (full_history m)
      in (outstanding, emit_terminal_cancellation_breadcrumbs inst execution_id outstanding m))"

subsection \<open>One execution\<close>

record turn_output =
  to_history :: history_manager
  to_worker_items :: "work_item list"
  to_orchestrator_items :: "work_item list"
  to_cancelled_activities :: "scheduled_activity_identifier list"
  to_result :: "string + string"
  to_exec_ids :: exec_ids

text \<open>\<open>enqueue_detached_from_pending\<close>.\<close>

definition detached_start_item :: "action \<Rightarrow> work_item option" where
  "detached_start_item a =
     (case a of
        StartOrchestrationDetached _ name version sub_instance input \<Rightarrow>
          Some (WI_StartOrchestration sub_instance name input version None None INITIAL_EXECUTION_ID)
      | _ \<Rightarrow> None)"

definition detached_from_pending :: "action list \<Rightarrow> work_item list" where
  "detached_from_pending pending = List.map_filter detached_start_item pending"

text \<open>The work items of one pending action of a turn that continues.\<close>

definition dispatch_action ::
    "string \<Rightarrow> id64 \<Rightarrow> action \<Rightarrow> work_item list \<times> work_item list \<times> exec_ids
       \<Rightarrow> work_item list \<times> work_item list \<times> exec_ids" where
  "dispatch_action inst execution_id a = (\<lambda>(workers, orchs, ids).
     (case a of
        CallActivity i name input session_id tag \<Rightarrow>
          (let (x, ids') = get_execution_id_for_instance inst (Some execution_id) ids
           in (workers @ [WI_ActivityExecute inst x i name input session_id tag], orchs, ids'))
      | CreateTimer i fire_at_ms \<Rightarrow>
          (let (x, ids') = get_execution_id_for_instance inst (Some execution_id) ids
           in (workers, orchs @ [WI_TimerFired inst x i fire_at_ms], ids'))
      | StartSubOrchestration i name version sub_instance input \<Rightarrow>
          (workers, orchs @ [WI_StartOrchestration (build_child_instance_id inst sub_instance) name
             input version (Some inst) (Some i) INITIAL_EXECUTION_ID], ids)
      | StartOrchestrationDetached _ name version sub_instance input \<Rightarrow>
          (workers, orchs @ [WI_StartOrchestration sub_instance name input version None None
             INITIAL_EXECUTION_ID], ids)
      | _ \<Rightarrow> (workers, orchs, ids)))"

definition continue_output ::
    "string \<Rightarrow> id64 \<Rightarrow> action list \<Rightarrow> history_manager \<Rightarrow> exec_ids \<Rightarrow> turn_output" where
  "continue_output inst execution_id pending m ids =
     (let (workers, orchs, ids') = fold (dispatch_action inst execution_id) pending ([], [], ids)
      in \<lparr>to_history = m, to_worker_items = workers, to_orchestrator_items = orchs,
          to_cancelled_activities = [], to_result = Inr [], to_exec_ids = ids'\<rparr>)"

definition completed_output ::
    "string \<Rightarrow> id64 \<Rightarrow> (string \<times> id64) option \<Rightarrow> action list \<Rightarrow> string \<Rightarrow> history_manager
       \<Rightarrow> exec_ids \<Rightarrow> turn_output" where
  "completed_output inst execution_id parent_link pending output m ids =
     (let (_, m1) = outstanding_and_breadcrumbs inst execution_id m;
          m2 = hm_append (with_event_id (next_event_id m1) inst execution_id None
                 (OrchestrationCompleted output)) m1;
          notify = (case parent_link of
             Some (parent_instance, parent_id) \<Rightarrow>
               [WI_SubOrchCompleted parent_instance
                 (fst (get_execution_id_for_instance parent_instance None ids)) parent_id output]
           | None \<Rightarrow> [])
      in \<lparr>to_history = m2, to_worker_items = [],
          to_orchestrator_items = detached_from_pending pending @ notify,
          to_cancelled_activities = [], to_result = Inr output, to_exec_ids = ids\<rparr>)"

definition notify_parent_failed ::
    "(string \<times> id64) option \<Rightarrow> error_details \<Rightarrow> exec_ids \<Rightarrow> work_item list" where
  "notify_parent_failed parent_link details ids =
     (case parent_link of
        Some (parent_instance, parent_id) \<Rightarrow>
          [WI_SubOrchFailed parent_instance
            (fst (get_execution_id_for_instance parent_instance None ids)) parent_id details]
      | None \<Rightarrow> [])"

definition failed_output ::
    "string \<Rightarrow> id64 \<Rightarrow> (string \<times> id64) option \<Rightarrow> action list \<Rightarrow> error_details \<Rightarrow> history_manager
       \<Rightarrow> exec_ids \<Rightarrow> turn_output" where
  "failed_output inst execution_id parent_link pending details m ids =
     (let (_, m1) = outstanding_and_breadcrumbs inst execution_id m
      in \<lparr>to_history = append_failed details m1, to_worker_items = [],
          to_orchestrator_items =
            detached_from_pending pending @ notify_parent_failed parent_link details ids,
          to_cancelled_activities = [], to_result = Inl (display_message details),
          to_exec_ids = ids\<rparr>)"

text \<open>The unmatched queue messages are read before the breadcrumbs are written. \<open>truncate\<close> keeps the
  oldest 100 (the comment on the constant says the oldest are dropped).\<close>

definition continued_output ::
    "string \<Rightarrow> id64 \<Rightarrow> string \<Rightarrow> string \<Rightarrow> string option \<Rightarrow> history_manager \<Rightarrow> exec_ids
       \<Rightarrow> turn_output" where
  "continued_output inst execution_id orchestration_name input version m ids =
     (let unmatched = collect_unmatched_queue_messages (full_history m);
          (_, m1) = outstanding_and_breadcrumbs inst execution_id m;
          m2 = hm_append (with_event_id (next_event_id m1) inst execution_id None
                 (OrchestrationContinuedAsNew input)) m1;
          unmatched' = (if length unmatched > MAX_CARRY_FORWARD
                        then take MAX_CARRY_FORWARD unmatched else unmatched);
          initial_custom_status = compute_accumulated_custom_status (full_history m2) None
      in \<lparr>to_history = m2, to_worker_items = [],
          to_orchestrator_items =
            [WI_ContinueAsNew inst orchestration_name input version unmatched' initial_custom_status],
          to_cancelled_activities = [], to_result = Inr ''continued as new'', to_exec_ids = ids\<rparr>)"

definition cancelled_output ::
    "string \<Rightarrow> id64 \<Rightarrow> (string \<times> id64) option \<Rightarrow> string \<Rightarrow> history_manager \<Rightarrow> exec_ids
       \<Rightarrow> turn_output" where
  "cancelled_output inst execution_id parent_link reason m ids =
     (let details = Application (AE_Cancelled reason) [] False;
          (outstanding, m1) = outstanding_and_breadcrumbs inst execution_id m;
          children = map (\<lambda>(_, child_suffix).
             WI_CancelInstance (build_child_instance_id inst child_suffix) ''parent canceled'')
             (os_sub_orchestrations outstanding)
      in \<lparr>to_history = append_failed details m1, to_worker_items = [],
          to_orchestrator_items = children @ notify_parent_failed parent_link details ids,
          to_cancelled_activities = [], to_result = Inl (display_message details),
          to_exec_ids = ids\<rparr>)"

definition turn_result_output ::
    "string \<Rightarrow> id64 \<Rightarrow> string \<Rightarrow> (string \<times> id64) option \<Rightarrow> turn_result \<Rightarrow> action list
       \<Rightarrow> history_manager \<Rightarrow> exec_ids \<Rightarrow> turn_output" where
  "turn_result_output inst execution_id orchestration_name parent_link res pending m ids =
     (case res of
        TR_Continue \<Rightarrow> continue_output inst execution_id pending m ids
      | TR_Completed output \<Rightarrow> completed_output inst execution_id parent_link pending output m ids
      | TR_Failed details \<Rightarrow> failed_output inst execution_id parent_link pending details m ids
      | TR_ContinueAsNew input version \<Rightarrow>
          continued_output inst execution_id orchestration_name input version m ids
      | TR_Cancelled reason \<Rightarrow> cancelled_output inst execution_id parent_link reason m ids)"

definition parent_dropped :: string where
  "parent_dropped = ''parent dropped sub-orchestration future''"

definition run_single_execution_atomic ::
    "'s handler \<Rightarrow> string \<Rightarrow> history_manager \<Rightarrow> work_item_reader \<Rightarrow> id64 \<Rightarrow> string
       \<Rightarrow> (string \<times> kv_entry) list \<Rightarrow> exec_ids \<Rightarrow> turn_output option" where
  "run_single_execution_atomic h inst m reader execution_id orchestration_version kv_snapshot ids =
     (let (input, parent_link) = extract_context m;
          engine = with_kv_snapshot kv_snapshot
            (with_persisted_history_len (original_len m)
              (engine_new inst execution_id (full_history m)));
          prepared = (if wr_completion_messages reader = [] then engine
                      else prep_completions (wr_completion_messages reader) engine)
      in case execute_orchestration h input (wr_orchestration_name reader) orchestration_version prepared of
           None \<Rightarrow> None
         | Some (res, turn) \<Rightarrow>
             (let cancelled = map (\<lambda>i. \<lparr>sa_instance = inst, sa_execution_id = execution_id,
                    sa_activity_id = i\<rparr>) (re_cancelled_activity_ids turn);
                  cancelled_sub_orch_items = map (\<lambda>child.
                    WI_CancelInstance (build_child_instance_id inst child) parent_dropped)
                    (re_cancelled_sub_orchestration_ids turn);
                  out = turn_result_output inst execution_id (wr_orchestration_name reader) parent_link
                    res (re_pending_actions turn) (hm_extend (re_history_delta turn) m) ids
              in Some (out\<lparr>to_cancelled_activities := cancelled,
                           to_orchestrator_items := to_orchestrator_items out @ cancelled_sub_orch_items\<rparr>)))"

end
