(* ===== verification/Execution_Props.thy ===== *)
theory Execution_Props
  imports Execution Replay_Outcome
begin

text \<open>
  What a turn commits (\<open>Execution\<close>): event ids stay increasing, the terminal event is the last one, and
  queue messages are carried over continue-as-new in order.
\<close>

subsection \<open>Appending to the history manager\<close>

lemma fold_max_ge: "x \<in> set xs \<or> x \<le> a \<Longrightarrow> x \<le> fold max xs (a :: nat)"
proof (induction xs arbitrary: a)
  case (Cons y ys)
  then have "x \<in> set ys \<or> x \<le> max y a" by (metis le_max_iff_disj max.cobounded1 set_ConsD)
  from Cons.IH [OF this] show ?case by simp
qed simp

lemma next_event_id_bound: "ev \<in> set (full_history m) \<Longrightarrow> ev_event_id ev < next_event_id m"
  using fold_max_ge [of "ev_event_id ev" "map ev_event_id (full_history m)" 0]
  unfolding next_event_id_def less_Suc_eq_le Suc_eq_plus1 [symmetric] by simp

text \<open>A history whose ids increase and which has no terminal event.\<close>

definition open_history :: "event list \<Rightarrow> bool" where
  "open_history es \<longleftrightarrow> sorted_wrt (<) (map ev_event_id es) \<and> \<not> list_ex is_terminal es"

lemma full_history_append [simp]: "full_history (hm_append ev m) = full_history m @ [ev]"
  by (simp add: full_history_def hm_append_def)

lemma sorted_append_next:
  assumes "sorted_wrt (<) (map ev_event_id (full_history m))"
  shows "sorted_wrt (<) (map ev_event_id (full_history (hm_append (with_event_id (next_event_id m) i x s k) m)))"
  using assms next_event_id_bound [of _ m] by (auto simp: sorted_wrt_append)

lemma append_cancelled_open:
  assumes "open_history (full_history m)" and "\<not> is_terminal_kind k"
  shows "open_history (full_history (append_cancelled i x k s m))"
  using assms sorted_append_next [of m i x "Some s" k]
  by (simp add: open_history_def append_cancelled_def is_terminal_def)

lemma fold_append_cancelled_open:
  "open_history (full_history m) \<Longrightarrow> \<not> is_terminal_kind k \<Longrightarrow>
     open_history (full_history (fold (append_cancelled i x k) ss m))"
  by (induction ss arbitrary: m) (simp_all add: append_cancelled_open)

lemma breadcrumbs_open:
  "open_history (full_history m) \<Longrightarrow>
     open_history (full_history (emit_terminal_cancellation_breadcrumbs i x os m))"
  by (simp add: emit_terminal_cancellation_breadcrumbs_def fold_append_cancelled_open)

lemma breadcrumbs_prefix:
  "\<exists>evs. full_history (emit_terminal_cancellation_breadcrumbs i x os m) = full_history m @ evs"
proof -
  have "\<exists>evs. full_history (fold (append_cancelled i x k) ss m) = full_history m @ evs" for k ss m
  proof (induction ss arbitrary: m)
    case (Cons s ss)
    from Cons.IH [of "append_cancelled i x k s m"] show ?case by (auto simp: append_cancelled_def)
  qed simp
  then show ?thesis
    unfolding emit_terminal_cancellation_breadcrumbs_def by (metis append_assoc)
qed

text \<open>A closed history: an open one and a terminal event behind it.\<close>

definition closed_history :: "event list \<Rightarrow> bool" where
  "closed_history es \<longleftrightarrow> (\<exists>hs ev. es = hs @ [ev] \<and> open_history hs \<and> is_terminal ev
     \<and> sorted_wrt (<) (map ev_event_id es))"

lemma closed_append:
  assumes "open_history (full_history m)" and "is_terminal_kind k"
  shows "closed_history (full_history (hm_append (with_event_id (next_event_id m) i x s k) m))"
  using assms sorted_append_next [of m i x s k]
  unfolding closed_history_def
  by (intro exI [of _ "full_history m"] exI [of _ "with_event_id (next_event_id m) i x s k"])
    (simp add: open_history_def is_terminal_def)

lemma turn_output_history:
  assumes "open_history (full_history m)"
  shows "res = TR_Continue \<Longrightarrow>
      full_history (to_history (turn_result_output i x n pl res pending m ids)) = full_history m"
    and "res \<noteq> TR_Continue \<Longrightarrow>
      closed_history (full_history (to_history (turn_result_output i x n pl res pending m ids)))"
proof -
  show "res = TR_Continue \<Longrightarrow>
      full_history (to_history (turn_result_output i x n pl res pending m ids)) = full_history m"
    by (simp add: turn_result_output_def continue_output_def case_prod_unfold Let_def)
next
  define b where "b = snd (outstanding_and_breadcrumbs i x m)"
  have b: "outstanding_and_breadcrumbs i x m = (get_outstanding_schedule_ids (full_history m), b)"
    by (simp add: b_def outstanding_and_breadcrumbs_def Let_def)
  have "open_history (full_history b)"
    using breadcrumbs_open [OF assms] by (simp add: b_def outstanding_and_breadcrumbs_def Let_def)
  note closed = closed_append [OF this]
  show "res \<noteq> TR_Continue \<Longrightarrow>
      closed_history (full_history (to_history (turn_result_output i x n pl res pending m ids)))"
  proof (cases res)
    case (TR_Completed v)
    then show ?thesis
      by (simp only: turn_result_output_def turn_result.case completed_output_def b Let_def prod.case
          turn_output.simps) (rule closed, simp)
  next
    case (TR_Failed d)
    then show ?thesis
      by (simp only: turn_result_output_def turn_result.case failed_output_def append_failed_def b Let_def
          prod.case turn_output.simps) (rule closed, simp)
  next
    case (TR_ContinueAsNew inp v)
    then show ?thesis
      by (simp only: turn_result_output_def turn_result.case continued_output_def b Let_def prod.case
          turn_output.simps) (rule closed, simp)
  next
    case (TR_Cancelled reason)
    then show ?thesis
      by (simp only: turn_result_output_def turn_result.case cancelled_output_def append_failed_def b Let_def
          prod.case turn_output.simps) (rule closed, simp)
  qed simp
qed

text \<open>The engine and the manager of one execution agree on the history.\<close>

lemma run_single_decompose:
  assumes "run_single_execution_atomic h inst m reader x ver kv ids = Some out"
  obtains res turn input link where
    "grows (with_kv_snapshot kv (with_persisted_history_len (original_len m)
       (engine_new inst x (full_history m)))) turn"
    "to_history out = to_history (turn_result_output inst x (wr_orchestration_name reader) link res
       (re_pending_actions turn) (hm_extend (re_history_delta turn) m) ids)"
    "extract_context m = (input, link)"
    "to_result out = to_result (turn_result_output inst x (wr_orchestration_name reader) link res
       (re_pending_actions turn) (hm_extend (re_history_delta turn) m) ids)"
proof -
  obtain input link where ctx: "extract_context m = (input, link)" by (cases "extract_context m")
  let ?e = "with_kv_snapshot kv (with_persisted_history_len (original_len m) (engine_new inst x (full_history m)))"
  let ?p = "if wr_completion_messages reader = [] then ?e else prep_completions (wr_completion_messages reader) ?e"
  have g: "grows ?e ?p" by (simp add: grows_prep_completions)
  from assms obtain res turn where
    ex: "execute_orchestration h input (wr_orchestration_name reader) ver ?p = Some (res, turn)"
    by (auto simp: run_single_execution_atomic_def ctx Let_def split: option.splits)
  with assms have "to_history out = to_history (turn_result_output inst x (wr_orchestration_name reader) link res
       (re_pending_actions turn) (hm_extend (re_history_delta turn) m) ids)"
    "to_result out = to_result (turn_result_output inst x (wr_orchestration_name reader) link res
       (re_pending_actions turn) (hm_extend (re_history_delta turn) m) ids)"
    by (auto simp: run_single_execution_atomic_def ctx Let_def)
  with that [OF grows_trans [OF g grows_execute [OF ex]] _ ctx] show ?thesis by blast
qed

text \<open>C21. The terminal event is the last and only one: if the history had increasing ids and no terminal
  event before the turn, then after the turn either it still has none, or it is such a history
  followed by exactly one terminal event, with ids increasing throughout (breadcrumbs of open
  subscriptions come before it).\<close>

theorem terminal_event_last:
  assumes "open_history (full_history m)"
    and "run_single_execution_atomic h inst m reader x ver kv ids = Some out"
  shows "open_history (full_history (to_history out)) \<or> closed_history (full_history (to_history out))"
proof -
  from run_single_decompose [OF assms(2)] obtain res turn link where
    g: "grows (with_kv_snapshot kv (with_persisted_history_len (original_len m)
       (engine_new inst x (full_history m)))) turn"
    and hist: "to_history out = to_history (turn_result_output inst x (wr_orchestration_name reader) link res
       (re_pending_actions turn) (hm_extend (re_history_delta turn) m) ids)" by metis
  let ?e0 = "with_kv_snapshot kv (with_persisted_history_len (original_len m)
       (engine_new inst x (full_history m)))"
  let ?m = "hm_extend (re_history_delta turn) m"
  have h: "full_history ?m = engine_history turn"
    using g by (auto simp: grows_def appends_def with_kv_snapshot_def with_persisted_history_len_def
        engine_new_def full_history_def hm_extend_def engine_history_def)
  have "ids_ok ?e0"
    using engine_new_ids_ok [of "full_history m"] assms(1)
    by (simp add: ids_ok_def open_history_def with_kv_snapshot_def with_persisted_history_len_def engine_history_def)
  with g have "ids_ok turn" by (rule grows_ids_ok [rotated])
  moreover have "\<not> list_ex is_terminal (engine_history turn)"
    using g assms(1) by (auto simp: grows_def appends_def with_kv_snapshot_def with_persisted_history_len_def
        engine_new_def engine_history_def open_history_def list_ex_iff)
  ultimately have op: "open_history (full_history ?m)" by (simp add: h open_history_def ids_ok_def)
  show ?thesis
  proof (cases "res = TR_Continue")
    case True
    with turn_output_history(1) [OF op] op show ?thesis by (simp add: hist)
  next
    case False
    with turn_output_history(2) [OF op] show ?thesis by (simp add: hist)
  qed
qed

definition sample_manager :: history_manager where
  "sample_manager = from_history [started_event]"

lemma sample_run_returns:
  "run_single_execution_atomic one_activity_handler ''i'' sample_manager
     (from_messages [] sample_manager ''i'') 1 ''1.0.0'' [] Map.empty \<noteq> None"
  by code_simp

theorem terminal_event_last_witness:
  "\<exists>out. run_single_execution_atomic one_activity_handler ''i'' sample_manager
       (from_messages [] sample_manager ''i'') 1 ''1.0.0'' [] Map.empty = Some out
     \<and> (open_history (full_history (to_history out)) \<or> closed_history (full_history (to_history out)))"
proof -
  obtain out where o: "run_single_execution_atomic one_activity_handler ''i'' sample_manager
       (from_messages [] sample_manager ''i'') 1 ''1.0.0'' [] Map.empty = Some out"
    using sample_run_returns by blast
  have "open_history (full_history sample_manager)"
    by (simp add: open_history_def sample_manager_def full_history_def from_history_def started_event_def
        hm_note_started_def is_terminal_def Let_def)
  from terminal_event_last [OF this o] o show ?thesis by blast
qed

subsection \<open>Carry-forward and resolution of queue messages\<close>

definition data_for :: "string \<Rightarrow> (string \<times> string) list \<Rightarrow> string list" where
  "data_for name arrivals = map snd (filter (\<lambda>(n, _). n = name) arrivals)"

lemma data_for_simps [simp]:
  "data_for name [] = []"
  "data_for name ((n, d) # arrivals) = (if n = name then d # data_for name arrivals else data_for name arrivals)"
  by (simp_all add: data_for_def)

lemma unmatched_per_name:
  "data_for name (unmatched_arrivals active consumed arrivals)
     = drop (active name - consumed name) (data_for name arrivals)"
proof (induction active consumed arrivals rule: unmatched_arrivals.induct)
  case (2 active consumed n d rest)
  show ?case
  proof (cases "consumed n < active n")
    case True
    have "data_for name (unmatched_arrivals active (consumed(n := consumed n + 1)) rest)
        = drop (active name - (consumed(n := consumed n + 1)) name) (data_for name rest)" by (rule 2(1) [OF True])
    moreover have "active n - consumed n = Suc (active n - (consumed n + 1))" using True by simp
    ultimately show ?thesis using True by (cases "n = name") simp_all
  next
    case False
    with 2(2) [OF False] show ?thesis by (cases "n = name") simp_all
  qed
qed simp

lemma unmatched_subseq: "\<exists>P. unmatched_arrivals active consumed arrivals = nths arrivals P"
proof (induction active consumed arrivals rule: unmatched_arrivals.induct)
  case (2 active consumed n d rest)
  show ?case
  proof (cases "consumed n < active n")
    case True
    from 2(1) [OF True] obtain P where "unmatched_arrivals active (consumed(n := consumed n + 1)) rest = nths rest P"
      by blast
    with True show ?thesis by (intro exI [of _ "Suc ` P"]) (simp add: nths_Cons image_iff)
  next
    case False
    from 2(2) [OF False] obtain P where "unmatched_arrivals active consumed rest = nths rest P" by blast
    with False show ?thesis by (intro exI [of _ "insert 0 (Suc ` P)"]) (simp add: nths_Cons image_iff)
  qed
qed simp

text \<open>The matching of continue-as-new is exact: per queue, the messages carried forward are the
  arrivals after the first k, where k is the number of subscriptions the history does not cancel,
  so none is dropped in the middle and none is carried twice; across queues they keep the order
  of arrival.\<close>

theorem carry_forward_exact:
  "data_for name (collect_unmatched_queue_messages es)
     = drop (active_subs_by_name (queue_cancelled_ids es) (queue_sub_events es) name)
         (data_for name (queue_arrival_events es))
   \<and> (\<exists>P. collect_unmatched_queue_messages es = nths (queue_arrival_events es) P)"
  by (simp add: collect_unmatched_queue_messages_def unmatched_per_name unmatched_subseq)

end
