(* ===== verification/Dispatch.thy ===== *)
theory Dispatch
  imports Execution Replay_Outcome
begin

text \<open>
  Dispatch: the schedule events a turn records and the pending actions it dispatches are the same
  list, so everything scheduled in the history is handed to the queues exactly once.
\<close>

fun action_schedule_id :: "action \<Rightarrow> id64 option" where
  "action_schedule_id (CallActivity i _ _ _ _) = Some i"
| "action_schedule_id (CreateTimer i _) = Some i"
| "action_schedule_id (WaitExternal i _) = Some i"
| "action_schedule_id (DequeueEvent i _) = Some i"
| "action_schedule_id (StartSubOrchestration i _ _ _ _) = Some i"
| "action_schedule_id (StartOrchestrationDetached i _ _ _ _) = Some i"
| "action_schedule_id _ = None"

fun is_scheduling_kind :: "event_kind \<Rightarrow> bool" where
  "is_scheduling_kind (ActivityScheduled _ _ _ _) = True"
| "is_scheduling_kind (TimerCreated _) = True"
| "is_scheduling_kind (ExternalSubscribed _) = True"
| "is_scheduling_kind (QueueSubscribed _) = True"
| "is_scheduling_kind (SubOrchestrationScheduled _ _ _) = True"
| "is_scheduling_kind (OrchestrationChained _ _ _) = True"
| "is_scheduling_kind _ = False"

definition event_schedule :: "event \<Rightarrow> (id64 \<times> event_kind) option" where
  "event_schedule ev = (if is_scheduling_kind (ev_kind ev) then Some (ev_event_id ev, ev_kind ev) else None)"

definition action_schedule :: "action \<Rightarrow> (id64 \<times> event_kind) option" where
  "action_schedule a = (case (action_schedule_id a, action_event_kind a) of
     (Some i, Some k) \<Rightarrow> Some (i, k) | _ \<Rightarrow> None)"

definition recorded_schedules :: "event list \<Rightarrow> (id64 \<times> event_kind) list" where
  "recorded_schedules es = List.map_filter event_schedule es"

definition pending_schedules :: "action list \<Rightarrow> (id64 \<times> event_kind) list" where
  "pending_schedules as = List.map_filter action_schedule as"

definition schedules_inv :: "replay_engine \<Rightarrow> bool" where
  "schedules_inv e \<longleftrightarrow> recorded_schedules (re_history_delta e) = pending_schedules (re_pending_actions e)"

lemma recorded_append [simp]:
  "recorded_schedules (xs @ ys) = recorded_schedules xs @ recorded_schedules ys"
  "recorded_schedules [] = []"
  "recorded_schedules (x # xs) = (case event_schedule x of Some y \<Rightarrow> y # recorded_schedules xs | None \<Rightarrow> recorded_schedules xs)"
  by (simp_all add: recorded_schedules_def map_filter_def split: option.splits)

lemma pending_append [simp]:
  "pending_schedules (xs @ ys) = pending_schedules xs @ pending_schedules ys"
  "pending_schedules [] = []"
  "pending_schedules (a # as) = (case action_schedule a of Some y \<Rightarrow> y # pending_schedules as | None \<Rightarrow> pending_schedules as)"
  by (simp_all add: pending_schedules_def map_filter_def split: option.splits)

text \<open>A step that leaves the pending actions alone and appends no schedule event.\<close>

definition quiet_step :: "replay_engine \<Rightarrow> replay_engine \<Rightarrow> bool" where
  "quiet_step e e' \<longleftrightarrow> re_pending_actions e' = re_pending_actions e
     \<and> recorded_schedules (re_history_delta e') = recorded_schedules (re_history_delta e)"

lemma quiet_inv: "quiet_step e e' \<Longrightarrow> schedules_inv e \<Longrightarrow> schedules_inv e'"
  by (simp add: quiet_step_def schedules_inv_def)

lemma quiet_trans: "quiet_step e e' \<Longrightarrow> quiet_step e' e'' \<Longrightarrow> quiet_step e e''"
  by (simp add: quiet_step_def)

lemma quiet_refl [simp]: "quiet_step e e"
  by (simp add: quiet_step_def)

lemma completion_not_schedule: "completion_event e m = Some ev \<Longrightarrow> event_schedule (set_event_id ev i) = None"
  by (cases m) (auto simp: event_schedule_def split: if_splits)

lemma quiet_prep_completion: "quiet_step e (prep_completion m e)"
  by (auto simp: quiet_step_def prep_completion_def Let_def push_event_def note_abort_def
      dest: completion_not_schedule [where i = "re_next_event_id e"] split: option.splits)

lemma quiet_prep_completions: "quiet_step e (prep_completions ms e)"
  unfolding prep_completions_def
proof (induction ms arbitrary: e)
  case (Cons m ms)
  show ?case using quiet_trans [OF quiet_prep_completion [of e m] Cons.IH [of "prep_completion m e"]] by simp
qed simp

lemma quiet_emit:
  assumes "\<not> is_scheduling_kind k" and "\<And>x e. quiet_step e (side x e)"
  shows "quiet_step e (emit_cancel_requests k side already xs e)"
proof (induction xs arbitrary: already e)
  case (Cons x xs)
  have "quiet_step (side x e) (push_breadcrumb k (fst x) (side x e))"
    using assms(1) by (simp add: quiet_step_def push_breadcrumb_def event_schedule_def)
  from quiet_trans [OF quiet_trans [OF assms(2) this] Cons.IH [of _ "insert (fst x) already"]]
    Cons.IH [of e already]
  show ?case by simp
qed simp

lemma quiet_emit_cancellations: "quiet_step e (emit_cancellations c e)"
  unfolding emit_cancellations_def Let_def
  by (intro quiet_trans [OF _ quiet_emit] quiet_emit)
    (simp_all add: quiet_step_def side_activity_def side_sub_orch_def no_side_def)

lemma converted_schedule:
  "case action_event_kind (update_action_event_id a i) of
     Some k \<Rightarrow> action_schedule (update_action_event_id a i)
        = (if is_scheduling_kind k then Some (i, k) else None)
   | None \<Rightarrow> action_schedule (update_action_event_id a i) = None"
  by (cases a) (simp_all add: action_schedule_def)

lemma convert_action_inv:
  assumes "schedules_inv e"
  shows "schedules_inv (fst (convert_action x (e, c)))"
proof -
  obtain t a where x: "x = (t, a)" by (cases x)
  show ?thesis
    using assms converted_schedule [of a "re_next_event_id e"]
    by (simp add: x convert_action_def Let_def schedules_inv_def action_to_event_def event_schedule_def
        split: option.splits)
qed

lemma convert_inv: "schedules_inv e \<Longrightarrow> schedules_inv (fst (convert_emitted_actions acts e c))"
proof (induction acts arbitrary: e c)
  case (Cons x acts)
  obtain e1 c1 where x: "convert_action x (e, c) = (e1, c1)" by (cases "convert_action x (e, c)")
  with convert_action_inv [OF Cons.prems, of x c] have "schedules_inv e1" by simp
  from Cons.IH [OF this, of c1] x show ?case by (simp add: convert_emitted_actions_def)
qed (simp add: convert_emitted_actions_def)

lemma execute_inv:
  "execute_orchestration h input n v e = Some (res, e') \<Longrightarrow> schedules_inv e \<Longrightarrow> schedules_inv e'"
  by (erule execute_relation [where R = "\<lambda>e e'. schedules_inv e \<longrightarrow> schedules_inv e'", rotated -1, THEN mp])
    (simp_all add: convert_inv quiet_inv [OF quiet_emit_cancellations])

lemma prepared_inv: "schedules_inv (prepared_engine i x hist n kv ms)"
  unfolding prepared_engine_def
  by (rule quiet_inv [OF quiet_prep_completions])
    (simp add: schedules_inv_def with_kv_snapshot_def with_persisted_history_len_def engine_new_def)

subsection \<open>The items of a continuing turn\<close>

definition activity_item :: "string \<Rightarrow> id64 \<Rightarrow> id64 \<times> event_kind \<Rightarrow> work_item option" where
  "activity_item inst x s = (case snd s of
     ActivityScheduled name input session tag \<Rightarrow>
       Some (WI_ActivityExecute inst x (fst s) name input session tag) | _ \<Rightarrow> None)"

text \<open>What a recorded schedule puts into the orchestrator queue. The history does not record the version of a start.\<close>

definition orchestrator_item :: "string \<Rightarrow> id64 \<Rightarrow> id64 \<times> event_kind \<Rightarrow> work_item option" where
  "orchestrator_item inst x s = (case snd s of
     TimerCreated fire_at \<Rightarrow> Some (WI_TimerFired inst x (fst s) fire_at)
   | SubOrchestrationScheduled name child input \<Rightarrow>
       Some (WI_StartOrchestration (build_child_instance_id inst child) name input None (Some inst) (Some (fst s)) 1)
   | OrchestrationChained name other input \<Rightarrow> Some (WI_StartOrchestration other name input None None None 1)
   | _ \<Rightarrow> None)"

definition without_version :: "work_item \<Rightarrow> work_item" where
  "without_version w = (case w of
     WI_StartOrchestration inst name input _ p i x \<Rightarrow> WI_StartOrchestration inst name input None p i x | _ \<Rightarrow> w)"

lemma mf_append: "List.map_filter f (xs @ ys) = List.map_filter f xs @ List.map_filter f ys"
  by (simp add: map_filter_def)

lemma dispatch_items:
  "fold (dispatch_action inst x) pending (ws, os, ids) = (ws', os', ids') \<Longrightarrow>
     ws' = ws @ List.map_filter (activity_item inst x) (pending_schedules pending)
     \<and> map without_version os'
         = map without_version os @ List.map_filter (orchestrator_item inst x) (pending_schedules pending)"
proof (induction pending arbitrary: ws os ids)
  case (Cons a pending)
  obtain w1 o1 i1 where one: "dispatch_action inst x a (ws, os, ids) = (w1, o1, i1)"
    by (cases "dispatch_action inst x a (ws, os, ids)")
  from Cons.prems one have "fold (dispatch_action inst x) pending (w1, o1, i1) = (ws', os', ids')" by simp
  from Cons.IH [OF this] one show ?case
    by (cases a)
      (auto simp: dispatch_action_def get_execution_id_for_instance_def Let_def action_schedule_def
        activity_item_def orchestrator_item_def without_version_def INITIAL_EXECUTION_ID_def
        map_filter_simps mf_append)
qed (simp add: map_filter_simps)


lemma one_activity_continues:
  "map_option fst (execute_orchestration one_activity_handler ''x'' ''o'' ''1.0.0''
     (prepared_engine ''i'' 1 [started_event] 0 [] [])) = Some TR_Continue"
  by code_simp


subsection \<open>Parents\<close>

definition is_parent_notice :: "work_item \<Rightarrow> bool" where
  "is_parent_notice w = (case w of WI_SubOrchCompleted _ _ _ _ \<Rightarrow> True | WI_SubOrchFailed _ _ _ _ \<Rightarrow> True | _ \<Rightarrow> False)"

lemma is_parent_notice_simps [simp]:
  "is_parent_notice (WI_SubOrchCompleted a b c d)" "is_parent_notice (WI_SubOrchFailed a b c e)"
  "\<not> is_parent_notice (WI_ContinueAsNew f g h i j k)" "\<not> is_parent_notice (WI_CancelInstance l n)"
  by (simp_all add: is_parent_notice_def)

lemma no_notices [simp]:
  "filter is_parent_notice (detached_from_pending pending) = []"
  "filter is_parent_notice (map (\<lambda>x. WI_CancelInstance (f x) r) cs) = []"
  by (auto simp: detached_from_pending_def map_filter_def filter_empty_conv is_parent_notice_def
      detached_start_item_def split: action.splits)

lemma dispatch_no_notices:
  "fold (dispatch_action inst x) pending (ws, os, ids) = (ws', os', ids') \<Longrightarrow>
     filter is_parent_notice os' = filter is_parent_notice os"
proof (induction pending arbitrary: ws os ids)
  case (Cons a pending)
  obtain w1 o1 i1 where one: "dispatch_action inst x a (ws, os, ids) = (w1, o1, i1)"
    by (cases "dispatch_action inst x a (ws, os, ids)")
  then have "filter is_parent_notice o1 = filter is_parent_notice os"
    by (cases a) (auto simp: dispatch_action_def get_execution_id_for_instance_def Let_def is_parent_notice_def)
  with Cons.IH [of w1 o1 i1] Cons.prems one show ?case by simp
qed simp

text \<open>A parent is told exactly once, and only of an end: a turn of a sub-orchestration sends its
  parent one \<open>SubOrchCompleted\<close> when it completes, one \<open>SubOrchFailed\<close> with the same error details
  when it fails or is cancelled, and nothing when it continues or continues as new; a root
  orchestration never sends one.\<close>

theorem parent_notified_once:
  "filter is_parent_notice (to_orchestrator_items (turn_result_output inst x n link res pending m ids)) =
     (case link of
        None \<Rightarrow> []
      | Some (p, i) \<Rightarrow>
          (case res of
             TR_Completed output \<Rightarrow>
               [WI_SubOrchCompleted p (fst (get_execution_id_for_instance p None ids)) i output]
           | TR_Failed d \<Rightarrow> [WI_SubOrchFailed p (fst (get_execution_id_for_instance p None ids)) i d]
           | TR_Cancelled reason \<Rightarrow>
               [WI_SubOrchFailed p (fst (get_execution_id_for_instance p None ids)) i
                  (Application (AE_Cancelled reason) [] False)]
           | TR_Continue \<Rightarrow> []
           | TR_ContinueAsNew _ _ \<Rightarrow> []))"
proof (cases res)
  case TR_Continue
  obtain ws os ids' where d: "fold (dispatch_action inst x) pending ([], [], ids) = (ws, os, ids')"
    by (cases "fold (dispatch_action inst x) pending ([], [], ids)")
  with dispatch_no_notices [OF d] TR_Continue show ?thesis
    by (simp add: turn_result_output_def continue_output_def split: option.splits)
qed (simp_all add: turn_result_output_def completed_output_def failed_output_def cancelled_output_def
      continued_output_def notify_parent_failed_def case_prod_unfold Let_def split: option.splits)

text \<open>A parent that has continued as new can miss its child's result. \<open>current_execution_ids\<close> is only
  updated by a turn that schedules an activity or a timer, so when execution 2 of \<open>p\<close> starts with a
  child and nothing else, the child's completion is addressed to execution 1, and the preparation
  stage of execution 2 ignores it, whatever the history: the parent waits forever.\<close>

theorem child_result_misaddressed:
  "let parent = continue_output ''p'' 2 [StartSubOrchestration 2 ''c'' None ''sub::2'' ''x''] m Map.empty;
       child = completed_output ''p::sub::2'' 1 (Some (''p'', 2)) [] ''done'' m' (to_exec_ids parent)
   in to_orchestrator_items parent
        = [WI_StartOrchestration ''p::sub::2'' ''c'' ''x'' None (Some ''p'') (Some 2) 1]
      \<and> to_orchestrator_items child = [WI_SubOrchCompleted ''p'' 1 2 ''done'']
      \<and> prep_completions (to_orchestrator_items child) (engine_new ''p'' 2 hist) = engine_new ''p'' 2 hist"
  by (simp add: continue_output_def dispatch_action_def completed_output_def case_prod_unfold Let_def
      get_execution_id_for_instance_def detached_from_pending_def map_filter_simps INITIAL_EXECUTION_ID_def
      prep_completions_def prep_completion_def engine_new_def build_child_instance_id_def
      is_auto_generated_sub_orch_id_def starts_with_def SUB_ORCH_AUTO_PREFIX_def)

subsection \<open>Two losses\<close>

text \<open>\<open>schedule_orchestration("w", "w1", "x"); continue_as_new("n")\<close>, then pending forever.\<close>

definition detach_then_continue_poll :: "bool \<Rightarrow> ctx_inner \<Rightarrow> poll_outcome \<times> bool \<times> ctx_inner \<times> bool" where
  "detach_then_continue_poll started c =
     (if started then (PollPending, True, c, False)
      else (PollPending, True, continue_as_new ''n'' (schedule_orchestration ''w'' ''w1'' ''x'' c), False))"

definition detach_then_continue :: "bool handler" where
  "detach_then_continue = \<lparr>h_invoke = (\<lambda>_. Inr False), h_poll = detach_then_continue_poll\<rparr>"

definition new_manager :: history_manager where
  "new_manager = hm_append started_event (from_history [])"

text \<open>A detached start is lost in a turn that continues as new: the history of the execution records
  the start (\<open>OrchestrationChained\<close>), but no message starts the orchestration; the only message is
  the \<open>ContinueAsNew\<close>. (Completed and failed turns do honour detached starts.)\<close>

theorem detached_start_lost:
  "map_option (\<lambda>out. (map ev_kind (hm_delta (to_history out)), to_orchestrator_items out))
     (run_single_execution_atomic detach_then_continue ''i'' new_manager
        (from_messages [WI_StartOrchestration ''i'' ''o'' ''x'' None None None 1] new_manager ''i'')
        1 ''1.0.0'' [] Map.empty)
   = Some ([OrchestrationStarted ''o'' ''1.0.0'' ''x'' None None None None,
            OrchestrationChained ''w'' ''w1'' ''x'', OrchestrationContinuedAsNew ''n''],
           [WI_ContinueAsNew ''i'' ''o'' ''n'' None [] None])"
  by code_simp

text \<open>\<open>select2(dequeue_event("q"), schedule_activity("a", "x"))\<close>; when the activity wins, the dequeue is dropped and
  the orchestration continues as new.\<close>

definition select_then_continue_poll ::
    "(durable_future \<times> durable_future) option option \<Rightarrow> ctx_inner
       \<Rightarrow> poll_outcome \<times> (durable_future \<times> durable_future) option option \<times> ctx_inner \<times> bool" where
  "select_then_continue_poll s c =
     (case s of
        Some None \<Rightarrow> (PollPending, s, c, False)
      | _ \<Rightarrow>
          (let ((q, t), c0) =
                 (case s of
                    Some (Some qt) \<Rightarrow> (qt, c)
                  | _ \<Rightarrow> (let (q, c1) = dequeue_event ''q'' c; (t, c2) = schedule_activity ''a'' ''x'' c1
                         in ((q, t), c2)));
               (rq, q', c1) = df_poll q c0
           in if rq \<noteq> None then (PollReady (Inr ''got''), Some None, c1, False)
              else let (rt, t', c2) = df_poll t c1
                   in if rt = None then (PollPending, Some (Some (q', t')), c2, False)
                      else (PollPending, Some None, continue_as_new ''n'' (df_drop q' c2), False)))"

definition select_then_continue :: "(durable_future \<times> durable_future) option option handler" where
  "select_then_continue = \<lparr>h_invoke = (\<lambda>_. Inr None), h_poll = select_then_continue_poll\<rparr>"

definition select_manager :: history_manager where
  "select_manager = from_history
     [started_event, with_event_id 2 ''i'' 1 None (QueueSubscribed ''q''),
      with_event_id 3 ''i'' 1 None (ActivityScheduled ''a'' ''x'' None None)]"

text \<open>A queue message is lost across continue-as-new: a dropped dequeue is not recorded as cancelled
  in the turn that continues as new (\<open>finalize_turn\<close> returns before the dropped futures are
  collected), so the matching counts it as having consumed the message that arrived in the same
  batch. The message is in the old execution's history, no future received it, and the new
  execution is started with nothing carried forward.\<close>

theorem queue_message_lost_at_continue_as_new:
  "map_option (\<lambda>out. (map ev_kind (hm_delta (to_history out)), to_orchestrator_items out))
     (run_single_execution_atomic select_then_continue ''i'' select_manager
        (from_messages [WI_ActivityCompleted ''i'' 1 3 ''r'', WI_QueueMessage ''i'' ''q'' ''m''] select_manager ''i'')
        1 ''1.0.0'' [] Map.empty)
   = Some ([ActivityCompleted ''r'', QueueEventDelivered ''q'' ''m'', OrchestrationContinuedAsNew ''n''],
           [WI_ContinueAsNew ''i'' ''o'' ''n'' None [] None])"
  by code_simp

end
