(* ===== verification/Registry.thy ===== *)
theory Registry
  imports Prelude
begin

text \<open>
  \<open>src/src/runtime/registry.rs\<close>, the versioned registry of orchestrations and activities, and the
  routing filters of \<open>src/src/providers/mod.rs\<close> (\<open>TagFilter\<close>, \<open>SemverRange\<close>,
  \<open>DispatcherCapabilityFilter\<close>). \<open>semver::Version\<close> is a type \<open>'v\<close> with a linear order; parsing it
  and printing it, and the default version 1.0.0, are parameters. A handler is an opaque \<open>'h\<close>.
  The \<open>*_typed\<close> registrations wrap the handler in a JSON codec and are not modelled apart, except
  that the untyped and typed orchestration registrations differ in the duplicate check.
\<close>

subsection \<open>Ordered version maps\<close>

text \<open>\<open>BTreeMap<Version, Arc<H>>\<close>: a list of entries in increasing order of the version.\<close>

type_synonym ('v, 'h) versions = "('v \<times> 'h) list"

fun bt_insert :: "'v::linorder \<Rightarrow> 'h \<Rightarrow> ('v, 'h) versions \<Rightarrow> ('v, 'h) versions" where
  "bt_insert v h [] = [(v, h)]"
| "bt_insert v h ((v', h') # rest) =
     (if v < v' then (v, h) # (v', h') # rest
      else if v = v' then (v, h) # rest
      else (v', h') # bt_insert v h rest)"

definition bt_get :: "('v, 'h) versions \<Rightarrow> 'v \<Rightarrow> 'h option" where
  "bt_get m v = map_of m v"

text \<open>\<open>m.iter().next_back()\<close>.\<close>

definition bt_last :: "('v, 'h) versions \<Rightarrow> ('v \<times> 'h) option" where
  "bt_last m = (if m = [] then None else Some (last m))"

definition bt_sorted :: "('v::linorder, 'h) versions \<Rightarrow> bool" where
  "bt_sorted m \<longleftrightarrow> sorted_wrt (<) (map fst m)"

text \<open>What the registry relies on: an ordered map with the greatest entry.\<close>

locale version_map =
  fixes inv :: "'m \<Rightarrow> bool"
    and get :: "'m \<Rightarrow> 'v::linorder \<Rightarrow> 'h option"
    and insert_entry :: "'v \<Rightarrow> 'h \<Rightarrow> 'm \<Rightarrow> 'm"
    and greatest :: "'m \<Rightarrow> ('v \<times> 'h) option"
  assumes get_insert: "inv m \<Longrightarrow> get (insert_entry v h m) = (get m)(v \<mapsto> h)"
    and inv_insert: "inv m \<Longrightarrow> inv (insert_entry v h m)"
    and greatest_Some: "inv m \<Longrightarrow> greatest m = Some (v, h) \<Longrightarrow>
          get m v = Some h \<and> (\<forall>v'. get m v' \<noteq> None \<longrightarrow> v' \<le> v)"
    and greatest_None: "inv m \<Longrightarrow> greatest m = None \<Longrightarrow> get m v' = None"
begin

text \<open>Inserting above everything makes the new entry the greatest; inserting below it does not.\<close>

lemma greatest_insert:
  assumes "inv m"
  shows "greatest (insert_entry v h m) =
    (case greatest m of
       Some (w, g) \<Rightarrow> if w \<le> v then Some (v, h) else Some (w, g)
     | None \<Rightarrow> Some (v, h))"
proof (cases "greatest (insert_entry v h m)")
  case None
  from greatest_None [OF inv_insert [OF assms] None, of v] show ?thesis
    by (simp add: get_insert [OF assms])
next
  case (Some x)
  obtain u k where x: "greatest (insert_entry v h m) = Some (u, k)" using Some by (cases x) auto
  from greatest_Some [OF inv_insert [OF assms] x]
  have u: "((get m)(v \<mapsto> h)) u = Some k" "\<And>v'. ((get m)(v \<mapsto> h)) v' \<noteq> None \<Longrightarrow> v' \<le> u"
    by (simp_all add: get_insert [OF assms])
  from u(2) [of v] have vu: "v \<le> u" by simp
  show ?thesis
  proof (cases "greatest m")
    case None
    from greatest_None [OF assms None, of u] u(1) have "u = v \<and> k = h" by (auto split: if_splits)
    with x None show ?thesis by simp
  next
    case (Some y)
    obtain w g where y: "greatest m = Some (w, g)" using Some by (cases y) auto
    from greatest_Some [OF assms y] have w: "get m w = Some g" "\<And>v'. get m v' \<noteq> None \<Longrightarrow> v' \<le> w" by auto
    show ?thesis
    proof (cases "w \<le> v")
      case True
      have "u = v"
      proof (rule ccontr)
        assume n: "u \<noteq> v"
        with u(1) have "get m u = Some k" by simp
        with w(2) [of u] True vu n show False by simp
      qed
      with u(1) x y True show ?thesis by simp
    next
      case False
      have "w \<le> u" using u(2) [of w] w(1) by simp
      with False have "u \<noteq> v" by auto
      with u(1) have "get m u = Some k" by simp
      with w \<open>w \<le> u\<close> have "u = w \<and> k = g" using order_antisym [of u w] by auto
      with x y False show ?thesis by simp
    qed
  qed
qed

end

lemma bt_insert_keys: "fst ` set (bt_insert v h m) = insert v (fst ` set m)"
  by (induction v h m rule: bt_insert.induct) auto

lemma bt_sorted_simps [simp]:
  "bt_sorted []"
  "bt_sorted (x # m) \<longleftrightarrow> (\<forall>w \<in> fst ` set m. fst x < w) \<and> bt_sorted m"
  by (auto simp: bt_sorted_def)

lemma bt_insert_sorted: "bt_sorted m \<Longrightarrow> bt_sorted (bt_insert v h m)"
proof (induction v h m rule: bt_insert.induct)
  case (2 v h v' h' rest)
  have keys: "\<forall>w \<in> fst ` set rest. v' < w" and rest: "bt_sorted rest" using "2.prems" by simp_all
  consider "v < v'" | "v = v'" | "v' < v" by (rule linorder_cases)
  then show ?case
  proof cases
    case 1
    with keys have "\<forall>w \<in> fst ` set rest. v < w" by (meson less_trans)
    with 1 "2.prems" show ?thesis by simp
  next
    case 3
    then have n: "\<not> v < v'" "v \<noteq> v'" by auto
    have "\<forall>w \<in> fst ` set (bt_insert v h rest). v' < w"
      unfolding bt_insert_keys using keys 3 by simp
    with "2.IH" [OF n rest] n show ?thesis by simp
  qed (use keys rest in simp)
qed simp

lemma bt_get_absent: "v \<notin> fst ` set m \<Longrightarrow> bt_get m v = None"
  by (simp add: bt_get_def map_of_eq_None_iff)

lemma bt_get_insert: "bt_get (bt_insert v h m) = (bt_get m)(v \<mapsto> h)"
  by (induction v h m rule: bt_insert.induct) (auto simp: bt_get_def fun_eq_iff)

lemma bt_last_greatest:
  assumes "bt_sorted m" and "bt_last m = Some (v, h)"
  shows "bt_get m v = Some h" and "\<And>v'. bt_get m v' \<noteq> None \<Longrightarrow> v' \<le> v"
proof -
  have "m \<noteq> []" "last m = (v, h)" using assms(2) by (auto simp: bt_last_def split: if_splits)
  then obtain ms where m: "m = ms @ [(v, h)]" by (metis append_butlast_last_id)
  with assms(1) have less: "\<forall>x \<in> fst ` set ms. x < v" by (simp add: bt_sorted_def sorted_wrt_append)
  then have "map_of ms v = None" by (auto simp: map_of_eq_None_iff)
  then show "bt_get m v = Some h" by (simp add: m bt_get_def map_add_def)
  fix v' assume some: "bt_get m v' \<noteq> None"
  have "v' \<in> fst ` set m" by (rule ccontr) (use some bt_get_absent [of v' m] in simp)
  then have "v' = v \<or> v' \<in> fst ` set ms" by (simp add: m image_Un)
  with less show "v' \<le> v" by (metis less_imp_le order_refl)
qed

interpretation registry_versions: version_map bt_sorted bt_get bt_insert bt_last
proof unfold_locales
  show "bt_last m = None \<Longrightarrow> bt_get m v' = None" for m :: "('a \<times> 'b) list" and v'
    by (simp add: bt_last_def bt_get_def split: if_splits)
next
  show "bt_last m = Some (v, h) \<Longrightarrow> bt_sorted m \<Longrightarrow> bt_get m v = Some h \<and> (\<forall>v'. bt_get m v' \<noteq> None \<longrightarrow> v' \<le> v)"
    for m :: "('a \<times> 'b) list" and v h
    by (intro conjI allI impI) (rule bt_last_greatest; assumption)+
qed (simp_all add: bt_get_insert bt_insert_sorted)

subsection \<open>Registry and builder\<close>

datatype 'v version_policy = Latest | Exact 'v

type_synonym ('v, 'h) handler_map = "(string \<times> ('v, 'h) versions) list"

record ('v, 'h) registry =
  rg_inner :: "('v, 'h) handler_map"
  rg_policy :: "string \<rightharpoonup> 'v version_policy"

record ('v, 'h) registry_builder =
  rb_map :: "('v, 'h) handler_map"
  rb_policy :: "string \<rightharpoonup> 'v version_policy"
  rb_errors :: "string list"

definition builder :: "('v, 'h) registry_builder" where
  "builder = \<lparr>rb_map = [], rb_policy = Map.empty, rb_errors = []\<rparr>"

definition builder_from :: "('v, 'h) registry \<Rightarrow> ('v, 'h) registry_builder" where
  "builder_from reg = \<lparr>rb_map = rg_inner reg, rb_policy = rg_policy reg, rb_errors = []\<rparr>"

definition resolve_handler :: "string \<Rightarrow> ('v, 'h) registry \<Rightarrow> ('v \<times> 'h) option" where
  "resolve_handler name reg =
     (case opt_or (rg_policy reg name) Latest of
        Latest \<Rightarrow> (case map_of (rg_inner reg) name of Some m \<Rightarrow> bt_last m | None \<Rightarrow> None)
      | Exact v \<Rightarrow>
          (case map_of (rg_inner reg) name of
             Some m \<Rightarrow> map_option (\<lambda>h. (v, h)) (bt_get m v)
           | None \<Rightarrow> None))"

definition resolve_handler_exact :: "string \<Rightarrow> 'v \<Rightarrow> ('v, 'h) registry \<Rightarrow> 'h option" where
  "resolve_handler_exact name v reg =
     (case map_of (rg_inner reg) name of Some m \<Rightarrow> bt_get m v | None \<Rightarrow> None)"

definition set_version_policy ::
    "string \<Rightarrow> 'v version_policy \<Rightarrow> ('v, 'h) registry \<Rightarrow> ('v, 'h) registry" where
  "set_version_policy name pol reg = reg\<lparr>rg_policy := (rg_policy reg)(name \<mapsto> pol)\<rparr>"

definition list_versions :: "string \<Rightarrow> ('v, 'h) registry \<Rightarrow> 'v list" where
  "list_versions name reg = (case map_of (rg_inner reg) name of Some m \<Rightarrow> map fst m | None \<Rightarrow> [])"

definition registry_has :: "string \<Rightarrow> ('v, 'h) registry \<Rightarrow> bool" where
  "registry_has name reg \<longleftrightarrow> map_of (rg_inner reg) name \<noteq> None"

definition build :: "('v, 'h) registry_builder \<Rightarrow> ('v, 'h) registry" where
  "build b = \<lparr>rg_inner = rb_map b, rg_policy = rb_policy b\<rparr>"

text \<open>\<open>errors.join("; ")\<close>.\<close>

fun join_errors :: "string list \<Rightarrow> string" where
  "join_errors [] = []"
| "join_errors [e] = e"
| "join_errors (e # es) = e @ ''; '' @ join_errors es"

definition build_result :: "('v, 'h) registry_builder \<Rightarrow> string + ('v, 'h) registry" where
  "build_result b = (if rb_errors b = [] then Inr (build b) else Inl (join_errors (rb_errors b)))"

definition versions_of :: "string \<Rightarrow> ('v, 'h) registry_builder \<Rightarrow> ('v, 'h) versions" where
  "versions_of name b = opt_or (map_of (rb_map b) name) []"

text \<open>\<open>map.entry(name).or_default().insert(v, h)\<close>.\<close>

definition insert_handler ::
    "string \<Rightarrow> 'v::linorder \<Rightarrow> 'h \<Rightarrow> ('v, 'h) registry_builder \<Rightarrow> ('v, 'h) registry_builder" where
  "insert_handler name v h b =
     b\<lparr>rb_map := AList.update name (bt_insert v h (versions_of name b)) (rb_map b)\<rparr>"

text \<open>\<open>or_default\<close> creates the entry also when nothing is inserted.\<close>

definition check_duplicate ::
    "('v \<Rightarrow> string) \<Rightarrow> string \<Rightarrow> 'v \<Rightarrow> string \<Rightarrow> ('v, 'h) registry_builder
       \<Rightarrow> bool \<times> ('v, 'h) registry_builder" where
  "check_duplicate show_version name v error_prefix b =
     (let b' = b\<lparr>rb_map := AList.update name (versions_of name b) (rb_map b)\<rparr>
      in if bt_get (versions_of name b) v \<noteq> None
         then (True, b'\<lparr>rb_errors := rb_errors b @
                 [''duplicate '' @ error_prefix @ '' registration: '' @ name @ ''@'' @ show_version v]\<rparr>)
         else (False, b'))"

text \<open>The inner loop of \<open>merge_registry\<close>, over the versions of one name.\<close>

fun merge_versions ::
    "('v::linorder \<Rightarrow> string) \<Rightarrow> string \<Rightarrow> string \<Rightarrow> ('v, 'h) versions \<Rightarrow> ('v, 'h) registry_builder
       \<Rightarrow> ('v, 'h) registry_builder" where
  "merge_versions show_version error_prefix name [] b = b"
| "merge_versions show_version error_prefix name ((v, h) # rest) b =
     merge_versions show_version error_prefix name rest
       (if bt_get (versions_of name b) v \<noteq> None
        then b\<lparr>rb_errors := rb_errors b @
               [''duplicate '' @ error_prefix @ '' in merge: '' @ name @ ''@'' @ show_version v]\<rparr>
        else insert_handler name v h b)"

definition merge_registry ::
    "('v::linorder \<Rightarrow> string) \<Rightarrow> ('v, 'h) registry \<Rightarrow> string \<Rightarrow> ('v, 'h) registry_builder
       \<Rightarrow> ('v, 'h) registry_builder" where
  "merge_registry show_version other error_prefix b =
     fold (\<lambda>(name, vs) b. merge_versions show_version error_prefix name vs
             (b\<lparr>rb_map := AList.update name (versions_of name b) (rb_map b)\<rparr>))
       (rg_inner other) b"

subsection \<open>Registration\<close>

definition register_orchestration ::
    "('v::linorder \<Rightarrow> string) \<Rightarrow> 'v \<Rightarrow> string \<Rightarrow> 'h \<Rightarrow> ('v, 'h) registry_builder
       \<Rightarrow> ('v, 'h) registry_builder" where
  "register_orchestration show_version default_version name h b =
     (case check_duplicate show_version name default_version ''orchestration'' b of
        (True, b') \<Rightarrow> b'
      | (False, b') \<Rightarrow> insert_handler name default_version h b')"

text \<open>\<open>OrchestrationRegistryBuilder::register_typed\<close> has no duplicate check.\<close>

definition register_orchestration_typed ::
    "'v::linorder \<Rightarrow> string \<Rightarrow> 'h \<Rightarrow> ('v, 'h) registry_builder \<Rightarrow> ('v, 'h) registry_builder" where
  "register_orchestration_typed default_version name h b = insert_handler name default_version h b"

text \<open>\<open>None\<close> is a panic: the version does not parse, or it is not later than the latest one.\<close>

definition register_versioned ::
    "(string \<Rightarrow> 'v::linorder option) \<Rightarrow> ('v \<Rightarrow> string) \<Rightarrow> string \<Rightarrow> string \<Rightarrow> 'h
       \<Rightarrow> ('v, 'h) registry_builder \<Rightarrow> ('v, 'h) registry_builder option" where
  "register_versioned parse_version show_version name version h b =
     (case parse_version version of
        None \<Rightarrow> None
      | Some v \<Rightarrow>
          (case check_duplicate show_version name v ''orchestration'' b of
             (True, b') \<Rightarrow> Some b'
           | (False, b') \<Rightarrow>
               (case bt_last (versions_of name b') of
                  Some (latest, _) \<Rightarrow> if v \<le> latest then None else Some (insert_handler name v h b')
                | None \<Rightarrow> Some (insert_handler name v h b'))))"

definition set_policy ::
    "string \<Rightarrow> 'v version_policy \<Rightarrow> ('v, 'h) registry_builder \<Rightarrow> ('v, 'h) registry_builder" where
  "set_policy name pol b = b\<lparr>rb_policy := (rb_policy b)(name \<mapsto> pol)\<rparr>"

definition SYSCALL_ACTIVITY_PREFIX :: string where
  "SYSCALL_ACTIVITY_PREFIX = ''__duroxide_syscall:''"

definition check_reserved_prefix ::
    "string \<Rightarrow> ('v, 'h) registry_builder \<Rightarrow> bool \<times> ('v, 'h) registry_builder" where
  "check_reserved_prefix name b =
     (if starts_with name SYSCALL_ACTIVITY_PREFIX
      then (True, b\<lparr>rb_errors := rb_errors b @
             [''activity name '' @ CHR 0x27 # name @ CHR 0x27 # '' uses reserved prefix ''
                @ CHR 0x27 # SYSCALL_ACTIVITY_PREFIX @ [CHR 0x27]]\<rparr>)
      else (False, b))"

definition register_builtin ::
    "('v::linorder \<Rightarrow> string) \<Rightarrow> 'v \<Rightarrow> string \<Rightarrow> 'h \<Rightarrow> ('v, 'h) registry_builder
       \<Rightarrow> ('v, 'h) registry_builder" where
  "register_builtin show_version default_version name h b =
     (case check_duplicate show_version name default_version ''activity'' b of
        (True, b') \<Rightarrow> b'
      | (False, b') \<Rightarrow> set_policy name Latest (insert_handler name default_version h b'))"

definition register_activity ::
    "('v::linorder \<Rightarrow> string) \<Rightarrow> 'v \<Rightarrow> string \<Rightarrow> 'h \<Rightarrow> ('v, 'h) registry_builder
       \<Rightarrow> ('v, 'h) registry_builder" where
  "register_activity show_version default_version name h b =
     (case check_reserved_prefix name b of
        (True, b') \<Rightarrow> b'
      | (False, b') \<Rightarrow> register_builtin show_version default_version name h b')"

subsection \<open>Routing filters\<close>

definition MAX_WORKER_TAGS :: nat where "MAX_WORKER_TAGS = 5"

datatype tag_filter =
    TF_DefaultOnly
  | TF_Tags "string list"
  | TF_DefaultAnd "string list"
  | TF_Any
  | TF_None

text \<open>\<open>None\<close> is one of the two panics: no tag, or more than \<open>MAX_WORKER_TAGS\<close> distinct ones.\<close>

definition tag_set :: "string list \<Rightarrow> string list option" where
  "tag_set tags =
     (let set1 = remdups tags
      in if set1 = [] then None else if length set1 \<le> MAX_WORKER_TAGS then Some set1 else None)"

definition tag_filter_tags :: "string list \<Rightarrow> tag_filter option" where
  "tag_filter_tags tags = map_option TF_Tags (tag_set tags)"

definition tag_filter_default_and :: "string list \<Rightarrow> tag_filter option" where
  "tag_filter_default_and tags = map_option TF_DefaultAnd (tag_set tags)"

fun tag_matches :: "tag_filter \<Rightarrow> string option \<Rightarrow> bool" where
  "tag_matches TF_Any _ = True"
| "tag_matches TF_None _ = False"
| "tag_matches TF_DefaultOnly None = True"
| "tag_matches TF_DefaultOnly (Some _) = False"
| "tag_matches (TF_Tags _) None = False"
| "tag_matches (TF_Tags s) (Some t) = (t \<in> set s)"
| "tag_matches (TF_DefaultAnd _) None = True"
| "tag_matches (TF_DefaultAnd s) (Some t) = (t \<in> set s)"

record 'v semver_range =
  sr_min :: 'v
  sr_max :: 'v

definition range_contains :: "'v::linorder \<Rightarrow> 'v semver_range \<Rightarrow> bool" where
  "range_contains version r \<longleftrightarrow> sr_min r \<le> version \<and> version \<le> sr_max r"

definition is_compatible :: "'v::linorder \<Rightarrow> 'v semver_range list \<Rightarrow> bool" where
  "is_compatible version ranges \<longleftrightarrow> list_ex (range_contains version) ranges"


subsection \<open>Resolution\<close>

definition map_wf :: "('v::linorder, 'h) handler_map \<Rightarrow> bool" where
  "map_wf m \<longleftrightarrow> (\<forall>vs \<in> snd ` set m. bt_sorted vs)"

lemma versions_of_wf: "map_wf (rb_map b) \<Longrightarrow> bt_sorted (versions_of name b)"
  by (cases "map_of (rb_map b) name") (force simp: map_wf_def versions_of_def dest: map_of_SomeD)+

lemma map_wf_update: "map_wf m \<Longrightarrow> bt_sorted vs \<Longrightarrow> map_wf (AList.update name vs m)"
  unfolding map_wf_def by (induction m) auto

lemma insert_handler_wf: "map_wf (rb_map b) \<Longrightarrow> map_wf (rb_map (insert_handler name v h b))"
  by (simp add: insert_handler_def map_wf_update bt_insert_sorted versions_of_wf)

lemma check_duplicate_simps:
  "fst (check_duplicate s name v p b) \<longleftrightarrow> bt_get (versions_of name b) v \<noteq> None"
  "versions_of n (snd (check_duplicate s name v p b)) = versions_of n b"
  "rb_policy (snd (check_duplicate s name v p b)) = rb_policy b"
  by (simp_all add: check_duplicate_def Let_def versions_of_def)

lemma check_duplicate_wf: "map_wf (rb_map b) \<Longrightarrow> map_wf (rb_map (snd (check_duplicate s name v p b)))"
  by (simp add: check_duplicate_def Let_def map_wf_update versions_of_wf)

lemma register_orchestration_wf:
  "map_wf (rb_map b) \<Longrightarrow> map_wf (rb_map (register_orchestration s d name h b))"
  using check_duplicate_wf [of b s name d "''orchestration''"]
  by (auto simp: register_orchestration_def insert_handler_wf split: prod.splits bool.splits)

lemma merge_versions_wf: "map_wf (rb_map b) \<Longrightarrow> map_wf (rb_map (merge_versions s p name vs b))"
  by (induction vs arbitrary: b) (auto simp: insert_handler_wf)

lemma merge_registry_wf: "map_wf (rb_map b) \<Longrightarrow> map_wf (rb_map (merge_registry s other p b))"
proof -
  have "map_wf (rb_map b) \<Longrightarrow> map_wf (rb_map (fold (\<lambda>(name, vs) b. merge_versions s p name vs
             (b\<lparr>rb_map := AList.update name (versions_of name b) (rb_map b)\<rparr>)) xs b))" for xs b
  proof (induction xs arbitrary: b)
    case (Cons x xs)
    obtain name vs where x: "x = (name, vs)" by (cases x)
    have "map_wf (rb_map (b\<lparr>rb_map := AList.update name (versions_of name b) (rb_map b)\<rparr>))"
      using map_wf_update [OF Cons.prems versions_of_wf [OF Cons.prems]] by simp
    from Cons.IH [OF merge_versions_wf [OF this]] show ?case by (simp only: x fold.simps o_apply prod.case)
  qed simp
  then show "map_wf (rb_map b) \<Longrightarrow> ?thesis" unfolding merge_registry_def .
qed

lemma build_resolve_exact: "resolve_handler_exact name v (build b) = bt_get (versions_of name b) v"
  by (simp add: resolve_handler_exact_def build_def versions_of_def bt_get_def split: option.splits)

lemma build_resolve_latest:
  "opt_or (rb_policy b name) Latest = Latest \<Longrightarrow> resolve_handler name (build b) = bt_last (versions_of name b)"
  by (simp add: resolve_handler_def build_def versions_of_def bt_last_def split: option.splits)

lemma insert_versions_of:
  "versions_of n (insert_handler name v h b)
     = (if n = name then bt_insert v h (versions_of name b) else versions_of n b)"
  by (simp add: insert_handler_def versions_of_def)

text \<open>The policy \<open>Latest\<close> resolves to the greatest registered version: the handler it returns is the
  one registered under that exact version, every other registered version is smaller, and it
  returns nothing only if no version of the name is registered.\<close>

theorem latest_is_greatest:
  assumes "map_wf (rb_map b)" and "opt_or (rb_policy b name) Latest = Latest"
  shows "case resolve_handler name (build b) of
      Some (v, h) \<Rightarrow> resolve_handler_exact name v (build b) = Some h
        \<and> (\<forall>v'. resolve_handler_exact name v' (build b) \<noteq> None \<longrightarrow> v' \<le> v)
    | None \<Rightarrow> (\<forall>v'. resolve_handler_exact name v' (build b) = None)"
  unfolding build_resolve_latest [OF assms(2)] build_resolve_exact
  using registry_versions.greatest_Some [OF versions_of_wf [OF assms(1)]]
    registry_versions.greatest_None [OF versions_of_wf [OF assms(1)]]
  by (auto split: option.splits)

theorem latest_is_greatest_witness:
  "resolve_handler_exact ''o'' (1::nat) (build (register_orchestration (\<lambda>_. []) 1 ''o'' ''h'' builder)) = Some ''h''"
proof -
  let ?b = "register_orchestration (\<lambda>_. []) (1::nat) ''o'' ''h'' builder"
  have "map_wf (rb_map ?b)"
    by (rule register_orchestration_wf) (simp add: map_wf_def builder_def)
  moreover have "opt_or (rb_policy ?b ''o'') Latest = Latest"
    by (simp add: register_orchestration_def check_duplicate_def insert_handler_def builder_def
        versions_of_def bt_get_def)
  ultimately show ?thesis
    using latest_is_greatest [of ?b "''o''"]
    by (simp add: register_orchestration_def check_duplicate_def insert_handler_def builder_def
        versions_of_def bt_get_def resolve_handler_def build_def bt_last_def)
qed

text \<open>A version registered with \<open>register_versioned\<close> becomes the latest: unless it was already
  registered (then nothing changes but the error list), it is what \<open>Latest\<close> resolves to from then
  on, all earlier versions still resolve exactly, and other names are untouched.\<close>

theorem register_versioned_becomes_latest:
  assumes "map_wf (rb_map b)" and "opt_or (rb_policy b name) Latest = Latest"
    and "register_versioned parse_version show_version name ver h b = Some b'"
    and "parse_version ver = Some v"
  shows "if resolve_handler_exact name v (build b) \<noteq> None
     then (\<forall>n w. resolve_handler_exact n w (build b') = resolve_handler_exact n w (build b))
          \<and> rb_errors b' \<noteq> []
     else resolve_handler name (build b') = Some (v, h)
          \<and> (\<forall>n w. resolve_handler_exact n w (build b')
                = (if n = name \<and> w = v then Some h else resolve_handler_exact n w (build b)))"
proof (cases "bt_get (versions_of name b) v")
  case (Some g)
  with assms(3,4) have "b' = snd (check_duplicate show_version name v ''orchestration'' b)"
    by (auto simp: register_versioned_def check_duplicate_def Let_def split: prod.splits bool.splits)
  with Some show ?thesis
    by (simp add: build_resolve_exact check_duplicate_simps) (simp add: check_duplicate_def Let_def)
next
  case None
  obtain b0 where c: "check_duplicate show_version name v ''orchestration'' b = (False, b0)"
    using check_duplicate_simps(1) [of show_version name v "''orchestration''" b] None
    by (cases "check_duplicate show_version name v ''orchestration'' b") simp
  have b0: "versions_of n b0 = versions_of n b" "rb_policy b0 = rb_policy b" for n
    using check_duplicate_simps(2) [of n show_version name v "''orchestration''" b]
      check_duplicate_simps(3) [of show_version name v "''orchestration''" b] c by simp_all
  from assms(3,4) have b': "b' = insert_handler name v h b0"
    and up: "\<And>w g. bt_last (versions_of name b) = Some (w, g) \<Longrightarrow> w < v"
    by (auto simp: register_versioned_def c b0 not_le split: option.splits if_splits)
  have pol: "opt_or (rb_policy b' name) Latest = Latest"
    using assms(2) by (simp add: b' insert_handler_def b0)
  have "bt_last (bt_insert v h (versions_of name b)) = Some (v, h)"
    using registry_versions.greatest_insert [OF versions_of_wf [OF assms(1)], of v h name] up
    by (auto simp: less_imp_le split: option.splits)
  then have "resolve_handler name (build b') = Some (v, h)"
    unfolding build_resolve_latest [OF pol] by (simp add: b' insert_versions_of b0)
  with None show ?thesis
    by (auto simp: build_resolve_exact b' insert_versions_of b0 bt_get_insert)
qed

theorem register_versioned_becomes_latest_witness:
  "resolve_handler ''o'' (build (the (register_versioned (\<lambda>_. Some (2::nat)) (\<lambda>_. []) ''o'' ''2.0.0'' ''h2''
     (register_orchestration (\<lambda>_. []) 1 ''o'' ''h1'' builder)))) = Some (2, ''h2'')"
proof -
  let ?b = "register_orchestration (\<lambda>_. []) (1::nat) ''o'' ''h1'' builder"
  have "map_wf (rb_map ?b)"
    by (rule register_orchestration_wf) (simp add: map_wf_def builder_def)
  moreover have "opt_or (rb_policy ?b ''o'') Latest = Latest"
    "\<exists>b'. register_versioned (\<lambda>_. Some (2::nat)) (\<lambda>_. []) ''o'' ''2.0.0'' ''h2'' ?b = Some b'"
    "resolve_handler_exact ''o'' 2 (build ?b) = None"
    by (simp_all add: register_orchestration_def check_duplicate_def insert_handler_def builder_def
        versions_of_def bt_get_def register_versioned_def bt_last_def resolve_handler_exact_def build_def)
  ultimately show ?thesis
    using register_versioned_becomes_latest [of ?b "''o''" "\<lambda>_. Some (2::nat)" "\<lambda>_. []" "''2.0.0''" "''h2''"]
    by auto
qed

text \<open>A duplicate registration is refused and reported by \<open>register\<close>, so that \<open>build_result\<close> fails,
  but \<open>register_typed\<close> has no such check: it silently replaces the handler registered before.\<close>

theorem typed_registration_overwrites:
  "resolve_handler_exact name d (build b) = Some g \<Longrightarrow>
     resolve_handler_exact name d (build (register_orchestration s d name h b)) = Some g
     \<and> (\<exists>msg. build_result (register_orchestration s d name h b) = Inl msg)
     \<and> resolve_handler_exact name d (build (register_orchestration_typed d name h b)) = Some h
     \<and> rb_errors (register_orchestration_typed d name h b) = rb_errors b"
  by (auto simp: build_resolve_exact register_orchestration_def register_orchestration_typed_def
      check_duplicate_simps build_result_def check_duplicate_def Let_def insert_handler_def
      versions_of_def bt_get_insert)

theorem typed_registration_overwrites_witness:
  "rb_errors (register_orchestration_typed (1::nat) ''o'' ''h2''
     (register_orchestration (\<lambda>_. []) 1 ''o'' ''h1'' builder)) = []"
  using typed_registration_overwrites
    [of "''o''" "1::nat" "register_orchestration (\<lambda>_. []) 1 ''o'' ''h1'' builder" "''h1''" "\<lambda>_. []" "''h2''"]
  by (simp add: register_orchestration_def check_duplicate_def insert_handler_def builder_def
        versions_of_def bt_get_def resolve_handler_exact_def build_def)

end
