(* ===== verification/Limits.thy ===== *)
theory Limits
  imports Execution
begin

text \<open>
  What the orchestration dispatcher does between a turn and its commit: \<open>compute_execution_metadata\<close>
  (\<open>src/src/runtime/mod.rs\<close>) and \<open>validate_limits\<close> (\<open>src/src/runtime/dispatchers/orchestration.rs\<close>)
  with the constants of \<open>src/src/runtime/limits.rs\<close>. Strings are lists of bytes, so \<open>length\<close> is
  \<open>len()\<close>. \<open>semver::Version::parse\<close> is the parameter \<open>parse_version\<close>.
\<close>

definition MAX_CUSTOM_STATUS_BYTES :: nat where "MAX_CUSTOM_STATUS_BYTES = 256 * 1024"
definition MAX_TAG_NAME_BYTES :: nat where "MAX_TAG_NAME_BYTES = 256"
definition MAX_KV_KEYS :: nat where "MAX_KV_KEYS = 150"
definition MAX_KV_VALUE_BYTES :: nat where "MAX_KV_VALUE_BYTES = 64 * 1024"

text \<open>\<open>Iterator::find_map\<close>.\<close>

fun find_map :: "('a \<Rightarrow> 'b option) \<Rightarrow> 'a list \<Rightarrow> 'b option" where
  "find_map f [] = None"
| "find_map f (x # xs) = (case f x of Some y \<Rightarrow> Some y | None \<Rightarrow> find_map f xs)"

lemma find_map_None: "find_map f xs = None \<longleftrightarrow> (\<forall>x \<in> set xs. f x = None)"
  by (induction xs) (auto split: option.splits)

lemma find_map_Some: "find_map f xs = Some y \<Longrightarrow> \<exists>x \<in> set xs. f x = Some y"
  by (induction xs) (auto split: option.splits)

subsection \<open>Execution metadata\<close>

record 'v execution_metadata =
  em_status :: "string option"
  em_output :: "string option"
  em_orchestration_name :: "string option"
  em_orchestration_version :: "string option"
  em_parent_instance_id :: "string option"
  em_pinned_duroxide_version :: "'v option"

definition metadata_default :: "'v execution_metadata" where
  "metadata_default = \<lparr>em_status = None, em_output = None, em_orchestration_name = None,
     em_orchestration_version = None, em_parent_instance_id = None, em_pinned_duroxide_version = None\<rparr>"

text \<open>The scan stops at the first terminal event.\<close>

fun scan_metadata ::
    "(string \<Rightarrow> 'v option) \<Rightarrow> event list \<Rightarrow> 'v execution_metadata \<Rightarrow> 'v execution_metadata" where
  "scan_metadata parse_version [] em = em"
| "scan_metadata parse_version (ev # evs) em =
     (case ev_kind ev of
        OrchestrationStarted name version _ parent_instance _ _ _ \<Rightarrow>
          scan_metadata parse_version evs
            (em\<lparr>em_orchestration_name := Some name, em_orchestration_version := Some version,
                em_parent_instance_id := parent_instance,
                em_pinned_duroxide_version := parse_version (ev_duroxide_version ev)\<rparr>)
      | OrchestrationCompleted output \<Rightarrow>
          em\<lparr>em_status := Some ''Completed'', em_output := Some output\<rparr>
      | OrchestrationFailed details \<Rightarrow>
          em\<lparr>em_status := Some ''Failed'', em_output := Some (display_message details)\<rparr>
      | OrchestrationContinuedAsNew input \<Rightarrow>
          em\<lparr>em_status := Some ''ContinuedAsNew'', em_output := Some input\<rparr>
      | _ \<Rightarrow> scan_metadata parse_version evs em)"

definition compute_execution_metadata ::
    "(string \<Rightarrow> 'v option) \<Rightarrow> event list \<Rightarrow> 'v execution_metadata" where
  "compute_execution_metadata parse_version delta = scan_metadata parse_version delta metadata_default"

subsection \<open>Runtime limits\<close>

text \<open>The custom status that counts is the last one set in the delta; a reset does not hide it.\<close>

definition last_custom_status :: "event list \<Rightarrow> string option" where
  "last_custom_status delta =
     find_map (\<lambda>ev. case ev_kind ev of CustomStatusUpdated (Some s) \<Rightarrow> Some s | _ \<Rightarrow> None) (rev delta)"

definition oversized_tag :: "event list \<Rightarrow> (string \<times> nat) option" where
  "oversized_tag delta =
     find_map (\<lambda>ev. case ev_kind ev of
       ActivityScheduled name _ _ (Some t) \<Rightarrow>
         if length t > MAX_TAG_NAME_BYTES then Some (name, length t) else None
     | _ \<Rightarrow> None) delta"

definition oversized_kv :: "event list \<Rightarrow> (string \<times> nat) option" where
  "oversized_kv delta =
     find_map (\<lambda>ev. case ev_kind ev of
       KeyValueSet key value _ \<Rightarrow>
         if length value > MAX_KV_VALUE_BYTES then Some (key, length value) else None
     | _ \<Rightarrow> None) delta"

definition effective_keys_step :: "event \<Rightarrow> string set \<Rightarrow> string set" where
  "effective_keys_step ev keys =
     (case ev_kind ev of
        KeyValueSet key _ _ \<Rightarrow> insert key keys
      | KeyValueCleared key \<Rightarrow> keys - {key}
      | KeyValuesCleared \<Rightarrow> {}
      | _ \<Rightarrow> keys)"

definition effective_keys :: "event list \<Rightarrow> (string \<times> kv_entry) list \<Rightarrow> string set" where
  "effective_keys delta kv_snapshot = fold effective_keys_step delta (set (map fst kv_snapshot))"

text \<open>The four checks in their order, with the message of the first that fails.\<close>

definition status_violation :: "event list \<Rightarrow> string option" where
  "status_violation delta =
     (case last_custom_status delta of
        Some s \<Rightarrow>
          if length s > MAX_CUSTOM_STATUS_BYTES
          then Some (''Custom status size ('' @ show_nat (length s) @ '' bytes) exceeds limit (''
                 @ show_nat MAX_CUSTOM_STATUS_BYTES @ '' bytes)'')
          else None
      | None \<Rightarrow> None)"

definition tag_violation :: "event list \<Rightarrow> string option" where
  "tag_violation delta =
     map_option (\<lambda>(activity_name, tag_len).
       ''Activity '' @ quoted activity_name @ '' tag size ('' @ show_nat tag_len
         @ '' bytes) exceeds limit ('' @ show_nat MAX_TAG_NAME_BYTES @ '' bytes)'')
       (oversized_tag delta)"

definition kv_value_violation :: "event list \<Rightarrow> string option" where
  "kv_value_violation delta =
     map_option (\<lambda>(key, value_len).
       ''KV value for key '' @ quoted key @ '' ('' @ show_nat value_len
         @ '' bytes) exceeds limit ('' @ show_nat MAX_KV_VALUE_BYTES @ '' bytes)'')
       (oversized_kv delta)"

definition kv_count_violation :: "event list \<Rightarrow> (string \<times> kv_entry) list \<Rightarrow> string option" where
  "kv_count_violation delta kv_snapshot =
     (let user_key_count = card (effective_keys delta kv_snapshot)
      in if user_key_count > MAX_KV_KEYS
         then Some (''KV key count ('' @ show_nat user_key_count @ '') exceeds limit (''
                @ show_nat MAX_KV_KEYS @ '')'')
         else None)"

definition limit_violation :: "event list \<Rightarrow> (string \<times> kv_entry) list \<Rightarrow> string option" where
  "limit_violation delta kv_snapshot =
     (case status_violation delta of
        Some msg \<Rightarrow> Some msg
      | None \<Rightarrow>
          (case tag_violation delta of
             Some msg \<Rightarrow> Some msg
           | None \<Rightarrow>
               (case kv_value_violation delta of
                  Some msg \<Rightarrow> Some msg
                | None \<Rightarrow> kv_count_violation delta kv_snapshot)))"

text \<open>The variables of \<open>process_orchestration_item\<close> that the limit check may rewrite.\<close>

record 'v pending_commit =
  pc_history :: history_manager
  pc_metadata :: "'v execution_metadata"
  pc_worker_items :: "work_item list"
  pc_orchestrator_items :: "work_item list"

definition fail_orchestration_for_limit ::
    "string \<Rightarrow> string \<Rightarrow> id64 \<Rightarrow> 'v pending_commit \<Rightarrow> 'v pending_commit" where
  "fail_orchestration_for_limit message inst execution_id pc =
     (let error = Application AE_OrchestrationFailed message False;
          failed_event = with_event_id (next_event_id (pc_history pc)) inst execution_id None
            (OrchestrationFailed error)
      in pc\<lparr>pc_history := hm_append failed_event (pc_history pc),
            pc_metadata := (pc_metadata pc)\<lparr>em_status := Some ''Failed'',
              em_output := Some (display_message error)\<rparr>,
            pc_worker_items := [], pc_orchestrator_items := []\<rparr>)"

definition validate_limits ::
    "event list \<Rightarrow> (string \<times> kv_entry) list \<Rightarrow> string \<Rightarrow> id64 \<Rightarrow> 'v pending_commit
       \<Rightarrow> bool \<times> 'v pending_commit" where
  "validate_limits delta kv_snapshot inst execution_id pc =
     (case limit_violation delta kv_snapshot of
        Some message \<Rightarrow> (True, fail_orchestration_for_limit message inst execution_id pc)
      | None \<Rightarrow> (False, pc))"

end
