(* ===== verification/Orch_Dispatcher.thy ===== *)
theory Orch_Dispatcher
  imports Limits Registry Retry "HOL-Library.Word"
begin

text \<open>
  The orchestration dispatcher, \<open>src/src/runtime/dispatchers/orchestration.rs\<close>: one fetched item is
  processed and committed with one \<open>ack_orchestration_item\<close>. The provider is the parameter
  \<open>('v, 'p) orchestration_store\<close>: its operations on an abstract state \<open>'p\<close>. The lock renewal task,
  metrics and logging are left out; so is the wall clock, except for the delays the code computes.
  A future that is dropped without being awaited does nothing, so the two calls
  \<open>drop(abandon_orchestration_item(..))\<close> of the source are no steps of the model.
\<close>

subsection \<open>Items, requests and the store\<close>

record orchestration_item =
  oi_instance :: string
  oi_orchestration_name :: string
  oi_execution_id :: id64
  oi_version :: string
  oi_history :: "event list"
  oi_messages :: "work_item list"
  oi_history_error :: "string option"
  oi_kv_snapshot :: "(string \<times> kv_entry) list"

record 'v ack_request =
  ar_execution_id :: id64
  ar_history_delta :: "event list"
  ar_worker_items :: "work_item list"
  ar_orchestrator_items :: "work_item list"
  ar_metadata :: "'v execution_metadata"
  ar_cancelled_activities :: "scheduled_activity_identifier list"

record ('v, 'p) orchestration_store =
  os_ack_orchestration_item :: "string \<Rightarrow> 'v ack_request \<Rightarrow> 'p \<Rightarrow> provider_error option \<times> 'p"
  os_abandon_orchestration_item :: "string \<Rightarrow> nanos option \<Rightarrow> bool \<Rightarrow> 'p \<Rightarrow> 'p"

text \<open>The options, the registry and the library functions the dispatcher uses.\<close>

record ('v, 's) runtime =
  rt_orchestration_registry :: "('v, 's handler) registry"
  rt_max_attempts :: nat
  rt_base_delay :: nanos
  rt_max_delay :: nanos
  rt_parse_version :: "string \<Rightarrow> 'v option"
  rt_show_version :: "'v \<Rightarrow> string"
  rt_messages_json :: "work_item list \<Rightarrow> string"

subsection \<open>Delays\<close>

definition MAX_BACKOFF_EXPONENT :: nat where "MAX_BACKOFF_EXPONENT = 6"

text \<open>\<open>UnregisteredBackoffConfig::delay\<close>.\<close>

definition unregistered_delay :: "nanos \<Rightarrow> nanos \<Rightarrow> nat \<Rightarrow> nanos" where
  "unregistered_delay base_delay max_delay attempt_count =
     (let exponent = min (attempt_count - 1) MAX_BACKOFF_EXPONENT
      in min (duration_saturating_mul base_delay (2 ^ exponent)) max_delay)"

text \<open>
  \<open>(lock_timeout.as_secs_f64() * 0.5).ceil().max(1.0)\<close> seconds: below 15 seconds the number of
  nanoseconds fits the 53 bits of the double, so the ceiling is that of the exact quotient.
\<close>

definition calculate_renewal_interval :: "nanos \<Rightarrow> nanos \<Rightarrow> nanos" where
  "calculate_renewal_interval lock_timeout buffer =
     (if from_secs 15 \<le> lock_timeout
      then let buffer' = min buffer lock_timeout in max (lock_timeout - buffer') (from_secs 1)
      else from_secs (max ((lock_timeout + 1999999999) div 2000000000) 1))"

text \<open>The retry delay after a failed fetch, in milliseconds; \<open>u64\<close> arithmetic wraps in a release build.\<close>

definition fetch_backoff_ms :: "nat \<Rightarrow> 64 word" where
  "fetch_backoff_ms consecutive_retryable_errors = min (100 * 2 ^ consecutive_retryable_errors) 3000"

subsection \<open>One iteration of the fetch loop\<close>

datatype fetch_outcome =
    FO_Item orchestration_item string nat
  | FO_Nothing
  | FO_Error provider_error

datatype fetch_step =
    FS_Abandon string nanos
  | FS_Process orchestration_item string nat
  | FS_Idle
  | FS_Sleep_ms "64 word"

definition pinned_version :: "(string \<Rightarrow> 'v option) \<Rightarrow> event list \<Rightarrow> 'v option" where
  "pinned_version parse_version hist =
     find_map (\<lambda>ev. if is_started (ev_kind ev) then parse_version (ev_duroxide_version ev) else None) hist"

text \<open>What to do with the outcome of a fetch, and the new count of consecutive retryable errors.\<close>

definition after_fetch ::
    "(string \<Rightarrow> 'v::linorder option) \<Rightarrow> 'v semver_range \<Rightarrow> fetch_outcome \<Rightarrow> nat \<Rightarrow> fetch_step \<times> nat" where
  "after_fetch parse_version supported_range outcome errors =
     (case outcome of
        FO_Item item lock_token attempt_count \<Rightarrow>
          (case pinned_version parse_version (oi_history item) of
             Some pinned \<Rightarrow>
               if \<not> range_contains pinned supported_range
               then (FS_Abandon lock_token (from_secs 1), 0)
               else (FS_Process item lock_token attempt_count, 0)
           | None \<Rightarrow> (FS_Process item lock_token attempt_count, 0))
      | FO_Nothing \<Rightarrow> (FS_Idle, 0)
      | FO_Error e \<Rightarrow>
          if pe_retryable e then (FS_Sleep_ms (fetch_backoff_ms (errors + 1)), errors + 1)
          else (FS_Sleep_ms 100, 0))"

subsection \<open>Acknowledging with retries\<close>

definition MAX_ACK_RETRIES :: nat where "MAX_ACK_RETRIES = 5"

text \<open>The result, the delays slept (milliseconds) and the store afterwards.\<close>

function ack_attempts ::
    "('v, 'p) orchestration_store \<Rightarrow> string \<Rightarrow> 'v ack_request \<Rightarrow> nat \<Rightarrow> 'p
       \<Rightarrow> provider_error option \<times> millis list \<times> 'p" where
  "ack_attempts store lock_token req attempts p =
     (case os_ack_orchestration_item store lock_token req p of
        (None, p') \<Rightarrow> (None, [], p')
      | (Some e, p') \<Rightarrow>
          if \<not> pe_retryable e then (Some e, [], p')
          else if attempts < MAX_ACK_RETRIES
          then let backoff_ms = 10 * 2 ^ attempts;
                   (res, slept, p'') = ack_attempts store lock_token req (attempts + 1) p'
               in (res, backoff_ms # slept, p'')
          else (Some e, [], p'))"
  by pat_completeness auto
termination by (relation "measure (\<lambda>(_, _, _, attempts, _). MAX_ACK_RETRIES - attempts)") auto

declare ack_attempts.simps [simp del]

definition ack_orchestration_with_changes ::
    "('v, 'p) orchestration_store \<Rightarrow> string \<Rightarrow> 'v ack_request \<Rightarrow> 'p
       \<Rightarrow> provider_error option \<times> millis list \<times> 'p" where
  "ack_orchestration_with_changes store lock_token req p = ack_attempts store lock_token req 0 p"

subsection \<open>Resolving the handler and running the turn\<close>

definition resolve_for_item ::
    "('v::linorder, 's) runtime \<Rightarrow> work_item_reader \<Rightarrow> ('v \<times> 's handler) option" where
  "resolve_for_item rt reader =
     (case wr_version reader of
        Some v_str \<Rightarrow>
          (case rt_parse_version rt v_str of
             Some v \<Rightarrow> map_option (\<lambda>h. (v, h))
               (resolve_handler_exact (wr_orchestration_name reader) v (rt_orchestration_registry rt))
           | None \<Rightarrow> None)
      | None \<Rightarrow> resolve_handler (wr_orchestration_name reader) (rt_orchestration_registry rt))"

definition new_execution_event ::
    "string \<Rightarrow> id64 \<Rightarrow> string \<Rightarrow> work_item_reader \<Rightarrow> event" where
  "new_execution_event inst execution_id version reader =
     (let (carry_forward_events, initial_custom_status) =
            (case wr_start_item reader of
               Some (WI_ContinueAsNew _ _ _ _ carry status) \<Rightarrow>
                 (if carry = [] then None else Some carry, status)
             | _ \<Rightarrow> (None, None))
      in with_event_id 1 inst execution_id None
           (OrchestrationStarted (wr_orchestration_name reader) version (wr_input reader)
              (wr_parent_instance reader) (wr_parent_id reader) carry_forward_events
              initial_custom_status))"

text \<open>\<open>Inl ()\<close> is \<open>UnregisteredOrchestration\<close>; the outer \<open>None\<close> is a turn that does not return.\<close>

definition resolve_and_execute_orchestration_handler ::
    "('v::linorder, 's) runtime \<Rightarrow> string \<Rightarrow> history_manager \<Rightarrow> work_item_reader \<Rightarrow> id64
       \<Rightarrow> (string \<times> kv_entry) list \<Rightarrow> exec_ids \<Rightarrow> (unit + turn_output) option" where
  "resolve_and_execute_orchestration_handler rt inst m reader execution_id kv_snapshot ids =
     (case resolve_for_item rt reader of
        None \<Rightarrow> Some (Inl ())
      | Some (v, h) \<Rightarrow>
          (let version = rt_show_version rt v;
               m' = (if hm_is_empty m
                     then hm_append (new_execution_event inst execution_id version reader) m else m)
           in map_option Inr
                (run_single_execution_atomic h inst m' reader execution_id version kv_snapshot ids)))"

subsection \<open>The end of a turn\<close>

text \<open>\<open>retain(|a| seen.insert(..))\<close> keeps the first of equal entries.\<close>

fun retain_first :: "'a set \<Rightarrow> 'a list \<Rightarrow> 'a list" where
  "retain_first seen [] = []"
| "retain_first seen (x # xs) =
     (if x \<in> seen then retain_first seen xs else x # retain_first (insert x seen) xs)"

definition terminal_cancel_reason :: "string option \<Rightarrow> string option" where
  "terminal_cancel_reason status =
     (if status = Some ''Completed'' then Some ''orchestration_terminal_completed''
      else if status = Some ''Failed'' then Some ''orchestration_terminal_failed''
      else if status = Some ''ContinuedAsNew'' then Some ''orchestration_terminal_continued_as_new''
      else None)"

text \<open>In-flight activities of a terminal turn: one breadcrumb each, appended to the history, and one
  entry each in the list of activities to cancel.\<close>

definition cancel_inflight ::
    "string \<Rightarrow> id64 \<Rightarrow> string option \<Rightarrow> history_manager \<times> scheduled_activity_identifier list
       \<Rightarrow> history_manager \<times> scheduled_activity_identifier list" where
  "cancel_inflight inst execution_id status = (\<lambda>(m, cancelled).
     (case terminal_cancel_reason status of
        None \<Rightarrow> (m, cancelled)
      | Some reason \<Rightarrow>
          (let inflight = compute_inflight_activities inst execution_id m
           in (fold (\<lambda>a. append_cancelled inst execution_id (ActivityCancelRequested reason) (sa_activity_id a))
                 inflight m,
               cancelled @ inflight))))"

definition turn_request ::
    "(string \<Rightarrow> 'v option) \<Rightarrow> string \<Rightarrow> (string \<times> kv_entry) list \<Rightarrow> id64 \<Rightarrow> history_manager
       \<Rightarrow> work_item list \<Rightarrow> work_item list \<Rightarrow> scheduled_activity_identifier list \<Rightarrow> 'v ack_request" where
  "turn_request parse_version inst kv_snapshot execution_id m workers orchs select_cancelled =
     (let snapshot = hm_delta m;
          metadata = compute_execution_metadata parse_version snapshot;
          (_, pc) = validate_limits snapshot kv_snapshot inst execution_id
             \<lparr>pc_history = m, pc_metadata = metadata, pc_worker_items = workers,
              pc_orchestrator_items = orchs\<rparr>;
          (m', cancelled) = cancel_inflight inst execution_id (em_status (pc_metadata pc))
             (pc_history pc, select_cancelled);
          cancelled' = (if length cancelled > 1 then retain_first {} cancelled else cancelled)
      in \<lparr>ar_execution_id = execution_id, ar_history_delta = hm_delta m',
          ar_worker_items = pc_worker_items pc, ar_orchestrator_items = pc_orchestrator_items pc,
          ar_metadata = pc_metadata pc, ar_cancelled_activities = cancelled'\<rparr>)"

definition empty_request :: "id64 \<Rightarrow> 'v ack_request" where
  "empty_request execution_id =
     \<lparr>ar_execution_id = execution_id, ar_history_delta = [], ar_worker_items = [],
      ar_orchestrator_items = [], ar_metadata = metadata_default, ar_cancelled_activities = []\<rparr>"

text \<open>What is committed instead when the turn could not be.\<close>

definition infra_failure_request ::
    "(string \<Rightarrow> 'v option) \<Rightarrow> orchestration_item \<Rightarrow> id64 \<Rightarrow> provider_error \<Rightarrow> 'v ack_request" where
  "infra_failure_request parse_version item execution_id e =
     (let m = append_failed (to_infrastructure_error e) (from_history (oi_history item));
          delta = hm_delta m
      in \<lparr>ar_execution_id = execution_id, ar_history_delta = delta, ar_worker_items = [],
          ar_orchestrator_items = [], ar_metadata = compute_execution_metadata parse_version delta,
          ar_cancelled_activities = []\<rparr>)"

definition commit_turn ::
    "('v, 'p) orchestration_store \<Rightarrow> (string \<Rightarrow> 'v option) \<Rightarrow> orchestration_item \<Rightarrow> string
       \<Rightarrow> 'v ack_request \<Rightarrow> 'p \<Rightarrow> 'p" where
  "commit_turn store parse_version item lock_token req p =
     (case ack_orchestration_with_changes store lock_token req p of
        (None, _, p') \<Rightarrow> p'
      | (Some e, _, p') \<Rightarrow>
          snd (snd (ack_orchestration_with_changes store lock_token
            (infra_failure_request parse_version item (ar_execution_id req) e) p')))"

subsection \<open>Poison messages\<close>

text \<open>The start data a poisoned item without history is given: name, input, parent and carried events.\<close>

definition poison_start ::
    "orchestration_item \<Rightarrow> string \<times> string \<times> string option \<times> id64 option
       \<times> (string \<times> string) list option" where
  "poison_start item =
     opt_or (find_map (\<lambda>msg. case msg of
         WI_StartOrchestration _ orchestration input _ parent_instance parent_id _ \<Rightarrow>
           Some (orchestration, input, parent_instance, parent_id, None)
       | WI_ContinueAsNew _ orchestration input _ carry_forward_events _ \<Rightarrow>
           Some (orchestration, input, None, None, Some carry_forward_events)
       | _ \<Rightarrow> None) (oi_messages item))
       (oi_orchestration_name item, [], None, None, None)"

definition history_parent_link :: "event list \<Rightarrow> (string \<times> id64) option" where
  "history_parent_link hist =
     find_map (\<lambda>ev. case ev_kind ev of
       OrchestrationStarted _ _ _ (Some pi) (Some pid) _ _ \<Rightarrow> Some (pi, pid) | _ \<Rightarrow> None) hist"

definition poison_metadata ::
    "orchestration_item \<Rightarrow> error_details \<Rightarrow> string option \<Rightarrow> 'v execution_metadata" where
  "poison_metadata item error parent_instance =
     \<lparr>em_status = Some ''Failed'', em_output = Some (display_message error),
      em_orchestration_name = Some (oi_orchestration_name item),
      em_orchestration_version = Some (oi_version item),
      em_parent_instance_id = parent_instance, em_pinned_duroxide_version = None\<rparr>"

text \<open>The history could not be read: a single event under the sentinel id 99999.\<close>

definition corrupted_history_request ::
    "('v::linorder, 's) runtime \<Rightarrow> orchestration_item \<Rightarrow> nat \<Rightarrow> string \<Rightarrow> 'v ack_request" where
  "corrupted_history_request rt item attempt_count deser_error =
     (let error = Poison attempt_count (rt_max_attempts rt)
            (PM_FailedDeserialization (oi_instance item) (oi_execution_id item) deser_error) deser_error
      in \<lparr>ar_execution_id = oi_execution_id item,
          ar_history_delta = [with_event_id 99999 (oi_instance item) (oi_execution_id item) None
            (OrchestrationFailed error)],
          ar_worker_items = [], ar_orchestrator_items = [],
          ar_metadata = poison_metadata item error None, ar_cancelled_activities = []\<rparr>)"

definition poison_history ::
    "orchestration_item \<Rightarrow> history_manager \<times> (string \<times> id64) option" where
  "poison_history item =
     (let m = from_history (oi_history item)
      in if hm_is_empty m
         then let (name, input, parent_instance, parent_id, carry) = poison_start item
              in (hm_append (with_event_id INITIAL_EVENT_ID (oi_instance item) (oi_execution_id item) None
                    (OrchestrationStarted name (oi_version item) input parent_instance parent_id carry
                       None)) m,
                  parent_link_of parent_instance parent_id)
         else (m, history_parent_link (oi_history item)))"

definition poison_request ::
    "('v::linorder, 's) runtime \<Rightarrow> orchestration_item \<Rightarrow> nat \<Rightarrow> exec_ids \<Rightarrow> 'v ack_request" where
  "poison_request rt item attempt_count ids =
     (case oi_history_error item of
        Some deser_error \<Rightarrow> corrupted_history_request rt item attempt_count deser_error
      | None \<Rightarrow>
          (let error = Poison attempt_count (rt_max_attempts rt)
                 (PM_Orchestration (oi_instance item) (oi_execution_id item))
                 (rt_messages_json rt (oi_messages item));
               (m, parent_link) = poison_history item
           in \<lparr>ar_execution_id = oi_execution_id item,
               ar_history_delta = hm_delta (append_failed error m), ar_worker_items = [],
               ar_orchestrator_items = notify_parent_failed parent_link error ids,
               ar_metadata = poison_metadata item error (map_option fst parent_link),
               ar_cancelled_activities = []\<rparr>))"

definition fail_orchestration_as_poison ::
    "('v::linorder, 's) runtime \<Rightarrow> ('v, 'p) orchestration_store \<Rightarrow> orchestration_item \<Rightarrow> string \<Rightarrow> nat
       \<Rightarrow> exec_ids \<Rightarrow> 'p \<Rightarrow> 'p" where
  "fail_orchestration_as_poison rt store item lock_token attempt_count ids p =
     snd (snd (ack_orchestration_with_changes store lock_token
       (poison_request rt item attempt_count ids) p))"

subsection \<open>Processing one item\<close>

text \<open>The instance has ended, and the batch does not start its next execution.\<close>

definition ended_instance :: "history_manager \<Rightarrow> work_item_reader \<Rightarrow> bool" where
  "ended_instance m reader \<longleftrightarrow>
     hm_is_completed m \<or> hm_is_failed m \<or> (hm_is_continued_as_new m \<and> \<not> wr_is_continue_as_new reader)"

text \<open>The execution the batch is for: continue-as-new starts the next one, with an empty history.\<close>

definition execution_to_use ::
    "orchestration_item \<Rightarrow> history_manager \<Rightarrow> work_item_reader \<Rightarrow> id64 \<times> history_manager" where
  "execution_to_use item m reader =
     (if wr_is_continue_as_new reader then (oi_execution_id item + 1, from_history [])
      else (oi_execution_id item, m))"

text \<open>A turn on a live instance; \<open>Inl ()\<close> when its orchestration is not registered.\<close>

definition item_request ::
    "('v::linorder, 's) runtime \<Rightarrow> orchestration_item \<Rightarrow> history_manager \<Rightarrow> work_item_reader \<Rightarrow> exec_ids
       \<Rightarrow> (unit + 'v ack_request \<times> exec_ids) option" where
  "item_request rt item temp reader ids =
     (let inst = oi_instance item;
          (execution_id, m) = execution_to_use item temp reader
      in if has_orchestration_name reader
         then (case resolve_and_execute_orchestration_handler rt inst m reader execution_id
                      (oi_kv_snapshot item) ids of
                 None \<Rightarrow> None
               | Some (Inl u) \<Rightarrow> Some (Inl u)
               | Some (Inr out) \<Rightarrow>
                   Some (Inr (turn_request (rt_parse_version rt) inst (oi_kv_snapshot item) execution_id
                     (to_history out) (to_worker_items out) (to_orchestrator_items out)
                     (to_cancelled_activities out), to_exec_ids out)))
         else Some (Inr (turn_request (rt_parse_version rt) inst (oi_kv_snapshot item) execution_id
                m [] [] [], ids)))"

definition process_orchestration_item ::
    "('v::linorder, 's) runtime \<Rightarrow> ('v, 'p) orchestration_store \<Rightarrow> orchestration_item \<Rightarrow> string \<Rightarrow> nat
       \<Rightarrow> exec_ids \<Rightarrow> 'p \<Rightarrow> ('p \<times> exec_ids) option" where
  "process_orchestration_item rt store item lock_token attempt_count ids p =
     (if attempt_count > rt_max_attempts rt
      then Some (fail_orchestration_as_poison rt store item lock_token attempt_count ids p, ids)
      else if oi_history_error item \<noteq> None
      then Some (os_abandon_orchestration_item store lock_token (Some (from_secs 1)) False p, ids)
      else let temp = from_history (oi_history item);
               reader = from_messages (oi_messages item) temp (oi_instance item)
           in if ended_instance temp reader
              then Some (snd (snd (ack_orchestration_with_changes store lock_token
                     (empty_request (oi_execution_id item)) p)), ids)
              else (case item_request rt item temp reader ids of
                      None \<Rightarrow> None
                    | Some (Inl _) \<Rightarrow>
                        Some (os_abandon_orchestration_item store lock_token
                          (Some (unregistered_delay (rt_base_delay rt) (rt_max_delay rt) attempt_count))
                          False p, ids)
                    | Some (Inr (req, ids')) \<Rightarrow>
                        Some (commit_turn store (rt_parse_version rt) item lock_token req p, ids')))"

end
