(* ===== verification/Orch_Props.thy ===== *)
theory Orch_Props
  imports Orch_Dispatcher Dispatch
begin

text \<open>
  The orchestration dispatcher (\<open>Orch_Dispatcher\<close>, \<open>Limits\<close>): commits are retried a bounded number
  of times, a terminal turn cancels what is still in flight, limits hold for every committed turn,
  poison ends an instance; and three ways in which a failure is not told to the parent or a retry
  loop stops waiting.
\<close>

subsection \<open>Acknowledging\<close>

lemma ack_attempts_cases:
  "a \<le> MAX_ACK_RETRIES \<Longrightarrow>
   \<exists>k. a + k \<le> MAX_ACK_RETRIES \<and>
     (let (res, slept, p') = ack_attempts store tok req a p;
          state = (\<lambda>i. ((\<lambda>q. snd (os_ack_orchestration_item store tok req q)) ^^ i) p);
          outcome = (\<lambda>i. fst (os_ack_orchestration_item store tok req (state i)))
      in slept = map (\<lambda>i. 10 * 2 ^ (a + i)) [0..<k] \<and> p' = state (k + 1) \<and> res = outcome k
       \<and> (\<forall>i < k. \<exists>e. outcome i = Some e \<and> pe_retryable e)
       \<and> (case res of None \<Rightarrow> True | Some e \<Rightarrow> pe_retryable e \<longrightarrow> a + k = MAX_ACK_RETRIES))"
proof (induction store tok req a p rule: ack_attempts.induct)
  case (1 store tok req a p)
  let ?ack = "os_ack_orchestration_item store tok req"
  obtain o1 p1 where one: "?ack p = (o1, p1)" by (cases "?ack p")
  show ?case
  proof (cases "\<exists>e. o1 = Some e \<and> pe_retryable e \<and> a < MAX_ACK_RETRIES")
    case False
    then have "ack_attempts store tok req a p = (o1, [], p1)"
      by (subst ack_attempts.simps) (auto simp: one split: option.splits)
    with False one "1.prems" show ?thesis by (intro exI [of _ 0]) (auto split: option.splits)
  next
    case True
    then obtain e where e: "o1 = Some e" "pe_retryable e" "a < MAX_ACK_RETRIES" by blast
    obtain res slept p' where r: "ack_attempts store tok req (a + 1) p1 = (res, slept, p')"
      by (cases "ack_attempts store tok req (a + 1) p1")
    have now: "ack_attempts store tok req a p = (res, 10 * 2 ^ a # slept, p')"
      by (subst ack_attempts.simps) (simp add: one e r [simplified])
    note ih = "1.IH" [OF one [symmetric] e(1) _ e(3) refl]
    from ih e(2,3) r obtain k where k: "a + 1 + k \<le> MAX_ACK_RETRIES"
      and s: "slept = map (\<lambda>i. 10 * 2 ^ (a + 1 + i)) [0..<k]"
      and p': "p' = ((\<lambda>q. snd (?ack q)) ^^ (k + 1)) p1"
      and res: "res = fst (?ack (((\<lambda>q. snd (?ack q)) ^^ k) p1))"
      and before: "\<And>i. i < k \<Longrightarrow> \<exists>e. fst (?ack (((\<lambda>q. snd (?ack q)) ^^ i) p1)) = Some e \<and> pe_retryable e"
      and last: "case res of None \<Rightarrow> True | Some e \<Rightarrow> pe_retryable e \<longrightarrow> a + 1 + k = MAX_ACK_RETRIES"
      by (auto simp: Let_def)
    have shift: "((\<lambda>q. snd (?ack q)) ^^ Suc i) p = ((\<lambda>q. snd (?ack q)) ^^ i) p1" for i
      by (simp only: funpow_Suc_right o_apply one snd_conv)
    have slept: "10 * 2 ^ a # slept = map (\<lambda>i. 10 * 2 ^ (a + i)) [0..<Suc k]"
      unfolding s by (simp only: upt_conv_Cons [OF zero_less_Suc] list.map map_Suc_upt [symmetric] map_map o_def) simp
    have all: "\<exists>e. fst (?ack (((\<lambda>q. snd (?ack q)) ^^ i) p)) = Some e \<and> pe_retryable e" if "i < Suc k" for i
      using that before shift one e by (cases i) auto
    from k show ?thesis
      unfolding now Let_def prod.case
      by (intro exI [of _ "Suc k"] conjI allI impI all slept)
        (use p' res last shift in \<open>auto simp: split: option.splits\<close>)
  qed
qed

text \<open>A commit is retried at most five times, and only over retryable errors: the store sees the same
  request k + 1 times for some k up to 5, after delays of 10, 20, 40, ... milliseconds; every try
  but the last failed with a retryable error, and the caller is told the outcome of the last one,
  which is a success, a permanent error, or the sixth failure.\<close>

theorem ack_retries_bounded:
  "\<exists>k \<le> MAX_ACK_RETRIES.
     let (res, slept, p') = ack_orchestration_with_changes store tok req p;
         state = (\<lambda>i. ((\<lambda>q. snd (os_ack_orchestration_item store tok req q)) ^^ i) p);
         outcome = (\<lambda>i. fst (os_ack_orchestration_item store tok req (state i)))
     in slept = map (\<lambda>i. 10 * 2 ^ i) [0..<k] \<and> p' = state (k + 1) \<and> res = outcome k
      \<and> (\<forall>i < k. \<exists>e. outcome i = Some e \<and> pe_retryable e)
      \<and> (case res of None \<Rightarrow> True | Some e \<Rightarrow> pe_retryable e \<longrightarrow> k = MAX_ACK_RETRIES)"
  using ack_attempts_cases [OF le0, of store tok req p]
  unfolding ack_orchestration_with_changes_def add_0 .

text \<open>A store that refuses twice with a retryable error; its state counts the tries.\<close>

definition busy_store :: "(nat, nat) orchestration_store" where
  "busy_store =
     \<lparr>os_ack_orchestration_item = (\<lambda>_ _ n.
        (if n < 2 then Some \<lparr>pe_operation = ''ack'', pe_message = ''busy'', pe_retryable = True\<rparr> else None,
         n + 1)),
      os_abandon_orchestration_item = (\<lambda>_ _ _ n. n)\<rparr>"

theorem ack_retries_bounded_witness:
  "\<exists>k \<le> MAX_ACK_RETRIES. fst (snd (ack_orchestration_with_changes busy_store ''t'' (empty_request 1) 0))
     = map (\<lambda>i. 10 * 2 ^ i) [0..<k]"
proof -
  obtain res slept p' where r: "ack_orchestration_with_changes busy_store ''t'' (empty_request 1) 0 = (res, slept, p')"
    by (rule prod_cases3)
  from ack_retries_bounded [of busy_store "''t''" "empty_request 1" 0]
  show ?thesis unfolding r Let_def prod.case fst_conv snd_conv by blast
qed

subsection \<open>Activities in flight\<close>

lemma retain_first_set: "set (retain_first seen xs) = set xs - seen"
  by (induction seen xs rule: retain_first.induct) auto

lemma retain_first_distinct: "distinct (retain_first seen xs)"
  by (induction seen xs rule: retain_first.induct) (auto simp: retain_first_set)

lemma hm_append_failed_full: "hm_delta (hm_append ev m) = hm_delta m @ [ev]" "hm_history (hm_append ev m) = hm_history m"
  by (simp_all add: hm_append_def)

text \<open>Only three kinds of events matter to \<open>compute_inflight_activities\<close>.\<close>

definition inflight_ids :: "event list \<Rightarrow> id64 set" where
  "inflight_ids es =
     {ev_event_id ev |ev. ev \<in> set es \<and> is_activity_scheduled (ev_kind ev)}
     - {i. \<exists>ev \<in> set es. ev_source_event_id ev = Some i
              \<and> (is_activity_result (ev_kind ev) \<or> activity_cancel_reason (ev_kind ev) \<noteq> None)}"

lemma set_map_filter_iff: "y \<in> set (List.map_filter f xs) \<longleftrightarrow> (\<exists>x \<in> set xs. f x = Some y)"
  by (induction xs) (auto split: option.splits)

lemma compute_inflight_ids:
  "sa_activity_id ` set (compute_inflight_activities inst x m) = inflight_ids (full_history m)"
  by (fastforce simp: compute_inflight_activities_def Let_def inflight_ids_def set_map_filter_iff image_image
      split: if_splits)

lemma inflight_empty: "compute_inflight_activities inst x m = [] \<longleftrightarrow> inflight_ids (full_history m) = {}"
  using compute_inflight_ids [of inst x m] by (metis image_is_empty set_empty)


lemma append_cancelled_fields:
  "hm_delta (append_cancelled inst x k i m) = hm_delta m @ [with_event_id (next_event_id m) inst x (Some i) k]"
  "hm_history (append_cancelled inst x k i m) = hm_history m"
  by (simp_all add: append_cancelled_def hm_append_def)

lemma fold_append_cancelled:
  "\<exists>crumbs. hm_delta (fold (\<lambda>a. append_cancelled inst x k (sa_activity_id a)) as m) = hm_delta m @ crumbs
     \<and> hm_history (fold (\<lambda>a. append_cancelled inst x k (sa_activity_id a)) as m) = hm_history m
     \<and> (\<forall>ev \<in> set crumbs. ev_kind ev = k)
     \<and> ev_source_event_id ` set crumbs = Some ` sa_activity_id ` set as"
proof (induction as arbitrary: m)
  case (Cons a as)
  let ?ev = "with_event_id (next_event_id m) inst x (Some (sa_activity_id a)) k"
  from Cons.IH [of "append_cancelled inst x k (sa_activity_id a) m"] obtain crumbs where
    "hm_delta (fold (\<lambda>a. append_cancelled inst x k (sa_activity_id a)) (a # as) m) = (hm_delta m @ [?ev]) @ crumbs"
    "hm_history (fold (\<lambda>a. append_cancelled inst x k (sa_activity_id a)) (a # as) m) = hm_history m"
    "\<forall>ev \<in> set crumbs. ev_kind ev = k" "ev_source_event_id ` set crumbs = Some ` sa_activity_id ` set as"
    by (auto simp: append_cancelled_fields)
  then show ?case by (intro exI [of _ "?ev # crumbs"]) simp
qed simp

lemma inflight_ids_append_other:
  "\<not> is_activity_scheduled (ev_kind ev) \<Longrightarrow> ev_source_event_id ev = None \<Longrightarrow> inflight_ids (es @ [ev]) = inflight_ids es"
  unfolding inflight_ids_def by auto

lemma inflight_ids_cancelled:
  assumes "\<forall>ev \<in> set crumbs. ev_kind ev = ActivityCancelRequested r"
    and "ev_source_event_id ` set crumbs = Some ` inflight_ids es"
  shows "inflight_ids (es @ crumbs) = {}"
proof -
  have "\<exists>ev \<in> set crumbs. ev_source_event_id ev = Some i" if "i \<in> inflight_ids es" for i
    using that assms(2) by (metis (no_types, lifting) image_iff)
  moreover have "inflight_ids (es @ crumbs) \<subseteq> inflight_ids es"
    using assms(1) unfolding inflight_ids_def by auto
  moreover have "i \<notin> inflight_ids (es @ crumbs)" if "ev \<in> set crumbs" "ev_source_event_id ev = Some i" for i ev
    using that assms(1) unfolding inflight_ids_def by auto
  ultimately show ?thesis by blast
qed

lemma map_filter_snoc: "f x = None \<Longrightarrow> List.map_filter f (xs @ [x]) = List.map_filter f xs"
  by (simp add: List.map_filter_def)

lemma compute_inflight_snoc:
  "full_history m' = full_history m @ [ev] \<Longrightarrow> \<not> is_activity_scheduled (ev_kind ev) \<Longrightarrow> ev_source_event_id ev = None \<Longrightarrow>
     compute_inflight_activities inst x m' = compute_inflight_activities inst x m"
  by (simp add: compute_inflight_activities_def map_filter_snoc Let_def)

text \<open>The delta of a turn's request: what the turn wrote, at most one limit failure, then breadcrumbs.\<close>

lemma limit_failure:
  "validate_limits delta kv inst x pc = (b, pc') \<Longrightarrow>
     case limit_violation delta kv of
       None \<Rightarrow> pc' = pc
     | Some msg \<Rightarrow> pc' = fail_orchestration_for_limit msg inst x pc"
  by (auto simp: validate_limits_def split: option.splits)

definition limit_events :: "string option \<Rightarrow> string \<Rightarrow> id64 \<Rightarrow> event list \<Rightarrow> bool" where
  "limit_events violation inst x failed \<longleftrightarrow>
     (case violation of
        None \<Rightarrow> failed = []
      | Some msg \<Rightarrow> \<exists>i. failed = [with_event_id i inst x None
          (OrchestrationFailed (Application AE_OrchestrationFailed msg False))])"

lemma turn_request_shape:
  fixes m kv
  defines "violation \<equiv> limit_violation (hm_delta m) kv"
  assumes "req = turn_request parse inst kv x m ws os cs"
  obtains failed crumbs reason where "ar_history_delta req = hm_delta m @ failed @ crumbs"
    and "limit_events violation inst x failed"
    and "case violation of
          None \<Rightarrow> ar_worker_items req = ws \<and> ar_orchestrator_items req = os
            \<and> ar_metadata req = compute_execution_metadata parse (hm_delta m)
        | Some msg \<Rightarrow> ar_worker_items req = [] \<and> ar_orchestrator_items req = []
            \<and> em_status (ar_metadata req) = Some ''Failed''"
    and "\<forall>ev \<in> set crumbs. ev_kind ev = ActivityCancelRequested reason"
    and "terminal_cancel_reason (em_status (ar_metadata req)) \<noteq> None \<longrightarrow>
          ev_source_event_id ` set crumbs = Some ` inflight_ids (full_history m)
          \<and> distinct (ar_cancelled_activities req)
          \<and> set (ar_cancelled_activities req) = set cs \<union> set (compute_inflight_activities inst x m)"
proof -
  define pc where "pc = snd (validate_limits (hm_delta m) kv inst x
     \<lparr>pc_history = m, pc_metadata = compute_execution_metadata parse (hm_delta m),
      pc_worker_items = ws, pc_orchestrator_items = os\<rparr>)"
  note limit = limit_failure [OF prod.collapse [symmetric, of "validate_limits (hm_delta m) kv inst x
     \<lparr>pc_history = m, pc_metadata = compute_execution_metadata parse (hm_delta m),
      pc_worker_items = ws, pc_orchestrator_items = os\<rparr>"], folded pc_def violation_def]
  obtain failed where f: "hm_delta (pc_history pc) = hm_delta m @ failed" "hm_history (pc_history pc) = hm_history m"
    and fc: "limit_events violation inst x failed"
    using limit by (cases violation) (auto simp: fail_orchestration_for_limit_def hm_append_def limit_events_def)
  have items: "case violation of
          None \<Rightarrow> pc_worker_items pc = ws \<and> pc_orchestrator_items pc = os
            \<and> pc_metadata pc = compute_execution_metadata parse (hm_delta m)
        | Some msg \<Rightarrow> pc_worker_items pc = [] \<and> pc_orchestrator_items pc = []
            \<and> em_status (pc_metadata pc) = Some ''Failed''"
    using limit by (cases violation) (auto simp: fail_orchestration_for_limit_def)
  have same: "compute_inflight_activities inst x (pc_history pc) = compute_inflight_activities inst x m"
    using f fc compute_inflight_snoc [of "pc_history pc" m]
    by (cases violation) (auto simp: compute_inflight_activities_def full_history_def limit_events_def)
  obtain m' cancelled where ci: "cancel_inflight inst x (em_status (pc_metadata pc)) (pc_history pc, cs) = (m', cancelled)"
    by (cases "cancel_inflight inst x (em_status (pc_metadata pc)) (pc_history pc, cs)")
  have req: "req = \<lparr>ar_execution_id = x, ar_history_delta = hm_delta m', ar_worker_items = pc_worker_items pc,
      ar_orchestrator_items = pc_orchestrator_items pc, ar_metadata = pc_metadata pc,
      ar_cancelled_activities = (if length cancelled > 1 then retain_first {} cancelled else cancelled)\<rparr>"
    unfolding assms(2) turn_request_def Let_def by (simp add: pc_def [symmetric] case_prod_unfold ci)
  have items: "case violation of
          None \<Rightarrow> ar_worker_items req = ws \<and> ar_orchestrator_items req = os
            \<and> ar_metadata req = compute_execution_metadata parse (hm_delta m)
        | Some msg \<Rightarrow> ar_worker_items req = [] \<and> ar_orchestrator_items req = []
            \<and> em_status (ar_metadata req) = Some ''Failed''"
    using items by (cases violation) (simp_all add: req)
  show ?thesis
  proof (cases "terminal_cancel_reason (em_status (pc_metadata pc))")
    case None
    with ci have "m' = pc_history pc" by (simp add: cancel_inflight_def)
    with None f fc show ?thesis
      by (intro that [of failed "[]", OF _ _ items]) (simp_all add: req)
  next
    case (Some reason)
    let ?inflight = "compute_inflight_activities inst x m"
    from Some ci have m': "m' = fold (\<lambda>a. append_cancelled inst x (ActivityCancelRequested reason) (sa_activity_id a))
          ?inflight (pc_history pc)" and c: "cancelled = cs @ ?inflight"
      by (simp_all add: cancel_inflight_def Let_def same)
    obtain crumbs where crumbs: "hm_delta m' = hm_delta (pc_history pc) @ crumbs"
      "\<forall>ev \<in> set crumbs. ev_kind ev = ActivityCancelRequested reason"
      "ev_source_event_id ` set crumbs = Some ` sa_activity_id ` set ?inflight"
      using fold_append_cancelled [of inst x "ActivityCancelRequested reason" ?inflight "pc_history pc"] m' by auto
    have "distinct (if length cancelled > 1 then retain_first {} cancelled else cancelled)"
      by (cases cancelled rule: remdups_adj.cases) (auto simp: retain_first_distinct retain_first_set)
    with f fc crumbs c compute_inflight_ids [of inst x m] show ?thesis
      by (intro that [of failed crumbs reason, OF _ _ items]) (auto simp: req retain_first_set Some)
  qed
qed

text \<open>C22. A turn that ends an execution leaves no activity running: the request it commits asks the
  provider to cancel each activity that was still in flight and each one whose future was dropped,
  every one once, and it records a cancel request for every activity in flight, so that the
  committed history has none in flight any more.\<close>

theorem terminal_turn_cancels_inflight:
  assumes "req = turn_request parse inst kv x m ws os cs"
    and "terminal_cancel_reason (em_status (ar_metadata req)) \<noteq> None"
  shows "distinct (ar_cancelled_activities req)
    \<and> set (ar_cancelled_activities req) = set cs \<union> set (compute_inflight_activities inst x m)
    \<and> compute_inflight_activities inst x (m\<lparr>hm_delta := ar_history_delta req\<rparr>) = []"
proof -
  obtain failed crumbs reason where delta: "ar_history_delta req = hm_delta m @ failed @ crumbs"
    and f: "limit_events (limit_violation (hm_delta m) kv) inst x failed"
    and i: "case limit_violation (hm_delta m) kv of
          None \<Rightarrow> ar_worker_items req = ws \<and> ar_orchestrator_items req = os
            \<and> ar_metadata req = compute_execution_metadata parse (hm_delta m)
        | Some msg \<Rightarrow> ar_worker_items req = [] \<and> ar_orchestrator_items req = []
            \<and> em_status (ar_metadata req) = Some ''Failed''"
    and k: "\<forall>ev \<in> set crumbs. ev_kind ev = ActivityCancelRequested reason"
    and t: "terminal_cancel_reason (em_status (ar_metadata req)) \<noteq> None \<longrightarrow>
          ev_source_event_id ` set crumbs = Some ` inflight_ids (full_history m)
          \<and> distinct (ar_cancelled_activities req)
          \<and> set (ar_cancelled_activities req) = set cs \<union> set (compute_inflight_activities inst x m)"
    by (rule turn_request_shape [OF assms(1)])
  have "inflight_ids (full_history m @ failed) = inflight_ids (full_history m)"
    using f inflight_ids_append_other [of "hd failed" "full_history m"]
    by (auto simp: limit_events_def split: option.splits)
  with inflight_ids_cancelled [of crumbs reason "full_history m @ failed"] k t assms(2)
  have "inflight_ids ((full_history m @ failed) @ crumbs) = {}" by simp
  with t assms(2) delta show ?thesis by (simp add: inflight_empty full_history_def)
qed

definition two_activities :: history_manager where
  "two_activities = hm_extend
     [with_event_id 2 ''i'' 1 None (ActivityScheduled ''a'' ''x'' None None),
      with_event_id 3 ''i'' 1 None (ActivityScheduled ''b'' ''x'' None None),
      with_event_id 4 ''i'' 1 (Some 2) (ActivityCompleted ''r''),
      with_event_id 5 ''i'' 1 None (OrchestrationCompleted ''r'')] (from_history [started_event])"

lemma two_activities_status:
  "em_status (ar_metadata (turn_request (\<lambda>_. None :: nat option) ''i'' [] 1 two_activities [] [] []))
     = Some ''Completed''"
proof -
  have delta: "hm_delta two_activities =
     [with_event_id 2 ''i'' 1 None (ActivityScheduled ''a'' ''x'' None None),
      with_event_id 3 ''i'' 1 None (ActivityScheduled ''b'' ''x'' None None),
      with_event_id 4 ''i'' 1 (Some 2) (ActivityCompleted ''r''),
      with_event_id 5 ''i'' 1 None (OrchestrationCompleted ''r'')]"
    by code_simp
  have "limit_violation (hm_delta two_activities) [] = None"
    by (simp add: delta limit_violation_def status_violation_def last_custom_status_def tag_violation_def
        oversized_tag_def kv_value_violation_def oversized_kv_def kv_count_violation_def effective_keys_def
        effective_keys_step_def)
  then show ?thesis
    by (simp add: turn_request_def validate_limits_def Let_def case_prod_unfold)
      (simp add: delta compute_execution_metadata_def)
qed

theorem terminal_turn_cancels_inflight_witness:
  "set (ar_cancelled_activities (turn_request (\<lambda>_. None :: nat option) ''i'' [] 1 two_activities [] [] []))
     = {\<lparr>sa_instance = ''i'', sa_execution_id = 1, sa_activity_id = 3\<rparr>}"
proof -
  have status: "terminal_cancel_reason (em_status (ar_metadata
      (turn_request (\<lambda>_. None :: nat option) ''i'' [] 1 two_activities [] [] []))) \<noteq> None"
    unfolding two_activities_status by (simp add: terminal_cancel_reason_def)
  have "compute_inflight_activities ''i'' 1 two_activities
      = [\<lparr>sa_instance = ''i'', sa_execution_id = 1, sa_activity_id = 3\<rparr>]"
    by code_simp
  with terminal_turn_cancels_inflight [OF refl status] show ?thesis by simp
qed

subsection \<open>Limits\<close>

definition within_limits :: "event \<Rightarrow> bool" where
  "within_limits ev \<longleftrightarrow>
     (case ev_kind ev of
        ActivityScheduled _ _ _ (Some t) \<Rightarrow> length t \<le> MAX_TAG_NAME_BYTES
      | KeyValueSet _ value _ \<Rightarrow> length value \<le> MAX_KV_VALUE_BYTES
      | _ \<Rightarrow> True)"

lemma no_violation:
  assumes "limit_violation delta kv = None"
  shows "\<forall>ev \<in> set delta. within_limits ev"
    and "card (effective_keys delta kv) \<le> MAX_KV_KEYS"
    and "last_custom_status delta = Some s \<Longrightarrow> length s \<le> MAX_CUSTOM_STATUS_BYTES"
proof -
  have v: "status_violation delta = None" "oversized_tag delta = None" "oversized_kv delta = None"
    "kv_count_violation delta kv = None"
    using assms by (auto simp: limit_violation_def tag_violation_def kv_value_violation_def split: option.splits)
  show "\<forall>ev \<in> set delta. within_limits ev"
  proof
    fix ev assume "ev \<in> set delta"
    with v(2,3) show "within_limits ev"
      unfolding oversized_tag_def oversized_kv_def find_map_None
      by (cases "ev_kind ev") (force simp: within_limits_def split: option.splits if_splits)+
  qed
  show "card (effective_keys delta kv) \<le> MAX_KV_KEYS"
    using v(4) by (simp add: kv_count_violation_def Let_def not_less split: if_splits)
  show "last_custom_status delta = Some s \<Longrightarrow> length s \<le> MAX_CUSTOM_STATUS_BYTES"
    using v(1) by (simp add: status_violation_def not_less split: if_splits)
qed

lemma crumbs_within:
  assumes "\<forall>ev \<in> set crumbs. ev_kind ev = ActivityCancelRequested reason"
  shows "\<forall>ev \<in> set crumbs. within_limits ev"
    and "effective_keys (delta @ crumbs) kv = effective_keys delta kv"
    and "last_custom_status (delta @ crumbs) = last_custom_status delta"
proof -
  show "\<forall>ev \<in> set crumbs. within_limits ev" using assms by (simp add: within_limits_def)
  have "fold effective_keys_step crumbs keys = keys" for keys
    using assms by (induction crumbs arbitrary: keys) (simp_all add: effective_keys_step_def)
  then show "effective_keys (delta @ crumbs) kv = effective_keys delta kv" by (simp add: effective_keys_def)
  have skip: "find_map f (xs @ ys) = find_map f ys" if "\<forall>x \<in> set xs. f x = None" for f xs ys
    using that by (induction xs) auto
  show "last_custom_status (delta @ crumbs) = last_custom_status delta"
    using assms by (simp add: last_custom_status_def skip)
qed

text \<open>No limit is exceeded by a turn that succeeds: the request a turn commits either fails the
  execution with nothing dispatched, or every tag and every value it records is within its limit, the
  last custom status it sets is, and the keys the snapshot and the new events leave are at most 150.\<close>

theorem committed_turn_within_limits:
  "let req = turn_request parse inst kv x m ws os cs; delta = ar_history_delta req
   in (em_status (ar_metadata req) = Some ''Failed'' \<and> ar_worker_items req = [] \<and> ar_orchestrator_items req = [])
      \<or> (\<forall>ev \<in> set delta. within_limits ev) \<and> card (effective_keys delta kv) \<le> MAX_KV_KEYS
         \<and> (\<forall>s. last_custom_status delta = Some s \<longrightarrow> length s \<le> MAX_CUSTOM_STATUS_BYTES)"
proof -
  define req where "req = turn_request parse inst kv x m ws os cs"
  obtain failed crumbs reason where delta: "ar_history_delta req = hm_delta m @ failed @ crumbs"
    and f: "limit_events (limit_violation (hm_delta m) kv) inst x failed"
    and i: "case limit_violation (hm_delta m) kv of
          None \<Rightarrow> ar_worker_items req = ws \<and> ar_orchestrator_items req = os
            \<and> ar_metadata req = compute_execution_metadata parse (hm_delta m)
        | Some msg \<Rightarrow> ar_worker_items req = [] \<and> ar_orchestrator_items req = []
            \<and> em_status (ar_metadata req) = Some ''Failed''"
    and k: "\<forall>ev \<in> set crumbs. ev_kind ev = ActivityCancelRequested reason"
    and t: "terminal_cancel_reason (em_status (ar_metadata req)) \<noteq> None \<longrightarrow>
          ev_source_event_id ` set crumbs = Some ` inflight_ids (full_history m)
          \<and> distinct (ar_cancelled_activities req)
          \<and> set (ar_cancelled_activities req) = set cs \<union> set (compute_inflight_activities inst x m)"
    by (rule turn_request_shape [OF req_def])
  note c = crumbs_within [OF k]
  show ?thesis
  proof (cases "limit_violation (hm_delta m) kv")
    case None
    note n = no_violation [OF None]
    from None f delta have "ar_history_delta req = hm_delta m @ crumbs" by (simp add: limit_events_def)
    with n c show ?thesis unfolding req_def [symmetric] Let_def by auto
  next
    case (Some msg)
    with i show ?thesis unfolding req_def [symmetric] Let_def by simp
  qed
qed

theorem committed_turn_within_limits_witness:
  "list_all within_limits (ar_history_delta (turn_request (\<lambda>_. None :: nat option) ''i'' [] 1 two_activities [] [] []))"
proof -
  have "em_status (ar_metadata (turn_request (\<lambda>_. None :: nat option) ''i'' [] 1 two_activities [] [] []))
      = Some ''Completed''"
    by (rule two_activities_status)
  with committed_turn_within_limits [of "\<lambda>_. None :: nat option" "''i''" "[]" 1 two_activities "[]" "[]" "[]"]
  show ?thesis by (simp add: Let_def list_all_iff)
qed

subsection \<open>Failures the parent is not told\<close>

text \<open>A limit failure of a child is not told to its parent: when a completing turn of a
  sub-orchestration exceeds a limit, the notice its output holds is dropped from the request, and the
  history it commits has a second terminal event, \<open>OrchestrationFailed\<close> behind
  \<open>OrchestrationCompleted\<close>.\<close>

theorem limit_failure_orphans_parent:
  assumes "out = completed_output inst x (Some (p, i)) pending output m ids"
    and "limit_violation (hm_delta (to_history out)) kv = Some msg"
    and "req = turn_request parse inst kv x (to_history out) (to_worker_items out) (to_orchestrator_items out) cs"
  shows "(\<exists>y. WI_SubOrchCompleted p y i output \<in> set (to_orchestrator_items out))
    \<and> ar_orchestrator_items req = []
    \<and> (\<exists>before ev1 ev2 after. ar_history_delta req = before @ ev1 # ev2 # after
         \<and> ev_kind ev1 = OrchestrationCompleted output
         \<and> ev_kind ev2 = OrchestrationFailed (Application AE_OrchestrationFailed msg False))"
proof -
  obtain failed crumbs reason where
    delta: "ar_history_delta req = hm_delta (to_history out) @ failed @ crumbs"
    and f: "limit_events (limit_violation (hm_delta (to_history out)) kv) inst x failed"
    and i: "case limit_violation (hm_delta (to_history out)) kv of
          None \<Rightarrow> ar_worker_items req = to_worker_items out \<and> ar_orchestrator_items req = to_orchestrator_items out
            \<and> ar_metadata req = compute_execution_metadata parse (hm_delta (to_history out))
        | Some msg \<Rightarrow> ar_worker_items req = [] \<and> ar_orchestrator_items req = []
            \<and> em_status (ar_metadata req) = Some ''Failed''"
    and "\<forall>ev \<in> set crumbs. ev_kind ev = ActivityCancelRequested reason"
    and "terminal_cancel_reason (em_status (ar_metadata req)) \<noteq> None \<longrightarrow>
          ev_source_event_id ` set crumbs = Some ` inflight_ids (full_history (to_history out))
          \<and> distinct (ar_cancelled_activities req)
          \<and> set (ar_cancelled_activities req) = set cs \<union> set (compute_inflight_activities inst x (to_history out))"
    by (rule turn_request_shape [OF assms(3)])
  obtain before ev1 where "hm_delta (to_history out) = before @ [ev1]" "ev_kind ev1 = OrchestrationCompleted output"
    by (simp add: assms(1) completed_output_def case_prod_unfold Let_def hm_append_def)
  moreover obtain ev2 where "failed = [ev2]" "ev_kind ev2 = OrchestrationFailed (Application AE_OrchestrationFailed msg False)"
    using f assms(2) by (auto simp: limit_events_def)
  moreover have "\<exists>y. WI_SubOrchCompleted p y i output \<in> set (to_orchestrator_items out)"
    by (auto simp: assms(1) completed_output_def case_prod_unfold Let_def)
  ultimately show ?thesis using delta i assms(2)
    by (intro conjI exI [of _ before] exI [of _ ev1] exI [of _ ev2] exI [of _ crumbs]) simp_all
qed

definition tagged_manager :: history_manager where
  "tagged_manager = hm_extend
     [with_event_id 2 ''i'' 1 None (ActivityScheduled ''a'' ''x'' None (Some (replicate 257 CHR ''t'')))]
     (from_history [started_event])"

theorem limit_failure_orphans_parent_witness:
  "ar_orchestrator_items (turn_request (\<lambda>_. None :: nat option) ''i'' [] 1
     (to_history (completed_output ''i'' 1 (Some (''p'', 7)) [] ''r'' tagged_manager Map.empty)) []
     (to_orchestrator_items (completed_output ''i'' 1 (Some (''p'', 7)) [] ''r'' tagged_manager Map.empty)) []) = []"
proof -
  let ?out = "completed_output ''i'' 1 (Some (''p'', 7)) [] ''r'' tagged_manager Map.empty"
  have w: "to_worker_items ?out = []" by (simp add: completed_output_def case_prod_unfold Let_def)
  have "take 1 (hm_delta (to_history ?out))
      = [with_event_id 2 ''i'' 1 None (ActivityScheduled ''a'' ''x'' None (Some (replicate 257 CHR ''t'')))]"
    by code_simp
  then obtain evs where "hm_delta (to_history ?out)
      = with_event_id 2 ''i'' 1 None (ActivityScheduled ''a'' ''x'' None (Some (replicate 257 CHR ''t''))) # evs"
    by (cases "hm_delta (to_history ?out)") auto
  then have "\<exists>msg. limit_violation (hm_delta (to_history ?out)) [] = Some msg"
    by (auto simp: limit_violation_def tag_violation_def oversized_tag_def MAX_TAG_NAME_BYTES_def split: option.splits)
  then obtain msg where v: "limit_violation (hm_delta (to_history ?out)) [] = Some msg" by blast
  from limit_failure_orphans_parent [OF refl v refl, of "\<lambda>_. None :: nat option" "[]"] w show ?thesis by simp
qed

lemma parentless_no_notices:
  "filter is_parent_notice (to_orchestrator_items (turn_result_output inst x n None res pending m ids)) = []"
proof (cases res)
  case TR_Continue
  obtain ws os ids' where d: "fold (dispatch_action inst x) pending ([], [], ids) = (ws, os, ids')"
    by (cases "fold (dispatch_action inst x) pending ([], [], ids)")
  with dispatch_no_notices [OF d] TR_Continue show ?thesis
    by (simp add: turn_result_output_def continue_output_def)
qed (simp_all add: turn_result_output_def completed_output_def failed_output_def cancelled_output_def
      continued_output_def notify_parent_failed_def case_prod_unfold Let_def)

lemma empty_manager: "hm_is_empty (from_history [])"
  by (simp add: hm_is_empty_def from_history_def)

lemma run_parentless:
  assumes "run_single_execution_atomic h inst m reader x ver kv ids = Some out" and "snd (extract_context m) = None"
  shows "filter is_parent_notice (to_orchestrator_items out) = []"
  using assms parentless_no_notices
  by (auto simp: run_single_execution_atomic_def Let_def case_prod_unfold split: option.splits)

text \<open>A sub-orchestration that continues as new loses its parent: the next execution is started
  without a parent link (\<open>from_messages\<close> has none for a \<open>ContinueAsNew\<close> message, and the message
  carries none), so whatever that execution does, completing and failing included, the parent that
  waits for the child is never told.\<close>

theorem continued_child_orphans_parent:
  fixes rt :: "('v::linorder, 's) runtime"
  assumes "reader = from_messages (oi_messages item) temp (oi_instance item)"
    and "wr_is_continue_as_new reader"
    and "item_request rt item temp reader ids = Some (Inr (req, ids'))"
  shows "filter is_parent_notice (ar_orchestrator_items req) = []"
proof (cases "has_orchestration_name reader")
  case True
  have reader: "wr_parent_instance reader = None" "wr_parent_id reader = None"
    using assms(1,2) by (auto simp: from_messages_def Let_def separate_messages_def case_prod_unfold
        split: option.splits work_item.splits)
  let ?x = "oi_execution_id item + 1"
  obtain out where out: "resolve_and_execute_orchestration_handler rt (oi_instance item) (from_history []) reader ?x
        (oi_kv_snapshot item) ids = Some (Inr out)"
    and req: "req = turn_request (rt_parse_version rt) (oi_instance item) (oi_kv_snapshot item) ?x
        (to_history out) (to_worker_items out) (to_orchestrator_items out) (to_cancelled_activities out)"
    using assms(2,3) True
    by (auto simp: item_request_def execution_to_use_def Let_def split: option.splits sum.splits)
  from out obtain v and h :: "'s handler" where "run_single_execution_atomic h (oi_instance item)
      (hm_append (new_execution_event (oi_instance item) ?x (rt_show_version rt v) reader) (from_history []))
      reader ?x (rt_show_version rt v) (oi_kv_snapshot item) ids = Some out"
    by (auto simp: resolve_and_execute_orchestration_handler_def Let_def empty_manager split: option.splits)
  moreover have "snd (extract_context (hm_append (new_execution_event (oi_instance item) ?x (rt_show_version rt v)
      reader) (from_history []))) = None"
    by (simp add: extract_context_def hm_append_def from_history_def new_execution_event_def reader
        parent_link_of_def case_prod_unfold Let_def)
  ultimately have none: "filter is_parent_notice (to_orchestrator_items out) = []" by (rule run_parentless)
  show ?thesis
    by (rule turn_request_shape [OF req]) (use none in \<open>auto split: option.splits\<close>)
next
  case False
  with assms(2,3) obtain x m where req: "req = turn_request (rt_parse_version rt) (oi_instance item)
      (oi_kv_snapshot item) x m [] [] []"
    by (auto simp: item_request_def Let_def case_prod_unfold)
  show ?thesis by (rule turn_request_shape [OF req]) (auto split: option.splits)
qed

definition sample_runtime :: "(nat, one_activity) runtime" where
  "sample_runtime =
     \<lparr>rt_orchestration_registry = build (register_orchestration (\<lambda>_. []) 1 ''o'' one_activity_handler builder),
      rt_max_attempts = 10, rt_base_delay = 1000000000, rt_max_delay = 60000000000,
      rt_parse_version = (\<lambda>_. Some 1), rt_show_version = (\<lambda>_. ''1.0.0''), rt_messages_json = (\<lambda>_. [])\<rparr>"

definition continued_item :: orchestration_item where
  "continued_item =
     \<lparr>oi_instance = ''p::sub::2'', oi_orchestration_name = ''o'', oi_execution_id = 1, oi_version = ''1.0.0'',
      oi_history = [], oi_messages = [WI_ContinueAsNew ''p::sub::2'' ''o'' ''n'' None [] None],
      oi_history_error = None, oi_kv_snapshot = []\<rparr>"

definition continued_reader :: work_item_reader where
  "continued_reader = from_messages (oi_messages continued_item) (from_history []) (oi_instance continued_item)"

lemma continued_resolves:
  "\<exists>out. resolve_and_execute_orchestration_handler sample_runtime ''p::sub::2'' (from_history []) continued_reader 2 []
     Map.empty = Some (Inr out)"
proof -
  have "resolve_for_item sample_runtime continued_reader = Some (1, one_activity_handler)"
    by (simp add: continued_reader_def resolve_for_item_def sample_runtime_def from_messages_def continued_item_def
        separate_messages_def resolve_handler_def build_def register_orchestration_def check_duplicate_def
        insert_handler_def builder_def versions_of_def bt_get_def bt_last_def)
  moreover have "run_single_execution_atomic one_activity_handler ''p::sub::2''
     (hm_append (new_execution_event ''p::sub::2'' 2 ''1.0.0'' continued_reader) (from_history [])) continued_reader 2
     ''1.0.0'' [] Map.empty \<noteq> None"
    by code_simp
  ultimately show ?thesis
    by (auto simp: resolve_and_execute_orchestration_handler_def Let_def empty_manager sample_runtime_def)
qed

theorem continued_child_orphans_parent_witness:
  "\<exists>req ids'. item_request sample_runtime continued_item (from_history []) continued_reader Map.empty
       = Some (Inr (req, ids'))
     \<and> filter is_parent_notice (ar_orchestrator_items req) = []"
proof -
  obtain out where "resolve_and_execute_orchestration_handler sample_runtime ''p::sub::2'' (from_history [])
     continued_reader 2 [] Map.empty = Some (Inr out)" using continued_resolves by blast
  then have r: "resolve_and_execute_orchestration_handler sample_runtime (oi_instance continued_item) (from_history [])
     continued_reader (oi_execution_id continued_item + 1) (oi_kv_snapshot continued_item) Map.empty = Some (Inr out)"
    by (simp add: continued_item_def numeral_2_eq_2)
  have can: "wr_is_continue_as_new continued_reader" "has_orchestration_name continued_reader" by code_simp+
  from can obtain req ids' where "item_request sample_runtime continued_item (from_history []) continued_reader Map.empty
     = Some (Inr (req, ids'))"
    by (simp only: item_request_def execution_to_use_def if_True Let_def prod.case r option.case sum.case)
  with continued_child_orphans_parent [OF continued_reader_def can(1) this] show ?thesis by blast
qed

subsection \<open>Poison and failed commits\<close>

lemma after_last_started_append:
  "\<not> list_ex (is_started \<circ> ev_kind) evs \<Longrightarrow>
     after_last_started (es @ evs) = map_option (\<lambda>rest. rest @ evs) (after_last_started es)"
proof (induction es)
  case Nil
  then show ?case by (induction evs) auto
qed (auto split: option.splits)

lemma after_last_started_exists: "list_ex (is_started \<circ> ev_kind) es \<Longrightarrow> after_last_started es \<noteq> None"
  by (induction es) (auto split: option.splits)

lemma note_started_flags [simp]:
  "hm_is_completed (fold hm_note_started es m) = hm_is_completed m"
  "hm_is_failed (fold hm_note_started es m) = hm_is_failed m"
  "hm_is_continued_as_new (fold hm_note_started es m) = hm_is_continued_as_new m"
  by (induction es arbitrary: m) (simp_all add: hm_note_started_def split: event_kind.splits)

lemma note_terminal_terminal:
  "list_ex is_terminal es \<Longrightarrow> hm_is_terminal (hm_note_terminal es m)"
  by (induction es) (auto simp: hm_is_terminal_def is_terminal_def split: event_kind.splits)

lemma from_history_terminal:
  assumes "list_ex (is_started \<circ> ev_kind) es" and "\<not> list_ex (is_started \<circ> ev_kind) evs" and "list_ex is_terminal evs"
  shows "hm_is_terminal (from_history (es @ evs))"
proof -
  obtain rest where "after_last_started es = Some rest" using after_last_started_exists [OF assms(1)] by blast
  then have "after_last_started (es @ evs) = Some (rest @ evs)"
    by (simp add: after_last_started_append [OF assms(2)])
  with assms(3) show ?thesis by (simp add: from_history_def Let_def note_terminal_terminal)
qed

lemma note_started_lists [simp]:
  "hm_history (fold hm_note_started es m) = hm_history m" "hm_delta (fold hm_note_started es m) = hm_delta m"
  by (induction es arbitrary: m) (simp_all add: hm_note_started_def split: event_kind.splits)

lemma note_terminal_lists [simp]:
  "hm_history (hm_note_terminal es m) = hm_history m" "hm_delta (hm_note_terminal es m) = hm_delta m"
  by (induction es) (simp_all split: event_kind.splits)

lemma from_history_lists [simp]: "hm_history (from_history es) = es" "hm_delta (from_history es) = []"
  by (simp_all add: from_history_def Let_def split: option.splits)

lemma poison_terminal:
  assumes "hist = [] \<or> list_ex (is_started \<circ> ev_kind) hist" and "hist = oi_history item"
  shows "hm_is_terminal (from_history (hist @ hm_delta (append_failed error (fst (poison_history item)))))"
proof (cases "hist = []")
  case True
  have "\<exists>ev. is_started (ev_kind ev) \<and> hm_delta (fst (poison_history item)) = [ev]"
    using True assms(2) by (auto simp: poison_history_def Let_def hm_is_empty_def hm_append_def case_prod_unfold)
  then obtain ev where ev: "is_started (ev_kind ev)" "hm_delta (fst (poison_history item)) = [ev]" by blast
  then show ?thesis
    using True from_history_terminal [of "[ev]" "[with_event_id i [] 0 None (OrchestrationFailed error)]" for i]
    by (simp add: append_failed_def hm_append_def is_terminal_def)
next
  case False
  with assms show ?thesis
    using from_history_terminal [of hist "[with_event_id i [] 0 None (OrchestrationFailed error)]" for i]
    by (simp add: poison_history_def Let_def hm_is_empty_def append_failed_def hm_append_def is_terminal_def)
qed



text \<open>A failed commit can leave an instance no batch can end: when the commit of a first turn (or of
  the first turn after continue-as-new) fails for good, the failure that is committed instead is the
  only event of that execution. It has no \<open>OrchestrationStarted\<close> before it, so although the execution
  is stored as failed, the next batch sees an instance that has not ended and has no name; and no
  parent is told.\<close>

theorem failed_first_commit_not_terminal:
  "let req = infra_failure_request parse item x e; m = from_history (ar_history_delta req)
   in em_status (ar_metadata req) = Some ''Failed'' \<and> ar_orchestrator_items req = []
    \<and> \<not> hm_is_terminal m
    \<and> \<not> has_orchestration_name (from_messages [WI_CancelInstance inst reason] m inst)"
proof -
  obtain i where req: "infra_failure_request parse item x e =
     \<lparr>ar_execution_id = x,
      ar_history_delta = [with_event_id i [] 0 None (OrchestrationFailed (to_infrastructure_error e))],
      ar_worker_items = [], ar_orchestrator_items = [],
      ar_metadata = metadata_default\<lparr>em_status := Some ''Failed'',
        em_output := Some (display_message (to_infrastructure_error e))\<rparr>,
      ar_cancelled_activities = []\<rparr>"
    by (simp add: infra_failure_request_def append_failed_def hm_append_def Let_def compute_execution_metadata_def)
  show ?thesis unfolding req
    by (simp add: Let_def from_history_def hm_note_started_def hm_is_terminal_def from_messages_def
        separate_messages_def has_orchestration_name_def opt_or_def)
qed

subsection \<open>Delays\<close>

text \<open>The lock is renewed before it expires exactly for lock timeouts above one second (and, from
  15 seconds on, with a buffer that is not zero): the renewal interval is then shorter than the
  timeout; it is never below one second.\<close>

theorem renewal_before_expiry:
  "(calculate_renewal_interval t buffer < t \<longleftrightarrow> from_secs 1 < t \<and> (t < from_secs 15 \<or> 0 < buffer))
   \<and> from_secs 1 \<le> calculate_renewal_interval t buffer"
  by (auto simp: calculate_renewal_interval_def from_secs_def Let_def max_def min_def)

text \<open>The delay after a failed fetch is capped at three seconds while the count of consecutive errors
  is below 58, but the product is computed before the cap is applied: from 62 errors on it is a
  multiple of 2 to the 64th, so a release build waits 0 ms and the dispatcher spins on the failing
  store. (A debug build panics at 58.)\<close>

theorem fetch_backoff_wraps:
  "unat (fetch_backoff_ms (min n 57)) = min (100 * 2 ^ min n 57) 3000 \<and> fetch_backoff_ms (62 + n) = 0"
proof
  have "(100 :: nat) * 2 ^ min n 57 \<le> 100 * 2 ^ (57 :: nat)" by (intro mult_le_mono2 power_increasing) auto
  then have lt: "100 * 2 ^ min n 57 < (2 :: nat) ^ 64" by simp
  have "unat (100 * 2 ^ min n 57 :: 64 word) = 100 * 2 ^ min n 57"
    using lt unat_of_nat [where 'a = 64, of "100 * 2 ^ min n 57"] by simp
  then show "unat (fetch_backoff_ms (min n 57)) = min (100 * 2 ^ min n 57) 3000"
    by (simp add: fetch_backoff_ms_def min_def [of "100 * 2 ^ min n 57" 3000]
        min_def [of "(100 * 2 ^ min n 57 :: 64 word)" 3000] word_le_nat_alt)
  have "(100 :: 64 word) * 2 ^ 62 = 0" by simp
  then have "(100 :: 64 word) * 2 ^ (62 + n) = 0" by (simp only: power_add mult.assoc [symmetric] mult_zero_left)
  then show "fetch_backoff_ms (62 + n) = 0" by (simp only: fetch_backoff_ms_def) simp
qed

end
