(* ===== verification/Sql_Db.thy ===== *)
theory Sql_Db
  imports Limits Registry
begin

text \<open>
  The relational store of \<open>src/src/providers/sqlite_common.rs\<close> (the body of the macro
  \<open>define_sqlite_like_provider!\<close>, with the strategies of the SQLite provider): its tables, the SQL
  statements as functions on tables, transactions, and the operations both queues share.

  A table is the list of its rows in insertion order. The two queues get their row numbers from
  \<open>AUTOINCREMENT\<close>, so their rows are in increasing order of \<open>id\<close> (\<open>db_ok\<close> below) and \<open>ORDER BY id\<close>
  is the order of the list. An operation runs as one transaction; \<open>run_tx\<close> is its commit on \<open>Ok\<close>
  and the rollback of the dropped transaction on \<open>Err\<close>. The JSON codec (\<open>serde_json\<close>) is a
  parameter, the record \<open>codec\<close>; a stored payload has the type \<open>'d\<close> (events) or \<open>'w\<close> (work items).
  The clock reading \<open>now\<close> (milliseconds) and a fresh lock token are arguments.
  Columns that no statement of the program reads back in its logic (\<open>updated_at\<close>, \<open>started_at\<close>, the \<open>created_at\<close> of the
  other tables than \<open>instances\<close>, and \<open>locked_until\<close> of the orchestrator queue, which is never
  written) are left out.
\<close>

subsection \<open>SQL statements on tables\<close>

definition sql_delete :: "('r \<Rightarrow> bool) \<Rightarrow> 'r list \<Rightarrow> 'r list" where
  "sql_delete P t = filter (\<lambda>r. \<not> P r) t"

definition sql_update :: "('r \<Rightarrow> bool) \<Rightarrow> ('r \<Rightarrow> 'r) \<Rightarrow> 'r list \<Rightarrow> 'r list" where
  "sql_update P f t = map (\<lambda>r. if P r then f r else r) t"

definition sql_count :: "('r \<Rightarrow> bool) \<Rightarrow> 'r list \<Rightarrow> nat" where
  "sql_count P t = length (filter P t)"

text \<open>\<open>INSERT OR IGNORE\<close>, and \<open>INSERT .. ON CONFLICT DO UPDATE\<close>, for a primary key.\<close>

definition sql_insert_ignore :: "('r \<Rightarrow> 'k) \<Rightarrow> 'r \<Rightarrow> 'r list \<Rightarrow> 'r list" where
  "sql_insert_ignore key r t = (if key r \<in> key ` set t then t else t @ [r])"

definition sql_upsert :: "('r \<Rightarrow> 'k) \<Rightarrow> 'r \<Rightarrow> ('r \<Rightarrow> 'r) \<Rightarrow> 'r list \<Rightarrow> 'r list" where
  "sql_upsert key r f t =
     (if key r \<in> key ` set t then sql_update (\<lambda>r'. key r' = key r) f t else t @ [r])"

lemmas sql_basic = sql_delete_def sql_update_def sql_count_def sql_insert_ignore_def sql_upsert_def

lemma set_sql_delete [simp]: "set (sql_delete P t) = {r \<in> set t. \<not> P r}"
  by (auto simp: sql_delete_def)

lemma sql_update_id: "(\<And>r. r \<in> set t \<Longrightarrow> \<not> P r) \<Longrightarrow> sql_update P f t = t"
  unfolding sql_update_def by (induction t) auto

lemma map_sql_update_key:
  "(\<And>r. P r \<Longrightarrow> key (f r) = key r) \<Longrightarrow> map key (sql_update P f t) = map key t"
  unfolding sql_update_def by (induction t) auto

lemma sql_count_0: "sql_count P t = 0 \<longleftrightarrow> (\<forall>r \<in> set t. \<not> P r)"
  by (induction t) (auto simp: sql_count_def)

lemma distinct_sql_delete: "distinct (map key t) \<Longrightarrow> distinct (map key (sql_delete P t))"
  by (simp add: sql_delete_def distinct_map_filter)

lemma distinct_sql_update:
  "distinct (map key t) \<Longrightarrow> (\<And>r. P r \<Longrightarrow> key (f r) = key r) \<Longrightarrow> distinct (map key (sql_update P f t))"
  by (simp add: map_sql_update_key)

lemma distinct_sql_insert_ignore:
  "distinct (map key t) \<Longrightarrow> distinct (map key (sql_insert_ignore key r t))"
  by (auto simp: sql_insert_ignore_def)

lemma distinct_sql_upsert:
  "distinct (map key t) \<Longrightarrow> (\<And>r'. key r' = key r \<Longrightarrow> key (f r') = key r) \<Longrightarrow>
   distinct (map key (sql_upsert key r f t))"
  by (auto simp: sql_upsert_def intro!: distinct_sql_update)

lemma sorted_sql_delete:
  "sorted_wrt (<) (map key t) \<Longrightarrow> sorted_wrt (<) (map key (sql_delete P t))"
  by (simp add: sql_delete_def sorted_wrt_map sorted_wrt_filter)

lemma sorted_sql_update:
  "sorted_wrt (<) (map key t) \<Longrightarrow> (\<And>r. P r \<Longrightarrow> key (f r) = key r) \<Longrightarrow>
   sorted_wrt (<) (map key (sql_update P f t))"
  by (simp add: map_sql_update_key)

lemma find_sql_update:
  "(\<And>r. P r \<Longrightarrow> Q (f r) = Q r) \<Longrightarrow>
   List.find Q (sql_update P f t) = map_option (\<lambda>r. if P r then f r else r) (List.find Q t)"
  unfolding sql_update_def by (induction t) auto

lemma find_sql_delete:
  "(\<And>r. r \<in> set t \<Longrightarrow> P r \<Longrightarrow> \<not> Q r) \<Longrightarrow> List.find Q (sql_delete P t) = List.find Q t"
  unfolding sql_delete_def by (induction t) auto

lemma find_append:
  "List.find Q (xs @ ys) = (case List.find Q xs of Some r \<Rightarrow> Some r | None \<Rightarrow> List.find Q ys)"
  by (induction xs) auto

subsection \<open>Time\<close>

text \<open>\<open>as i64\<close>: the low 64 bits, read as a signed number.\<close>

definition i64_wrap :: "int \<Rightarrow> int" where
  "i64_wrap x = (x + 2 ^ 63) mod 2 ^ 64 - 2 ^ 63"

definition i64_max :: int where "i64_max = 2 ^ 63 - 1"

lemma i64_wrap_id: "- (2 ^ 63) \<le> x \<Longrightarrow> x < 2 ^ 63 \<Longrightarrow> i64_wrap x = x"
  by (simp add: i64_wrap_def)

definition as_millis :: "nanos \<Rightarrow> nat" where
  "as_millis d = d div 1000000"

definition timestamp_after :: "int \<Rightarrow> nanos \<Rightarrow> int" where
  "timestamp_after now d = i64_wrap (now + i64_wrap (int (as_millis d)))"

text \<open>\<open>now.saturating_add(delay.as_millis().min(i64::MAX) as i64)\<close>, for a time after the epoch.\<close>

definition saturating_after :: "int \<Rightarrow> nanos \<Rightarrow> int" where
  "saturating_after now d = min i64_max (now + min (int (as_millis d)) i64_max)"

subsection \<open>Errors\<close>

definition retryable_error :: "string \<Rightarrow> string \<Rightarrow> provider_error" where
  "retryable_error operation message =
     \<lparr>pe_operation = operation, pe_message = message, pe_retryable = True\<rparr>"

definition permanent_error :: "string \<Rightarrow> string \<Rightarrow> provider_error" where
  "permanent_error operation message =
     \<lparr>pe_operation = operation, pe_message = message, pe_retryable = False\<rparr>"

text \<open>Rust's \<open>str::contains\<close>.\<close>

fun contains_str :: "string \<Rightarrow> string \<Rightarrow> bool" where
  "contains_str [] p = (p = [])"
| "contains_str (c # s) p = (starts_with (c # s) p \<or> contains_str s p)"

text \<open>The argument is the text of the \<open>sqlx::Error\<close>.\<close>

definition sqlx_to_provider_error :: "string \<Rightarrow> string \<Rightarrow> provider_error" where
  "sqlx_to_provider_error operation error_msg =
     (if contains_str error_msg ''database is locked'' \<or> contains_str error_msg ''SQLITE_BUSY''
      then retryable_error operation (''Database locked: '' @ error_msg)
      else if contains_str error_msg ''UNIQUE constraint'' \<or> contains_str error_msg ''PRIMARY KEY''
      then permanent_error operation (''Constraint violation: '' @ error_msg)
      else if contains_str error_msg ''connection'' \<or> contains_str error_msg ''timeout''
      then retryable_error operation (''Connection error: '' @ error_msg)
      else retryable_error operation error_msg)"

lemma error_simps [simp]:
  "pe_retryable (retryable_error op msg)" "\<not> pe_retryable (permanent_error op msg)"
  by (simp_all add: retryable_error_def permanent_error_def)

subsection \<open>Versions\<close>

text \<open>
  \<open>semver::Version\<close> as the store keeps it: the three numbers. Pre-release and build tags are not
  stored and not compared by the statements.
\<close>

datatype sem_ver = Sem_Ver (sv_major: nat) (sv_minor: nat) (sv_patch: nat)

instantiation sem_ver :: linorder
begin

definition less_eq_sem_ver :: "sem_ver \<Rightarrow> sem_ver \<Rightarrow> bool" where
  "less_eq_sem_ver a b \<longleftrightarrow> sv_major a < sv_major b \<or> sv_major a = sv_major b \<and>
     (sv_minor a < sv_minor b \<or> sv_minor a = sv_minor b \<and> sv_patch a \<le> sv_patch b)"

definition less_sem_ver :: "sem_ver \<Rightarrow> sem_ver \<Rightarrow> bool" where
  "less_sem_ver a b \<longleftrightarrow> a \<le> b \<and> \<not> b \<le> (a::sem_ver)"

instance
  by standard (auto simp: less_eq_sem_ver_def less_sem_ver_def sem_ver.expand)

end

definition packed :: "sem_ver \<Rightarrow> int" where
  "packed v = int (sv_major v) * 1000000 + int (sv_minor v) * 1000 + int (sv_patch v)"

text \<open>The packed comparison is the order of versions while minor and patch stay below 1000.\<close>

definition small_ver :: "sem_ver \<Rightarrow> bool" where
  "small_ver v \<longleftrightarrow> sv_minor v < 1000 \<and> sv_patch v < 1000"

lemma packed_le: "small_ver a \<Longrightarrow> small_ver b \<Longrightarrow> packed a \<le> packed b \<longleftrightarrow> a \<le> b"
  unfolding packed_def small_ver_def less_eq_sem_ver_def by linarith

subsection \<open>Rows and tables\<close>

record 'w orch_row =
  oq_id :: nat
  oq_instance :: string
  oq_work_item :: 'w
  oq_visible_at :: int
  oq_lock_token :: "string option"
  oq_attempt_count :: nat

record 'w worker_row =
  wq_id :: nat
  wq_work_item :: 'w
  wq_visible_at :: int
  wq_lock_token :: "string option"
  wq_locked_until :: "int option"
  wq_attempt_count :: nat
  wq_instance :: "string option"
  wq_execution_id :: "id64 option"
  wq_activity_id :: "id64 option"
  wq_session_id :: "string option"
  wq_tag :: "string option"

record instance_row =
  in_instance :: string
  in_orchestration_name :: string
  in_orchestration_version :: "string option"
  in_current_execution_id :: id64
  in_custom_status :: "string option"
  in_custom_status_version :: nat
  in_parent_instance_id :: "string option"
  in_created_at :: int

record execution_row =
  ex_instance :: string
  ex_execution_id :: id64
  ex_status :: string
  ex_output :: "string option"
  ex_pinned :: "sem_ver option"
  ex_completed_at :: "int option"

record 'd history_row =
  hi_instance :: string
  hi_execution_id :: id64
  hi_event_id :: id64
  hi_event_type :: string
  hi_event_data :: 'd

record lock_row =
  il_instance :: string
  il_lock_token :: string
  il_locked_until :: int
  il_locked_at :: int

record session_row =
  se_session_id :: string
  se_worker_id :: string
  se_locked_until :: int
  se_last_activity_at :: int

text \<open>A missing value in \<open>kv_delta\<close> is a tombstone. The timestamps are \<open>u64\<close> milliseconds, which
  the casts to \<open>i64\<close> and back leave unchanged.\<close>

record kv_store_row =
  ks_instance :: string
  ks_key :: string
  ks_value :: string
  ks_last_updated_at_ms :: millis

record kv_delta_row =
  kd_instance :: string
  kd_key :: string
  kd_value :: "string option"
  kd_last_updated_at_ms :: millis

record ('d, 'w) db =
  db_orchestrator_queue :: "'w orch_row list"
  db_worker_queue :: "'w worker_row list"
  db_instances :: "instance_row list"
  db_executions :: "execution_row list"
  db_history :: "'d history_row list"
  db_instance_locks :: "lock_row list"
  db_sessions :: "session_row list"
  db_kv_store :: "kv_store_row list"
  db_kv_delta :: "kv_delta_row list"
  db_next_orch_id :: nat
  db_next_worker_id :: nat

definition empty_db :: "('d, 'w) db" where
  "empty_db = \<lparr>db_orchestrator_queue = [], db_worker_queue = [], db_instances = [], db_executions = [],
     db_history = [], db_instance_locks = [], db_sessions = [], db_kv_store = [], db_kv_delta = [],
     db_next_orch_id = 1, db_next_worker_id = 1\<rparr>"

text \<open>\<open>serde_json\<close> on events and work items, and SQL's \<open>LENGTH\<close> of a stored event.\<close>

record ('d, 'w) codec =
  cd_event :: "event \<Rightarrow> 'd"
  cd_read_event :: "'d \<Rightarrow> string + event"
  cd_event_length :: "'d \<Rightarrow> nat"
  cd_item :: "work_item \<Rightarrow> 'w"
  cd_read_item :: "'w \<Rightarrow> string + work_item"

text \<open>What is serialised can be read back.\<close>

definition codec_ok :: "('d, 'w) codec \<Rightarrow> bool" where
  "codec_ok cd \<longleftrightarrow> (\<forall>ev. cd_read_event cd (cd_event cd ev) = Inr ev)
     \<and> (\<forall>wi. cd_read_item cd (cd_item cd wi) = Inr wi)"

definition plain_codec :: "(event, work_item) codec" where
  "plain_codec = \<lparr>cd_event = (\<lambda>ev. ev), cd_read_event = Inr, cd_event_length = (\<lambda>_. 0),
     cd_item = (\<lambda>wi. wi), cd_read_item = Inr\<rparr>"

lemma plain_codec_ok [simp]: "codec_ok plain_codec"
  by (simp add: codec_ok_def plain_codec_def)

lemma codec_okD [simp]:
  "codec_ok cd \<Longrightarrow> cd_read_event cd (cd_event cd ev) = Inr ev"
  "codec_ok cd \<Longrightarrow> cd_read_item cd (cd_item cd wi) = Inr wi"
  by (simp_all add: codec_ok_def)

text \<open>A transaction: the body's result and its state, or the error and the state before.\<close>

type_synonym ('r, 'd, 'w) tx = "('d, 'w) db \<Rightarrow> provider_error + ('r \<times> ('d, 'w) db)"

definition run_tx :: "('r, 'd, 'w) tx \<Rightarrow> ('d, 'w) db \<Rightarrow> (provider_error + 'r) \<times> ('d, 'w) db" where
  "run_tx body db = (case body db of Inl e \<Rightarrow> (Inl e, db) | Inr (r, db') \<Rightarrow> (Inr r, db'))"

lemma run_tx_error: "run_tx body db = (Inl e, db') \<Longrightarrow> db' = db"
  by (auto simp: run_tx_def split: sum.splits prod.splits)

lemma run_tx_ok: "run_tx body db = (Inr r, db') \<longleftrightarrow> body db = Inr (r, db')"
  by (auto simp: run_tx_def split: sum.splits prod.splits)

subsection \<open>The invariant of the tables\<close>

text \<open>Primary keys, the order of the queues, the \<open>AUTOINCREMENT\<close> counters, the event ids the runtime
  sets, and the foreign key of \<open>instances\<close>.\<close>

definition execution_key :: "execution_row \<Rightarrow> string \<times> id64" where
  "execution_key r = (ex_instance r, ex_execution_id r)"

definition history_key :: "'d history_row \<Rightarrow> string \<times> id64 \<times> id64" where
  "history_key r = (hi_instance r, hi_execution_id r, hi_event_id r)"

definition store_key :: "kv_store_row \<Rightarrow> string \<times> string" where
  "store_key r = (ks_instance r, ks_key r)"

definition delta_key :: "kv_delta_row \<Rightarrow> string \<times> string" where
  "delta_key r = (kd_instance r, kd_key r)"

definition queue_sorted :: "('r \<Rightarrow> nat) \<Rightarrow> 'r list \<Rightarrow> nat \<Rightarrow> bool" where
  "queue_sorted key t next_id \<longleftrightarrow> sorted_wrt (<) (map key t @ [next_id])"

definition queues_ok :: "('d, 'w) db \<Rightarrow> bool" where
  "queues_ok db \<longleftrightarrow> queue_sorted oq_id (db_orchestrator_queue db) (db_next_orch_id db)
   \<and> queue_sorted wq_id (db_worker_queue db) (db_next_worker_id db)"

definition keys_ok :: "('d, 'w) db \<Rightarrow> bool" where
  "keys_ok db \<longleftrightarrow> distinct (map in_instance (db_instances db))
   \<and> distinct (map execution_key (db_executions db))
   \<and> distinct (map history_key (db_history db))
   \<and> distinct (map il_instance (db_instance_locks db))
   \<and> distinct (map se_session_id (db_sessions db))
   \<and> distinct (map store_key (db_kv_store db))
   \<and> distinct (map delta_key (db_kv_delta db))"

text \<open>A parent is in the table before its children.\<close>

fun ordered_parents :: "string set \<Rightarrow> instance_row list \<Rightarrow> bool" where
  "ordered_parents known [] = True"
| "ordered_parents known (r # rs) =
     ((case in_parent_instance_id r of None \<Rightarrow> True | Some p \<Rightarrow> p \<in> known)
      \<and> ordered_parents (insert (in_instance r) known) rs)"

definition parents_ok :: "('d, 'w) db \<Rightarrow> bool" where
  "parents_ok db \<longleftrightarrow> ordered_parents {} (db_instances db)"

definition event_ids_ok :: "('d, 'w) db \<Rightarrow> bool" where
  "event_ids_ok db \<longleftrightarrow> (\<forall>r \<in> set (db_history db). 0 < hi_event_id r)"

definition db_ok :: "('d, 'w) db \<Rightarrow> bool" where
  "db_ok db \<longleftrightarrow> queues_ok db \<and> keys_ok db \<and> parents_ok db \<and> event_ids_ok db"

lemma empty_db_ok [simp]: "db_ok empty_db"
  by (simp add: db_ok_def queues_ok_def queue_sorted_def keys_ok_def parents_ok_def event_ids_ok_def
      empty_db_def)

subsection \<open>Enqueueing\<close>

text \<open>The instance whose queue an orchestrator message goes to.\<close>

fun target_instance :: "work_item \<Rightarrow> string option" where
  "target_instance (WI_StartOrchestration inst _ _ _ _ _ _) = Some inst"
| "target_instance (WI_ActivityExecute _ _ _ _ _ _ _) = None"
| "target_instance (WI_ActivityCompleted inst _ _ _) = Some inst"
| "target_instance (WI_ActivityFailed inst _ _ _) = Some inst"
| "target_instance (WI_TimerFired inst _ _ _) = Some inst"
| "target_instance (WI_ExternalRaised inst _ _) = Some inst"
| "target_instance (WI_QueueMessage inst _ _) = Some inst"
| "target_instance (WI_CancelInstance inst _) = Some inst"
| "target_instance (WI_ContinueAsNew inst _ _ _ _ _) = Some inst"
| "target_instance (WI_SubOrchCompleted parent_instance _ _ _) = Some parent_instance"
| "target_instance (WI_SubOrchFailed parent_instance _ _ _) = Some parent_instance"

definition insert_orch_row :: "string \<Rightarrow> 'w \<Rightarrow> int \<Rightarrow> ('d, 'w) db \<Rightarrow> ('d, 'w) db" where
  "insert_orch_row inst item visible_at db = db\<lparr>
     db_orchestrator_queue := db_orchestrator_queue db @
       [\<lparr>oq_id = db_next_orch_id db, oq_instance = inst, oq_work_item = item,
         oq_visible_at = visible_at, oq_lock_token = None, oq_attempt_count = 0\<rparr>],
     db_next_orch_id := db_next_orch_id db + 1\<rparr>"

definition enqueue_orchestrator_work_with_delay ::
    "('d, 'w) codec \<Rightarrow> int \<Rightarrow> work_item \<Rightarrow> nanos option \<Rightarrow> (unit, 'd, 'w) tx" where
  "enqueue_orchestrator_work_with_delay cd now item delay db =
     (case target_instance item of
        None \<Rightarrow> Inl (permanent_error ''enqueue_for_orchestrator'' ''Invalid work item type'')
      | Some inst \<Rightarrow>
          (let visible_at = (case delay of Some d \<Rightarrow> saturating_after now d | None \<Rightarrow> now)
           in Inr ((), insert_orch_row inst (cd_item cd item) visible_at db)))"

definition enqueue_for_orchestrator ::
    "('d, 'w) codec \<Rightarrow> int \<Rightarrow> work_item \<Rightarrow> nanos option \<Rightarrow> ('d, 'w) db
       \<Rightarrow> (provider_error + unit) \<times> ('d, 'w) db" where
  "enqueue_for_orchestrator cd now item delay = run_tx (enqueue_orchestrator_work_with_delay cd now item delay)"

text \<open>The identity columns of a worker row: those of an \<open>ActivityExecute\<close>, \<open>NULL\<close> for anything else.\<close>

definition worker_row_of :: "('d, 'w) codec \<Rightarrow> int \<Rightarrow> nat \<Rightarrow> work_item \<Rightarrow> 'w worker_row" where
  "worker_row_of cd now i item =
     (let (activity_instance, activity_execution_id, activity_id, session_id, tag) =
            (case item of
               WI_ActivityExecute inst execution_id i _ _ session_id tag \<Rightarrow>
                 (Some inst, Some execution_id, Some i, session_id, tag)
             | _ \<Rightarrow> (None, None, None, None, None))
      in \<lparr>wq_id = i, wq_work_item = cd_item cd item, wq_visible_at = now,
          wq_lock_token = None, wq_locked_until = None, wq_attempt_count = 0,
          wq_instance = activity_instance, wq_execution_id = activity_execution_id,
          wq_activity_id = activity_id, wq_session_id = session_id, wq_tag = tag\<rparr>)"

lemma worker_row_of_simps [simp]:
  "wq_id (worker_row_of cd now i item) = i"
  "wq_work_item (worker_row_of cd now i item) = cd_item cd item"
  "wq_lock_token (worker_row_of cd now i item) = None"
  by (simp_all add: worker_row_of_def Let_def split: prod.splits)

definition insert_worker_row ::
    "('d, 'w) codec \<Rightarrow> int \<Rightarrow> work_item \<Rightarrow> ('d, 'w) db \<Rightarrow> ('d, 'w) db" where
  "insert_worker_row cd now item db =
     db\<lparr>db_worker_queue := db_worker_queue db @ [worker_row_of cd now (db_next_worker_id db) item],
        db_next_worker_id := db_next_worker_id db + 1\<rparr>"

definition enqueue_for_worker ::
    "('d, 'w) codec \<Rightarrow> int \<Rightarrow> work_item \<Rightarrow> ('d, 'w) db \<Rightarrow> (provider_error + unit) \<times> ('d, 'w) db" where
  "enqueue_for_worker cd now item db = (Inr (), insert_worker_row cd now item db)"

subsection \<open>Histories\<close>

text \<open>The rows of one execution in the order of their event ids.\<close>

definition execution_rows :: "string \<Rightarrow> id64 \<Rightarrow> ('d, 'w) db \<Rightarrow> 'd history_row list" where
  "execution_rows inst execution_id db = sort_key hi_event_id
     (filter (\<lambda>r. hi_instance r = inst \<and> hi_execution_id r = execution_id) (db_history db))"

fun read_events :: "('d \<Rightarrow> string + event) \<Rightarrow> 'd list \<Rightarrow> string + event list" where
  "read_events rd [] = Inr []"
| "read_events rd (d # ds) = and_then (rd d) (\<lambda>ev. and_then (read_events rd ds) (\<lambda>evs. Inr (ev # evs)))"

text \<open>\<open>COALESCE(MAX(execution_id), 1)\<close>.\<close>

definition max_execution_id :: "string \<Rightarrow> ('d, 'w) db \<Rightarrow> id64" where
  "max_execution_id inst db =
     (let ids = map ex_execution_id (filter (\<lambda>r. ex_instance r = inst) (db_executions db))
      in if ids = [] then 1 else Max (set ids))"

definition read_history_in_tx ::
    "('d, 'w) codec \<Rightarrow> string \<Rightarrow> id64 option \<Rightarrow> ('d, 'w) db \<Rightarrow> string + event list" where
  "read_history_in_tx cd inst execution_id db =
     (let exec = (case execution_id of Some i \<Rightarrow> i | None \<Rightarrow> max_execution_id inst db)
      in read_events (cd_read_event cd) (map hi_event_data (execution_rows inst exec db)))"

definition read_with_execution ::
    "('d, 'w) codec \<Rightarrow> string \<Rightarrow> id64 \<Rightarrow> ('d, 'w) db \<Rightarrow> provider_error + event list" where
  "read_with_execution cd inst execution_id db =
     (case read_events (cd_read_event cd) (map hi_event_data (execution_rows inst execution_id db)) of
        Inl e \<Rightarrow> Inl (permanent_error ''read_with_execution'' (''Failed to deserialize event: '' @ e))
      | Inr evs \<Rightarrow> Inr evs)"

definition read :: "('d, 'w) codec \<Rightarrow> string \<Rightarrow> ('d, 'w) db \<Rightarrow> provider_error + event list" where
  "read cd inst db =
     (case read_events (cd_read_event cd)
             (map hi_event_data (execution_rows inst (max_execution_id inst db) db)) of
        Inl e \<Rightarrow> Inl (permanent_error ''read'' (''Failed to deserialize event: '' @ e))
      | Inr evs \<Rightarrow> Inr evs)"

fun event_type :: "event_kind \<Rightarrow> string" where
  "event_type (OrchestrationStarted _ _ _ _ _ _ _) = ''OrchestrationStarted''"
| "event_type (OrchestrationCompleted _) = ''OrchestrationCompleted''"
| "event_type (OrchestrationFailed _) = ''OrchestrationFailed''"
| "event_type (OrchestrationContinuedAsNew _) = ''OrchestrationContinuedAsNew''"
| "event_type (ActivityScheduled _ _ _ _) = ''ActivityScheduled''"
| "event_type (ActivityCompleted _) = ''ActivityCompleted''"
| "event_type (ActivityFailed _) = ''ActivityFailed''"
| "event_type (ActivityCancelRequested _) = ''ActivityCancelRequested''"
| "event_type (TimerCreated _) = ''TimerCreated''"
| "event_type (TimerFired _) = ''TimerFired''"
| "event_type (ExternalSubscribed _) = ''ExternalSubscribed''"
| "event_type (ExternalEvent _ _) = ''ExternalEvent''"
| "event_type (SubOrchestrationScheduled _ _ _) = ''SubOrchestrationScheduled''"
| "event_type (SubOrchestrationCompleted _) = ''SubOrchestrationCompleted''"
| "event_type (SubOrchestrationFailed _) = ''SubOrchestrationFailed''"
| "event_type (SubOrchestrationCancelRequested _) = ''SubOrchestrationCancelRequested''"
| "event_type (OrchestrationCancelRequested _) = ''OrchestrationCancelRequested''"
| "event_type (ExternalSubscribedCancelled _) = ''ExternalSubscribedCancelled''"
| "event_type (QueueSubscribed _) = ''ExternalSubscribedPersistent''"
| "event_type (QueueEventDelivered _ _) = ''ExternalEventPersistent''"
| "event_type (QueueSubscriptionCancelled _) = ''ExternalSubscribedPersistentCancelled''"
| "event_type (OrchestrationChained _ _ _) = ''OrchestrationChained''"
| "event_type (CustomStatusUpdated _) = ''CustomStatusUpdated''"
| "event_type (KeyValueSet _ _ _) = ''KeyValueSet''"
| "event_type (KeyValueCleared _) = ''KeyValueCleared''"
| "event_type KeyValuesCleared = ''KeyValuesCleared''"

definition event_row :: "('d, 'w) codec \<Rightarrow> string \<Rightarrow> id64 \<Rightarrow> event \<Rightarrow> 'd history_row" where
  "event_row cd inst execution_id ev =
     \<lparr>hi_instance = inst, hi_execution_id = execution_id, hi_event_id = ev_event_id ev,
      hi_event_type = event_type (ev_kind ev), hi_event_data = cd_event cd ev\<rparr>"

text \<open>One \<open>INSERT\<close> per event; a second row with the same key is a constraint violation.\<close>

fun insert_events ::
    "('d, 'w) codec \<Rightarrow> string \<Rightarrow> id64 \<Rightarrow> event list \<Rightarrow> 'd history_row list \<Rightarrow> string + 'd history_row list" where
  "insert_events cd inst execution_id [] t = Inr t"
| "insert_events cd inst execution_id (ev # evs) t =
     (let r = event_row cd inst execution_id ev
      in if history_key r \<in> history_key ` set t
         then Inl ''UNIQUE constraint failed: history.instance_id, history.execution_id, history.event_id''
         else insert_events cd inst execution_id evs (t @ [r]))"

definition append_history_in_tx ::
    "('d, 'w) codec \<Rightarrow> string \<Rightarrow> id64 \<Rightarrow> event list \<Rightarrow> ('d, 'w) db \<Rightarrow> string + ('d, 'w) db" where
  "append_history_in_tx cd inst execution_id events db =
     (if \<exists>ev \<in> set events. ev_event_id ev = 0
      then Inl ''event_id must be set by runtime''
      else and_then (insert_events cd inst execution_id events (db_history db))
             (\<lambda>t. Inr (db\<lparr>db_history := t\<rparr>)))"

definition append_with_execution ::
    "('d, 'w) codec \<Rightarrow> string \<Rightarrow> id64 \<Rightarrow> event list \<Rightarrow> ('d, 'w) db
       \<Rightarrow> (provider_error + unit) \<times> ('d, 'w) db" where
  "append_with_execution cd inst execution_id new_events = run_tx (\<lambda>db.
     (case append_history_in_tx cd inst execution_id new_events db of
        Inl e \<Rightarrow> Inl (permanent_error ''append_with_execution'' (''Failed to append history: '' @ e))
      | Inr db' \<Rightarrow> Inr ((), db')))"

end
