(* ===== verification/Sql_Orchestration.thy ===== *)
theory Sql_Orchestration
  imports Sql_Db Orch_Dispatcher
begin

text \<open>
  The orchestration queue of the store: \<open>fetch_orchestration_item\<close>, \<open>ack_orchestration_item\<close>, the
  renewal and the release of the instance lock (\<open>src/src/providers/sqlite_common.rs\<close>). One fetch
  or acknowledgement is one transaction, written as the sequence of its statements. The clock is
  read once at the start of a transaction, and once more by \<open>ack_orchestration_item\<close> for the
  final check of the lock (\<open>now_check\<close>).
\<close>

subsection \<open>Fetching an item\<close>

definition find_lock :: "string \<Rightarrow> ('d, 'w) db \<Rightarrow> lock_row option" where
  "find_lock inst db = List.find (\<lambda>l. il_instance l = inst) (db_instance_locks db)"

definition find_instance :: "string \<Rightarrow> ('d, 'w) db \<Rightarrow> instance_row option" where
  "find_instance inst db = List.find (\<lambda>r. in_instance r = inst) (db_instances db)"

definition find_execution :: "string \<Rightarrow> id64 \<Rightarrow> ('d, 'w) db \<Rightarrow> execution_row option" where
  "find_execution inst execution_id db =
     List.find (\<lambda>r. ex_instance r = inst \<and> ex_execution_id r = execution_id) (db_executions db)"

definition unlocked :: "int \<Rightarrow> string \<Rightarrow> ('d, 'w) db \<Rightarrow> bool" where
  "unlocked now inst db \<longleftrightarrow> (case find_lock inst db of None \<Rightarrow> True | Some l \<Rightarrow> il_locked_until l \<le> now)"

text \<open>The two left joins that give the pinned version of the current execution.\<close>

definition current_pinned :: "string \<Rightarrow> ('d, 'w) db \<Rightarrow> sem_ver option" where
  "current_pinned inst db =
     (case find_instance inst db of
        None \<Rightarrow> None
      | Some i \<Rightarrow>
          (case find_execution inst (in_current_execution_id i) db of
             None \<Rightarrow> None | Some e \<Rightarrow> ex_pinned e))"

definition version_between :: "sem_ver semver_range \<Rightarrow> sem_ver option \<Rightarrow> bool" where
  "version_between supported pinned =
     (case pinned of None \<Rightarrow> True
      | Some v \<Rightarrow> packed (sr_min supported) \<le> packed v \<and> packed v \<le> packed (sr_max supported))"

text \<open>The filter is the list of supported version ranges, of which the first counts.\<close>

definition select_candidate :: "int \<Rightarrow> sem_ver semver_range list option \<Rightarrow> ('d, 'w) db \<Rightarrow> string option" where
  "select_candidate now cap_filter db =
     (let candidate = (\<lambda>fits. map_option oq_instance (List.find
            (\<lambda>q. oq_visible_at q \<le> now \<and> unlocked now (oq_instance q) db \<and> fits (oq_instance q))
            (db_orchestrator_queue db)))
      in case cap_filter of
           None \<Rightarrow> candidate (\<lambda>_. True)
         | Some [] \<Rightarrow> None
         | Some (supported # _) \<Rightarrow> candidate (\<lambda>inst. version_between supported (current_pinned inst db)))"

text \<open>The upsert of the lock row, and whether it changed a row.\<close>

definition acquire_instance_lock :: "int \<Rightarrow> string \<Rightarrow> int \<Rightarrow> string \<Rightarrow> ('d, 'w) db \<Rightarrow> bool \<times> ('d, 'w) db" where
  "acquire_instance_lock now tok locked_until inst db =
     (let l = \<lparr>il_instance = inst, il_lock_token = tok, il_locked_until = locked_until, il_locked_at = now\<rparr>
      in case find_lock inst db of
           None \<Rightarrow> (True, db\<lparr>db_instance_locks := db_instance_locks db @ [l]\<rparr>)
         | Some l' \<Rightarrow>
             if il_locked_until l' \<le> now
             then (True, db\<lparr>db_instance_locks :=
                      sql_update (\<lambda>r. il_instance r = inst) (\<lambda>_. l) (db_instance_locks db)\<rparr>)
             else (False, db))"

definition mark_messages :: "int \<Rightarrow> string \<Rightarrow> string \<Rightarrow> ('d, 'w) db \<Rightarrow> ('d, 'w) db" where
  "mark_messages now tok inst db = db\<lparr>db_orchestrator_queue :=
     sql_update (\<lambda>q. oq_instance q = inst \<and> oq_visible_at q \<le> now)
       (\<lambda>q. q\<lparr>oq_lock_token := Some tok, oq_attempt_count := oq_attempt_count q + 1\<rparr>)
       (db_orchestrator_queue db)\<rparr>"

definition marked :: "string \<Rightarrow> ('d, 'w) db \<Rightarrow> 'w orch_row list" where
  "marked tok db = filter (\<lambda>q. oq_lock_token q = Some tok) (db_orchestrator_queue db)"

text \<open>A message that cannot be read is skipped.\<close>

definition read_items :: "('d, 'w) codec \<Rightarrow> 'w orch_row list \<Rightarrow> work_item list" where
  "read_items cd rows = List.map_filter
     (\<lambda>q. case cd_read_item cd (oq_work_item q) of Inr wi \<Rightarrow> Some wi | Inl _ \<Rightarrow> None) rows"

definition max_attempt :: "'w orch_row list \<Rightarrow> nat" where
  "max_attempt rows = fold (\<lambda>q m. max m (oq_attempt_count q)) rows 0"

definition get_kv_snapshot_in_tx :: "string \<Rightarrow> ('d, 'w) db \<Rightarrow> (string \<times> kv_entry) list" where
  "get_kv_snapshot_in_tx inst db =
     map (\<lambda>r. (ks_key r, \<lparr>kv_value = ks_value r, kv_last_updated_at_ms = ks_last_updated_at_ms r\<rparr>))
       (filter (\<lambda>r. ks_instance r = inst) (db_kv_store db))"

definition started_name :: "event \<Rightarrow> (string \<times> string) option" where
  "started_name ev = (case ev_kind ev of
     OrchestrationStarted name version _ _ _ _ _ \<Rightarrow> Some (name, version) | _ \<Rightarrow> None)"

fun start_item_name :: "work_item \<Rightarrow> (string \<times> string option) option" where
  "start_item_name (WI_StartOrchestration _ orchestration _ version _ _ _) = Some (orchestration, version)"
| "start_item_name (WI_ContinueAsNew _ orchestration _ version _ _) = Some (orchestration, version)"
| "start_item_name _ = None"

definition is_queue_message :: "work_item \<Rightarrow> bool" where
  "is_queue_message wi = (case wi of WI_QueueMessage _ _ _ \<Rightarrow> True | _ \<Rightarrow> False)"

text \<open>Name, version, execution and history of the instance: found, unreadable, or (for an instance
  that is not in the table) to be dropped or put back.\<close>

datatype fetch_context =
    FC_Found string string id64 "event list"
  | FC_Unreadable string string id64 string
  | FC_Orphans
  | FC_Put_Back

definition load_context :: "('d, 'w) codec \<Rightarrow> string \<Rightarrow> work_item list \<Rightarrow> ('d, 'w) db \<Rightarrow> fetch_context" where
  "load_context cd inst work_items db =
     (case find_instance inst db of
        Some info \<Rightarrow>
          (let name = in_orchestration_name info;
               version = opt_or (in_orchestration_version info) ''unknown'';
               exec_id = in_current_execution_id info
           in case read_history_in_tx cd inst (Some exec_id) db of
                Inr hist \<Rightarrow> FC_Found name version exec_id hist
              | Inl e \<Rightarrow> FC_Unreadable name version exec_id (''Failed to deserialize history: '' @ e))
      | None \<Rightarrow>
          (let hist = (case read_history_in_tx cd inst None db of Inr h \<Rightarrow> h | Inl _ \<Rightarrow> [])
           in case find_map started_name hist of
                Some (name, version) \<Rightarrow> FC_Found name version 1 hist
              | None \<Rightarrow>
                  (case find_map start_item_name work_items of
                     Some (orchestration, version) \<Rightarrow> FC_Found orchestration (opt_or version ''unknown'') 1 []
                   | None \<Rightarrow> if list_all is_queue_message work_items then FC_Orphans else FC_Put_Back)))"

definition drop_orphans :: "string \<Rightarrow> ('d, 'w) db \<Rightarrow> ('d, 'w) db" where
  "drop_orphans tok db = db\<lparr>
     db_orchestrator_queue := sql_delete (\<lambda>q. oq_lock_token q = Some tok) (db_orchestrator_queue db),
     db_instance_locks := sql_delete (\<lambda>l. il_lock_token l = tok) (db_instance_locks db)\<rparr>"

text \<open>The result is \<open>None\<close> when there is nothing to process; a rollback returns the state before.\<close>

definition fetch_orchestration_tx ::
    "('d, 'w) codec \<Rightarrow> int \<Rightarrow> string \<Rightarrow> nanos \<Rightarrow> sem_ver semver_range list option
       \<Rightarrow> ((orchestration_item \<times> string \<times> nat) option, 'd, 'w) tx" where
  "fetch_orchestration_tx cd now tok lock_timeout cap_filter db =
     (case select_candidate now cap_filter db of
        None \<Rightarrow> Inr (None, db)
      | Some inst \<Rightarrow>
          (case acquire_instance_lock now tok (timestamp_after now lock_timeout) inst db of
             (False, _) \<Rightarrow> Inr (None, db)
           | (True, db1) \<Rightarrow>
               (let db2 = mark_messages now tok inst db1;
                    messages = marked tok db2;
                    work_items = read_items cd messages;
                    item = (\<lambda>name version exec_id hist err snapshot.
                      \<lparr>oi_instance = inst, oi_orchestration_name = name, oi_execution_id = exec_id,
                       oi_version = version, oi_history = hist, oi_messages = work_items,
                       oi_history_error = err, oi_kv_snapshot = snapshot\<rparr>)
                in if messages = [] then Inr (None, db)
                   else case load_context cd inst work_items db2 of
                       FC_Found name version exec_id hist \<Rightarrow>
                         Inr (Some (item name version exec_id hist None (get_kv_snapshot_in_tx inst db2),
                                    tok, max_attempt messages), db2)
                     | FC_Unreadable name version exec_id err \<Rightarrow>
                         Inr (Some (item name version exec_id [] (Some err) [],
                                    tok, max_attempt messages), db2)
                     | FC_Orphans \<Rightarrow> Inr (None, drop_orphans tok db2)
                     | FC_Put_Back \<Rightarrow> Inr (None, db))))"

definition fetch_orchestration_item ::
    "('d, 'w) codec \<Rightarrow> int \<Rightarrow> string \<Rightarrow> nanos \<Rightarrow> sem_ver semver_range list option \<Rightarrow> ('d, 'w) db
       \<Rightarrow> (provider_error + (orchestration_item \<times> string \<times> nat) option) \<times> ('d, 'w) db" where
  "fetch_orchestration_item cd now tok lock_timeout cap_filter =
     run_tx (fetch_orchestration_tx cd now tok lock_timeout cap_filter)"

subsection \<open>Acknowledging an item\<close>

definition instance_of_token :: "string \<Rightarrow> ('d, 'w) db \<Rightarrow> string option" where
  "instance_of_token tok db =
     map_option il_instance (List.find (\<lambda>l. il_lock_token l = tok) (db_instance_locks db))"

definition delete_fetched :: "string \<Rightarrow> ('d, 'w) db \<Rightarrow> ('d, 'w) db" where
  "delete_fetched tok db = db\<lparr>db_orchestrator_queue :=
     sql_delete (\<lambda>q. oq_lock_token q = Some tok) (db_orchestrator_queue db)\<rparr>"

text \<open>The instance row; the parent of a new row must be in the table (foreign keys are enabled).
  \<open>CURRENT_TIMESTAMP\<close> has the resolution of a second.\<close>

definition ack_instance_row ::
    "int \<Rightarrow> string \<Rightarrow> id64 \<Rightarrow> sem_ver execution_metadata \<Rightarrow> ('d, 'w) db \<Rightarrow> provider_error + ('d, 'w) db" where
  "ack_instance_row now inst execution_id metadata db =
     (case (em_orchestration_name metadata, em_orchestration_version metadata) of
        (Some name, Some version) \<Rightarrow>
          (let row = \<lparr>in_instance = inst, in_orchestration_name = name,
                      in_orchestration_version = Some version, in_current_execution_id = execution_id,
                      in_custom_status = None, in_custom_status_version = 0,
                      in_parent_instance_id = em_parent_instance_id metadata,
                      in_created_at = now div 1000\<rparr>;
               t = sql_insert_ignore in_instance row (db_instances db)
           in if find_instance inst db = None
                 \<and> (case em_parent_instance_id metadata of None \<Rightarrow> False | Some p \<Rightarrow> p \<notin> in_instance ` set t)
              then Inl (sqlx_to_provider_error ''ack_orchestration_item'' ''FOREIGN KEY constraint failed'')
              else Inr (db\<lparr>db_instances :=
                     sql_update (\<lambda>r. in_instance r = inst)
                       (\<lambda>r. r\<lparr>in_orchestration_name := name, in_orchestration_version := Some version\<rparr>) t\<rparr>))
      | _ \<Rightarrow> Inr db)"

definition ack_execution_row ::
    "string \<Rightarrow> id64 \<Rightarrow> sem_ver execution_metadata \<Rightarrow> ('d, 'w) db \<Rightarrow> ('d, 'w) db" where
  "ack_execution_row inst execution_id metadata db =
     (let row = \<lparr>ex_instance = inst, ex_execution_id = execution_id, ex_status = ''Running'',
                 ex_output = None, ex_pinned = None, ex_completed_at = None\<rparr>;
          t = sql_insert_ignore execution_key row (db_executions db);
          t' = (case em_pinned_duroxide_version metadata of
                  None \<Rightarrow> t
                | Some pinned \<Rightarrow>
                    sql_update (\<lambda>r. ex_instance r = inst \<and> ex_execution_id r = execution_id)
                      (\<lambda>r. r\<lparr>ex_pinned := Some pinned\<rparr>) t)
      in db\<lparr>db_executions := t',
            db_instances := sql_update (\<lambda>r. in_instance r = inst)
              (\<lambda>r. r\<lparr>in_current_execution_id := max (in_current_execution_id r) execution_id\<rparr>)
              (db_instances db)\<rparr>)"

definition ack_history ::
    "('d, 'w) codec \<Rightarrow> string \<Rightarrow> id64 \<Rightarrow> event list \<Rightarrow> ('d, 'w) db \<Rightarrow> provider_error + ('d, 'w) db" where
  "ack_history cd inst execution_id history_delta db =
     (if history_delta = [] then Inr db
      else case append_history_in_tx cd inst execution_id history_delta db of
             Inl e \<Rightarrow> Inl (permanent_error ''ack_orchestration_item'' (''Failed to append history: '' @ e))
           | Inr db' \<Rightarrow> Inr db')"

definition ack_status ::
    "int \<Rightarrow> string \<Rightarrow> id64 \<Rightarrow> sem_ver execution_metadata \<Rightarrow> ('d, 'w) db \<Rightarrow> ('d, 'w) db" where
  "ack_status now inst execution_id metadata db =
     (case em_status metadata of
        None \<Rightarrow> db
      | Some status \<Rightarrow> db\<lparr>db_executions :=
          sql_update (\<lambda>r. ex_instance r = inst \<and> ex_execution_id r = execution_id)
            (\<lambda>r. r\<lparr>ex_status := status, ex_output := em_output metadata, ex_completed_at := Some now\<rparr>)
            (db_executions db)\<rparr>)"

definition ack_custom_status :: "string \<Rightarrow> event list \<Rightarrow> ('d, 'w) db \<Rightarrow> ('d, 'w) db" where
  "ack_custom_status inst history_delta db =
     (case find_map (\<lambda>ev. case ev_kind ev of CustomStatusUpdated s \<Rightarrow> Some s | _ \<Rightarrow> None) (rev history_delta) of
        Some custom_status \<Rightarrow> db\<lparr>db_instances :=
          sql_update (\<lambda>r. in_instance r = inst)
            (\<lambda>r. r\<lparr>in_custom_status := custom_status,
                    in_custom_status_version := in_custom_status_version r + 1\<rparr>)
            (db_instances db)\<rparr>
      | None \<Rightarrow> db)"

text \<open>The key-value events of the delta go to \<open>kv_delta\<close>; a cleared key leaves a tombstone.\<close>

definition upsert_delta ::
    "string \<Rightarrow> string \<Rightarrow> string option \<Rightarrow> millis \<Rightarrow> kv_delta_row list \<Rightarrow> kv_delta_row list" where
  "upsert_delta inst key v ts = sql_upsert delta_key
     \<lparr>kd_instance = inst, kd_key = key, kd_value = v, kd_last_updated_at_ms = ts\<rparr>
     (\<lambda>r. r\<lparr>kd_value := v, kd_last_updated_at_ms := ts\<rparr>)"

definition insert_tombstone :: "int \<Rightarrow> kv_store_row \<Rightarrow> kv_delta_row list \<Rightarrow> kv_delta_row list" where
  "insert_tombstone now s = sql_insert_ignore delta_key
     \<lparr>kd_instance = ks_instance s, kd_key = ks_key s, kd_value = None, kd_last_updated_at_ms = nat now\<rparr>"

definition materialize_kv ::
    "int \<Rightarrow> string \<Rightarrow> kv_store_row list \<Rightarrow> event \<Rightarrow> kv_delta_row list \<Rightarrow> kv_delta_row list" where
  "materialize_kv now inst store ev t =
     (case ev_kind ev of
        KeyValueSet key v ts \<Rightarrow> upsert_delta inst key (Some v) ts t
      | KeyValueCleared key \<Rightarrow> upsert_delta inst key None (nat now) t
      | KeyValuesCleared \<Rightarrow>
          (let t' = sql_update (\<lambda>r. kd_instance r = inst)
                 (\<lambda>r. r\<lparr>kd_value := None, kd_last_updated_at_ms := nat now\<rparr>) t
           in fold (insert_tombstone now) (filter (\<lambda>s. ks_instance s = inst) store) t')
      | _ \<Rightarrow> t)"

definition merge_row :: "string \<Rightarrow> kv_delta_row \<Rightarrow> kv_store_row list \<Rightarrow> kv_store_row list" where
  "merge_row inst d store =
     (case kd_value d of
        None \<Rightarrow> store
      | Some v \<Rightarrow> sql_upsert store_key
          \<lparr>ks_instance = inst, ks_key = kd_key d, ks_value = v,
           ks_last_updated_at_ms = kd_last_updated_at_ms d\<rparr>
          (\<lambda>r. r\<lparr>ks_value := v, ks_last_updated_at_ms := kd_last_updated_at_ms d\<rparr>) store)"

definition merge_kv :: "string \<Rightarrow> ('d, 'w) db \<Rightarrow> ('d, 'w) db" where
  "merge_kv inst db =
     (let deltas = filter (\<lambda>r. kd_instance r = inst) (db_kv_delta db);
          store1 = fold (merge_row inst) deltas (db_kv_store db);
          store2 = sql_delete (\<lambda>r. ks_instance r = inst
               \<and> ks_key r \<in> kd_key ` set (filter (\<lambda>d. kd_value d = None) deltas)) store1
      in db\<lparr>db_kv_store := store2,
            db_kv_delta := sql_delete (\<lambda>r. kd_instance r = inst) (db_kv_delta db)\<rparr>)"

definition terminal_status :: "string option \<Rightarrow> bool" where
  "terminal_status status \<longleftrightarrow>
     status = Some ''Completed'' \<or> status = Some ''ContinuedAsNew'' \<or> status = Some ''Failed''"

definition ack_kv ::
    "int \<Rightarrow> string \<Rightarrow> event list \<Rightarrow> sem_ver execution_metadata \<Rightarrow> ('d, 'w) db \<Rightarrow> ('d, 'w) db" where
  "ack_kv now inst history_delta metadata db =
     (let db' = db\<lparr>db_kv_delta := fold (materialize_kv now inst (db_kv_store db)) history_delta (db_kv_delta db)\<rparr>
      in if terminal_status (em_status metadata) then merge_kv inst db' else db')"

text \<open>Activities cancelled by this turn are deleted after its own are enqueued.\<close>

definition delete_cancelled ::
    "scheduled_activity_identifier list \<Rightarrow> ('d, 'w) db \<Rightarrow> ('d, 'w) db" where
  "delete_cancelled cancelled db = db\<lparr>db_worker_queue :=
     sql_delete (\<lambda>q. \<exists>a \<in> set cancelled. wq_instance q = Some (sa_instance a)
         \<and> wq_execution_id q = Some (sa_execution_id a) \<and> wq_activity_id q = Some (sa_activity_id a))
       (db_worker_queue db)\<rparr>"

definition ack_enqueue_orchestrator ::
    "('d, 'w) codec \<Rightarrow> int \<Rightarrow> work_item \<Rightarrow> ('d, 'w) db \<Rightarrow> ('d, 'w) db" where
  "ack_enqueue_orchestrator cd now item db =
     (case target_instance item of
        None \<Rightarrow> db
      | Some inst \<Rightarrow>
          (let visible_at = (case item of
                 WI_TimerFired _ _ _ fire_at_ms \<Rightarrow> i64_wrap (int fire_at_ms) | _ \<Rightarrow> now)
           in insert_orch_row inst (cd_item cd item) visible_at db))"

text \<open>The statements between the lookup of the token and the final check of the lock.\<close>

definition ack_writes ::
    "('d, 'w) codec \<Rightarrow> int \<Rightarrow> string \<Rightarrow> string \<Rightarrow> sem_ver ack_request \<Rightarrow> ('d, 'w) db
       \<Rightarrow> provider_error + ('d, 'w) db" where
  "ack_writes cd now tok inst req db =
     (let execution_id = ar_execution_id req; metadata = ar_metadata req; delta = ar_history_delta req
      in and_then (ack_instance_row now inst execution_id metadata (delete_fetched tok db)) (\<lambda>db1.
         and_then (ack_history cd inst execution_id delta (ack_execution_row inst execution_id metadata db1)) (\<lambda>db2.
         Inr (fold (ack_enqueue_orchestrator cd now) (ar_orchestrator_items req)
               (delete_cancelled (ar_cancelled_activities req)
                 (fold (insert_worker_row cd now) (ar_worker_items req)
                   (ack_kv now inst delta metadata
                     (ack_custom_status inst delta
                       (ack_status now inst execution_id metadata db2)))))))))"

definition lock_valid :: "int \<Rightarrow> string \<Rightarrow> string \<Rightarrow> ('d, 'w) db \<Rightarrow> bool" where
  "lock_valid now inst tok db \<longleftrightarrow>
     sql_count (\<lambda>l. il_instance l = inst \<and> il_lock_token l = tok \<and> now < il_locked_until l)
       (db_instance_locks db) \<noteq> 0"

definition release_lock :: "string \<Rightarrow> string \<Rightarrow> ('d, 'w) db \<Rightarrow> ('d, 'w) db" where
  "release_lock inst tok db = db\<lparr>db_instance_locks :=
     sql_delete (\<lambda>l. il_instance l = inst \<and> il_lock_token l = tok) (db_instance_locks db)\<rparr>"

definition ack_orchestration_tx ::
    "('d, 'w) codec \<Rightarrow> int \<Rightarrow> int \<Rightarrow> string \<Rightarrow> sem_ver ack_request \<Rightarrow> (unit, 'd, 'w) tx" where
  "ack_orchestration_tx cd now now_check tok req db =
     (case instance_of_token tok db of
        None \<Rightarrow> Inl (permanent_error ''ack_orchestration_item'' ''Invalid lock token'')
      | Some inst \<Rightarrow>
          and_then (ack_writes cd now tok inst req db) (\<lambda>db'.
            if \<not> lock_valid now_check inst tok db'
            then Inl (permanent_error ''ack_orchestration_item'' ''Instance lock expired'')
            else Inr ((), release_lock inst tok db')))"

definition ack_orchestration_item ::
    "('d, 'w) codec \<Rightarrow> int \<Rightarrow> int \<Rightarrow> string \<Rightarrow> sem_ver ack_request \<Rightarrow> ('d, 'w) db
       \<Rightarrow> (provider_error + unit) \<times> ('d, 'w) db" where
  "ack_orchestration_item cd now now_check tok req = run_tx (ack_orchestration_tx cd now now_check tok req)"

subsection \<open>Renewing and releasing the lock\<close>

definition renew_orchestration_item_lock ::
    "int \<Rightarrow> string \<Rightarrow> nanos \<Rightarrow> ('d, 'w) db \<Rightarrow> (provider_error + unit) \<times> ('d, 'w) db" where
  "renew_orchestration_item_lock now tok extend_for = run_tx (\<lambda>db.
     (let P = (\<lambda>l. il_lock_token l = tok \<and> now < il_locked_until l)
      in if sql_count P (db_instance_locks db) = 0
         then Inl (permanent_error ''renew_orchestration_item_lock''
                    ''Lock token invalid, expired, or already acked'')
         else Inr ((), db\<lparr>db_instance_locks :=
                sql_update P (\<lambda>l. l\<lparr>il_locked_until := timestamp_after now extend_for\<rparr>)
                  (db_instance_locks db)\<rparr>)))"

definition abandon_messages :: "int \<Rightarrow> string \<Rightarrow> nanos option \<Rightarrow> bool \<Rightarrow> 'w orch_row list \<Rightarrow> 'w orch_row list" where
  "abandon_messages now inst delay ignore_attempt t =
     (let t' = (if ignore_attempt
                then sql_update (\<lambda>q. oq_instance q = inst)
                       (\<lambda>q. q\<lparr>oq_attempt_count := oq_attempt_count q - 1\<rparr>) t
                else t)
      in case delay of
           None \<Rightarrow> t'
         | Some d \<Rightarrow> sql_update (\<lambda>q. oq_instance q = inst \<and> oq_visible_at q \<le> now)
                      (\<lambda>q. q\<lparr>oq_visible_at := saturating_after now d\<rparr>) t')"

definition abandon_orchestration_item ::
    "int \<Rightarrow> string \<Rightarrow> nanos option \<Rightarrow> bool \<Rightarrow> ('d, 'w) db \<Rightarrow> (provider_error + unit) \<times> ('d, 'w) db" where
  "abandon_orchestration_item now tok delay ignore_attempt = run_tx (\<lambda>db.
     (case instance_of_token tok db of
        None \<Rightarrow> Inl (permanent_error ''abandon_orchestration_item'' ''Invalid lock token'')
      | Some inst \<Rightarrow> Inr ((), db\<lparr>
          db_instance_locks := sql_delete (\<lambda>l. il_lock_token l = tok) (db_instance_locks db),
          db_orchestrator_queue :=
            abandon_messages now inst delay ignore_attempt (db_orchestrator_queue db)\<rparr>)))"

end
