(* ===== verification/Sql_Worker.thy ===== *)
theory Sql_Worker
  imports Sql_Db "HOL-Library.List_Lexorder" "HOL-Library.Char_ord"
begin

text \<open>
  The worker queue and the sessions of the store (\<open>src/src/providers/sqlite_common.rs\<close>):
  \<open>fetch_work_item\<close> with its tag clause and session routing, \<open>ack_work_item\<close>, renewal, release,
  and the upkeep of the session locks. SQL's three-valued conditions are \<open>bool option\<close>, with
  \<open>None\<close> for \<open>NULL\<close>; a \<open>WHERE\<close> keeps the rows where the condition is true.
\<close>

subsection \<open>The tag clause\<close>

definition sql_in :: "string option \<Rightarrow> string list \<Rightarrow> bool option" where
  "sql_in x values = map_option (\<lambda>t. t \<in> set values) x"

fun sql_or :: "bool option \<Rightarrow> bool option \<Rightarrow> bool option" where
  "sql_or (Some a) (Some b) = Some (a \<or> b)"
| "sql_or (Some True) None = Some True"
| "sql_or None (Some True) = Some True"
| "sql_or _ _ = None"

text \<open>The values bound to the placeholders, in the order of \<open>Vec::sort\<close>.\<close>

definition collect_tag_values :: "tag_filter \<Rightarrow> string list" where
  "collect_tag_values tag_filter =
     (case tag_filter of TF_Tags s \<Rightarrow> sort s | TF_DefaultAnd s \<Rightarrow> sort s | _ \<Rightarrow> [])"

text \<open>The clause with its values bound, as a condition on the column \<open>tag\<close>.\<close>

definition build_tag_clause :: "tag_filter \<Rightarrow> string option \<Rightarrow> bool option" where
  "build_tag_clause tag_filter tag =
     (let bound = collect_tag_values tag_filter
      in case tag_filter of
           TF_DefaultOnly \<Rightarrow> Some (tag = None)
         | TF_Tags _ \<Rightarrow> sql_in tag bound
         | TF_DefaultAnd _ \<Rightarrow> sql_or (Some (tag = None)) (sql_in tag bound)
         | TF_Any \<Rightarrow> Some True
         | TF_None \<Rightarrow> Some False)"

subsection \<open>Fetching a work item\<close>

record session_fetch_config =
  sf_owner_id :: string
  sf_lock_timeout :: nanos

text \<open>The left join with the sessions whose lock is live.\<close>

definition live_session :: "int \<Rightarrow> string \<Rightarrow> ('d, 'w) db \<Rightarrow> session_row option" where
  "live_session now sid db =
     List.find (\<lambda>s. se_session_id s = sid \<and> now < se_locked_until s) (db_sessions db)"

definition session_fits ::
    "int \<Rightarrow> session_fetch_config option \<Rightarrow> ('d, 'w) db \<Rightarrow> string option \<Rightarrow> bool" where
  "session_fits now session db session_id =
     (case session_id of
        None \<Rightarrow> True
      | Some sid \<Rightarrow>
          (case session of
             None \<Rightarrow> False
           | Some config \<Rightarrow>
               (case live_session now sid db of
                  None \<Rightarrow> True | Some s \<Rightarrow> se_worker_id s = sf_owner_id config)))"

definition worker_available :: "int \<Rightarrow> 'w worker_row \<Rightarrow> bool" where
  "worker_available now q \<longleftrightarrow> wq_visible_at q \<le> now
     \<and> (wq_lock_token q = None \<or> (case wq_locked_until q of None \<Rightarrow> False | Some u \<Rightarrow> u \<le> now))"

definition select_work ::
    "int \<Rightarrow> session_fetch_config option \<Rightarrow> tag_filter \<Rightarrow> ('d, 'w) db \<Rightarrow> 'w worker_row option" where
  "select_work now session tag_filter db =
     List.find (\<lambda>q. worker_available now q \<and> session_fits now session db (wq_session_id q)
         \<and> build_tag_clause tag_filter (wq_tag q) = Some True)
       (db_worker_queue db)"

definition lock_work :: "string \<Rightarrow> int \<Rightarrow> nat \<Rightarrow> ('d, 'w) db \<Rightarrow> ('d, 'w) db" where
  "lock_work tok locked_until i db = db\<lparr>db_worker_queue :=
     sql_update (\<lambda>q. wq_id q = i)
       (\<lambda>q. q\<lparr>wq_lock_token := Some tok, wq_locked_until := Some locked_until,
               wq_attempt_count := wq_attempt_count q + 1\<rparr>)
       (db_worker_queue db)\<rparr>"

text \<open>The upsert of the session row, and whether it changed a row.\<close>

definition claim_session ::
    "int \<Rightarrow> session_fetch_config \<Rightarrow> string \<Rightarrow> ('d, 'w) db \<Rightarrow> bool \<times> ('d, 'w) db" where
  "claim_session now config sid db =
     (let session_locked_until = i64_wrap (now + i64_wrap (int (as_millis (sf_lock_timeout config))));
          row = \<lparr>se_session_id = sid, se_worker_id = sf_owner_id config,
                 se_locked_until = session_locked_until, se_last_activity_at = now\<rparr>
      in case List.find (\<lambda>s. se_session_id s = sid) (db_sessions db) of
           None \<Rightarrow> (True, db\<lparr>db_sessions := db_sessions db @ [row]\<rparr>)
         | Some s \<Rightarrow>
             if se_locked_until s \<le> now \<or> se_worker_id s = sf_owner_id config
             then (True, db\<lparr>db_sessions :=
                      sql_update (\<lambda>s. se_session_id s = sid) (\<lambda>_. row) (db_sessions db)\<rparr>)
             else (False, db))"

definition fetch_work_tx ::
    "('d, 'w) codec \<Rightarrow> int \<Rightarrow> string \<Rightarrow> nanos \<Rightarrow> session_fetch_config option \<Rightarrow> tag_filter
       \<Rightarrow> ((work_item \<times> string \<times> nat) option, 'd, 'w) tx" where
  "fetch_work_tx cd now tok lock_timeout session tag_filter db =
     (case select_work now session tag_filter db of
        None \<Rightarrow> Inr (None, db)
      | Some q \<Rightarrow>
          (let db1 = lock_work tok (timestamp_after now lock_timeout) (wq_id q) db;
               (claimed, db2) =
                 (case (wq_session_id q, session) of
                    (Some sid, Some config) \<Rightarrow> claim_session now config sid db1
                  | _ \<Rightarrow> (True, db1))
           in if \<not> claimed then Inr (None, db)
              else case cd_read_item cd (wq_work_item q) of
                     Inl e \<Rightarrow> Inl (permanent_error ''fetch_work_item'' (''Deserialization error: '' @ e))
                   | Inr work_item \<Rightarrow> Inr (Some (work_item, tok, wq_attempt_count q + 1), db2)))"

definition fetch_work_item ::
    "('d, 'w) codec \<Rightarrow> int \<Rightarrow> string \<Rightarrow> nanos \<Rightarrow> session_fetch_config option \<Rightarrow> tag_filter \<Rightarrow> ('d, 'w) db
       \<Rightarrow> (provider_error + (work_item \<times> string \<times> nat) option) \<times> ('d, 'w) db" where
  "fetch_work_item cd now tok lock_timeout session tag_filter db =
     (if tag_filter = TF_None then (Inr None, db)
      else run_tx (fetch_work_tx cd now tok lock_timeout session tag_filter) db)"

subsection \<open>Acknowledging, renewing, releasing\<close>

definition work_locked :: "int \<Rightarrow> string \<Rightarrow> 'w worker_row \<Rightarrow> bool" where
  "work_locked now tok q \<longleftrightarrow> wq_lock_token q = Some tok
     \<and> (case wq_locked_until q of None \<Rightarrow> False | Some u \<Rightarrow> now < u)"

definition touch_session :: "int \<Rightarrow> string option \<Rightarrow> ('d, 'w) db \<Rightarrow> ('d, 'w) db" where
  "touch_session now session_id db =
     (case session_id of
        None \<Rightarrow> db
      | Some sid \<Rightarrow> db\<lparr>db_sessions :=
          sql_update (\<lambda>s. se_session_id s = sid \<and> now < se_locked_until s)
            (\<lambda>s. s\<lparr>se_last_activity_at := now\<rparr>) (db_sessions db)\<rparr>)"

fun completion_instance :: "work_item \<Rightarrow> string option" where
  "completion_instance (WI_ActivityCompleted inst _ _ _) = Some inst"
| "completion_instance (WI_ActivityFailed inst _ _ _) = Some inst"
| "completion_instance _ = None"

definition ack_work_tx ::
    "('d, 'w) codec \<Rightarrow> int \<Rightarrow> string \<Rightarrow> work_item option \<Rightarrow> (unit, 'd, 'w) tx" where
  "ack_work_tx cd now tok completion db =
     (case List.find (work_locked now tok) (db_worker_queue db) of
        None \<Rightarrow> Inl (permanent_error ''ack_work_item''
          ''Activity was cancelled or lock expired (worker queue row not found or lock invalid)'')
      | Some q \<Rightarrow>
          (let db1 = touch_session now (wq_session_id q)
                 (db\<lparr>db_worker_queue := sql_delete (work_locked now tok) (db_worker_queue db)\<rparr>)
           in case completion of
                None \<Rightarrow> Inr ((), db1)
              | Some wi \<Rightarrow>
                  (case completion_instance wi of
                     None \<Rightarrow> Inl (permanent_error ''ack_work_item'' ''Invalid completion type for worker ack'')
                   | Some inst \<Rightarrow> Inr ((), insert_orch_row inst (cd_item cd wi) now db1))))"

definition ack_work_item ::
    "('d, 'w) codec \<Rightarrow> int \<Rightarrow> string \<Rightarrow> work_item option \<Rightarrow> ('d, 'w) db
       \<Rightarrow> (provider_error + unit) \<times> ('d, 'w) db" where
  "ack_work_item cd now tok completion = run_tx (ack_work_tx cd now tok completion)"

definition renew_work_item_lock ::
    "int \<Rightarrow> string \<Rightarrow> nanos \<Rightarrow> ('d, 'w) db \<Rightarrow> (provider_error + unit) \<times> ('d, 'w) db" where
  "renew_work_item_lock now tok extend_for = run_tx (\<lambda>db.
     (case List.find (work_locked now tok) (db_worker_queue db) of
        None \<Rightarrow> Inl (permanent_error ''renew_work_item_lock''
          ''Lock renewal failed - activity was cancelled or lock expired'')
      | Some q \<Rightarrow> Inr ((), touch_session now (wq_session_id q) (db\<lparr>db_worker_queue :=
          sql_update (work_locked now tok)
            (\<lambda>q. q\<lparr>wq_locked_until := Some (timestamp_after now extend_for)\<rparr>) (db_worker_queue db)\<rparr>))))"

definition abandon_work_item ::
    "int \<Rightarrow> string \<Rightarrow> nanos option \<Rightarrow> bool \<Rightarrow> ('d, 'w) db \<Rightarrow> (provider_error + unit) \<times> ('d, 'w) db" where
  "abandon_work_item now tok delay ignore_attempt = run_tx (\<lambda>db.
     (let visible_at = (case delay of Some d \<Rightarrow> timestamp_after now d | None \<Rightarrow> now);
          P = (\<lambda>q. wq_lock_token q = Some tok)
      in if sql_count P (db_worker_queue db) = 0
         then Inl (permanent_error ''abandon_work_item'' ''Invalid lock token or already acked'')
         else Inr ((), db\<lparr>db_worker_queue :=
                sql_update P
                  (\<lambda>q. q\<lparr>wq_lock_token := None, wq_locked_until := None, wq_visible_at := visible_at,
                          wq_attempt_count := (if ignore_attempt then wq_attempt_count q - 1
                                               else wq_attempt_count q)\<rparr>)
                  (db_worker_queue db)\<rparr>)))"

subsection \<open>Session upkeep\<close>

definition renew_session_lock ::
    "int \<Rightarrow> string list \<Rightarrow> nanos \<Rightarrow> nanos \<Rightarrow> ('d, 'w) db \<Rightarrow> (provider_error + nat) \<times> ('d, 'w) db" where
  "renew_session_lock now owner_ids extend_for idle_timeout db =
     (if owner_ids = [] then (Inr 0, db)
      else let locked_until = i64_wrap (now + i64_wrap (int (as_millis extend_for)));
               idle_cutoff = i64_wrap (now - i64_wrap (int (as_millis idle_timeout)));
               P = (\<lambda>s. se_worker_id s \<in> set owner_ids \<and> now < se_locked_until s
                      \<and> idle_cutoff < se_last_activity_at s)
           in (Inr (sql_count P (db_sessions db)),
               db\<lparr>db_sessions := sql_update P (\<lambda>s. s\<lparr>se_locked_until := locked_until\<rparr>) (db_sessions db)\<rparr>))"

definition cleanup_orphaned_sessions ::
    "int \<Rightarrow> ('d, 'w) db \<Rightarrow> (provider_error + nat) \<times> ('d, 'w) db" where
  "cleanup_orphaned_sessions now db =
     (let P = (\<lambda>s. se_locked_until s < now
            \<and> \<not> list_ex (\<lambda>q. wq_session_id q = Some (se_session_id s)) (db_worker_queue db))
      in (Inr (sql_count P (db_sessions db)), db\<lparr>db_sessions := sql_delete P (db_sessions db)\<rparr>))"

end
