(* ===== verification/Sql_Admin.thy ===== *)
theory Sql_Admin
  imports Sql_Orchestration Sql_Worker
begin

text \<open>
  The queries and the management operations of the store (\<open>src/src/providers/sqlite_common.rs\<close>, the
  end of \<open>impl Provider\<close> and \<open>impl ProviderAdmin\<close>), with the default methods of \<open>ProviderAdmin\<close>
  (\<open>src/src/providers/mod.rs\<close>) they build on. A query that lists rows without \<open>ORDER BY\<close> gives
  them in the order of the table; so do rows with equal sort keys.
\<close>

subsection \<open>Custom status, key-value reads, statistics\<close>

definition get_custom_status ::
    "string \<Rightarrow> nat \<Rightarrow> ('d, 'w) db \<Rightarrow> (string option \<times> nat) option" where
  "get_custom_status inst last_seen_version db =
     map_option (\<lambda>r. (in_custom_status r, in_custom_status_version r))
       (List.find (\<lambda>r. in_instance r = inst \<and> last_seen_version < in_custom_status_version r)
         (db_instances db))"

definition find_delta :: "string \<Rightarrow> string \<Rightarrow> ('d, 'w) db \<Rightarrow> kv_delta_row option" where
  "find_delta inst key db = List.find (\<lambda>r. kd_instance r = inst \<and> kd_key r = key) (db_kv_delta db)"

definition find_store :: "string \<Rightarrow> string \<Rightarrow> ('d, 'w) db \<Rightarrow> kv_store_row option" where
  "find_store inst key db = List.find (\<lambda>r. ks_instance r = inst \<and> ks_key r = key) (db_kv_store db)"

definition provider_get_kv_value :: "string \<Rightarrow> string \<Rightarrow> ('d, 'w) db \<Rightarrow> string option" where
  "provider_get_kv_value inst key db =
     (case find_delta inst key db of
        Some d \<Rightarrow> kd_value d
      | None \<Rightarrow> map_option ks_value (find_store inst key db))"

definition provider_get_kv_all_values :: "string \<Rightarrow> ('d, 'w) db \<Rightarrow> string \<rightharpoonup> string" where
  "provider_get_kv_all_values inst db =
     fold (\<lambda>d m. m(kd_key d := kd_value d)) (filter (\<lambda>d. kd_instance d = inst) (db_kv_delta db))
       (fold (\<lambda>r m. m(ks_key r \<mapsto> ks_value r)) (filter (\<lambda>r. ks_instance r = inst) (db_kv_store db))
         Map.empty)"

record system_stats =
  ss_history_event_count :: nat
  ss_history_size_bytes :: nat
  ss_queue_pending_count :: nat
  ss_kv_user_key_count :: nat
  ss_kv_total_value_bytes :: nat

text \<open>SQL's \<open>LENGTH\<close> of a text: its characters before the first NUL; a continuation byte of UTF-8
  starts no character.\<close>

definition sql_text_length :: "string \<Rightarrow> nat" where
  "sql_text_length s = length (filter (\<lambda>c. \<not> (128 \<le> (of_char c :: nat) \<and> (of_char c :: nat) < 192))
     (takeWhile (\<lambda>c. (of_char c :: nat) \<noteq> 0) s))"

text \<open>The two halves of the \<open>UNION\<close>, which removes equal rows.\<close>

definition merged_kv :: "string \<Rightarrow> ('d, 'w) db \<Rightarrow> (string \<times> string option) list" where
  "merged_kv inst db = remdups (
     map (\<lambda>s. (ks_key s, case find_delta inst (ks_key s) db of Some d \<Rightarrow> kd_value d | None \<Rightarrow> Some (ks_value s)))
       (filter (\<lambda>s. ks_instance s = inst) (db_kv_store db))
     @ map (\<lambda>d. (kd_key d, kd_value d))
       (filter (\<lambda>d. kd_instance d = inst \<and> find_store inst (kd_key d) db = None) (db_kv_delta db)))"

definition pending_count :: "event_kind \<Rightarrow> nat" where
  "pending_count k = (case k of
     OrchestrationStarted _ _ _ _ _ (Some events) _ \<Rightarrow> length events | _ \<Rightarrow> 0)"

definition get_instance_stats ::
    "('d, 'w) codec \<Rightarrow> string \<Rightarrow> ('d, 'w) db \<Rightarrow> provider_error + system_stats option" where
  "get_instance_stats cd inst db =
     (case find_instance inst db of
        None \<Rightarrow> Inr None
      | Some i \<Rightarrow>
          (let rows = filter (\<lambda>r. hi_instance r = inst \<and> hi_execution_id r = in_current_execution_id i)
                 (db_history db);
               live = List.map_filter snd (merged_kv inst db);
               pending = (case List.find (\<lambda>r. hi_event_id r = 1) rows of
                    None \<Rightarrow> Inr 0
                  | Some r \<Rightarrow>
                      (case cd_read_event cd (hi_event_data r) of
                         Inl e \<Rightarrow> Inl (permanent_error ''get_instance_stats''
                                   (''Failed to deserialize OrchestrationStarted event: '' @ e))
                       | Inr ev \<Rightarrow> Inr (pending_count (ev_kind ev))))
           in and_then pending (\<lambda>n. Inr (Some
                \<lparr>ss_history_event_count = length rows,
                 ss_history_size_bytes = sum_list (map (\<lambda>r. cd_event_length cd (hi_event_data r)) rows),
                 ss_queue_pending_count = n,
                 ss_kv_user_key_count = length live,
                 ss_kv_total_value_bytes = sum_list (map sql_text_length live)\<rparr>))))"

subsection \<open>Management queries\<close>

text \<open>\<open>instances LEFT JOIN executions\<close> on the current execution: the status, \<open>None\<close> for \<open>NULL\<close>.\<close>

definition current_execution :: "instance_row \<Rightarrow> ('d, 'w) db \<Rightarrow> execution_row option" where
  "current_execution i db = find_execution (in_instance i) (in_current_execution_id i) db"

definition current_status :: "instance_row \<Rightarrow> ('d, 'w) db \<Rightarrow> string option" where
  "current_status i db = map_option ex_status (current_execution i db)"

definition newest_first :: "instance_row list \<Rightarrow> instance_row list" where
  "newest_first rows = sort_key (\<lambda>r. - in_created_at r) rows"

definition list_instances :: "('d, 'w) db \<Rightarrow> string list" where
  "list_instances db = map in_instance (newest_first (db_instances db))"

definition list_instances_by_status :: "string \<Rightarrow> ('d, 'w) db \<Rightarrow> string list" where
  "list_instances_by_status status db =
     map in_instance (newest_first (filter (\<lambda>i. current_status i db = Some status) (db_instances db)))"

definition list_executions :: "string \<Rightarrow> ('d, 'w) db \<Rightarrow> id64 list" where
  "list_executions inst db =
     sort (map ex_execution_id (filter (\<lambda>r. ex_instance r = inst) (db_executions db)))"

definition read_history_with_execution_id ::
    "('d, 'w) codec \<Rightarrow> string \<Rightarrow> id64 \<Rightarrow> ('d, 'w) db \<Rightarrow> provider_error + event list" where
  "read_history_with_execution_id cd inst execution_id db =
     (case read_events (cd_read_event cd) (map hi_event_data (execution_rows inst execution_id db)) of
        Inl e \<Rightarrow> Inl (permanent_error ''read_history_with_execution_id''
                   (''Failed to deserialize event: '' @ e))
      | Inr evs \<Rightarrow> Inr evs)"

definition latest_execution_id :: "string \<Rightarrow> ('d, 'w) db \<Rightarrow> id64" where
  "latest_execution_id inst db = max_execution_id inst db"

definition read_history :: "('d, 'w) codec \<Rightarrow> string \<Rightarrow> ('d, 'w) db \<Rightarrow> provider_error + event list" where
  "read_history cd inst db = read_history_with_execution_id cd inst (latest_execution_id inst db) db"

record instance_info =
  ii_instance_id :: string
  ii_orchestration_name :: string
  ii_orchestration_version :: string
  ii_current_execution_id :: id64
  ii_status :: string
  ii_output :: "string option"
  ii_parent_instance_id :: "string option"

definition get_instance_info :: "string \<Rightarrow> ('d, 'w) db \<Rightarrow> provider_error + instance_info" where
  "get_instance_info inst db =
     (case find_instance inst db of
        None \<Rightarrow> Inl (permanent_error ''get_instance_info'' (''Instance '' @ inst @ '' not found''))
      | Some i \<Rightarrow> Inr
          \<lparr>ii_instance_id = inst, ii_orchestration_name = in_orchestration_name i,
           ii_orchestration_version = opt_or (in_orchestration_version i) ''unknown'',
           ii_current_execution_id = in_current_execution_id i,
           ii_status = opt_or (current_status i db) ''Unknown'',
           ii_output = (case current_execution i db of None \<Rightarrow> None | Some e \<Rightarrow> ex_output e),
           ii_parent_instance_id = in_parent_instance_id i\<rparr>)"

record execution_info =
  ei_execution_id :: id64
  ei_status :: string
  ei_output :: "string option"
  ei_completed_at :: "int option"
  ei_event_count :: nat

definition get_execution_info :: "string \<Rightarrow> id64 \<Rightarrow> ('d, 'w) db \<Rightarrow> provider_error + execution_info" where
  "get_execution_info inst execution_id db =
     (case find_execution inst execution_id db of
        None \<Rightarrow> Inl (permanent_error ''get_execution_info''
          (''Execution '' @ show_nat execution_id @ '' not found for instance '' @ inst))
      | Some e \<Rightarrow> Inr
          \<lparr>ei_execution_id = execution_id, ei_status = ex_status e, ei_output = ex_output e,
           ei_completed_at = ex_completed_at e,
           ei_event_count = sql_count (\<lambda>r. hi_instance r = inst \<and> hi_execution_id r = execution_id)
             (db_history db)\<rparr>)"

record system_metrics =
  sm_total_instances :: nat
  sm_total_executions :: nat
  sm_running_instances :: nat
  sm_completed_instances :: nat
  sm_failed_instances :: nat
  sm_total_events :: nat

definition get_system_metrics :: "('d, 'w) db \<Rightarrow> system_metrics" where
  "get_system_metrics db =
     (let with_status = (\<lambda>s. sql_count (\<lambda>i. current_status i db = Some s) (db_instances db))
      in \<lparr>sm_total_instances = length (db_instances db), sm_total_executions = length (db_executions db),
          sm_running_instances = with_status ''Running'',
          sm_completed_instances = with_status ''Completed'',
          sm_failed_instances = with_status ''Failed'', sm_total_events = length (db_history db)\<rparr>)"

record queue_depths =
  qd_orchestrator_queue :: nat
  qd_worker_queue :: nat
  qd_timer_queue :: nat

definition get_queue_depths :: "('d, 'w) db \<Rightarrow> queue_depths" where
  "get_queue_depths db =
     \<lparr>qd_orchestrator_queue = sql_count (\<lambda>q. oq_lock_token q = None) (db_orchestrator_queue db),
      qd_worker_queue = sql_count (\<lambda>q. wq_lock_token q = None) (db_worker_queue db),
      qd_timer_queue = 0\<rparr>"

subsection \<open>The instance tree\<close>

definition list_children :: "string \<Rightarrow> ('d, 'w) db \<Rightarrow> string list" where
  "list_children inst db =
     map in_instance (filter (\<lambda>r. in_parent_instance_id r = Some inst) (db_instances db))"

definition get_parent_id :: "string \<Rightarrow> ('d, 'w) db \<Rightarrow> provider_error + string option" where
  "get_parent_id inst db =
     (case find_instance inst db of
        None \<Rightarrow> Inl (permanent_error ''get_parent_id'' (''Instance '' @ inst @ '' not found''))
      | Some i \<Rightarrow> Inr (in_parent_instance_id i))"

text \<open>\<open>to_process\<close> is a stack: \<open>pop\<close> takes its last element. \<open>None\<close> is a loop that does not end.\<close>

partial_function (option) tree_loop ::
    "('d, 'w) db \<Rightarrow> string list \<Rightarrow> string list \<Rightarrow> string list option" where
  "tree_loop db to_process all_ids =
     (if to_process = [] then Some all_ids
      else let parent_id = last to_process
           in tree_loop db (butlast to_process @ list_children parent_id db) (all_ids @ [parent_id]))"

definition get_instance_tree :: "string \<Rightarrow> ('d, 'w) db \<Rightarrow> string list option" where
  "get_instance_tree inst db = tree_loop db [inst] []"

subsection \<open>Deletion\<close>

record delete_instance_result =
  dr_instances_deleted :: nat
  dr_executions_deleted :: nat
  dr_events_deleted :: nat
  dr_queue_messages_deleted :: nat

definition delete_result_default :: delete_instance_result where
  "delete_result_default = \<lparr>dr_instances_deleted = 0, dr_executions_deleted = 0,
     dr_events_deleted = 0, dr_queue_messages_deleted = 0\<rparr>"

definition still_running :: "string list \<Rightarrow> ('d, 'w) db \<Rightarrow> instance_row option" where
  "still_running ids db =
     List.find (\<lambda>i. in_instance i \<in> set ids \<and> current_status i db = Some ''Running'') (db_instances db)"

definition find_orphan :: "string list \<Rightarrow> ('d, 'w) db \<Rightarrow> instance_row option" where
  "find_orphan ids db =
     List.find (\<lambda>i. in_parent_instance_id i \<in> Some ` set ids \<and> in_instance i \<notin> set ids) (db_instances db)"

definition delete_rows :: "string list \<Rightarrow> ('d, 'w) db \<Rightarrow> ('d, 'w) db" where
  "delete_rows ids db = db\<lparr>
     db_history := sql_delete (\<lambda>r. hi_instance r \<in> set ids) (db_history db),
     db_executions := sql_delete (\<lambda>r. ex_instance r \<in> set ids) (db_executions db),
     db_orchestrator_queue := sql_delete (\<lambda>r. oq_instance r \<in> set ids) (db_orchestrator_queue db),
     db_worker_queue := sql_delete (\<lambda>r. wq_instance r \<in> Some ` set ids) (db_worker_queue db),
     db_instance_locks := sql_delete (\<lambda>r. il_instance r \<in> set ids) (db_instance_locks db),
     db_kv_store := sql_delete (\<lambda>r. ks_instance r \<in> set ids) (db_kv_store db),
     db_kv_delta := sql_delete (\<lambda>r. kd_instance r \<in> set ids) (db_kv_delta db),
     db_instances := sql_delete (\<lambda>r. in_instance r \<in> set ids) (db_instances db)\<rparr>"

definition delete_tx :: "string list \<Rightarrow> bool \<Rightarrow> (delete_instance_result, 'd, 'w) tx" where
  "delete_tx ids force db =
     (if ids = [] then Inr (delete_result_default, db)
      else case (if force then None else still_running ids db) of
        Some i \<Rightarrow> Inl (permanent_error ''delete_instances_atomic'' (''Instance '' @ in_instance i
           @ '' is still running. Use force=true to delete anyway, or cancel first.''))
      | None \<Rightarrow>
          (case find_orphan ids db of
             Some i \<Rightarrow> Inl (permanent_error ''delete_instances_atomic''
               (''Cannot delete: instance '' @ opt_or (in_parent_instance_id i) '''' @ '' has child ''
                @ in_instance i @ '' that was created after tree traversal. Re-fetch the tree and retry.''))
           | None \<Rightarrow> Inr
               (\<lparr>dr_instances_deleted = length ids,
                 dr_executions_deleted = sql_count (\<lambda>r. ex_instance r \<in> set ids) (db_executions db),
                 dr_events_deleted = sql_count (\<lambda>r. hi_instance r \<in> set ids) (db_history db),
                 dr_queue_messages_deleted =
                   sql_count (\<lambda>r. oq_instance r \<in> set ids) (db_orchestrator_queue db)
                   + sql_count (\<lambda>r. wq_instance r \<in> Some ` set ids) (db_worker_queue db)\<rparr>,
                delete_rows ids db)))"

definition delete_instances_atomic ::
    "string list \<Rightarrow> bool \<Rightarrow> ('d, 'w) db \<Rightarrow> (provider_error + delete_instance_result) \<times> ('d, 'w) db" where
  "delete_instances_atomic ids force = run_tx (delete_tx ids force)"

definition delete_instance ::
    "string \<Rightarrow> bool \<Rightarrow> ('d, 'w) db \<Rightarrow> ((provider_error + delete_instance_result) \<times> ('d, 'w) db) option" where
  "delete_instance inst force db =
     (case get_parent_id inst db of
        Inl e \<Rightarrow> Some (Inl e, db)
      | Inr (Some _) \<Rightarrow> Some (Inl (permanent_error ''delete_instance'' (''Cannot delete sub-orchestration ''
           @ inst @ '' directly. Delete root instance instead.'')), db)
      | Inr None \<Rightarrow>
          map_option (\<lambda>ids. delete_instances_atomic ids force db) (get_instance_tree inst db))"

record instance_filter =
  if_instance_ids :: "string list option"
  if_completed_before :: "nat option"
  if_limit :: "nat option"

definition DEFAULT_BULK_OPERATION_LIMIT :: nat where "DEFAULT_BULK_OPERATION_LIMIT = 1000"

definition completed_before_ok :: "nat option \<Rightarrow> int option \<Rightarrow> bool" where
  "completed_before_ok bound completed_at =
     (case bound of None \<Rightarrow> True
      | Some b \<Rightarrow> (case completed_at of None \<Rightarrow> False | Some t \<Rightarrow> t < i64_wrap (int b)))"

definition bulk_candidates :: "instance_filter \<Rightarrow> ('d, 'w) db \<Rightarrow> string list" where
  "bulk_candidates flt db =
     take (opt_or (if_limit flt) DEFAULT_BULK_OPERATION_LIMIT) (map in_instance (filter (\<lambda>i.
         in_parent_instance_id i = None
         \<and> current_status i db \<in> {Some ''Completed'', Some ''Failed'', Some ''ContinuedAsNew''}
         \<and> (case if_instance_ids flt of None \<Rightarrow> True | Some ids \<Rightarrow> in_instance i \<in> set ids)
         \<and> completed_before_ok (if_completed_before flt)
             (case current_execution i db of None \<Rightarrow> None | Some e \<Rightarrow> ex_completed_at e))
       (db_instances db)))"

definition add_delete_result ::
    "delete_instance_result \<Rightarrow> nat \<Rightarrow> delete_instance_result \<Rightarrow> delete_instance_result" where
  "add_delete_result res tree_size r =
     \<lparr>dr_instances_deleted = dr_instances_deleted res + tree_size,
      dr_executions_deleted = dr_executions_deleted res + dr_executions_deleted r,
      dr_events_deleted = dr_events_deleted res + dr_events_deleted r,
      dr_queue_messages_deleted = dr_queue_messages_deleted res + dr_queue_messages_deleted r\<rparr>"

text \<open>Each tree in its own transaction; an error ends the loop, with the earlier trees deleted.\<close>

fun delete_trees ::
    "string list \<Rightarrow> delete_instance_result \<Rightarrow> ('d, 'w) db
       \<Rightarrow> ((provider_error + delete_instance_result) \<times> ('d, 'w) db) option" where
  "delete_trees [] res db = Some (Inr res, db)"
| "delete_trees (inst # rest) res db =
     (case get_instance_tree inst db of
        None \<Rightarrow> None
      | Some all_ids \<Rightarrow>
          (case delete_instances_atomic all_ids True db of
             (Inl e, db') \<Rightarrow> Some (Inl e, db')
           | (Inr r, db') \<Rightarrow> delete_trees rest (add_delete_result res (length all_ids) r) db'))"

definition delete_instance_bulk ::
    "instance_filter \<Rightarrow> ('d, 'w) db
       \<Rightarrow> ((provider_error + delete_instance_result) \<times> ('d, 'w) db) option" where
  "delete_instance_bulk flt db = delete_trees (bulk_candidates flt db) delete_result_default db"

subsection \<open>Pruning executions\<close>

record prune_options =
  po_keep_last :: "nat option"
  po_completed_before :: "nat option"

record prune_result =
  pr_instances_processed :: nat
  pr_executions_deleted :: nat
  pr_events_deleted :: nat

definition prune_candidates :: "string \<Rightarrow> id64 \<Rightarrow> prune_options \<Rightarrow> ('d, 'w) db \<Rightarrow> id64 list" where
  "prune_candidates inst current_execution_id options db =
     map ex_execution_id (filter (\<lambda>r. ex_instance r = inst
         \<and> ex_execution_id r \<noteq> current_execution_id \<and> ex_status r \<noteq> ''Running''
         \<and> (case po_keep_last options of None \<Rightarrow> True
            | Some keep_last \<Rightarrow> ex_execution_id r \<notin> set (take keep_last (rev (list_executions inst db))))
         \<and> completed_before_ok (po_completed_before options) (ex_completed_at r))
       (db_executions db))"

definition prune_one :: "string \<Rightarrow> id64 \<Rightarrow> prune_result \<times> ('d, 'w) db \<Rightarrow> prune_result \<times> ('d, 'w) db" where
  "prune_one inst exec_id = (\<lambda>(res, db).
     (res\<lparr>pr_executions_deleted := pr_executions_deleted res + 1,
          pr_events_deleted := pr_events_deleted res
            + sql_count (\<lambda>r. hi_instance r = inst \<and> hi_execution_id r = exec_id) (db_history db)\<rparr>,
      db\<lparr>db_history := sql_delete (\<lambda>r. hi_instance r = inst \<and> hi_execution_id r = exec_id) (db_history db),
         db_executions := sql_delete (\<lambda>r. ex_instance r = inst \<and> ex_execution_id r = exec_id)
           (db_executions db)\<rparr>))"

definition prune_executions ::
    "string \<Rightarrow> prune_options \<Rightarrow> ('d, 'w) db \<Rightarrow> (provider_error + prune_result) \<times> ('d, 'w) db" where
  "prune_executions inst options db =
     (case find_instance inst db of
        None \<Rightarrow> (Inl (permanent_error ''prune_executions'' (''Instance '' @ inst @ '' not found'')), db)
      | Some i \<Rightarrow>
          (let (res, db') = fold (prune_one inst)
                 (prune_candidates inst (in_current_execution_id i) options db)
                 (\<lparr>pr_instances_processed = 1, pr_executions_deleted = 0, pr_events_deleted = 0\<rparr>, db)
           in (Inr res, db')))"

definition prune_bulk_candidates :: "instance_filter \<Rightarrow> ('d, 'w) db \<Rightarrow> string list" where
  "prune_bulk_candidates flt db =
     take (opt_or (if_limit flt) 1000) (map in_instance (filter (\<lambda>i.
         (case if_instance_ids flt of None \<Rightarrow> True | Some ids \<Rightarrow> in_instance i \<in> set ids)
         \<and> completed_before_ok (if_completed_before flt)
             (case current_execution i db of None \<Rightarrow> None | Some e \<Rightarrow> ex_completed_at e))
       (db_instances db)))"

fun prune_each ::
    "prune_options \<Rightarrow> string list \<Rightarrow> prune_result \<Rightarrow> ('d, 'w) db
       \<Rightarrow> (provider_error + prune_result) \<times> ('d, 'w) db" where
  "prune_each options [] res db = (Inr res, db)"
| "prune_each options (inst # rest) res db =
     (case prune_executions inst options db of
        (Inl e, db') \<Rightarrow> (Inl e, db')
      | (Inr r, db') \<Rightarrow> prune_each options rest
          \<lparr>pr_instances_processed = pr_instances_processed res + pr_instances_processed r,
           pr_executions_deleted = pr_executions_deleted res + pr_executions_deleted r,
           pr_events_deleted = pr_events_deleted res + pr_events_deleted r\<rparr> db')"

definition prune_executions_bulk ::
    "instance_filter \<Rightarrow> prune_options \<Rightarrow> ('d, 'w) db \<Rightarrow> (provider_error + prune_result) \<times> ('d, 'w) db" where
  "prune_executions_bulk flt options db =
     prune_each options (prune_bulk_candidates flt db)
       \<lparr>pr_instances_processed = 0, pr_executions_deleted = 0, pr_events_deleted = 0\<rparr> db"

end
