(* ===== verification/Sql_Invariant.thy ===== *)
theory Sql_Invariant
  imports Sql_Admin
begin

text \<open>
  The invariant of the store: the operations as values, the states they reach from the empty
  store, and the proof that every statement keeps the primary keys, the order of the queues, the
  foreign keys and the bookkeeping of the lock tokens.
\<close>

subsection \<open>Table lemmas\<close>

named_theorems keeps_ok "statements that preserve the invariant of the tables"

lemma queue_sorted_delete: "queue_sorted key t n \<Longrightarrow> queue_sorted key (sql_delete P t) n"
  by (auto simp: queue_sorted_def sorted_wrt_append sorted_sql_delete)

lemma queue_sorted_update:
  "(\<And>r. P r \<Longrightarrow> key (f r) = key r) \<Longrightarrow> queue_sorted key (sql_update P f t) n = queue_sorted key t n"
  by (simp add: queue_sorted_def map_sql_update_key)

lemma queue_sorted_insert:
  "queue_sorted key t n \<Longrightarrow> key r = n \<Longrightarrow> queue_sorted key (t @ [r]) (Suc n)"
  by (auto simp: queue_sorted_def sorted_wrt_append intro: less_SucI)

lemma queue_sorted_distinct: "queue_sorted key t n \<Longrightarrow> distinct (map key t)"
  by (auto simp: queue_sorted_def sorted_wrt_append strict_sorted_iff)

lemma ordered_parents_append:
  "ordered_parents S (xs @ ys) \<longleftrightarrow> ordered_parents S xs \<and> ordered_parents (S \<union> in_instance ` set xs) ys"
  by (induction xs arbitrary: S) (auto simp: Un_insert_right insert_commute split: option.splits)

lemma ordered_parents_mono: "ordered_parents S rs \<Longrightarrow> S \<subseteq> T \<Longrightarrow> ordered_parents T rs"
  by (induction rs arbitrary: S T) (auto split: option.splits, meson insert_mono, meson insert_mono)

lemma ordered_parents_update:
  "(\<And>r. in_instance (f r) = in_instance r \<and> in_parent_instance_id (f r) = in_parent_instance_id r) \<Longrightarrow>
   ordered_parents S (sql_update P f rs) = ordered_parents S rs"
  by (induction rs arbitrary: S) (auto simp: sql_update_def)

lemma ordered_parents_filter:
  "ordered_parents S rs \<Longrightarrow> (\<And>r p. r \<in> set rs \<Longrightarrow> in_instance r \<notin> D \<Longrightarrow> in_parent_instance_id r = Some p \<Longrightarrow> p \<notin> D)
   \<Longrightarrow> ordered_parents (S - D) (sql_delete (\<lambda>r. in_instance r \<in> D) rs)"
proof (induction rs arbitrary: S)
  case (Cons r rs)
  then have "ordered_parents (insert (in_instance r) S - D) (sql_delete (\<lambda>r. in_instance r \<in> D) rs)"
    by (intro Cons.IH) auto
  moreover have "(case in_parent_instance_id r of None \<Rightarrow> True | Some p \<Rightarrow> p \<in> S - D)"
    if "in_instance r \<notin> D" using Cons.prems that by (auto split: option.splits)
  ultimately show ?case by (auto simp: sql_delete_def insert_Diff_if)
qed (simp add: sql_delete_def)

lemma fold_invariant:
  "Q s \<Longrightarrow> (\<And>x s. x \<in> set xs \<Longrightarrow> Q s \<Longrightarrow> Q (f x s)) \<Longrightarrow> Q (fold f xs s)"
  by (induction xs arbitrary: s) auto

lemma fold_db_ok: "db_ok db \<Longrightarrow> (\<And>x db. db_ok db \<Longrightarrow> db_ok (f x db)) \<Longrightarrow> db_ok (fold f xs db)"
  by (rule fold_invariant)

lemmas db_ok_defs = db_ok_def queues_ok_def keys_ok_def parents_ok_def event_ids_ok_def

lemmas table_rules = queue_sorted_delete queue_sorted_update queue_sorted_insert
  distinct_sql_delete distinct_sql_update distinct_sql_insert_ignore distinct_sql_upsert
  ordered_parents_update

subsection \<open>Statements of the queues\<close>

lemma insert_orch_row_ok [keeps_ok]: "db_ok db \<Longrightarrow> db_ok (insert_orch_row inst item t db)"
  by (auto simp: db_ok_defs insert_orch_row_def intro: queue_sorted_insert)

lemma insert_worker_row_ok [keeps_ok]: "db_ok db \<Longrightarrow> db_ok (insert_worker_row cd now item db)"
  by (auto simp: db_ok_defs insert_worker_row_def intro: queue_sorted_insert)

lemma mark_messages_ok [keeps_ok]: "db_ok db \<Longrightarrow> db_ok (mark_messages now tok inst db)"
  by (simp add: db_ok_defs mark_messages_def queue_sorted_update)

lemma acquire_lock_ok [keeps_ok]:
  "db_ok db \<Longrightarrow> db_ok (snd (acquire_instance_lock now tok u inst db))"
proof -
  assume ok: "db_ok db"
  show ?thesis
  proof (cases "find_lock inst db")
    case None
    then have "inst \<notin> il_instance ` set (db_instance_locks db)"
      by (auto simp: find_lock_def find_None_all)
    with ok None show ?thesis by (simp add: db_ok_defs acquire_instance_lock_def)
  next
    case (Some l)
    from ok have "distinct (map il_instance (sql_update (\<lambda>r. il_instance r = inst)
        (\<lambda>_. \<lparr>il_instance = inst, il_lock_token = tok, il_locked_until = u, il_locked_at = now\<rparr>)
        (db_instance_locks db)))"
      by (intro distinct_sql_update) (simp_all add: db_ok_defs)
    with ok Some show ?thesis by (simp add: db_ok_defs acquire_instance_lock_def Let_def)
  qed
qed

lemma deletes_ok [keeps_ok]:
  assumes "db_ok db"
  shows "db_ok (drop_orphans tok db)" "db_ok (delete_fetched tok db)"
    "db_ok (delete_cancelled cancelled db)" "db_ok (release_lock inst tok db)"
  using assms
  by (simp_all add: db_ok_defs drop_orphans_def delete_fetched_def delete_cancelled_def release_lock_def
      queue_sorted_delete distinct_sql_delete)

lemma lock_work_ok [keeps_ok]: "db_ok db \<Longrightarrow> db_ok (lock_work tok u i db)"
  by (simp add: db_ok_defs lock_work_def queue_sorted_update)

lemma claim_session_ok [keeps_ok]: "db_ok db \<Longrightarrow> db_ok (snd (claim_session now config sid db))"
proof -
  assume ok: "db_ok db"
  show ?thesis
  proof (cases "List.find (\<lambda>s. se_session_id s = sid) (db_sessions db)")
    case None
    then have "sid \<notin> se_session_id ` set (db_sessions db)" by (auto simp: find_None_all)
    with ok None show ?thesis by (simp add: db_ok_defs claim_session_def Let_def)
  next
    case (Some s)
    from ok have "distinct (map se_session_id (sql_update (\<lambda>s. se_session_id s = sid)
        (\<lambda>_. \<lparr>se_session_id = sid, se_worker_id = sf_owner_id config,
          se_locked_until = i64_wrap (now + i64_wrap (int (as_millis (sf_lock_timeout config)))),
          se_last_activity_at = now\<rparr>) (db_sessions db)))"
      by (intro distinct_sql_update) (simp_all add: db_ok_defs)
    with ok Some show ?thesis by (simp add: db_ok_defs claim_session_def Let_def)
  qed
qed

lemma touch_session_ok [keeps_ok]: "db_ok db \<Longrightarrow> db_ok (touch_session now sid db)"
  by (simp add: db_ok_defs touch_session_def distinct_sql_update split: option.splits)

subsection \<open>Statements of an acknowledgement\<close>

lemma find_instance_None: "find_instance inst db = None \<longleftrightarrow> inst \<notin> in_instance ` set (db_instances db)"
  by (auto simp: find_instance_def find_None_all)

lemma ack_instance_row_ok [keeps_ok]:
  assumes ok: "db_ok db" and r: "ack_instance_row now inst ex md db = Inr db'"
    and parent: "em_parent_instance_id md \<noteq> Some inst"
  shows "db_ok db'"
proof (cases "(em_orchestration_name md, em_orchestration_version md)")
  case (Pair nm vs)
  show ?thesis
  proof (cases "nm = None \<or> vs = None")
    case True
    with r Pair have "db' = db" by (auto simp: ack_instance_row_def split: option.splits)
    with ok show ?thesis by simp
  next
    case False
    then obtain name version where nv: "em_orchestration_name md = Some name"
      "em_orchestration_version md = Some version" using Pair by auto
    let ?row = "\<lparr>in_instance = inst, in_orchestration_name = name, in_orchestration_version = Some version,
        in_current_execution_id = ex, in_custom_status = None, in_custom_status_version = 0,
        in_parent_instance_id = em_parent_instance_id md, in_created_at = now div 1000\<rparr>"
    let ?t = "sql_insert_ignore in_instance ?row (db_instances db)"
    let ?f = "\<lambda>r. r\<lparr>in_orchestration_name := name, in_orchestration_version := Some version\<rparr>"
    from r nv have db': "db' = db\<lparr>db_instances := sql_update (\<lambda>r. in_instance r = inst) ?f ?t\<rparr>"
      and fk: "find_instance inst db = None \<Longrightarrow>
        (case em_parent_instance_id md of None \<Rightarrow> True | Some p \<Rightarrow> p \<in> in_instance ` set ?t)"
      by (auto simp: ack_instance_row_def Let_def split: if_splits option.splits)
    have "distinct (map in_instance ?t)"
      using ok by (intro distinct_sql_insert_ignore) (simp add: db_ok_defs)
    then have d: "distinct (map in_instance (sql_update (\<lambda>r. in_instance r = inst) ?f ?t))"
      by (rule distinct_sql_update) simp
    have "ordered_parents {} ?t"
    proof (cases "find_instance inst db = None")
      case True
      with fk parent have "case em_parent_instance_id md of None \<Rightarrow> True
          | Some p \<Rightarrow> p \<in> in_instance ` set (db_instances db)"
        by (auto simp: sql_insert_ignore_def split: option.splits if_splits)
      with ok True show ?thesis
        by (simp add: db_ok_defs sql_insert_ignore_def find_instance_None ordered_parents_append
            split: option.splits)
    next
      case False
      with ok show ?thesis by (simp add: db_ok_defs sql_insert_ignore_def find_instance_None)
    qed
    then have "ordered_parents {} (sql_update (\<lambda>r. in_instance r = inst) ?f ?t)"
      by (subst ordered_parents_update) simp_all
    with d ok show ?thesis unfolding db' by (simp add: db_ok_defs)
  qed
qed

lemma ack_execution_row_ok [keeps_ok]: "db_ok db \<Longrightarrow> db_ok (ack_execution_row inst ex md db)"
  by (auto simp: db_ok_defs ack_execution_row_def Let_def execution_key_def ordered_parents_update
      intro!: distinct_sql_update distinct_sql_insert_ignore split: option.splits)

lemma insert_events_append:
  "insert_events cd inst ex evs t = Inr t' \<Longrightarrow> t' = t @ map (event_row cd inst ex) evs"
proof (induction evs arbitrary: t)
  case (Cons ev evs)
  then have "insert_events cd inst ex evs (t @ [event_row cd inst ex ev]) = Inr t'"
    by (auto simp: Let_def split: if_splits)
  from Cons.IH [OF this] show ?case by simp
qed simp

lemma insert_events_distinct:
  "insert_events cd inst ex evs t = Inr t' \<Longrightarrow> distinct (map history_key t) \<Longrightarrow> distinct (map history_key t')"
proof (induction evs arbitrary: t)
  case (Cons ev evs)
  then have "insert_events cd inst ex evs (t @ [event_row cd inst ex ev]) = Inr t'"
    and "distinct (map history_key (t @ [event_row cd inst ex ev]))"
    by (auto simp: Let_def split: if_splits)
  then show ?case by (rule Cons.IH)
qed simp

lemma append_history_cases:
  assumes "append_history_in_tx cd inst ex evs db = Inr db'"
  obtains t where "insert_events cd inst ex evs (db_history db) = Inr t"
    "db' = db\<lparr>db_history := t\<rparr>" "\<forall>ev \<in> set evs. ev_event_id ev \<noteq> 0"
  using assms by (auto simp: append_history_in_tx_def and_then_def split: if_splits sum.splits)

lemma append_history_ok:
  assumes "db_ok db" and "append_history_in_tx cd inst ex evs db = Inr db'"
  shows "db_ok db'"
proof -
  from assms(2) obtain t where t: "insert_events cd inst ex evs (db_history db) = Inr t"
    and db': "db' = db\<lparr>db_history := t\<rparr>" and ids: "\<forall>ev \<in> set evs. ev_event_id ev \<noteq> 0"
    by (rule append_history_cases)
  have "distinct (map history_key t)"
    using insert_events_distinct [OF t] assms(1) by (simp add: db_ok_defs)
  moreover have "\<forall>r \<in> set t. 0 < hi_event_id r"
    using insert_events_append [OF t] assms(1) ids by (auto simp: db_ok_defs event_row_def)
  ultimately show ?thesis using assms(1) unfolding db' by (simp add: db_ok_defs)
qed

lemma ack_history_ok [keeps_ok]:
  "db_ok db \<Longrightarrow> ack_history cd inst ex delta db = Inr db' \<Longrightarrow> db_ok db'"
  using append_history_ok [of db cd inst ex delta]
  by (auto simp: ack_history_def split: if_splits sum.splits)

lemma ack_status_ok [keeps_ok]: "db_ok db \<Longrightarrow> db_ok (ack_status now inst ex md db)"
  by (simp add: db_ok_defs ack_status_def execution_key_def distinct_sql_update split: option.splits)

lemma ack_custom_status_ok [keeps_ok]: "db_ok db \<Longrightarrow> db_ok (ack_custom_status inst delta db)"
  by (simp add: db_ok_defs ack_custom_status_def distinct_sql_update ordered_parents_update split: option.splits)

lemma upsert_delta_distinct:
  "distinct (map delta_key t) \<Longrightarrow> distinct (map delta_key (upsert_delta inst key v ts t))"
  unfolding upsert_delta_def by (rule distinct_sql_upsert) (simp_all add: delta_key_def)

lemma materialize_kv_distinct:
  assumes "distinct (map delta_key t)"
  shows "distinct (map delta_key (materialize_kv now inst store ev t))"
proof (cases "ev_kind ev = KeyValuesCleared")
  case True
  have "distinct (map delta_key (sql_update (\<lambda>r. kd_instance r = inst)
      (\<lambda>r. r\<lparr>kd_value := None, kd_last_updated_at_ms := nat now\<rparr>) t))"
    using assms by (rule distinct_sql_update) (simp add: delta_key_def)
  then show ?thesis unfolding materialize_kv_def True event_kind.case Let_def
    by (rule fold_invariant [where Q = "\<lambda>t. distinct (map delta_key t)"])
      (simp add: insert_tombstone_def distinct_sql_insert_ignore)
next
  case False
  with assms show ?thesis
    by (cases "ev_kind ev") (simp_all add: materialize_kv_def upsert_delta_distinct)
qed

lemma merge_row_distinct:
  "distinct (map store_key t) \<Longrightarrow> distinct (map store_key (merge_row inst d t))"
  unfolding merge_row_def
  by (cases "kd_value d") (auto intro!: distinct_sql_upsert simp: store_key_def)

lemma merge_kv_ok [keeps_ok]: "db_ok db \<Longrightarrow> db_ok (merge_kv inst db)"
proof -
  assume ok: "db_ok db"
  have "distinct (map store_key (fold (merge_row inst) ds (db_kv_store db)))" for ds
    using ok by (intro fold_invariant [where Q = "\<lambda>t. distinct (map store_key t)"] merge_row_distinct)
      (simp_all add: db_ok_defs)
  with ok show ?thesis by (simp add: merge_kv_def Let_def db_ok_defs distinct_sql_delete)
qed

lemma ack_kv_ok [keeps_ok]: "db_ok db \<Longrightarrow> db_ok (ack_kv now inst delta md db)"
proof -
  assume ok: "db_ok db"
  have "distinct (map delta_key (fold (materialize_kv now inst (db_kv_store db)) delta (db_kv_delta db)))"
    using ok by (intro fold_invariant [where Q = "\<lambda>t. distinct (map delta_key t)"] materialize_kv_distinct)
      (simp_all add: db_ok_defs)
  with ok have "db_ok (db\<lparr>db_kv_delta := fold (materialize_kv now inst (db_kv_store db)) delta (db_kv_delta db)\<rparr>)"
    by (simp add: db_ok_defs)
  then show ?thesis by (simp add: ack_kv_def Let_def merge_kv_ok)
qed

lemma ack_enqueue_ok [keeps_ok]: "db_ok db \<Longrightarrow> db_ok (ack_enqueue_orchestrator cd now item db)"
  by (simp add: ack_enqueue_orchestrator_def Let_def insert_orch_row_ok split: option.splits)

lemma ack_writes_ok:
  assumes ok: "db_ok db" and w: "ack_writes cd now tok inst req db = Inr db'"
    and parent: "em_parent_instance_id (ar_metadata req) \<noteq> Some inst"
  shows "db_ok db'"
proof -
  from w obtain db1 db2 where
    1: "ack_instance_row now inst (ar_execution_id req) (ar_metadata req) (delete_fetched tok db) = Inr db1" and
    2: "ack_history cd inst (ar_execution_id req) (ar_history_delta req)
          (ack_execution_row inst (ar_execution_id req) (ar_metadata req) db1) = Inr db2" and
    3: "db' = fold (ack_enqueue_orchestrator cd now) (ar_orchestrator_items req)
               (delete_cancelled (ar_cancelled_activities req)
                 (fold (insert_worker_row cd now) (ar_worker_items req)
                   (ack_kv now inst (ar_history_delta req) (ar_metadata req)
                     (ack_custom_status inst (ar_history_delta req)
                       (ack_status now inst (ar_execution_id req) (ar_metadata req) db2)))))"
    by (auto simp: ack_writes_def Let_def and_then_def split: sum.splits)
  have "db_ok db1" by (rule ack_instance_row_ok [OF deletes_ok(2) [OF ok] 1 parent])
  then have "db_ok db2" by (intro ack_history_ok [OF _ 2] ack_execution_row_ok)
  then have "db_ok (ack_kv now inst (ar_history_delta req) (ar_metadata req)
      (ack_custom_status inst (ar_history_delta req)
        (ack_status now inst (ar_execution_id req) (ar_metadata req) db2)))"
    by (intro ack_kv_ok ack_custom_status_ok ack_status_ok)
  then have "db_ok (fold (insert_worker_row cd now) (ar_worker_items req)
      (ack_kv now inst (ar_history_delta req) (ar_metadata req)
        (ack_custom_status inst (ar_history_delta req)
          (ack_status now inst (ar_execution_id req) (ar_metadata req) db2))))"
    by (rule fold_db_ok) (rule insert_worker_row_ok)
  then show ?thesis unfolding 3
    by (rule fold_db_ok [OF deletes_ok(3)]) (rule ack_enqueue_ok)
qed

lemma ack_orchestration_ok:
  assumes "db_ok db" and "ack_orchestration_tx cd now now_check tok req db = Inr (u, db')"
    and "instance_of_token tok db \<noteq> em_parent_instance_id (ar_metadata req)"
  shows "db_ok db'"
proof -
  from assms(2) obtain inst db1 where i: "instance_of_token tok db = Some inst"
    and w: "ack_writes cd now tok inst req db = Inr db1" and db': "db' = release_lock inst tok db1"
    by (auto simp: ack_orchestration_tx_def and_then_def split: option.splits sum.splits if_splits)
  from ack_writes_ok [OF assms(1) w] assms(3) i have "db_ok db1" by auto
  then show ?thesis unfolding db' by (rule deletes_ok(4))
qed

lemma fetch_orchestration_cases:
  assumes "fetch_orchestration_tx cd now tok lt flt db = Inr (r, db')"
  obtains "db' = db" "r = None"
  | inst db1 where "select_candidate now flt db = Some inst"
      "acquire_instance_lock now tok (timestamp_after now lt) inst db = (True, db1)"
      "db' = drop_orphans tok (mark_messages now tok inst db1)" "r = None"
      "load_context cd inst (read_items cd (marked tok (mark_messages now tok inst db1)))
         (mark_messages now tok inst db1) = FC_Orphans"
  | inst db1 item where "select_candidate now flt db = Some inst"
      "acquire_instance_lock now tok (timestamp_after now lt) inst db = (True, db1)"
      "db' = mark_messages now tok inst db1" "oi_instance item = inst"
      "oi_messages item = read_items cd (marked tok db')"
      "r = Some (item, tok, max_attempt (marked tok db'))" "marked tok db' \<noteq> []"
proof (cases "select_candidate now flt db")
  case None
  with assms that(1) show thesis by (auto simp: fetch_orchestration_tx_def)
next
  case (Some inst)
  note sel = Some
  obtain got db1 where acq: "acquire_instance_lock now tok (timestamp_after now lt) inst db = (got, db1)"
    by (cases "acquire_instance_lock now tok (timestamp_after now lt) inst db")
  show thesis
  proof (cases "got \<and> marked tok (mark_messages now tok inst db1) \<noteq> []")
    case False
    with assms sel acq that(1) show thesis
      by (cases got) (auto simp: fetch_orchestration_tx_def Let_def)
  next
    case True
    then have acq: "acquire_instance_lock now tok (timestamp_after now lt) inst db = (True, db1)"
      and ne: "marked tok (mark_messages now tok inst db1) \<noteq> []" using acq by simp_all
    note eq = assms [unfolded fetch_orchestration_tx_def sel option.case acq prod.case bool.case Let_def
        if_not_P [OF ne]]
    show thesis
    proof (cases "load_context cd inst (read_items cd (marked tok (mark_messages now tok inst db1)))
        (mark_messages now tok inst db1)")
      case (FC_Found name version ex hist)
      with eq show thesis by (intro that(3) [OF sel acq _ _ _ _]) (auto simp: ne)
    next
      case (FC_Unreadable name version ex err)
      with eq show thesis by (intro that(3) [OF sel acq _ _ _ _]) (auto simp: ne)
    next
      case FC_Orphans
      with eq show thesis by (intro that(2) [OF sel acq]) auto
    next
      case FC_Put_Back
      with eq show thesis by (intro that(1)) auto
    qed
  qed
qed

lemma fetch_orchestration_ok:
  assumes "db_ok db" and "fetch_orchestration_tx cd now tok lt flt db = Inr (r, db')"
  shows "db_ok db'"
  using assms(2)
proof (cases rule: fetch_orchestration_cases)
  case 1
  with assms(1) show ?thesis by simp
next
  case (2 inst db1)
  then have "db_ok db1" using acquire_lock_ok [OF assms(1), of now tok "timestamp_after now lt" inst] by simp
  then show ?thesis unfolding 2 by (intro deletes_ok mark_messages_ok)
next
  case (3 inst db1 item)
  then have "db_ok db1" using acquire_lock_ok [OF assms(1), of now tok "timestamp_after now lt" inst] by simp
  then show ?thesis unfolding 3 by (intro mark_messages_ok)
qed

lemma abandon_messages_sorted:
  "queue_sorted oq_id t n \<Longrightarrow> queue_sorted oq_id (abandon_messages now inst delay ig t) n"
  by (simp add: abandon_messages_def Let_def queue_sorted_update split: option.splits)

lemma delete_tx_ok:
  assumes ok: "db_ok db" and d: "delete_tx ids force db = Inr (r, db')"
  shows "db_ok db'"
proof (cases "ids = []")
  case False
  with d have db': "db' = delete_rows ids db" and no: "find_orphan ids db = None"
    by (auto simp: delete_tx_def split: option.splits)
  have "p \<notin> set ids" if "i \<in> set (db_instances db)" "in_instance i \<notin> set ids"
    "in_parent_instance_id i = Some p" for i p
    using no that by (auto simp: find_orphan_def find_None_all)
  then have "ordered_parents ({} - set ids) (sql_delete (\<lambda>r. in_instance r \<in> set ids) (db_instances db))"
    using ok by (intro ordered_parents_filter) (auto simp: db_ok_defs)
  with ok show ?thesis unfolding db'
    by (simp add: db_ok_defs delete_rows_def queue_sorted_delete distinct_sql_delete)
qed (use ok d in \<open>simp add: delete_tx_def\<close>)

lemma prune_one_ok: "db_ok (snd x) \<Longrightarrow> db_ok (snd (prune_one inst e x))"
  by (cases x) (simp add: prune_one_def db_ok_defs distinct_sql_delete)

subsection \<open>Runs of the store\<close>

text \<open>The calls that change the store, with the clock readings and the fresh tokens they use.\<close>

datatype sql_op =
    OP_Enqueue_Orchestrator int work_item "nanos option"
  | OP_Enqueue_Worker int work_item
  | OP_Append string id64 "event list"
  | OP_Fetch_Orchestration int string nanos "sem_ver semver_range list option"
  | OP_Ack_Orchestration int int string "sem_ver ack_request"
  | OP_Renew_Orchestration int string nanos
  | OP_Abandon_Orchestration int string "nanos option" bool
  | OP_Fetch_Work int string nanos "session_fetch_config option" tag_filter
  | OP_Ack_Work int string "work_item option"
  | OP_Renew_Work int string nanos
  | OP_Abandon_Work int string "nanos option" bool
  | OP_Renew_Sessions int "string list" nanos nanos
  | OP_Cleanup_Sessions int
  | OP_Delete "string list" bool
  | OP_Prune string prune_options

fun sql_run :: "('d, 'w) codec \<Rightarrow> sql_op \<Rightarrow> ('d, 'w) db \<Rightarrow> ('d, 'w) db" where
  "sql_run cd (OP_Enqueue_Orchestrator now item delay) db = snd (enqueue_for_orchestrator cd now item delay db)"
| "sql_run cd (OP_Enqueue_Worker now item) db = snd (enqueue_for_worker cd now item db)"
| "sql_run cd (OP_Append inst ex evs) db = snd (append_with_execution cd inst ex evs db)"
| "sql_run cd (OP_Fetch_Orchestration now tok lt flt) db = snd (fetch_orchestration_item cd now tok lt flt db)"
| "sql_run cd (OP_Ack_Orchestration now now_check tok req) db = snd (ack_orchestration_item cd now now_check tok req db)"
| "sql_run cd (OP_Renew_Orchestration now tok ext) db = snd (renew_orchestration_item_lock now tok ext db)"
| "sql_run cd (OP_Abandon_Orchestration now tok delay ig) db = snd (abandon_orchestration_item now tok delay ig db)"
| "sql_run cd (OP_Fetch_Work now tok lt session flt) db = snd (fetch_work_item cd now tok lt session flt db)"
| "sql_run cd (OP_Ack_Work now tok completion) db = snd (ack_work_item cd now tok completion db)"
| "sql_run cd (OP_Renew_Work now tok ext) db = snd (renew_work_item_lock now tok ext db)"
| "sql_run cd (OP_Abandon_Work now tok delay ig) db = snd (abandon_work_item now tok delay ig db)"
| "sql_run cd (OP_Renew_Sessions now owners ext idle) db = snd (renew_session_lock now owners ext idle db)"
| "sql_run cd (OP_Cleanup_Sessions now) db = snd (cleanup_orphaned_sessions now db)"
| "sql_run cd (OP_Delete ids force) db = snd (delete_instances_atomic ids force db)"
| "sql_run cd (OP_Prune inst options) db = snd (prune_executions inst options db)"

text \<open>What the store relies on: a fetch uses a token no row has, and no item names its own instance
  as its parent.\<close>

definition fresh_token :: "string \<Rightarrow> ('d, 'w) db \<Rightarrow> bool" where
  "fresh_token tok db \<longleftrightarrow> Some tok \<notin> oq_lock_token ` set (db_orchestrator_queue db)
     \<and> Some tok \<notin> wq_lock_token ` set (db_worker_queue db)
     \<and> tok \<notin> il_lock_token ` set (db_instance_locks db)"

fun op_ok :: "sql_op \<Rightarrow> ('d, 'w) db \<Rightarrow> bool" where
  "op_ok (OP_Fetch_Orchestration now tok lt flt) db = fresh_token tok db"
| "op_ok (OP_Fetch_Work now tok lt session flt) db = fresh_token tok db"
| "op_ok (OP_Ack_Orchestration now now_check tok req) db =
     (instance_of_token tok db = None
      \<or> instance_of_token tok db \<noteq> em_parent_instance_id (ar_metadata req))"
| "op_ok _ db = True"

lemma run_tx_keeps:
  "Q db \<Longrightarrow> (\<And>r db'. body db = Inr (r, db') \<Longrightarrow> Q db') \<Longrightarrow> Q (snd (run_tx body db))"
  by (auto simp: run_tx_def split: sum.splits prod.splits)

lemma run_tx_db_ok:
  "db_ok db \<Longrightarrow> (\<And>r db'. body db = Inr (r, db') \<Longrightarrow> db_ok db') \<Longrightarrow> db_ok (snd (run_tx body db))"
  by (rule run_tx_keeps)

lemma append_with_execution_ok: "db_ok db \<Longrightarrow> db_ok (snd (append_with_execution cd inst ex evs db))"
  unfolding append_with_execution_def
  by (rule run_tx_db_ok) (auto split: sum.splits dest: append_history_ok)

lemma enqueue_ok: "db_ok db \<Longrightarrow> db_ok (snd (enqueue_for_orchestrator cd now item delay db))"
  unfolding enqueue_for_orchestrator_def
  by (rule run_tx_db_ok) (auto simp: enqueue_orchestrator_work_with_delay_def Let_def insert_orch_row_ok
      split: option.splits)

lemma fetch_work_cases:
  assumes "fetch_work_tx cd now tok lt session flt db = Inr (r, db')"
  obtains "db' = db" "r = None"
  | q db1 wi where "select_work now session flt db = Some q"
      "db1 = lock_work tok (timestamp_after now lt) (wq_id q) db"
      "cd_read_item cd (wq_work_item q) = Inr wi" "r = Some (wi, tok, wq_attempt_count q + 1)"
      "wq_session_id q = None \<or> session = None" "db' = db1"
  | q db1 wi sid config where "select_work now session flt db = Some q"
      "db1 = lock_work tok (timestamp_after now lt) (wq_id q) db"
      "cd_read_item cd (wq_work_item q) = Inr wi" "r = Some (wi, tok, wq_attempt_count q + 1)"
      "wq_session_id q = Some sid" "session = Some config" "claim_session now config sid db1 = (True, db')"
proof (cases "select_work now session flt db")
  case None
  with assms that(1) show thesis by (auto simp: fetch_work_tx_def)
next
  case (Some q)
  note sel = Some
  let ?db1 = "lock_work tok (timestamp_after now lt) (wq_id q) db"
  show thesis
  proof (cases "wq_session_id q = None \<or> session = None")
    case True
    then have "(case (wq_session_id q, session) of (Some sid, Some config) \<Rightarrow> claim_session now config sid ?db1
        | _ \<Rightarrow> (True, ?db1)) = (True, ?db1)"
      by (cases "wq_session_id q"; cases session) simp_all
    with assms sel obtain wi where wi: "cd_read_item cd (wq_work_item q) = Inr wi"
      and r: "r = Some (wi, tok, wq_attempt_count q + 1)" and db': "db' = ?db1"
      by (auto simp: fetch_work_tx_def Let_def split: sum.splits)
    show thesis by (rule that(2) [OF sel refl wi r True db'])
  next
    case False
    then obtain sid config where sc: "wq_session_id q = Some sid" "session = Some config" by auto
    obtain got db2 where cl: "claim_session now config sid ?db1 = (got, db2)"
      by (cases "claim_session now config sid ?db1")
    show thesis
    proof (cases got)
      case False
      with assms sel sc cl that(1) show thesis by (auto simp: fetch_work_tx_def Let_def)
    next
      case True
      with assms sel sc cl obtain wi where wi: "cd_read_item cd (wq_work_item q) = Inr wi"
        and r: "r = Some (wi, tok, wq_attempt_count q + 1)" and db': "db' = db2"
        by (auto simp: fetch_work_tx_def Let_def split: sum.splits)
      show thesis by (rule that(3) [OF sel refl wi r sc]) (simp add: cl True db')
    qed
  qed
qed

lemma fetch_work_ok: "db_ok db \<Longrightarrow> db_ok (snd (fetch_work_item cd now tok lt session flt db))"
proof -
  assume ok: "db_ok db"
  have "db_ok db'" if "fetch_work_tx cd now tok lt session flt db = Inr (r, db')" for r db'
    using that
  proof (cases rule: fetch_work_cases)
    case (3 q db1 wi sid config)
    then show ?thesis
      using claim_session_ok [OF lock_work_ok [OF ok], of now config sid tok "timestamp_after now lt" "wq_id q"]
      by simp
  qed (use ok in \<open>simp_all add: lock_work_ok\<close>)
  then have "db_ok (snd (run_tx (fetch_work_tx cd now tok lt session flt) db))"
    by (rule run_tx_db_ok [OF ok])
  with ok show ?thesis by (simp add: fetch_work_item_def)
qed

lemma delete_work_ok: "db_ok db \<Longrightarrow> db_ok (db\<lparr>db_worker_queue := sql_delete P (db_worker_queue db)\<rparr>)"
  by (simp add: db_ok_defs queue_sorted_delete)

lemma update_work_ok:
  "db_ok db \<Longrightarrow> (\<And>q. wq_id (f q) = wq_id q) \<Longrightarrow>
   db_ok (db\<lparr>db_worker_queue := sql_update P f (db_worker_queue db)\<rparr>)"
  by (simp add: db_ok_defs queue_sorted_update)

lemma ack_work_cases:
  assumes "ack_work_tx cd now tok completion db = Inr (u, db')"
  obtains q db1 where "List.find (work_locked now tok) (db_worker_queue db) = Some q"
    "db1 = touch_session now (wq_session_id q)
       (db\<lparr>db_worker_queue := sql_delete (work_locked now tok) (db_worker_queue db)\<rparr>)"
    "case completion of None \<Rightarrow> db' = db1
     | Some wi \<Rightarrow> (\<exists>inst. completion_instance wi = Some inst
         \<and> db' = insert_orch_row inst (cd_item cd wi) now db1)"
  using assms unfolding ack_work_tx_def Let_def
  by (cases "List.find (work_locked now tok) (db_worker_queue db)"; cases completion)
    (auto split: option.splits)

lemma ack_work_ok: "db_ok db \<Longrightarrow> db_ok (snd (ack_work_item cd now tok completion db))"
proof -
  assume ok: "db_ok db"
  have "db_ok db'" if "ack_work_tx cd now tok completion db = Inr (u, db')" for u db'
    using that
  proof (cases rule: ack_work_cases)
    case (1 q db1)
    then have "db_ok db1" using touch_session_ok [OF delete_work_ok [OF ok]] by simp
    with 1(3) show ?thesis by (auto intro: insert_orch_row_ok split: option.splits)
  qed
  with ok show ?thesis unfolding ack_work_item_def by (rule run_tx_db_ok)
qed

lemma sql_run_ok:
  assumes ok: "db_ok db" and "op_ok op db"
  shows "db_ok (sql_run cd op db)"
proof (cases op)
  case (OP_Ack_Orchestration now now_check tok req)
  have "db_ok db'" if "ack_orchestration_tx cd now now_check tok req db = Inr (u, db')" for u db'
    using ack_orchestration_ok [OF ok that] assms(2) that
    by (auto simp: OP_Ack_Orchestration ack_orchestration_tx_def)
  then have "db_ok (snd (ack_orchestration_item cd now now_check tok req db))"
    unfolding ack_orchestration_item_def by (rule run_tx_db_ok [OF ok])
  with OP_Ack_Orchestration show ?thesis by simp
next
  case (OP_Fetch_Orchestration now tok lt flt)
  have "db_ok (snd (fetch_orchestration_item cd now tok lt flt db))"
    unfolding fetch_orchestration_item_def
    by (rule run_tx_db_ok [OF ok]) (rule fetch_orchestration_ok [OF ok])
  with OP_Fetch_Orchestration show ?thesis by simp
next
  case (OP_Renew_Orchestration now tok ext)
  have "db_ok (db\<lparr>db_instance_locks := sql_update P (\<lambda>l. l\<lparr>il_locked_until := u\<rparr>) (db_instance_locks db)\<rparr>)"
    for P u using ok by (simp add: db_ok_defs distinct_sql_update)
  then have "db_ok (snd (renew_orchestration_item_lock now tok ext db))"
    unfolding renew_orchestration_item_lock_def Let_def
    by (intro run_tx_db_ok [OF ok]) (auto split: if_splits)
  with OP_Renew_Orchestration show ?thesis by simp
next
  case (OP_Abandon_Orchestration now tok delay ig)
  have "db_ok (db\<lparr>db_instance_locks := sql_delete P (db_instance_locks db),
      db_orchestrator_queue := abandon_messages now inst delay ig (db_orchestrator_queue db)\<rparr>)" for P inst
    using ok by (simp add: db_ok_defs distinct_sql_delete abandon_messages_sorted)
  then have "db_ok (snd (abandon_orchestration_item now tok delay ig db))"
    unfolding abandon_orchestration_item_def
    by (intro run_tx_db_ok [OF ok]) (auto split: option.splits)
  with OP_Abandon_Orchestration show ?thesis by simp
next
  case (OP_Renew_Work now tok ext)
  have "db_ok (snd (renew_work_item_lock now tok ext db))"
    unfolding renew_work_item_lock_def
    by (rule run_tx_db_ok [OF ok]) (auto intro!: touch_session_ok update_work_ok ok split: option.splits)
  with OP_Renew_Work show ?thesis by simp
next
  case (OP_Abandon_Work now tok delay ig)
  have "db_ok (snd (abandon_work_item now tok delay ig db))"
    unfolding abandon_work_item_def
    by (rule run_tx_db_ok [OF ok]) (auto simp: Let_def intro!: update_work_ok ok split: if_splits)
  with OP_Abandon_Work show ?thesis by simp
next
  case (OP_Delete ids force)
  have "db_ok (snd (delete_instances_atomic ids force db))"
    unfolding delete_instances_atomic_def by (rule run_tx_db_ok [OF ok]) (rule delete_tx_ok [OF ok])
  with OP_Delete show ?thesis by simp
next
  case (OP_Prune inst options)
  have "db_ok (snd (fold (prune_one inst) es (z, db)))" for es z
    by (rule fold_invariant [where Q = "\<lambda>x. db_ok (snd x)"]) (simp_all add: ok prune_one_ok)
  with ok OP_Prune show ?thesis
    by (auto simp: prune_executions_def Let_def split: option.splits prod.splits) (metis snd_conv)
qed (use ok in \<open>simp_all add: enqueue_ok append_with_execution_ok fetch_work_ok ack_work_ok enqueue_for_worker_def
    insert_worker_row_ok renew_session_lock_def cleanup_orphaned_sessions_def Let_def\<close>,
  simp_all add: db_ok_defs distinct_sql_update distinct_sql_delete)

end
