(* ===== verification/Sql_Locks.thy ===== *)
theory Sql_Locks
  imports Sql_Invariant
begin

text \<open>
  What each operation does to the queues and the locks: the tables a statement leaves alone, the
  rows an acknowledgement adds and removes, the bookkeeping of the lock tokens, and the lemmas
  behind the exclusiveness of the instance lock and the survival of messages.
\<close>

subsection \<open>Frames\<close>

named_theorems frames "tables a statement does not touch, and what it does to the others"

lemma insert_orch_row_frames [frames]:
  "db_worker_queue (insert_orch_row inst item t db) = db_worker_queue db"
  "db_instances (insert_orch_row inst item t db) = db_instances db"
  "db_executions (insert_orch_row inst item t db) = db_executions db"
  "db_history (insert_orch_row inst item t db) = db_history db"
  "db_instance_locks (insert_orch_row inst item t db) = db_instance_locks db"
  "db_sessions (insert_orch_row inst item t db) = db_sessions db"
  "db_kv_store (insert_orch_row inst item t db) = db_kv_store db"
  "db_kv_delta (insert_orch_row inst item t db) = db_kv_delta db"
  by (simp_all add: insert_orch_row_def)

lemma ack_enqueue_frames [frames]:
  "db_worker_queue (ack_enqueue_orchestrator cd now item db) = db_worker_queue db"
  "db_instances (ack_enqueue_orchestrator cd now item db) = db_instances db"
  "db_executions (ack_enqueue_orchestrator cd now item db) = db_executions db"
  "db_history (ack_enqueue_orchestrator cd now item db) = db_history db"
  "db_instance_locks (ack_enqueue_orchestrator cd now item db) = db_instance_locks db"
  "db_sessions (ack_enqueue_orchestrator cd now item db) = db_sessions db"
  "db_kv_store (ack_enqueue_orchestrator cd now item db) = db_kv_store db"
  "db_kv_delta (ack_enqueue_orchestrator cd now item db) = db_kv_delta db"
  by (simp_all add: ack_enqueue_orchestrator_def Let_def frames split: option.splits)

lemma insert_worker_row_frames [frames]:
  "db_orchestrator_queue (insert_worker_row cd now item db) = db_orchestrator_queue db"
  "db_next_orch_id (insert_worker_row cd now item db) = db_next_orch_id db"
  "db_instances (insert_worker_row cd now item db) = db_instances db"
  "db_executions (insert_worker_row cd now item db) = db_executions db"
  "db_history (insert_worker_row cd now item db) = db_history db"
  "db_instance_locks (insert_worker_row cd now item db) = db_instance_locks db"
  "db_sessions (insert_worker_row cd now item db) = db_sessions db"
  "db_kv_store (insert_worker_row cd now item db) = db_kv_store db"
  "db_kv_delta (insert_worker_row cd now item db) = db_kv_delta db"
  by (simp_all add: insert_worker_row_def)

lemma fold_frame: "(\<And>x s. g (f x s) = g s) \<Longrightarrow> g (fold f xs s) = g s"
  by (induction xs arbitrary: s) simp_all

lemma fold_ack_enqueue_frames [frames]:
  "db_worker_queue (fold (ack_enqueue_orchestrator cd now) items db) = db_worker_queue db"
  "db_instances (fold (ack_enqueue_orchestrator cd now) items db) = db_instances db"
  "db_executions (fold (ack_enqueue_orchestrator cd now) items db) = db_executions db"
  "db_history (fold (ack_enqueue_orchestrator cd now) items db) = db_history db"
  "db_instance_locks (fold (ack_enqueue_orchestrator cd now) items db) = db_instance_locks db"
  "db_sessions (fold (ack_enqueue_orchestrator cd now) items db) = db_sessions db"
  "db_kv_store (fold (ack_enqueue_orchestrator cd now) items db) = db_kv_store db"
  "db_kv_delta (fold (ack_enqueue_orchestrator cd now) items db) = db_kv_delta db"
  by (simp_all add: fold_frame frames)

lemma fold_insert_worker_frames [frames]:
  "db_orchestrator_queue (fold (insert_worker_row cd now) items db) = db_orchestrator_queue db"
  "db_next_orch_id (fold (insert_worker_row cd now) items db) = db_next_orch_id db"
  "db_instances (fold (insert_worker_row cd now) items db) = db_instances db"
  "db_executions (fold (insert_worker_row cd now) items db) = db_executions db"
  "db_history (fold (insert_worker_row cd now) items db) = db_history db"
  "db_instance_locks (fold (insert_worker_row cd now) items db) = db_instance_locks db"
  "db_sessions (fold (insert_worker_row cd now) items db) = db_sessions db"
  "db_kv_store (fold (insert_worker_row cd now) items db) = db_kv_store db"
  "db_kv_delta (fold (insert_worker_row cd now) items db) = db_kv_delta db"
  by (simp_all add: fold_frame frames)

lemma delete_cancelled_frames [frames]:
  "db_orchestrator_queue (delete_cancelled cs db) = db_orchestrator_queue db"
  "db_next_orch_id (delete_cancelled cs db) = db_next_orch_id db"
  "db_instances (delete_cancelled cs db) = db_instances db"
  "db_executions (delete_cancelled cs db) = db_executions db"
  "db_history (delete_cancelled cs db) = db_history db"
  "db_instance_locks (delete_cancelled cs db) = db_instance_locks db"
  "db_sessions (delete_cancelled cs db) = db_sessions db"
  "db_kv_store (delete_cancelled cs db) = db_kv_store db"
  "db_kv_delta (delete_cancelled cs db) = db_kv_delta db"
  by (simp_all add: delete_cancelled_def)

text \<open>The statements of an acknowledgement that touch neither queue and no lock.\<close>

definition same_queues :: "('d, 'w) db \<Rightarrow> ('d, 'w) db \<Rightarrow> bool" where
  "same_queues db db' \<longleftrightarrow> db_orchestrator_queue db' = db_orchestrator_queue db
     \<and> db_worker_queue db' = db_worker_queue db \<and> db_instance_locks db' = db_instance_locks db
     \<and> db_sessions db' = db_sessions db
     \<and> db_next_orch_id db' = db_next_orch_id db \<and> db_next_worker_id db' = db_next_worker_id db"

lemma same_queues_trans: "same_queues a b \<Longrightarrow> same_queues b c \<Longrightarrow> same_queues a c"
  by (simp add: same_queues_def)

lemma ack_execution_same: "same_queues db (ack_execution_row inst ex md db)"
  by (simp add: same_queues_def ack_execution_row_def Let_def)

lemma ack_instance_same: "ack_instance_row now inst ex md db = Inr db' \<Longrightarrow> same_queues db db'"
  by (auto simp: same_queues_def ack_instance_row_def Let_def split: option.splits if_splits)

lemma ack_history_same: "ack_history cd inst ex delta db = Inr db' \<Longrightarrow> same_queues db db'"
  by (auto simp: same_queues_def ack_history_def append_history_in_tx_def and_then_def
      split: if_splits sum.splits)

lemma ack_status_same: "same_queues db (ack_status now inst ex md db)"
  by (simp add: same_queues_def ack_status_def split: option.splits)

lemma ack_custom_status_same: "same_queues db (ack_custom_status inst delta db)"
  by (simp add: same_queues_def ack_custom_status_def split: option.splits)

lemma ack_kv_same: "same_queues db (ack_kv now inst delta md db)"
  by (simp add: same_queues_def ack_kv_def merge_kv_def Let_def)

lemma ack_tables:
  "db_history (ack_status now inst ex md db) = db_history db"
  "db_history (ack_custom_status inst delta db) = db_history db"
  "db_history (ack_kv now inst delta md db) = db_history db"
  "db_history (ack_execution_row inst ex md db) = db_history db"
  "ack_instance_row now inst ex md db = Inr db' \<Longrightarrow> db_history db' = db_history db"
  "db_kv_store (ack_status now inst ex md db) = db_kv_store db"
  "db_kv_store (ack_custom_status inst delta db) = db_kv_store db"
  "db_kv_store (ack_execution_row inst ex md db) = db_kv_store db"
  "ack_instance_row now inst ex md db = Inr db' \<Longrightarrow> db_kv_store db' = db_kv_store db"
  "db_kv_delta (ack_status now inst ex md db) = db_kv_delta db"
  "db_kv_delta (ack_custom_status inst delta db) = db_kv_delta db"
  "db_kv_delta (ack_execution_row inst ex md db) = db_kv_delta db"
  "ack_instance_row now inst ex md db = Inr db' \<Longrightarrow> db_kv_delta db' = db_kv_delta db"
  by (auto simp: ack_status_def ack_custom_status_def ack_kv_def merge_kv_def ack_execution_row_def
      ack_instance_row_def Let_def split: option.splits if_splits)

lemma ack_history_tables:
  assumes "ack_history cd inst ex delta db = Inr db'"
  shows "db_history db' = db_history db @ map (event_row cd inst ex) delta"
    "db_kv_store db' = db_kv_store db" "db_kv_delta db' = db_kv_delta db"
proof -
  have "db_history db' = db_history db @ map (event_row cd inst ex) delta
      \<and> db_kv_store db' = db_kv_store db \<and> db_kv_delta db' = db_kv_delta db"
  proof (cases "delta = []")
    case False
    with assms have "append_history_in_tx cd inst ex delta db = Inr db'"
      by (auto simp: ack_history_def split: sum.splits)
    then show ?thesis by (rule append_history_cases) (use insert_events_append in auto)
  qed (use assms in \<open>simp add: ack_history_def\<close>)
  then show "db_history db' = db_history db @ map (event_row cd inst ex) delta"
    "db_kv_store db' = db_kv_store db" "db_kv_delta db' = db_kv_delta db" by simp_all
qed

subsection \<open>The rows an acknowledgement enqueues\<close>

definition orch_row_of :: "('d, 'w) codec \<Rightarrow> int \<Rightarrow> nat \<Rightarrow> work_item \<Rightarrow> 'w orch_row option" where
  "orch_row_of cd now i item = map_option (\<lambda>inst.
     \<lparr>oq_id = i, oq_instance = inst, oq_work_item = cd_item cd item,
      oq_visible_at = (case item of WI_TimerFired _ _ _ fire_at_ms \<Rightarrow> i64_wrap (int fire_at_ms) | _ \<Rightarrow> now),
      oq_lock_token = None, oq_attempt_count = 0\<rparr>) (target_instance item)"

fun orch_rows :: "('d, 'w) codec \<Rightarrow> int \<Rightarrow> nat \<Rightarrow> work_item list \<Rightarrow> 'w orch_row list" where
  "orch_rows cd now i [] = []"
| "orch_rows cd now i (item # items) =
     (case orch_row_of cd now i item of
        None \<Rightarrow> orch_rows cd now i items
      | Some r \<Rightarrow> r # orch_rows cd now (i + 1) items)"

lemma fold_ack_enqueue_rows:
  "db_orchestrator_queue (fold (ack_enqueue_orchestrator cd now) items db)
     = db_orchestrator_queue db @ orch_rows cd now (db_next_orch_id db) items"
proof (induction items arbitrary: db)
  case (Cons item items)
  show ?case
  proof (cases "target_instance item")
    case None
    then have "ack_enqueue_orchestrator cd now item db = db"
      by (simp add: ack_enqueue_orchestrator_def)
    with Cons None show ?thesis by (simp add: orch_row_of_def)
  next
    case (Some inst)
    obtain r where r: "orch_row_of cd now (db_next_orch_id db) item = Some r"
      "ack_enqueue_orchestrator cd now item db = db\<lparr>db_orchestrator_queue := db_orchestrator_queue db @ [r],
         db_next_orch_id := db_next_orch_id db + 1\<rparr>"
      using Some by (simp add: ack_enqueue_orchestrator_def orch_row_of_def insert_orch_row_def Let_def)
    then show ?thesis by (simp add: Cons)
  qed
qed simp

lemma orch_rows_token: "q \<in> set (orch_rows cd now i items) \<Longrightarrow> oq_lock_token q = None"
  by (induction items arbitrary: i) (auto simp: orch_row_of_def split: option.splits)

fun worker_rows :: "('d, 'w) codec \<Rightarrow> int \<Rightarrow> nat \<Rightarrow> work_item list \<Rightarrow> 'w worker_row list" where
  "worker_rows cd now i [] = []"
| "worker_rows cd now i (item # items) = worker_row_of cd now i item # worker_rows cd now (i + 1) items"

lemma fold_insert_worker_rows:
  "db_worker_queue (fold (insert_worker_row cd now) items db)
     = db_worker_queue db @ worker_rows cd now (db_next_worker_id db) items"
  by (induction items arbitrary: db) (simp_all add: insert_worker_row_def)

lemma worker_rows_token: "q \<in> set (worker_rows cd now i items) \<Longrightarrow> wq_lock_token q = None"
  by (induction items arbitrary: i) auto

lemma ack_writes_parts:
  assumes "ack_writes cd now tok inst req db = Inr db'"
  obtains db1 db2 where
    "ack_instance_row now inst (ar_execution_id req) (ar_metadata req) (delete_fetched tok db) = Inr db1"
    "ack_history cd inst (ar_execution_id req) (ar_history_delta req)
       (ack_execution_row inst (ar_execution_id req) (ar_metadata req) db1) = Inr db2"
    "db' = fold (ack_enqueue_orchestrator cd now) (ar_orchestrator_items req)
       (delete_cancelled (ar_cancelled_activities req)
         (fold (insert_worker_row cd now) (ar_worker_items req)
           (ack_kv now inst (ar_history_delta req) (ar_metadata req)
             (ack_custom_status inst (ar_history_delta req)
               (ack_status now inst (ar_execution_id req) (ar_metadata req) db2)))))"
  using assms by (auto simp: ack_writes_def Let_def and_then_def split: sum.splits)

lemma ack_writes_tables:
  assumes w: "ack_writes cd now tok inst req db = Inr db'"
  shows "db_orchestrator_queue db' = sql_delete (\<lambda>q. oq_lock_token q = Some tok) (db_orchestrator_queue db)
      @ orch_rows cd now (db_next_orch_id db) (ar_orchestrator_items req)"
    and "db_instance_locks db' = db_instance_locks db"
    and "db_history db' = db_history db @ map (event_row cd inst (ar_execution_id req)) (ar_history_delta req)"
    and "db_worker_queue db' = db_worker_queue (delete_cancelled (ar_cancelled_activities req)
           (db\<lparr>db_worker_queue := db_worker_queue db
              @ worker_rows cd now (db_next_worker_id db) (ar_worker_items req)\<rparr>))"
proof -
  from w obtain db1 db2 where
    1: "ack_instance_row now inst (ar_execution_id req) (ar_metadata req) (delete_fetched tok db) = Inr db1" and
    2: "ack_history cd inst (ar_execution_id req) (ar_history_delta req)
          (ack_execution_row inst (ar_execution_id req) (ar_metadata req) db1) = Inr db2" and
    3: "db' = fold (ack_enqueue_orchestrator cd now) (ar_orchestrator_items req)
       (delete_cancelled (ar_cancelled_activities req)
         (fold (insert_worker_row cd now) (ar_worker_items req)
           (ack_kv now inst (ar_history_delta req) (ar_metadata req)
             (ack_custom_status inst (ar_history_delta req)
               (ack_status now inst (ar_execution_id req) (ar_metadata req) db2)))))"
    by (rule ack_writes_parts)
  let ?db3 = "ack_kv now inst (ar_history_delta req) (ar_metadata req)
             (ack_custom_status inst (ar_history_delta req)
               (ack_status now inst (ar_execution_id req) (ar_metadata req) db2))"
  have same: "same_queues (delete_fetched tok db) ?db3"
    by (meson 1 2 ack_instance_same ack_execution_same ack_history_same ack_status_same
        ack_custom_status_same ack_kv_same same_queues_trans)
  then have q: "db_orchestrator_queue ?db3 = sql_delete (\<lambda>q. oq_lock_token q = Some tok) (db_orchestrator_queue db)"
    "db_worker_queue ?db3 = db_worker_queue db" "db_instance_locks ?db3 = db_instance_locks db"
    "db_next_orch_id ?db3 = db_next_orch_id db" "db_next_worker_id ?db3 = db_next_worker_id db"
    by (simp_all add: same_queues_def delete_fetched_def)
  show "db_orchestrator_queue db' = sql_delete (\<lambda>q. oq_lock_token q = Some tok) (db_orchestrator_queue db)
      @ orch_rows cd now (db_next_orch_id db) (ar_orchestrator_items req)"
    unfolding 3 by (simp add: fold_ack_enqueue_rows frames q)
  show "db_instance_locks db' = db_instance_locks db" unfolding 3 by (simp add: frames q)
  have "db_history db1 = db_history db" using ack_tables(5) [OF 1] by (simp add: delete_fetched_def)
  then show "db_history db' = db_history db @ map (event_row cd inst (ar_execution_id req)) (ar_history_delta req)"
    unfolding 3 using ack_history_tables(1) [OF 2] by (simp add: frames ack_tables)
  show "db_worker_queue db' = db_worker_queue (delete_cancelled (ar_cancelled_activities req)
           (db\<lparr>db_worker_queue := db_worker_queue db
              @ worker_rows cd now (db_next_worker_id db) (ar_worker_items req)\<rparr>))"
    unfolding 3 by (simp add: frames fold_insert_worker_rows delete_cancelled_def q)
qed

subsection \<open>Lock tokens\<close>

text \<open>A token marks the messages of one instance, the instance it locks; a worker token one row.\<close>

definition orch_marks :: "('d, 'w) db \<Rightarrow> (string \<times> string) set" where
  "orch_marks db = {(t, oq_instance q) | t q. q \<in> set (db_orchestrator_queue db) \<and> oq_lock_token q = Some t}"

definition lock_marks :: "('d, 'w) db \<Rightarrow> (string \<times> string) set" where
  "lock_marks db = (\<lambda>l. (il_lock_token l, il_instance l)) ` set (db_instance_locks db)"

definition worker_marks :: "('d, 'w) db \<Rightarrow> (string \<times> nat) set" where
  "worker_marks db = {(t, wq_id q) | t q. q \<in> set (db_worker_queue db) \<and> wq_lock_token q = Some t}"

definition tokens_ok :: "('d, 'w) db \<Rightarrow> bool" where
  "tokens_ok db \<longleftrightarrow> single_valued (orch_marks db \<union> lock_marks db) \<and> single_valued (worker_marks db)"

lemma empty_tokens_ok [simp]: "tokens_ok empty_db"
  by (auto simp: tokens_ok_def orch_marks_def lock_marks_def worker_marks_def empty_db_def single_valued_def)

lemma tokens_ok_mono:
  "tokens_ok db \<Longrightarrow> orch_marks db' \<subseteq> orch_marks db \<Longrightarrow> lock_marks db' \<subseteq> lock_marks db \<Longrightarrow>
   worker_marks db' \<subseteq> worker_marks db \<Longrightarrow> tokens_ok db'"
  unfolding tokens_ok_def by (meson Un_mono single_valued_subset)

lemma marks_cong:
  "db_orchestrator_queue db' = db_orchestrator_queue db \<Longrightarrow> orch_marks db' = orch_marks db"
  "db_instance_locks db' = db_instance_locks db \<Longrightarrow> lock_marks db' = lock_marks db"
  "db_worker_queue db' = db_worker_queue db \<Longrightarrow> worker_marks db' = worker_marks db"
  by (simp_all add: orch_marks_def lock_marks_def worker_marks_def)

lemma fresh_marks:
  "fresh_token tok db \<Longrightarrow> (tok, i) \<notin> orch_marks db" "fresh_token tok db \<Longrightarrow> (tok, i) \<notin> lock_marks db"
  "fresh_token tok db \<Longrightarrow> (tok, n) \<notin> worker_marks db"
  by (force simp: fresh_token_def orch_marks_def lock_marks_def worker_marks_def)+

lemma single_valued_add:
  "single_valued R \<Longrightarrow> S \<subseteq> insert (t, x) R \<Longrightarrow> (\<And>y. (t, y) \<notin> R) \<Longrightarrow> single_valued S"
  by (auto simp: single_valued_def) blast+

text \<open>An acquired lock: every other lock stays, and the instance had no live one.\<close>

lemma acquire_locks:
  assumes "acquire_instance_lock now tok u inst db = (True, db1)"
  shows "set (db_instance_locks db1) =
      insert \<lparr>il_instance = inst, il_lock_token = tok, il_locked_until = u, il_locked_at = now\<rparr>
        {l \<in> set (db_instance_locks db). il_instance l \<noteq> inst}"
    and "\<And>l. db_ok db \<Longrightarrow> l \<in> set (db_instance_locks db) \<Longrightarrow> il_instance l = inst \<Longrightarrow> il_locked_until l \<le> now"
    and "db_orchestrator_queue db1 = db_orchestrator_queue db" "db_worker_queue db1 = db_worker_queue db"
    and "db_instances db1 = db_instances db"
proof -
  let ?new = "\<lparr>il_instance = inst, il_lock_token = tok, il_locked_until = u, il_locked_at = now\<rparr>"
  have *: "set (db_instance_locks db1) = insert ?new {l \<in> set (db_instance_locks db). il_instance l \<noteq> inst}
      \<and> (\<forall>l \<in> set (db_instance_locks db). db_ok db \<longrightarrow> il_instance l = inst \<longrightarrow> il_locked_until l \<le> now)
      \<and> db_orchestrator_queue db1 = db_orchestrator_queue db \<and> db_worker_queue db1 = db_worker_queue db
      \<and> db_instances db1 = db_instances db"
  proof (cases "find_lock inst db")
    case None
    then have "\<forall>l \<in> set (db_instance_locks db). il_instance l \<noteq> inst"
      by (auto simp: find_lock_def find_None_all)
    moreover have "db1 = db\<lparr>db_instance_locks := db_instance_locks db @ [?new]\<rparr>"
      using assms None by (simp add: acquire_instance_lock_def)
    ultimately show ?thesis by auto
  next
    case (Some l')
    then have l': "l' \<in> set (db_instance_locks db)" "il_instance l' = inst"
      using find_Some_mem by (force simp: find_lock_def)+
    have exp: "il_locked_until l' \<le> now"
      and db1: "db1 = db\<lparr>db_instance_locks := sql_update (\<lambda>r. il_instance r = inst) (\<lambda>_. ?new) (db_instance_locks db)\<rparr>"
      using assms Some by (auto simp: acquire_instance_lock_def Let_def split: if_splits)
    have "l = l'" if "db_ok db" "l \<in> set (db_instance_locks db)" "il_instance l = inst" for l
      using that l' by (auto simp: db_ok_defs distinct_map inj_on_def)
    moreover have "set (sql_update (\<lambda>r. il_instance r = inst) (\<lambda>_. ?new) (db_instance_locks db))
        = insert ?new {l \<in> set (db_instance_locks db). il_instance l \<noteq> inst}"
      using l' by (auto simp: sql_update_def)
    ultimately show ?thesis using exp unfolding db1 by auto
  qed
  then show "set (db_instance_locks db1) = insert ?new {l \<in> set (db_instance_locks db). il_instance l \<noteq> inst}"
    "\<And>l. db_ok db \<Longrightarrow> l \<in> set (db_instance_locks db) \<Longrightarrow> il_instance l = inst \<Longrightarrow> il_locked_until l \<le> now"
    "db_orchestrator_queue db1 = db_orchestrator_queue db" "db_worker_queue db1 = db_worker_queue db"
    "db_instances db1 = db_instances db" by blast+
qed

lemma mark_frames [frames]:
  "db_instance_locks (mark_messages now tok inst db) = db_instance_locks db"
  "db_worker_queue (mark_messages now tok inst db) = db_worker_queue db"
  "db_instances (mark_messages now tok inst db) = db_instances db"
  by (simp_all add: mark_messages_def)

lemma mark_orch_marks:
  "orch_marks (mark_messages now tok inst db) \<subseteq> insert (tok, inst) (orch_marks db)"
  by (auto simp: orch_marks_def mark_messages_def sql_update_def split: if_splits)

lemma fetch_tokens:
  assumes ok: "tokens_ok db" and fresh: "fresh_token tok db"
    and acq: "acquire_instance_lock now tok u inst db = (True, db1)"
  shows "tokens_ok (mark_messages now tok inst db1)"
proof -
  have "orch_marks (mark_messages now tok inst db1) \<subseteq> insert (tok, inst) (orch_marks db)"
    using mark_orch_marks [of now tok inst db1] marks_cong(1) [OF acquire_locks(3) [OF acq]] by simp
  moreover have "lock_marks (mark_messages now tok inst db1) \<subseteq> insert (tok, inst) (lock_marks db)"
    using acquire_locks(1) [OF acq] by (auto simp: lock_marks_def frames)
  ultimately have sub: "orch_marks (mark_messages now tok inst db1) \<union> lock_marks (mark_messages now tok inst db1)
      \<subseteq> insert (tok, inst) (orch_marks db \<union> lock_marks db)" by blast
  have "single_valued (orch_marks (mark_messages now tok inst db1) \<union> lock_marks (mark_messages now tok inst db1))"
    using ok fresh_marks [OF fresh]
    by (intro single_valued_add [OF _ sub]) (auto simp: tokens_ok_def)
  moreover have "worker_marks (mark_messages now tok inst db1) = worker_marks db"
    using acquire_locks(4) [OF acq] by (simp add: worker_marks_def frames)
  ultimately show ?thesis using ok by (simp add: tokens_ok_def)
qed

lemma drop_orphans_tokens: "tokens_ok db \<Longrightarrow> tokens_ok (drop_orphans tok db)"
  by (rule tokens_ok_mono) (auto simp: orch_marks_def lock_marks_def worker_marks_def drop_orphans_def)

lemma insert_orch_tokens: "tokens_ok db \<Longrightarrow> tokens_ok (insert_orch_row inst item t db)"
  by (rule tokens_ok_mono) (auto simp: orch_marks_def lock_marks_def worker_marks_def insert_orch_row_def)

lemma touch_session_frames [frames]:
  "db_orchestrator_queue (touch_session now sid db) = db_orchestrator_queue db"
  "db_worker_queue (touch_session now sid db) = db_worker_queue db"
  "db_instance_locks (touch_session now sid db) = db_instance_locks db"
  "db_instances (touch_session now sid db) = db_instances db"
  "db_next_orch_id (touch_session now sid db) = db_next_orch_id db"
  by (simp_all add: touch_session_def split: option.splits)

lemma claim_session_frames:
  assumes "claim_session now config sid db = (b, db')"
  shows "db_orchestrator_queue db' = db_orchestrator_queue db" "db_worker_queue db' = db_worker_queue db"
    "db_instance_locks db' = db_instance_locks db" "db_instances db' = db_instances db"
  using assms by (auto simp: claim_session_def Let_def split: option.splits if_splits)

lemma run_tx_tokens:
  "tokens_ok db \<Longrightarrow> (\<And>r db'. body db = Inr (r, db') \<Longrightarrow> tokens_ok db') \<Longrightarrow> tokens_ok (snd (run_tx body db))"
  by (rule run_tx_keeps)

lemma ack_tokens:
  assumes ok: "tokens_ok db" and a: "ack_orchestration_tx cd now now_check tok req db = Inr (u, db')"
  shows "tokens_ok db'"
proof -
  from a obtain inst db1 where w: "ack_writes cd now tok inst req db = Inr db1"
    and db': "db' = release_lock inst tok db1"
    by (auto simp: ack_orchestration_tx_def and_then_def split: option.splits sum.splits if_splits)
  show ?thesis unfolding db'
    by (rule tokens_ok_mono [OF ok])
      (auto simp: orch_marks_def lock_marks_def worker_marks_def release_lock_def ack_writes_tables [OF w]
        delete_cancelled_def dest: orch_rows_token worker_rows_token)
qed

lemma lock_work_tokens:
  assumes "tokens_ok db" and "fresh_token tok db"
  shows "tokens_ok (lock_work tok u i db)"
proof -
  have "worker_marks (lock_work tok u i db) \<subseteq> insert (tok, i) (worker_marks db)"
    by (auto simp: worker_marks_def lock_work_def sql_update_def split: if_splits)
  with assms fresh_marks(3) [OF assms(2)] have "single_valued (worker_marks (lock_work tok u i db))"
    by (auto intro: single_valued_add simp: tokens_ok_def)
  moreover have "orch_marks (lock_work tok u i db) = orch_marks db" "lock_marks (lock_work tok u i db) = lock_marks db"
    by (simp_all add: orch_marks_def lock_marks_def lock_work_def)
  ultimately show ?thesis using assms by (simp add: tokens_ok_def)
qed

lemma fetch_orchestration_tokens:
  assumes ok: "tokens_ok db" and fresh: "fresh_token tok db"
    and f: "fetch_orchestration_tx cd now tok lt flt db = Inr (r, db')"
  shows "tokens_ok db'"
  using f
proof (cases rule: fetch_orchestration_cases)
  case (2 inst db1)
  then show ?thesis using fetch_tokens [OF ok fresh 2(2)] drop_orphans_tokens by simp
next
  case (3 inst db1 item)
  then show ?thesis using fetch_tokens [OF ok fresh 3(2)] by simp
qed (use ok in simp)

lemma fetch_work_tokens:
  assumes ok: "tokens_ok db" and fresh: "fresh_token tok db"
    and f: "fetch_work_tx cd now tok lt session flt db = Inr (r, db')"
  shows "tokens_ok db'"
  using f
proof (cases rule: fetch_work_cases)
  case (3 q db1 wi sid config)
  from claim_session_frames [OF 3(7)]
  have "orch_marks db' = orch_marks db1" "lock_marks db' = lock_marks db1" "worker_marks db' = worker_marks db1"
    by (simp_all add: orch_marks_def lock_marks_def worker_marks_def)
  with lock_work_tokens [OF ok fresh] 3(2) show ?thesis by (simp add: tokens_ok_def)
qed (use ok lock_work_tokens [OF ok fresh] in simp_all)

lemma ack_work_tokens:
  assumes ok: "tokens_ok db" and a: "ack_work_tx cd now tok completion db = Inr (u, db')"
  shows "tokens_ok db'"
  using a
proof (cases rule: ack_work_cases)
  case (1 q db1)
  have "tokens_ok db1" unfolding 1(2)
    by (rule tokens_ok_mono [OF ok]) (auto simp: orch_marks_def lock_marks_def worker_marks_def frames)
  with 1(3) show ?thesis by (auto intro: insert_orch_tokens split: option.splits)
qed

lemma abandon_marks:
  "q \<in> set (abandon_messages now inst delay ig t) \<Longrightarrow>
   \<exists>q' \<in> set t. oq_id q' = oq_id q \<and> oq_instance q' = oq_instance q \<and> oq_lock_token q' = oq_lock_token q
     \<and> oq_work_item q' = oq_work_item q"
proof -
  assume q: "q \<in> set (abandon_messages now inst delay ig t)"
  define t' where "t' = (if ig then sql_update (\<lambda>q. oq_instance q = inst)
      (\<lambda>q. q\<lparr>oq_attempt_count := oq_attempt_count q - 1\<rparr>) t else t)"
  have "q \<in> set t' \<or> (\<exists>q1 \<in> set t'. \<exists>v. q = q1\<lparr>oq_visible_at := v\<rparr>)"
  proof (cases delay)
    case None
    with q show ?thesis by (simp add: abandon_messages_def t'_def)
  next
    case (Some d)
    with q have "q \<in> set (sql_update (\<lambda>q. oq_instance q = inst \<and> oq_visible_at q \<le> now)
        (\<lambda>q. q\<lparr>oq_visible_at := saturating_after now d\<rparr>) t')"
      by (simp add: abandon_messages_def t'_def)
    then show ?thesis unfolding sql_update_def set_map by (elim imageE) (metis (full_types))
  qed
  then obtain q1 where q1: "q1 \<in> set t'" "oq_id q1 = oq_id q" "oq_instance q1 = oq_instance q"
      "oq_lock_token q1 = oq_lock_token q" "oq_work_item q1 = oq_work_item q" by fastforce
  have "q1 \<in> set t \<or> (\<exists>q' \<in> set t. \<exists>n. q1 = q'\<lparr>oq_attempt_count := n\<rparr>)"
  proof (cases ig)
    case True
    then show ?thesis using q1(1) unfolding t'_def sql_update_def set_map if_P [OF True]
      by (elim imageE) (metis (full_types))
  qed (use q1(1) in \<open>simp add: t'_def\<close>)
  with q1 show ?thesis by fastforce
qed

lemma prune_fold_frames:
  "db_orchestrator_queue (snd (fold (prune_one inst) es x)) = db_orchestrator_queue (snd x)"
  "db_worker_queue (snd (fold (prune_one inst) es x)) = db_worker_queue (snd x)"
  "db_instance_locks (snd (fold (prune_one inst) es x)) = db_instance_locks (snd x)"
  "db_instances (snd (fold (prune_one inst) es x)) = db_instances (snd x)"
  by (rule fold_frame, simp add: prune_one_def split: prod.splits)+

lemma prune_frames:
  "db_orchestrator_queue (snd (prune_executions inst options db)) = db_orchestrator_queue db"
  "db_worker_queue (snd (prune_executions inst options db)) = db_worker_queue db"
  "db_instance_locks (snd (prune_executions inst options db)) = db_instance_locks db"
  "db_instances (snd (prune_executions inst options db)) = db_instances db"
  by (simp_all add: prune_executions_def case_prod_unfold Let_def prune_fold_frames split: option.splits)

lemma delete_tx_cases:
  assumes "delete_tx ids force db = Inr (r, db')"
  shows "db' = db \<or> db' = delete_rows ids db"
  using assms by (auto simp: delete_tx_def split: if_splits option.splits)

lemma sql_run_tokens:
  assumes ok: "tokens_ok db" and op: "op_ok op db"
  shows "tokens_ok (sql_run cd op db)"
proof (cases op)
  case (OP_Enqueue_Orchestrator now item delay)
  have "tokens_ok (snd (enqueue_for_orchestrator cd now item delay db))"
    unfolding enqueue_for_orchestrator_def
    by (rule run_tx_tokens [OF ok])
      (auto simp: enqueue_orchestrator_work_with_delay_def Let_def insert_orch_tokens ok split: option.splits)
  with OP_Enqueue_Orchestrator show ?thesis by simp
next
  case (OP_Enqueue_Worker now item)
  then show ?thesis
    by (auto intro!: tokens_ok_mono [OF ok] simp: enqueue_for_worker_def insert_worker_row_def orch_marks_def
        lock_marks_def worker_marks_def)
next
  case (OP_Append inst ex evs)
  have "tokens_ok (snd (append_with_execution cd inst ex evs db))"
    unfolding append_with_execution_def
    by (rule run_tx_tokens [OF ok], rule tokens_ok_mono [OF ok])
      (auto simp: orch_marks_def lock_marks_def worker_marks_def split: sum.splits elim!: append_history_cases)
  with OP_Append show ?thesis by simp
next
  case (OP_Fetch_Orchestration now tok lt flt)
  with op have "fresh_token tok db" by simp
  then have "tokens_ok (snd (fetch_orchestration_item cd now tok lt flt db))"
    unfolding fetch_orchestration_item_def
    by (intro run_tx_tokens [OF ok]) (rule fetch_orchestration_tokens [OF ok])
  with OP_Fetch_Orchestration show ?thesis by simp
next
  case (OP_Ack_Orchestration now now_check tok req)
  have "tokens_ok (snd (ack_orchestration_item cd now now_check tok req db))"
    unfolding ack_orchestration_item_def by (rule run_tx_tokens [OF ok]) (rule ack_tokens [OF ok])
  with OP_Ack_Orchestration show ?thesis by simp
next
  case (OP_Renew_Orchestration now tok ext)
  have "tokens_ok (db\<lparr>db_instance_locks := sql_update P (\<lambda>l. l\<lparr>il_locked_until := u\<rparr>) (db_instance_locks db)\<rparr>)"
    for P u
    by (rule tokens_ok_mono [OF ok])
      (auto simp: orch_marks_def lock_marks_def worker_marks_def sql_update_def split: if_splits)
  then have "tokens_ok (snd (renew_orchestration_item_lock now tok ext db))"
    unfolding renew_orchestration_item_lock_def Let_def
    by (intro run_tx_tokens [OF ok]) (auto split: if_splits)
  with OP_Renew_Orchestration show ?thesis by simp
next
  case (OP_Abandon_Orchestration now tok delay ig)
  have "tokens_ok (db\<lparr>db_instance_locks := sql_delete P (db_instance_locks db),
      db_orchestrator_queue := abandon_messages now inst delay ig (db_orchestrator_queue db)\<rparr>)" for P inst
    by (rule tokens_ok_mono [OF ok])
      (auto simp: orch_marks_def lock_marks_def worker_marks_def dest!: abandon_marks, metis)
  then have "tokens_ok (snd (abandon_orchestration_item now tok delay ig db))"
    unfolding abandon_orchestration_item_def
    by (intro run_tx_tokens [OF ok]) (auto split: option.splits)
  with OP_Abandon_Orchestration show ?thesis by simp
next
  case (OP_Fetch_Work now tok lt session flt)
  with op have "fresh_token tok db" by simp
  then have "tokens_ok (snd (run_tx (fetch_work_tx cd now tok lt session flt) db))"
    by (intro run_tx_tokens [OF ok]) (rule fetch_work_tokens [OF ok])
  with OP_Fetch_Work ok show ?thesis by (simp add: fetch_work_item_def)
next
  case (OP_Ack_Work now tok completion)
  have "tokens_ok (snd (ack_work_item cd now tok completion db))"
    unfolding ack_work_item_def by (rule run_tx_tokens [OF ok]) (rule ack_work_tokens [OF ok])
  with OP_Ack_Work show ?thesis by simp
next
  case (OP_Renew_Work now tok ext)
  have "tokens_ok (touch_session now sid (db\<lparr>db_worker_queue := sql_update P (\<lambda>q. q\<lparr>wq_locked_until := v\<rparr>) (db_worker_queue db)\<rparr>))"
    for sid P v
    by (rule tokens_ok_mono [OF ok])
      (auto simp: orch_marks_def lock_marks_def worker_marks_def sql_update_def frames split: if_splits)
  then have "tokens_ok (snd (renew_work_item_lock now tok ext db))"
    unfolding renew_work_item_lock_def by (intro run_tx_tokens [OF ok]) (auto split: option.splits)
  with OP_Renew_Work show ?thesis by simp
next
  case (OP_Abandon_Work now tok delay ig)
  have "tokens_ok (db\<lparr>db_worker_queue := sql_update P (\<lambda>q. q\<lparr>wq_lock_token := None, wq_locked_until := None,
      wq_visible_at := v, wq_attempt_count := g q\<rparr>) (db_worker_queue db)\<rparr>)" for P v g
    by (rule tokens_ok_mono [OF ok])
      (auto simp: orch_marks_def lock_marks_def worker_marks_def sql_update_def split: if_splits)
  then have "tokens_ok (snd (abandon_work_item now tok delay ig db))"
    unfolding abandon_work_item_def Let_def by (intro run_tx_tokens [OF ok]) (auto split: if_splits)
  with OP_Abandon_Work show ?thesis by simp
next
  case (OP_Delete ids force)
  have "tokens_ok (delete_rows ids db)"
    by (rule tokens_ok_mono [OF ok])
      (auto simp: orch_marks_def lock_marks_def worker_marks_def delete_rows_def)
  then have "tokens_ok (snd (delete_instances_atomic ids force db))"
    unfolding delete_instances_atomic_def by (intro run_tx_tokens [OF ok]) (auto dest: delete_tx_cases simp: ok)
  with OP_Delete show ?thesis by simp
next
  case (OP_Prune inst options)
  have "tokens_ok (snd (prune_executions inst options db))"
    by (rule tokens_ok_mono [OF ok])
      (simp_all add: orch_marks_def lock_marks_def worker_marks_def prune_frames)
  with OP_Prune show ?thesis by simp
next
  case (OP_Renew_Sessions now owners ext idle)
  then show ?thesis
    by (intro tokens_ok_mono [OF ok]) (simp_all add: orch_marks_def lock_marks_def
        worker_marks_def renew_session_lock_def Let_def)
next
  case (OP_Cleanup_Sessions now)
  then show ?thesis
    by (intro tokens_ok_mono [OF ok]) (simp_all add: orch_marks_def lock_marks_def
        worker_marks_def cleanup_orphaned_sessions_def Let_def)
qed

end
