(* ===== verification/Sql_Props.thy ===== *)
theory Sql_Props
  imports Sql_Locks
begin

text \<open>
  Properties of the orchestration queue of the store: its invariant, the exclusiveness of the
  instance lock, the survival of messages, and the atomicity of an acknowledgement.
\<close>

text \<open>Definitions with which the simplifier runs the store on a concrete state.\<close>

lemmas sql_eval = run_tx_def and_then_def empty_db_def plain_codec_def
  enqueue_for_orchestrator_def enqueue_orchestrator_work_with_delay_def insert_orch_row_def
  enqueue_for_worker_def insert_worker_row_def worker_row_of_def
  fetch_orchestration_item_def fetch_orchestration_tx_def select_candidate_def unlocked_def find_lock_def
  acquire_instance_lock_def mark_messages_def marked_def read_items_def map_filter_def
  max_attempt_def load_context_def find_instance_def find_execution_def read_history_in_tx_def execution_rows_def
  max_execution_id_def opt_or_def get_kv_snapshot_in_tx_def started_name_def is_queue_message_def
  drop_orphans_def timestamp_after_def i64_wrap_def as_millis_def saturating_after_def i64_max_def
  ack_orchestration_item_def ack_orchestration_tx_def instance_of_token_def ack_writes_def
  delete_fetched_def ack_instance_row_def ack_execution_row_def ack_history_def append_history_in_tx_def
  ack_status_def ack_custom_status_def ack_kv_def merge_kv_def terminal_status_def delete_cancelled_def
  ack_enqueue_orchestrator_def lock_valid_def release_lock_def event_row_def history_key_def execution_key_def
  renew_orchestration_item_lock_def abandon_orchestration_item_def abandon_messages_def
  fetch_work_item_def fetch_work_tx_def select_work_def worker_available_def session_fits_def
  build_tag_clause_def lock_work_def live_session_def claim_session_def
  ack_work_item_def ack_work_tx_def work_locked_def touch_session_def fresh_token_def
  sql_delete_def sql_update_def sql_count_def sql_insert_ignore_def sql_upsert_def Let_def

subsection \<open>Reachable stores\<close>

inductive reachable :: "('d, 'w) codec \<Rightarrow> ('d, 'w) db \<Rightarrow> bool" for cd where
  reachable_empty: "reachable cd empty_db"
| reachable_run: "reachable cd db \<Longrightarrow> op_ok op db \<Longrightarrow> reachable cd (sql_run cd op db)"

lemma reachable_ok: "reachable cd db \<Longrightarrow> db_ok db \<and> tokens_ok db"
  by (induction rule: reachable.induct) (auto simp: sql_run_ok sql_run_tokens)

text \<open>C23. Every store the operations can reach from an empty one is well formed: primary keys are unique, both queues
  are in the order of their row numbers (so ordering by id is arrival order), event ids are set, a
  parent is inserted before its children, and a lock token belongs to one instance and one worker row.\<close>

theorem reachable_store_ok:
  assumes "reachable cd db"
  shows "db_ok db \<and> tokens_ok db"
  using assms by (rule reachable_ok)

definition start_item :: work_item where
  "start_item = WI_StartOrchestration ''i'' ''o'' ''x'' None None None 1"

lemma start_reachable:
  "reachable plain_codec (sql_run plain_codec (OP_Fetch_Orchestration 5 ''t'' 1000000000 None)
     (sql_run plain_codec (OP_Enqueue_Orchestrator 3 start_item None) empty_db))"
  by (intro reachable.intros)
    (simp_all add: fresh_token_def enqueue_for_orchestrator_def run_tx_def empty_db_def start_item_def
      enqueue_orchestrator_work_with_delay_def insert_orch_row_def)

theorem reachable_store_ok_witness:
  "db_ok (sql_run plain_codec (OP_Fetch_Orchestration 5 ''t'' 1000000000 None)
     (sql_run plain_codec (OP_Enqueue_Orchestrator 3 start_item None) empty_db))"
  using reachable_store_ok [OF start_reachable] by blast

subsection \<open>The instance lock\<close>

fun op_time :: "sql_op \<Rightarrow> int option" where
  "op_time (OP_Fetch_Orchestration now _ _ _) = Some now"
| "op_time _ = None"

text \<open>The calls that act on the lock: those that present its token, and the deletion of the instance.\<close>

fun acts_on_lock :: "string \<Rightarrow> string \<Rightarrow> sql_op \<Rightarrow> bool" where
  "acts_on_lock inst tok (OP_Ack_Orchestration _ _ t _) = (t = tok)"
| "acts_on_lock inst tok (OP_Renew_Orchestration _ t _) = (t = tok)"
| "acts_on_lock inst tok (OP_Abandon_Orchestration _ t _ _) = (t = tok)"
| "acts_on_lock inst tok (OP_Delete ids _) = (inst \<in> set ids)"
| "acts_on_lock inst tok _ = False"

definition holds_lock :: "string \<Rightarrow> string \<Rightarrow> int \<Rightarrow> ('d, 'w) db \<Rightarrow> bool" where
  "holds_lock inst tok u db \<longleftrightarrow>
     (\<exists>l \<in> set (db_instance_locks db). il_instance l = inst \<and> il_lock_token l = tok \<and> il_locked_until l = u)"

lemma holds_lock_mono:
  "holds_lock inst tok u db \<Longrightarrow>
   (\<And>l. l \<in> set (db_instance_locks db) \<Longrightarrow> il_instance l = inst \<Longrightarrow> il_lock_token l = tok \<Longrightarrow>
      l \<in> set (db_instance_locks db')) \<Longrightarrow> holds_lock inst tok u db'"
  by (auto simp: holds_lock_def)

lemma run_tx_holds:
  "holds_lock inst tok u db \<Longrightarrow> (\<And>r db'. body db = Inr (r, db') \<Longrightarrow> holds_lock inst tok u db') \<Longrightarrow>
   holds_lock inst tok u (snd (run_tx body db))"
  by (rule run_tx_keeps)

lemma fetch_keeps_lock:
  assumes h: "holds_lock inst tok u db" and ok: "db_ok db" and fresh: "fresh_token tok2 db"
    and t: "now < u" and f: "fetch_orchestration_tx cd now tok2 lt flt db = Inr (r, db')"
  shows "holds_lock inst tok u db'"
proof -
  have ne: "tok2 \<noteq> tok" using h fresh by (auto simp: holds_lock_def fresh_token_def)
  have other: "i \<noteq> inst" if "acquire_instance_lock now tok2 v i db = (True, db1)" for i v db1
    using h t acquire_locks(2) [OF that ok] by (force simp: holds_lock_def)
  have acq: "holds_lock inst tok u db1" if "acquire_instance_lock now tok2 v i db = (True, db1)" for i v db1
    using other [OF that] by (intro holds_lock_mono [OF h]) (auto simp: acquire_locks(1) [OF that])
  from f show ?thesis
  proof (cases rule: fetch_orchestration_cases)
    case (2 i db1)
    show ?thesis unfolding 2(3)
      by (rule holds_lock_mono [OF acq [OF 2(2)]]) (use ne in \<open>auto simp: drop_orphans_def frames\<close>)
  next
    case (3 i db1 item)
    show ?thesis unfolding 3(3) by (rule holds_lock_mono [OF acq [OF 3(2)]]) (simp add: frames)
  qed (use h in simp)
qed

lemma ack_keeps_lock:
  assumes h: "holds_lock inst tok u db" and ne: "tok2 \<noteq> tok"
    and a: "ack_orchestration_tx cd now chk tok2 req db = Inr (r, db')"
  shows "holds_lock inst tok u db'"
proof -
  from a obtain i db1 where w: "ack_writes cd now tok2 i req db = Inr db1"
    and db': "db' = release_lock i tok2 db1"
    by (auto simp: ack_orchestration_tx_def and_then_def split: option.splits sum.splits if_splits)
  show ?thesis unfolding db'
    by (rule holds_lock_mono [OF h]) (use ne in \<open>auto simp: release_lock_def ack_writes_tables(2) [OF w]\<close>)
qed

lemma sql_run_keeps_lock:
  assumes h: "holds_lock inst tok u db" and ok: "db_ok db" and op: "op_ok op db"
    and t: "case op_time op of None \<Rightarrow> True | Some now \<Rightarrow> now < u" and n: "\<not> acts_on_lock inst tok op"
  shows "holds_lock inst tok u (sql_run cd op db)"
proof (cases op)
  case (OP_Fetch_Orchestration now tok2 lt flt)
  with op t have "fresh_token tok2 db" "now < u" by simp_all
  then have "holds_lock inst tok u (snd (fetch_orchestration_item cd now tok2 lt flt db))"
    unfolding fetch_orchestration_item_def
    by (intro run_tx_holds [OF h]) (rule fetch_keeps_lock [OF h ok])
  with OP_Fetch_Orchestration show ?thesis by simp
next
  case (OP_Ack_Orchestration now chk tok2 req)
  with n have "tok2 \<noteq> tok" by simp
  then have "holds_lock inst tok u (snd (ack_orchestration_item cd now chk tok2 req db))"
    unfolding ack_orchestration_item_def by (intro run_tx_holds [OF h]) (rule ack_keeps_lock [OF h])
  with OP_Ack_Orchestration show ?thesis by simp
next
  case (OP_Renew_Orchestration now tok2 ext)
  with n have ne: "tok2 \<noteq> tok" by simp
  have "holds_lock inst tok u (snd (renew_orchestration_item_lock now tok2 ext db))"
    unfolding renew_orchestration_item_lock_def Let_def
    by (rule run_tx_holds [OF h], rule holds_lock_mono [OF h])
      (use ne in \<open>force split: if_splits simp: sql_update_def image_iff\<close>)
  with OP_Renew_Orchestration show ?thesis by simp
next
  case (OP_Abandon_Orchestration now tok2 delay ig)
  with n have ne: "tok2 \<noteq> tok" by simp
  have "holds_lock inst tok u (snd (abandon_orchestration_item now tok2 delay ig db))"
    unfolding abandon_orchestration_item_def
    by (rule run_tx_holds [OF h], rule holds_lock_mono [OF h]) (use ne in \<open>auto split: option.splits\<close>)
  with OP_Abandon_Orchestration show ?thesis by simp
next
  case (OP_Delete ids force)
  with n have "inst \<notin> set ids" by simp
  then have "holds_lock inst tok u (delete_rows ids db)"
    by (intro holds_lock_mono [OF h]) (simp add: delete_rows_def)
  then have "holds_lock inst tok u (snd (delete_instances_atomic ids force db))"
    unfolding delete_instances_atomic_def by (intro run_tx_holds [OF h]) (auto dest: delete_tx_cases simp: h)
  with OP_Delete show ?thesis by simp
next
  case (OP_Enqueue_Orchestrator now item delay)
  have "holds_lock inst tok u (snd (enqueue_for_orchestrator cd now item delay db))"
    unfolding enqueue_for_orchestrator_def
    by (rule run_tx_holds [OF h], rule holds_lock_mono [OF h])
      (auto simp: enqueue_orchestrator_work_with_delay_def Let_def insert_orch_row_def split: option.splits)
  with OP_Enqueue_Orchestrator show ?thesis by simp
next
  case (OP_Append i ex evs)
  have "holds_lock inst tok u (snd (append_with_execution cd i ex evs db))"
    unfolding append_with_execution_def
    by (rule run_tx_holds [OF h], rule holds_lock_mono [OF h])
      (auto split: sum.splits elim!: append_history_cases)
  with OP_Append show ?thesis by simp
next
  case (OP_Fetch_Work now tok2 lt session flt)
  have "holds_lock inst tok u (snd (run_tx (fetch_work_tx cd now tok2 lt session flt) db))"
    by (rule run_tx_holds [OF h], rule holds_lock_mono [OF h], erule fetch_work_cases)
      (auto simp: lock_work_def dest: claim_session_frames(3))
  with OP_Fetch_Work h show ?thesis by (simp add: fetch_work_item_def)
next
  case (OP_Ack_Work now tok2 completion)
  have "holds_lock inst tok u (snd (ack_work_item cd now tok2 completion db))"
    unfolding ack_work_item_def
    by (rule run_tx_holds [OF h], rule holds_lock_mono [OF h], erule ack_work_cases)
      (auto simp: frames split: option.splits)
  with OP_Ack_Work show ?thesis by simp
next
  case (OP_Renew_Work now tok2 ext)
  have "holds_lock inst tok u (snd (renew_work_item_lock now tok2 ext db))"
    unfolding renew_work_item_lock_def
    by (rule run_tx_holds [OF h], rule holds_lock_mono [OF h]) (auto simp: frames split: option.splits)
  with OP_Renew_Work show ?thesis by simp
next
  case (OP_Abandon_Work now tok2 delay ig)
  have "holds_lock inst tok u (snd (abandon_work_item now tok2 delay ig db))"
    unfolding abandon_work_item_def Let_def
    by (rule run_tx_holds [OF h], rule holds_lock_mono [OF h]) (auto split: if_splits)
  with OP_Abandon_Work show ?thesis by simp
next
  case (OP_Prune i options)
  have "holds_lock inst tok u (snd (prune_executions i options db))"
    by (rule holds_lock_mono [OF h]) (simp add: prune_frames)
  with OP_Prune show ?thesis by simp
qed (use h in \<open>auto simp: holds_lock_def enqueue_for_worker_def insert_worker_row_def renew_session_lock_def
    cleanup_orphaned_sessions_def Let_def\<close>)

fun run_all :: "('d, 'w) codec \<Rightarrow> sql_op list \<Rightarrow> ('d, 'w) db \<Rightarrow> ('d, 'w) db" where
  "run_all cd [] db = db"
| "run_all cd (op # ops) db = run_all cd ops (sql_run cd op db)"

text \<open>Each call is well formed where it happens, before \<open>u\<close> if it is a fetch, and leaves the lock alone.\<close>

fun run_before :: "('d, 'w) codec \<Rightarrow> int \<Rightarrow> string \<Rightarrow> string \<Rightarrow> sql_op list \<Rightarrow> ('d, 'w) db \<Rightarrow> bool" where
  "run_before cd u inst tok [] db = True"
| "run_before cd u inst tok (op # ops) db =
     (op_ok op db \<and> (case op_time op of None \<Rightarrow> True | Some now \<Rightarrow> now < u)
      \<and> \<not> acts_on_lock inst tok op \<and> run_before cd u inst tok ops (sql_run cd op db))"

lemma run_all_keeps_lock:
  "holds_lock inst tok u db \<Longrightarrow> db_ok db \<Longrightarrow> run_before cd u inst tok ops db \<Longrightarrow>
   holds_lock inst tok u (run_all cd ops db) \<and> db_ok (run_all cd ops db)"
  by (induction ops arbitrary: db) (auto simp: sql_run_keeps_lock sql_run_ok)

lemma fetched_holds_lock:
  assumes "fetch_orchestration_item cd now tok lt flt db = (Inr (Some (item, tok', n)), db1)"
  shows "holds_lock (oi_instance item) tok (timestamp_after now lt) db1" and "tok' = tok"
proof -
  from assms have "fetch_orchestration_tx cd now tok lt flt db = Inr (Some (item, tok', n), db1)"
    by (simp add: fetch_orchestration_item_def run_tx_ok)
  then have "holds_lock (oi_instance item) tok (timestamp_after now lt) db1 \<and> tok' = tok"
    by (cases rule: fetch_orchestration_cases) (auto simp: holds_lock_def acquire_locks(1) frames)
  then show "holds_lock (oi_instance item) tok (timestamp_after now lt) db1" "tok' = tok" by simp_all
qed

lemma candidate_unlocked:
  "select_candidate now flt db = Some inst \<Longrightarrow> unlocked now inst db"
  by (auto simp: select_candidate_def Let_def dest!: find_Some_mem split: option.splits list.splits)

lemma fetch_other_instance:
  assumes "fetch_orchestration_item cd now tok lt flt db = (Inr (Some (item, tok', n)), db1)"
    and h: "holds_lock inst tok0 u db" and ok: "db_ok db" and t: "now < u"
  shows "oi_instance item \<noteq> inst"
proof
  assume eq: "oi_instance item = inst"
  from assms(1) have "fetch_orchestration_tx cd now tok lt flt db = Inr (Some (item, tok', n), db1)"
    by (simp add: fetch_orchestration_item_def run_tx_ok)
  then obtain v db2 where "acquire_instance_lock now tok v inst db = (True, db2)"
    by (cases rule: fetch_orchestration_cases) (auto simp: eq)
  from acquire_locks(2) [OF this ok] h t show False by (force simp: holds_lock_def)
qed

text \<open>C4. The instance lock is exclusive: after a fetch handed out an item of an instance, and until the lock expires, no
  fetch by anybody hands out an item of the same instance, whatever other operations run in between (enqueues, worker calls, fetches
  and acknowledgements with other tokens, deletions of other instances); and the holder's token stays valid all that time.\<close>

theorem instance_lock_exclusive:
  assumes "reachable cd db" and "fresh_token tok db"
    and "fetch_orchestration_item cd now tok lt flt db = (Inr (Some (item, tok', n)), db1)"
    and "run_before cd (timestamp_after now lt) (oi_instance item) tok ops db1"
    and "t < timestamp_after now lt"
    and "fetch_orchestration_item cd t tok2 lt2 flt2 (run_all cd ops db1) = (Inr (Some (item2, tok2', n2)), db2)"
  shows "oi_instance item2 \<noteq> oi_instance item \<and> lock_valid t (oi_instance item) tok (run_all cd ops db1)"
proof -
  have "db1 = sql_run cd (OP_Fetch_Orchestration now tok lt flt) db" using assms(3) by simp
  then have ok: "db_ok db1" using reachable_ok [OF assms(1)] assms(2) by (simp add: sql_run_ok del: sql_run.simps)
  from run_all_keeps_lock [OF fetched_holds_lock(1) [OF assms(3)] ok assms(4)]
  have h: "holds_lock (oi_instance item) tok (timestamp_after now lt) (run_all cd ops db1)"
    and ok: "db_ok (run_all cd ops db1)" by simp_all
  from h assms(5) have "lock_valid t (oi_instance item) tok (run_all cd ops db1)"
    by (auto simp: holds_lock_def lock_valid_def sql_count_0)
  with fetch_other_instance [OF assms(6) h ok assms(5)] show ?thesis by simp
qed

definition two_starts :: "(event, work_item) db" where
  "two_starts = sql_run plain_codec
     (OP_Enqueue_Orchestrator 4 (WI_StartOrchestration ''j'' ''o'' ''y'' None None None 1) None)
     (sql_run plain_codec (OP_Enqueue_Orchestrator 3 start_item None) empty_db)"

lemma two_starts_ok: "reachable plain_codec two_starts" "fresh_token ''t'' two_starts" "db_ok two_starts"
proof -
  show r: "reachable plain_codec two_starts"
    unfolding two_starts_def by (intro reachable.intros) simp_all
  show "fresh_token ''t'' two_starts" by (simp add: two_starts_def start_item_def sql_eval)
  show "db_ok two_starts" using reachable_ok [OF r] by simp
qed

definition other_calls :: "sql_op list" where
  "other_calls = [OP_Enqueue_Orchestrator 6 (WI_ExternalRaised ''i'' ''e'' ''d'') None, OP_Ack_Orchestration 6 6 ''u''
     (empty_request 1), OP_Fetch_Work 7 ''v'' 5 None TF_Any]"

lemma two_starts_run:
  "case fetch_orchestration_item plain_codec 5 ''t'' 1000000000 None two_starts of
     (Inr (Some (item, _, _)), db1) \<Rightarrow>
       oi_instance item = ''i'' \<and> run_before plain_codec (timestamp_after 5 1000000000) ''i'' ''t'' other_calls db1
       \<and> (case fetch_orchestration_item plain_codec 900 ''w'' 1000000000 None (run_all plain_codec other_calls db1) of
            (Inr (Some (item2, _, _)), _) \<Rightarrow> oi_instance item2 = ''j'' | _ \<Rightarrow> False)
   | _ \<Rightarrow> False"
  by (simp add: two_starts_def start_item_def other_calls_def empty_request_def sql_eval)

theorem instance_lock_exclusive_witness:
  "\<exists>item n db1 item2 n2 db2.
     fetch_orchestration_item plain_codec 5 ''t'' 1000000000 None two_starts = (Inr (Some (item, ''t'', n)), db1)
     \<and> fetch_orchestration_item plain_codec 900 ''w'' 1000000000 None (run_all plain_codec other_calls db1)
         = (Inr (Some (item2, ''w'', n2)), db2)
     \<and> oi_instance item2 \<noteq> oi_instance item"
proof -
  note r = two_starts_ok(1)
  note f = two_starts_ok(2)
  have t: "900 < timestamp_after 5 1000000000" by (simp add: sql_eval)
  obtain item tok n db1 where 1: "fetch_orchestration_item plain_codec 5 ''t'' 1000000000 None two_starts
      = (Inr (Some (item, tok, n)), db1)"
    and i: "oi_instance item = ''i''"
    and b: "run_before plain_codec (timestamp_after 5 1000000000) (oi_instance item) ''t'' other_calls db1"
    and nx: "case fetch_orchestration_item plain_codec 900 ''w'' 1000000000 None (run_all plain_codec other_calls db1) of
            (Inr (Some (item2, _, _)), _) \<Rightarrow> oi_instance item2 = ''j'' | _ \<Rightarrow> False"
    using two_starts_run by (auto split: prod.splits sum.splits option.splits)
  from nx obtain item2 tok2 n2 db2 where 2: "fetch_orchestration_item plain_codec 900 ''w'' 1000000000 None
      (run_all plain_codec other_calls db1) = (Inr (Some (item2, tok2, n2)), db2)"
    by (auto split: prod.splits sum.splits option.splits)
  from instance_lock_exclusive [OF r f 1 b t 2] fetched_holds_lock(2) [OF 1] fetched_holds_lock(2) [OF 2] 1 2
  show ?thesis by blast
qed

subsection \<open>Messages are not lost\<close>

text \<open>The message with this row is still queued, for the same instance and with the same content.\<close>

definition still_queued :: "'w orch_row \<Rightarrow> ('d, 'w) db \<Rightarrow> bool" where
  "still_queued q db \<longleftrightarrow> (\<exists>q' \<in> set (db_orchestrator_queue db).
     oq_id q' = oq_id q \<and> oq_instance q' = oq_instance q \<and> oq_work_item q' = oq_work_item q)"

text \<open>The three ways a message may leave: acknowledged under the token it was fetched with, deleted with its
  instance, or dropped as a queue message of an instance that does not exist.\<close>

definition may_leave :: "('d, 'w) codec \<Rightarrow> sql_op \<Rightarrow> ('d, 'w) db \<Rightarrow> 'w orch_row \<Rightarrow> bool" where
  "may_leave cd op db q \<longleftrightarrow>
     (case op of
        OP_Ack_Orchestration now now_check tok req \<Rightarrow>
          oq_lock_token q = Some tok \<and> instance_of_token tok db = Some (oq_instance q)
          \<and> isl (fst (ack_orchestration_item cd now now_check tok req db)) = False
      | OP_Delete ids _ \<Rightarrow> oq_instance q \<in> set ids
      | OP_Fetch_Orchestration _ _ _ _ \<Rightarrow>
          find_instance (oq_instance q) db = None
          \<and> (case cd_read_item cd (oq_work_item q) of Inl _ \<Rightarrow> True | Inr wi \<Rightarrow> is_queue_message wi)
      | _ \<Rightarrow> False)"

lemma queued_refl: "q \<in> set (db_orchestrator_queue db) \<Longrightarrow> still_queued q db"
  by (auto simp: still_queued_def)

lemma queued_mono:
  "q \<in> set (db_orchestrator_queue db) \<Longrightarrow>
   (q \<in> set (db_orchestrator_queue db) \<Longrightarrow> q \<in> set (db_orchestrator_queue db')) \<Longrightarrow> still_queued q db'"
  by (auto simp: still_queued_def)

lemma run_tx_queued:
  "q \<in> set (db_orchestrator_queue db) \<Longrightarrow>
   (\<And>r db'. body db = Inr (r, db') \<Longrightarrow> still_queued q db') \<Longrightarrow> still_queued q (snd (run_tx body db))"
  by (auto simp: run_tx_def queued_refl split: sum.splits prod.splits)

lemma load_orphans:
  assumes "load_context cd inst items db = FC_Orphans"
  shows "find_instance inst db = None" "list_all is_queue_message items"
  using assms by (auto simp: load_context_def Let_def split: option.splits sum.splits if_splits)

lemma marked_queued:
  "q \<in> set (db_orchestrator_queue db) \<Longrightarrow> \<exists>q' \<in> set (db_orchestrator_queue (mark_messages now tok inst db)).
     oq_id q' = oq_id q \<and> oq_instance q' = oq_instance q \<and> oq_work_item q' = oq_work_item q
     \<and> oq_lock_token q' = (if oq_instance q = inst \<and> oq_visible_at q \<le> now then Some tok else oq_lock_token q)"
  unfolding mark_messages_def sql_update_def
  by (auto intro!: bexI [of _ "if oq_instance q = inst \<and> oq_visible_at q \<le> now
      then q\<lparr>oq_lock_token := Some tok, oq_attempt_count := oq_attempt_count q + 1\<rparr> else q"])

lemma fetch_queued:
  assumes q: "q \<in> set (db_orchestrator_queue db)" and fresh: "fresh_token tok db"
    and f: "fetch_orchestration_tx cd now tok lt flt db = Inr (r, db')"
  shows "still_queued q db' \<or> find_instance (oq_instance q) db = None
     \<and> (case cd_read_item cd (oq_work_item q) of Inl _ \<Rightarrow> True | Inr wi \<Rightarrow> is_queue_message wi)"
  using f
proof (cases rule: fetch_orchestration_cases)
  case 1
  with q show ?thesis by (simp add: queued_refl)
next
  case (3 inst db1 item)
  from q have "q \<in> set (db_orchestrator_queue db1)" by (simp add: acquire_locks(3) [OF 3(2)])
  from marked_queued [OF this] show ?thesis unfolding 3(3) still_queued_def by blast
next
  case (2 inst db1)
  let ?db2 = "mark_messages now tok inst db1"
  from q have "q \<in> set (db_orchestrator_queue db1)" by (simp add: acquire_locks(3) [OF 2(2)])
  from marked_queued [OF this, of now tok inst] obtain q' where q': "q' \<in> set (db_orchestrator_queue ?db2)"
    "oq_id q' = oq_id q" "oq_instance q' = oq_instance q" "oq_work_item q' = oq_work_item q"
    "oq_lock_token q' = (if oq_instance q = inst \<and> oq_visible_at q \<le> now then Some tok else oq_lock_token q)"
    by blast
  show ?thesis
  proof (cases "oq_lock_token q' = Some tok")
    case False
    with q' show ?thesis unfolding 2(3) still_queued_def drop_orphans_def by auto
  next
    case True
    with q'(5) q fresh have inst: "oq_instance q = inst" by (auto simp: fresh_token_def split: if_splits)
    from True q'(1) have "q' \<in> set (marked tok ?db2)" by (simp add: marked_def)
    then have "is_queue_message wi" if "cd_read_item cd (oq_work_item q) = Inr wi" for wi
      using load_orphans(2) [OF 2(5)] that q'(4)
      by (force simp: read_items_def list_all_iff map_filter_def)
    moreover have "find_instance inst db = None"
      using load_orphans(1) [OF 2(5)] by (simp add: find_instance_def frames acquire_locks(5) [OF 2(2)])
    ultimately show ?thesis using inst by (auto split: sum.splits)
  qed
qed

lemma abandon_queued:
  assumes "q \<in> set t"
  shows "\<exists>q' \<in> set (abandon_messages now inst delay ig t).
     oq_id q' = oq_id q \<and> oq_instance q' = oq_instance q \<and> oq_work_item q' = oq_work_item q"
proof -
  define t' where "t' = (if ig then sql_update (\<lambda>q. oq_instance q = inst)
      (\<lambda>q. q\<lparr>oq_attempt_count := oq_attempt_count q - 1\<rparr>) t else t)"
  have "\<exists>q1 \<in> set t'. oq_id q1 = oq_id q \<and> oq_instance q1 = oq_instance q \<and> oq_work_item q1 = oq_work_item q"
    using assms unfolding t'_def sql_update_def
    by (intro bexI [of _ "if ig \<and> oq_instance q = inst
        then q\<lparr>oq_attempt_count := oq_attempt_count q - 1\<rparr> else q"]) auto
  then obtain q1 where q1: "q1 \<in> set t'" "oq_id q1 = oq_id q" "oq_instance q1 = oq_instance q"
    "oq_work_item q1 = oq_work_item q" by blast
  show ?thesis
  proof (cases delay)
    case None
    with q1 show ?thesis by (auto simp: abandon_messages_def t'_def)
  next
    case (Some d)
    let ?f = "\<lambda>q. if oq_instance q = inst \<and> oq_visible_at q \<le> now then q\<lparr>oq_visible_at := saturating_after now d\<rparr> else q"
    have "abandon_messages now inst delay ig t = map ?f t'"
      by (simp add: abandon_messages_def t'_def Some sql_update_def)
    with q1 show ?thesis by (intro bexI [of _ "?f q1"]) auto
  qed
qed

lemma ack_tx_cases:
  assumes "ack_orchestration_tx cd now chk tok req db = Inr (r, db')"
  obtains inst db1 where "instance_of_token tok db = Some inst" "ack_writes cd now tok inst req db = Inr db1"
    "lock_valid chk inst tok db1" "db' = release_lock inst tok db1"
  using assms by (auto simp: ack_orchestration_tx_def and_then_def split: option.splits sum.splits if_splits)

lemma ack_queued:
  assumes q: "q \<in> set (db_orchestrator_queue db)"
    and a: "ack_orchestration_tx cd now chk tok req db = Inr (r, db')"
  shows "still_queued q db' \<or> oq_lock_token q = Some tok"
proof -
  from a obtain inst db1 where w: "ack_writes cd now tok inst req db = Inr db1"
    and db': "db' = release_lock inst tok db1" by (rule ack_tx_cases)
  from ack_writes_tables(1) [OF w] q show ?thesis
    unfolding db' by (auto simp: still_queued_def release_lock_def)
qed

lemma token_instance:
  assumes "tokens_ok db" "q \<in> set (db_orchestrator_queue db)" "oq_lock_token q = Some tok"
    and "instance_of_token tok db = Some inst"
  shows "oq_instance q = inst"
proof -
  have "(tok, oq_instance q) \<in> orch_marks db" using assms(2,3) by (auto simp: orch_marks_def)
  moreover have "(tok, inst) \<in> lock_marks db"
    using assms(4) by (force simp: instance_of_token_def lock_marks_def dest: find_Some_mem)
  ultimately show ?thesis using assms(1) by (auto simp: tokens_ok_def single_valued_def)
qed

lemma sql_run_queued:
  assumes ok: "tokens_ok db" and op: "op_ok op db" and q: "q \<in> set (db_orchestrator_queue db)"
  shows "still_queued q (sql_run cd op db) \<or> may_leave cd op db q"
proof (cases op)
  case (OP_Fetch_Orchestration now tok lt flt)
  with op have fresh: "fresh_token tok db" by simp
  have "still_queued q (snd (fetch_orchestration_item cd now tok lt flt db)) \<or> may_leave cd op db q"
  proof (cases "may_leave cd op db q")
    case False
    have "still_queued q db'" if "fetch_orchestration_tx cd now tok lt flt db = Inr (r, db')" for r db'
      using fetch_queued [OF q fresh that] False by (auto simp: may_leave_def OP_Fetch_Orchestration)
    then have "still_queued q (snd (fetch_orchestration_item cd now tok lt flt db))"
      unfolding fetch_orchestration_item_def by (rule run_tx_queued [OF q])
    then show ?thesis by simp
  qed simp
  with OP_Fetch_Orchestration show ?thesis by simp
next
  case (OP_Ack_Orchestration now chk tok req)
  show ?thesis
  proof (cases "ack_orchestration_tx cd now chk tok req db")
    case (Inl e)
    with q OP_Ack_Orchestration show ?thesis
      by (simp add: ack_orchestration_item_def run_tx_def queued_refl)
  next
    case (Inr x)
    obtain r db' where x: "ack_orchestration_tx cd now chk tok req db = Inr (r, db')" using Inr by (cases x) auto
    from x obtain inst where i: "instance_of_token tok db = Some inst" by (rule ack_tx_cases)
    show ?thesis
    proof (cases "oq_lock_token q = Some tok")
      case True
      with token_instance [OF ok q True i] i x show ?thesis
        by (simp add: may_leave_def OP_Ack_Orchestration ack_orchestration_item_def run_tx_def)
    next
      case False
      with ack_queued [OF q x] x show ?thesis
        by (simp add: OP_Ack_Orchestration ack_orchestration_item_def run_tx_def)
    qed
  qed
next
  case (OP_Enqueue_Orchestrator now item delay)
  have "still_queued q (snd (enqueue_for_orchestrator cd now item delay db))"
    unfolding enqueue_for_orchestrator_def
    by (rule run_tx_queued [OF q], rule queued_mono [OF q])
      (auto simp: enqueue_orchestrator_work_with_delay_def Let_def insert_orch_row_def split: option.splits)
  with OP_Enqueue_Orchestrator show ?thesis by simp
next
  case (OP_Append inst ex evs)
  have "still_queued q (snd (append_with_execution cd inst ex evs db))"
    unfolding append_with_execution_def
    by (rule run_tx_queued [OF q], rule queued_mono [OF q])
      (auto split: sum.splits elim!: append_history_cases)
  with OP_Append show ?thesis by simp
next
  case (OP_Renew_Orchestration now tok ext)
  have "still_queued q (snd (renew_orchestration_item_lock now tok ext db))"
    unfolding renew_orchestration_item_lock_def Let_def
    by (rule run_tx_queued [OF q], rule queued_mono [OF q]) (auto split: if_splits)
  with OP_Renew_Orchestration show ?thesis by simp
next
  case (OP_Abandon_Orchestration now tok delay ig)
  have "still_queued q (snd (abandon_orchestration_item now tok delay ig db))"
    unfolding abandon_orchestration_item_def
  proof (rule run_tx_queued [OF q])
    fix r db'
    assume "(case instance_of_token tok db of
        None \<Rightarrow> Inl (permanent_error ''abandon_orchestration_item'' ''Invalid lock token'')
      | Some inst \<Rightarrow> Inr ((), db\<lparr>
          db_instance_locks := sql_delete (\<lambda>l. il_lock_token l = tok) (db_instance_locks db),
          db_orchestrator_queue := abandon_messages now inst delay ig (db_orchestrator_queue db)\<rparr>)) = Inr (r, db')"
    then obtain inst where "db_orchestrator_queue db' = abandon_messages now inst delay ig (db_orchestrator_queue db)"
      by (auto split: option.splits)
    with abandon_queued [OF q] show "still_queued q db'" by (simp add: still_queued_def)
  qed
  with OP_Abandon_Orchestration show ?thesis by simp
next
  case (OP_Fetch_Work now tok lt session flt)
  have "still_queued q (snd (run_tx (fetch_work_tx cd now tok lt session flt) db))"
    by (rule run_tx_queued [OF q], rule queued_mono [OF q], erule fetch_work_cases)
      (auto simp: lock_work_def dest: claim_session_frames(1))
  with OP_Fetch_Work q show ?thesis by (simp add: fetch_work_item_def queued_refl)
next
  case (OP_Ack_Work now tok completion)
  have "still_queued q (snd (ack_work_item cd now tok completion db))"
    unfolding ack_work_item_def
    by (rule run_tx_queued [OF q], rule queued_mono [OF q], erule ack_work_cases)
      (auto simp: frames insert_orch_row_def split: option.splits)
  with OP_Ack_Work show ?thesis by simp
next
  case (OP_Renew_Work now tok ext)
  have "still_queued q (snd (renew_work_item_lock now tok ext db))"
    unfolding renew_work_item_lock_def
    by (rule run_tx_queued [OF q], rule queued_mono [OF q]) (auto simp: frames split: option.splits)
  with OP_Renew_Work show ?thesis by simp
next
  case (OP_Abandon_Work now tok delay ig)
  have "still_queued q (snd (abandon_work_item now tok delay ig db))"
    unfolding abandon_work_item_def Let_def
    by (rule run_tx_queued [OF q], rule queued_mono [OF q]) (auto split: if_splits)
  with OP_Abandon_Work show ?thesis by simp
next
  case (OP_Delete ids force)
  show ?thesis
  proof (cases "oq_instance q \<in> set ids")
    case False
    with q have "still_queued q (delete_rows ids db)" by (auto simp: still_queued_def delete_rows_def)
    then have "still_queued q (snd (delete_instances_atomic ids force db))"
      unfolding delete_instances_atomic_def
      by (intro run_tx_queued [OF q]) (auto dest: delete_tx_cases simp: queued_refl q)
    with OP_Delete show ?thesis by simp
  qed (simp add: may_leave_def OP_Delete)
next
  case (OP_Prune inst options)
  with q show ?thesis by (auto simp: still_queued_def prune_frames)
qed (use q in \<open>auto simp: still_queued_def enqueue_for_worker_def insert_worker_row_def renew_session_lock_def
    cleanup_orphaned_sessions_def Let_def\<close>)



subsection \<open>Acknowledgement\<close>

text \<open>An acknowledgement is all or nothing. On an error the store is unchanged. On success the token was
  that of an unexpired instance lock, and in one step exactly the messages fetched under the token leave
  the queue, the delta is appended to the history of the execution, the new messages and activities are
  enqueued in order (less the activities this turn cancels), and the lock is released, so the same
  token cannot be used again.\<close>

theorem ack_all_or_nothing:
  "case ack_orchestration_item cd now chk tok req db of
     (Inl e, db') \<Rightarrow> db' = db
   | (Inr _, db') \<Rightarrow> \<exists>inst.
       (\<exists>l \<in> set (db_instance_locks db). il_instance l = inst \<and> il_lock_token l = tok \<and> chk < il_locked_until l)
       \<and> db_orchestrator_queue db' = sql_delete (\<lambda>q. oq_lock_token q = Some tok) (db_orchestrator_queue db)
           @ orch_rows cd now (db_next_orch_id db) (ar_orchestrator_items req)
       \<and> db_history db' = db_history db @ map (event_row cd inst (ar_execution_id req)) (ar_history_delta req)
       \<and> db_worker_queue db' = db_worker_queue (delete_cancelled (ar_cancelled_activities req)
           (db\<lparr>db_worker_queue := db_worker_queue db
              @ worker_rows cd now (db_next_worker_id db) (ar_worker_items req)\<rparr>))
       \<and> db_instance_locks db'
           = sql_delete (\<lambda>l. il_instance l = inst \<and> il_lock_token l = tok) (db_instance_locks db)"
proof (cases "ack_orchestration_tx cd now chk tok req db")
  case (Inl e)
  then show ?thesis by (simp add: ack_orchestration_item_def run_tx_def)
next
  case (Inr x)
  obtain r db' where x: "ack_orchestration_tx cd now chk tok req db = Inr (r, db')" using Inr by (cases x) auto
  from x obtain inst db1 where w: "ack_writes cd now tok inst req db = Inr db1"
    and v: "lock_valid chk inst tok db1" and db': "db' = release_lock inst tok db1" by (rule ack_tx_cases)
  have live: "\<exists>l \<in> set (db_instance_locks db). il_instance l = inst \<and> il_lock_token l = tok
      \<and> chk < il_locked_until l"
    using v by (auto simp: lock_valid_def sql_count_0 ack_writes_tables(2) [OF w])
  have run: "ack_orchestration_item cd now chk tok req db = (Inr r, db')"
    using x by (simp add: ack_orchestration_item_def run_tx_def)
  show ?thesis unfolding run prod.case sum.case
    by (intro exI [of _ inst] conjI live) (simp_all add: db' release_lock_def ack_writes_tables [OF w])
qed

end
