(* ===== verification/Sql_Kv.thy ===== *)
theory Sql_Kv
  imports Sql_Props Kv_Store
begin

text \<open>
  Histories and key-value data in the store. What an acknowledgement appends is what the next read
  returns, and the two key-value tables, with tombstones in the delta and the merge at the end of
  an execution, refine the map of \<open>Kv_Store\<close> on which the key-value events act.
\<close>

subsection \<open>Reading back a history\<close>

lemma insort_key_append:
  "(\<And>y. y \<in> set ys \<Longrightarrow> f x \<le> f y) \<Longrightarrow> insort_key f x (xs @ ys) = insort_key f x xs @ ys"
  by (induction xs) (auto intro: insort_is_Cons)

lemma sort_key_append_greater:
  assumes "sorted (map f ys)" and "\<And>x y. x \<in> set xs \<Longrightarrow> y \<in> set ys \<Longrightarrow> f x \<le> f y"
  shows "sort_key f (xs @ ys) = sort_key f xs @ ys"
  using assms(2)
proof (induction xs)
  case Nil
  with assms(1) show ?case by (simp add: sort_key_id_if_sorted)
next
  case (Cons x xs)
  then have "sort_key f (xs @ ys) = sort_key f xs @ ys" by simp
  then show ?case using Cons.prems by (simp add: insort_key_append)
qed

lemma read_events_append:
  "read_events rd (xs @ ys) =
     and_then (read_events rd xs) (\<lambda>a. and_then (read_events rd ys) (\<lambda>b. Inr (a @ b)))"
proof (induction xs)
  case Nil
  show ?case by (cases "read_events rd ys") simp_all
next
  case (Cons x xs)
  then show ?case
    by (cases "rd x"; cases "read_events rd xs"; cases "read_events rd ys") simp_all
qed

lemma read_events_encoded: "codec_ok cd \<Longrightarrow> read_events (cd_read_event cd) (map (cd_event cd) evs) = Inr evs"
  by (induction evs) simp_all

lemma history_rows_append:
  assumes h: "db_history db' = db_history db @ map (event_row cd inst ex) evs"
    and sorted: "sorted_wrt (<) (map ev_event_id evs)"
    and above: "\<And>r ev. r \<in> set (execution_rows inst ex db) \<Longrightarrow> ev \<in> set evs \<Longrightarrow> hi_event_id r < ev_event_id ev"
  shows "execution_rows inst ex db' = execution_rows inst ex db @ map (event_row cd inst ex) evs"
proof -
  have f: "filter (\<lambda>r. hi_instance r = inst \<and> hi_execution_id r = ex) (map (event_row cd inst ex) evs)
      = map (event_row cd inst ex) evs" by (rule filter_True) (auto simp: event_row_def)
  have ids: "map hi_event_id (map (event_row cd inst ex) evs) = map ev_event_id evs"
    by (simp add: event_row_def)
  have "sorted (map hi_event_id (map (event_row cd inst ex) evs))"
    unfolding ids using sorted by (simp add: strict_sorted_imp_sorted)
  then show ?thesis unfolding execution_rows_def h filter_append f
  proof (rule sort_key_append_greater)
    fix r y
    assume "r \<in> set (filter (\<lambda>r. hi_instance r = inst \<and> hi_execution_id r = ex) (db_history db))"
      and "y \<in> set (map (event_row cd inst ex) evs)"
    then show "hi_event_id r \<le> hi_event_id y"
      using above by (force simp: execution_rows_def event_row_def)
  qed
qed

lemma other_rows_append:
  assumes h: "db_history db' = db_history db @ map (event_row cd inst ex) evs" and ne: "(i, x) \<noteq> (inst, ex)"
  shows "execution_rows i x db' = execution_rows i x db"
proof -
  have "filter (\<lambda>r. hi_instance r = i \<and> hi_execution_id r = x) (map (event_row cd inst ex) evs) = []"
    using ne by (auto simp: event_row_def filter_empty_conv)
  then show ?thesis by (simp add: execution_rows_def h)
qed

lemma ack_ok_writes:
  assumes "ack_orchestration_item cd now chk tok req db = (Inr u, db')"
    and "instance_of_token tok db = Some inst"
  obtains db1 where "ack_writes cd now tok inst req db = Inr db1" "db' = release_lock inst tok db1"
proof -
  from assms(1) have "ack_orchestration_tx cd now chk tok req db = Inr (u, db')"
    by (simp add: ack_orchestration_item_def run_tx_ok)
  then show thesis by (rule ack_tx_cases) (use assms(2) that in auto)
qed

lemma committed_delta_reads_back:
  assumes "codec_ok cd" and "instance_of_token tok db = Some inst"
    and "ack_orchestration_item cd now chk tok req db = (Inr u, db')"
    and "sorted_wrt (<) (map ev_event_id (ar_history_delta req))"
    and "\<And>r ev. r \<in> set (execution_rows inst (ar_execution_id req) db) \<Longrightarrow> ev \<in> set (ar_history_delta req)
           \<Longrightarrow> hi_event_id r < ev_event_id ev"
    and "read_with_execution cd inst (ar_execution_id req) db = Inr old"
  shows "read_with_execution cd inst (ar_execution_id req) db' = Inr (old @ ar_history_delta req)
     \<and> (\<forall>i x. (i, x) \<noteq> (inst, ar_execution_id req)
           \<longrightarrow> read_with_execution cd i x db' = read_with_execution cd i x db)"
proof -
  from assms(3,2) obtain db1 where w: "ack_writes cd now tok inst req db = Inr db1"
    and db': "db' = release_lock inst tok db1" by (rule ack_ok_writes)
  have h: "db_history db' = db_history db @ map (event_row cd inst (ar_execution_id req)) (ar_history_delta req)"
    using ack_writes_tables(3) [OF w] by (simp add: db' release_lock_def)
  have enc: "map hi_event_data (map (event_row cd inst (ar_execution_id req)) evs) = map (cd_event cd) evs" for evs
    by (simp add: event_row_def)
  from assms(6) have old: "read_events (cd_read_event cd)
      (map hi_event_data (execution_rows inst (ar_execution_id req) db)) = Inr old"
    by (auto simp: read_with_execution_def split: sum.splits)
  have "read_with_execution cd inst (ar_execution_id req) db' = Inr (old @ ar_history_delta req)"
    unfolding read_with_execution_def history_rows_append [OF h assms(4,5), simplified] map_append enc
    by (simp add: read_events_append old read_events_encoded [OF assms(1)])
  moreover have "read_with_execution cd i x db' = read_with_execution cd i x db"
    if "(i, x) \<noteq> (inst, ar_execution_id req)" for i x
    by (simp add: read_with_execution_def other_rows_append [OF h that])
  ultimately show ?thesis by blast
qed

text \<open>C5. A committed delta is read back exactly: after a successful acknowledgement the history of the
  execution is the events it had followed by the delta, in order, and the history of every other execution is what it was.
  The delta's ids must increase and lie above the stored ones, as those of a turn do.\<close>

theorem committed_history_roundtrip:
  assumes "codec_ok cd" and "instance_of_token tok db = Some inst"
    and "ack_orchestration_item cd now chk tok req db = (Inr u, db')"
    and "sorted_wrt (<) (map ev_event_id (ar_history_delta req))"
    and "\<And>r ev. r \<in> set (execution_rows inst (ar_execution_id req) db) \<Longrightarrow> ev \<in> set (ar_history_delta req)
           \<Longrightarrow> hi_event_id r < ev_event_id ev"
    and "read_with_execution cd inst (ar_execution_id req) db = Inr old"
  shows "read_with_execution cd inst (ar_execution_id req) db' = Inr (old @ ar_history_delta req)
     \<and> (\<forall>i x. (i, x) \<noteq> (inst, ar_execution_id req)
           \<longrightarrow> read_with_execution cd i x db' = read_with_execution cd i x db)"
  using assms by (rule committed_delta_reads_back)

definition started_request :: "sem_ver ack_request" where
  "started_request =
     \<lparr>ar_execution_id = 1,
      ar_history_delta = [with_event_id 1 ''i'' 1 None (OrchestrationStarted ''o'' ''1.0.0'' ''x'' None None None None),
        with_event_id 2 ''i'' 1 None (KeyValueSet ''k'' ''v'' 7)],
      ar_worker_items = [], ar_orchestrator_items = [],
      ar_metadata = metadata_default\<lparr>em_orchestration_name := Some ''o'', em_orchestration_version := Some ''1.0.0''\<rparr>,
      ar_cancelled_activities = []\<rparr>"

definition fetched_start :: "(event, work_item) db" where
  "fetched_start = snd (fetch_orchestration_item plain_codec 5 ''t'' 1000000000 None two_starts)"

lemma fetched_start_simps:
  "instance_of_token ''t'' fetched_start = Some ''i''"
  "execution_rows ''i'' (ar_execution_id started_request) fetched_start = []"
  "db_ok fetched_start"
  "isl (fst (ack_orchestration_item plain_codec 6 6 ''t'' started_request fetched_start)) = False"
proof -
  have "db_ok (sql_run plain_codec (OP_Fetch_Orchestration 5 ''t'' 1000000000 None) two_starts)"
    by (rule sql_run_ok) (simp_all add: two_starts_ok)
  then show "db_ok fetched_start" by (simp add: fetched_start_def)
qed (simp_all add: fetched_start_def two_starts_def start_item_def started_request_def metadata_default_def
    with_event_id_def sql_eval)

theorem committed_history_roundtrip_witness:
  "\<exists>db'. ack_orchestration_item plain_codec 6 6 ''t'' started_request fetched_start = (Inr (), db')
     \<and> read_with_execution plain_codec ''i'' 1 db' = Inr (ar_history_delta started_request)"
proof -
  obtain u db' where a: "ack_orchestration_item plain_codec 6 6 ''t'' started_request fetched_start = (Inr u, db')"
    using fetched_start_simps(4)
    by (cases "ack_orchestration_item plain_codec 6 6 ''t'' started_request fetched_start";
        cases "fst (ack_orchestration_item plain_codec 6 6 ''t'' started_request fetched_start)") auto
  have ex: "ar_execution_id started_request = 1" by (simp add: started_request_def)
  have s: "sorted_wrt (<) (map ev_event_id (ar_history_delta started_request))"
    by (simp add: started_request_def)
  have o: "read_with_execution plain_codec ''i'' (ar_execution_id started_request) fetched_start = Inr []"
    by (simp add: read_with_execution_def fetched_start_simps)
  from committed_history_roundtrip [OF plain_codec_ok fetched_start_simps(1) a s _ o]
  have "read_with_execution plain_codec ''i'' (ar_execution_id started_request) db'
      = Inr (ar_history_delta started_request)" by (simp add: fetched_start_simps)
  then show ?thesis using a by (auto simp: ex)
qed

subsection \<open>The key-value tables\<close>

definition lookup_delta :: "string \<Rightarrow> string \<Rightarrow> kv_delta_row list \<Rightarrow> kv_delta_row option" where
  "lookup_delta inst key t = List.find (\<lambda>r. kd_instance r = inst \<and> kd_key r = key) t"

definition lookup_store :: "string \<Rightarrow> string \<Rightarrow> kv_store_row list \<Rightarrow> kv_store_row option" where
  "lookup_store inst key t = List.find (\<lambda>r. ks_instance r = inst \<and> ks_key r = key) t"

text \<open>The abstraction: the entries of an instance, those of the delta before those of the store.\<close>

definition tables_view :: "string \<Rightarrow> kv_store_row list \<Rightarrow> kv_delta_row list \<Rightarrow> kv_map" where
  "tables_view inst store delta key =
     (case lookup_delta inst key delta of
        Some d \<Rightarrow> map_option (\<lambda>v. \<lparr>kv_value = v, kv_last_updated_at_ms = kd_last_updated_at_ms d\<rparr>) (kd_value d)
      | None \<Rightarrow> map_option (\<lambda>r. \<lparr>kv_value = ks_value r, kv_last_updated_at_ms = ks_last_updated_at_ms r\<rparr>)
                  (lookup_store inst key store))"

definition db_view :: "string \<Rightarrow> ('d, 'w) db \<Rightarrow> kv_map" where
  "db_view inst db = tables_view inst (db_kv_store db) (db_kv_delta db)"

lemma provider_get_kv_value_view: "provider_get_kv_value inst key db = map_option kv_value (db_view inst db key)"
  by (auto simp: provider_get_kv_value_def find_delta_def find_store_def db_view_def tables_view_def
      lookup_delta_def lookup_store_def option.map_comp o_def option.map_ident split: option.splits)

lemma lookup_upsert_delta:
  "lookup_delta i k (upsert_delta inst key v ts t) =
     (if i = inst \<and> k = key
      then Some \<lparr>kd_instance = inst, kd_key = key, kd_value = v, kd_last_updated_at_ms = ts\<rparr>
      else lookup_delta i k t)"
proof (cases "(inst, key) \<in> delta_key ` set t")
  case False
  then have "lookup_delta inst key t = None"
    by (auto simp: lookup_delta_def find_None_all delta_key_def)
  with False show ?thesis
    by (auto simp: upsert_delta_def sql_upsert_def delta_key_def lookup_delta_def find_append split: option.splits)
next
  case True
  then have "upsert_delta inst key v ts t = sql_update (\<lambda>r. kd_instance r = inst \<and> kd_key r = key)
      (\<lambda>r. r\<lparr>kd_value := v, kd_last_updated_at_ms := ts\<rparr>) t"
    by (simp add: upsert_delta_def sql_upsert_def delta_key_def)
  moreover obtain r where "lookup_delta inst key t = Some r"
    using True by (cases "lookup_delta inst key t") (auto simp: lookup_delta_def find_None_all delta_key_def)
  moreover from this have "kd_instance r = inst" "kd_key r = key"
    by (auto simp: lookup_delta_def dest: find_Some_mem)
  ultimately show ?thesis
    by (cases r) (auto simp: lookup_delta_def find_sql_update map_option_case dest!: find_Some_mem split: option.splits)
qed

lemma lookup_upsert_store:
  "lookup_store i k (sql_upsert store_key
      \<lparr>ks_instance = inst, ks_key = key, ks_value = v, ks_last_updated_at_ms = ts\<rparr>
      (\<lambda>r. r\<lparr>ks_value := v, ks_last_updated_at_ms := ts\<rparr>) t) =
     (if i = inst \<and> k = key
      then Some \<lparr>ks_instance = inst, ks_key = key, ks_value = v, ks_last_updated_at_ms = ts\<rparr>
      else lookup_store i k t)"
proof (cases "(inst, key) \<in> store_key ` set t")
  case False
  then have "lookup_store inst key t = None"
    by (auto simp: lookup_store_def find_None_all store_key_def)
  with False show ?thesis
    by (auto simp: sql_upsert_def store_key_def lookup_store_def find_append split: option.splits)
next
  case True
  then have "sql_upsert store_key \<lparr>ks_instance = inst, ks_key = key, ks_value = v, ks_last_updated_at_ms = ts\<rparr>
      (\<lambda>r. r\<lparr>ks_value := v, ks_last_updated_at_ms := ts\<rparr>) t
    = sql_update (\<lambda>r. ks_instance r = inst \<and> ks_key r = key)
      (\<lambda>r. r\<lparr>ks_value := v, ks_last_updated_at_ms := ts\<rparr>) t"
    by (simp add: sql_upsert_def store_key_def)
  moreover obtain r where "lookup_store inst key t = Some r"
    using True by (cases "lookup_store inst key t") (auto simp: lookup_store_def find_None_all store_key_def)
  moreover from this have "ks_instance r = inst" "ks_key r = key"
    by (auto simp: lookup_store_def dest: find_Some_mem)
  ultimately show ?thesis
    by (cases r) (auto simp: lookup_store_def find_sql_update map_option_case dest!: find_Some_mem split: option.splits)
qed

text \<open>Clearing everything: every key of the instance has a tombstone afterwards.\<close>

lemma fold_tombstones:
  assumes "\<forall>s \<in> set rows. ks_instance s = inst"
  shows "\<forall>r \<in> set t. kd_instance r = inst \<longrightarrow> kd_value r = None \<Longrightarrow>
      \<forall>r \<in> set (fold (insert_tombstone now) rows t). kd_instance r = inst \<longrightarrow> kd_value r = None"
    and "delta_key ` set t \<union> store_key ` set rows \<subseteq> delta_key ` set (fold (insert_tombstone now) rows t)"
    and "i \<noteq> inst \<Longrightarrow> lookup_delta i k (fold (insert_tombstone now) rows t) = lookup_delta i k t"
  using assms
proof (induction rows arbitrary: t)
  case (Cons s rows)
  {
    case 1
    have "\<forall>r \<in> set (insert_tombstone now s t). kd_instance r = inst \<longrightarrow> kd_value r = None"
      using 1(1) by (auto simp: insert_tombstone_def sql_insert_ignore_def)
    with Cons.IH(1) 1(2) show ?case by simp
  next
    case 2
    have "delta_key ` set t \<union> {store_key s} \<subseteq> delta_key ` set (insert_tombstone now s t)"
      by (auto simp: insert_tombstone_def sql_insert_ignore_def delta_key_def store_key_def)
    moreover have "delta_key ` set (insert_tombstone now s t) \<union> store_key ` set rows
        \<subseteq> delta_key ` set (fold (insert_tombstone now) rows (insert_tombstone now s t))"
      by (rule Cons.IH(2)) (use 2 in simp)
    ultimately show ?case unfolding fold.simps o_apply list.set image_insert by blast
  next
    case 3
    then have "lookup_delta i k (insert_tombstone now s t) = lookup_delta i k t"
      by (auto simp: insert_tombstone_def sql_insert_ignore_def lookup_delta_def find_append split: option.splits)
    with Cons.IH(3) [of "insert_tombstone now s t"] 3 show ?case by simp
  }
qed (simp_all add: insert_tombstone_def)

lemma sql_update_all:
  "(\<And>r. P r \<Longrightarrow> Q (f r)) \<Longrightarrow> (\<And>r. \<not> P r \<Longrightarrow> Q r) \<Longrightarrow> \<forall>r \<in> set (sql_update P f t). Q r"
  unfolding sql_update_def by (induction t) simp_all

lemma cleared_view:
  "tables_view i store (materialize_kv now inst store ev t) = (if i = inst then Map.empty else tables_view i store t)"
  if ev: "ev_kind ev = KeyValuesCleared"
proof
  fix k
  let ?t = "sql_update (\<lambda>r. kd_instance r = inst) (\<lambda>r. r\<lparr>kd_value := None, kd_last_updated_at_ms := nat now\<rparr>) t"
  let ?rows = "filter (\<lambda>s. ks_instance s = inst) store"
  have m: "materialize_kv now inst store ev t = fold (insert_tombstone now) ?rows ?t"
    by (simp add: materialize_kv_def ev Let_def)
  have rows: "\<forall>s \<in> set ?rows. ks_instance s = inst" by simp
  have "\<forall>r \<in> set ?t. kd_instance r = inst \<longrightarrow> kd_value r = None"
    by (rule sql_update_all) simp_all
  note tomb = fold_tombstones(1) [OF rows this, where now = now]
    and keys = fold_tombstones(2) [OF rows, where now = now and t = ?t]
  show "tables_view i store (materialize_kv now inst store ev t) k
      = (if i = inst then Map.empty else tables_view i store t) k"
  proof (cases "i = inst")
    case True
    show ?thesis
    proof (cases "lookup_delta inst k (fold (insert_tombstone now) ?rows ?t)")
      case None
      then have "(inst, k) \<notin> delta_key ` set (fold (insert_tombstone now) ?rows ?t)"
        by (auto simp: lookup_delta_def find_None_all delta_key_def)
      with keys have "(inst, k) \<notin> store_key ` set ?rows" by blast
      then have "lookup_store inst k store = None"
        by (auto simp: lookup_store_def find_None_all store_key_def)
      with None True show ?thesis by (simp add: tables_view_def m)
    next
      case (Some d)
      then have "kd_value d = None" using tomb by (auto simp: lookup_delta_def dest: find_Some_mem)
      with Some True show ?thesis by (simp add: tables_view_def m)
    qed
  next
    case False
    have "lookup_delta i k ?t = lookup_delta i k t"
      unfolding lookup_delta_def by (subst find_sql_update) (use False in \<open>auto simp: option.map_ident
          map_option_case dest!: find_Some_mem split: option.splits\<close>)
    with fold_tombstones(3) [OF rows False, where now = now and t = ?t and k = k] False
    show ?thesis by (simp add: tables_view_def m)
  qed
qed

lemma materialize_view:
  "tables_view i store (materialize_kv now inst store ev t)
     = (if i = inst then kv_apply (ev_kind ev) (tables_view i store t) else tables_view i store t)"
proof (cases "ev_kind ev = KeyValuesCleared")
  case True
  then show ?thesis by (simp add: cleared_view)
next
  case False
  then show ?thesis
    by (cases "ev_kind ev") (auto simp: materialize_kv_def tables_view_def lookup_upsert_delta fun_eq_iff
        split: option.splits)
qed

lemma fold_materialize_view:
  "tables_view i store (fold (materialize_kv now inst store) evs t)
     = (if i = inst then fold kv_apply (map ev_kind evs) (tables_view i store t) else tables_view i store t)"
  by (induction evs arbitrary: t) (simp_all add: materialize_view)

text \<open>The merge at the end of an execution.\<close>

lemma lookup_merge_row:
  "lookup_store i k (merge_row inst d st) =
     (if i = inst \<and> kd_key d = k \<and> kd_value d \<noteq> None
      then Some \<lparr>ks_instance = inst, ks_key = k, ks_value = the (kd_value d),
                 ks_last_updated_at_ms = kd_last_updated_at_ms d\<rparr>
      else lookup_store i k st)"
  by (cases "kd_value d") (auto simp: merge_row_def lookup_upsert_store)

lemma find_key_None: "k \<notin> key ` set ds \<Longrightarrow> (\<And>d. Q d \<Longrightarrow> key d = k) \<Longrightarrow> List.find Q ds = None"
  by (metis find_None_all image_eqI)

lemma lookup_merge_rows:
  assumes "distinct (map kd_key ds)" and "\<forall>d \<in> set ds. kd_instance d = inst"
  shows "lookup_store i k (fold (merge_row inst) ds st) =
     (case List.find (\<lambda>d. i = inst \<and> kd_key d = k \<and> kd_value d \<noteq> None) ds of
        None \<Rightarrow> lookup_store i k st
      | Some d \<Rightarrow> Some \<lparr>ks_instance = inst, ks_key = k, ks_value = the (kd_value d),
                        ks_last_updated_at_ms = kd_last_updated_at_ms d\<rparr>)"
  using assms
proof (induction ds arbitrary: st)
  case (Cons d ds)
  have IH: "lookup_store i k (fold (merge_row inst) ds (merge_row inst d st)) =
     (case List.find (\<lambda>d. i = inst \<and> kd_key d = k \<and> kd_value d \<noteq> None) ds of
        None \<Rightarrow> lookup_store i k (merge_row inst d st)
      | Some d \<Rightarrow> Some \<lparr>ks_instance = inst, ks_key = k, ks_value = the (kd_value d),
                        ks_last_updated_at_ms = kd_last_updated_at_ms d\<rparr>)"
    using Cons by simp
  show ?case
  proof (cases "i = inst \<and> kd_key d = k \<and> kd_value d \<noteq> None")
    case True
    then obtain v where v: "kd_value d = Some v" by auto
    from True Cons.prems(1) have "List.find (\<lambda>d. i = inst \<and> kd_key d = k \<and> kd_value d \<noteq> None) ds = None"
      by (intro find_key_None [of k kd_key]) auto
    with True v show ?thesis unfolding fold.simps o_apply IH by (simp add: lookup_merge_row)
  next
    case False
    then have l: "lookup_store i k (merge_row inst d st) = lookup_store i k st" by (auto simp: lookup_merge_row)
    show ?thesis unfolding fold.simps o_apply IH l List.find.simps if_not_P [OF False] ..
  qed
qed simp

lemma deltas_distinct:
  assumes "distinct (map delta_key t)"
  shows "distinct (map kd_key (filter (\<lambda>r. kd_instance r = inst) t))"
  using assms by (auto simp: distinct_map inj_on_def delta_key_def)

lemma lookup_delta_filter:
  "lookup_delta inst k t = List.find (\<lambda>d. kd_key d = k) (filter (\<lambda>r. kd_instance r = inst) t)"
  unfolding lookup_delta_def by (induction t) auto

lemma find_distinct_value:
  assumes "distinct (map kd_key ds)"
  shows "List.find (\<lambda>d. kd_key d = k \<and> kd_value d \<noteq> None) ds
     = (case List.find (\<lambda>d. kd_key d = k) ds of
          Some d \<Rightarrow> if kd_value d = None then None else Some d | None \<Rightarrow> None)"
  using assms
proof (induction ds)
  case (Cons a ds)
  show ?case
  proof (cases "kd_key a = k")
    case True
    with Cons.prems have "List.find (\<lambda>d. kd_key d = k) ds = None"
      "List.find (\<lambda>d. kd_key d = k \<and> kd_value d \<noteq> None) ds = None"
      by (auto intro!: find_key_None [of k kd_key])
    with True show ?thesis by simp
  qed (use Cons in simp)
qed simp

lemma merge_view:
  assumes "distinct (map delta_key (db_kv_delta db))"
  shows "db_view i (merge_kv inst db) = db_view i db"
proof
  fix k
  let ?ds = "filter (\<lambda>r. kd_instance r = inst) (db_kv_delta db)"
  let ?st = "fold (merge_row inst) ?ds (db_kv_store db)"
  let ?tomb = "\<lambda>r. ks_instance r = inst \<and> ks_key r \<in> kd_key ` set (filter (\<lambda>d. kd_value d = None) ?ds)"
  have d: "distinct (map kd_key ?ds)" using assms by (rule deltas_distinct)
  have tables: "db_kv_store (merge_kv inst db) = sql_delete ?tomb ?st"
    "db_kv_delta (merge_kv inst db) = sql_delete (\<lambda>r. kd_instance r = inst) (db_kv_delta db)"
    by (simp_all add: merge_kv_def Let_def)
  note look = lookup_merge_rows [OF d, of inst i k "db_kv_store db", simplified]
  show "db_view i (merge_kv inst db) k = db_view i db k"
  proof (cases "i = inst")
    case False
    have "lookup_delta i k (sql_delete (\<lambda>r. kd_instance r = inst) (db_kv_delta db)) = lookup_delta i k (db_kv_delta db)"
      unfolding lookup_delta_def using False by (intro find_sql_delete) auto
    moreover have "lookup_store i k (sql_delete ?tomb ?st) = lookup_store i k ?st"
      unfolding lookup_store_def using False by (intro find_sql_delete) auto
    moreover have "lookup_store i k ?st = lookup_store i k (db_kv_store db)"
    proof -
      have "List.find (\<lambda>d. i = inst \<and> kd_key d = k \<and> kd_value d \<noteq> None) ?ds = None"
        using False by (simp add: find_None_all)
      with lookup_merge_rows [OF d, of inst i k "db_kv_store db"] show ?thesis by simp
    qed
    ultimately show ?thesis unfolding db_view_def tables_view_def tables
      by (cases "lookup_delta i k (db_kv_delta db)") simp_all
  next
    case True
    have none: "lookup_delta inst k (sql_delete (\<lambda>r. kd_instance r = inst) (db_kv_delta db)) = None"
      by (auto simp: lookup_delta_def find_None_all)
    have st: "lookup_store inst k ?st = (case lookup_delta inst k (db_kv_delta db) of
        Some d \<Rightarrow> (case kd_value d of Some v \<Rightarrow> Some \<lparr>ks_instance = inst, ks_key = k, ks_value = v,
                        ks_last_updated_at_ms = kd_last_updated_at_ms d\<rparr> | None \<Rightarrow> lookup_store inst k (db_kv_store db))
      | None \<Rightarrow> lookup_store inst k (db_kv_store db))"
      using lookup_merge_rows [OF d, of inst inst k "db_kv_store db"] find_distinct_value [OF d, of k]
      by (auto simp: lookup_delta_filter split: option.splits)
    show ?thesis
    proof (cases "\<exists>d. lookup_delta inst k (db_kv_delta db) = Some d \<and> kd_value d = None")
      case True
      then obtain d where dd: "lookup_delta inst k (db_kv_delta db) = Some d" "kd_value d = None" by blast
      then have "d \<in> set ?ds" "kd_key d = k"
        by (auto simp: lookup_delta_filter dest: find_Some_mem)
      with dd(2) have "k \<in> kd_key ` set (filter (\<lambda>d. kd_value d = None) ?ds)" by force
      then have "lookup_store inst k (sql_delete ?tomb ?st) = None"
        by (auto simp: lookup_store_def find_None_all)
      with none dd \<open>i = inst\<close> show ?thesis by (simp add: db_view_def tables_view_def tables)
    next
      case False
      have "k \<notin> kd_key ` set (filter (\<lambda>d. kd_value d = None) ?ds)"
      proof
        assume "k \<in> kd_key ` set (filter (\<lambda>d. kd_value d = None) ?ds)"
        then obtain e where e: "e \<in> set ?ds" "kd_key e = k" "kd_value e = None" by auto
        then obtain d where dd: "lookup_delta inst k (db_kv_delta db) = Some d"
          by (cases "lookup_delta inst k (db_kv_delta db)") (auto simp: lookup_delta_def find_None_all)
        then have "d \<in> set ?ds" "kd_key d = k" by (auto simp: lookup_delta_filter dest: find_Some_mem)
        with e d have "d = e" by (auto simp: distinct_map inj_on_def)
        with e dd False show False by auto
      qed
      then have "lookup_store inst k (sql_delete ?tomb ?st) = lookup_store inst k ?st"
        unfolding lookup_store_def by (intro find_sql_delete) auto
      with none st False \<open>i = inst\<close> show ?thesis
        by (auto simp: db_view_def tables_view_def tables split: option.splits)
    qed
  qed
qed

lemma ack_kv_view:
  assumes "distinct (map delta_key (db_kv_delta db))"
  shows "db_view i (ack_kv now inst delta md db)
     = (if i = inst then fold kv_apply (map ev_kind delta) (db_view i db) else db_view i db)"
proof -
  let ?db = "db\<lparr>db_kv_delta := fold (materialize_kv now inst (db_kv_store db)) delta (db_kv_delta db)\<rparr>"
  have "distinct (map delta_key (db_kv_delta ?db))"
    using fold_invariant [where Q = "\<lambda>t. distinct (map delta_key t)", OF assms materialize_kv_distinct] by simp
  then have "db_view i (ack_kv now inst delta md db) = db_view i ?db"
    by (simp add: ack_kv_def Let_def merge_view)
  then show ?thesis by (simp add: db_view_def fold_materialize_view)
qed

lemma ack_view:
  assumes "db_ok db" and a: "ack_orchestration_item cd now chk tok req db = (Inr u, db')"
    and i: "instance_of_token tok db = Some inst"
  shows "db_view j db' = (if j = inst then fold kv_apply (map ev_kind (ar_history_delta req)) (db_view j db)
                          else db_view j db)"
proof -
  from a i obtain db4 where w: "ack_writes cd now tok inst req db = Inr db4" and db': "db' = release_lock inst tok db4"
    by (rule ack_ok_writes)
  from w obtain db1 db2 where
    1: "ack_instance_row now inst (ar_execution_id req) (ar_metadata req) (delete_fetched tok db) = Inr db1" and
    2: "ack_history cd inst (ar_execution_id req) (ar_history_delta req)
          (ack_execution_row inst (ar_execution_id req) (ar_metadata req) db1) = Inr db2" and
    4: "db4 = fold (ack_enqueue_orchestrator cd now) (ar_orchestrator_items req)
       (delete_cancelled (ar_cancelled_activities req)
         (fold (insert_worker_row cd now) (ar_worker_items req)
           (ack_kv now inst (ar_history_delta req) (ar_metadata req)
             (ack_custom_status inst (ar_history_delta req)
               (ack_status now inst (ar_execution_id req) (ar_metadata req) db2)))))"
    by (rule ack_writes_parts)
  let ?db3 = "ack_custom_status inst (ar_history_delta req) (ack_status now inst (ar_execution_id req) (ar_metadata req) db2)"
  have kv: "db_kv_store ?db3 = db_kv_store db" "db_kv_delta ?db3 = db_kv_delta db"
    using ack_history_tables(2,3) [OF 2] ack_tables(9,13) [OF 1]
    by (simp_all add: ack_tables delete_fetched_def)
  have "db_view j db' = db_view j (ack_kv now inst (ar_history_delta req) (ar_metadata req) ?db3)"
    by (simp add: db' 4 db_view_def release_lock_def frames)
  also have "\<dots> = (if j = inst then fold kv_apply (map ev_kind (ar_history_delta req)) (db_view j ?db3)
                   else db_view j ?db3)"
    using assms(1) by (intro ack_kv_view) (simp add: kv db_ok_defs)
  finally show ?thesis by (simp add: db_view_def kv)
qed

text \<open>C7. The key-value tables refine the events: after every committed turn, reading a key of the instance gives what the
  key-value events of the delta, applied in order to the map before, give, whether or not the turn ends the
  execution (and merges the delta table into the store table); no other instance sees a change.\<close>

theorem kv_tables_refine_events:
  assumes "db_ok db" and "instance_of_token tok db = Some inst"
    and "ack_orchestration_item cd now chk tok req db = (Inr u, db')"
  shows "provider_get_kv_value inst key db' = map_option kv_value
       (fold kv_apply (map ev_kind (ar_history_delta req)) (db_view inst db) key)
     \<and> (j \<noteq> inst \<longrightarrow> provider_get_kv_value j key db' = provider_get_kv_value j key db)"
  using ack_view [OF assms(1,3,2)] by (simp add: provider_get_kv_value_view)

theorem kv_tables_refine_events_witness:
  "\<exists>db'. ack_orchestration_item plain_codec 6 6 ''t'' started_request fetched_start = (Inr (), db')
     \<and> provider_get_kv_value ''i'' ''k'' db' = Some ''v''"
proof -
  obtain u db' where a: "ack_orchestration_item plain_codec 6 6 ''t'' started_request fetched_start = (Inr u, db')"
    using fetched_start_simps(4)
    by (cases "ack_orchestration_item plain_codec 6 6 ''t'' started_request fetched_start";
        cases "fst (ack_orchestration_item plain_codec 6 6 ''t'' started_request fetched_start)") auto
  from kv_tables_refine_events [OF fetched_start_simps(3,1) a, of "''k''"] a
  show ?thesis by (auto simp: started_request_def)
qed

end
