(* ===== verification/Sql_Work.thy ===== *)
theory Sql_Work
  imports Sql_Kv
begin

text \<open>
  Properties of the worker queue of the store: which item a fetch hands out (tags, sessions,
  order), the claim of a session, the completion of an item, and the messages that block a queue.
\<close>

subsection \<open>Selecting work\<close>

lemma tag_clause: "build_tag_clause tag_filter tag = Some True \<longleftrightarrow> tag_matches tag_filter tag"
  by (cases tag_filter; cases tag)
    (auto simp: build_tag_clause_def collect_tag_values_def sql_in_def)

text \<open>The rows a worker may take, in the words of the interface: visible, not leased, of a session
  nobody else holds, and with a tag the filter matches.\<close>

definition eligible ::
    "int \<Rightarrow> session_fetch_config option \<Rightarrow> tag_filter \<Rightarrow> ('d, 'w) db \<Rightarrow> 'w worker_row \<Rightarrow> bool" where
  "eligible now session tag_filter db q \<longleftrightarrow> worker_available now q
     \<and> (case wq_session_id q of
          None \<Rightarrow> True
        | Some sid \<Rightarrow> (case session of
              None \<Rightarrow> False
            | Some config \<Rightarrow> list_all (\<lambda>s. se_session_id s = sid \<and> now < se_locked_until s
                \<longrightarrow> se_worker_id s = sf_owner_id config) (db_sessions db)))
     \<and> tag_matches tag_filter (wq_tag q)"

lemma live_session_owner:
  assumes "distinct (map se_session_id (db_sessions db))"
  shows "(case live_session now sid db of None \<Rightarrow> True | Some s \<Rightarrow> se_worker_id s = owner)
     \<longleftrightarrow> (\<forall>s \<in> set (db_sessions db). se_session_id s = sid \<and> now < se_locked_until s \<longrightarrow> se_worker_id s = owner)"
proof (cases "live_session now sid db")
  case None
  then have "\<forall>s \<in> set (db_sessions db). \<not> (se_session_id s = sid \<and> now < se_locked_until s)"
    by (simp add: live_session_def find_None_all)
  with None show ?thesis by auto
next
  case (Some s)
  then have s: "s \<in> set (db_sessions db)" "se_session_id s = sid" "now < se_locked_until s"
    by (auto simp: live_session_def dest: find_Some_mem)
  with assms have "s' = s" if "s' \<in> set (db_sessions db)" "se_session_id s' = sid" for s'
    using that by (auto simp: distinct_map inj_on_def)
  with s show ?thesis unfolding Some option.case by metis
qed

lemma eligible_select:
  assumes "db_ok db"
  shows "select_work now session tag_filter db = List.find (eligible now session tag_filter db) (db_worker_queue db)"
proof -
  have "session_fits now session db sid \<longleftrightarrow> (case sid of None \<Rightarrow> True | Some sid \<Rightarrow> (case session of None \<Rightarrow> False
      | Some config \<Rightarrow> list_all (\<lambda>s. se_session_id s = sid \<and> now < se_locked_until s
          \<longrightarrow> se_worker_id s = sf_owner_id config) (db_sessions db)))" for sid
  proof (cases sid; cases session)
    fix x config
    assume "sid = Some x" "session = Some config"
    with live_session_owner [where db = db and now = now and sid = x and owner = "sf_owner_id config"] assms
    show ?thesis by (simp add: session_fits_def db_ok_defs list_all_iff)
  qed (simp_all add: session_fits_def)
  then show ?thesis unfolding select_work_def eligible_def tag_clause by simp
qed

lemma claim_granted:
  assumes "db_ok db" and "session_fits now (Some config) db (Some sid)"
  shows "fst (claim_session now config sid db)"
proof (cases "List.find (\<lambda>s. se_session_id s = sid) (db_sessions db)")
  case None
  then show ?thesis by (simp add: claim_session_def Let_def)
next
  case (Some s)
  then have s: "s \<in> set (db_sessions db)" "se_session_id s = sid" by (auto dest: find_Some_mem)
  have "now < se_locked_until s \<Longrightarrow> se_worker_id s = sf_owner_id config"
    using assms live_session_owner [where db = db and now = now and sid = sid and owner = "sf_owner_id config"] s
    by (auto simp: session_fits_def db_ok_defs split: option.splits)
  with Some show ?thesis by (cases "now < se_locked_until s") (auto simp: claim_session_def Let_def)
qed

lemma fits_cong:
  "db_sessions db' = db_sessions db \<Longrightarrow> session_fits now session db' sid = session_fits now session db sid"
proof -
  assume "db_sessions db' = db_sessions db"
  then have "live_session now x db' = live_session now x db" for x by (simp add: live_session_def)
  then show ?thesis by (cases sid; cases session) (simp_all add: session_fits_def)
qed

lemma selected_claim:
  assumes "db_ok db" and "select_work now session tag_filter db = Some q"
  obtains db2 where "(case (wq_session_id q, session) of
      (Some sid, Some config) \<Rightarrow> claim_session now config sid (lock_work tok u (wq_id q) db)
    | _ \<Rightarrow> (True, lock_work tok u (wq_id q) db)) = (True, db2)"
proof (cases "wq_session_id q = None \<or> session = None")
  case True
  then show thesis by (cases "wq_session_id q"; cases session) (simp_all add: that)
next
  case False
  then obtain sid config where sc: "wq_session_id q = Some sid" "session = Some config" by auto
  have "session_fits now session db (wq_session_id q)"
    using assms(2) by (auto simp: select_work_def dest: find_Some_mem)
  with sc have "session_fits now (Some config) (lock_work tok u (wq_id q) db) (Some sid)"
    using fits_cong [of "lock_work tok u (wq_id q) db" db] by (simp add: lock_work_def)
  from claim_granted [OF lock_work_ok [OF assms(1)] this] sc that show thesis
    by (cases "claim_session now config sid (lock_work tok u (wq_id q) db)") simp
qed

text \<open>C25. A worker is handed the eligible item that was enqueued first, and only that: with a tag its filter
  matches, in no session that another worker holds, visible and not leased; the tag clause that the code builds as SQL text
  agrees with the filter's \<open>matches\<close>. The claim of the session row never fails after the item was selected,
  and the item is returned with its attempt count.\<close>

theorem fetch_work_exact:
  assumes "db_ok db" and "tag_filter \<noteq> TF_None"
  shows "fst (fetch_work_item cd now tok lock_timeout session tag_filter db) =
     (case List.find (eligible now session tag_filter db) (db_worker_queue db) of
        None \<Rightarrow> Inr None
      | Some q \<Rightarrow> (case cd_read_item cd (wq_work_item q) of
            Inl e \<Rightarrow> Inl (permanent_error ''fetch_work_item'' (''Deserialization error: '' @ e))
          | Inr wi \<Rightarrow> Inr (Some (wi, tok, wq_attempt_count q + 1))))"
proof (cases "select_work now session tag_filter db")
  case None
  with assms show ?thesis
    by (simp add: eligible_select [symmetric] fetch_work_item_def run_tx_def fetch_work_tx_def)
next
  case (Some q)
  from assms(1) Some obtain db2 where "(case (wq_session_id q, session) of
      (Some sid, Some config) \<Rightarrow>
        claim_session now config sid (lock_work tok (timestamp_after now lock_timeout) (wq_id q) db)
    | _ \<Rightarrow> (True, lock_work tok (timestamp_after now lock_timeout) (wq_id q) db)) = (True, db2)"
    by (rule selected_claim)
  with Some assms show ?thesis
    by (simp add: eligible_select [symmetric] fetch_work_item_def run_tx_def fetch_work_tx_def Let_def
        split: sum.splits)
qed

definition session_work :: "(event, work_item) db" where
  "session_work = sql_run plain_codec
     (OP_Enqueue_Worker 4 (WI_ActivityExecute ''i'' 1 3 ''act'' ''x'' (Some ''s'') (Some ''gpu'')))
     (sql_run plain_codec (OP_Enqueue_Worker 3 (WI_ActivityExecute ''i'' 1 2 ''act'' ''x'' None None)) empty_db)"

lemma session_work_ok: "db_ok session_work"
  unfolding session_work_def by (intro sql_run_ok) simp_all

theorem fetch_work_exact_witness:
  "fst (fetch_work_item plain_codec 5 ''t'' 1000000000 (Some \<lparr>sf_owner_id = ''w'', sf_lock_timeout = 1000000000\<rparr>)
      (TF_Tags [''gpu'']) session_work)
     = Inr (Some (WI_ActivityExecute ''i'' 1 3 ''act'' ''x'' (Some ''s'') (Some ''gpu''), ''t'', 1))"
  by (subst fetch_work_exact [OF session_work_ok])
    (simp_all add: session_work_def eligible_def sql_eval)


lemma session_work_fetch:
  "List.find (eligible 5 (Some \<lparr>sf_owner_id = ''w'', sf_lock_timeout = 1000000000\<rparr>) (TF_Tags [''gpu'']) session_work)
     (db_worker_queue session_work)
   = Some (worker_row_of plain_codec 4 2 (WI_ActivityExecute ''i'' 1 3 ''act'' ''x'' (Some ''s'') (Some ''gpu'')))"
  "wq_session_id (worker_row_of plain_codec 4 2 (WI_ActivityExecute ''i'' 1 3 ''act'' ''x'' (Some ''s'') (Some ''gpu'')))
     = Some ''s''"
  "\<exists>db'. fetch_work_item plain_codec 5 ''t'' 1000000000 (Some \<lparr>sf_owner_id = ''w'', sf_lock_timeout = 1000000000\<rparr>)
      (TF_Tags [''gpu'']) session_work
     = (Inr (Some (WI_ActivityExecute ''i'' 1 3 ''act'' ''x'' (Some ''s'') (Some ''gpu''), ''t'', 1)), db')"
  by (simp_all add: session_work_def eligible_def collect_tag_values_def sql_in_def sql_eval)


subsection \<open>Completing work\<close>

lemma work_token_unique:
  assumes "tokens_ok db" "db_ok db" "q \<in> set (db_worker_queue db)" "q' \<in> set (db_worker_queue db)"
    and "wq_lock_token q = Some tok" "wq_lock_token q' = Some tok"
  shows "q = q'"
proof -
  have "(tok, wq_id q) \<in> worker_marks db" "(tok, wq_id q') \<in> worker_marks db"
    using assms by (auto simp: worker_marks_def)
  then have "wq_id q = wq_id q'" using assms(1) by (auto simp: tokens_ok_def single_valued_def)
  moreover have "distinct (map wq_id (db_worker_queue db))"
    using assms(2) by (auto simp: db_ok_defs intro: queue_sorted_distinct)
  ultimately show ?thesis using assms(3,4) by (auto simp: distinct_map inj_on_def)
qed

text \<open>C17. An activity is completed at most once: a successful acknowledgement removes exactly the one row locked under the
  token (whose lock had not expired) and in the same step enqueues exactly one completion, or none
  when the result is dropped; the token is dead afterwards, so a second acknowledgement fails and changes nothing.\<close>

theorem work_completed_once:
  assumes "reachable cd db" and "ack_work_item cd now tok completion db = (Inr u, db')"
  shows "\<exists>q \<in> set (db_worker_queue db). work_locked now tok q
     \<and> db_worker_queue db' = filter (\<lambda>q'. q' \<noteq> q) (db_worker_queue db)
     \<and> map oq_work_item (db_orchestrator_queue db') = map oq_work_item (db_orchestrator_queue db)
          @ (case completion of None \<Rightarrow> [] | Some wi \<Rightarrow> [cd_item cd wi])
     \<and> (\<exists>e. ack_work_item cd now2 tok completion2 db' = (Inl e, db'))"
proof -
  have ok: "db_ok db" "tokens_ok db" using reachable_ok [OF assms(1)] by simp_all
  from assms(2) have "ack_work_tx cd now tok completion db = Inr (u, db')" by (simp add: ack_work_item_def run_tx_ok)
  then obtain q db1 where q: "List.find (work_locked now tok) (db_worker_queue db) = Some q"
    and db1: "db1 = touch_session now (wq_session_id q)
       (db\<lparr>db_worker_queue := sql_delete (work_locked now tok) (db_worker_queue db)\<rparr>)"
    and fin: "case completion of None \<Rightarrow> db' = db1
     | Some wi \<Rightarrow> (\<exists>inst. completion_instance wi = Some inst \<and> db' = insert_orch_row inst (cd_item cd wi) now db1)"
    by (rule ack_work_cases)
  from q have mem: "q \<in> set (db_worker_queue db)" "work_locked now tok q" by (auto dest: find_Some_mem)
  have only: "q' = q" if "q' \<in> set (db_worker_queue db)" "wq_lock_token q' = Some tok" for q'
    using work_token_unique [OF ok(2,1) that(1) mem(1) that(2)] mem(2) by (auto simp: work_locked_def)
  have "work_locked now tok q' \<longleftrightarrow> q' = q" if "q' \<in> set (db_worker_queue db)" for q'
    using only [OF that] mem(2) unfolding work_locked_def by blast
  then have "sql_delete (work_locked now tok) (db_worker_queue db) = filter (\<lambda>q'. q' \<noteq> q) (db_worker_queue db)"
    unfolding sql_delete_def by (intro filter_cong refl) blast
  moreover have "db_worker_queue db' = db_worker_queue db1"
    using fin by (cases completion) (auto simp: frames)
  ultimately have wq: "db_worker_queue db' = filter (\<lambda>q'. q' \<noteq> q) (db_worker_queue db)"
    by (simp add: db1 frames)
  have oq: "map oq_work_item (db_orchestrator_queue db') = map oq_work_item (db_orchestrator_queue db)
          @ (case completion of None \<Rightarrow> [] | Some wi \<Rightarrow> [cd_item cd wi])"
    using fin by (auto simp: db1 frames insert_orch_row_def split: option.splits)
  have "List.find (work_locked now2 tok) (db_worker_queue db') = None"
    unfolding find_None_all wq work_locked_def using only by fastforce
  then have "\<exists>e. ack_work_item cd now2 tok completion2 db' = (Inl e, db')"
    by (simp add: ack_work_item_def ack_work_tx_def run_tx_def)
  with mem wq oq show ?thesis by blast
qed

definition leased_work :: "(event, work_item) db" where
  "leased_work = sql_run plain_codec (OP_Fetch_Work 5 ''t'' 1000000000 None TF_DefaultOnly) session_work"

lemma leased_work_ok:
  "reachable plain_codec leased_work"
  "\<exists>db'. ack_work_item plain_codec 6 ''t'' (Some (WI_ActivityCompleted ''i'' 1 2 ''r'')) leased_work = (Inr (), db')"
proof -
  show "reachable plain_codec leased_work" unfolding leased_work_def session_work_def
    by (intro reachable.intros) (simp_all add: sql_eval)
qed (simp add: leased_work_def session_work_def sql_eval)

theorem work_completed_once_witness:
  "\<exists>db'. ack_work_item plain_codec 6 ''t'' (Some (WI_ActivityCompleted ''i'' 1 2 ''r'')) leased_work = (Inr (), db')
     \<and> map oq_work_item (db_orchestrator_queue db') = [WI_ActivityCompleted ''i'' 1 2 ''r'']"
proof -
  obtain db' where a: "ack_work_item plain_codec 6 ''t'' (Some (WI_ActivityCompleted ''i'' 1 2 ''r'')) leased_work
      = (Inr (), db')" using leased_work_ok(2) by blast
  have "db_orchestrator_queue leased_work = []" by (simp add: leased_work_def session_work_def sql_eval)
  with work_completed_once [OF leased_work_ok(1) a] a show ?thesis by (auto simp: plain_codec_def)
qed

subsection \<open>Messages that block a queue\<close>

text \<open>An activity that cannot be decoded blocks the worker queue: while it is the first eligible item, every fetch fails and leaves
  the store as it was, so its attempt count never grows, the poison limit is never reached, and no item behind it
  is handed out.\<close>

theorem undecodable_work_blocks:
  assumes "db_ok db" and "tag_filter \<noteq> TF_None"
    and "List.find (eligible now session tag_filter db) (db_worker_queue db) = Some q"
    and "cd_read_item cd (wq_work_item q) = Inl msg"
  shows "\<exists>e. fetch_work_item cd now tok lock_timeout session tag_filter db = (Inl e, db)"
proof -
  have q: "select_work now session tag_filter db = Some q" using assms(3) by (simp add: eligible_select [OF assms(1)])
  from assms(1) q obtain db2 where "(case (wq_session_id q, session) of
      (Some sid, Some config) \<Rightarrow>
        claim_session now config sid (lock_work tok (timestamp_after now lock_timeout) (wq_id q) db)
    | _ \<Rightarrow> (True, lock_work tok (timestamp_after now lock_timeout) (wq_id q) db)) = (True, db2)"
    by (rule selected_claim)
  with q assms(2,4) show ?thesis by (simp add: fetch_work_item_def run_tx_def fetch_work_tx_def)
qed

definition picky_codec :: "(event, work_item) codec" where
  "picky_codec = plain_codec\<lparr>cd_read_item := (\<lambda>wi. case wi of
     WI_ActivityExecute _ _ _ _ _ (Some _) _ \<Rightarrow> Inl ''unknown field session_id'' | _ \<Rightarrow> Inr wi)\<rparr>"

theorem undecodable_work_blocks_witness:
  "\<exists>e. fetch_work_item picky_codec 5 ''t'' 1000000000 (Some \<lparr>sf_owner_id = ''w'', sf_lock_timeout = 1000000000\<rparr>)
      (TF_Tags [''gpu'']) session_work = (Inl e, session_work)"
  by (rule undecodable_work_blocks [OF session_work_ok _ session_work_fetch(1)])
    (simp_all add: picky_codec_def plain_codec_def)

end
