(* ===== verification/Sql_Flow.thy ===== *)
theory Sql_Flow
  imports Sql_Work
begin

text \<open>
  What a fetch from the orchestrator queue hands out, and the messages that keep it from handing
  out anything: the batch is complete and in order, and a message that is put back stays in front.
\<close>

subsection \<open>The batch of a fetch\<close>

lemma candidate_row:
  assumes "select_candidate now flt db = Some inst"
  obtains q where "q \<in> set (db_orchestrator_queue db)" "oq_instance q = inst" "oq_visible_at q \<le> now"
  using assms by (auto simp: select_candidate_def Let_def dest!: find_Some_mem split: option.splits list.splits)

lemma candidate_acquires:
  assumes "select_candidate now flt db = Some inst"
  obtains db1 where "acquire_instance_lock now tok u inst db = (True, db1)"
  using candidate_unlocked [OF assms]
  by (cases "find_lock inst db") (auto simp: acquire_instance_lock_def Let_def unlocked_def intro: that)

lemma marked_rows:
  assumes "fresh_token tok db" and "acquire_instance_lock now tok u inst db = (True, db1)"
  shows "marked tok (mark_messages now tok inst db1) =
    map (\<lambda>q. q\<lparr>oq_lock_token := Some tok, oq_attempt_count := oq_attempt_count q + 1\<rparr>)
      (filter (\<lambda>q. oq_instance q = inst \<and> oq_visible_at q \<le> now) (db_orchestrator_queue db))"
proof -
  have "filter (\<lambda>q. oq_lock_token q = Some tok) (sql_update (\<lambda>q. oq_instance q = inst \<and> oq_visible_at q \<le> now)
       (\<lambda>q. q\<lparr>oq_lock_token := Some tok, oq_attempt_count := oq_attempt_count q + 1\<rparr>) t) =
    map (\<lambda>q. q\<lparr>oq_lock_token := Some tok, oq_attempt_count := oq_attempt_count q + 1\<rparr>)
      (filter (\<lambda>q. oq_instance q = inst \<and> oq_visible_at q \<le> now) t)"
    if "\<forall>q \<in> set t. oq_lock_token q \<noteq> Some tok" for t :: "'b orch_row list"
    using that unfolding sql_update_def by (induction t) auto
  moreover have "\<forall>q \<in> set (db_orchestrator_queue db). oq_lock_token q \<noteq> Some tok"
    using assms(1) by (force simp: fresh_token_def)
  ultimately show ?thesis by (simp add: marked_def mark_messages_def acquire_locks(3) [OF assms(2)])
qed

lemma fetch_frames:
  assumes "acquire_instance_lock now tok u inst db = (True, db1)"
  shows "db_history (mark_messages now tok inst db1) = db_history db"
    and "db_executions (mark_messages now tok inst db1) = db_executions db"
    and "db_instances (mark_messages now tok inst db1) = db_instances db"
    and "db_kv_store (mark_messages now tok inst db1) = db_kv_store db"
  using assms by (auto simp: mark_messages_def acquire_instance_lock_def Let_def split: option.splits if_splits)

lemma load_context_frames:
  assumes "acquire_instance_lock now tok u inst db = (True, db1)"
  shows "load_context cd inst items (mark_messages now tok inst db1) = load_context cd inst items db"
    and "get_kv_snapshot_in_tx inst (mark_messages now tok inst db1) = get_kv_snapshot_in_tx inst db"
proof -
  have "read_history_in_tx cd inst ex (mark_messages now tok inst db1) = read_history_in_tx cd inst ex db" for ex
    by (cases ex) (simp_all add: read_history_in_tx_def execution_rows_def max_execution_id_def fetch_frames [OF assms])
  moreover have "find_instance inst (mark_messages now tok inst db1) = find_instance inst db"
    by (simp add: find_instance_def fetch_frames [OF assms])
  ultimately show "load_context cd inst items (mark_messages now tok inst db1) = load_context cd inst items db"
    unfolding load_context_def by (simp only:)
qed (simp add: get_kv_snapshot_in_tx_def fetch_frames [OF assms])

lemma Max_insert_max: "finite S \<Longrightarrow> Max (insert (max a b) S) = Max (insert a (insert (b::nat) S))"
  by (cases "S = {}") (simp_all add: max.assoc)

lemma read_items_marked:
  "read_items cd (map (\<lambda>q. q\<lparr>oq_lock_token := tok, oq_attempt_count := Suc (oq_attempt_count q)\<rparr>) rows)
     = read_items cd rows"
  by (simp add: read_items_def map_filter_def comp_def filter_map)

lemma max_attempt_marked:
  "rows \<noteq> [] \<Longrightarrow> max_attempt (map (\<lambda>q. q\<lparr>oq_lock_token := tok, oq_attempt_count := Suc (oq_attempt_count q)\<rparr>) rows)
     = Max (oq_attempt_count ` set rows) + 1"
proof -
  assume ne: "rows \<noteq> []"
  have f: "fold (\<lambda>q m. max m (oq_attempt_count q)) xs a = Max (insert a (oq_attempt_count ` set xs))"
    for xs :: "'a orch_row list" and a
    by (induction xs arbitrary: a) (simp_all add: Max_insert_max)
  have "max_attempt (map (\<lambda>q. q\<lparr>oq_lock_token := tok, oq_attempt_count := Suc (oq_attempt_count q)\<rparr>) rows)
      = Max (insert 0 ((\<lambda>q. Suc (oq_attempt_count q)) ` set rows))"
    by (simp add: max_attempt_def f image_image)
  also have "(\<lambda>q. Suc (oq_attempt_count q)) ` set rows = Suc ` (oq_attempt_count ` set rows)"
    by (auto simp: image_image)
  also have "Max (insert 0 (Suc ` (oq_attempt_count ` set rows))) = Suc (Max (oq_attempt_count ` set rows))"
    using ne by (subst Max_insert) (simp_all add: mono_Max_commute [symmetric] mono_Suc)
  finally show ?thesis by simp
qed


definition committed_start :: "(event, work_item) db" where
  "committed_start = snd (ack_orchestration_item plain_codec 6 6 ''t'' started_request fetched_start)"

definition raised :: "(event, work_item) db" where
  "raised = snd (fetch_orchestration_item plain_codec 8 ''u'' 1000000000 None
     (snd (enqueue_for_orchestrator plain_codec 7 (WI_ExternalRaised ''i'' ''e'' ''d'') None committed_start)))"

lemma raised_simps:
  "fresh_token ''w'' raised" "select_candidate 9 None raised = Some ''i''"
  "\<exists>info. find_instance ''i'' raised = Some info \<and> in_current_execution_id info = 1"
  "read_history_in_tx plain_codec ''i'' (Some 1) raised = Inr (ar_history_delta started_request)"
  "filter (\<lambda>q. oq_instance q = ''i'' \<and> oq_visible_at q \<le> 9) (db_orchestrator_queue raised)
     = [\<lparr>oq_id = 3, oq_instance = ''i'', oq_work_item = WI_ExternalRaised ''i'' ''e'' ''d'', oq_visible_at = 7,
         oq_lock_token = None, oq_attempt_count = 0\<rparr>]"
  by (simp_all add: raised_def committed_start_def fetched_start_def two_starts_def start_item_def
      started_request_def metadata_default_def with_event_id_def sql_eval)


subsection \<open>A message that is put back\<close>

text \<open>C38. A message to an instance that does not exist blocks the whole queue: while a cancellation of an unknown instance is
  the oldest message, every fetch selects it, puts it back and returns nothing, leaving the store as it was, so no other
  instance is ever served. (Its attempt count does not grow either, so it never becomes a poison message.)\<close>

theorem unknown_instance_blocks_queue:
  assumes "db_orchestrator_queue db = q # rest" and "oq_visible_at q \<le> now" and "unlocked now (oq_instance q) db"
    and "cd_read_item cd (oq_work_item q) = Inr (WI_CancelInstance (oq_instance q) reason)"
    and "find_instance (oq_instance q) db = None"
    and "list_all (\<lambda>r. hi_instance r \<noteq> oq_instance q) (db_history db)"
    and "list_all (\<lambda>q'. oq_instance q' = oq_instance q \<longrightarrow>
           (\<forall>wi. cd_read_item cd (oq_work_item q') = Inr wi \<longrightarrow> start_item_name wi = None)) rest"
    and "fresh_token tok db" and "flt \<noteq> Some []"
  shows "fetch_orchestration_item cd now tok lt flt db = (Inr None, db)"
proof -
  let ?inst = "oq_instance q"
  let ?rows = "filter (\<lambda>q. oq_instance q = ?inst \<and> oq_visible_at q \<le> now) (db_orchestrator_queue db)"
  have "current_pinned ?inst db = None" using assms(5) by (simp add: current_pinned_def)
  then have c: "select_candidate now flt db = Some ?inst"
    using assms(1,2,3,9) by (auto simp: select_candidate_def version_between_def split: option.splits list.splits)
  then obtain db1 where acq: "acquire_instance_lock now tok (timestamp_after now lt) ?inst db = (True, db1)"
    by (rule candidate_acquires)
  have "execution_rows ?inst ex db = []" for ex
    using assms(6) by (simp add: execution_rows_def list_all_iff filter_empty_conv)
  then have h: "read_history_in_tx cd ?inst None db = Inr []" by (simp add: read_history_in_tx_def)
  have items: "read_items cd ?rows = WI_CancelInstance ?inst reason # read_items cd
      (filter (\<lambda>q'. oq_instance q' = ?inst \<and> oq_visible_at q' \<le> now) rest)"
    using assms(1,2,4) by (simp add: read_items_def map_filter_def)
  have "start_item_name wi = None" if "wi \<in> set (read_items cd ?rows)" for wi
    using that assms(1,4,7) by (auto simp: read_items_def map_filter_def list_all_iff split: sum.splits if_splits)
  then have s: "find_map start_item_name (read_items cd ?rows) = None" by (simp add: find_map_None)
  have "\<not> list_all is_queue_message (read_items cd ?rows)"
    unfolding items by (simp add: is_queue_message_def)
  with h s assms(5) have "load_context cd ?inst (read_items cd ?rows) db = FC_Put_Back"
    by (simp add: load_context_def)
  then have "fetch_orchestration_tx cd now tok lt flt db = Inr (None, db)"
    by (simp add: fetch_orchestration_tx_def c acq Let_def marked_rows [OF assms(8) acq] read_items_marked
        load_context_frames [OF acq])
  then show ?thesis by (simp add: fetch_orchestration_item_def run_tx_def)
qed

definition cancel_unknown :: "(event, work_item) db" where
  "cancel_unknown = run_all plain_codec
     [OP_Enqueue_Orchestrator 3 (WI_CancelInstance ''nobody'' ''typo'') None,
      OP_Enqueue_Orchestrator 4 start_item None] empty_db"

theorem unknown_instance_blocks_queue_witness:
  "fetch_orchestration_item plain_codec 99 ''t'' 1000000000 None cancel_unknown = (Inr None, cancel_unknown)"
proof -
  let ?q = "hd (db_orchestrator_queue cancel_unknown)"
  have 1: "db_orchestrator_queue cancel_unknown = ?q # tl (db_orchestrator_queue cancel_unknown)"
    and 4: "cd_read_item plain_codec (oq_work_item ?q) = Inr (WI_CancelInstance (oq_instance ?q) ''typo'')"
    by (simp_all add: cancel_unknown_def start_item_def sql_eval)
  show ?thesis
    by (rule unknown_instance_blocks_queue [OF 1 _ _ 4])
      (simp_all add: cancel_unknown_def start_item_def sql_eval)
qed

end
