(* ===== verification/Sql_Admin_Props.thy ===== *)
theory Sql_Admin_Props
  imports Sql_Flow "HOL-Library.Multiset"
begin

text \<open>
  Properties of the management operations: the instance tree is found and is complete, deletion
  removes the whole tree and nothing else, pruning keeps what it must.
\<close>

subsection \<open>The instance tree\<close>

definition row_index :: "instance_row list \<Rightarrow> string \<Rightarrow> nat" where
  "row_index rows p = length (takeWhile (\<lambda>r. in_instance r \<noteq> p) rows)"

lemma row_index_le: "row_index rows p \<le> length rows"
  by (simp add: row_index_def length_takeWhile_le)

lemma child_index:
  assumes "ordered_parents {} rows" and "distinct (map in_instance rows)"
    and "r \<in> set rows" and "in_parent_instance_id r = Some p"
  shows "row_index rows p < row_index rows (in_instance r)"
proof -
  from assms(3) obtain xs ys where rows: "rows = xs @ r # ys" by (auto dest: split_list)
  with assms(1,4) have p: "p \<in> in_instance ` set xs" by (simp add: ordered_parents_append)
  have r: "in_instance r \<notin> in_instance ` set xs" using assms(2) by (simp add: rows)
  have "takeWhile (\<lambda>x. in_instance x \<noteq> in_instance r) rows = xs @ takeWhile (\<lambda>x. in_instance x \<noteq> in_instance r) (r # ys)"
    unfolding rows using r by (intro takeWhile_append2) (metis image_eqI)
  then have "row_index rows (in_instance r) = length xs" by (simp add: row_index_def)
  moreover have "row_index rows p < length xs"
  proof -
    from p obtain x where x: "x \<in> set xs" "in_instance x = p" by auto
    then have "takeWhile (\<lambda>r. in_instance r \<noteq> p) rows = takeWhile (\<lambda>r. in_instance r \<noteq> p) xs"
      unfolding rows by (intro takeWhile_append1 [of x]) auto
    moreover have "length (takeWhile (\<lambda>r. in_instance r \<noteq> p) xs) < length xs"
    proof (rule ccontr)
      assume "\<not> ?thesis"
      then have "takeWhile (\<lambda>r. in_instance r \<noteq> p) xs = xs"
        by (metis length_takeWhile_le le_antisym not_less takeWhile_eq_take take_all)
      with x show False by (auto simp: takeWhile_eq_all_conv)
    qed
    ultimately show ?thesis by (simp add: row_index_def)
  qed
  ultimately show ?thesis by simp
qed

definition children_rel :: "('d, 'w) db \<Rightarrow> (string \<times> string) set" where
  "children_rel db = {(p, c). c \<in> set (list_children p db)}"

definition descendants :: "('d, 'w) db \<Rightarrow> string \<Rightarrow> string set" where
  "descendants db p = (children_rel db)\<^sup>* `` {p}"

lemma descendants_unfold: "descendants db p = insert p (\<Union>c \<in> set (list_children p db). descendants db c)"
  unfolding descendants_def children_rel_def
  by (auto simp: Image_def intro: rtrancl_trans elim: converse_rtranclE)

lemma tree_loop_total:
  assumes ok: "db_ok db"
  shows "\<exists>ids. tree_loop db st acc = Some (acc @ ids) \<and> set ids = (\<Union>p \<in> set st. descendants db p)"
proof -
  let ?rows = "db_instances db"
  let ?m = "\<lambda>p. length ?rows - row_index ?rows p"
  have "wf (inv_image (mult {(a::nat, b). a < b}) (\<lambda>st. mset (map ?m st)))"
    by (intro wf_inv_image wf_mult) (simp add: wf_less)
  then show ?thesis
  proof (induction st arbitrary: acc rule: wf_induct_rule)
    case (less st)
    show ?case
    proof (cases "st = []")
      case True
      then show ?thesis by (simp add: tree_loop.simps)
    next
      case False
      let ?p = "last st"
      let ?st = "butlast st @ list_children ?p db"
      have st: "st = butlast st @ [?p]" using False by simp
      have "?m c < ?m ?p" if "c \<in> set (list_children ?p db)" for c
      proof -
        from that obtain r where r: "r \<in> set ?rows" "in_parent_instance_id r = Some ?p" "c = in_instance r"
          by (auto simp: list_children_def)
        have "row_index ?rows ?p < row_index ?rows c"
          using child_index [OF _ _ r(1,2)] ok r(3) by (simp add: db_ok_defs)
        with row_index_le [of ?rows c] show ?thesis by simp
      qed
      then have "(mset (map ?m ?st), mset (map ?m st)) \<in> mult1 {(a, b). a < b}"
      proof (intro mult1I)
        show "mset (map ?m st) = add_mset (?m ?p) (mset (map ?m (butlast st)))" by (subst st) simp
        show "mset (map ?m ?st) = mset (map ?m (butlast st)) + mset (map ?m (list_children ?p db))" by simp
      qed auto
      then have "(?st, st) \<in> inv_image (mult {(a::nat, b). a < b}) (\<lambda>st. mset (map ?m st))"
        by (simp add: mult_def)
      from less.IH [OF this, of "acc @ [?p]"] obtain ids where
        ids: "tree_loop db ?st ((acc @ [?p])) = Some ((acc @ [?p]) @ ids)"
        "set ids = (\<Union>p \<in> set ?st. descendants db p)" by blast
      have "tree_loop db st acc = Some (acc @ (?p # ids))"
        using ids(1) False by (subst tree_loop.simps) simp
      moreover have "set (?p # ids) = (\<Union>p \<in> set st. descendants db p)"
      proof -
        have "set st = insert ?p (set (butlast st))" by (subst st) simp
        then show ?thesis using ids(2) descendants_unfold [of db ?p] by auto
      qed
      ultimately show ?thesis by blast
    qed
  qed
qed

lemma instance_tree: "db_ok db \<Longrightarrow> \<exists>ids. get_instance_tree inst db = Some ids \<and> set ids = descendants db inst"
  using tree_loop_total [of db "[inst]" "[]"] by (simp add: get_instance_tree_def)

text \<open>C28. The traversal of the instance tree ends, and collects exactly the instance and everything below it.\<close>

theorem instance_tree_complete:
  assumes "reachable cd db"
  shows "\<exists>ids. get_instance_tree inst db = Some ids \<and> set ids = descendants db inst"
  using instance_tree reachable_ok [OF assms] by blast

theorem instance_tree_complete_witness:
  "\<exists>ids. get_instance_tree ''i'' two_starts = Some ids \<and> set ids = descendants two_starts ''i''"
  by (rule instance_tree_complete [OF two_starts_ok(1)])

subsection \<open>Deletion\<close>

text \<open>Nothing in the store refers to the instance any more.\<close>

definition no_trace :: "string \<Rightarrow> ('d, 'w) db \<Rightarrow> bool" where
  "no_trace i db \<longleftrightarrow> (\<forall>r \<in> set (db_instances db). in_instance r \<noteq> i \<and> in_parent_instance_id r \<noteq> Some i)
     \<and> (\<forall>r \<in> set (db_executions db). ex_instance r \<noteq> i) \<and> (\<forall>r \<in> set (db_history db). hi_instance r \<noteq> i)
     \<and> (\<forall>r \<in> set (db_orchestrator_queue db). oq_instance r \<noteq> i)
     \<and> (\<forall>r \<in> set (db_worker_queue db). wq_instance r \<noteq> Some i)
     \<and> (\<forall>r \<in> set (db_instance_locks db). il_instance r \<noteq> i)
     \<and> (\<forall>r \<in> set (db_kv_store db). ks_instance r \<noteq> i) \<and> (\<forall>r \<in> set (db_kv_delta db). kd_instance r \<noteq> i)"

lemma delete_rows_no_trace:
  assumes "find_orphan ids db = None" and "i \<in> set ids"
  shows "no_trace i (delete_rows ids db)"
  using assms by (auto simp: no_trace_def delete_rows_def find_orphan_def find_None_all)


definition terminal_request :: "string \<Rightarrow> work_item list \<Rightarrow> sem_ver ack_request" where
  "terminal_request status items = started_request\<lparr>ar_orchestrator_items := items,
     ar_metadata := (ar_metadata started_request)\<lparr>em_status := Some status\<rparr>\<rparr>"

definition ended_start :: "(event, work_item) db" where
  "ended_start = run_all plain_codec
     [OP_Enqueue_Orchestrator 3 start_item None, OP_Fetch_Orchestration 5 ''t'' 1000000000 None,
      OP_Ack_Orchestration 6 6 ''t'' (terminal_request ''Completed'' [])] empty_db"

lemma ended_start_ok:
  "reachable plain_codec ended_start"
  "\<exists>res db'. delete_instance ''i'' False ended_start = Some (Inr res, db')"
proof -
  show "reachable plain_codec ended_start"
    unfolding ended_start_def run_all.simps
    by (intro reachable.intros)
      (simp_all add: terminal_request_def started_request_def metadata_default_def start_item_def sql_eval)
  have t: "get_instance_tree ''i'' ended_start = Some [''i'']"
    by (simp add: ended_start_def terminal_request_def started_request_def metadata_default_def start_item_def
        with_event_id_def get_instance_tree_def tree_loop.simps list_children_def sql_eval)
  then show "\<exists>res db'. delete_instance ''i'' False ended_start = Some (Inr res, db')"
    by (simp add: delete_instance_def)
      (simp add: get_parent_id_def delete_instances_atomic_def delete_tx_def still_running_def
        find_orphan_def current_status_def current_execution_def
        ended_start_def terminal_request_def started_request_def metadata_default_def start_item_def
        with_event_id_def sql_eval)
qed


subsection \<open>Bulk deletion of an instance between two executions\<close>

lemma filter_key_unique:
  assumes "distinct (map f xs)" and "x \<in> set xs"
  shows "filter (\<lambda>y. f y = f x) xs = [x]"
  using assms by (induction xs) (auto simp: filter_empty_conv image_iff)

text \<open>A continued orchestration can be deleted as finished: between the turn that continues as new and the first turn of the next
  execution, the instance counts as terminal for bulk deletion and is removed together with the message that
  would start its next execution, although it is still alive.\<close>

theorem bulk_delete_removes_continuing:
  assumes "reachable cd db" and "find_instance inst db = Some i" and "in_parent_instance_id i = None"
    and "current_status i db = Some ''ContinuedAsNew''"
    and "list_children inst db = []"
  shows "\<exists>res db'. delete_instance_bulk \<lparr>if_instance_ids = Some [inst], if_completed_before = None, if_limit = None\<rparr> db
           = Some (Inr res, db') \<and> no_trace inst db'"
proof -
  have ok: "db_ok db" using reachable_ok [OF assms(1)] by simp
  have i: "i \<in> set (db_instances db)" "in_instance i = inst"
    using assms(2) by (auto simp: find_instance_def dest: find_Some_mem)
  have "distinct (map in_instance (db_instances db))" using ok by (simp add: db_ok_defs)
  then have one: "filter (\<lambda>r. in_instance r = inst) (db_instances db) = [i]"
    using filter_key_unique [of in_instance, OF _ i(1)] i(2) by simp
  have "filter (\<lambda>r. in_parent_instance_id r = None
       \<and> current_status r db \<in> {Some ''Completed'', Some ''Failed'', Some ''ContinuedAsNew''}
       \<and> in_instance r \<in> set [inst] \<and> True) (filter (\<lambda>r. in_instance r = inst) (db_instances db)) = [i]"
    unfolding one using assms(3,4) i(2) by simp
  then have "filter (\<lambda>r. in_parent_instance_id r = None
       \<and> current_status r db \<in> {Some ''Completed'', Some ''Failed'', Some ''ContinuedAsNew''}
       \<and> in_instance r \<in> set [inst] \<and> True) (db_instances db) = [i]"
    unfolding filter_filter by (simp add: conj_ac cong: conj_cong)
  then have c: "bulk_candidates \<lparr>if_instance_ids = Some [inst], if_completed_before = None, if_limit = None\<rparr> db = [inst]"
    using i by (simp add: bulk_candidates_def completed_before_ok_def DEFAULT_BULK_OPERATION_LIMIT_def)
  have tree: "get_instance_tree inst db = Some [inst]"
    by (simp add: get_instance_tree_def tree_loop.simps assms(5))
  have orphan: "find_orphan [inst] db = None"
    using assms(5) by (auto simp: find_orphan_def find_None_all list_children_def filter_empty_conv)
  then obtain r where "delete_instances_atomic [inst] True db = (Inr r, delete_rows [inst] db)"
    by (simp add: delete_instances_atomic_def delete_tx_def run_tx_def)
  with delete_rows_no_trace [OF orphan, of inst] show ?thesis
    by (simp add: delete_instance_bulk_def c tree)
qed

definition continuing :: "(event, work_item) db" where
  "continuing = run_all plain_codec
     [OP_Enqueue_Orchestrator 3 start_item None, OP_Fetch_Orchestration 5 ''t'' 1000000000 None,
      OP_Ack_Orchestration 6 6 ''t'' (terminal_request ''ContinuedAsNew''
        [WI_ContinueAsNew ''i'' ''o'' ''x2'' None [] None])] empty_db"

theorem bulk_delete_removes_continuing_witness:
  "map oq_work_item (db_orchestrator_queue continuing) = [WI_ContinueAsNew ''i'' ''o'' ''x2'' None [] None]
   \<and> (\<exists>res db'. delete_instance_bulk
        \<lparr>if_instance_ids = Some [''i''], if_completed_before = None, if_limit = None\<rparr> continuing
      = Some (Inr res, db') \<and> no_trace ''i'' db')"
proof
  note defs = continuing_def terminal_request_def started_request_def metadata_default_def start_item_def
    with_event_id_def sql_eval
  show "map oq_work_item (db_orchestrator_queue continuing) = [WI_ContinueAsNew ''i'' ''o'' ''x2'' None [] None]"
    by (simp add: defs)
  have r: "reachable plain_codec continuing"
    unfolding continuing_def run_all.simps by (intro reachable.intros) (simp_all add: defs)
  obtain i where i: "find_instance ''i'' continuing = Some i" "in_parent_instance_id i = None"
    "current_status i continuing = Some ''ContinuedAsNew''"
    by (simp add: current_status_def current_execution_def defs)
  have l: "list_children ''i'' continuing = []" by (simp add: list_children_def defs)
  show "\<exists>res db'. delete_instance_bulk
        \<lparr>if_instance_ids = Some [''i''], if_completed_before = None, if_limit = None\<rparr> continuing
      = Some (Inr res, db') \<and> no_trace ''i'' db'"
    by (rule bulk_delete_removes_continuing [OF r i l])
qed

subsection \<open>Pruning\<close>

lemma prune_fold:
  "snd (fold (prune_one inst) es (res, db)) = db\<lparr>
     db_history := filter (\<lambda>r. \<not> (hi_instance r = inst \<and> hi_execution_id r \<in> set es)) (db_history db),
     db_executions := filter (\<lambda>r. \<not> (ex_instance r = inst \<and> ex_execution_id r \<in> set es)) (db_executions db)\<rparr>"
proof (induction es arbitrary: res db)
  case (Cons e es)
  obtain res' where r: "prune_one inst e (res, db) = (res', db\<lparr>
      db_history := filter (\<lambda>r. \<not> (hi_instance r = inst \<and> hi_execution_id r = e)) (db_history db),
      db_executions := filter (\<lambda>r. \<not> (ex_instance r = inst \<and> ex_execution_id r = e)) (db_executions db)\<rparr>)"
    by (simp add: prune_one_def sql_delete_def)
  have a: "filter (\<lambda>r. \<not> (hi_instance r = inst \<and> hi_execution_id r \<in> set es))
      (filter (\<lambda>r. \<not> (hi_instance r = inst \<and> hi_execution_id r = e)) t)
    = filter (\<lambda>r. \<not> (hi_instance r = inst \<and> hi_execution_id r \<in> set (e # es))) t" for t :: "'a history_row list"
    unfolding filter_filter by (intro filter_cong refl) auto
  have b: "filter (\<lambda>r. \<not> (ex_instance r = inst \<and> ex_execution_id r \<in> set es))
      (filter (\<lambda>r. \<not> (ex_instance r = inst \<and> ex_execution_id r = e)) t)
    = filter (\<lambda>r. \<not> (ex_instance r = inst \<and> ex_execution_id r \<in> set (e # es))) t" for t
    unfolding filter_filter by (intro filter_cong refl) auto
  have "snd (fold (prune_one inst) (e # es) (res, db)) = snd (fold (prune_one inst) es (res', db\<lparr>
      db_history := filter (\<lambda>r. \<not> (hi_instance r = inst \<and> hi_execution_id r = e)) (db_history db),
      db_executions := filter (\<lambda>r. \<not> (ex_instance r = inst \<and> ex_execution_id r = e)) (db_executions db)\<rparr>))"
    using r by simp
  also have "\<dots> = db\<lparr>
      db_history := filter (\<lambda>r. \<not> (hi_instance r = inst \<and> hi_execution_id r \<in> set (e # es))) (db_history db),
      db_executions := filter (\<lambda>r. \<not> (ex_instance r = inst \<and> ex_execution_id r \<in> set (e # es))) (db_executions db)\<rparr>"
    unfolding Cons.IH a [symmetric] b [symmetric] by (cases db) (simp del: filter_filter)
  finally show ?case .
qed simp

text \<open>Pruning removes exactly the executions it may: those of the instance that are not current, not running, not among the
  newest \<open>keep_last\<close>, and completed before the bound, each with its history; the current execution, the histories of
  all other executions and everything else stay.\<close>

theorem prune_exactly_old_executions:
  assumes "find_instance inst db = Some i"
  shows "let pruned = set (prune_candidates inst (in_current_execution_id i) options db);
             db' = snd (prune_executions inst options db)
     in in_current_execution_id i \<notin> pruned
      \<and> db' = db\<lparr>
          db_history := filter (\<lambda>r. \<not> (hi_instance r = inst \<and> hi_execution_id r \<in> pruned)) (db_history db),
          db_executions := filter (\<lambda>r. \<not> (ex_instance r = inst \<and> ex_execution_id r \<in> pruned)) (db_executions db)\<rparr>"
  using prune_fold [of inst _ _ db] assms
  by (auto simp: prune_executions_def Let_def case_prod_unfold prune_candidates_def)

definition continued_twice :: "(event, work_item) db" where
  "continued_twice = run_all plain_codec
     [OP_Enqueue_Orchestrator 3 start_item None, OP_Fetch_Orchestration 5 ''t'' 1000000000 None,
      OP_Ack_Orchestration 6 6 ''t'' (terminal_request ''ContinuedAsNew''
        [WI_ContinueAsNew ''i'' ''o'' ''x2'' None [] None]),
      OP_Fetch_Orchestration 7 ''u'' 1000000000 None,
      OP_Ack_Orchestration 8 8 ''u'' ((terminal_request ''Running'' [])\<lparr>ar_execution_id := 2\<rparr>)] empty_db"

theorem prune_exactly_old_executions_witness:
  "map hi_event_id (execution_rows ''i'' 1 continued_twice) = [1, 2]
   \<and> execution_rows ''i'' 1
       (snd (prune_executions ''i'' \<lparr>po_keep_last = Some 1, po_completed_before = None\<rparr> continued_twice)) = []
   \<and> execution_rows ''i'' 2
       (snd (prune_executions ''i'' \<lparr>po_keep_last = Some 1, po_completed_before = None\<rparr> continued_twice))
     = execution_rows ''i'' 2 continued_twice"
proof -
  note defs = continued_twice_def terminal_request_def started_request_def metadata_default_def start_item_def
    with_event_id_def sql_eval
  have e: "map hi_event_id (execution_rows ''i'' 1 continued_twice) = [1, 2]" by (simp add: defs)
  obtain i where i: "find_instance ''i'' continued_twice = Some i" "in_current_execution_id i = 2"
    by (simp add: defs)
  let ?o = "\<lparr>po_keep_last = Some (Suc 0), po_completed_before = None\<rparr>"
  have c: "set (prune_candidates ''i'' 2 ?o continued_twice) = {1}"
    by (simp add: prune_candidates_def completed_before_ok_def list_executions_def defs)
  from prune_exactly_old_executions [OF i(1), of ?o]
  have p: "db_history (snd (prune_executions ''i'' ?o continued_twice))
      = filter (\<lambda>r. \<not> (hi_instance r = ''i'' \<and> hi_execution_id r \<in> {1})) (db_history continued_twice)"
    unfolding i(2) c Let_def by simp
  have "execution_rows ''i'' n (snd (prune_executions ''i'' ?o continued_twice))
      = (if n = 1 then [] else execution_rows ''i'' n continued_twice)" for n
    unfolding execution_rows_def p filter_filter
    by (auto simp: filter_empty_conv intro!: filter_cong arg_cong [where f = "sort_key hi_event_id"])
  with e show ?thesis by simp
qed

end
