(* ===== verification/Worker.thy ===== *)
theory Worker
  imports Sql_Worker Orch_Dispatcher
begin

text \<open>
  The worker dispatcher, \<open>src/src/runtime/dispatchers/worker.rs\<close>: a slot fetches an activity,
  takes a session slot, runs the handler while the activity manager renews the lock, and commits
  the outcome with one \<open>ack_work_item\<close>. The provider is the parameter \<open>'p work_store\<close>. The
  handlers are user code: a function of the context and the input that returns or panics.
  What other parties do to the store while the handler runs is the parameter \<open>'p activity_run\<close>.
  Metrics, logging and the wall clock are left out.
\<close>

subsection \<open>The sessions in flight\<close>

text \<open>\<open>SessionTracker\<close>: the hash map from session to its number of running activities.\<close>

type_synonym tracker = "(string \<times> nat) list"

definition distinct_count :: "tracker \<Rightarrow> nat" where
  "distinct_count t = length t"

definition increment :: "string \<Rightarrow> tracker \<Rightarrow> tracker" where
  "increment session_id t = AList.update session_id (opt_or (map_of t session_id) 0 + 1) t"

definition decrement :: "string \<Rightarrow> tracker \<Rightarrow> tracker" where
  "decrement session_id t =
     (case map_of t session_id of
        None \<Rightarrow> t
      | Some count \<Rightarrow>
          if count - 1 = 0 then AList.delete session_id t
          else AList.update session_id (count - 1) t)"

subsection \<open>The provider, the options and the runs of handlers\<close>

record 'p work_store =
  ws_fetch_work_item :: "nanos \<Rightarrow> session_fetch_config option \<Rightarrow> tag_filter \<Rightarrow> 'p
    \<Rightarrow> (provider_error + (work_item \<times> string \<times> nat) option) \<times> 'p"
  ws_ack_work_item :: "string \<Rightarrow> work_item option \<Rightarrow> 'p \<Rightarrow> (provider_error + unit) \<times> 'p"
  ws_renew_work_item_lock :: "string \<Rightarrow> nanos \<Rightarrow> 'p \<Rightarrow> (provider_error + unit) \<times> 'p"
  ws_abandon_work_item :: "string \<Rightarrow> nanos option \<Rightarrow> bool \<Rightarrow> 'p \<Rightarrow> (provider_error + unit) \<times> 'p"
  ws_renew_session_lock :: "string list \<Rightarrow> nanos \<Rightarrow> nanos \<Rightarrow> 'p \<Rightarrow> (provider_error + nat) \<times> 'p"
  ws_cleanup_orphaned_sessions :: "nanos \<Rightarrow> 'p \<Rightarrow> (provider_error + nat) \<times> 'p"
  ws_read :: "string \<Rightarrow> 'p \<Rightarrow> provider_error + event list"

record worker_options =
  wo_max_sessions_per_runtime :: nat
  wo_session_lock_timeout :: nanos
  wo_session_idle_timeout :: nanos
  wo_worker_lock_timeout :: nanos
  wo_worker_tag_filter :: tag_filter
  wo_max_attempts :: nat
  wo_base_delay :: nanos
  wo_max_delay :: nanos

record activity_context =
  ac_instance_id :: string
  ac_execution_id :: id64
  ac_orchestration_name :: string
  ac_orchestration_version :: string
  ac_activity_name :: string
  ac_activity_id :: id64
  ac_worker_id :: string
  ac_session_id :: "string option"
  ac_tag :: "string option"

record activity_work_context =
  aw_instance :: string
  aw_execution_id :: id64
  aw_activity_id :: id64
  aw_activity_name :: string
  aw_input :: string
  aw_lock_token :: string
  aw_attempt_count :: nat
  aw_item_serialized :: string
  aw_worker_id :: string
  aw_session_id :: "string option"
  aw_tag :: "string option"

text \<open>How the spawned task ends: the handler's result, or a panic with the join error's text.\<close>

datatype activity_end =
    Task_Returned "string + string"
  | Task_Join_Error string

type_synonym activity_handler = "activity_context \<Rightarrow> string \<Rightarrow> activity_end"

text \<open>
  One run: what the other parties do before each tick of the activity manager, with the shutdown
  flag it then reads; what they do after the last tick; and which branch \<open>select!\<close> takes when the
  handler has ended and the token is cancelled as well.
\<close>

record 'p activity_run =
  rn_ticks :: "(bool \<times> ('p \<Rightarrow> 'p)) list"
  rn_others :: "'p \<Rightarrow> 'p"
  rn_joined_first :: bool

record 'v worker_runtime =
  wr_options :: worker_options
  wr_activities :: "('v, activity_handler) registry"
  wr_item_json :: "work_item \<Rightarrow> string"

datatype activity_outcome = AO_Success | AO_AppError | AO_Cancelled

subsection \<open>Running an activity\<close>

text \<open>
  The activity manager's loop: it renews the lock at each tick, and cancels the token and stops
  when that fails. The result says whether the token is cancelled.
\<close>

fun activity_manager ::
    "'p work_store \<Rightarrow> string \<Rightarrow> nanos \<Rightarrow> (bool \<times> ('p \<Rightarrow> 'p)) list \<Rightarrow> 'p \<Rightarrow> bool \<times> 'p" where
  "activity_manager store tok lock_timeout [] p = (False, p)"
| "activity_manager store tok lock_timeout ((shutdown, others) # ticks) p =
     (if shutdown then (False, fold (\<lambda>(_, f). f) ticks (others p))
      else case ws_renew_work_item_lock store tok lock_timeout (others p) of
             (Inr _, p') \<Rightarrow> activity_manager store tok lock_timeout ticks p'
           | (Inl _, p') \<Rightarrow> (True, p'))"

definition completed_item :: "activity_work_context \<Rightarrow> string \<Rightarrow> work_item" where
  "completed_item ctx result =
     WI_ActivityCompleted (aw_instance ctx) (aw_execution_id ctx) (aw_activity_id ctx) result"

definition failed_item :: "activity_work_context \<Rightarrow> error_details \<Rightarrow> work_item" where
  "failed_item ctx details =
     WI_ActivityFailed (aw_instance ctx) (aw_execution_id ctx) (aw_activity_id ctx) details"

definition handle_activity_success ::
    "'p work_store \<Rightarrow> activity_work_context \<Rightarrow> string \<Rightarrow> 'p
       \<Rightarrow> (provider_error + unit) \<times> activity_outcome \<times> 'p" where
  "handle_activity_success store ctx result p =
     (let (r, p') = ws_ack_work_item store (aw_lock_token ctx) (Some (completed_item ctx result)) p
      in (r, AO_Success, p'))"

definition handle_activity_error ::
    "'p work_store \<Rightarrow> activity_work_context \<Rightarrow> string \<Rightarrow> 'p
       \<Rightarrow> (provider_error + unit) \<times> activity_outcome \<times> 'p" where
  "handle_activity_error store ctx err p =
     (let (r, p') = ws_ack_work_item store (aw_lock_token ctx)
            (Some (failed_item ctx (Application AE_ActivityFailed err False))) p
      in (r, AO_AppError, p'))"

definition run_activity_with_cancellation ::
    "'p work_store \<Rightarrow> worker_options \<Rightarrow> activity_work_context \<Rightarrow> activity_end \<Rightarrow> 'p activity_run \<Rightarrow> 'p
       \<Rightarrow> (provider_error + unit) \<times> activity_outcome \<times> 'p" where
  "run_activity_with_cancellation store opts ctx ended run p =
     (let (cancelled, p1) = activity_manager store (aw_lock_token ctx) (wo_worker_lock_timeout opts)
            (rn_ticks run) p;
          p2 = rn_others run p1
      in if cancelled \<and> \<not> rn_joined_first run
         then let (r, p3) = ws_ack_work_item store (aw_lock_token ctx) None p2 in (r, AO_Cancelled, p3)
         else case ended of
                Task_Returned (Inr result) \<Rightarrow> handle_activity_success store ctx result p2
              | Task_Returned (Inl err) \<Rightarrow> handle_activity_error store ctx err p2
              | Task_Join_Error err \<Rightarrow> handle_activity_error store ctx err p2)"

definition handle_activity_outcome ::
    "'p work_store \<Rightarrow> activity_work_context \<Rightarrow> provider_error + unit \<Rightarrow> 'p \<Rightarrow> 'p" where
  "handle_activity_outcome store ctx ack_result p =
     (case ack_result of
        Inr _ \<Rightarrow> p
      | Inl _ \<Rightarrow> snd (ws_abandon_work_item store (aw_lock_token ctx) (Some (from_millis 100)) False p))"

definition abandon_unregistered_activity ::
    "'p work_store \<Rightarrow> worker_options \<Rightarrow> activity_work_context \<Rightarrow> 'p \<Rightarrow> 'p" where
  "abandon_unregistered_activity store opts ctx p =
     snd (ws_abandon_work_item store (aw_lock_token ctx)
       (Some (unregistered_delay (wo_base_delay opts) (wo_max_delay opts) (aw_attempt_count ctx))) False p)"

text \<open>\<open>Runtime::get_orchestration_descriptor\<close>: name, version and parent link of the last start event.\<close>

record orchestration_descriptor =
  od_name :: string
  od_version :: string
  od_parent_instance :: "string option"
  od_parent_id :: "id64 option"

definition get_orchestration_descriptor :: "'p work_store \<Rightarrow> string \<Rightarrow> 'p \<Rightarrow> orchestration_descriptor option" where
  "get_orchestration_descriptor store inst p =
     (let hist = (case ws_read store inst p of Inr h \<Rightarrow> h | Inl _ \<Rightarrow> [])
      in find_map (\<lambda>e. case ev_kind e of
             OrchestrationStarted name version _ parent_instance parent_id _ _ \<Rightarrow>
               Some \<lparr>od_name = name, od_version = version, od_parent_instance = parent_instance,
                     od_parent_id = parent_id\<rparr>
           | _ \<Rightarrow> None) (rev hist))"

definition build_activity_context ::
    "'p work_store \<Rightarrow> activity_work_context \<Rightarrow> 'p \<Rightarrow> activity_context" where
  "build_activity_context store ctx p =
     (let (orch_name, orch_version) =
            (case get_orchestration_descriptor store (aw_instance ctx) p of
               Some d \<Rightarrow> (od_name d, od_version d) | None \<Rightarrow> (''unknown'', ''unknown''))
      in \<lparr>ac_instance_id = aw_instance ctx, ac_execution_id = aw_execution_id ctx,
          ac_orchestration_name = orch_name, ac_orchestration_version = orch_version,
          ac_activity_name = aw_activity_name ctx, ac_activity_id = aw_activity_id ctx,
          ac_worker_id = aw_worker_id ctx, ac_session_id = aw_session_id ctx, ac_tag = aw_tag ctx\<rparr>)"

definition execute_activity ::
    "'v worker_runtime \<Rightarrow> 'p work_store \<Rightarrow> activity_work_context \<Rightarrow> 'p activity_run \<Rightarrow> 'p \<Rightarrow> 'p" where
  "execute_activity rt store ctx run p =
     (case resolve_handler (aw_activity_name ctx) (wr_activities rt) of
        None \<Rightarrow> abandon_unregistered_activity store (wr_options rt) ctx p
      | Some (_, handler) \<Rightarrow>
          (let ended = handler (build_activity_context store ctx p) (aw_input ctx);
               (ack_result, _, p') =
                 run_activity_with_cancellation store (wr_options rt) ctx ended run p
           in handle_activity_outcome store ctx ack_result p'))"

definition handle_poison_message ::
    "'p work_store \<Rightarrow> worker_options \<Rightarrow> activity_work_context \<Rightarrow> 'p \<Rightarrow> 'p" where
  "handle_poison_message store opts ctx p =
     snd (ws_ack_work_item store (aw_lock_token ctx)
       (Some (failed_item ctx (Poison (aw_attempt_count ctx) (wo_max_attempts opts)
          (PM_Activity (aw_instance ctx) (aw_execution_id ctx) (aw_activity_name ctx) (aw_activity_id ctx))
          (aw_item_serialized ctx)))) p)"

subsection \<open>One iteration of a worker slot\<close>

text \<open>At capacity only items without a session are fetched.\<close>

definition session_config ::
    "worker_options \<Rightarrow> string \<Rightarrow> tracker \<Rightarrow> session_fetch_config option" where
  "session_config opts session_worker_id t =
     (if wo_max_sessions_per_runtime opts \<le> distinct_count t then None
      else Some \<lparr>sf_owner_id = session_worker_id, sf_lock_timeout = wo_session_lock_timeout opts\<rparr>)"

definition over_capacity :: "worker_options \<Rightarrow> tracker \<Rightarrow> bool" where
  "over_capacity opts t \<longleftrightarrow> wo_max_sessions_per_runtime opts < distinct_count t"

definition process_activity ::
    "'v worker_runtime \<Rightarrow> 'p work_store \<Rightarrow> activity_work_context \<Rightarrow> 'p activity_run \<Rightarrow> 'p \<Rightarrow> 'p" where
  "process_activity rt store ctx run p =
     (if wo_max_attempts (wr_options rt) < aw_attempt_count ctx
      then handle_poison_message store (wr_options rt) ctx p
      else execute_activity rt store ctx run p)"

datatype work_result =
    WR_Found bool
  | WR_Error provider_error
  | WR_Panic work_item

text \<open>The tracker is that of the runtime; the guard of this item is dropped when its processing ends.\<close>

definition process_next_work_item ::
    "'v worker_runtime \<Rightarrow> 'p work_store \<Rightarrow> string \<Rightarrow> string \<Rightarrow> tracker \<Rightarrow> 'p activity_run \<Rightarrow> 'p
       \<Rightarrow> work_result \<times> tracker \<times> 'p" where
  "process_next_work_item rt store worker_id session_worker_id t run p =
     (case ws_fetch_work_item store (wo_worker_lock_timeout (wr_options rt))
             (session_config (wr_options rt) session_worker_id t)
             (wo_worker_tag_filter (wr_options rt)) p of
        (Inl e, p1) \<Rightarrow> (WR_Error e, t, p1)
      | (Inr None, p1) \<Rightarrow> (WR_Found False, t, p1)
      | (Inr (Some (item, tok, attempt_count)), p1) \<Rightarrow>
          (case item of
             WI_ActivityExecute inst execution_id i name input session_id tag \<Rightarrow>
               (let ctx = \<lparr>aw_instance = inst, aw_execution_id = execution_id, aw_activity_id = i,
                           aw_activity_name = name, aw_input = input, aw_lock_token = tok,
                           aw_attempt_count = attempt_count, aw_item_serialized = wr_item_json rt item,
                           aw_worker_id = worker_id, aw_session_id = session_id, aw_tag = tag\<rparr>
                in case session_id of
                     None \<Rightarrow> (WR_Found True, t, process_activity rt store ctx run p1)
                   | Some sid \<Rightarrow>
                       (let t1 = increment sid t
                        in if over_capacity (wr_options rt) t1
                           then (WR_Found True, decrement sid t1,
                                 snd (ws_abandon_work_item store tok (Some (from_millis 100)) True p1))
                           else (WR_Found True, decrement sid t1, process_activity rt store ctx run p1)))
           | _ \<Rightarrow> (WR_Panic item, t, p1)))"

text \<open>What the slot's loop does next: poll again, sleep for the rest of the poll interval, or back off.\<close>

datatype slot_step =
    SS_Continue
  | SS_Min_Poll
  | SS_Sleep_ms "64 word"
  | SS_Dead

definition after_work :: "work_result \<Rightarrow> nat \<Rightarrow> slot_step \<times> nat" where
  "after_work result errors =
     (case result of
        WR_Found True \<Rightarrow> (SS_Continue, 0)
      | WR_Found False \<Rightarrow> (SS_Min_Poll, 0)
      | WR_Error e \<Rightarrow>
          if pe_retryable e then (SS_Sleep_ms (fetch_backoff_ms (errors + 1)), errors + 1)
          else (SS_Sleep_ms 100, 0)
      | WR_Panic _ \<Rightarrow> (SS_Dead, errors))"

text \<open>The sleep of \<open>enforce_min_poll_interval\<close>; \<open>None\<close> stands for \<open>yield_now\<close>.\<close>

definition min_poll_sleep :: "nanos \<Rightarrow> nanos \<Rightarrow> bool \<Rightarrow> nanos option" where
  "min_poll_sleep elapsed min_interval shutdown =
     (if elapsed < min_interval then (if shutdown then Some 0 else Some (min_interval - elapsed)) else None)"

subsection \<open>Slots and the session manager\<close>

text \<open>The identities of the slots, and the session owners among them (\<open>start_work_dispatcher\<close>).\<close>

definition worker_id :: "string option \<Rightarrow> string \<Rightarrow> nat \<Rightarrow> string" where
  "worker_id stable_node_id runtime_id worker_idx =
     ''work-'' @ show_nat worker_idx @ ''-'' @ opt_or stable_node_id runtime_id"

definition session_owner :: "string option \<Rightarrow> string \<Rightarrow> nat \<Rightarrow> string" where
  "session_owner stable_node_id runtime_id worker_idx =
     opt_or stable_node_id (worker_id stable_node_id runtime_id worker_idx)"

definition session_owner_ids :: "string option \<Rightarrow> string \<Rightarrow> nat \<Rightarrow> string list" where
  "session_owner_ids stable_node_id runtime_id concurrency =
     fold (\<lambda>i ids. let s = session_owner stable_node_id runtime_id i
                    in if s \<in> set ids then ids else ids @ [s]) [0..<concurrency] []"

datatype manager_tick = MT_Renewal | MT_Cleanup | MT_Shutdown

text \<open>The ticks of \<open>run_session_manager\<close> in the order they fire, each with the shutdown flag.\<close>

fun run_session_manager ::
    "'p work_store \<Rightarrow> worker_options \<Rightarrow> string list \<Rightarrow> (manager_tick \<times> bool) list \<Rightarrow> 'p \<Rightarrow> 'p" where
  "run_session_manager store opts owner_ids [] p = p"
| "run_session_manager store opts owner_ids ((t, shutdown) # ticks) p =
     (if shutdown then p
      else run_session_manager store opts owner_ids ticks
        (case t of
           MT_Renewal \<Rightarrow> snd (ws_renew_session_lock store owner_ids (wo_session_lock_timeout opts)
               (wo_session_idle_timeout opts) p)
         | MT_Cleanup \<Rightarrow> snd (ws_cleanup_orphaned_sessions store (wo_session_idle_timeout opts) p)
         | MT_Shutdown \<Rightarrow> p))"

end
