(* ===== verification/Worker_Props.thy ===== *)
theory Worker_Props
  imports Worker "HOL-Library.Multiset"
begin

text \<open>
  Properties of the worker dispatcher. The slots of a runtime share one \<open>SessionTracker\<close>; their
  interleavings are an inductive step relation whose steps are the locked operations of the tracker.
  What an activity delivers is proved over an interface of the provider, the locale
  \<open>completion_queue\<close>, which \<open>Sql_Provider\<close> interprets on the store.
\<close>

subsection \<open>The tracker counts the guards\<close>

definition tracker_of :: "string list \<Rightarrow> tracker \<Rightarrow> bool" where
  "tracker_of guards t \<longleftrightarrow> distinct (map fst t)
     \<and> (\<forall>sid. map_of t sid = (let n = count_list guards sid in if n = 0 then None else Some n))"

lemma tracker_of_empty [simp]: "tracker_of [] []"
  by (simp add: tracker_of_def)

lemma tracker_increment: "tracker_of guards t \<Longrightarrow> tracker_of (sid # guards) (increment sid t)"
  by (auto simp: tracker_of_def increment_def distinct_update opt_or_def Let_def)

lemma count_list_perm: "mset xs = mset ys \<Longrightarrow> count_list xs = count_list ys"
  by (metis count_mset ext)

lemma tracker_perm: "tracker_of guards t \<Longrightarrow> mset guards = mset guards' \<Longrightarrow> tracker_of guards' t"
  by (simp add: tracker_of_def count_list_perm [of guards guards'])

lemma tracker_decrement:
  assumes "tracker_of (sid # guards) t"
  shows "tracker_of guards (decrement sid t)"
proof -
  have "map_of t sid = Some (Suc (count_list guards sid))" using assms by (auto simp: tracker_of_def Let_def)
  with assms show ?thesis
    by (auto simp: tracker_of_def decrement_def distinct_update distinct_delete Let_def split: if_splits)
qed

lemma count_list_pos: "0 < count_list xs x \<longleftrightarrow> x \<in> set xs"
  by (metis count_list_0_iff neq0_conv)

lemma tracker_sessions: "tracker_of guards t \<Longrightarrow> fst ` set t = set guards"
  unfolding dom_map_of_conv_image_fst [symmetric]
  by (auto simp: tracker_of_def Let_def dom_def count_list_0_iff split: if_splits)

lemma tracker_distinct_count:
  assumes "tracker_of guards t"
  shows "distinct_count t = card (set guards)"
proof -
  have "length t = card (fst ` set t)"
    using assms by (metis distinct_card length_map list.set_map tracker_of_def)
  then show ?thesis using tracker_sessions [OF assms] by (simp add: distinct_count_def)
qed

subsection \<open>The slots of a runtime\<close>

text \<open>
  Where a slot stands in \<open>process_next_work_item\<close>: before the fetch with the session configuration
  it decided on, holding a guard before the second capacity check, refused by that check, or running
  an activity. The guard is held until the processing ends.
\<close>

datatype slot =
    Idle
  | Fetching "session_fetch_config option"
  | Holding string
  | Refused string
  | Running "string option"

fun guard_of :: "slot \<Rightarrow> string list" where
  "guard_of (Holding sid) = [sid]"
| "guard_of (Refused sid) = [sid]"
| "guard_of (Running (Some sid)) = [sid]"
| "guard_of _ = []"

definition guards_of :: "slot list \<Rightarrow> string list" where
  "guards_of slots = concat (map guard_of slots)"

definition running_sessions :: "slot list \<Rightarrow> string set" where
  "running_sessions slots = {sid. Running (Some sid) \<in> set slots}"

inductive slots_step :: "worker_options \<Rightarrow> (nat \<Rightarrow> string) \<Rightarrow> tracker \<times> slot list \<Rightarrow> tracker \<times> slot list \<Rightarrow> bool"
  for opts owners where
  poll: "i < length slots \<Longrightarrow> slots ! i = Idle
     \<Longrightarrow> slots_step opts owners (t, slots) (t, slots[i := Fetching (session_config opts (owners i) t)])"
| found_nothing: "i < length slots \<Longrightarrow> slots ! i = Fetching c
     \<Longrightarrow> slots_step opts owners (t, slots) (t, slots[i := Idle])"
| found_plain: "i < length slots \<Longrightarrow> slots ! i = Fetching c
     \<Longrightarrow> slots_step opts owners (t, slots) (t, slots[i := Running None])"
| found_session: "i < length slots \<Longrightarrow> slots ! i = Fetching c
     \<Longrightarrow> slots_step opts owners (t, slots) (increment sid t, slots[i := Holding sid])"
| refuse: "i < length slots \<Longrightarrow> slots ! i = Holding sid \<Longrightarrow> over_capacity opts t
     \<Longrightarrow> slots_step opts owners (t, slots) (t, slots[i := Refused sid])"
| admit: "i < length slots \<Longrightarrow> slots ! i = Holding sid \<Longrightarrow> \<not> over_capacity opts t
     \<Longrightarrow> slots_step opts owners (t, slots) (t, slots[i := Running (Some sid)])"
| drop_refused: "i < length slots \<Longrightarrow> slots ! i = Refused sid
     \<Longrightarrow> slots_step opts owners (t, slots) (decrement sid t, slots[i := Idle])"
| finish_plain: "i < length slots \<Longrightarrow> slots ! i = Running None
     \<Longrightarrow> slots_step opts owners (t, slots) (t, slots[i := Idle])"
| finish_session: "i < length slots \<Longrightarrow> slots ! i = Running (Some sid)
     \<Longrightarrow> slots_step opts owners (t, slots) (decrement sid t, slots[i := Idle])"

definition slots_start :: "nat \<Rightarrow> tracker \<times> slot list" where
  "slots_start concurrency = ([], replicate concurrency Idle)"

inductive slots_reach :: "worker_options \<Rightarrow> (nat \<Rightarrow> string) \<Rightarrow> nat \<Rightarrow> tracker \<times> slot list \<Rightarrow> bool"
  for opts owners n where
  start: "slots_reach opts owners n (slots_start n)"
| step: "slots_reach opts owners n s \<Longrightarrow> slots_step opts owners s s' \<Longrightarrow> slots_reach opts owners n s'"

lemma mset_guards_update:
  assumes "i < length slots"
  shows "mset (guard_of (slots ! i) @ guards_of (slots[i := x])) = mset (guard_of x @ guards_of slots)"
proof -
  have "guards_of slots = guards_of (take i slots) @ guard_of (slots ! i) @ guards_of (drop (Suc i) slots)"
    using id_take_nth_drop [OF assms] by (metis append.assoc concat.simps(2) concat_append guards_of_def list.simps(9) map_append)
  moreover have "guards_of (slots[i := x]) = guards_of (take i slots) @ guard_of x @ guards_of (drop (Suc i) slots)"
    using assms by (simp add: guards_of_def upd_conv_take_nth_drop)
  ultimately show ?thesis by simp
qed

lemma tracker_update:
  assumes "i < length slots" and "tracker_of (guard_of x @ guards_of slots) t"
  shows "tracker_of (guard_of (slots ! i) @ guards_of (slots[i := x])) t"
  using tracker_perm [OF assms(2) mset_guards_update [OF assms(1), symmetric]] .

lemma guards_member: "x \<in> set slots \<Longrightarrow> set (guard_of x) \<subseteq> set (guards_of slots)"
  by (auto simp: guards_of_def)

lemma running_guards: "running_sessions slots \<subseteq> set (guards_of slots)"
  by (force simp: running_sessions_def guards_of_def)

lemma running_update: "running_sessions (slots[i := x]) \<subseteq> running_sessions slots \<union> {sid. x = Running (Some sid)}"
  using set_update_subset_insert [of slots i x] by (auto simp: running_sessions_def)

definition slots_inv :: "worker_options \<Rightarrow> tracker \<times> slot list \<Rightarrow> bool" where
  "slots_inv opts = (\<lambda>(t, slots). tracker_of (guards_of slots) t
     \<and> card (running_sessions slots) \<le> wo_max_sessions_per_runtime opts)"

lemma running_finite [simp]: "finite (running_sessions slots)"
  using running_guards by (rule finite_subset) simp

lemma running_card_update:
  assumes "card (running_sessions slots) \<le> n" and "\<forall>sid. x \<noteq> Running (Some sid)"
  shows "card (running_sessions (slots[i := x])) \<le> n"
  using card_mono [OF running_finite, of "running_sessions (slots[i := x])" slots] running_update [of slots i x] assms
  by force

lemma tracker_same_guard:
  "i < length slots \<Longrightarrow> guard_of x = guard_of (slots ! i) \<Longrightarrow> tracker_of (guards_of slots) t
    \<Longrightarrow> tracker_of (guards_of (slots[i := x])) t"
  by (rule tracker_perm, assumption) (use mset_guards_update [of i slots x] in simp)

lemma tracker_take_guard:
  "i < length slots \<Longrightarrow> guard_of (slots ! i) = [] \<Longrightarrow> guard_of x = [sid] \<Longrightarrow> tracker_of (guards_of slots) t
    \<Longrightarrow> tracker_of (guards_of (slots[i := x])) (increment sid t)"
  by (rule tracker_perm, erule tracker_increment) (use mset_guards_update [of i slots x] in simp)

lemma tracker_drop_guard:
  assumes "i < length slots" and "guard_of (slots ! i) = [sid]" and "guard_of x = []"
    and "tracker_of (guards_of slots) t"
  shows "tracker_of (guards_of (slots[i := x])) (decrement sid t)"
  using mset_guards_update [OF assms(1), of x] assms(2,3)
  by (intro tracker_decrement tracker_perm [OF assms(4)]) simp

lemma admitted_card:
  assumes "tracker_of (guards_of slots) t" and "i < length slots" and "slots ! i = Holding sid"
    and "\<not> over_capacity opts t"
  shows "card (running_sessions (slots[i := Running (Some sid)])) \<le> wo_max_sessions_per_runtime opts"
proof -
  have "sid \<in> set (guards_of slots)"
    using guards_member [OF nth_mem [OF assms(2)]] assms(3) by simp
  then have "running_sessions (slots[i := Running (Some sid)]) \<subseteq> set (guards_of slots)"
    using running_update [of slots i "Running (Some sid)"] running_guards [of slots] by auto
  from card_mono [OF _ this] have "card (running_sessions (slots[i := Running (Some sid)])) \<le> distinct_count t"
    by (simp add: tracker_distinct_count [OF assms(1)])
  with assms(4) show ?thesis by (simp add: over_capacity_def)
qed

lemma slots_step_inv:
  assumes "slots_step opts owners s s'" and "slots_inv opts s"
  shows "slots_inv opts s'"
  using assms
proof (induction rule: slots_step.induct)
  case (admit i slots sid t)
  then show ?case using admitted_card [of slots t i sid opts] by (simp add: slots_inv_def tracker_same_guard)
qed (auto simp: slots_inv_def tracker_same_guard tracker_take_guard tracker_drop_guard running_card_update)

lemma guards_replicate [simp]: "guards_of (replicate n Idle) = []"
  by (simp add: guards_of_def)

lemma slots_reach_inv: "slots_reach opts owners n s \<Longrightarrow> slots_inv opts s"
proof (induction rule: slots_reach.induct)
  case start
  then show ?case by (simp add: slots_start_def slots_inv_def running_sessions_def)
qed (rule slots_step_inv)

text \<open>C14. The slots of a runtime never run activities of more distinct sessions at the same time than
  \<open>max_sessions_per_runtime\<close>, however they interleave: the check before the fetch is only a hint, and of the slots
  that race past it the second check lets no more through than fit. The tracker counts exactly the guards held.\<close>

theorem session_capacity_respected:
  assumes "slots_reach opts owners concurrency (t, slots)"
  shows "card {sid. Running (Some sid) \<in> set slots} \<le> wo_max_sessions_per_runtime opts
     \<and> distinct_count t = card (set (guards_of slots))
     \<and> (t = [] \<longleftrightarrow> guards_of slots = [])"
proof -
  have inv: "tracker_of (guards_of slots) t" "card (running_sessions slots) \<le> wo_max_sessions_per_runtime opts"
    using slots_reach_inv [OF assms] by (auto simp: slots_inv_def)
  have "t = [] \<longleftrightarrow> guards_of slots = []" using tracker_sessions [OF inv(1)] by auto
  with inv show ?thesis by (simp add: running_sessions_def tracker_distinct_count)
qed

definition one_session :: worker_options where
  "one_session = \<lparr>wo_max_sessions_per_runtime = 1, wo_session_lock_timeout = 30000000000,
     wo_session_idle_timeout = 300000000000, wo_worker_lock_timeout = 30000000000,
     wo_worker_tag_filter = TF_DefaultOnly, wo_max_attempts = 10, wo_base_delay = 1000000000,
     wo_max_delay = 60000000000\<rparr>"

text \<open>Two slots race past the first check with items of two sessions; only one of them runs.\<close>

theorem session_capacity_respected_witness:
  "\<exists>t. slots_reach one_session (\<lambda>_. ''w'') 2 (t, [Running (Some ''a''), Refused ''b''])
     \<and> card {sid. Running (Some sid) \<in> set [Running (Some ''a''), Refused ''b'']} \<le> 1"
proof -
  let ?c = "Some \<lparr>sf_owner_id = ''w'', sf_lock_timeout = 30000000000\<rparr>"
  let ?R = "slots_reach one_session (\<lambda>_. ''w'') 2"
  have cfg: "session_config one_session ''w'' [] = ?c"
    by (simp add: session_config_def one_session_def distinct_count_def)
  have 0: "?R ([], [Idle, Idle])"
    using slots_reach.start [of one_session "\<lambda>_. ''w''" 2] by (simp add: slots_start_def numeral_2_eq_2)
  have 1: "?R ([], [Fetching ?c, Idle])"
    using slots_reach.step [OF 0 slots_step.poll [of 0]] by (simp add: cfg)
  have 2: "?R ([], [Fetching ?c, Fetching ?c])"
    using slots_reach.step [OF 1 slots_step.poll [of 1]] by (simp add: cfg)
  have 3: "?R ([(''a'', 1)], [Holding ''a'', Fetching ?c])"
    using slots_reach.step [OF 2 slots_step.found_session [of 0 _ _ _ _ _ "''a''"]] by (simp add: increment_def)
  have 4: "?R ([(''a'', 1)], [Running (Some ''a''), Fetching ?c])"
    using slots_reach.step [OF 3 slots_step.admit [of 0]]
    by (simp add: over_capacity_def distinct_count_def one_session_def)
  have 5: "?R ([(''a'', 1), (''b'', 1)], [Running (Some ''a''), Holding ''b''])"
    using slots_reach.step [OF 4 slots_step.found_session [of 1 _ _ _ _ _ "''b''"]] by (simp add: increment_def)
  have 6: "?R ([(''a'', 1), (''b'', 1)], [Running (Some ''a''), Refused ''b''])"
    using slots_reach.step [OF 5 slots_step.refuse [of 1]]
    by (simp add: over_capacity_def distinct_count_def one_session_def)
  from session_capacity_respected [OF 6] 6 show ?thesis by (auto simp: one_session_def)
qed

subsection \<open>What an activity delivers\<close>

text \<open>The activity a completion is for.\<close>

fun completion_key :: "work_item \<Rightarrow> (string \<times> id64 \<times> id64) option" where
  "completion_key (WI_ActivityCompleted inst execution_id i _) = Some (inst, execution_id, i)"
| "completion_key (WI_ActivityFailed inst execution_id i _) = Some (inst, execution_id, i)"
| "completion_key _ = None"

definition work_key :: "activity_work_context \<Rightarrow> string \<times> id64 \<times> id64" where
  "work_key ctx = (aw_instance ctx, aw_execution_id ctx, aw_activity_id ctx)"

text \<open>The completion that is due: of a poisoned message, of an unregistered activity (none), of a handler.\<close>

definition due_completion ::
    "'v worker_runtime \<Rightarrow> 'p work_store \<Rightarrow> activity_work_context \<Rightarrow> 'p \<Rightarrow> work_item option" where
  "due_completion rt store ctx p =
     (if wo_max_attempts (wr_options rt) < aw_attempt_count ctx
      then Some (failed_item ctx (Poison (aw_attempt_count ctx) (wo_max_attempts (wr_options rt))
             (PM_Activity (aw_instance ctx) (aw_execution_id ctx) (aw_activity_name ctx) (aw_activity_id ctx))
             (aw_item_serialized ctx)))
      else case resolve_handler (aw_activity_name ctx) (wr_activities rt) of
             None \<Rightarrow> None
           | Some (_, handler) \<Rightarrow>
               (case handler (build_activity_context store ctx p) (aw_input ctx) of
                  Task_Returned (Inr result) \<Rightarrow> Some (completed_item ctx result)
                | Task_Returned (Inl err) \<Rightarrow> Some (failed_item ctx (Application AE_ActivityFailed err False))
                | Task_Join_Error err \<Rightarrow> Some (failed_item ctx (Application AE_ActivityFailed err False))))"

text \<open>
  The interface of the provider as the worker uses it, seen through \<open>delivered\<close>: the completions
  of an activity that have been enqueued. An acknowledgement that succeeds enqueues its completion,
  one that fails enqueues nothing, and no other operation does.
\<close>

locale completion_queue =
  fixes store :: "'p work_store"
    and delivered :: "string \<times> id64 \<times> id64 \<Rightarrow> 'p \<Rightarrow> work_item list"
  assumes ack_ok: "ws_ack_work_item store tok c p = (Inr u, p')
      \<Longrightarrow> delivered k p' = delivered k p
            @ (case c of Some w \<Rightarrow> if completion_key w = Some k then [w] else [] | None \<Rightarrow> [])"
    and ack_error: "ws_ack_work_item store tok c p = (Inl e, p') \<Longrightarrow> delivered k p' = delivered k p"
    and abandon: "delivered k (snd (ws_abandon_work_item store tok delay ignore_attempt p)) = delivered k p"
    and renew: "delivered k (snd (ws_renew_work_item_lock store tok extend_for p)) = delivered k p"
    and fetch: "delivered k (snd (ws_fetch_work_item store timeout session flt p)) = delivered k p"
begin

lemma ack_delivers:
  "delivered k (snd (ws_ack_work_item store tok c p)) = delivered k p
    @ (case fst (ws_ack_work_item store tok c p) of Inl _ \<Rightarrow> []
       | Inr _ \<Rightarrow> (case c of Some w \<Rightarrow> if completion_key w = Some k then [w] else [] | None \<Rightarrow> []))"
  using ack_ok [of tok c p _ _ k] ack_error [of tok c p _ _ k]
  by (cases "ws_ack_work_item store tok c p"; cases "fst (ws_ack_work_item store tok c p)") auto

lemma others_quiet:
  "list_all (\<lambda>(_, f). \<forall>p. delivered k (f p) = delivered k p) ticks
    \<Longrightarrow> delivered k (fold (\<lambda>(_, f). f) ticks p) = delivered k p"
  by (induction ticks arbitrary: p) auto

lemma manager_quiet:
  "list_all (\<lambda>(_, f). \<forall>p. delivered k (f p) = delivered k p) ticks
    \<Longrightarrow> delivered k (snd (activity_manager store tok timeout ticks p)) = delivered k p"
proof (induction ticks arbitrary: p)
  case (Cons tick ticks)
  obtain shutdown f where t: "tick = (shutdown, f)" by force
  have "delivered k (f p) = delivered k p" using Cons.prems t by simp
  moreover have "delivered k (snd (ws_renew_work_item_lock store tok timeout (f p))) = delivered k (f p)"
    by (rule renew)
  ultimately show ?case
    using Cons t others_quiet [of k ticks "f p"] by (auto split: prod.split sum.split)
qed simp

text \<open>The run of a handler delivers the due completion once, or nothing.\<close>

lemma run_delivers:
  assumes "list_all (\<lambda>(_, f). \<forall>p. delivered (work_key ctx) (f p) = delivered (work_key ctx) p) (rn_ticks run)"
    and "\<forall>p. delivered (work_key ctx) (rn_others run p) = delivered (work_key ctx) p"
    and "run_activity_with_cancellation store opts ctx ended run p = (r, out, p')"
  shows "delivered (work_key ctx) p' \<in> {delivered (work_key ctx) p, delivered (work_key ctx) p @
     [case ended of Task_Returned (Inr result) \<Rightarrow> completed_item ctx result
      | Task_Returned (Inl err) \<Rightarrow> failed_item ctx (Application AE_ActivityFailed err False)
      | Task_Join_Error err \<Rightarrow> failed_item ctx (Application AE_ActivityFailed err False)]}"
proof -
  obtain cancelled p1 where m: "activity_manager store (aw_lock_token ctx) (wo_worker_lock_timeout opts)
      (rn_ticks run) p = (cancelled, p1)" by force
  have d: "delivered (work_key ctx) (rn_others run p1) = delivered (work_key ctx) p"
    using manager_quiet [OF assms(1), of "aw_lock_token ctx" "wo_worker_lock_timeout opts" p] m assms(2) by simp
  have "\<exists>c. p' = snd (ws_ack_work_item store (aw_lock_token ctx) c (rn_others run p1))
      \<and> (c = None \<or> c = Some (case ended of Task_Returned (Inr result) \<Rightarrow> completed_item ctx result
          | Task_Returned (Inl err) \<Rightarrow> failed_item ctx (Application AE_ActivityFailed err False)
          | Task_Join_Error err \<Rightarrow> failed_item ctx (Application AE_ActivityFailed err False)))"
    using assms(3) m
    by (auto simp: run_activity_with_cancellation_def Let_def handle_activity_success_def handle_activity_error_def
        case_prod_unfold split: if_splits activity_end.splits sum.splits)
  then show ?thesis
    by (auto simp: ack_delivers d split: sum.split option.split if_splits)
qed

lemma outcome_quiet: "delivered k (handle_activity_outcome store ctx r p) = delivered k p"
  by (simp add: handle_activity_outcome_def abandon split: sum.split)

lemma process_activity_delivers:
  assumes "list_all (\<lambda>(_, f). \<forall>p. delivered (work_key ctx) (f p) = delivered (work_key ctx) p) (rn_ticks run)"
    and "\<forall>p. delivered (work_key ctx) (rn_others run p) = delivered (work_key ctx) p"
  shows "delivered (work_key ctx) (process_activity rt store ctx run p) = delivered (work_key ctx) p
    \<or> (\<exists>c. due_completion rt store ctx p = Some c
        \<and> delivered (work_key ctx) (process_activity rt store ctx run p) = delivered (work_key ctx) p @ [c])"
proof (cases "wo_max_attempts (wr_options rt) < aw_attempt_count ctx")
  case True
  then show ?thesis
    by (auto simp: process_activity_def handle_poison_message_def due_completion_def ack_delivers failed_item_def
        work_key_def split: sum.split)
next
  case False
  show ?thesis
  proof (cases "resolve_handler (aw_activity_name ctx) (wr_activities rt)")
    case None
    with False show ?thesis
      by (simp add: process_activity_def execute_activity_def abandon_unregistered_activity_def abandon)
  next
    case (Some vh)
    obtain v handler where h: "vh = (v, handler)" by force
    define ended where "ended = handler (build_activity_context store ctx p) (aw_input ctx)"
    obtain r out p' where run: "run_activity_with_cancellation store (wr_options rt) ctx ended run p = (r, out, p')"
      by (metis prod_cases3)
    have "process_activity rt store ctx run p = handle_activity_outcome store ctx r p'"
      using False Some h run by (simp add: process_activity_def execute_activity_def ended_def)
    with run_delivers [OF assms run] False Some h show ?thesis
      by (cases ended) (auto simp: outcome_quiet due_completion_def ended_def [symmetric] split: sum.splits)
  qed
qed

end

end
