(* ===== verification/Orch_Commit.thy ===== *)
theory Orch_Commit
  imports Orch_Dispatcher
begin

text \<open>
  The interface of the provider as the orchestration dispatcher uses it to commit a turn, the locale
  \<open>atomic_store\<close>: an acknowledgement that fails changes nothing that counts, one that succeeds is a
  commit of the request. \<open>Sql_Provider\<close> interprets it on the store. From it: a processed item leaves
  the state as it was or commits exactly one request.
\<close>

locale atomic_store =
  fixes store :: "('v::linorder, 'p) orchestration_store"
    and view :: "'p \<Rightarrow> 'c"
    and committed :: "string \<Rightarrow> 'v ack_request \<Rightarrow> 'c \<Rightarrow> 'c \<Rightarrow> bool"
    and released :: "string \<Rightarrow> 'c \<Rightarrow> 'c \<Rightarrow> bool"
  assumes ack_failed: "os_ack_orchestration_item store tok req p = (Some e, p') \<Longrightarrow> view p' = view p"
    and ack_done: "os_ack_orchestration_item store tok req p = (None, p') \<Longrightarrow> committed tok req (view p) (view p')"
    and abandoned: "released tok (view p) (view (os_abandon_orchestration_item store tok delay ignore_attempt p))"
begin

lemma attempts_commit_once:
  "ack_attempts store tok req n p = (r, slept, p')
    \<Longrightarrow> (case r of None \<Rightarrow> committed tok req (view p) (view p') | Some _ \<Rightarrow> view p' = view p)"
proof (induction "MAX_ACK_RETRIES - n" arbitrary: n p r slept p' rule: less_induct)
  case less
  obtain r1 p1 where a: "os_ack_orchestration_item store tok req p = (r1, p1)" by force
  show ?case
  proof (cases "\<exists>e. r1 = Some e \<and> pe_retryable e \<and> n < MAX_ACK_RETRIES")
    case False
    then have "r = r1" "p' = p1" using less.prems a by (auto simp: ack_attempts.simps split: option.splits if_splits)
    then show ?thesis using ack_done [of tok req p p1] ack_failed [of tok req p _ p1] a by (cases r1) auto
  next
    case True
    then obtain e where e: "r1 = Some e" "pe_retryable e" "n < MAX_ACK_RETRIES" by blast
    obtain slept' where "ack_attempts store tok req (n + 1) p1 = (r, slept', p')"
      using less.prems a e by (subst (asm) ack_attempts.simps) (auto simp: Let_def split: prod.splits)
    from less.hyps [OF diff_less_mono2 this] have
      "case r of None \<Rightarrow> committed tok req (view p1) (view p') | Some _ \<Rightarrow> view p' = view p1" using e by simp
    moreover have "view p1 = view p" using ack_failed [of tok req p e p1] a e by simp
    ultimately show ?thesis by (cases r) simp_all
  qed
qed

text \<open>The turn's request is committed, or else the failure request, or nothing at all.\<close>

lemma turn_commits_once:
  assumes "commit_turn store parse_version item tok req p = p'"
  shows "view p' = view p \<or> committed tok req (view p) (view p')
    \<or> (\<exists>e. committed tok (infra_failure_request parse_version item (ar_execution_id req) e) (view p) (view p'))"
proof -
  obtain r s p1 where a: "ack_attempts store tok req 0 p = (r, s, p1)" by (metis prod_cases3)
  show ?thesis
  proof (cases r)
    case None
    then have "p' = p1" using a assms by (simp add: commit_turn_def ack_orchestration_with_changes_def)
    then show ?thesis using attempts_commit_once [OF a] None by simp
  next
    case (Some e)
    let ?f = "infra_failure_request parse_version item (ar_execution_id req) e"
    obtain r' s' p2 where b: "ack_attempts store tok ?f 0 p1 = (r', s', p2)" by (metis prod_cases3)
    then have "p' = p2" using a Some assms by (simp add: commit_turn_def ack_orchestration_with_changes_def)
    then show ?thesis using attempts_commit_once [OF a] attempts_commit_once [OF b] Some by (cases r') auto
  qed
qed

text \<open>Whatever becomes of a fetched item, its processing ends in one of three ways.\<close>

lemma item_commits_once:
  assumes "process_orchestration_item rt store item tok attempt_count ids p = Some (p', ids')"
  shows "view p' = view p \<or> (\<exists>req. committed tok req (view p) (view p')) \<or> released tok (view p) (view p')"
proof -
  have ack: "view q = view p \<or> (\<exists>req. committed tok req (view p) (view q))"
    if "q = snd (snd (ack_orchestration_with_changes store tok req p))" for q req
  proof -
    obtain r s q' where "ack_attempts store tok req 0 p = (r, s, q')" by (metis prod_cases3)
    with attempts_commit_once [OF this] that show ?thesis
      by (cases r) (auto simp: ack_orchestration_with_changes_def)
  qed
  show ?thesis
    using assms ack turn_commits_once [OF refl] abandoned
    by (auto simp: process_orchestration_item_def fail_orchestration_as_poison_def Let_def
        split: if_splits option.splits sum.splits prod.splits) (metis ack)+
qed

end

end
