(* ===== verification/Sql_Provider.thy ===== *)
theory Sql_Provider
  imports Sql_Flow Worker_Props Orch_Commit
begin

text \<open>
  The SQLite provider as the dispatchers see it: the operations of the store with the clock, the lock
  tokens and the faults of the database that the environment supplies, packed as the provider of the
  worker and of the orchestration dispatcher. Their interfaces (\<open>completion_queue\<close>,
  \<open>atomic_store\<close>) are interpreted here on the store's own definitions.
\<close>

subsection \<open>Clock, tokens and faults\<close>

text \<open>
  \<open>en_clock\<close> lists the coming readings of the system clock in nanoseconds; when they run out the
  clock stands still. \<open>en_faults\<close> lists for the coming transactions the error \<open>sqlx\<close> gives, if any;
  a transaction that fails is rolled back.
\<close>

record ('d, 'w) sqlite_env =
  en_db :: "('d, 'w) db"
  en_now :: nanos
  en_clock :: "nanos list"
  en_faults :: "string option list"
  en_pid :: nat

definition read_clock :: "('d, 'w) sqlite_env \<Rightarrow> nanos \<times> ('d, 'w) sqlite_env" where
  "read_clock env =
     (case en_clock env of
        [] \<Rightarrow> (en_now env, env)
      | t # ts \<Rightarrow> (t, env\<lparr>en_now := t, en_clock := ts\<rparr>))"

definition now_millis :: "nanos \<Rightarrow> int" where
  "now_millis t = i64_wrap (int (t div 1000000))"

definition generate_lock_token :: "nanos \<Rightarrow> nat \<Rightarrow> string" where
  "generate_lock_token t pid = ''lock_'' @ show_nat t @ ''_'' @ show_nat pid"

definition with_fault ::
    "string \<Rightarrow> (('d, 'w) sqlite_env \<Rightarrow> (provider_error + 'r) \<times> ('d, 'w) sqlite_env) \<Rightarrow> ('d, 'w) sqlite_env
       \<Rightarrow> (provider_error + 'r) \<times> ('d, 'w) sqlite_env" where
  "with_fault operation body env =
     (case en_faults env of
        Some msg # fs \<Rightarrow> (Inl (sqlx_to_provider_error operation msg), env\<lparr>en_faults := fs\<rparr>)
      | None # fs \<Rightarrow> body (env\<lparr>en_faults := fs\<rparr>)
      | [] \<Rightarrow> body env)"

definition on_db :: "(('d, 'w) db \<Rightarrow> 'r \<times> ('d, 'w) db) \<Rightarrow> ('d, 'w) sqlite_env \<Rightarrow> 'r \<times> ('d, 'w) sqlite_env" where
  "on_db f env = (let (r, db') = f (en_db env) in (r, env\<lparr>en_db := db'\<rparr>))"

lemma read_clock_db [simp]: "read_clock env = (t, env') \<Longrightarrow> en_db env' = en_db env"
  by (auto simp: read_clock_def split: list.splits)

lemma on_db_simps [simp]:
  "fst (on_db f env) = fst (f (en_db env))" "en_db (snd (on_db f env)) = snd (f (en_db env))"
  by (simp_all add: on_db_def split: prod.split)

lemma show_nat_digits: "c \<in> set (show_nat n) \<Longrightarrow> \<exists>d < 10. c = char_of (48 + d :: nat)"
proof (induction n arbitrary: c rule: show_nat.induct)
  case (1 n)
  show ?case
  proof (cases "n < 10")
    case True
    with "1.prems" show ?thesis by (auto simp: show_nat.simps [of n])
  next
    case False
    then consider "c \<in> set (show_nat (n div 10))" | "c = char_of (48 + n mod 10)"
      using "1.prems" by (auto simp: show_nat.simps [of n])
    then show ?thesis
    proof cases
      case 2
      then show ?thesis by (intro exI [of _ "n mod 10"]) simp
    qed (rule "1.IH" [OF False])
  qed
qed

text \<open>Different readings, or different processes, give different tokens.\<close>

lemma generate_lock_token_inj:
  "generate_lock_token t pid = generate_lock_token t' pid' \<longleftrightarrow> t = t' \<and> pid = pid'"
proof -
  have u: "CHR ''_'' \<notin> set (show_nat n)" for n
  proof
    assume "CHR ''_'' \<in> set (show_nat n)"
    then obtain d where "d < 10" "CHR ''_'' = char_of (48 + d :: nat)" using show_nat_digits by blast
    then have "of_char (CHR ''_'') = (48 + d) mod 256" by (metis of_char_of)
    with \<open>d < 10\<close> show False by simp
  qed
  have "t = t' \<and> pid = pid'" if "show_nat t @ CHR ''_'' # show_nat pid = show_nat t' @ CHR ''_'' # show_nat pid'"
  proof -
    from that have "takeWhile (\<lambda>c. c \<noteq> CHR ''_'') (show_nat t @ CHR ''_'' # show_nat pid)
        = takeWhile (\<lambda>c. c \<noteq> CHR ''_'') (show_nat t' @ CHR ''_'' # show_nat pid')" by simp
    moreover have p: "takeWhile (\<lambda>c. c \<noteq> CHR ''_'') (show_nat a @ CHR ''_'' # r) = show_nat a" for a r
      using u [of a] by (subst takeWhile_append2) auto
    ultimately have "t = t'" unfolding p by simp
    with that show ?thesis by simp
  qed
  then show ?thesis by (auto simp: generate_lock_token_def)
qed

subsection \<open>The provider of the worker\<close>

definition env_fetch_work_item ::
    "('d, 'w) codec \<Rightarrow> nanos \<Rightarrow> session_fetch_config option \<Rightarrow> tag_filter \<Rightarrow> ('d, 'w) sqlite_env
       \<Rightarrow> (provider_error + (work_item \<times> string \<times> nat) option) \<times> ('d, 'w) sqlite_env" where
  "env_fetch_work_item cd lock_timeout session flt env =
     (if flt = TF_None then (Inr None, env)
      else with_fault ''fetch_work_item'' (\<lambda>env.
        let (t, env1) = read_clock env; (now, env2) = read_clock env1
        in on_db (fetch_work_item cd (now_millis now) (generate_lock_token t (en_pid env)) lock_timeout session flt)
             env2) env)"

definition env_at_now ::
    "string \<Rightarrow> (int \<Rightarrow> ('d, 'w) db \<Rightarrow> (provider_error + 'r) \<times> ('d, 'w) db) \<Rightarrow> ('d, 'w) sqlite_env
       \<Rightarrow> (provider_error + 'r) \<times> ('d, 'w) sqlite_env" where
  "env_at_now operation f = with_fault operation (\<lambda>env.
     let (now, env1) = read_clock env in on_db (f (now_millis now)) env1)"

definition sqlite_work_store :: "('d, 'w) codec \<Rightarrow> ('d, 'w) sqlite_env work_store" where
  "sqlite_work_store cd =
     \<lparr>ws_fetch_work_item = env_fetch_work_item cd,
      ws_ack_work_item = (\<lambda>tok c. env_at_now ''ack_work_item'' (\<lambda>now. ack_work_item cd now tok c)),
      ws_renew_work_item_lock = (\<lambda>tok extend_for.
        env_at_now ''renew_work_item_lock'' (\<lambda>now. renew_work_item_lock now tok extend_for)),
      ws_abandon_work_item = (\<lambda>tok delay ignore_attempt.
        env_at_now ''abandon_work_item'' (\<lambda>now. abandon_work_item now tok delay ignore_attempt)),
      ws_renew_session_lock = (\<lambda>owner_ids extend_for idle_timeout.
        env_at_now ''renew_session_lock'' (\<lambda>now. renew_session_lock now owner_ids extend_for idle_timeout)),
      ws_cleanup_orphaned_sessions = (\<lambda>_. env_at_now ''cleanup_orphaned_sessions'' cleanup_orphaned_sessions),
      ws_read = (\<lambda>inst env. read cd inst (en_db env))\<rparr>"

text \<open>The completions of an activity in the orchestrator queue.\<close>

definition queued_completions ::
    "('d, 'w) codec \<Rightarrow> string \<times> id64 \<times> id64 \<Rightarrow> ('d, 'w) sqlite_env \<Rightarrow> work_item list" where
  "queued_completions cd k env =
     filter (\<lambda>w. completion_key w = Some k) (read_items cd (db_orchestrator_queue (en_db env)))"

lemma with_fault_cases:
  assumes "with_fault operation body env = (r, env')"
  obtains msg where "r = Inl (sqlx_to_provider_error operation msg)" "en_db env' = en_db env"
  | env0 where "en_db env0 = en_db env" "en_pid env0 = en_pid env" "body env0 = (r, env')"
proof (cases "en_faults env")
  case Nil
  with assms that(2) [of env] show thesis by (simp add: with_fault_def)
next
  case (Cons x fs)
  show thesis
  proof (cases x)
    case None
    with Cons assms that(2) [of "env\<lparr>en_faults := fs\<rparr>"] show thesis by (simp add: with_fault_def)
  next
    case (Some msg)
    with Cons assms that(1) show thesis by (auto simp: with_fault_def)
  qed
qed

lemma env_at_now_cases:
  assumes "env_at_now operation f env = (r, env')"
  obtains msg where "r = Inl (sqlx_to_provider_error operation msg)" "en_db env' = en_db env"
  | now where "f now (en_db env) = (r, en_db env')"
proof -
  from assms show thesis unfolding env_at_now_def
  proof (rule with_fault_cases)
    fix msg
    assume "r = Inl (sqlx_to_provider_error operation msg)" "en_db env' = en_db env"
    then show thesis by (rule that(1))
  next
    fix env0
    assume e: "en_db env0 = en_db env"
      and b: "(let (now, env1) = read_clock env0 in on_db (f (now_millis now)) env1) = (r, env')"
    obtain now env1 where c: "read_clock env0 = (now, env1)" by force
    then have "on_db (f (now_millis now)) env1 = (r, env')" using b by simp
    then have "f (now_millis now) (en_db env1) = (r, en_db env')"
      by (auto simp: on_db_def split: prod.splits)
    then show thesis using that(2) read_clock_db [OF c] e by simp
  qed
qed

lemma read_items_append:
  "codec_ok cd \<Longrightarrow> read_items cd (db_orchestrator_queue (insert_orch_row inst (cd_item cd wi) visible_at db))
    = read_items cd (db_orchestrator_queue db) @ [wi]"
  by (simp add: read_items_def insert_orch_row_def List.map_filter_def)

lemma sqlite_work_store_simps [simp]:
  "ws_fetch_work_item (sqlite_work_store cd) = env_fetch_work_item cd"
  "ws_ack_work_item (sqlite_work_store cd) tok c = env_at_now ''ack_work_item'' (\<lambda>now. ack_work_item cd now tok c)"
  "ws_renew_work_item_lock (sqlite_work_store cd) tok extend_for
    = env_at_now ''renew_work_item_lock'' (\<lambda>now. renew_work_item_lock now tok extend_for)"
  "ws_abandon_work_item (sqlite_work_store cd) tok delay ignore_attempt
    = env_at_now ''abandon_work_item'' (\<lambda>now. abandon_work_item now tok delay ignore_attempt)"
  "ws_read (sqlite_work_store cd) inst env = read cd inst (en_db env)"
  by (simp_all add: sqlite_work_store_def)

lemma queued_completions_cong:
  "db_orchestrator_queue (en_db env') = db_orchestrator_queue (en_db env)
    \<Longrightarrow> queued_completions cd k env' = queued_completions cd k env"
  by (simp add: queued_completions_def)

text \<open>Only an acknowledgement touches the orchestrator queue.\<close>

lemma work_ops_keep_queue:
  "db_orchestrator_queue (snd (abandon_work_item now tok delay ignore_attempt db)) = db_orchestrator_queue db"
  "db_orchestrator_queue (snd (renew_work_item_lock now tok extend_for db)) = db_orchestrator_queue db"
  "db_orchestrator_queue (snd (fetch_work_item cd now tok timeout session flt db)) = db_orchestrator_queue db"
proof -
  show "db_orchestrator_queue (snd (abandon_work_item now tok delay ignore_attempt db)) = db_orchestrator_queue db"
    by (simp add: abandon_work_item_def run_tx_def Let_def)
  show "db_orchestrator_queue (snd (renew_work_item_lock now tok extend_for db)) = db_orchestrator_queue db"
    by (simp add: renew_work_item_lock_def run_tx_def frames split: option.split)
  show "db_orchestrator_queue (snd (fetch_work_item cd now tok timeout session flt db)) = db_orchestrator_queue db"
    unfolding fetch_work_item_def
    by (auto intro!: run_tx_keeps [of "\<lambda>db'. db_orchestrator_queue db' = db_orchestrator_queue db"]
        elim!: fetch_work_cases simp: lock_work_def frames dest: claim_session_frames(1))
qed

lemma ack_work_item_queue:
  assumes "codec_ok cd" and "ack_work_item cd now tok c db = (Inr u, db')"
  shows "read_items cd (db_orchestrator_queue db') = read_items cd (db_orchestrator_queue db)
    @ (case c of Some w \<Rightarrow> [w] | None \<Rightarrow> [])"
proof -
  from assms(2) have "ack_work_tx cd now tok c db = Inr (u, db')" by (simp add: ack_work_item_def run_tx_ok)
  then show ?thesis
    by (rule ack_work_cases) (use assms(1) in \<open>auto simp: read_items_append frames split: option.splits\<close>)
qed

lemma store_ack_ok:
  assumes "codec_ok cd" and "ws_ack_work_item (sqlite_work_store cd) tok c env = (Inr u, env')"
  shows "queued_completions cd k env' = queued_completions cd k env
    @ (case c of Some w \<Rightarrow> if completion_key w = Some k then [w] else [] | None \<Rightarrow> [])"
  using assms(2) [unfolded sqlite_work_store_simps]
proof (rule env_at_now_cases)
  fix now
  assume "ack_work_item cd now tok c (en_db env) = (Inr u, en_db env')"
  from ack_work_item_queue [OF assms(1) this] show ?thesis
    by (auto simp: queued_completions_def split: option.split)
qed simp

lemma store_ack_error:
  assumes "ws_ack_work_item (sqlite_work_store cd) tok c env = (Inl e, env')"
  shows "en_db env' = en_db env"
  using assms [unfolded sqlite_work_store_simps]
proof (rule env_at_now_cases)
  fix now
  assume "ack_work_item cd now tok c (en_db env) = (Inl e, en_db env')"
  then show ?thesis unfolding ack_work_item_def by (rule run_tx_error)
qed

lemma env_at_now_queue:
  assumes "\<And>now db. db_orchestrator_queue (snd (f now db)) = db_orchestrator_queue db"
  shows "db_orchestrator_queue (en_db (snd (env_at_now operation f env))) = db_orchestrator_queue (en_db env)"
proof (cases "env_at_now operation f env")
  case (Pair r env')
  then show ?thesis
  proof (rule env_at_now_cases)
    fix now
    assume "f now (en_db env) = (r, en_db env')"
    with assms [of now "en_db env"] Pair show ?thesis by simp
  qed (simp add: Pair)
qed

lemma env_fetch_queue:
  "db_orchestrator_queue (en_db (snd (env_fetch_work_item cd timeout session flt env)))
    = db_orchestrator_queue (en_db env)"
proof (cases "env_fetch_work_item cd timeout session flt env")
  case (Pair r env')
  show ?thesis
  proof (cases "flt = TF_None")
    case True
    then show ?thesis by (simp add: env_fetch_work_item_def)
  next
    case False
    from Pair [unfolded env_fetch_work_item_def if_not_P [OF False]] show ?thesis
    proof (rule with_fault_cases)
      fix env0
      assume e: "en_db env0 = en_db env" and b: "(let (t, env1) = read_clock env0; (now, env2) = read_clock env1
          in on_db (fetch_work_item cd (now_millis now) (generate_lock_token t (en_pid env0)) timeout session flt)
               env2) = (r, env')"
      obtain t env1 now env2 where c: "read_clock env0 = (t, env1)" "read_clock env1 = (now, env2)" by force
      from b c have "en_db env' = snd (fetch_work_item cd (now_millis now) (generate_lock_token t (en_pid env0))
          timeout session flt (en_db env2))"
        by (simp add: on_db_def split: prod.splits) (metis sqlite_env.select_convs(1) sqlite_env.surjective sqlite_env.update_convs(1) snd_conv)
      then show ?thesis using read_clock_db [OF c(1)] read_clock_db [OF c(2)] e Pair
        by (simp add: work_ops_keep_queue)
    qed (simp add: Pair)
  qed
qed

text \<open>The worker's interface, for every codec that can read what it writes.\<close>

lemma store_contract:
  assumes "codec_ok cd"
  shows "completion_queue (sqlite_work_store cd) (queued_completions cd)"
proof
  fix tok c p u p' k
  assume "ws_ack_work_item (sqlite_work_store cd) tok c p = (Inr u, p')"
  then show "queued_completions cd k p' = queued_completions cd k p
      @ (case c of Some w \<Rightarrow> if completion_key w = Some k then [w] else [] | None \<Rightarrow> [])"
    by (rule store_ack_ok [OF assms])
next
  fix tok c p e p' k
  assume "ws_ack_work_item (sqlite_work_store cd) tok c p = (Inl e, p')"
  then show "queued_completions cd k p' = queued_completions cd k p"
    by (intro queued_completions_cong) (simp add: store_ack_error)
qed (auto intro!: queued_completions_cong simp: env_at_now_queue work_ops_keep_queue env_fetch_queue)

locale good_codec =
  fixes cd :: "('d, 'w) codec"
  assumes codec: "codec_ok cd"

sublocale good_codec \<subseteq> completion_queue "sqlite_work_store cd" "queued_completions cd"
  by (rule store_contract [OF codec])

interpretation plain: good_codec plain_codec
  by unfold_locales (rule plain_codec_ok)

subsection \<open>An activity and its completion\<close>

text \<open>C12. However the processing of a fetched activity goes (poisoned, not registered, failed or panicked, cancelled by a lost
  lease, failing acknowledgements, database faults), it enqueues at most one completion of this activity, and that one
  is the completion due: the handler's result, its error, or the poison report. (The other parties, who act on the
  store while the handler runs, are assumed neither to deliver nor to take completions of this activity.)\<close>

theorem activity_delivers_at_most_once:
  assumes "codec_ok cd"
    and "ws_fetch_work_item (sqlite_work_store cd) (wo_worker_lock_timeout (wr_options rt))
           (session_config (wr_options rt) owner t) (wo_worker_tag_filter (wr_options rt)) p
         = (Inr (Some (WI_ActivityExecute inst execution_id i name input session_id tag, tok, attempt_count)), p1)"
    and "\<And>f env. f \<in> insert (rn_others run) (snd ` set (rn_ticks run))
         \<Longrightarrow> queued_completions cd (inst, execution_id, i) (f env) = queued_completions cd (inst, execution_id, i) env"
    and "process_next_work_item rt (sqlite_work_store cd) wid owner t run p = (r, t', p')"
  shows "let k = (inst, execution_id, i);
             ctx = \<lparr>aw_instance = inst, aw_execution_id = execution_id, aw_activity_id = i,
                 aw_activity_name = name, aw_input = input, aw_lock_token = tok, aw_attempt_count = attempt_count,
                 aw_item_serialized = wr_item_json rt (WI_ActivityExecute inst execution_id i name input session_id tag),
                 aw_worker_id = wid, aw_session_id = session_id, aw_tag = tag\<rparr>
         in queued_completions cd k p' = queued_completions cd k p
            \<or> (\<exists>c. due_completion rt (sqlite_work_store cd) ctx p1 = Some c
                  \<and> queued_completions cd k p' = queued_completions cd k p @ [c])"
proof -
  let ?S = "sqlite_work_store cd" and ?k = "(inst, execution_id, i)"
  define ctx where "ctx = \<lparr>aw_instance = inst, aw_execution_id = execution_id, aw_activity_id = i,
     aw_activity_name = name, aw_input = input, aw_lock_token = tok, aw_attempt_count = attempt_count,
     aw_item_serialized = wr_item_json rt (WI_ActivityExecute inst execution_id i name input session_id tag),
     aw_worker_id = wid, aw_session_id = session_id, aw_tag = tag\<rparr>"
  note gc = store_contract [OF assms(1)]
  have k: "work_key ctx = ?k" by (simp add: work_key_def ctx_def)
  have same: "queued_completions cd ?k p1 = queued_completions cd ?k p"
    using env_fetch_queue [of cd _ _ _ p] assms(2) by (intro queued_completions_cong) (metis snd_conv sqlite_work_store_simps(1))
  have ticks: "list_all (\<lambda>(_, f). \<forall>p. queued_completions cd ?k (f p) = queued_completions cd ?k p) (rn_ticks run)"
    by (auto simp: list_all_iff intro!: assms(3) rev_image_eqI)
  have others: "\<forall>p. queued_completions cd ?k (rn_others run p) = queued_completions cd ?k p" using assms(3) by blast
  have deliver: "queued_completions cd ?k (process_activity rt ?S ctx run p1) = queued_completions cd ?k p
      \<or> (\<exists>c. due_completion rt ?S ctx p1 = Some c
            \<and> queued_completions cd ?k (process_activity rt ?S ctx run p1) = queued_completions cd ?k p @ [c])"
    using completion_queue.process_activity_delivers [OF gc, of ctx run rt p1] ticks others same by (simp add: k)
  have abandon: "queued_completions cd ?k (snd (ws_abandon_work_item ?S tok d b p1)) = queued_completions cd ?k p" for d b
    using completion_queue.abandon [OF gc] same by metis
  have "queued_completions cd ?k p' = queued_completions cd ?k p \<or> p' = process_activity rt ?S ctx run p1"
    using assms(2,4) abandon [of "Some (from_millis 100)" True] unfolding process_next_work_item_def
    by (cases session_id) (auto simp: ctx_def Let_def split: if_splits simp del: sqlite_work_store_simps)
  with deliver show ?thesis unfolding Let_def ctx_def [symmetric] by metis
qed

definition act_runtime :: "sem_ver worker_runtime" where
  "act_runtime = \<lparr>wr_options = one_session,
     wr_activities = \<lparr>rg_inner = [(''act'', [(Sem_Ver 1 0 0, \<lambda>_ input. Task_Returned (Inr (input @ ''!'')))])],
                      rg_policy = Map.empty\<rparr>,
     wr_item_json = (\<lambda>_. ''json'')\<rparr>"

definition act_env :: "(event, work_item) sqlite_env" where
  "act_env = \<lparr>en_db = sql_run plain_codec (OP_Enqueue_Worker 3 (WI_ActivityExecute ''i'' 1 2 ''act'' ''x'' None None)) empty_db,
     en_now = 5000000, en_clock = [], en_faults = [], en_pid = 7\<rparr>"

definition quiet_run :: "(event, work_item) sqlite_env activity_run" where
  "quiet_run = \<lparr>rn_ticks = [(False, \<lambda>e. e)], rn_others = (\<lambda>e. e), rn_joined_first = False\<rparr>"

lemmas env_eval = env_fetch_work_item_def env_at_now_def with_fault_def read_clock_def on_db_def now_millis_def
  act_env_def

lemma act_env_fetch:
  "fst (env_fetch_work_item plain_codec 30000000000 cfg TF_DefaultOnly act_env)
    = Inr (Some (WI_ActivityExecute ''i'' 1 2 ''act'' ''x'' None None, generate_lock_token 5000000 7, 1))"
  by (simp add: env_eval sql_eval)

theorem activity_delivers_at_most_once_witness:
  "\<exists>r t' p'. process_next_work_item act_runtime (sqlite_work_store plain_codec) ''work-0-n'' ''n'' [] quiet_run act_env = (r, t', p')
     \<and> (queued_completions plain_codec (''i'', 1, 2) p' = []
        \<or> queued_completions plain_codec (''i'', 1, 2) p' = [WI_ActivityCompleted ''i'' 1 2 ''x!''])"
proof -
  let ?S = "sqlite_work_store plain_codec"
  obtain r t' p' where p: "process_next_work_item act_runtime ?S ''work-0-n'' ''n'' [] quiet_run act_env = (r, t', p')"
    by (metis prod_cases3)
  obtain p1 where f: "ws_fetch_work_item ?S (wo_worker_lock_timeout (wr_options act_runtime))
      (session_config (wr_options act_runtime) ''n'' []) (wo_worker_tag_filter (wr_options act_runtime)) act_env
    = (Inr (Some (WI_ActivityExecute ''i'' 1 2 ''act'' ''x'' None None, generate_lock_token 5000000 7, 1)), p1)"
    using act_env_fetch [of "session_config one_session ''n'' []"]
    by (cases "ws_fetch_work_item ?S (wo_worker_lock_timeout (wr_options act_runtime))
      (session_config (wr_options act_runtime) ''n'' []) (wo_worker_tag_filter (wr_options act_runtime)) act_env")
      (simp add: act_runtime_def one_session_def)
  have empty: "queued_completions plain_codec (''i'', 1, 2) act_env = []"
    by (simp add: queued_completions_def act_env_def sql_eval)
  from activity_delivers_at_most_once [OF plain_codec_ok f _ p] p show ?thesis
    by (auto simp: quiet_run_def empty [simplified] due_completion_def act_runtime_def one_session_def resolve_handler_def
        completed_item_def opt_or_def bt_last_def Let_def)
qed

text \<open>C13. A result that is reported in time is committed: when the lease is still held as the handler returns and the database
  does not fail, the work item is gone and its completion, with exactly the handler's result, is in the
  orchestrator queue, in one step.\<close>

theorem handler_result_committed:
  assumes "codec_ok cd" and "aw_attempt_count ctx \<le> wo_max_attempts (wr_options rt)"
    and "resolve_handler (aw_activity_name ctx) (wr_activities rt) = Some (v, handler)"
    and "handler (build_activity_context (sqlite_work_store cd) ctx p) (aw_input ctx) = Task_Returned (Inr result)"
    and "activity_manager (sqlite_work_store cd) (aw_lock_token ctx) (wo_worker_lock_timeout (wr_options rt))
           (rn_ticks run) p = (False, p1)"
    and "rn_others run p1 = p2" and "en_faults p2 = []"
    and "q \<in> set (db_worker_queue (en_db p2))"
    and "work_locked (now_millis (fst (read_clock p2))) (aw_lock_token ctx) q"
  shows "let p' = process_activity rt (sqlite_work_store cd) ctx run p
         in q \<notin> set (db_worker_queue (en_db p'))
          \<and> read_items cd (db_orchestrator_queue (en_db p')) = read_items cd (db_orchestrator_queue (en_db p2))
               @ [WI_ActivityCompleted (aw_instance ctx) (aw_execution_id ctx) (aw_activity_id ctx) result]"
proof -
  let ?S = "sqlite_work_store cd" and ?c = "completed_item ctx result"
  obtain now p3 where c: "read_clock p2 = (now, p3)" by force
  have lk: "work_locked (now_millis now) (aw_lock_token ctx) q" using assms(9) c by simp
  obtain q1 where q1: "List.find (work_locked (now_millis now) (aw_lock_token ctx)) (db_worker_queue (en_db p2)) = Some q1"
    using assms(8) lk find_None_all [of "work_locked (now_millis now) (aw_lock_token ctx)" "db_worker_queue (en_db p2)"]
    by fastforce
  obtain db' where a: "ack_work_item cd (now_millis now) (aw_lock_token ctx) (Some ?c) (en_db p2) = (Inr (), db')"
    by (simp add: ack_work_item_def run_tx_ok ack_work_tx_def q1 Let_def completed_item_def)
  have w: "db_worker_queue db' = sql_delete (work_locked (now_millis now) (aw_lock_token ctx)) (db_worker_queue (en_db p2))"
    using a by (auto simp: ack_work_item_def run_tx_ok ack_work_tx_def q1 Let_def completed_item_def frames)
  have store: "ws_ack_work_item ?S (aw_lock_token ctx) (Some ?c) p2 = (Inr (), p3\<lparr>en_db := db'\<rparr>)"
    using a c read_clock_db [OF c] assms(7) by (simp add: env_at_now_def with_fault_def on_db_def)
  have "process_activity rt ?S ctx run p = p3\<lparr>en_db := db'\<rparr>"
    using assms(2-6) store
    by (simp add: process_activity_def execute_activity_def run_activity_with_cancellation_def Let_def
        handle_activity_success_def handle_activity_outcome_def del: sqlite_work_store_simps)
  with ack_work_item_queue [OF assms(1) a] w lk show ?thesis
    by (simp add: sql_delete_def completed_item_def)
qed

definition act_leased :: "(event, work_item) sqlite_env" where
  "act_leased = snd (env_fetch_work_item plain_codec 30000000000 None TF_DefaultOnly act_env)"

definition act_context :: activity_work_context where
  "act_context = \<lparr>aw_instance = ''i'', aw_execution_id = 1, aw_activity_id = 2, aw_activity_name = ''act'',
     aw_input = ''x'', aw_lock_token = generate_lock_token 5000000 7, aw_attempt_count = 1,
     aw_item_serialized = ''json'', aw_worker_id = ''work-0-n'', aw_session_id = None, aw_tag = None\<rparr>"

theorem handler_result_committed_witness:
  "read_items plain_codec (db_orchestrator_queue (en_db
      (process_activity act_runtime (sqlite_work_store plain_codec) act_context quiet_run act_leased)))
    = [WI_ActivityCompleted ''i'' 1 2 ''x!'']"
proof -
  let ?S = "sqlite_work_store plain_codec" and ?tok = "generate_lock_token 5000000 7"
  note defs = env_eval sql_eval renew_work_item_lock_def act_leased_def
  obtain p1 where m: "activity_manager ?S (aw_lock_token act_context)
      (wo_worker_lock_timeout (wr_options act_runtime)) (rn_ticks quiet_run) act_leased = (False, p1)"
    and f: "en_faults p1 = []"
    and q: "\<exists>q \<in> set (db_worker_queue (en_db p1)). work_locked (now_millis (fst (read_clock p1))) ?tok q"
    and e: "db_orchestrator_queue (en_db p1) = []"
    by (simp add: act_context_def act_runtime_def one_session_def quiet_run_def defs)
  then obtain q where q': "q \<in> set (db_worker_queue (en_db p1))"
    "work_locked (now_millis (fst (read_clock p1))) (aw_lock_token act_context) q"
    by (auto simp: act_context_def)
  have r: "resolve_handler (aw_activity_name act_context) (wr_activities act_runtime)
      = Some (Sem_Ver 1 0 0, \<lambda>_ input. Task_Returned (Inr (input @ ''!'')))"
    by (simp add: act_context_def act_runtime_def resolve_handler_def bt_last_def opt_or_def)
  have a: "aw_attempt_count act_context \<le> wo_max_attempts (wr_options act_runtime)"
    by (simp add: act_context_def act_runtime_def one_session_def)
  have o: "rn_others quiet_run p1 = p1" by (simp add: quiet_run_def)
  from handler_result_committed [OF plain_codec_ok a r refl m o f q'] e show ?thesis
    by (simp add: Let_def act_context_def read_items_def)
qed

subsection \<open>The provider of the orchestration dispatcher\<close>

definition env_ack_orchestration_item ::
    "('d, 'w) codec \<Rightarrow> string \<Rightarrow> sem_ver ack_request \<Rightarrow> ('d, 'w) sqlite_env
       \<Rightarrow> (provider_error + unit) \<times> ('d, 'w) sqlite_env" where
  "env_ack_orchestration_item cd tok req = with_fault ''ack_orchestration_item'' (\<lambda>env.
     let (now, env1) = read_clock env; (now_check, env2) = read_clock env1
     in on_db (ack_orchestration_item cd (now_millis now) (now_millis now_check) tok req) env2)"

definition sqlite_orchestration_store ::
    "('d, 'w) codec \<Rightarrow> (sem_ver, ('d, 'w) sqlite_env) orchestration_store" where
  "sqlite_orchestration_store cd =
     \<lparr>os_ack_orchestration_item = (\<lambda>tok req env.
        case env_ack_orchestration_item cd tok req env of (Inl e, env') \<Rightarrow> (Some e, env') | (Inr _, env') \<Rightarrow> (None, env')),
      os_abandon_orchestration_item = (\<lambda>tok delay ignore_attempt env.
        snd (env_at_now ''abandon_orchestration_item''
          (\<lambda>now. abandon_orchestration_item now tok delay ignore_attempt) env))\<rparr>"

text \<open>What a commit of a request, and a release of the lock, are on the tables.\<close>

definition acked_by :: "('d, 'w) codec \<Rightarrow> string \<Rightarrow> sem_ver ack_request \<Rightarrow> ('d, 'w) db \<Rightarrow> ('d, 'w) db \<Rightarrow> bool" where
  "acked_by cd tok req db db' \<longleftrightarrow>
     (\<exists>now now_check. ack_orchestration_item cd now now_check tok req db = (Inr (), db'))"

definition abandoned_by :: "string \<Rightarrow> ('d, 'w) db \<Rightarrow> ('d, 'w) db \<Rightarrow> bool" where
  "abandoned_by tok db db' \<longleftrightarrow> db' = db
     \<or> (\<exists>now delay ignore_attempt. db' = snd (abandon_orchestration_item now tok delay ignore_attempt db))"

lemma env_ack_cases:
  assumes "env_ack_orchestration_item cd tok req env = (r, env')"
  obtains msg where "r = Inl (sqlx_to_provider_error ''ack_orchestration_item'' msg)" "en_db env' = en_db env"
  | now now_check where "ack_orchestration_item cd now now_check tok req (en_db env) = (r, en_db env')"
  using assms unfolding env_ack_orchestration_item_def
proof (rule with_fault_cases)
  fix env0
  assume e: "en_db env0 = en_db env" and b: "(let (now, env1) = read_clock env0; (now_check, env2) = read_clock env1
      in on_db (ack_orchestration_item cd (now_millis now) (now_millis now_check) tok req) env2) = (r, env')"
  obtain now env1 chk env2 where c: "read_clock env0 = (now, env1)" "read_clock env1 = (chk, env2)" by force
  from b c have "ack_orchestration_item cd (now_millis now) (now_millis chk) tok req (en_db env2) = (r, en_db env')"
    by (auto simp: on_db_def split: prod.splits)
  with that(2) read_clock_db [OF c(1)] read_clock_db [OF c(2)] e show thesis by metis
qed (rule that(1))

interpretation sqlite: atomic_store "sqlite_orchestration_store cd" en_db "acked_by cd" abandoned_by for cd
proof
  fix tok req p e p'
  assume "os_ack_orchestration_item (sqlite_orchestration_store cd) tok req p = (Some e, p')"
  then have "env_ack_orchestration_item cd tok req p = (Inl e, p')"
    by (auto simp: sqlite_orchestration_store_def split: prod.splits sum.splits)
  then show "en_db p' = en_db p"
    by (rule env_ack_cases) (auto simp: ack_orchestration_item_def dest: run_tx_error)
next
  fix tok req p p'
  assume "os_ack_orchestration_item (sqlite_orchestration_store cd) tok req p = (None, p')"
  then have "env_ack_orchestration_item cd tok req p = (Inr (), p')"
    by (auto simp: sqlite_orchestration_store_def split: prod.splits sum.splits)
  then show "acked_by cd tok req (en_db p) (en_db p')"
    by (rule env_ack_cases) (auto simp: acked_by_def)
next
  fix tok p delay ignore_attempt
  show "abandoned_by tok (en_db p) (en_db (os_abandon_orchestration_item (sqlite_orchestration_store cd) tok delay
      ignore_attempt p))"
  proof (cases "env_at_now ''abandon_orchestration_item'' (\<lambda>now. abandon_orchestration_item now tok delay ignore_attempt) p")
    case (Pair r p')
    then have "os_abandon_orchestration_item (sqlite_orchestration_store cd) tok delay ignore_attempt p = p'"
      by (simp add: sqlite_orchestration_store_def)
    moreover have "abandoned_by tok (en_db p) (en_db p')" using Pair
    proof (rule env_at_now_cases)
      fix now
      assume "abandon_orchestration_item now tok delay ignore_attempt (en_db p) = (r, en_db p')"
      then show ?thesis unfolding abandoned_by_def by (metis snd_conv)
    qed (simp add: abandoned_by_def)
    ultimately show ?thesis by simp
  qed
qed

lemma acked_token_dead:
  assumes "tokens_ok db" and "acked_by cd tok req db db'"
  shows "instance_of_token tok db' = None"
proof -
  from assms(2) obtain now chk where "ack_orchestration_tx cd now chk tok req db = Inr ((), db')"
    by (auto simp: acked_by_def ack_orchestration_item_def run_tx_ok)
  then obtain inst db1 where i: "instance_of_token tok db = Some inst"
    and w: "ack_writes cd now tok inst req db = Inr db1" and db': "db' = release_lock inst tok db1"
    by (rule ack_tx_cases)
  have "il_instance l = inst" if "l \<in> set (db_instance_locks db)" "il_lock_token l = tok" for l
  proof -
    have "(tok, il_instance l) \<in> lock_marks db" using that by (auto simp: lock_marks_def)
    moreover have "(tok, inst) \<in> lock_marks db"
      using i by (force simp: instance_of_token_def lock_marks_def dest: find_Some_mem)
    ultimately show ?thesis using assms(1) by (auto simp: tokens_ok_def single_valued_def)
  qed
  then show ?thesis
    by (auto simp: db' instance_of_token_def release_lock_def sql_delete_def find_None_all ack_writes_tables(2) [OF w])
qed

lemma dead_token_fails:
  assumes "instance_of_token tok db = None"
  shows "ack_orchestration_item cd now now_check tok req db
    = (Inl (permanent_error ''ack_orchestration_item'' ''Invalid lock token''), db)"
  using assms by (simp add: ack_orchestration_item_def run_tx_def ack_orchestration_tx_def)

text \<open>C8. Processing a fetched item commits at most once, whatever the handler does and however often the acknowledgement is
  retried through database faults: the tables are as before, or the lock was released with the messages put back, or exactly
  one request was committed, and after that the token is dead, so nothing can be committed under it again.\<close>

theorem item_commits_at_most_once:
  assumes "reachable cd (en_db p)"
    and "process_orchestration_item rt (sqlite_orchestration_store cd) item tok attempt_count ids p = Some (p', ids')"
  shows "en_db p' = en_db p
    \<or> abandoned_by tok (en_db p) (en_db p')
    \<or> (\<exists>req. acked_by cd tok req (en_db p) (en_db p')
         \<and> (\<nexists>req' db. acked_by cd tok req' (en_db p') db))"
proof -
  have t: "tokens_ok (en_db p)" using reachable_ok [OF assms(1)] by simp
  have dead: "\<nexists>req' db. acked_by cd tok req' (en_db p') db" if "acked_by cd tok req (en_db p) (en_db p')" for req
    using dead_token_fails [OF acked_token_dead [OF t that]] by (simp add: acked_by_def)
  from sqlite.item_commits_once [OF assms(2)] dead show ?thesis by blast
qed

definition poison_runtime :: "(sem_ver, unit) runtime" where
  "poison_runtime = \<lparr>rt_orchestration_registry = \<lparr>rg_inner = [], rg_policy = Map.empty\<rparr>, rt_max_attempts = 0,
     rt_base_delay = 0, rt_max_delay = 0, rt_parse_version = (\<lambda>_. Some (Sem_Ver 1 0 0)), rt_show_version = (\<lambda>_. ''1.0.0''),
     rt_messages_json = (\<lambda>_. ''[]'')\<rparr>"

definition fetched_env :: "(event, work_item) sqlite_env" where
  "fetched_env = \<lparr>en_db = run_all plain_codec
       [OP_Enqueue_Orchestrator 3 start_item None, OP_Fetch_Orchestration 5 ''t'' 1000000000 None] empty_db,
     en_now = 6000000, en_clock = [], en_faults = [Some ''database is locked''], en_pid = 7\<rparr>"

definition fetched_item :: orchestration_item where
  "fetched_item = \<lparr>oi_instance = ''i'', oi_orchestration_name = ''o'', oi_execution_id = 1, oi_version = ''unknown'',
     oi_history = [], oi_messages = [start_item], oi_history_error = None, oi_kv_snapshot = []\<rparr>"

theorem item_commits_at_most_once_witness:
  "\<exists>p' ids'. process_orchestration_item poison_runtime (sqlite_orchestration_store plain_codec) fetched_item ''t'' 1
       Map.empty fetched_env = Some (p', ids')
     \<and> (en_db p' = en_db fetched_env \<or> abandoned_by ''t'' (en_db fetched_env) (en_db p')
       \<or> (\<exists>req. acked_by plain_codec ''t'' req (en_db fetched_env) (en_db p')
           \<and> (\<nexists>req' db. acked_by plain_codec ''t'' req' (en_db p') db)))"
proof -
  have r: "reachable plain_codec (en_db fetched_env)"
    unfolding fetched_env_def sqlite_env.simps run_all.simps
    by (intro reachable.intros) (simp_all add: start_item_def sql_eval)
  obtain p' ids' where p: "process_orchestration_item poison_runtime (sqlite_orchestration_store plain_codec) fetched_item
      ''t'' 1 Map.empty fetched_env = Some (p', ids')"
    by (simp add: process_orchestration_item_def poison_runtime_def)
  from item_commits_at_most_once [OF r p] p show ?thesis by blast
qed

end
