(* ===== verification/Turn_Contract.thy ===== *)
theory Turn_Contract
  imports Dispatch Replay_Once Orch_Props
begin

text \<open>
  What the orchestration dispatcher may submit for a fetched item, and the contract every such request
  keeps about activities: the work it enqueues is the work its events schedule, the results it records
  come from the item's messages, one each, and it addresses no result to anybody.
\<close>

subsection \<open>The requests\<close>

inductive submits ::
    "('v::linorder, 's) runtime \<Rightarrow> orchestration_item \<Rightarrow> nat \<Rightarrow> exec_ids \<Rightarrow> 'v ack_request \<Rightarrow> bool"
  for rt item attempt_count ids where
  poison: "attempt_count > rt_max_attempts rt \<Longrightarrow>
     submits rt item attempt_count ids (poison_request rt item attempt_count ids)"
| ended: "submits rt item attempt_count ids (empty_request (oi_execution_id item))"
| turn: "item_request rt item (from_history (oi_history item))
       (from_messages (oi_messages item) (from_history (oi_history item)) (oi_instance item)) ids = Some (Inr (req, ids'))
     \<Longrightarrow> submits rt item attempt_count ids req"
| failure: "submits rt item attempt_count ids req \<Longrightarrow>
     submits rt item attempt_count ids (infra_failure_request (rt_parse_version rt) item (ar_execution_id req) e)"

lemma attempts_keep:
  assumes "\<And>p. P p \<Longrightarrow> P (snd (os_ack_orchestration_item store tok req p))"
  shows "P p \<Longrightarrow> P (snd (snd (ack_attempts store tok req n p)))"
proof (induction "MAX_ACK_RETRIES - n" arbitrary: n p rule: less_induct)
  case less
  obtain r p1 where a: "os_ack_orchestration_item store tok req p = (r, p1)" by force
  with assms [OF less.prems] have p1: "P p1" by simp
  have "P (snd (snd (ack_attempts store tok req (n + 1) p1)))" if "n < MAX_ACK_RETRIES"
    using less.hyps [of "n + 1"] that p1 by simp
  with p1 show ?case by (subst ack_attempts.simps) (simp add: a case_prod_unfold Let_def split: option.split)
qed

text \<open>Processing an item changes the store only by these requests, and by releasing the lock.\<close>

lemma process_submits:
  assumes ack: "\<And>req p. submits rt item n ids req \<Longrightarrow> P p \<Longrightarrow> P (snd (os_ack_orchestration_item store tok req p))"
    and abandon: "\<And>delay ig p. P p \<Longrightarrow> P (os_abandon_orchestration_item store tok delay ig p)"
    and "P p" and proc: "process_orchestration_item rt store item tok n ids p = Some (p', ids')"
  shows "P p'"
proof -
  have one: "P (snd (snd (ack_orchestration_with_changes store tok req q)))" if "submits rt item n ids req" "P q" for req q
    unfolding ack_orchestration_with_changes_def by (rule attempts_keep) (use ack that in blast)+
  have commit: "P (commit_turn store (rt_parse_version rt) item tok req q)" if s: "submits rt item n ids req" "P q" for req q
  proof -
    obtain r d q1 where a: "ack_orchestration_with_changes store tok req q = (r, d, q1)" by (metis prod_cases3)
    with one [OF s] have "P q1" by simp
    with one [OF failure [OF s(1)]] a show ?thesis by (cases r) (simp_all add: commit_turn_def)
  qed
  show ?thesis
    using proc \<open>P p\<close> abandon one [OF poison] one [OF ended] commit [OF turn]
    by (auto simp: process_orchestration_item_def fail_orchestration_as_poison_def Let_def
        split: if_splits option.splits sum.splits prod.splits)
qed

subsection \<open>The contract\<close>

text \<open>The message to the workers that a schedule event causes.\<close>

definition work_of_event :: "string \<Rightarrow> id64 \<Rightarrow> event \<Rightarrow> work_item option" where
  "work_of_event inst x ev = (case ev_kind ev of
     ActivityScheduled name input session tag \<Rightarrow>
       Some (WI_ActivityExecute inst x (ev_event_id ev) name input session tag) | _ \<Rightarrow> None)"

definition activity_results :: "event list \<Rightarrow> id64 list" where
  "activity_results es = result_sources (in_group ''activity'') es"

definition honest_request :: "orchestration_item \<Rightarrow> 'v ack_request \<Rightarrow> bool" where
  "honest_request item req \<longleftrightarrow>
     oi_execution_id item \<le> ar_execution_id req
     \<and> (ar_worker_items req = [] \<or> ar_worker_items req
          = List.map_filter (work_of_event (oi_instance item) (ar_execution_id req)) (ar_history_delta req))
     \<and> distinct (activity_results (ar_history_delta req))
     \<and> (\<forall>i \<in> set (activity_results (ar_history_delta req)).
          \<exists>m \<in> set (oi_messages item). message_group m = Some (''activity'', ar_execution_id req, i))
     \<and> (\<forall>w \<in> set (ar_orchestrator_items req). \<forall>x i. message_group w \<noteq> Some (''activity'', x, i))"

lemma activity_results_append [simp]:
  "activity_results (xs @ ys) = activity_results xs @ activity_results ys"
  by (simp add: activity_results_def)

lemma no_results [simp]:
  "activity_results [] = []"
  "ev_source_event_id ev = None \<or> \<not> in_group ''activity'' (ev_kind ev) \<Longrightarrow> activity_results (ev # es) = activity_results es"
  by (auto simp: activity_results_def result_sources_def map_filter_simps split: option.split)

lemma no_results_all: "(\<And>ev. ev \<in> set es \<Longrightarrow> \<not> in_group ''activity'' (ev_kind ev)) \<Longrightarrow> activity_results es = []"
  by (induction es) simp_all

subsection \<open>What a turn adds\<close>

text \<open>Events that are neither results nor activity schedules.\<close>

definition plain_event :: "event \<Rightarrow> bool" where
  "plain_event ev \<longleftrightarrow> \<not> in_group ''activity'' (ev_kind ev) \<and> \<not> is_activity_scheduled (ev_kind ev)"

lemma plain_work: "plain_event ev \<Longrightarrow> work_of_event inst x ev = None"
  by (cases "ev_kind ev") (auto simp: plain_event_def work_of_event_def)

lemma plain_events:
  "list_all plain_event es \<Longrightarrow> activity_results es = []"
  "list_all plain_event es \<Longrightarrow> List.map_filter (work_of_event inst x) es = []"
  by (induction es) (auto simp: plain_event_def plain_work map_filter_simps)

definition adds_no_results :: "replay_engine \<Rightarrow> replay_engine \<Rightarrow> bool" where
  "adds_no_results e e' \<longleftrightarrow> (\<exists>evs. re_history_delta e' = re_history_delta e @ evs
     \<and> (\<forall>ev \<in> set evs. \<not> in_group ''activity'' (ev_kind ev)))"

lemma adds_no_results_refl: "adds_no_results e e"
  by (simp add: adds_no_results_def)

lemma adds_no_results_trans: "adds_no_results a b \<Longrightarrow> adds_no_results b c \<Longrightarrow> adds_no_results a c"
  unfolding adds_no_results_def by (metis Un_iff append.assoc set_append)

lemma converted_no_result: "action_event_kind a = Some k \<Longrightarrow> \<not> in_group g k"
  by (cases a) (auto simp: in_group_def)

lemma convert_no_results: "adds_no_results e (fst (convert_emitted_actions acts e c))"
proof (induction acts arbitrary: e c)
  case (Cons y acts)
  obtain e1 c1 where y: "convert_action y (e, c) = (e1, c1)" by (cases "convert_action y (e, c)")
  obtain t a where ta: "y = (t, a)" by (cases y)
  have "adds_no_results e e1"
    using y by (auto simp: ta convert_action_def Let_def adds_no_results_def action_to_event_def converted_no_result
        split: option.splits)
  with adds_no_results_trans [OF this Cons.IH [of e1 c1]] y show ?case by (simp add: convert_emitted_actions_def)
qed (simp add: convert_emitted_actions_def adds_no_results_refl)

lemma emit_no_results:
  assumes "\<not> in_group ''activity'' k" and "\<And>y e. re_history_delta (side y e) = re_history_delta e"
  shows "adds_no_results e (emit_cancel_requests k side already ys e)"
proof (induction ys arbitrary: already e)
  case (Cons y ys)
  have "adds_no_results e (push_breadcrumb k (fst y) (side y e))"
    using assms by (simp add: adds_no_results_def push_breadcrumb_def)
  with Cons show ?case by (auto intro: adds_no_results_trans)
qed (simp add: adds_no_results_refl)

lemma emit_cancellations_no_results: "adds_no_results e (emit_cancellations c e)"
  unfolding emit_cancellations_def Let_def
  by (intro adds_no_results_trans [OF _ emit_no_results] emit_no_results)
    (simp_all add: in_group_def side_activity_def side_sub_orch_def no_side_def)

lemma execute_no_results: "execute_orchestration h input n v e = Some (res, e') \<Longrightarrow> adds_no_results e e'"
  by (erule execute_relation [where R = adds_no_results, rotated -1])
    (rule adds_no_results_refl, erule (1) adds_no_results_trans, rule convert_no_results, rule emit_cancellations_no_results)

text \<open>The events behind the turn's own: breadcrumbs and a terminal event.\<close>

definition adds_plain :: "history_manager \<Rightarrow> history_manager \<Rightarrow> bool" where
  "adds_plain m m' \<longleftrightarrow> (\<exists>evs. hm_delta m' = hm_delta m @ evs \<and> list_all plain_event evs)"

lemma adds_plain_refl [simp]: "adds_plain m m"
  by (simp add: adds_plain_def)

lemma adds_plain_trans: "adds_plain a b \<Longrightarrow> adds_plain b c \<Longrightarrow> adds_plain a c"
  unfolding adds_plain_def by (metis append.assoc list_all_append)

lemma adds_plain_append: "adds_plain m m' \<Longrightarrow> plain_event ev \<Longrightarrow> adds_plain m (hm_append ev m')"
  by (erule adds_plain_trans) (simp add: adds_plain_def hm_append_def)

lemma breadcrumbs_plain: "adds_plain m (snd (outstanding_and_breadcrumbs i x m))"
proof -
  have "adds_plain m (fold (append_cancelled i x k) ss m)" if "plain_event (with_event_id 0 i x None k)" for k ss m
    using that
  proof (induction ss arbitrary: m)
    case (Cons s ss)
    have "adds_plain m (append_cancelled i x k s m)"
      using Cons.prems by (auto simp: append_cancelled_def plain_event_def intro: adds_plain_append)
    from adds_plain_trans [OF this Cons.IH [OF Cons.prems]] show ?case by simp
  qed simp
  note f = this
  show ?thesis
    unfolding outstanding_and_breadcrumbs_def emit_terminal_cancellation_breadcrumbs_def Let_def snd_conv
    by (rule adds_plain_trans [OF f f]) (simp_all add: plain_event_def in_group_def)
qed

lemma output_plain: "adds_plain m (to_history (turn_result_output inst x n pl res pending m ids))"
proof -
  obtain os b where ob: "outstanding_and_breadcrumbs inst x m = (os, b)" by force
  then have "adds_plain m b" using breadcrumbs_plain [of m inst x] by simp
  note plain = adds_plain_append [OF this]
  note defs = turn_result_output_def completed_output_def failed_output_def cancelled_output_def continued_output_def
    append_failed_def ob Let_def
  show ?thesis
  proof (cases res)
    case TR_Continue
    then show ?thesis by (simp add: turn_result_output_def continue_output_def case_prod_unfold Let_def)
  qed (simp add: defs, rule plain, simp add: plain_event_def in_group_def)+
qed

definition no_activity_answer :: "work_item \<Rightarrow> bool" where
  "no_activity_answer w \<longleftrightarrow> (\<forall>x i. message_group w \<noteq> Some (''activity'', x, i))"

lemma no_activity_answer_simps [simp]:
  "no_activity_answer (WI_StartOrchestration i n input v p pid x)" "no_activity_answer (WI_TimerFired i x s t)"
  "no_activity_answer (WI_CancelInstance i r)" "no_activity_answer (WI_ContinueAsNew i n input v c st)"
  "no_activity_answer (WI_SubOrchCompleted i x s r)" "no_activity_answer (WI_SubOrchFailed i x s d)"
  by (simp_all add: no_activity_answer_def)

lemma dispatch_no_answers:
  "fold (dispatch_action inst x) pending (ws, os, ids) = (ws', os', ids') \<Longrightarrow> list_all no_activity_answer os \<Longrightarrow>
   list_all no_activity_answer os'"
proof (induction pending arbitrary: ws os ids)
  case (Cons a pending)
  obtain w1 o1 i1 where one: "dispatch_action inst x a (ws, os, ids) = (w1, o1, i1)"
    by (cases "dispatch_action inst x a (ws, os, ids)")
  from one Cons.prems(2) have "list_all no_activity_answer o1"
    by (cases a) (auto simp: dispatch_action_def get_execution_id_for_instance_def Let_def)
  from Cons.IH [OF _ this] Cons.prems(1) one show ?case by simp
qed simp

lemma output_no_answers:
  "list_all no_activity_answer (to_orchestrator_items (turn_result_output inst x n pl res pending m ids))"
proof -
  have det: "list_all no_activity_answer (detached_from_pending pending)"
    by (auto simp: list_all_iff detached_from_pending_def map_filter_def detached_start_item_def split: action.splits)
  obtain ws os ids' where d: "fold (dispatch_action inst x) pending ([], [], ids) = (ws, os, ids')"
    by (cases "fold (dispatch_action inst x) pending ([], [], ids)")
  then have "list_all no_activity_answer os" by (rule dispatch_no_answers) simp
  with det d show ?thesis
    by (cases res) (auto simp: turn_result_output_def continue_output_def completed_output_def failed_output_def
        cancelled_output_def continued_output_def notify_parent_failed_def case_prod_unfold Let_def
        list_all_iff split: option.splits)
qed

subsection \<open>Every request keeps the contract\<close>

lemma recorded_work:
  "List.map_filter (activity_item inst x) (recorded_schedules es) = List.map_filter (work_of_event inst x) es"
proof (induction es)
  case (Cons ev es)
  have "(case event_schedule ev of Some y \<Rightarrow> activity_item inst x y | None \<Rightarrow> None) = work_of_event inst x ev"
    by (cases "ev_kind ev") (simp_all add: event_schedule_def activity_item_def work_of_event_def)
  with Cons show ?case
    by (cases "work_of_event inst x ev"; cases "event_schedule ev") (simp_all add: map_filter_simps)
qed (simp add: map_filter_simps)

text \<open>The prepared engine: its new results answer the batch, once each.\<close>

lemma prepared_contract:
  assumes "re_history_delta e = []" and "prep_inv e" and e': "e' = (if ms = [] then e else prep_completions ms e)"
  shows "distinct (activity_results (re_history_delta e'))"
    and "i \<in> set (activity_results (re_history_delta e')) \<Longrightarrow>
           \<exists>m \<in> set ms. message_group m = Some (''activity'', re_execution_id e, i)"
proof -
  have e': "e' = prep_completions ms e" by (simp add: e' prep_completions_def)
  have "prep_inv e'" unfolding e' by (rule prep_completions_inv [OF assms(2)])
  then show "distinct (activity_results (re_history_delta e'))" by (simp add: prep_inv_def activity_results_def)
  assume "i \<in> set (activity_results (re_history_delta e'))"
  then obtain ev where "ev \<in> set (re_history_delta e')" "in_group ''activity'' (ev_kind ev)" "ev_source_event_id ev = Some i"
    by (auto simp: activity_results_def result_sources_def map_filter_def split: if_splits)
  with prepared_results [OF assms(1)] show "\<exists>m \<in> set ms. message_group m = Some (''activity'', re_execution_id e, i)"
    by (simp add: e')
qed

lemma run_contract:
  assumes "run_single_execution_atomic h inst m reader x ver kv ids = Some out" and "list_all plain_event (hm_delta m)"
  shows "to_worker_items out = [] \<or> to_worker_items out = List.map_filter (work_of_event inst x) (hm_delta (to_history out))"
    and "distinct (activity_results (hm_delta (to_history out)))"
    and "i \<in> set (activity_results (hm_delta (to_history out))) \<Longrightarrow>
           \<exists>m \<in> set (wr_completion_messages reader). message_group m = Some (''activity'', x, i)"
    and "list_all no_activity_answer (to_orchestrator_items out)"
proof -
  obtain input link where ctx: "extract_context m = (input, link)" by force
  let ?e = "with_kv_snapshot kv (with_persisted_history_len (original_len m) (engine_new inst x (full_history m)))"
  let ?ms = "wr_completion_messages reader"
  let ?p = "if ?ms = [] then ?e else prep_completions ?ms ?e"
  have e: "re_history_delta ?e = []" "re_execution_id ?e = x" "re_pending_actions ?e = []"
    by (simp_all add: with_kv_snapshot_def with_persisted_history_len_def engine_new_def)
  have "prep_inv ?e"
    using engine_new_prep_inv [of inst x "full_history m"]
    by (simp add: prep_inv_def with_kv_snapshot_def with_persisted_history_len_def engine_history_def)
  note prep = prepared_contract [OF e(1) this, where ms = ?ms, OF refl]
  from assms(1) obtain res turn where
    ex: "execute_orchestration h input (wr_orchestration_name reader) ver ?p = Some (res, turn)"
    by (auto simp: run_single_execution_atomic_def ctx Let_def split: option.splits)
  let ?m = "hm_extend (re_history_delta turn) m"
  let ?out = "turn_result_output inst x (wr_orchestration_name reader) link res (re_pending_actions turn) ?m ids"
  from assms(1) ex have out: "to_history out = to_history ?out" "to_worker_items out = to_worker_items ?out"
    "to_orchestrator_items out = to_orchestrator_items ?out @ map (\<lambda>child.
       WI_CancelInstance (build_child_instance_id inst child) parent_dropped) (re_cancelled_sub_orchestration_ids turn)"
    by (auto simp: run_single_execution_atomic_def ctx Let_def)
  from execute_no_results [OF ex] obtain evs where evs: "re_history_delta turn = re_history_delta ?p @ evs"
    "\<forall>ev \<in> set evs. \<not> in_group ''activity'' (ev_kind ev)" by (auto simp: adds_no_results_def)
  obtain extra where extra: "hm_delta (to_history ?out) = hm_delta ?m @ extra" "list_all plain_event extra"
    using output_plain [of ?m inst x "wr_orchestration_name reader" link res "re_pending_actions turn" ids]
    by (auto simp: adds_plain_def)
  have results: "activity_results (hm_delta (to_history out)) = activity_results (re_history_delta ?p)"
    using evs assms(2) extra by (simp add: out hm_extend_def plain_events no_results_all)
  show "distinct (activity_results (hm_delta (to_history out)))" unfolding results by (rule prep(1))
  show "\<exists>m \<in> set ?ms. message_group m = Some (''activity'', x, i)"
    if "i \<in> set (activity_results (hm_delta (to_history out)))"
    using prep(2) that unfolding results e(2) by blast
  show "list_all no_activity_answer (to_orchestrator_items out)"
    by (simp add: out output_no_answers list_all_iff [of _ "map _ _"])
  show "to_worker_items out = [] \<or> to_worker_items out = List.map_filter (work_of_event inst x) (hm_delta (to_history out))"
  proof (cases "res = TR_Continue")
    case True
    obtain ws os ids' where d: "fold (dispatch_action inst x) (re_pending_actions turn) ([], [], ids) = (ws, os, ids')"
      by (cases "fold (dispatch_action inst x) (re_pending_actions turn) ([], [], ids)")
    have "schedules_inv ?e" using e by (simp add: schedules_inv_def)
    then have "schedules_inv ?p" by (simp add: quiet_inv [OF quiet_prep_completions])
    with execute_inv [OF ex] have "recorded_schedules (re_history_delta turn) = pending_schedules (re_pending_actions turn)"
      by (simp add: schedules_inv_def)
    with dispatch_items [OF d] have "ws = List.map_filter (work_of_event inst x) (re_history_delta turn)"
      by (simp add: recorded_work flip: recorded_work)
    moreover have "hm_delta (to_history out) = hm_delta m @ re_history_delta turn"
      using True d by (simp add: out turn_result_output_def continue_output_def hm_extend_def)
    ultimately show ?thesis
      using True d assms(2) by (simp add: out turn_result_output_def continue_output_def mf_append plain_events)
  next
    case False
    then show ?thesis
      by (cases res) (simp_all add: out turn_result_output_def completed_output_def failed_output_def cancelled_output_def
          continued_output_def case_prod_unfold Let_def)
  qed
qed

lemma turn_request_contract:
  assumes "oi_execution_id item \<le> x"
    and "ws = [] \<or> ws = List.map_filter (work_of_event (oi_instance item) x) (hm_delta m)"
    and "distinct (activity_results (hm_delta m))"
    and "\<And>i. i \<in> set (activity_results (hm_delta m)) \<Longrightarrow> \<exists>m \<in> set (oi_messages item). message_group m = Some (''activity'', x, i)"
    and "list_all no_activity_answer os"
  shows "honest_request item (turn_request parse (oi_instance item) kv x m ws os cs)"
proof -
  let ?req = "turn_request parse (oi_instance item) kv x m ws os cs"
  obtain failed crumbs reason where d: "ar_history_delta ?req = hm_delta m @ failed @ crumbs"
    and f: "limit_events (limit_violation (hm_delta m) kv) (oi_instance item) x failed"
    and w: "case limit_violation (hm_delta m) kv of
          None \<Rightarrow> ar_worker_items ?req = ws \<and> ar_orchestrator_items ?req = os
            \<and> ar_metadata ?req = compute_execution_metadata parse (hm_delta m)
        | Some msg \<Rightarrow> ar_worker_items ?req = [] \<and> ar_orchestrator_items ?req = []
            \<and> em_status (ar_metadata ?req) = Some ''Failed''"
    and c: "\<forall>ev \<in> set crumbs. ev_kind ev = ActivityCancelRequested reason"
    by (rule turn_request_shape [OF refl, of parse "oi_instance item" kv x m ws os cs]) (rule that, assumption+)
  have x: "ar_execution_id ?req = x" by (simp only: turn_request_def Let_def case_prod_unfold ack_request.simps)
  have "list_all plain_event failed"
    using f by (cases "limit_violation (hm_delta m) kv") (auto simp: limit_events_def plain_event_def in_group_def)
  moreover have "list_all plain_event crumbs"
    using c by (simp add: list_all_iff plain_event_def in_group_def)
  ultimately have "activity_results (failed @ crumbs) = []"
    "List.map_filter (work_of_event (oi_instance item) x) (failed @ crumbs) = []"
    by (simp_all add: plain_events mf_append)
  then have r: "activity_results (ar_history_delta ?req) = activity_results (hm_delta m)"
    and k: "List.map_filter (work_of_event (oi_instance item) x) (ar_history_delta ?req)
      = List.map_filter (work_of_event (oi_instance item) x) (hm_delta m)"
    by (simp_all add: d mf_append)
  have ws: "ar_worker_items ?req = [] \<or> ar_worker_items ?req = ws" "ar_orchestrator_items ?req = [] \<or> ar_orchestrator_items ?req = os"
    using w by (auto split: option.splits)
  have "list_all no_activity_answer (ar_orchestrator_items ?req)" using ws(2) assms(5) by auto
  moreover have "ar_worker_items ?req = [] \<or> ar_worker_items ?req
      = List.map_filter (work_of_event (oi_instance item) x) (hm_delta m)"
    using ws(1) assms(2) by auto
  ultimately show ?thesis
    unfolding honest_request_def r x k using assms(1,3,4) by (simp add: list_all_iff no_activity_answer_def)
qed

lemma reader_messages:
  assumes "m \<in> set (wr_completion_messages (from_messages ms hm inst))" and "message_group m = Some g"
  shows "m \<in> set ms"
proof (cases "List.find is_start_item ms")
  case None
  with assms show ?thesis by (simp add: from_messages_def separate_messages_def)
next
  case (Some w)
  with assms show ?thesis by (cases w) (auto simp: from_messages_def separate_messages_def)
qed

lemma empty_honest: "ar_worker_items req = [] \<Longrightarrow> activity_results (ar_history_delta req) = [] \<Longrightarrow>
    list_all no_activity_answer (ar_orchestrator_items req) \<Longrightarrow> oi_execution_id item \<le> ar_execution_id req
    \<Longrightarrow> honest_request item req"
  by (simp add: honest_request_def list_all_iff no_activity_answer_def)

lemma failed_no_results: "activity_results (hm_delta (append_failed d m)) = activity_results (hm_delta m)"
  by (simp add: append_failed_def hm_append_def in_group_def)

lemma poison_honest: "honest_request item (poison_request rt item n ids)"
proof (cases "oi_history_error item")
  case (Some err)
  then show ?thesis
    by (intro empty_honest) (simp_all add: poison_request_def corrupted_history_request_def Let_def in_group_def)
next
  case None
  have "activity_results (hm_delta (fst (poison_history item))) = []"
    by (simp add: poison_history_def case_prod_unfold Let_def hm_append_def in_group_def)
  with None show ?thesis
    by (intro empty_honest)
      (simp_all add: poison_request_def case_prod_unfold Let_def failed_no_results notify_parent_failed_def
        split: option.split)
qed

lemma item_request_honest:
  assumes "item_request rt item (from_history (oi_history item))
       (from_messages (oi_messages item) (from_history (oi_history item)) (oi_instance item)) ids = Some (Inr (req, ids'))"
  shows "honest_request item req"
proof -
  let ?reader = "from_messages (oi_messages item) (from_history (oi_history item)) (oi_instance item)"
  obtain x m where xm: "execution_to_use item (from_history (oi_history item)) ?reader = (x, m)" by force
  have le: "oi_execution_id item \<le> x" and delta: "hm_delta m = []"
    using xm by (auto simp: execution_to_use_def split: if_splits)
  show ?thesis
  proof (cases "has_orchestration_name ?reader")
    case False
    with assms xm have "req = turn_request (rt_parse_version rt) (oi_instance item) (oi_kv_snapshot item) x m [] [] []"
      by (simp add: item_request_def Let_def)
    then show ?thesis using turn_request_contract [of item x "[]" m "[]"] le delta by simp
  next
    case True
    with assms xm obtain out where
      r: "resolve_and_execute_orchestration_handler rt (oi_instance item) m ?reader x (oi_kv_snapshot item) ids = Some (Inr out)"
      and req: "req = turn_request (rt_parse_version rt) (oi_instance item) (oi_kv_snapshot item) x
        (to_history out) (to_worker_items out) (to_orchestrator_items out) (to_cancelled_activities out)"
      by (auto simp: item_request_def Let_def split: option.splits sum.splits)
    from r obtain v h where vh: "resolve_for_item rt ?reader = Some (v, h)"
      by (auto simp: resolve_and_execute_orchestration_handler_def split: option.splits)
    define m' where "m' = (if hm_is_empty m
      then hm_append (new_execution_event (oi_instance item) x (rt_show_version rt v) ?reader) m else m)"
    from r vh have run: "run_single_execution_atomic h (oi_instance item) m' ?reader x (rt_show_version rt v)
        (oi_kv_snapshot item) ids = Some out"
      by (auto simp: resolve_and_execute_orchestration_handler_def Let_def m'_def)
    have "list_all plain_event (hm_delta m')"
      by (auto simp: m'_def hm_append_def delta new_execution_event_def case_prod_unfold Let_def plain_event_def in_group_def)
    note c = run_contract [OF run this]
    show ?thesis unfolding req
    proof (rule turn_request_contract [OF le c(1,2) _ c(4)])
      fix i assume "i \<in> set (activity_results (hm_delta (to_history out)))"
      from c(3) [OF this] reader_messages
      show "\<exists>m \<in> set (oi_messages item). message_group m = Some (''activity'', x, i)" by blast
    qed
  qed
qed

lemma submits_honest: "submits rt item n ids req \<Longrightarrow> honest_request item req"
proof (induction rule: submits.induct)
  case poison
  show ?case by (rule poison_honest)
next
  case ended
  show ?case by (rule empty_honest) (simp_all add: empty_request_def)
next
  case (turn req ids')
  then show ?case by (rule item_request_honest)
next
  case (failure req e)
  then show ?case
    by (intro empty_honest) (simp_all add: infra_failure_request_def Let_def failed_no_results honest_request_def)
qed

end
