(* ===== verification/Sql_Isolation.thy ===== *)
theory Sql_Isolation
  imports Sql_Kv
begin

text \<open>
  Why the peek-lock protocol of the orchestration queue is sound: a commit that succeeds extends exactly the
  history, and removes exactly the messages, that its fetch handed out, whatever anybody else did to the
  store in between. The argument follows the lock row: while it carries the token, nobody touches the
  instance; once it is gone, the token cannot commit.
\<close>

subsection \<open>What one call of somebody else does\<close>

text \<open>The calls of the others: those that do not use the token, and do not write to the instance's history by hand.\<close>

fun others_call :: "string \<Rightarrow> string \<Rightarrow> sql_op \<Rightarrow> bool" where
  "others_call inst tok (OP_Fetch_Orchestration _ t _ _) = (t \<noteq> tok)"
| "others_call inst tok (OP_Ack_Orchestration _ _ t _) = (t \<noteq> tok)"
| "others_call inst tok (OP_Abandon_Orchestration _ t _ _) = (t \<noteq> tok)"
| "others_call inst tok (OP_Append i _ _) = (i \<noteq> inst)"
| "others_call inst tok _ = True"

definition current_of :: "string \<Rightarrow> ('d, 'w) db \<Rightarrow> id64 option" where
  "current_of inst db = map_option in_current_execution_id (find_instance inst db)"

definition own_rows :: "string \<Rightarrow> id64 \<Rightarrow> ('d, 'w) db \<Rightarrow> 'd history_row list" where
  "own_rows inst ex db = filter (\<lambda>h. hi_instance h = inst \<and> hi_execution_id h = ex) (db_history db)"

text \<open>The part of the store that belongs to the holder of a lock.\<close>

definition same_view :: "string \<Rightarrow> string \<Rightarrow> ('d, 'w) db \<Rightarrow> ('d, 'w) db \<Rightarrow> bool" where
  "same_view inst tok db db' \<longleftrightarrow>
     (tok, inst) \<in> lock_marks db \<and> marked tok db' = marked tok db \<and> current_of inst db' = current_of inst db
     \<and> (\<forall>ex. (case current_of inst db of None \<Rightarrow> True | Some c \<Rightarrow> ex = c) \<longrightarrow> own_rows inst ex db' = own_rows inst ex db)"

lemma same_view_refl: "(tok, inst) \<in> lock_marks db \<Longrightarrow> same_view inst tok db db"
  by (simp add: same_view_def)

lemma same_view_trans: "same_view inst tok a b \<Longrightarrow> same_view inst tok b c \<Longrightarrow> same_view inst tok a c"
  by (auto simp: same_view_def split: option.splits)

text \<open>A statement that leaves the four tables alone.\<close>

lemma same_view_frame:
  assumes "(tok, inst) \<in> lock_marks db'" and "db_instance_locks db' = db_instance_locks db"
    and "db_orchestrator_queue db' = db_orchestrator_queue db" and "db_instances db' = db_instances db"
    and "db_history db' = db_history db"
  shows "same_view inst tok db db'"
  using assms by (simp add: same_view_def lock_marks_def marked_def current_of_def find_instance_def own_rows_def)

lemma run_tx_view:
  assumes "(tok, inst) \<in> lock_marks (snd (run_tx body db))"
    and "\<And>r db'. body db = Inr (r, db') \<Longrightarrow> (tok, inst) \<in> lock_marks db' \<Longrightarrow> same_view inst tok db db'"
  shows "same_view inst tok db (snd (run_tx body db))"
  using assms by (auto simp: run_tx_def same_view_refl split: sum.splits prod.splits)

lemma marked_instance:
  assumes "tokens_ok db" and "(tok, inst) \<in> lock_marks db" and "q \<in> set (db_orchestrator_queue db)"
    and "oq_lock_token q = Some tok"
  shows "oq_instance q = inst"
proof -
  have "(tok, oq_instance q) \<in> orch_marks db" using assms(3,4) by (auto simp: orch_marks_def)
  with assms(1,2) show ?thesis by (auto simp: tokens_ok_def single_valued_def)
qed

lemma one_lock:
  assumes "db_ok db" and "(tok, inst) \<in> lock_marks db" and "(t, inst) \<in> lock_marks db"
  shows "t = tok"
  using assms by (auto simp: lock_marks_def db_ok_defs distinct_map inj_on_def)

lemma token_lock: "instance_of_token t db = Some i \<Longrightarrow> (t, i) \<in> lock_marks db"
  by (auto simp: instance_of_token_def lock_marks_def dest: find_Some_mem)

text \<open>Updating rows of another instance.\<close>

lemma marked_update_other:
  assumes "\<And>q. q \<in> set t \<Longrightarrow> P q \<Longrightarrow> oq_lock_token q \<noteq> Some tok \<and> oq_lock_token (f q) \<noteq> Some tok"
  shows "filter (\<lambda>q. oq_lock_token q = Some tok) (sql_update P f t) = filter (\<lambda>q. oq_lock_token q = Some tok) t"
  using assms by (induction t) (auto simp: sql_update_def)

lemma marked_delete_other:
  "(\<And>q. oq_lock_token q = Some tok \<Longrightarrow> \<not> P q) \<Longrightarrow>
   filter (\<lambda>q. oq_lock_token q = Some tok) (sql_delete P t) = filter (\<lambda>q. oq_lock_token q = Some tok) t"
  by (auto simp: sql_delete_def intro!: filter_cong)

lemma find_update_other:
  "(\<And>r. P r \<Longrightarrow> in_instance r \<noteq> inst \<and> in_instance (f r) \<noteq> inst) \<Longrightarrow>
   List.find (\<lambda>r. in_instance r = inst) (sql_update P f t) = List.find (\<lambda>r. in_instance r = inst) t"
  by (induction t) (auto simp: sql_update_def)

lemma find_insert_other:
  fixes row :: instance_row
  assumes "in_instance row \<noteq> inst"
  shows "List.find (\<lambda>r. in_instance r = inst) (sql_insert_ignore in_instance row t)
    = List.find (\<lambda>r. in_instance r = inst) t"
proof -
  have "List.find P (xs @ [x]) = List.find P xs" if "\<not> P x" for P :: "instance_row \<Rightarrow> bool" and xs x
    using that by (induction xs) auto
  note * = this [where P = "\<lambda>r. in_instance r = inst" and x = row]
  from assms show ?thesis by (simp add: sql_insert_ignore_def *)
qed

lemma ack_current_other:
  assumes w: "ack_writes cd now t i req db = Inr db'" and ne: "i \<noteq> inst"
  shows "current_of inst db' = current_of inst db"
proof -
  from w obtain db1 db2 where
    1: "ack_instance_row now i (ar_execution_id req) (ar_metadata req) (delete_fetched t db) = Inr db1" and
    2: "ack_history cd i (ar_execution_id req) (ar_history_delta req)
          (ack_execution_row i (ar_execution_id req) (ar_metadata req) db1) = Inr db2" and
    3: "db' = fold (ack_enqueue_orchestrator cd now) (ar_orchestrator_items req)
       (delete_cancelled (ar_cancelled_activities req)
         (fold (insert_worker_row cd now) (ar_worker_items req)
           (ack_kv now i (ar_history_delta req) (ar_metadata req)
             (ack_custom_status i (ar_history_delta req)
               (ack_status now i (ar_execution_id req) (ar_metadata req) db2)))))"
    by (rule ack_writes_parts)
  have "find_instance inst db1 = find_instance inst db"
    using 1 ne by (auto simp: ack_instance_row_def find_instance_def delete_fetched_def Let_def find_update_other
        find_insert_other split: option.splits if_splits)
  moreover have "find_instance inst (ack_execution_row i (ar_execution_id req) (ar_metadata req) db1)
      = find_instance inst db1"
    using ne by (simp add: ack_execution_row_def find_instance_def find_update_other Let_def)
  moreover have "db_instances db2 = db_instances (ack_execution_row i (ar_execution_id req) (ar_metadata req) db1)"
    using 2 by (auto simp: ack_history_def append_history_in_tx_def and_then_def split: if_splits sum.splits)
  moreover have "find_instance inst (ack_kv now i (ar_history_delta req) (ar_metadata req)
      (ack_custom_status i (ar_history_delta req) (ack_status now i (ar_execution_id req) (ar_metadata req) db2)))
      = find_instance inst db2"
    using ne by (simp add: find_instance_def ack_kv_def merge_kv_def ack_custom_status_def ack_status_def
        find_update_other Let_def split: option.splits)
  ultimately show ?thesis unfolding 3 current_of_def by (simp add: find_instance_def frames)
qed

lemma ack_keeps_view:
  assumes ok: "db_ok db" "tokens_ok db" and ne: "t \<noteq> tok"
    and a: "ack_orchestration_tx cd now chk t req db = Inr (u, db')" and l: "(tok, inst) \<in> lock_marks db'"
  shows "same_view inst tok db db'"
proof -
  from a obtain i db1 where i: "instance_of_token t db = Some i" and w: "ack_writes cd now t i req db = Inr db1"
    and db': "db' = release_lock i t db1"
    by (auto simp: ack_orchestration_tx_def and_then_def split: option.splits sum.splits if_splits)
  have l0: "(tok, inst) \<in> lock_marks db"
    using l by (auto simp: db' release_lock_def lock_marks_def sql_delete_def ack_writes_tables(2) [OF w])
  with one_lock [OF ok(1)] token_lock [OF i] ne have inst: "i \<noteq> inst" by blast
  have new: "filter (\<lambda>q. oq_lock_token q = Some tok) (orch_rows cd now (db_next_orch_id db) (ar_orchestrator_items req)) = []"
    by (auto simp: filter_empty_conv dest: orch_rows_token)
  have "filter (\<lambda>q. oq_lock_token q = Some tok) (sql_delete (\<lambda>q. oq_lock_token q = Some t) (db_orchestrator_queue db))
      = filter (\<lambda>q. oq_lock_token q = Some tok) (db_orchestrator_queue db)"
    using ne by (intro marked_delete_other) auto
  then have m: "marked tok db' = marked tok db"
    by (simp add: marked_def db' release_lock_def ack_writes_tables(1) [OF w] new)
  have c: "current_of inst db' = current_of inst db"
    using ack_current_other [OF w inst] by (simp add: db' release_lock_def current_of_def find_instance_def)
  have h: "own_rows inst ex db' = own_rows inst ex db" for ex
    using inst by (auto simp: own_rows_def db' release_lock_def ack_writes_tables(3) [OF w] event_row_def filter_empty_conv)
  from l0 m c h show ?thesis by (simp add: same_view_def)
qed

lemma fetch_view:
  assumes ok: "db_ok db" "tokens_ok db" and ne: "t \<noteq> tok"
    and f: "fetch_orchestration_tx cd now t lt flt db = Inr (r, db')" and l: "(tok, inst) \<in> lock_marks db'"
  shows "same_view inst tok db db'"
proof -
  have acq: "same_view inst tok db (mark_messages now t i db1)" "i \<noteq> inst"
    if a: "acquire_instance_lock now t u i db = (True, db1)" and l1: "(tok, inst) \<in> lock_marks db1" for i u db1
  proof -
    from l1 ne have l0: "(tok, inst) \<in> lock_marks db" and i: "i \<noteq> inst"
      by (auto simp: lock_marks_def acquire_locks(1) [OF a])
    have "db_history db1 = db_history db"
      using a by (auto simp: acquire_instance_lock_def Let_def split: option.splits if_splits)
    moreover have "marked tok (mark_messages now t i db1) = marked tok db"
      unfolding marked_def mark_messages_def
      using marked_instance [OF ok(2) l0] i ne
      by (simp add: acquire_locks(3) [OF a]) (rule marked_update_other, auto)
    ultimately show "same_view inst tok db (mark_messages now t i db1)" using l0
      by (simp add: same_view_def own_rows_def current_of_def find_instance_def acquire_locks(5) [OF a] mark_messages_def)
    show "i \<noteq> inst" by (rule i)
  qed
  from f show ?thesis
  proof (cases rule: fetch_orchestration_cases)
    case 1
    with l show ?thesis by (simp add: same_view_refl)
  next
    case (2 i db1)
    have l1: "(tok, inst) \<in> lock_marks db1"
      using l by (auto simp: 2(3) drop_orphans_def lock_marks_def sql_delete_def frames)
    have "marked tok (drop_orphans t (mark_messages now t i db1)) = marked tok (mark_messages now t i db1)"
      unfolding marked_def drop_orphans_def using ne by simp (rule marked_delete_other, auto)
    then have "same_view inst tok (mark_messages now t i db1) db'"
      using l1 by (simp add: 2(3) same_view_def own_rows_def current_of_def find_instance_def drop_orphans_def
          mark_messages_def lock_marks_def)
    with acq(1) [OF 2(2) l1] show ?thesis by (rule same_view_trans)
  next
    case (3 i db1 item)
    then have "(tok, inst) \<in> lock_marks db1" using l by (simp add: lock_marks_def frames)
    from acq(1) [OF 3(2) this] show ?thesis by (simp add: 3(3))
  qed
qed

lemma abandon_marked:
  assumes "\<And>q. q \<in> set t \<Longrightarrow> oq_instance q = i \<Longrightarrow> oq_lock_token q \<noteq> Some tok"
  shows "filter (\<lambda>q. oq_lock_token q = Some tok) (abandon_messages now i delay ig t)
    = filter (\<lambda>q. oq_lock_token q = Some tok) t"
proof -
  define t' where "t' = (if ig then sql_update (\<lambda>q. oq_instance q = i)
      (\<lambda>q. q\<lparr>oq_attempt_count := oq_attempt_count q - 1\<rparr>) t else t)"
  have 1: "filter (\<lambda>q. oq_lock_token q = Some tok) t' = filter (\<lambda>q. oq_lock_token q = Some tok) t"
    unfolding t'_def using assms by (auto intro!: marked_update_other)
  have 2: "oq_lock_token q \<noteq> Some tok" if m: "q \<in> set t'" and qi: "oq_instance q = i" for q
  proof -
    have "\<exists>q' \<in> set t. oq_instance q' = oq_instance q \<and> oq_lock_token q' = oq_lock_token q"
      using m by (cases ig) (force simp: t'_def sql_update_def)+
    then obtain q' where "q' \<in> set t" "oq_instance q' = i" "oq_lock_token q' = oq_lock_token q" using qi by auto
    with assms [of q'] show ?thesis by simp
  qed
  then have "filter (\<lambda>q. oq_lock_token q = Some tok) (sql_update (\<lambda>q. oq_instance q = i \<and> oq_visible_at q \<le> now)
      (\<lambda>q. q\<lparr>oq_visible_at := saturating_after now d\<rparr>) t') = filter (\<lambda>q. oq_lock_token q = Some tok) t'" for d
    by (intro marked_update_other) auto
  note upd = this
  show ?thesis
  proof (cases delay)
    case None
    then show ?thesis using 1 by (simp add: abandon_messages_def flip: t'_def)
  next
    case (Some d)
    then show ?thesis using 1 upd [of d] by (simp add: abandon_messages_def flip: t'_def)
  qed
qed

lemma prune_rows_kept:
  assumes "ex \<notin> set es \<or> i \<noteq> inst"
  shows "own_rows inst ex (snd (fold (prune_one i) es x)) = own_rows inst ex (snd x)"
  using assms
proof (induction es arbitrary: x)
  case (Cons e es)
  have "own_rows inst ex (snd (prune_one i e x)) = own_rows inst ex (snd x)"
    using Cons.prems by (cases x) (auto simp: prune_one_def own_rows_def sql_delete_def intro!: filter_cong)
  moreover have "own_rows inst ex (snd (fold (prune_one i) es (prune_one i e x))) = own_rows inst ex (snd (prune_one i e x))"
    using Cons.prems by (intro Cons.IH) auto
  ultimately show ?case by simp
qed simp

lemma prune_view:
  assumes l: "(tok, inst) \<in> lock_marks (snd (prune_executions i options db))"
  shows "same_view inst tok db (snd (prune_executions i options db))"
proof -
  let ?db' = "snd (prune_executions i options db)"
  have "own_rows inst ex ?db' = own_rows inst ex db" if "case current_of inst db of None \<Rightarrow> True | Some c \<Rightarrow> ex = c" for ex
  proof (cases "find_instance i db")
    case None
    then show ?thesis by (simp add: prune_executions_def)
  next
    case (Some r)
    with that have "ex \<notin> set (prune_candidates i (in_current_execution_id r) options db) \<or> i \<noteq> inst"
      by (auto simp: prune_candidates_def current_of_def)
    with Some show ?thesis by (simp add: prune_executions_def case_prod_unfold Let_def prune_rows_kept)
  qed
  with l show ?thesis
    by (simp add: same_view_def lock_marks_def marked_def current_of_def find_instance_def prune_frames)
qed

lemma find_filter_kept:
  "(\<And>r. P r \<Longrightarrow> \<not> D r) \<Longrightarrow> List.find P (sql_delete D t) = List.find P t"
  by (induction t) (auto simp: sql_delete_def)

lemma delete_view:
  assumes l: "(tok, inst) \<in> lock_marks (delete_rows ids db)" and ok: "tokens_ok db"
  shows "same_view inst tok db (delete_rows ids db)"
proof -
  from l have i: "inst \<notin> set ids" and l0: "(tok, inst) \<in> lock_marks db"
    by (auto simp: delete_rows_def lock_marks_def sql_delete_def)
  have "marked tok (delete_rows ids db) = marked tok db"
    using marked_instance [OF ok l0] i by (auto simp: marked_def delete_rows_def sql_delete_def intro!: filter_cong)
  moreover have "current_of inst (delete_rows ids db) = current_of inst db"
    using i by (simp add: current_of_def find_instance_def delete_rows_def) (subst find_filter_kept, auto)
  moreover have "own_rows inst ex (delete_rows ids db) = own_rows inst ex db" for ex
    using i by (auto simp: own_rows_def delete_rows_def sql_delete_def intro!: filter_cong)
  ultimately show ?thesis using l0 by (simp add: same_view_def)
qed

lemma claim_session_history: "claim_session now config sid db = (b, db') \<Longrightarrow> db_history db' = db_history db"
  by (auto simp: claim_session_def Let_def split: option.splits if_splits)

lemma touch_session_history: "db_history (touch_session now sid db) = db_history db"
  by (simp add: touch_session_def split: option.splits)

lemma others_keep_view:
  assumes ok: "db_ok db" "tokens_ok db" and o: "others_call inst tok op"
    and l: "(tok, inst) \<in> lock_marks (sql_run cd op db)"
  shows "same_view inst tok db (sql_run cd op db)"
proof (cases op)
  case (OP_Fetch_Orchestration now t lt flt)
  with o l show ?thesis
    by (simp add: fetch_orchestration_item_def) (erule run_tx_view, erule (1) fetch_view [OF ok])
next
  case (OP_Ack_Orchestration now chk t req)
  with o l show ?thesis
    by (simp add: ack_orchestration_item_def) (erule run_tx_view, erule (1) ack_keeps_view [OF ok])
next
  case (OP_Renew_Orchestration now t ext)
  from l [unfolded OP_Renew_Orchestration sql_run.simps renew_orchestration_item_lock_def] show ?thesis
    unfolding OP_Renew_Orchestration sql_run.simps renew_orchestration_item_lock_def
    by (rule run_tx_view)
      (auto simp: same_view_def lock_marks_def marked_def current_of_def find_instance_def own_rows_def Let_def
        sql_update_def image_image split: if_splits)
next
  case (OP_Abandon_Orchestration now t delay ig)
  with o have ne: "t \<noteq> tok" by simp
  have "same_view inst tok db (db\<lparr>db_instance_locks := sql_delete (\<lambda>l. il_lock_token l = t) (db_instance_locks db),
      db_orchestrator_queue := abandon_messages now i delay ig (db_orchestrator_queue db)\<rparr>)"
    if i: "instance_of_token t db = Some i" and l': "(tok, inst) \<in> lock_marks (db\<lparr>db_instance_locks :=
      sql_delete (\<lambda>l. il_lock_token l = t) (db_instance_locks db),
      db_orchestrator_queue := abandon_messages now i delay ig (db_orchestrator_queue db)\<rparr>)" for i
  proof -
    from l' have l0: "(tok, inst) \<in> lock_marks db" by (auto simp: lock_marks_def sql_delete_def)
    with one_lock [OF ok(1)] token_lock [OF i] ne have "i \<noteq> inst" by blast
    then have "filter (\<lambda>q. oq_lock_token q = Some tok) (abandon_messages now i delay ig (db_orchestrator_queue db))
        = filter (\<lambda>q. oq_lock_token q = Some tok) (db_orchestrator_queue db)"
      using marked_instance [OF ok(2) l0] by (intro abandon_marked) auto
    with l0 show ?thesis by (simp add: same_view_def marked_def current_of_def find_instance_def own_rows_def)
  qed
  with l OP_Abandon_Orchestration show ?thesis
    by (simp add: abandon_orchestration_item_def) (erule run_tx_view, auto split: option.splits)
next
  case (OP_Append i ex evs)
  with o have ne: "i \<noteq> inst" by simp
  have "same_view inst tok db db'"
    if h: "append_history_in_tx cd i ex evs db = Inr db'" and l': "(tok, inst) \<in> lock_marks db'" for db'
  proof -
    from h obtain t where t: "insert_events cd i ex evs (db_history db) = Inr t" and db': "db' = db\<lparr>db_history := t\<rparr>"
      by (rule append_history_cases)
    have "own_rows inst e db' = own_rows inst e db" for e
      using ne by (auto simp: db' own_rows_def insert_events_append [OF t] event_row_def filter_empty_conv)
    with l' show ?thesis
      by (simp add: db' same_view_def lock_marks_def marked_def current_of_def find_instance_def)
  qed
  with l OP_Append show ?thesis
    by (simp add: append_with_execution_def) (erule run_tx_view, auto split: sum.splits)
next
  case (OP_Prune i options)
  with l show ?thesis by (simp add: prune_view)
next
  case (OP_Delete ids force)
  with l show ?thesis
    by (simp add: delete_instances_atomic_def)
      (erule run_tx_view, auto dest!: delete_tx_cases simp: same_view_refl delete_view [OF _ ok(2)])
next
  case (OP_Enqueue_Orchestrator now item delay)
  with l show ?thesis
    by (simp add: enqueue_for_orchestrator_def)
      (erule run_tx_view, auto simp: enqueue_orchestrator_work_with_delay_def Let_def insert_orch_row_def
        same_view_def lock_marks_def marked_def current_of_def find_instance_def own_rows_def split: option.splits)
next
  case (OP_Ack_Work now t completion)
  with l show ?thesis
    by (simp add: ack_work_item_def)
      (erule run_tx_view, auto elim!: ack_work_cases simp: insert_orch_row_def touch_session_def
        same_view_def lock_marks_def marked_def current_of_def find_instance_def own_rows_def split: option.splits)
next
  case (OP_Fetch_Work now t lt session flt)
  have "same_view inst tok db (snd (run_tx (fetch_work_tx cd now t lt session flt) db))"
    if "(tok, inst) \<in> lock_marks (snd (run_tx (fetch_work_tx cd now t lt session flt) db))"
    using that
    by (rule run_tx_view)
      (elim fetch_work_cases, auto simp: lock_work_def claim_session_frames claim_session_history intro!: same_view_frame)
  with l OP_Fetch_Work show ?thesis by (auto simp: fetch_work_item_def same_view_refl split: if_splits)
qed (use l in \<open>auto simp: frames touch_session_history same_view_def lock_marks_def marked_def current_of_def find_instance_def own_rows_def Let_def
      enqueue_for_worker_def insert_worker_row_def renew_work_item_lock_def abandon_work_item_def
      renew_session_lock_def cleanup_orphaned_sessions_def run_tx_def split: option.splits if_splits sum.splits prod.splits\<close>)

subsection \<open>What was written can be read\<close>

definition rows_faithful :: "('d, 'w) codec \<Rightarrow> ('d, 'w) db \<Rightarrow> bool" where
  "rows_faithful cd db \<longleftrightarrow> (\<forall>h \<in> set (db_history db). \<exists>i ex ev. h = event_row cd i ex ev)"

lemma run_tx_faithful:
  "rows_faithful cd db \<Longrightarrow> (\<And>r db'. body db = Inr (r, db') \<Longrightarrow> rows_faithful cd db') \<Longrightarrow> rows_faithful cd (snd (run_tx body db))"
  by (rule run_tx_keeps)

lemma faithful_append:
  "rows_faithful cd db \<Longrightarrow> db_history db' = db_history db @ map (event_row cd i ex) evs \<Longrightarrow> rows_faithful cd db'"
  by (auto simp: rows_faithful_def)

lemma faithful_mono:
  "rows_faithful cd db \<Longrightarrow> set (db_history db') \<subseteq> set (db_history db) \<Longrightarrow> rows_faithful cd db'"
  by (auto simp: rows_faithful_def)

lemma prune_fold_history: "set (db_history (snd (fold (prune_one i) es x))) \<subseteq> set (db_history (snd x))"
proof (induction es arbitrary: x)
  case (Cons e es)
  have "set (db_history (snd (prune_one i e x))) \<subseteq> set (db_history (snd x))"
    by (cases x) (auto simp: prune_one_def sql_delete_def)
  with Cons [of "prune_one i e x"] show ?case by simp
qed simp

lemma acquire_history: "acquire_instance_lock now tok u inst db = (b, db') \<Longrightarrow> db_history db' = db_history db"
  by (auto simp: acquire_instance_lock_def Let_def split: option.splits if_splits)

lemma sql_run_faithful:
  assumes ok: "rows_faithful cd db"
  shows "rows_faithful cd (sql_run cd op db)"
proof (cases op)
  case (OP_Ack_Orchestration now chk t req)
  have "rows_faithful cd db'" if "ack_orchestration_tx cd now chk t req db = Inr (u, db')" for u db'
    using that by (rule ack_tx_cases) (auto intro!: faithful_append [OF ok] simp: ack_writes_tables(3) release_lock_def)
  with ok have "rows_faithful cd (snd (ack_orchestration_item cd now chk t req db))"
    unfolding ack_orchestration_item_def by (rule run_tx_faithful)
  with OP_Ack_Orchestration show ?thesis by simp
next
  case (OP_Append i ex evs)
  have "rows_faithful cd db'" if h: "append_history_in_tx cd i ex evs db = Inr db'" for db'
    using h by (rule append_history_cases) (auto intro!: faithful_append [OF ok] dest: insert_events_append)
  with ok OP_Append show ?thesis
    by (auto simp: append_with_execution_def intro!: run_tx_faithful split: sum.splits)
next
  case (OP_Prune i options)
  have "set (db_history (snd (prune_executions i options db))) \<subseteq> set (db_history db)"
  proof (cases "find_instance i db")
    case (Some r)
    let ?r0 = "\<lparr>pr_instances_processed = 1, pr_executions_deleted = 0, pr_events_deleted = 0\<rparr>"
    from Some prune_fold_history [of i "prune_candidates i (in_current_execution_id r) options db" "(?r0, db)"]
    show ?thesis by (simp add: prune_executions_def case_prod_unfold Let_def)
  qed (simp add: prune_executions_def)
  with faithful_mono [OF ok] OP_Prune show ?thesis by simp
next
  case (OP_Delete ids force)
  have "rows_faithful cd (delete_rows ids db)"
    by (rule faithful_mono [OF ok]) (auto simp: delete_rows_def sql_delete_def)
  with ok have "rows_faithful cd (snd (delete_instances_atomic ids force db))"
    unfolding delete_instances_atomic_def by (intro run_tx_faithful) (auto dest!: delete_tx_cases)
  with OP_Delete show ?thesis by simp
next
  case (OP_Fetch_Orchestration now t lt flt)
  have "db_history db' = db_history db" if "fetch_orchestration_tx cd now t lt flt db = Inr (r, db')" for r db'
    using that by (rule fetch_orchestration_cases) (auto simp: drop_orphans_def mark_messages_def dest: acquire_history)
  then have "rows_faithful cd (snd (fetch_orchestration_item cd now t lt flt db))"
    unfolding fetch_orchestration_item_def by (intro run_tx_faithful [OF ok]) (simp add: faithful_mono [OF ok])
  with OP_Fetch_Orchestration show ?thesis by simp
next
  case (OP_Fetch_Work now t lt session flt)
  have "db_history db' = db_history db" if "fetch_work_tx cd now t lt session flt db = Inr (r, db')" for r db'
    using that by (rule fetch_work_cases) (auto simp: lock_work_def dest: claim_session_history)
  then have "rows_faithful cd (snd (run_tx (fetch_work_tx cd now t lt session flt) db))"
    by (intro run_tx_faithful [OF ok]) (simp add: faithful_mono [OF ok])
  with OP_Fetch_Work ok show ?thesis by (simp add: fetch_work_item_def)
next
  case (OP_Ack_Work now t completion)
  have "db_history db' = db_history db" if "ack_work_tx cd now t completion db = Inr (u, db')" for u db'
    using that by (rule ack_work_cases) (auto simp: insert_orch_row_def touch_session_history split: option.splits)
  then have "rows_faithful cd (snd (ack_work_item cd now t completion db))"
    unfolding ack_work_item_def by (intro run_tx_faithful [OF ok]) (simp add: faithful_mono [OF ok])
  with OP_Ack_Work show ?thesis by simp
qed (use ok in \<open>auto simp: touch_session_history rows_faithful_def Let_def enqueue_for_orchestrator_def enqueue_orchestrator_work_with_delay_def
      insert_orch_row_def renew_orchestration_item_lock_def abandon_orchestration_item_def
      enqueue_for_worker_def insert_worker_row_def renew_work_item_lock_def abandon_work_item_def
      renew_session_lock_def cleanup_orphaned_sessions_def run_tx_def split: option.splits if_splits sum.splits prod.splits\<close>)

lemma reachable_faithful: "reachable cd db \<Longrightarrow> rows_faithful cd db"
  by (induction rule: reachable.induct) (simp_all add: sql_run_faithful, simp add: rows_faithful_def empty_db_def)

subsection \<open>From fetch to commit\<close>

fun run_others :: "('d, 'w) codec \<Rightarrow> string \<Rightarrow> string \<Rightarrow> sql_op list \<Rightarrow> ('d, 'w) db \<Rightarrow> bool" where
  "run_others cd inst tok [] db = True"
| "run_others cd inst tok (op # ops) db =
     (op_ok op db \<and> others_call inst tok op \<and> run_others cd inst tok ops (sql_run cd op db))"

lemma others_keep_lock:
  assumes "db_ok db" "tokens_ok db" and "others_call inst tok op" and l: "(tok, i) \<in> lock_marks (sql_run cd op db)"
  shows "(tok, i) \<in> lock_marks db"
proof (cases op)
  case (OP_Append j ex evs)
  have "lock_marks (sql_run cd op db) = lock_marks db"
    by (auto simp: OP_Append append_with_execution_def run_tx_def lock_marks_def split: sum.splits prod.splits
        elim!: append_history_cases)
  with l show ?thesis by simp
qed (use assms others_keep_view [OF assms(1,2) _ l] in \<open>auto simp: same_view_def\<close>)

lemma run_others_view:
  assumes "db_ok db" and "tokens_ok db" and "run_others cd inst tok ops db" and "(tok, i) \<in> lock_marks (run_all cd ops db)"
  shows "(tok, i) \<in> lock_marks db \<and> (i = inst \<longrightarrow> same_view inst tok db (run_all cd ops db))"
  using assms
proof (induction ops arbitrary: db)
  case Nil
  then show ?case by (auto simp: same_view_refl)
next
  case (Cons op ops)
  let ?db = "sql_run cd op db"
  have "db_ok ?db" "tokens_ok ?db" using Cons.prems by (simp_all add: sql_run_ok sql_run_tokens)
  from Cons.IH [OF this] Cons.prems(3,4)
  have l: "(tok, i) \<in> lock_marks ?db" and v: "i = inst \<longrightarrow> same_view inst tok ?db (run_all cd ops ?db)" by simp_all
  from Cons.prems(3) have "others_call inst tok op" by simp
  then have l0: "(tok, i) \<in> lock_marks db" using l by (rule others_keep_lock [OF Cons.prems(1,2)])
  have "same_view inst tok db (run_all cd ops ?db)" if "i = inst"
    using others_keep_view [OF Cons.prems(1,2), of inst tok op cd] Cons.prems(3) l v that
    by (auto intro: same_view_trans)
  with l0 show ?case by simp
qed

lemma execution_rows_own: "execution_rows inst ex db = sort_key hi_event_id (own_rows inst ex db)"
  by (simp add: execution_rows_def own_rows_def)

text \<open>What a fetch hands out: the context it loaded, the messages it marked, under a lock.\<close>

lemma fetched_context:
  assumes "fetch_orchestration_item cd now tok lt flt db = (Inr (Some (item, tok', n)), db1)"
  shows "(tok, oi_instance item) \<in> lock_marks db1" "oi_messages item = read_items cd (marked tok db1)"
    "db_history db1 = db_history db" "db_instances db1 = db_instances db"
    "case load_context cd (oi_instance item) (oi_messages item) db1 of
       FC_Found name version ex hist \<Rightarrow> oi_execution_id item = ex \<and> oi_history item = hist
     | FC_Unreadable _ _ ex err \<Rightarrow> oi_execution_id item = ex \<and> oi_history_error item = Some err
     | _ \<Rightarrow> False"
proof -
  from assms have f: "fetch_orchestration_tx cd now tok lt flt db = Inr (Some (item, tok', n), db1)"
    by (simp add: fetch_orchestration_item_def run_tx_ok)
  from f obtain inst db0 where sel: "select_candidate now flt db = Some inst"
    and acq: "acquire_instance_lock now tok (timestamp_after now lt) inst db = (True, db0)"
    and db1: "db1 = mark_messages now tok inst db0" and inst: "oi_instance item = inst"
    and msgs: "oi_messages item = read_items cd (marked tok db1)" and ne: "marked tok db1 \<noteq> []"
    by (cases rule: fetch_orchestration_cases) auto
  show "(tok, oi_instance item) \<in> lock_marks db1"
    by (simp add: db1 inst lock_marks_def frames acquire_locks(1) [OF acq] image_insert)
  show "oi_messages item = read_items cd (marked tok db1)" by (rule msgs)
  show "db_history db1 = db_history db" "db_instances db1 = db_instances db"
    using acquire_history [OF acq] acquire_locks(5) [OF acq] by (simp_all add: db1 mark_messages_def)
  show "case load_context cd (oi_instance item) (oi_messages item) db1 of
       FC_Found name version ex hist \<Rightarrow> oi_execution_id item = ex \<and> oi_history item = hist
     | FC_Unreadable _ _ ex err \<Rightarrow> oi_execution_id item = ex \<and> oi_history_error item = Some err
     | _ \<Rightarrow> False"
    using f ne
    unfolding fetch_orchestration_tx_def sel option.case acq prod.case bool.case Let_def msgs inst db1
    by (cases "load_context cd inst (read_items cd (marked tok (mark_messages now tok inst db0))) (mark_messages now tok inst db0)")
      (auto split: if_splits)
qed

lemma fetched_current:
  assumes "fetch_orchestration_item cd now tok lt flt db = (Inr (Some (item, tok', n)), db1)"
  shows "case current_of (oi_instance item) db1 of None \<Rightarrow> True | Some c \<Rightarrow> oi_execution_id item = c"
  using fetched_context(5) [OF assms]
  by (auto simp: load_context_def current_of_def Let_def split: option.splits sum.splits)

lemma fetched_history:
  assumes f: "fetch_orchestration_item cd now tok lt flt db = (Inr (Some (item, tok', n)), db1)"
    and e: "oi_history_error item = None"
    and i: "current_of (oi_instance item) db \<noteq> None \<or> oi_instance item \<notin> hi_instance ` set (db_history db)"
  shows "read_with_execution cd (oi_instance item) (oi_execution_id item) db1 = Inr (oi_history item)"
proof (cases "find_instance (oi_instance item) db1")
  case (Some info)
  with fetched_context(5) [OF f] e show ?thesis
    by (cases "read_history_in_tx cd (oi_instance item) (Some (in_current_execution_id info)) db1")
      (auto simp: load_context_def read_history_in_tx_def read_with_execution_def)
next
  case None
  let ?inst = "oi_instance item"
  from None i have "?inst \<notin> hi_instance ` set (db_history db1)"
    by (simp add: current_of_def find_instance_def fetched_context [OF f])
  then have "filter (\<lambda>r. hi_instance r = ?inst \<and> hi_execution_id r = ex) (db_history db1) = []" for ex
    by (auto simp: filter_empty_conv image_iff)
  then have empty: "execution_rows ?inst ex db1 = []" for ex by (simp add: execution_rows_def)
  then have "(case read_history_in_tx cd ?inst None db1 of Inr h \<Rightarrow> h | Inl _ \<Rightarrow> []) = []"
    by (simp add: read_history_in_tx_def)
  with None fetched_context(5) [OF f] have "oi_history item = []"
    by (auto simp: load_context_def Let_def split: option.splits if_splits)
  with empty show ?thesis by (simp add: read_with_execution_def)
qed

lemma read_events_mem: "read_events rd ds = Inr evs \<Longrightarrow> d \<in> set ds \<Longrightarrow> rd d = Inr ev \<Longrightarrow> ev \<in> set evs"
  by (induction ds arbitrary: evs) (auto simp: and_then_def split: sum.splits)

lemma stored_ids:
  assumes "codec_ok cd" and "rows_faithful cd db" and "read_with_execution cd inst ex db = Inr hist"
    and "r \<in> set (execution_rows inst ex db)"
  shows "\<exists>ev \<in> set hist. ev_event_id ev = hi_event_id r"
proof -
  from assms(2,4) obtain i x ev where r: "r = event_row cd i x ev" by (fastforce simp: rows_faithful_def execution_rows_def)
  from assms(3) have "read_events (cd_read_event cd) (map hi_event_data (execution_rows inst ex db)) = Inr hist"
    by (auto simp: read_with_execution_def split: sum.splits)
  moreover have "hi_event_data r \<in> set (map hi_event_data (execution_rows inst ex db))" using assms(4) by simp
  moreover have "cd_read_event cd (hi_event_data r) = Inr ev" using assms(1) by (simp add: r event_row_def)
  ultimately have "ev \<in> set hist" by (rule read_events_mem)
  then show ?thesis by (auto simp: r event_row_def)
qed


lemma overlapping_calls:
  "case fetch_orchestration_item plain_codec 5 ''t'' 1000000000 None two_starts of
     (Inr (Some (item, _, _)), db1) \<Rightarrow>
       oi_instance item = ''i'' \<and> oi_execution_id item = 1 \<and> oi_history item = [] \<and> oi_history_error item = None
       \<and> run_others plain_codec ''i'' ''t'' other_calls db1
       \<and> isl (fst (ack_orchestration_item plain_codec 8 8 ''t'' started_request (run_all plain_codec other_calls db1))) = False
   | _ \<Rightarrow> False"
  by (simp add: two_starts_def start_item_def other_calls_def empty_request_def started_request_def metadata_default_def
      with_event_id_def sql_eval)


end
