(* ===== verification/System.thy ===== *)
theory System
  imports Turn_Contract Sql_Isolation Sql_Work Worker_Props
begin

text \<open>
  The whole system as a step relation: clients, orchestration dispatchers and workers that share one
  store, with every operation of the store one step, in any order. A dispatcher that fetched an item may
  submit any request the code could submit for it, at any later time, as often as it likes, or
  never (a crash); likewise a worker. The state is the store and what has been handed out.
\<close>

subsection \<open>Steps\<close>

record ('d, 'w) system =
  sy_db :: "('d, 'w) db"
  sy_items :: "(string \<times> orchestration_item) set"
  sy_work :: "(string \<times> work_item) set"

text \<open>The messages a client can send.\<close>

fun client_message :: "work_item \<Rightarrow> bool" where
  "client_message (WI_StartOrchestration _ _ _ _ _ _ _) = True"
| "client_message (WI_ExternalRaised _ _ _) = True"
| "client_message (WI_QueueMessage _ _ _) = True"
| "client_message (WI_CancelInstance _ _) = True"
| "client_message _ = False"

text \<open>What a worker may answer for a work item: nothing, or a result under the item's ids.\<close>

fun work_item_key :: "work_item \<Rightarrow> (string \<times> id64 \<times> id64) option" where
  "work_item_key (WI_ActivityExecute inst x i _ _ _ _) = Some (inst, x, i)"
| "work_item_key _ = None"

definition answers :: "work_item \<Rightarrow> work_item option \<Rightarrow> bool" where
  "answers wi c \<longleftrightarrow> (case c of None \<Rightarrow> True | Some w \<Rightarrow> completion_key w \<noteq> None \<and> completion_key w = work_item_key wi)"

text \<open>Upkeep: renewals, releases, sessions, deletion, pruning of executions older than the current one.\<close>

fun upkeep :: "sql_op \<Rightarrow> ('d, 'w) db \<Rightarrow> bool" where
  "upkeep (OP_Renew_Orchestration _ _ _) db = True"
| "upkeep (OP_Abandon_Orchestration _ _ _ _) db = True"
| "upkeep (OP_Renew_Work _ _ _) db = True"
| "upkeep (OP_Abandon_Work _ _ _ _) db = True"
| "upkeep (OP_Renew_Sessions _ _ _ _) db = True"
| "upkeep (OP_Cleanup_Sessions _) db = True"
| "upkeep (OP_Delete _ _) db = True"
| "upkeep (OP_Prune inst _) db = (\<forall>e \<in> set (db_executions db). \<forall>c.
     ex_instance e = inst \<longrightarrow> current_of inst db = Some c \<longrightarrow> ex_execution_id e \<le> c)"
| "upkeep _ db = False"

inductive sys_step ::
    "('d, 'w) codec \<Rightarrow> (sem_ver, 's) runtime \<Rightarrow> ('d, 'w) system \<Rightarrow> ('d, 'w) system \<Rightarrow> bool" for cd rt where
  send: "client_message wi \<Longrightarrow>
     sys_step cd rt s (s\<lparr>sy_db := sql_run cd (OP_Enqueue_Orchestrator now wi delay) (sy_db s)\<rparr>)"
| fetch_item: "fresh_token tok (sy_db s) \<Longrightarrow> tok \<notin> fst ` sy_items s \<Longrightarrow>
     fetch_orchestration_item cd now tok lt flt (sy_db s) = (r, db') \<Longrightarrow>
     sys_step cd rt s (s\<lparr>sy_db := db', sy_items :=
       (case r of Inr (Some (item, _, _)) \<Rightarrow> insert (tok, item) (sy_items s) | _ \<Rightarrow> sy_items s)\<rparr>)"
| commit: "(tok, item) \<in> sy_items s \<Longrightarrow> submits rt item n ids req \<Longrightarrow>
     op_ok (OP_Ack_Orchestration now chk tok req) (sy_db s) \<Longrightarrow>
     sys_step cd rt s (s\<lparr>sy_db := sql_run cd (OP_Ack_Orchestration now chk tok req) (sy_db s)\<rparr>)"
| fetch_work: "fresh_token tok (sy_db s) \<Longrightarrow> tok \<notin> fst ` sy_work s \<Longrightarrow>
     fetch_work_item cd now tok lt session flt (sy_db s) = (r, db') \<Longrightarrow>
     sys_step cd rt s (s\<lparr>sy_db := db', sy_work :=
       (case r of Inr (Some (wi, _, _)) \<Rightarrow> insert (tok, wi) (sy_work s) | _ \<Rightarrow> sy_work s)\<rparr>)"
| answer: "(tok, wi) \<in> sy_work s \<Longrightarrow> answers wi c \<Longrightarrow>
     sys_step cd rt s (s\<lparr>sy_db := sql_run cd (OP_Ack_Work now tok c) (sy_db s)\<rparr>)"
| upkeep: "upkeep op (sy_db s) \<Longrightarrow> sys_step cd rt s (s\<lparr>sy_db := sql_run cd op (sy_db s)\<rparr>)"

definition system_start :: "('d, 'w) system" where
  "system_start = \<lparr>sy_db = empty_db, sy_items = {}, sy_work = {}\<rparr>"

inductive sys_reach ::
    "('d, 'w) codec \<Rightarrow> (sem_ver, 's) runtime \<Rightarrow> ('d, 'w) system \<Rightarrow> bool" for cd rt where
  start: "sys_reach cd rt system_start"
| step: "sys_reach cd rt s \<Longrightarrow> sys_step cd rt s s' \<Longrightarrow> sys_reach cd rt s'"

inductive_cases sys_stepE: "sys_step cd rt s s'"

text \<open>Every step is a well-formed call of the store, so the store stays well formed.\<close>

lemma sys_step_op:
  assumes "sys_step cd rt s s'"
  obtains op where "op_ok op (sy_db s)" "sy_db s' = sql_run cd op (sy_db s)"
  using assms
proof cases
  case (send wi now delay)
  then show ?thesis by (intro that [of "OP_Enqueue_Orchestrator now wi delay"]) simp_all
next
  case (fetch_item tok now lt flt r db')
  then show ?thesis by (intro that [of "OP_Fetch_Orchestration now tok lt flt"]) simp_all
next
  case (commit tok item n ids req now chk)
  then show ?thesis by (intro that [of "OP_Ack_Orchestration now chk tok req"]) simp_all
next
  case (fetch_work tok now lt session flt r db')
  then show ?thesis by (intro that [of "OP_Fetch_Work now tok lt session flt"]) simp_all
next
  case (answer tok wi c now)
  then show ?thesis by (intro that [of "OP_Ack_Work now tok c"]) simp_all
next
  case (upkeep op)
  then show ?thesis by (intro that [of op]) (cases op; simp)+
qed

lemma sys_store_ok: "sys_reach cd rt s \<Longrightarrow> reachable cd (sy_db s)"
proof (induction rule: sys_reach.induct)
  case start
  show ?case by (simp add: system_start_def reachable_empty)
next
  case (step s s')
  from step.hyps(2) obtain op where "op_ok op (sy_db s)" "sy_db s' = sql_run cd op (sy_db s)" by (rule sys_step_op)
  with step.IH show ?case by (simp add: reachable_run)
qed

subsection \<open>Where an activity is\<close>

definition row_key :: "'w worker_row \<Rightarrow> (string \<times> id64 \<times> id64) option" where
  "row_key q = (case (wq_instance q, wq_execution_id q, wq_activity_id q) of
     (Some inst, Some x, Some i) \<Rightarrow> Some (inst, x, i) | _ \<Rightarrow> None)"

definition answer_of :: "('d, 'w) codec \<Rightarrow> 'w orch_row \<Rightarrow> (string \<times> id64 \<times> id64) option" where
  "answer_of cd q = (case cd_read_item cd (oq_work_item q) of
     Inl _ \<Rightarrow> None
   | Inr w \<Rightarrow> (case message_group w of
       Some (g, x, i) \<Rightarrow> if g = ''activity'' then Some (oq_instance q, x, i) else None | None \<Rightarrow> None))"

definition result_of :: "('d, 'w) codec \<Rightarrow> 'd history_row \<Rightarrow> (string \<times> id64 \<times> id64) option" where
  "result_of cd h = (case cd_read_event cd (hi_event_data h) of
     Inl _ \<Rightarrow> None
   | Inr ev \<Rightarrow> if in_group ''activity'' (ev_kind ev)
       then map_option (\<lambda>i. (hi_instance h, hi_execution_id h, i)) (ev_source_event_id ev) else None)"

definition tally :: "('a \<Rightarrow> 'k option) \<Rightarrow> 'k \<Rightarrow> 'a list \<Rightarrow> nat" where
  "tally f k xs = length (filter (\<lambda>x. f x = Some k) xs)"

lemma tally_simps [simp]:
  "tally f k [] = 0" "tally f k (x # xs) = (if f x = Some k then 1 else 0) + tally f k xs"
  "tally f k (xs @ ys) = tally f k xs + tally f k ys"
  by (simp_all add: tally_def)

lemma tally_delete: "tally f k (sql_delete P xs) \<le> tally f k xs"
  by (induction xs) (auto simp: sql_delete_def)

lemma tally_update: "(\<And>x. f (g x) = f x) \<Longrightarrow> tally f k (sql_update P g xs) = tally f k xs"
  by (induction xs) (auto simp: sql_update_def)

lemma tally_pos: "0 < tally f k xs \<longleftrightarrow> (\<exists>x \<in> set xs. f x = Some k)"
  by (induction xs) auto

lemma tally_delete_one:
  assumes "x \<in> set xs" and "P x" and "f x = Some k"
  shows "tally f k (sql_delete P xs) < tally f k xs"
  using assms
proof (induction xs)
  case (Cons y ys)
  then show ?case using tally_delete [of f k P ys] by (cases "y = x") (auto simp: sql_delete_def)
qed simp

text \<open>The copies of an activity in the system: queued for a worker, answered but not yet recorded, recorded.\<close>

definition queued_work :: "string \<times> id64 \<times> id64 \<Rightarrow> ('d, 'w) db \<Rightarrow> nat" where
  "queued_work k db = tally row_key k (db_worker_queue db)"

definition pending_answers :: "('d, 'w) codec \<Rightarrow> string \<times> id64 \<times> id64 \<Rightarrow> ('d, 'w) db \<Rightarrow> nat" where
  "pending_answers cd k db = tally (answer_of cd) k (db_orchestrator_queue db)"

definition recorded_results :: "('d, 'w) codec \<Rightarrow> string \<times> id64 \<times> id64 \<Rightarrow> ('d, 'w) db \<Rightarrow> nat" where
  "recorded_results cd k db = tally (result_of cd) k (db_history db)"

definition copies :: "('d, 'w) codec \<Rightarrow> string \<times> id64 \<times> id64 \<Rightarrow> ('d, 'w) db \<Rightarrow> nat" where
  "copies cd k db = queued_work k db + pending_answers cd k db + recorded_results cd k db"

subsection \<open>What is handed out stays true\<close>

text \<open>While an item's token holds a lock, the store shows what the item showed.\<close>

definition item_view :: "('d, 'w) codec \<Rightarrow> string \<Rightarrow> orchestration_item \<Rightarrow> string \<Rightarrow> ('d, 'w) db \<Rightarrow> bool" where
  "item_view cd tok item inst db \<longleftrightarrow> inst = oi_instance item \<and> read_items cd (marked tok db) = oi_messages item
     \<and> (case current_of inst db of None \<Rightarrow> True | Some c \<Rightarrow> oi_execution_id item = c)"

definition items_inv :: "('d, 'w) codec \<Rightarrow> ('d, 'w) system \<Rightarrow> bool" where
  "items_inv cd s \<longleftrightarrow> (\<forall>(tok, item) \<in> sy_items s. \<forall>inst.
     (tok, inst) \<in> lock_marks (sy_db s) \<longrightarrow> item_view cd tok item inst (sy_db s))"

lemma item_view_kept: "same_view inst tok db db' \<Longrightarrow> item_view cd tok item inst db \<Longrightarrow> item_view cd tok item inst db'"
  by (auto simp: same_view_def item_view_def)

lemma own_call:
  assumes "tokens_ok db" and "op = OP_Ack_Orchestration now chk tok req \<or> op = OP_Abandon_Orchestration now tok delay ig"
  shows "sql_run cd op db = db \<or> (\<forall>inst. (tok, inst) \<notin> lock_marks (sql_run cd op db))"
  using assms(2)
proof
  assume op: "op = OP_Abandon_Orchestration now tok delay ig"
  show ?thesis
    by (auto simp: op abandon_orchestration_item_def run_tx_def lock_marks_def sql_delete_def split: option.splits)
next
  assume op: "op = OP_Ack_Orchestration now chk tok req"
  have "\<forall>inst. (tok, inst) \<notin> lock_marks db'" if a: "ack_orchestration_tx cd now chk tok req db = Inr (u, db')" for u db'
  proof -
    from a obtain i db1 where i: "instance_of_token tok db = Some i" and w: "ack_writes cd now tok i req db = Inr db1"
      and db': "db' = release_lock i tok db1"
      by (auto simp: ack_orchestration_tx_def and_then_def split: option.splits sum.splits if_splits)
    have "inst = i" if "(tok, inst) \<in> lock_marks db" for inst
      using assms(1) that token_lock [OF i] by (auto simp: tokens_ok_def single_valued_def)
    then show ?thesis by (auto simp: db' release_lock_def lock_marks_def sql_delete_def ack_writes_tables(2) [OF w])
  qed
  then show ?thesis by (auto simp: op ack_orchestration_item_def run_tx_def split: sum.splits prod.splits)
qed

text \<open>A call under another token, or under this one.\<close>

fun no_fetch :: "sql_op \<Rightarrow> bool" where
  "no_fetch (OP_Append _ _ _) = False"
| "no_fetch (OP_Fetch_Orchestration _ _ _ _) = False"
| "no_fetch _ = True"

lemma items_call:
  assumes ok: "db_ok db" "tokens_ok db" and inv: "items_inv cd \<lparr>sy_db = db, sy_items = items, sy_work = w\<rparr>"
    and op: "no_fetch op"
  shows "items_inv cd \<lparr>sy_db = sql_run cd op db, sy_items = items, sy_work = w'\<rparr>"
  unfolding items_inv_def
proof (clarsimp)
  fix tok item inst
  assume mem: "(tok, item) \<in> items" and l: "(tok, inst) \<in> lock_marks (sql_run cd op db)"
  have old: "item_view cd tok item inst db" if "(tok, inst) \<in> lock_marks db"
    using inv mem that by (auto simp: items_inv_def)
  show "item_view cd tok item inst (sql_run cd op db)"
  proof (cases "others_call inst tok op")
    case True
    from others_keep_view [OF ok True l] have "same_view inst tok db (sql_run cd op db)" .
    with old show ?thesis by (auto intro: item_view_kept simp: same_view_def)
  next
    case False
    with op have "(\<exists>now chk req. op = OP_Ack_Orchestration now chk tok req)
        \<or> (\<exists>now delay ig. op = OP_Abandon_Orchestration now tok delay ig)"
      by (cases op) auto
    with own_call [OF ok(2)] l have "sql_run cd op db = db" by blast
    with old l show ?thesis by simp
  qed
qed

lemma items_fetch:
  assumes ok: "db_ok db" "tokens_ok db" and inv: "items_inv cd \<lparr>sy_db = db, sy_items = items, sy_work = w\<rparr>"
    and fresh: "fresh_token tok db" "tok \<notin> fst ` items" and f: "fetch_orchestration_item cd now tok lt flt db = (r, db')"
  shows "items_inv cd \<lparr>sy_db = db', sy_items = (case r of Inr (Some (item, _, _)) \<Rightarrow> insert (tok, item) items | _ \<Rightarrow> items),
    sy_work = w\<rparr>"
proof -
  let ?op = "OP_Fetch_Orchestration now tok lt flt"
  have db': "db' = sql_run cd ?op db" using f by simp
  have old: "item_view cd t item inst db'"
    if "(t, item) \<in> items" "(t, inst) \<in> lock_marks db'" for t item inst
  proof -
    have "t \<noteq> tok" using that(1) fresh by force
    then have "others_call inst t ?op" by simp
    from others_keep_view [OF ok this] that(2) have v: "same_view inst t db db'" unfolding db' .
    moreover have "item_view cd t item inst db" using inv that(1) v by (auto simp: items_inv_def same_view_def)
    ultimately show ?thesis by (rule item_view_kept)
  qed
  show ?thesis
  proof (cases "\<exists>item t n. r = Inr (Some (item, t, n))")
    case False
    then have "(case r of Inr (Some (item, _, _)) \<Rightarrow> insert (tok, item) items | _ \<Rightarrow> items) = items"
      by (auto split: sum.splits option.splits)
    with old show ?thesis by (auto simp: items_inv_def)
  next
    case True
    then obtain item t n where r: "r = Inr (Some (item, t, n))" by blast
    note f' = f [unfolded r]
    have "item_view cd tok item inst db'" if "(tok, inst) \<in> lock_marks db'" for inst
    proof -
      have "tokens_ok db'" using sql_run_tokens [OF ok(2), of ?op cd] fresh(1) by (simp add: db')
      then have "inst = oi_instance item"
        using fetched_context(1) [OF f'] that by (auto simp: tokens_ok_def single_valued_def)
      then show ?thesis
        using fetched_context(2) [OF f'] fetched_current [OF f'] by (simp add: item_view_def)
    qed
    with old show ?thesis by (auto simp: items_inv_def r)
  qed
qed

subsection \<open>Calls that create no copies\<close>

text \<open>An activity is scheduled if its event is stored, or its execution is over.\<close>

definition scheduled :: "string \<times> id64 \<times> id64 \<Rightarrow> ('d, 'w) db \<Rightarrow> bool" where
  "scheduled k db \<longleftrightarrow> (case k of (inst, x, i) \<Rightarrow>
     (\<exists>h \<in> set (db_history db). hi_instance h = inst \<and> hi_execution_id h = x \<and> hi_event_id h = i)
     \<or> (\<exists>c. current_of inst db = Some c \<and> x < c))"

definition calm :: "('d, 'w) codec \<Rightarrow> ('d, 'w) db \<Rightarrow> ('d, 'w) db \<Rightarrow> bool" where
  "calm cd db db' \<longleftrightarrow> (\<forall>k. copies cd k db' \<le> copies cd k db
     \<and> (0 < copies cd k db' \<longrightarrow> scheduled k db \<longrightarrow> scheduled k db'))"

lemma calm_refl [simp]: "calm cd db db"
  by (simp add: calm_def)

lemma calm_trans: "calm cd a b \<Longrightarrow> calm cd b c \<Longrightarrow> calm cd a c"
  unfolding calm_def by (meson le_trans less_le_trans)

lemma calm_run_tx: "(\<And>r db'. body db = Inr (r, db') \<Longrightarrow> calm cd db db') \<Longrightarrow> calm cd db (snd (run_tx body db))"
  by (rule run_tx_keeps) simp_all

lemma calm_moved:
  assumes "db_history db' = db_history db" and "db_instances db' = db_instances db"
    and "\<And>k. queued_work k db' + pending_answers cd k db' \<le> queued_work k db + pending_answers cd k db"
  shows "calm cd db db'"
  using assms(3)
  by (simp add: calm_def copies_def recorded_results_def scheduled_def current_of_def find_instance_def assms(1,2))

lemma calm_queues:
  assumes "db_history db' = db_history db" and "db_instances db' = db_instances db"
    and "\<And>k. queued_work k db' \<le> queued_work k db" and "\<And>k. pending_answers cd k db' \<le> pending_answers cd k db"
  shows "calm cd db db'"
  using assms by (intro calm_moved add_mono)

lemma calm_frame:
  "db_history db' = db_history db \<Longrightarrow> db_instances db' = db_instances db \<Longrightarrow>
   db_worker_queue db' = db_worker_queue db \<Longrightarrow> db_orchestrator_queue db' = db_orchestrator_queue db \<Longrightarrow> calm cd db db'"
  by (rule calm_queues) (simp_all add: queued_work_def pending_answers_def)

lemma answer_of_cong: "oq_instance q' = oq_instance q \<Longrightarrow> oq_work_item q' = oq_work_item q \<Longrightarrow> answer_of cd q' = answer_of cd q"
  by (simp add: answer_of_def split: sum.split option.split)

lemma abandon_tally: "tally (answer_of cd) k (abandon_messages now inst delay ig t) = tally (answer_of cd) k t"
proof -
  have "tally (answer_of cd) k (sql_update P (\<lambda>q. q\<lparr>oq_attempt_count := oq_attempt_count q - 1\<rparr>) t) = tally (answer_of cd) k t"
    for P t by (rule tally_update, rule answer_of_cong) simp_all
  moreover have "tally (answer_of cd) k (sql_update P (\<lambda>q. q\<lparr>oq_visible_at := v\<rparr>) t) = tally (answer_of cd) k t" for P v t
    by (rule tally_update, rule answer_of_cong) simp_all
  ultimately show ?thesis by (simp add: abandon_messages_def Let_def split: option.split)
qed

lemma delete_calm: "calm cd db (delete_rows ids db)"
proof -
  let ?db' = "delete_rows ids db"
  have le: "copies cd k ?db' \<le> copies cd k db" for k
    unfolding copies_def queued_work_def pending_answers_def recorded_results_def
    by (simp add: delete_rows_def add_mono tally_delete)
  have "scheduled (inst, x, i) ?db'" if "0 < copies cd (inst, x, i) ?db'" "scheduled (inst, x, i) db" for inst x i
  proof -
    have "inst \<notin> set ids"
      using that(1)
      by (auto simp: copies_def queued_work_def pending_answers_def recorded_results_def tally_pos delete_rows_def
          sql_delete_def row_key_def answer_of_def result_of_def split: option.splits sum.splits prod.splits if_splits)
    then have "current_of inst ?db' = current_of inst db"
      by (simp add: current_of_def find_instance_def delete_rows_def) (subst find_filter_kept, auto)
    with that(2) \<open>inst \<notin> set ids\<close> show ?thesis by (auto simp: scheduled_def delete_rows_def sql_delete_def)
  qed
  with le show ?thesis by (auto simp: calm_def)
qed

lemma prune_tally: "tally f k (db_history (snd (fold (prune_one i) es x))) \<le> tally f k (db_history (snd x))"
proof (induction es arbitrary: x)
  case (Cons e es)
  have "tally f k (db_history (snd (prune_one i e x))) \<le> tally f k (db_history (snd x))"
    by (cases x) (simp add: prune_one_def tally_delete)
  with Cons [of "prune_one i e x"] show ?case by simp
qed simp

lemma own_rows_mem:
  "h \<in> set (own_rows inst x db) \<longleftrightarrow> h \<in> set (db_history db) \<and> hi_instance h = inst \<and> hi_execution_id h = x"
  by (simp add: own_rows_def)

lemma prune_calm:
  assumes "upkeep (OP_Prune i options) db"
  shows "calm cd db (snd (prune_executions i options db))"
proof (cases "find_instance i db")
  case None
  then show ?thesis by (simp add: prune_executions_def)
next
  case (Some r)
  let ?db' = "snd (prune_executions i options db)" and ?c = "in_current_execution_id r"
  let ?r0 = "\<lparr>pr_instances_processed = 1, pr_executions_deleted = 0, pr_events_deleted = 0\<rparr>"
  have db': "?db' = snd (fold (prune_one i) (prune_candidates i ?c options db) (?r0, db))"
    by (simp add: prune_executions_def Some case_prod_unfold Let_def)
  have cur: "current_of i db = Some ?c" "current_of inst ?db' = current_of inst db" for inst
    by (simp_all add: current_of_def Some) (simp add: find_instance_def prune_frames)
  have old: "x < ?c" if "x \<in> set (prune_candidates i ?c options db)" for x
    using that assms cur(1) by (fastforce simp: prune_candidates_def)
  have "scheduled (inst, x, e) ?db'" if "scheduled (inst, x, e) db" for inst x e
  proof (cases "x \<in> set (prune_candidates i ?c options db) \<and> i = inst")
    case True
    with old cur show ?thesis by (auto simp: scheduled_def)
  next
    case False
    then have "own_rows inst x ?db' = own_rows inst x db" unfolding db' by (subst prune_rows_kept) auto
    then have "h \<in> set (db_history ?db') \<longleftrightarrow> h \<in> set (db_history db)"
      if "hi_instance h = inst" "hi_execution_id h = x" for h
      using that own_rows_mem [of h inst x] by metis
    with \<open>scheduled (inst, x, e) db\<close> cur(2) show ?thesis by (auto simp: scheduled_def)
  qed
  moreover have "copies cd k ?db' \<le> copies cd k db" for k
  proof -
    have "tally (result_of cd) k (db_history ?db') \<le> tally (result_of cd) k (db_history db)"
      unfolding db' using prune_tally [where x = "(?r0, db)"] by (simp only: snd_conv)
    then show ?thesis
      by (simp add: copies_def queued_work_def pending_answers_def recorded_results_def prune_frames)
  qed
  ultimately show ?thesis by (auto simp: calm_def)
qed

lemma queue_calm:
  assumes "db_history db' = db_history db" "db_instances db' = db_instances db" "db_worker_queue db' = db_worker_queue db"
    and "\<And>k. tally (answer_of cd) k (db_orchestrator_queue db') \<le> tally (answer_of cd) k (db_orchestrator_queue db)"
  shows "calm cd db db'"
  using assms by (intro calm_queues) (simp_all add: queued_work_def pending_answers_def)

lemma work_calm:
  assumes "db_history db' = db_history db" "db_instances db' = db_instances db"
    and "db_orchestrator_queue db' = db_orchestrator_queue db"
    and "\<And>k. tally row_key k (db_worker_queue db') \<le> tally row_key k (db_worker_queue db)"
  shows "calm cd db db'"
  using assms by (intro calm_queues) (simp_all add: queued_work_def pending_answers_def)

lemma update_row_key: "(\<And>q. row_key (g q) = row_key q) \<Longrightarrow> tally row_key k (sql_update P g t) \<le> tally row_key k t"
  by (simp add: tally_update)

lemma upkeep_calm:
  assumes "upkeep op db"
  shows "calm cd db (sql_run cd op db)"
proof (cases op)
  case (OP_Renew_Orchestration now tok ext)
  then show ?thesis
    by (auto simp: renew_orchestration_item_lock_def Let_def intro!: calm_run_tx calm_frame split: if_splits)
next
  case (OP_Abandon_Orchestration now tok delay ig)
  then show ?thesis
    by (auto simp: abandon_orchestration_item_def abandon_tally intro!: calm_run_tx queue_calm split: option.splits)
next
  case (OP_Renew_Work now tok ext)
  then show ?thesis
    by (auto simp: renew_work_item_lock_def frames touch_session_history row_key_def
        intro!: calm_run_tx work_calm update_row_key split: option.splits)
next
  case (OP_Abandon_Work now tok delay ig)
  then show ?thesis
    by (auto simp: abandon_work_item_def Let_def row_key_def intro!: calm_run_tx work_calm update_row_key split: if_splits)
next
  case (OP_Delete ids force)
  then show ?thesis
    by (auto simp: delete_instances_atomic_def delete_calm intro!: calm_run_tx dest: delete_tx_cases)
next
  case (OP_Prune inst options)
  with assms prune_calm show ?thesis by simp
qed (use assms in \<open>auto simp: renew_session_lock_def cleanup_orphaned_sessions_def Let_def intro!: calm_frame\<close>)

lemma send_calm:
  assumes "client_message wi" and "codec_ok cd"
  shows "calm cd db (sql_run cd (OP_Enqueue_Orchestrator now wi delay) db)"
proof -
  have "message_group wi = None" using assms(1) by (cases wi) simp_all
  then have "answer_of cd q = None" if "oq_work_item q = cd_item cd wi" for q
    using that assms(2) by (simp add: answer_of_def)
  then show ?thesis
    by (auto simp: enqueue_for_orchestrator_def enqueue_orchestrator_work_with_delay_def Let_def insert_orch_row_def
        intro!: calm_run_tx queue_calm split: option.splits)
qed

lemma fetch_calm: "calm cd db (sql_run cd (OP_Fetch_Orchestration now tok lt flt) db)"
proof -
  have mark: "tally (answer_of cd) k (db_orchestrator_queue (mark_messages now tok inst db1)) = tally (answer_of cd) k (db_orchestrator_queue db1)"
    for k inst and db1 :: "('a, 'b) db"
    unfolding mark_messages_def by (simp, rule tally_update, rule answer_of_cong) simp_all
  have "calm cd db db'" if f: "fetch_orchestration_tx cd now tok lt flt db = Inr (r, db')" for r db'
    using f
  proof (cases rule: fetch_orchestration_cases)
    case (2 inst db1)
    show ?thesis
    proof (rule queue_calm)
      fix k
      have "tally (answer_of cd) k (db_orchestrator_queue db') \<le> tally (answer_of cd) k (db_orchestrator_queue (mark_messages now tok inst db1))"
        by (simp add: 2(3) drop_orphans_def tally_delete)
      then show "tally (answer_of cd) k (db_orchestrator_queue db') \<le> tally (answer_of cd) k (db_orchestrator_queue db)"
        by (simp add: mark acquire_locks(3) [OF 2(2)])
    qed (simp_all add: 2(3) drop_orphans_def acquire_history [OF 2(2)] acquire_locks(4,5) [OF 2(2)] mark_messages_def)
  next
    case (3 inst db1 item)
    then show ?thesis
      by (intro queue_calm) (simp_all add: mark acquire_locks(3,4,5) [OF 3(2)] frames,
        simp add: mark_messages_def acquire_history [OF 3(2)])
  qed simp
  then show ?thesis by (simp add: fetch_orchestration_item_def calm_run_tx)
qed

lemma fetch_work_calm: "calm cd db (sql_run cd (OP_Fetch_Work now tok lt session flt) db)"
proof -
  have lock: "calm cd db (lock_work tok u i db)" for u i and db :: "('a, 'b) db"
    by (rule work_calm) (auto simp: lock_work_def row_key_def intro!: update_row_key)
  have "calm cd db db'" if f: "fetch_work_tx cd now tok lt session flt db = Inr (r, db')" for r db'
    using f
  proof (cases rule: fetch_work_cases)
    case (3 q db1 wi sid config)
    have "calm cd db1 db'"
      using claim_session_frames [OF 3(7)] claim_session_history [OF 3(7)] by (intro calm_frame) simp_all
    with lock [of db] 3(2) show ?thesis by (metis calm_trans)
  qed (simp_all add: lock)
  then show ?thesis by (simp add: fetch_work_item_def calm_run_tx)
qed

subsection \<open>The rows of the worker queue\<close>

text \<open>Every row is an activity under the key of its columns, and a token handed out with an item marks no other item.\<close>

definition work_inv :: "('d, 'w) codec \<Rightarrow> (string \<times> work_item) set \<Rightarrow> ('d, 'w) db \<Rightarrow> bool" where
  "work_inv cd work db \<longleftrightarrow>
     (\<forall>q \<in> set (db_worker_queue db). \<exists>wi. cd_read_item cd (wq_work_item q) = Inr wi
        \<and> work_item_key wi = row_key q \<and> row_key q \<noteq> None)
     \<and> (\<forall>(tok, wi) \<in> work. \<forall>q \<in> set (db_worker_queue db).
          wq_lock_token q = Some tok \<longrightarrow> cd_read_item cd (wq_work_item q) = Inr wi)"

definition row_from :: "'w worker_row \<Rightarrow> 'w worker_row \<Rightarrow> bool" where
  "row_from q q' \<longleftrightarrow> wq_work_item q' = wq_work_item q \<and> row_key q' = row_key q
     \<and> (wq_lock_token q' = None \<or> wq_lock_token q' = wq_lock_token q)"

definition rows_kept :: "('d, 'w) db \<Rightarrow> ('d, 'w) db \<Rightarrow> bool" where
  "rows_kept db db' \<longleftrightarrow> (\<forall>q' \<in> set (db_worker_queue db'). \<exists>q \<in> set (db_worker_queue db). row_from q q')"

lemma rows_kept_refl [simp]: "rows_kept db db"
  by (auto simp: rows_kept_def row_from_def)

lemma rows_kept_run_tx: "(\<And>r db'. body db = Inr (r, db') \<Longrightarrow> rows_kept db db') \<Longrightarrow> rows_kept db (snd (run_tx body db))"
  by (rule run_tx_keeps) simp_all

lemma rows_kept_subset: "set (db_worker_queue db') \<subseteq> set (db_worker_queue db) \<Longrightarrow> rows_kept db db'"
  by (auto simp: rows_kept_def row_from_def)

lemma rows_kept_update:
  "db_worker_queue db' = sql_update P f (db_worker_queue db) \<Longrightarrow> (\<And>q. P q \<Longrightarrow> row_from q (f q)) \<Longrightarrow> rows_kept db db'"
  by (auto simp: rows_kept_def sql_update_def row_from_def)

lemma work_inv_kept: "rows_kept db db' \<Longrightarrow> work_inv cd work db \<Longrightarrow> work_inv cd work db'"
  unfolding work_inv_def rows_kept_def row_from_def by (fastforce split: prod.splits)

lemma upkeep_rows:
  assumes "upkeep op db"
  shows "rows_kept db (sql_run cd op db)"
proof (cases op)
  case (OP_Renew_Orchestration now tok ext)
  then show ?thesis
    by (simp add: renew_orchestration_item_lock_def Let_def)
      (rule rows_kept_run_tx, auto intro!: rows_kept_subset split: if_splits)
next
  case (OP_Abandon_Orchestration now tok delay ig)
  then show ?thesis
    by (simp add: abandon_orchestration_item_def)
      (rule rows_kept_run_tx, auto intro!: rows_kept_subset split: option.splits)
next
  case (OP_Renew_Work now tok ext)
  then show ?thesis
    by (simp add: renew_work_item_lock_def)
      (rule rows_kept_run_tx, auto simp: frames row_from_def row_key_def intro!: rows_kept_update split: option.splits)
next
  case (OP_Abandon_Work now tok delay ig)
  then show ?thesis
    by (simp add: abandon_work_item_def Let_def)
      (rule rows_kept_run_tx, auto simp: row_from_def row_key_def intro!: rows_kept_update split: if_splits)
next
  case (OP_Delete ids force)
  then show ?thesis
    by (simp add: delete_instances_atomic_def)
      (rule rows_kept_run_tx, auto simp: delete_rows_def sql_delete_def dest!: delete_tx_cases intro!: rows_kept_subset)
qed (use assms in \<open>auto simp: prune_frames renew_session_lock_def cleanup_orphaned_sessions_def Let_def intro!: rows_kept_subset\<close>)

lemma send_rows: "rows_kept db (sql_run cd (OP_Enqueue_Orchestrator now wi delay) db)"
  by (simp add: enqueue_for_orchestrator_def)
    (rule rows_kept_run_tx, auto simp: enqueue_orchestrator_work_with_delay_def Let_def frames
      intro!: rows_kept_subset split: option.splits)

lemma fetch_rows: "rows_kept db (sql_run cd (OP_Fetch_Orchestration now tok lt flt) db)"
  by (simp add: fetch_orchestration_item_def)
    (rule rows_kept_run_tx, erule fetch_orchestration_cases,
      auto simp: drop_orphans_def frames dest: acquire_locks(4) intro!: rows_kept_subset)

lemma answer_rows: "rows_kept db (sql_run cd (OP_Ack_Work now tok c) db)"
  by (simp add: ack_work_item_def)
    (rule rows_kept_run_tx, erule ack_work_cases,
      auto simp: frames sql_delete_def intro!: rows_kept_subset split: option.splits)

lemma fetch_work_inv:
  assumes ok: "db_ok db" and fresh: "fresh_token tok db" "tok \<notin> fst ` work" and inv: "work_inv cd work db"
    and f: "fetch_work_item cd now tok lt session flt db = (r, db')"
  shows "work_inv cd (case r of Inr (Some (wi, _, _)) \<Rightarrow> insert (tok, wi) work | _ \<Rightarrow> work) db'"
proof (cases "\<exists>wi t n. r = Inr (Some (wi, t, n))")
  case False
  then have work: "(case r of Inr (Some (wi, _, _)) \<Rightarrow> insert (tok, wi) work | _ \<Rightarrow> work) = work"
    by (auto split: sum.splits option.splits)
  have "db' = db"
  proof (cases "flt = TF_None")
    case nf: False
    then have "run_tx (fetch_work_tx cd now tok lt session flt) db = (r, db')" using f by (simp add: fetch_work_item_def)
    with False show ?thesis by (auto simp: run_tx_def split: sum.splits prod.splits elim!: fetch_work_cases)
  qed (use f in \<open>simp add: fetch_work_item_def\<close>)
  with inv work show ?thesis by simp
next
  case True
  then obtain wi t n where r: "r = Inr (Some (wi, t, n))" by blast
  with f have tx: "fetch_work_tx cd now tok lt session flt db = Inr (Some (wi, t, n), db')"
    by (auto simp: fetch_work_item_def run_tx_ok split: if_splits)
  then obtain q where sel: "select_work now session flt db = Some q"
    and wq: "db_worker_queue db' = db_worker_queue (lock_work tok (timestamp_after now lt) (wq_id q) db)"
    and wi: "cd_read_item cd (wq_work_item q) = Inr wi"
    by (cases rule: fetch_work_cases) (auto dest: claim_session_frames(2))
  have mem: "q \<in> set (db_worker_queue db)" using sel by (auto simp: select_work_def dest: find_Some_mem)
  have row: "\<exists>q1 \<in> set (db_worker_queue db). wq_work_item q' = wq_work_item q1 \<and> row_key q' = row_key q1
      \<and> (wq_lock_token q' = (if q1 = q then Some tok else wq_lock_token q1))"
    if "q' \<in> set (db_worker_queue db')" for q'
  proof -
    have "distinct (map wq_id (db_worker_queue db))" using ok by (auto simp: db_ok_defs intro: queue_sorted_distinct)
    then have one: "q1 = q" if "q1 \<in> set (db_worker_queue db)" "wq_id q1 = wq_id q" for q1
      using that mem by (auto simp: distinct_map inj_on_def)
    from that obtain q1 where q1: "q1 \<in> set (db_worker_queue db)" and q': "q' = (if wq_id q1 = wq_id q then q1\<lparr>wq_lock_token := Some tok,
        wq_locked_until := Some (timestamp_after now lt), wq_attempt_count := wq_attempt_count q1 + 1\<rparr> else q1)"
      unfolding wq lock_work_def by (auto simp: sql_update_def)
    show ?thesis
    proof (rule bexI [OF _ q1], cases "wq_id q1 = wq_id q")
      case True
      with one [OF q1] show "wq_work_item q' = wq_work_item q1 \<and> row_key q' = row_key q1
          \<and> wq_lock_token q' = (if q1 = q then Some tok else wq_lock_token q1)" by (simp add: q' row_key_def)
    qed (auto simp: q')
  qed
  have "wq_lock_token q1 \<noteq> Some tok" if "q1 \<in> set (db_worker_queue db)" for q1
    using fresh(1) that by (force simp: fresh_token_def)
  note unmarked = this
  have old: "\<exists>w. cd_read_item cd (wq_work_item q1) = Inr w \<and> work_item_key w = row_key q1 \<and> row_key q1 \<noteq> None"
    "\<And>t w. (t, w) \<in> work \<Longrightarrow> wq_lock_token q1 = Some t \<Longrightarrow> cd_read_item cd (wq_work_item q1) = Inr w"
    if "q1 \<in> set (db_worker_queue db)" for q1
    using inv that unfolding work_inv_def by blast+
  have "cd_read_item cd (wq_work_item q') = Inr w"
    if q': "q' \<in> set (db_worker_queue db')" and tw: "(t, w) \<in> insert (tok, wi) work" and l: "wq_lock_token q' = Some t" for q' t w
  proof -
    from row [OF q'] obtain q1 where q1: "q1 \<in> set (db_worker_queue db)" "wq_work_item q' = wq_work_item q1"
      "wq_lock_token q' = (if q1 = q then Some tok else wq_lock_token q1)" by blast
    show ?thesis
    proof (cases "q1 = q")
      case True
      with l q1(3) have "t = tok" by simp
      with tw fresh(2) have "w = wi" by force
      with wi True q1(2) show ?thesis by simp
    next
      case False
      with l q1(3) have "wq_lock_token q1 = Some t" by simp
      with unmarked [OF q1(1)] tw have "(t, w) \<in> work" by auto
      from old(2) [OF q1(1) this \<open>wq_lock_token q1 = Some t\<close>] q1(2) show ?thesis by simp
    qed
  qed
  moreover have "\<exists>w. cd_read_item cd (wq_work_item q') = Inr w \<and> work_item_key w = row_key q' \<and> row_key q' \<noteq> None"
    if "q' \<in> set (db_worker_queue db')" for q'
    using row [OF that] old(1) by metis
  ultimately show ?thesis by (auto simp: work_inv_def r)
qed

end
