(* ===== verification/System_Once.thy ===== *)
theory System_Once
  imports System
begin

text \<open>
  An activity of an orchestration completes at most once: whatever the clients, dispatchers and workers
  do, in any order, with any crash, the store never holds two copies of it among the queued work, the
  answers waiting to be read, and the results recorded in the history.
\<close>

subsection \<open>A worker's answer moves the activity\<close>

lemma answer_row:
  assumes "codec_ok cd" and "completion_key w = Some k0" and "completion_instance w = Some inst"
    and "oq_instance q = inst" and "oq_work_item q = cd_item cd w"
  shows "answer_of cd q = Some k0"
  using assms by (cases w) (auto simp: answer_of_def)

lemma answer_calm:
  assumes cd: "codec_ok cd" and inv: "work_inv cd work db" and mem: "(tok, wi) \<in> work" and ans: "answers wi c"
  shows "calm cd db (sql_run cd (OP_Ack_Work now tok c) db)"
proof -
  have "calm cd db db'" if a: "ack_work_tx cd now tok c db = Inr (u, db')" for u db'
    using a
  proof (cases rule: ack_work_cases)
    case (1 q db1)
    have q: "q \<in> set (db_worker_queue db)" "work_locked now tok q"
      using 1(1) by (auto dest: find_Some_mem)
    then have "wq_lock_token q = Some tok" by (simp add: work_locked_def)
    with inv mem q(1) have "cd_read_item cd (wq_work_item q) = Inr wi" by (auto simp: work_inv_def)
    with inv q(1) obtain k0 where k0: "work_item_key wi = Some k0" "row_key q = Some k0"
      by (fastforce simp: work_inv_def)
    have t: "db_history db1 = db_history db" "db_instances db1 = db_instances db"
      "db_orchestrator_queue db1 = db_orchestrator_queue db"
      "db_worker_queue db1 = sql_delete (work_locked now tok) (db_worker_queue db)"
      by (simp_all add: 1(2) frames touch_session_history)
    have fewer: "queued_work k db1 + (if k = k0 then 1 else 0) \<le> queued_work k db" for k
    proof (cases "k = k0")
      case True
      have "tally row_key k0 (sql_delete (work_locked now tok) (db_worker_queue db)) < tally row_key k0 (db_worker_queue db)"
        by (rule tally_delete_one) (fact q k0(2))+
      with True show ?thesis by (simp add: queued_work_def t)
    qed (simp add: queued_work_def t tally_delete)
    show ?thesis
    proof (cases c)
      case None
      with 1(3) have "db' = db1" by simp
      with fewer show ?thesis
        by (intro calm_queues) (auto simp: t pending_answers_def dest: add_leD1)
    next
      case (Some w)
      with 1(3) obtain inst where i: "completion_instance w = Some inst"
        and db': "db' = insert_orch_row inst (cd_item cd w) now db1" by auto
      from ans Some k0(1) have "completion_key w = Some k0" by (simp add: answers_def)
      from answer_row [OF cd this i]
      have "pending_answers cd k db' = pending_answers cd k db + (if k = k0 then 1 else 0)" for k
        by (auto simp: pending_answers_def db' insert_orch_row_def t)
      then have "queued_work k db' + pending_answers cd k db' \<le> queued_work k db + pending_answers cd k db" for k
        using fewer [of k] by (simp add: db' insert_orch_row_def queued_work_def)
      then show ?thesis by (intro calm_moved) (simp_all add: db' insert_orch_row_def t)
    qed
  qed
  then show ?thesis by (simp add: ack_work_item_def calm_run_tx)
qed

subsection \<open>A commit\<close>

text \<open>The current execution of an instance only grows.\<close>

definition current_grows :: "string \<Rightarrow> ('d, 'w) db \<Rightarrow> ('d, 'w) db \<Rightarrow> bool" where
  "current_grows inst db db' \<longleftrightarrow> (\<forall>c. current_of inst db = Some c \<longrightarrow> (\<exists>c'. current_of inst db' = Some c' \<and> c \<le> c'))"

lemma current_grows_trans: "current_grows inst a b \<Longrightarrow> current_grows inst b c \<Longrightarrow> current_grows inst a c"
  unfolding current_grows_def by (meson le_trans)

lemma current_grows_same: "current_of inst db' = current_of inst db \<Longrightarrow> current_grows inst db db'"
  by (simp add: current_grows_def)

lemma current_grows_update:
  assumes "db_instances db' = sql_update P f (db_instances db)"
    and "\<And>r. in_instance (f r) = in_instance r" "\<And>r. in_current_execution_id r \<le> in_current_execution_id (f r)"
  shows "current_grows inst db db'"
proof -
  have "\<exists>r'. List.find (\<lambda>r. in_instance r = inst) (sql_update P f t) = Some r'
      \<and> in_current_execution_id r \<le> in_current_execution_id r'"
    if "List.find (\<lambda>r. in_instance r = inst) t = Some r" for t r
    using that assms(2,3) by (induction t) (auto simp: sql_update_def split: if_splits)
  then show ?thesis by (fastforce simp: current_grows_def current_of_def find_instance_def assms(1))
qed

lemma current_grows_insert:
  assumes "db_instances db' = sql_insert_ignore in_instance row (db_instances db)"
  shows "current_grows inst db db'"
proof -
  have "List.find P (t @ u) = Some r" if "List.find P t = Some r" for P t u and r :: instance_row
    using that by (induction t) (auto split: if_splits)
  with assms show ?thesis
    by (auto simp: current_grows_def current_of_def find_instance_def sql_insert_ignore_def)
qed

lemma ack_current_grows:
  assumes w: "ack_writes cd now t i req db = Inr db'"
  shows "current_grows inst db db'"
proof -
  from w obtain db1 db2 where
    1: "ack_instance_row now i (ar_execution_id req) (ar_metadata req) (delete_fetched t db) = Inr db1" and
    2: "ack_history cd i (ar_execution_id req) (ar_history_delta req)
          (ack_execution_row i (ar_execution_id req) (ar_metadata req) db1) = Inr db2" and
    3: "db' = fold (ack_enqueue_orchestrator cd now) (ar_orchestrator_items req)
       (delete_cancelled (ar_cancelled_activities req)
         (fold (insert_worker_row cd now) (ar_worker_items req)
           (ack_kv now i (ar_history_delta req) (ar_metadata req)
             (ack_custom_status i (ar_history_delta req)
               (ack_status now i (ar_execution_id req) (ar_metadata req) db2)))))"
    by (rule ack_writes_parts)
  let ?db1' = "ack_execution_row i (ar_execution_id req) (ar_metadata req) db1"
  let ?db3 = "ack_custom_status i (ar_history_delta req) (ack_status now i (ar_execution_id req) (ar_metadata req) db2)"
  have "current_grows inst db db1"
  proof (cases "db_instances db1 = db_instances db")
    case True
    then show ?thesis by (intro current_grows_same) (simp add: current_of_def find_instance_def)
  next
    case False
    with 1 obtain row P f where d: "db_instances db1 = sql_update P f (sql_insert_ignore in_instance row (db_instances db))"
      and f: "\<And>r. in_instance (f r) = in_instance r" "\<And>r. in_current_execution_id r \<le> in_current_execution_id (f r)"
      by (fastforce simp: ack_instance_row_def delete_fetched_def Let_def split: option.splits if_splits)
    have "current_grows inst db (db1\<lparr>db_instances := sql_insert_ignore in_instance row (db_instances db)\<rparr>)"
      by (rule current_grows_insert) simp
    moreover have "current_grows inst (db1\<lparr>db_instances := sql_insert_ignore in_instance row (db_instances db)\<rparr>) db1"
      by (rule current_grows_update [OF _ f]) (simp add: d)
    ultimately show ?thesis by (rule current_grows_trans)
  qed
  moreover have "current_grows inst db1 ?db1'"
    by (rule current_grows_update [where f = "\<lambda>r. r\<lparr>in_current_execution_id := max (in_current_execution_id r) (ar_execution_id req)\<rparr>"])
      (simp_all add: ack_execution_row_def Let_def)
  moreover have "current_of inst db2 = current_of inst ?db1'"
    using 2 by (auto simp: ack_history_def append_history_in_tx_def and_then_def current_of_def find_instance_def
        split: if_splits sum.splits)
  moreover have "current_grows inst db2 ?db3"
  proof (cases "?db3 = ack_status now i (ar_execution_id req) (ar_metadata req) db2")
    case True
    then show ?thesis
      by (intro current_grows_same) (simp add: ack_status_def current_of_def find_instance_def split: option.split)
  next
    case False
    then obtain s where "find_map (\<lambda>ev. case ev_kind ev of CustomStatusUpdated s \<Rightarrow> Some s | _ \<Rightarrow> None) (rev (ar_history_delta req)) = Some s"
      by (auto simp: ack_custom_status_def split: option.splits)
    then have "db_instances ?db3 = sql_update (\<lambda>r. in_instance r = i)
        (\<lambda>r. r\<lparr>in_custom_status := s, in_custom_status_version := in_custom_status_version r + 1\<rparr>) (db_instances db2)"
      by (simp add: ack_custom_status_def ack_status_def split: option.split)
    then show ?thesis by (rule current_grows_update) simp_all
  qed
  moreover have "current_of inst db' = current_of inst ?db3"
    by (simp add: 3 current_of_def find_instance_def frames ack_kv_def merge_kv_def Let_def)
  ultimately show ?thesis by (meson current_grows_trans current_grows_same)
qed

text \<open>The rows a commit adds: at most one for a key, and only for the execution it writes.\<close>

lemma tally_events:
  "tally (result_of cd) (inst, x, e) (map (event_row cd inst x) evs) = count_list (activity_results evs) e"
  if "codec_ok cd"
proof (induction evs)
  case (Cons ev evs)
  have "result_of cd (event_row cd inst x ev) = (if in_group ''activity'' (ev_kind ev)
      then map_option (\<lambda>i. (inst, x, i)) (ev_source_event_id ev) else None)"
    using that by (simp add: result_of_def event_row_def)
  with Cons show ?case
    by (cases "ev_source_event_id ev") (auto simp: activity_results_def result_sources_def map_filter_simps)
qed (simp add: activity_results_def result_sources_def map_filter_simps)

lemma tally_events_other:
  "k \<noteq> (inst, x, snd (snd k)) \<Longrightarrow> tally (result_of cd) k (map (event_row cd inst x) evs) = 0"
  by (induction evs) (cases k; auto simp: result_of_def event_row_def split: sum.splits if_splits option.splits)+

lemma count_distinct: "distinct xs \<Longrightarrow> count_list xs y = (if y \<in> set xs then 1 else 0)"
  by (induction xs) auto

lemma tally_rows:
  "tally row_key k (worker_rows cd now n (List.map_filter (work_of_event inst x) evs))
     = length (filter (\<lambda>ev. is_activity_scheduled (ev_kind ev) \<and> k = (inst, x, ev_event_id ev)) evs)"
proof (induction evs arbitrary: n)
  case (Cons ev evs)
  show ?case
  proof (cases "ev_kind ev")
    case (ActivityScheduled name input session tag)
    then have "work_of_event inst x ev = Some (WI_ActivityExecute inst x (ev_event_id ev) name input session tag)"
      by (simp add: work_of_event_def)
    with Cons ActivityScheduled show ?thesis
      by (auto simp: map_filter_simps row_key_def worker_row_of_def)
  qed (use Cons in \<open>simp_all add: map_filter_simps work_of_event_def\<close>)
qed (simp add: map_filter_simps)

lemma new_work_scheduled:
  assumes "0 < tally row_key k (worker_rows cd now n (List.map_filter (work_of_event inst x) evs))"
  shows "\<exists>ev \<in> set evs. k = (inst, x, ev_event_id ev)"
  using assms unfolding tally_rows by (auto simp: filter_empty_conv)

lemma new_work_once:
  assumes "distinct (map ev_event_id evs)"
  shows "tally row_key k (worker_rows cd now n (List.map_filter (work_of_event inst x) evs)) \<le> 1"
  unfolding tally_rows
  using assms by (induction evs) (auto simp: filter_empty_conv)

lemma no_new_answers:
  assumes "codec_ok cd" and "\<forall>w \<in> set ws. \<forall>x i. message_group w \<noteq> Some (''activity'', x, i)"
  shows "tally (answer_of cd) k (orch_rows cd now n ws) = 0"
  using assms(2)
proof (induction ws arbitrary: n)
  case (Cons w ws)
  have "answer_of cd r = None" if "orch_row_of cd now n w = Some r" for r
    using that Cons.prems assms(1) by (auto simp: orch_row_of_def answer_of_def split: option.splits prod.splits)
  with Cons show ?case by (auto split: option.splits)
qed simp

definition once_inv :: "('d, 'w) codec \<Rightarrow> ('d, 'w) db \<Rightarrow> bool" where
  "once_inv cd db \<longleftrightarrow> (\<forall>k. copies cd k db \<le> 1 \<and> (0 < copies cd k db \<longrightarrow> scheduled k db))"

lemma once_invD:
  "once_inv cd db \<Longrightarrow> copies cd k db \<le> 1"
  "once_inv cd db \<Longrightarrow> 0 < copies cd k db \<Longrightarrow> scheduled k db"
  unfolding once_inv_def by blast+

lemma once_calm:
  assumes "once_inv cd db" and "calm cd db db'"
  shows "once_inv cd db'"
  unfolding once_inv_def
proof
  fix k
  from assms have "copies cd k db' \<le> copies cd k db" "copies cd k db \<le> 1" "0 < copies cd k db \<longrightarrow> scheduled k db"
    "0 < copies cd k db' \<longrightarrow> scheduled k db \<longrightarrow> scheduled k db'" unfolding once_inv_def calm_def by blast+
  then show "copies cd k db' \<le> 1 \<and> (0 < copies cd k db' \<longrightarrow> scheduled k db')" by auto
qed

text \<open>The recorded results were waiting under the token, and go with it.\<close>

lemma results_were_waiting:
  assumes cd: "codec_ok cd" and tok: "tokens_ok db" and l: "(tok, inst) \<in> lock_marks db"
    and view: "item_view cd tok item inst db" and h: "honest_request item req"
  shows "tally (answer_of cd) k (sql_delete (\<lambda>q. oq_lock_token q = Some tok) (db_orchestrator_queue db))
      + tally (result_of cd) k (map (event_row cd inst (ar_execution_id req)) (ar_history_delta req))
    \<le> tally (answer_of cd) k (db_orchestrator_queue db)"
proof (cases "tally (result_of cd) k (map (event_row cd inst (ar_execution_id req)) (ar_history_delta req)) = 0")
  case True
  then show ?thesis by (simp add: tally_delete)
next
  case False
  then obtain e where k: "k = (inst, ar_execution_id req, e)"
    by (metis tally_events_other)
  with False h have e: "e \<in> set (activity_results (ar_history_delta req))"
    and one: "tally (result_of cd) k (map (event_row cd inst (ar_execution_id req)) (ar_history_delta req)) = 1"
    by (auto simp: tally_events [OF cd] honest_request_def count_distinct split: if_splits)
  from e h obtain m where "m \<in> set (oi_messages item)" and m: "message_group m = Some (''activity'', ar_execution_id req, e)"
    by (auto simp: honest_request_def)
  with view have "m \<in> set (read_items cd (marked tok db))" by (simp add: item_view_def)
  then obtain q where q: "q \<in> set (db_orchestrator_queue db)" "oq_lock_token q = Some tok"
    "cd_read_item cd (oq_work_item q) = Inr m"
    by (auto simp: read_items_def marked_def map_filter_def split: sum.splits)
  have "oq_instance q = inst" by (rule marked_instance [OF tok l q(1,2)])
  then have "answer_of cd q = Some k" by (simp add: answer_of_def q(3) m k)
  with q(1,2) have "tally (answer_of cd) k (sql_delete (\<lambda>q. oq_lock_token q = Some tok) (db_orchestrator_queue db))
      < tally (answer_of cd) k (db_orchestrator_queue db)" by (intro tally_delete_one)
  with one show ?thesis by simp
qed

lemma new_work_was_unscheduled:
  assumes h: "honest_request item req" and view: "item_view cd tok item inst db"
    and pk: "distinct (map history_key (db_history db @ map (event_row cd inst (ar_execution_id req)) (ar_history_delta req)))"
    and new: "0 < tally row_key k (worker_rows cd now n (ar_worker_items req))"
  shows "\<not> scheduled k db" and "\<exists>r \<in> set (map (event_row cd inst (ar_execution_id req)) (ar_history_delta req)). history_key r = k"
proof -
  let ?x = "ar_execution_id req"
  from view have "oi_instance item = inst" by (simp add: item_view_def)
  with h new have "0 < tally row_key k (worker_rows cd now n (List.map_filter (work_of_event inst ?x) (ar_history_delta req)))"
    by (auto simp: honest_request_def)
  then obtain ev where ev: "ev \<in> set (ar_history_delta req)" and k: "k = (inst, ?x, ev_event_id ev)"
    by (meson new_work_scheduled)
  have key: "history_key (event_row cd inst ?x ev) = k" by (simp add: history_key_def event_row_def k)
  with ev show "\<exists>r \<in> set (map (event_row cd inst ?x) (ar_history_delta req)). history_key r = k" by auto
  have "history_key ` set (db_history db) \<inter> history_key ` set (map (event_row cd inst ?x) (ar_history_delta req)) = {}"
    using pk by (simp only: map_append distinct_append set_map)
  moreover have "k \<in> history_key ` set (map (event_row cd inst ?x) (ar_history_delta req))" using ev by (force simp flip: key)
  ultimately have "history_key h \<noteq> k" if "h \<in> set (db_history db)" for h
    using that by blast
  moreover have "c \<le> ?x" if "current_of inst db = Some c" for c
    using view h that by (simp add: item_view_def honest_request_def)
  ultimately show "\<not> scheduled k db" by (fastforce simp: scheduled_def k history_key_def)
qed

lemma commit_once:
  assumes cd: "codec_ok cd" and ok: "db_ok db" "tokens_ok db" and op: "op_ok (OP_Ack_Orchestration now chk tok req) db"
    and view: "\<And>inst. (tok, inst) \<in> lock_marks db \<Longrightarrow> item_view cd tok item inst db"
    and h: "honest_request item req" and inv: "once_inv cd db"
  shows "once_inv cd (sql_run cd (OP_Ack_Orchestration now chk tok req) db)"
proof (cases "ack_orchestration_tx cd now chk tok req db")
  case (Inl e)
  with inv show ?thesis by (simp add: ack_orchestration_item_def run_tx_def)
next
  case (Inr udb)
  then obtain u db' where a: "ack_orchestration_tx cd now chk tok req db = Inr (u, db')" by (cases udb) auto
  then have run: "sql_run cd (OP_Ack_Orchestration now chk tok req) db = db'"
    by (simp add: ack_orchestration_item_def run_tx_def)
  from a obtain inst db1 where i: "instance_of_token tok db = Some inst" and w: "ack_writes cd now tok inst req db = Inr db1"
    and db': "db' = release_lock inst tok db1"
    by (auto simp: ack_orchestration_tx_def and_then_def split: option.splits sum.splits if_splits)
  note l = token_lock [OF i]
  note v = view [OF l]
  have "oi_instance item = inst" using v by (simp add: item_view_def)
  let ?x = "ar_execution_id req"
  let ?new = "map (event_row cd inst ?x) (ar_history_delta req)"
  let ?work = "worker_rows cd now (db_next_worker_id db) (ar_worker_items req)"
  have ok': "db_ok db'" using sql_run_ok [OF ok(1) op, of cd] by (simp only: run)
  have hist: "db_history db' = db_history db @ ?new"
    by (simp add: db' release_lock_def ack_writes_tables(3) [OF w])
  from ok' have "distinct (map history_key (db_history db'))" by (simp only: db_ok_defs)
  then have pk: "distinct (map history_key (db_history db @ ?new))" by (simp only: hist)
  have "distinct (map history_key ?new)" using pk by simp
  then have ids: "distinct (map ev_event_id (ar_history_delta req))"
    by (auto simp: distinct_map inj_on_def history_key_def event_row_def)
  have work1: "tally row_key k ?work \<le> 1" for k
    using h \<open>oi_instance item = inst\<close> new_work_once [OF ids, of k cd now _ inst ?x] by (auto simp: honest_request_def)
  have queued: "queued_work k db' \<le> queued_work k db + tally row_key k ?work" for k
    unfolding queued_work_def db' release_lock_def
    by (simp add: ack_writes_tables(4) [OF w] delete_cancelled_def)
      (rule order_trans [OF tally_delete], simp)
  have "pending_answers cd k db' + recorded_results cd k db' \<le> pending_answers cd k db + recorded_results cd k db" for k
    using results_were_waiting [OF cd ok(2) l v h, of k] no_new_answers [OF cd, of "ar_orchestrator_items req" k now "db_next_orch_id db"] h
    by (simp add: pending_answers_def recorded_results_def hist)
      (simp add: db' release_lock_def ack_writes_tables(1) [OF w] honest_request_def)
  with queued have copies: "copies cd k db' \<le> copies cd k db + tally row_key k ?work" for k
    unfolding copies_def by (smt (verit) add.assoc add.commute add_le_mono)
  note unscheduled = new_work_was_unscheduled [OF h v pk]
  have "scheduled k db'" if "scheduled k db" for k
  proof -
    obtain j x e where k: "k = (j, x, e)" by (cases k)
    have "current_grows j db db1" by (rule ack_current_grows [OF w])
    then have "\<exists>c'. current_of j db' = Some c' \<and> c \<le> c'" if "current_of j db = Some c" for c
      using that by (simp add: current_grows_def db' release_lock_def current_of_def find_instance_def)
    with that show ?thesis unfolding scheduled_def k hist by (fastforce dest: less_le_trans)
  qed
  note kept = this
  have "copies cd k db' \<le> 1 \<and> (0 < copies cd k db' \<longrightarrow> scheduled k db')" for k
  proof (cases "tally row_key k ?work = 0")
    case True
    with copies [of k] kept [of k] once_invD [OF inv, of k] show ?thesis by auto
  next
    case False
    with unscheduled(1) [of k] once_invD(2) [OF inv, of k] have "copies cd k db = 0" by auto
    moreover from False unscheduled(2) obtain r where "r \<in> set ?new" "history_key r = k" by blast
    then have "scheduled k db'" unfolding scheduled_def hist by (auto simp: history_key_def split: prod.splits)
    ultimately show ?thesis using copies [of k] work1 [of k] by simp
  qed
  then show ?thesis unfolding run once_inv_def by blast
qed

lemma commit_rows:
  assumes cd: "codec_ok cd" and h: "honest_request item req" and inv: "work_inv cd work db"
  shows "work_inv cd work (sql_run cd (OP_Ack_Orchestration now chk tok req) db)"
proof -
  have "work_inv cd work db'" if a: "ack_orchestration_tx cd now chk tok req db = Inr (u, db')" for u db'
  proof -
    from a obtain inst db1 where w: "ack_writes cd now tok inst req db = Inr db1" and db': "db' = release_lock inst tok db1"
      by (auto simp: ack_orchestration_tx_def and_then_def split: option.splits sum.splits if_splits)
    have new: "\<exists>wi. cd_read_item cd (wq_work_item q) = Inr wi \<and> work_item_key wi = row_key q \<and> row_key q \<noteq> None
        \<and> wq_lock_token q = None"
      if "q \<in> set (worker_rows cd now n (List.map_filter (work_of_event i x) evs))" for q n i x evs
      using that
    proof (induction evs arbitrary: n)
      case (Cons ev evs)
      show ?case
      proof (cases "work_of_event i x ev")
        case None
        with Cons show ?thesis by (simp add: map_filter_simps)
      next
        case (Some w)
        then obtain name input session tag where "w = WI_ActivityExecute i x (ev_event_id ev) name input session tag"
          by (auto simp: work_of_event_def split: event_kind.splits)
        with Cons Some cd show ?thesis by (fastforce simp: map_filter_simps row_key_def worker_row_of_def)
      qed
    qed (simp add: map_filter_simps)
    have "q \<in> set (db_worker_queue db)
        \<or> q \<in> set (worker_rows cd now (db_next_worker_id db) (ar_worker_items req))" if "q \<in> set (db_worker_queue db')" for q
      using that by (auto simp: db' release_lock_def ack_writes_tables(4) [OF w] delete_cancelled_def sql_delete_def)
    note rows = this
    have added: "\<exists>wi. cd_read_item cd (wq_work_item q) = Inr wi \<and> work_item_key wi = row_key q \<and> row_key q \<noteq> None
        \<and> wq_lock_token q = None"
      if "q \<in> set (worker_rows cd now (db_next_worker_id db) (ar_worker_items req))" for q
    proof (cases "ar_worker_items req = []")
      case False
      with h that show ?thesis by (intro new) (simp add: honest_request_def)
    qed (use that in simp)
    show ?thesis unfolding work_inv_def
    proof (intro conjI ballI)
      fix q assume "q \<in> set (db_worker_queue db')"
      with rows added inv show "\<exists>wi. cd_read_item cd (wq_work_item q) = Inr wi \<and> work_item_key wi = row_key q \<and> row_key q \<noteq> None"
        unfolding work_inv_def by blast
    next
      fix tw assume "tw \<in> work"
      then show "case tw of (t, wi) \<Rightarrow> \<forall>q \<in> set (db_worker_queue db'). wq_lock_token q = Some t
          \<longrightarrow> cd_read_item cd (wq_work_item q) = Inr wi"
        using rows added inv unfolding work_inv_def by fastforce
    qed
  qed
  with inv show ?thesis by (auto simp: ack_orchestration_item_def run_tx_def split: sum.splits prod.splits)
qed

subsection \<open>The invariant of the system\<close>

definition sys_inv :: "('d, 'w) codec \<Rightarrow> ('d, 'w) system \<Rightarrow> bool" where
  "sys_inv cd s \<longleftrightarrow> items_inv cd s \<and> work_inv cd (sy_work s) (sy_db s) \<and> once_inv cd (sy_db s)"

lemma system_eta: "\<lparr>sy_db = sy_db s, sy_items = sy_items s, sy_work = sy_work s\<rparr> = s"
  by simp

lemma items_keep:
  assumes "db_ok (sy_db s)" "tokens_ok (sy_db s)" and "items_inv cd s" and "no_fetch op"
  shows "items_inv cd (s\<lparr>sy_db := sql_run cd op (sy_db s), sy_work := w\<rparr>)"
  using items_call [OF assms(1,2), of cd "sy_items s" "sy_work s" op w] assms(3,4)
  by (cases s) (simp del: sql_run.simps)

lemma sys_inv_call:
  assumes ok: "db_ok (sy_db s)" "tokens_ok (sy_db s)" and inv: "sys_inv cd s" and "no_fetch op"
    and "calm cd (sy_db s) (sql_run cd op (sy_db s))" and "rows_kept (sy_db s) (sql_run cd op (sy_db s))"
  shows "sys_inv cd (s\<lparr>sy_db := sql_run cd op (sy_db s)\<rparr>)"
proof -
  have "items_inv cd (s\<lparr>sy_db := sql_run cd op (sy_db s), sy_work := sy_work s\<rparr>)"
    using inv by (intro items_keep ok assms(4)) (simp add: sys_inv_def)
  then have "items_inv cd (s\<lparr>sy_db := sql_run cd op (sy_db s)\<rparr>)" by simp
  moreover have "work_inv cd (sy_work s) (sql_run cd op (sy_db s))"
    using inv by (intro work_inv_kept [OF assms(6)]) (simp add: sys_inv_def)
  moreover have "once_inv cd (sql_run cd op (sy_db s))"
    using inv by (intro once_calm [OF _ assms(5)]) (simp add: sys_inv_def)
  ultimately show ?thesis by (simp add: sys_inv_def del: sql_run.simps)
qed

lemma sys_inv_step:
  assumes cd: "codec_ok cd" and ok: "db_ok (sy_db s)" "tokens_ok (sy_db s)" and inv: "sys_inv cd s"
    and st: "sys_step cd rt s s'"
  shows "sys_inv cd s'"
  using st
proof cases
  case (send wi now delay)
  then show ?thesis
    by (simp only:) (rule sys_inv_call [OF ok inv _ send_calm [OF send(2) cd] send_rows], simp)
next
  case (upkeep op)
  have "no_fetch op" using upkeep(2) by (cases op) simp_all
  with upkeep show ?thesis
    by (simp only:) (rule sys_inv_call [OF ok inv _ upkeep_calm upkeep_rows])
next
  case (answer tok wi c now)
  have "work_inv cd (sy_work s) (sy_db s)" using inv by (simp add: sys_inv_def)
  from answer_calm [OF cd this answer(2,3)] answer show ?thesis
    by (simp only:) (rule sys_inv_call [OF ok inv _ _ answer_rows], simp)
next
  case (commit tok item n ids req now chk)
  let ?op = "OP_Ack_Orchestration now chk tok req"
  have h: "honest_request item req" using commit(3) by (rule submits_honest)
  have "once_inv cd (sql_run cd ?op (sy_db s))"
  proof (rule commit_once [OF cd ok commit(4) _ h])
    show "item_view cd tok item inst (sy_db s)" if "(tok, inst) \<in> lock_marks (sy_db s)" for inst
      using inv commit(2) that by (auto simp: sys_inv_def items_inv_def)
  qed (use inv in \<open>simp add: sys_inv_def\<close>)
  moreover have "work_inv cd (sy_work s) (sql_run cd ?op (sy_db s))"
    using inv by (intro commit_rows [OF cd h]) (simp add: sys_inv_def)
  moreover have "items_inv cd (s\<lparr>sy_db := sql_run cd ?op (sy_db s), sy_work := sy_work s\<rparr>)"
    using inv by (intro items_keep ok) (simp_all add: sys_inv_def)
  ultimately show ?thesis by (simp add: commit(1) sys_inv_def del: sql_run.simps)
next
  case (fetch_item tok now lt flt r db')
  have db': "db' = sql_run cd (OP_Fetch_Orchestration now tok lt flt) (sy_db s)" using fetch_item(4) by simp
  have "items_inv cd \<lparr>sy_db = sy_db s, sy_items = sy_items s, sy_work = sy_work s\<rparr>"
    using inv by (cases s) (simp add: sys_inv_def)
  from items_fetch [OF ok this fetch_item(2,3,4)]
  have "items_inv cd s'" by (cases s) (simp add: fetch_item(1))
  moreover have "rows_kept (sy_db s) db'" unfolding db' by (rule fetch_rows)
  then have "work_inv cd (sy_work s) db'" by (rule work_inv_kept) (use inv in \<open>simp add: sys_inv_def\<close>)
  moreover have "once_inv cd (sy_db s)" using inv by (simp add: sys_inv_def)
  then have "once_inv cd db'" unfolding db' by (rule once_calm [OF _ fetch_calm])
  moreover have "sy_db s' = db'" "sy_work s' = sy_work s" by (simp_all add: fetch_item(1))
  ultimately show ?thesis by (simp add: sys_inv_def)
next
  case (fetch_work tok now lt session flt r db')
  have db': "db' = sql_run cd (OP_Fetch_Work now tok lt session flt) (sy_db s)" using fetch_work(4) by simp
  have "items_inv cd (s\<lparr>sy_db := db', sy_work := w\<rparr>)" for w
    unfolding db' using inv by (intro items_keep ok) (simp_all add: sys_inv_def)
  moreover have "once_inv cd (sy_db s)" using inv by (simp add: sys_inv_def)
  then have "once_inv cd db'" unfolding db' by (rule once_calm [OF _ fetch_work_calm])
  moreover have "work_inv cd (sy_work s) (sy_db s)" using inv by (simp add: sys_inv_def)
  note fetch_work_inv [OF ok(1) fetch_work(2,3) this fetch_work(4)]
  ultimately show ?thesis by (simp add: fetch_work(1) sys_inv_def)
qed

lemma sys_inv_reach:
  assumes cd: "codec_ok cd" and "sys_reach cd rt s"
  shows "sys_inv cd s"
  using assms(2)
proof (induction rule: sys_reach.induct)
  case start
  show ?case
    by (simp add: sys_inv_def system_start_def items_inv_def work_inv_def once_inv_def empty_db_def copies_def
        queued_work_def pending_answers_def recorded_results_def)
next
  case (step s s')
  from reachable_ok [OF sys_store_ok [OF step.hyps(1)]] have "db_ok (sy_db s)" "tokens_ok (sy_db s)" by simp_all
  from sys_inv_step [OF cd this step.IH step.hyps(2)] show ?case .
qed

subsection \<open>A sample run\<close>

text \<open>A client starts an orchestration of one activity; a dispatcher fetches and commits its first turn.\<close>

definition activity_runtime :: "(sem_ver, one_activity) runtime" where
  "activity_runtime =
     \<lparr>rt_orchestration_registry = build (register_orchestration (\<lambda>_. []) (Sem_Ver 1 0 0) ''o'' one_activity_handler builder),
      rt_max_attempts = 10, rt_base_delay = 1000000000, rt_max_delay = 60000000000,
      rt_parse_version = (\<lambda>_. Some (Sem_Ver 0 1 28)), rt_show_version = (\<lambda>_. ''1.0.0''), rt_messages_json = (\<lambda>_. [])\<rparr>"

definition first_item :: orchestration_item where
  "first_item = \<lparr>oi_instance = ''i'', oi_orchestration_name = ''o'', oi_execution_id = 1, oi_version = ''unknown'',
     oi_history = [], oi_messages = [start_item], oi_history_error = None, oi_kv_snapshot = []\<rparr>"

definition first_request :: "sem_ver ack_request" where
  "first_request = \<lparr>ar_execution_id = 1,
     ar_history_delta = [with_event_id 1 ''i'' 1 None (OrchestrationStarted ''o'' ''1.0.0'' ''x'' None None None None),
       with_event_id 2 ''i'' 1 None (CustomStatusUpdated (Some ''s'')),
       with_event_id 3 ''i'' 1 None (ActivityScheduled ''a'' ''x'' None None)],
     ar_worker_items = [WI_ActivityExecute ''i'' 1 3 ''a'' ''x'' None None], ar_orchestrator_items = [],
     ar_metadata = metadata_default\<lparr>em_orchestration_name := Some ''o'', em_orchestration_version := Some ''1.0.0'',
       em_pinned_duroxide_version := Some (Sem_Ver 0 1 28)\<rparr>,
     ar_cancelled_activities = []\<rparr>"

lemma first_turn:
  "map_option (\<lambda>out. (hm_delta (to_history out), to_worker_items out, to_orchestrator_items out, to_cancelled_activities out))
     (run_single_execution_atomic one_activity_handler ''i''
        (hm_append (new_execution_event ''i'' 1 ''1.0.0'' (from_messages [start_item] (from_history []) ''i'')) (from_history []))
        (from_messages [start_item] (from_history []) ''i'') 1 ''1.0.0'' [] Map.empty)
   = Some (ar_history_delta first_request, ar_worker_items first_request, [], [])"
  by code_simp

lemma first_turn_request:
  "hm_delta m = ar_history_delta first_request \<Longrightarrow>
   turn_request (\<lambda>_. Some (Sem_Ver 0 1 28)) ''i'' [] 1 m (ar_worker_items first_request) [] [] = first_request"
  by (simp add: turn_request_def first_request_def validate_limits_def limit_violation_def status_violation_def
      last_custom_status_def tag_violation_def oversized_tag_def kv_value_violation_def oversized_kv_def
      kv_count_violation_def effective_keys_def effective_keys_step_def compute_execution_metadata_def with_event_id_def
      cancel_inflight_def terminal_cancel_reason_def metadata_default_def MAX_CUSTOM_STATUS_BYTES_def MAX_KV_KEYS_def)

lemma first_submitted: "submits activity_runtime first_item 1 Map.empty first_request"
proof -
  let ?reader = "from_messages [start_item] (from_history []) ''i''"
  have "resolve_for_item activity_runtime ?reader = Some (Sem_Ver 1 0 0, one_activity_handler)"
    by (simp add: resolve_for_item_def activity_runtime_def from_messages_def start_item_def separate_messages_def
        resolve_handler_def build_def register_orchestration_def check_duplicate_def insert_handler_def builder_def
        versions_of_def bt_get_def bt_last_def)
  moreover obtain out where run: "run_single_execution_atomic one_activity_handler ''i''
        (hm_append (new_execution_event ''i'' 1 ''1.0.0'' ?reader) (from_history [])) ?reader 1 ''1.0.0'' [] Map.empty = Some out"
    and req: "turn_request (\<lambda>_. Some (Sem_Ver 0 1 28)) ''i'' [] 1
      (to_history out) (to_worker_items out) (to_orchestrator_items out) (to_cancelled_activities out) = first_request"
    using first_turn first_turn_request by (auto simp del: One_nat_def)
  moreover have "hm_is_empty (from_history [])" by (rule empty_manager)
  ultimately have "resolve_and_execute_orchestration_handler activity_runtime ''i'' (from_history []) ?reader 1 [] Map.empty
     = Some (Inr out)"
    by (simp add: resolve_and_execute_orchestration_handler_def Let_def activity_runtime_def del: One_nat_def)
  moreover have "has_orchestration_name ?reader" "\<not> wr_is_continue_as_new ?reader" by code_simp+
  ultimately have "item_request activity_runtime first_item (from_history (oi_history first_item))
       (from_messages (oi_messages first_item) (from_history (oi_history first_item)) (oi_instance first_item)) Map.empty
     = Some (Inr (first_request, to_exec_ids out))"
    using req by (simp add: item_request_def execution_to_use_def first_item_def activity_runtime_def del: One_nat_def)
  then show ?thesis by (rule submits.turn)
qed

definition before_first :: "(event, work_item) db" where
  "before_first = sql_run plain_codec (OP_Enqueue_Orchestrator 3 start_item None) empty_db"

definition after_first :: "(event, work_item) db" where
  "after_first = sql_run plain_codec (OP_Fetch_Orchestration 5 ''t'' 1000000000 None) before_first"

lemma first_fetched:
  "fetch_orchestration_item plain_codec 5 ''t'' 1000000000 None before_first = (Inr (Some (first_item, ''t'', 1)), after_first)"
  "fresh_token ''t'' before_first"
  "op_ok (OP_Ack_Orchestration 9 9 ''t'' first_request) after_first"
  by (simp_all add: before_first_def after_first_def first_item_def first_request_def metadata_default_def start_item_def sql_eval)

lemma first_committed:
  "copies plain_codec (''i'', 1, 3) (sql_run plain_codec (OP_Ack_Orchestration 9 9 ''t'' first_request) after_first) = 1"
  by (simp add: before_first_def after_first_def first_item_def first_request_def metadata_default_def start_item_def
      sql_eval with_event_id_def copies_def queued_work_def pending_answers_def recorded_results_def row_key_def
      answer_of_def result_of_def in_group_def)

text \<open>C2. An activity completes at most once. Clients, orchestration dispatchers and workers share one
  store, take their steps in any order and may crash, retry and repeat themselves; a dispatcher that
  fetched an item may submit any request the dispatcher code can submit for it, a worker any result for the
  item it fetched. In every state they reach, the store holds at most one copy of an activity of an execution: queued for
  a worker, answered and waiting in the orchestrator queue, or recorded in the history. And wherever there
  is one, the event that schedules the activity is stored, or its execution is over.\<close>

theorem activity_completes_at_most_once:
  assumes "codec_ok cd" and "sys_reach cd rt s"
  shows "copies cd (inst, x, i) (sy_db s) \<le> 1
    \<and> (0 < copies cd (inst, x, i) (sy_db s) \<longrightarrow> scheduled (inst, x, i) (sy_db s))"
proof -
  from sys_inv_reach [OF assms] have "once_inv cd (sy_db s)" by (simp add: sys_inv_def)
  from once_invD [OF this] show ?thesis by simp
qed

theorem activity_completes_at_most_once_witness:
  "\<exists>s. sys_reach plain_codec activity_runtime s \<and> copies plain_codec (''i'', 1, 3) (sy_db s) = 1
    \<and> scheduled (''i'', 1, 3) (sy_db s)"
proof -
  let ?s1 = "system_start\<lparr>sy_db := before_first\<rparr>"
  let ?s2 = "?s1\<lparr>sy_db := after_first, sy_items := {(''t'', first_item)}\<rparr>"
  let ?s3 = "?s2\<lparr>sy_db := sql_run plain_codec (OP_Ack_Orchestration 9 9 ''t'' first_request) after_first\<rparr>"
  have "sys_step plain_codec activity_runtime system_start ?s1"
    using sys_step.send [of start_item plain_codec activity_runtime system_start 3 None]
    by (simp add: before_first_def system_start_def start_item_def del: sql_run.simps)
  then have "sys_reach plain_codec activity_runtime ?s1" by (rule sys_reach.step [OF sys_reach.start])
  moreover have "sys_step plain_codec activity_runtime ?s1 ?s2"
    using sys_step.fetch_item [of "''t''" ?s1 plain_codec 5 1000000000 None _ _ activity_runtime] first_fetched(1,2)
    by (simp add: system_start_def)
  ultimately have "sys_reach plain_codec activity_runtime ?s2" by (rule sys_reach.step)
  moreover have "sys_step plain_codec activity_runtime ?s2 ?s3"
    using sys_step.commit [of "''t''" first_item ?s2 activity_runtime 1 Map.empty first_request 9 9 plain_codec]
      first_submitted first_fetched(3)
    by (simp del: sql_run.simps op_ok.simps One_nat_def)
  ultimately have "sys_reach plain_codec activity_runtime ?s3" by (rule sys_reach.step)
  from this activity_completes_at_most_once [OF plain_codec_ok this, of "''i''" 1 3] first_committed show ?thesis
    by (intro exI [of _ ?s3]) simp
qed

end
