(* ===== verification/Client.thy ===== *)
theory Client
  imports Sql_Admin
begin

text \<open>
  The client, \<open>src/src/client/mod.rs\<close>: starting, signalling and cancelling instances, their status, the
  polling waits, key-value reads, and the management calls with their error translation. The
  provider is the parameter \<open>'p client_store\<close>; its state \<open>'p\<close> includes the clock and whatever the
  other parties do while the client sleeps. The typed variants, which only add JSON, are left
  out, and so is the variant behind the feature \<open>replay-version-test\<close>.
\<close>

subsection \<open>The provider as the client sees it\<close>

record 'p management_store =
  ms_list_instances :: "'p \<Rightarrow> (provider_error + string list) \<times> 'p"
  ms_list_instances_by_status :: "string \<Rightarrow> 'p \<Rightarrow> (provider_error + string list) \<times> 'p"
  ms_get_instance_info :: "string \<Rightarrow> 'p \<Rightarrow> (provider_error + instance_info) \<times> 'p"
  ms_get_execution_info :: "string \<Rightarrow> id64 \<Rightarrow> 'p \<Rightarrow> (provider_error + execution_info) \<times> 'p"
  ms_list_executions :: "string \<Rightarrow> 'p \<Rightarrow> (provider_error + id64 list) \<times> 'p"
  ms_read_history_with_execution_id :: "string \<Rightarrow> id64 \<Rightarrow> 'p \<Rightarrow> (provider_error + event list) \<times> 'p"
  ms_get_system_metrics :: "'p \<Rightarrow> (provider_error + system_metrics) \<times> 'p"
  ms_get_queue_depths :: "'p \<Rightarrow> (provider_error + queue_depths) \<times> 'p"
  ms_get_instance_tree :: "string \<Rightarrow> 'p \<Rightarrow> (provider_error + string list) \<times> 'p"
  ms_delete_instance :: "string \<Rightarrow> bool \<Rightarrow> 'p \<Rightarrow> (provider_error + delete_instance_result) \<times> 'p"
  ms_delete_instance_bulk :: "instance_filter \<Rightarrow> 'p \<Rightarrow> (provider_error + delete_instance_result) \<times> 'p"
  ms_prune_executions :: "string \<Rightarrow> prune_options \<Rightarrow> 'p \<Rightarrow> (provider_error + prune_result) \<times> 'p"
  ms_prune_executions_bulk :: "instance_filter \<Rightarrow> prune_options \<Rightarrow> 'p \<Rightarrow> (provider_error + prune_result) \<times> 'p"

record 'p client_store =
  cs_enqueue_for_orchestrator :: "work_item \<Rightarrow> nanos option \<Rightarrow> 'p \<Rightarrow> (provider_error + unit) \<times> 'p"
  cs_read :: "string \<Rightarrow> 'p \<Rightarrow> (provider_error + event list) \<times> 'p"
  cs_get_custom_status :: "string \<Rightarrow> nat \<Rightarrow> 'p \<Rightarrow> (provider_error + (string option \<times> nat) option) \<times> 'p"
  cs_get_kv_value :: "string \<Rightarrow> string \<Rightarrow> 'p \<Rightarrow> (provider_error + string option) \<times> 'p"
  cs_get_kv_all_values :: "string \<Rightarrow> 'p \<Rightarrow> (provider_error + (string \<rightharpoonup> string)) \<times> 'p"
  cs_get_instance_stats :: "string \<Rightarrow> 'p \<Rightarrow> (provider_error + system_stats option) \<times> 'p"
  cs_management :: "'p management_store option"
  cs_now :: "'p \<Rightarrow> nanos \<times> 'p"
  cs_sleep :: "nanos \<Rightarrow> 'p \<Rightarrow> 'p"

subsection \<open>Errors\<close>

datatype client_error =
    CE_Provider provider_error
  | CE_ManagementNotAvailable
  | CE_InvalidInput string
  | CE_Timeout
  | CE_InstanceStillRunning string
  | CE_CannotDeleteSubOrchestration string
  | CE_InstanceNotFound string

fun client_is_retryable :: "client_error \<Rightarrow> bool" where
  "client_is_retryable (CE_Provider e) = pe_retryable e"
| "client_is_retryable CE_Timeout = True"
| "client_is_retryable _ = False"

text \<open>\<open>Display\<close> of a provider error and of a client error.\<close>

definition provider_error_text :: "provider_error \<Rightarrow> string" where
  "provider_error_text e = pe_operation e @ '': '' @ pe_message e"

fun client_error_text :: "client_error \<Rightarrow> string" where
  "client_error_text (CE_Provider e) = provider_error_text e"
| "client_error_text CE_ManagementNotAvailable =
     ''Management features not available - provider doesn'' @ [CHR 0x27] @ ''t implement ProviderAdmin''"
| "client_error_text (CE_InvalidInput message) = ''Invalid input: '' @ message"
| "client_error_text CE_Timeout = ''Operation timed out''"
| "client_error_text (CE_InstanceStillRunning inst) =
     ''Instance '' @ inst @ '' is still running. Use force=true or cancel first.''"
| "client_error_text (CE_CannotDeleteSubOrchestration inst) =
     ''Cannot delete sub-orchestration '' @ inst @ '' directly. Delete the root orchestration instead.''"
| "client_error_text (CE_InstanceNotFound inst) = ''Instance '' @ inst @ '' not found''"

text \<open>\<open>map_err(ClientError::from)\<close>.\<close>

definition from_provider :: "(provider_error + 'a) \<times> 'p \<Rightarrow> (client_error + 'a) \<times> 'p" where
  "from_provider = (\<lambda>(r, p). (map_sum CE_Provider (\<lambda>x. x) r, p))"

subsection \<open>Messages to instances\<close>

definition send_item :: "'p client_store \<Rightarrow> work_item \<Rightarrow> 'p \<Rightarrow> (client_error + unit) \<times> 'p" where
  "send_item cs item p = from_provider (cs_enqueue_for_orchestrator cs item None p)"

definition start_orchestration ::
    "'p client_store \<Rightarrow> string \<Rightarrow> string \<Rightarrow> string \<Rightarrow> 'p \<Rightarrow> (client_error + unit) \<times> 'p" where
  "start_orchestration cs inst orchestration input =
     send_item cs (WI_StartOrchestration inst orchestration input None None None INITIAL_EXECUTION_ID)"

definition start_orchestration_versioned ::
    "'p client_store \<Rightarrow> string \<Rightarrow> string \<Rightarrow> string \<Rightarrow> string \<Rightarrow> 'p \<Rightarrow> (client_error + unit) \<times> 'p" where
  "start_orchestration_versioned cs inst orchestration version input =
     send_item cs (WI_StartOrchestration inst orchestration input (Some version) None None INITIAL_EXECUTION_ID)"

definition raise_event ::
    "'p client_store \<Rightarrow> string \<Rightarrow> string \<Rightarrow> string \<Rightarrow> 'p \<Rightarrow> (client_error + unit) \<times> 'p" where
  "raise_event cs inst event_name event_data = send_item cs (WI_ExternalRaised inst event_name event_data)"

definition enqueue_event ::
    "'p client_store \<Rightarrow> string \<Rightarrow> string \<Rightarrow> string \<Rightarrow> 'p \<Rightarrow> (client_error + unit) \<times> 'p" where
  "enqueue_event cs inst queue event_data = send_item cs (WI_QueueMessage inst queue event_data)"

definition raise_event_persistent ::
    "'p client_store \<Rightarrow> string \<Rightarrow> string \<Rightarrow> string \<Rightarrow> 'p \<Rightarrow> (client_error + unit) \<times> 'p" where
  "raise_event_persistent = enqueue_event"

definition cancel_instance :: "'p client_store \<Rightarrow> string \<Rightarrow> string \<Rightarrow> 'p \<Rightarrow> (client_error + unit) \<times> 'p" where
  "cancel_instance cs inst reason = send_item cs (WI_CancelInstance inst reason)"

subsection \<open>Status\<close>

datatype orchestration_status =
    OS_NotFound
  | OS_Running "string option" nat
  | OS_Completed string "string option" nat
  | OS_Failed error_details "string option" nat

definition is_terminal_status :: "orchestration_status \<Rightarrow> bool" where
  "is_terminal_status s = (case s of OS_Completed _ _ _ \<Rightarrow> True | OS_Failed _ _ _ \<Rightarrow> True | _ \<Rightarrow> False)"

text \<open>The last completion or failure in the history decides, then whether it was ever started.\<close>

definition status_of :: "event list \<Rightarrow> string option \<Rightarrow> nat \<Rightarrow> orchestration_status" where
  "status_of hist custom_status version =
     (case find_map (\<lambda>e. case ev_kind e of
               OrchestrationCompleted output \<Rightarrow> Some (OS_Completed output custom_status version)
             | OrchestrationFailed details \<Rightarrow> Some (OS_Failed details custom_status version)
             | _ \<Rightarrow> None) (rev hist) of
        Some s \<Rightarrow> s
      | None \<Rightarrow> if list_ex (\<lambda>e. is_started (ev_kind e)) hist then OS_Running custom_status version
                else OS_NotFound)"

definition get_orchestration_status ::
    "'p client_store \<Rightarrow> string \<Rightarrow> 'p \<Rightarrow> (client_error + orchestration_status) \<times> 'p" where
  "get_orchestration_status cs inst p =
     (case cs_read cs inst p of
        (Inl e, p1) \<Rightarrow> (Inl (CE_Provider e), p1)
      | (Inr hist, p1) \<Rightarrow>
          (let (r, p2) = cs_get_custom_status cs inst 0 p1;
               (custom_status, version) = (case r of Inr (Some (s, v)) \<Rightarrow> (s, v) | _ \<Rightarrow> (None, 0))
           in (Inr (status_of hist custom_status version), p2)))"

subsection \<open>Waiting\<close>

definition INITIAL_POLL_DELAY_MS :: nat where "INITIAL_POLL_DELAY_MS = 5"
definition MAX_POLL_DELAY_MS :: nat where "MAX_POLL_DELAY_MS = 100"
definition POLL_DELAY_MULTIPLIER :: nat where "POLL_DELAY_MULTIPLIER = 2"

definition next_delay :: "nat \<Rightarrow> nat" where
  "next_delay delay_ms = min (min u64_max (delay_ms * POLL_DELAY_MULTIPLIER)) MAX_POLL_DELAY_MS"

text \<open>
  The \<open>while\<close> loops; a value \<open>None\<close> would mean that the loop does not end. \<open>poll\<close> is one look at
  the store: a result ends the wait, \<open>None\<close> goes on.
\<close>

partial_function (option) wait_loop ::
    "'p client_store \<Rightarrow> ('p \<Rightarrow> (client_error + 'a option) \<times> 'p) \<Rightarrow> nanos \<Rightarrow> nat \<Rightarrow> 'p
       \<Rightarrow> ((client_error + 'a) \<times> 'p) option" where
  "wait_loop cs poll deadline delay_ms p =
     (let (now, p1) = cs_now cs p
      in if \<not> now < deadline then Some (Inl CE_Timeout, p1)
         else let (r, p2) = poll p1
              in case r of
                   Inl e \<Rightarrow> Some (Inl e, p2)
                 | Inr (Some x) \<Rightarrow> Some (Inr x, p2)
                 | Inr None \<Rightarrow> wait_loop cs poll deadline (next_delay delay_ms)
                                 (cs_sleep cs (delay_ms * 1000000) p2))"

text \<open>The quick look before the loop.\<close>

definition wait_for ::
    "'p client_store \<Rightarrow> ('p \<Rightarrow> (client_error + 'a option) \<times> 'p) \<Rightarrow> nanos \<Rightarrow> 'p
       \<Rightarrow> ((client_error + 'a) \<times> 'p) option" where
  "wait_for cs poll timeout p =
     (let (now, p1) = cs_now cs p; deadline = now + timeout; (r, p2) = poll p1
      in case r of
           Inl e \<Rightarrow> Some (Inl e, p2)
         | Inr (Some x) \<Rightarrow> Some (Inr x, p2)
         | Inr None \<Rightarrow> wait_loop cs poll deadline INITIAL_POLL_DELAY_MS p2)"

definition poll_terminal ::
    "'p client_store \<Rightarrow> string \<Rightarrow> 'p \<Rightarrow> (client_error + orchestration_status option) \<times> 'p" where
  "poll_terminal cs inst p =
     (let (r, p1) = get_orchestration_status cs inst p
      in (map_sum (\<lambda>e. e) (\<lambda>s. if is_terminal_status s then Some s else None) r, p1))"

definition wait_for_orchestration ::
    "'p client_store \<Rightarrow> string \<Rightarrow> nanos \<Rightarrow> 'p \<Rightarrow> ((client_error + orchestration_status) \<times> 'p) option" where
  "wait_for_orchestration cs inst timeout = wait_for cs (poll_terminal cs inst) timeout"

text \<open>The loop of \<open>wait_for_status_change\<close>: a newer custom status, or a terminal state.\<close>

partial_function (option) status_change_loop ::
    "'p client_store \<Rightarrow> string \<Rightarrow> nat \<Rightarrow> nanos \<Rightarrow> nanos \<Rightarrow> 'p
       \<Rightarrow> ((client_error + orchestration_status) \<times> 'p) option" where
  "status_change_loop cs inst last_seen_version poll_interval deadline p =
     (let (now, p1) = cs_now cs p
      in if \<not> now < deadline then Some (Inl CE_Timeout, p1)
         else let (r, p2) = cs_get_custom_status cs inst last_seen_version p1
              in case r of
                   Inl e \<Rightarrow> Some (Inl (CE_Provider e), p2)
                 | Inr (Some _) \<Rightarrow> Some (get_orchestration_status cs inst p2)
                 | Inr None \<Rightarrow>
                     (let (s, p3) = get_orchestration_status cs inst p2
                      in case s of
                           Inl e \<Rightarrow> Some (Inl e, p3)
                         | Inr st \<Rightarrow>
                             if is_terminal_status st then Some (Inr st, p3)
                             else let (now', p4) = cs_now cs p3
                                  in status_change_loop cs inst last_seen_version poll_interval deadline
                                       (cs_sleep cs (min poll_interval (deadline - now')) p4)))"

definition wait_for_status_change ::
    "'p client_store \<Rightarrow> string \<Rightarrow> nat \<Rightarrow> nanos \<Rightarrow> nanos \<Rightarrow> 'p
       \<Rightarrow> ((client_error + orchestration_status) \<times> 'p) option" where
  "wait_for_status_change cs inst last_seen_version poll_interval timeout p =
     (let (now, p1) = cs_now cs p
      in status_change_loop cs inst last_seen_version poll_interval (now + timeout) p1)"

subsection \<open>Key-value store and statistics\<close>

definition client_get_kv_value ::
    "'p client_store \<Rightarrow> string \<Rightarrow> string \<Rightarrow> 'p \<Rightarrow> (client_error + string option) \<times> 'p" where
  "client_get_kv_value cs inst key p = from_provider (cs_get_kv_value cs inst key p)"

definition client_get_kv_all_values ::
    "'p client_store \<Rightarrow> string \<Rightarrow> 'p \<Rightarrow> (client_error + (string \<rightharpoonup> string)) \<times> 'p" where
  "client_get_kv_all_values cs inst p = from_provider (cs_get_kv_all_values cs inst p)"

definition wait_for_kv_value ::
    "'p client_store \<Rightarrow> string \<Rightarrow> string \<Rightarrow> nanos \<Rightarrow> 'p \<Rightarrow> ((client_error + string) \<times> 'p) option" where
  "wait_for_kv_value cs inst key timeout = wait_for cs (client_get_kv_value cs inst key) timeout"

definition get_orchestration_stats ::
    "'p client_store \<Rightarrow> string \<Rightarrow> 'p \<Rightarrow> (client_error + system_stats option) \<times> 'p" where
  "get_orchestration_stats cs inst p = from_provider (cs_get_instance_stats cs inst p)"

subsection \<open>Management\<close>

definition has_management_capability :: "'p client_store \<Rightarrow> bool" where
  "has_management_capability cs \<longleftrightarrow> cs_management cs \<noteq> None"

text \<open>\<open>discover_management()?\<close> before a call.\<close>

definition with_management ::
    "'p client_store \<Rightarrow> ('p management_store \<Rightarrow> 'p \<Rightarrow> (client_error + 'a) \<times> 'p) \<Rightarrow> 'p \<Rightarrow> (client_error + 'a) \<times> 'p" where
  "with_management cs call p =
     (case cs_management cs of None \<Rightarrow> (Inl CE_ManagementNotAvailable, p) | Some m \<Rightarrow> call m p)"

definition list_all_instances :: "'p client_store \<Rightarrow> 'p \<Rightarrow> (client_error + string list) \<times> 'p" where
  "list_all_instances cs = with_management cs (\<lambda>m p. from_provider (ms_list_instances m p))"

definition client_list_instances_by_status ::
    "'p client_store \<Rightarrow> string \<Rightarrow> 'p \<Rightarrow> (client_error + string list) \<times> 'p" where
  "client_list_instances_by_status cs status =
     with_management cs (\<lambda>m p. from_provider (ms_list_instances_by_status m status p))"

definition client_get_instance_info ::
    "'p client_store \<Rightarrow> string \<Rightarrow> 'p \<Rightarrow> (client_error + instance_info) \<times> 'p" where
  "client_get_instance_info cs inst = with_management cs (\<lambda>m p. from_provider (ms_get_instance_info m inst p))"

definition client_get_execution_info ::
    "'p client_store \<Rightarrow> string \<Rightarrow> id64 \<Rightarrow> 'p \<Rightarrow> (client_error + execution_info) \<times> 'p" where
  "client_get_execution_info cs inst execution_id =
     with_management cs (\<lambda>m p. from_provider (ms_get_execution_info m inst execution_id p))"

definition client_list_executions :: "'p client_store \<Rightarrow> string \<Rightarrow> 'p \<Rightarrow> (client_error + id64 list) \<times> 'p" where
  "client_list_executions cs inst = with_management cs (\<lambda>m p. from_provider (ms_list_executions m inst p))"

definition read_execution_history ::
    "'p client_store \<Rightarrow> string \<Rightarrow> id64 \<Rightarrow> 'p \<Rightarrow> (client_error + event list) \<times> 'p" where
  "read_execution_history cs inst execution_id =
     with_management cs (\<lambda>m p. from_provider (ms_read_history_with_execution_id m inst execution_id p))"

definition client_get_system_metrics :: "'p client_store \<Rightarrow> 'p \<Rightarrow> (client_error + system_metrics) \<times> 'p" where
  "client_get_system_metrics cs = with_management cs (\<lambda>m p. from_provider (ms_get_system_metrics m p))"

definition client_get_queue_depths :: "'p client_store \<Rightarrow> 'p \<Rightarrow> (client_error + queue_depths) \<times> 'p" where
  "client_get_queue_depths cs = with_management cs (\<lambda>m p. from_provider (ms_get_queue_depths m p))"

definition client_get_instance_tree ::
    "'p client_store \<Rightarrow> string \<Rightarrow> 'p \<Rightarrow> (client_error + string list) \<times> 'p" where
  "client_get_instance_tree cs inst = with_management cs (\<lambda>m p. from_provider (ms_get_instance_tree m inst p))"

text \<open>
  \<open>to_lowercase\<close> on the bytes of a string. A letter that is not ASCII is left alone: none of them
  becomes one of the phrases below, or a part of one that matters.
\<close>

definition lower_char :: "char \<Rightarrow> char" where
  "lower_char c = (if 65 \<le> (of_char c :: nat) \<and> (of_char c :: nat) \<le> 90 then char_of ((of_char c :: nat) + 32) else c)"

definition to_lowercase :: "string \<Rightarrow> string" where
  "to_lowercase s = map lower_char s"

definition translate_delete_error :: "provider_error \<Rightarrow> string \<Rightarrow> client_error" where
  "translate_delete_error e inst =
     (let msg = to_lowercase (provider_error_text e)
      in if contains_str msg ''not found'' then CE_InstanceNotFound inst
         else if contains_str msg ''still running'' then CE_InstanceStillRunning inst
         else if contains_str msg ''sub-orchestration'' \<or> contains_str msg ''delete the root''
         then CE_CannotDeleteSubOrchestration inst
         else CE_Provider e)"

definition client_delete_instance ::
    "'p client_store \<Rightarrow> string \<Rightarrow> bool \<Rightarrow> 'p \<Rightarrow> (client_error + delete_instance_result) \<times> 'p" where
  "client_delete_instance cs inst force = with_management cs (\<lambda>m p.
     let (r, p') = ms_delete_instance m inst force p
     in (map_sum (\<lambda>e. translate_delete_error e inst) (\<lambda>x. x) r, p'))"

definition client_delete_instance_bulk ::
    "'p client_store \<Rightarrow> instance_filter \<Rightarrow> 'p \<Rightarrow> (client_error + delete_instance_result) \<times> 'p" where
  "client_delete_instance_bulk cs flt = with_management cs (\<lambda>m p. from_provider (ms_delete_instance_bulk m flt p))"

definition client_prune_executions ::
    "'p client_store \<Rightarrow> string \<Rightarrow> prune_options \<Rightarrow> 'p \<Rightarrow> (client_error + prune_result) \<times> 'p" where
  "client_prune_executions cs inst options =
     with_management cs (\<lambda>m p. from_provider (ms_prune_executions m inst options p))"

definition client_prune_executions_bulk ::
    "'p client_store \<Rightarrow> instance_filter \<Rightarrow> prune_options \<Rightarrow> 'p \<Rightarrow> (client_error + prune_result) \<times> 'p" where
  "client_prune_executions_bulk cs flt options =
     with_management cs (\<lambda>m p. from_provider (ms_prune_executions_bulk m flt options p))"

end
