(* ===== verification/Client_Props.thy ===== *)
theory Client_Props
  imports Client Sql_Provider
begin

text \<open>
  Properties of the client on the SQLite provider: waits end, with a terminal status or with the timeout
  or an error; the status is what the last turn committed; and the translation of deletion errors
  goes by the text of the message, instance name included.
\<close>

subsection \<open>Waits end\<close>

text \<open>
  The interface of a wait: \<open>time\<close> is the true time, which never goes back; \<open>cs_now\<close> reads it, and a
  sleep takes at least as long as asked for.
\<close>

locale waiting =
  fixes cs :: "'p client_store" and time :: "'p \<Rightarrow> nanos"
  assumes now: "cs_now cs p = (t, p') \<Longrightarrow> t = time p \<and> time p \<le> time p'"
    and sleep: "time p + d \<le> time (cs_sleep cs d p)"
    and read: "time p \<le> time (snd (cs_read cs inst p))"
    and custom_status: "time p \<le> time (snd (cs_get_custom_status cs inst v p))"
    and kv_value: "time p \<le> time (snd (cs_get_kv_value cs inst key p))"
begin

lemma status_time: "time p \<le> time (snd (get_orchestration_status cs inst p))"
proof -
  obtain r p1 where r: "cs_read cs inst p = (r, p1)" by force
  have 1: "time p \<le> time p1" using read [of p inst] r by simp
  have 2: "time p1 \<le> time (snd (cs_get_custom_status cs inst 0 p1))" by (rule custom_status)
  from 1 2 show ?thesis
    by (cases r) (auto simp: get_orchestration_status_def r case_prod_unfold Let_def)
qed

lemma poll_terminal_time: "time p \<le> time (snd (poll_terminal cs inst p))"
  using status_time [of p inst] by (simp add: poll_terminal_def case_prod_unfold Let_def)

lemma poll_kv_time: "time p \<le> time (snd (client_get_kv_value cs inst key p))"
  using kv_value [of p inst key] by (simp add: client_get_kv_value_def from_provider_def case_prod_unfold)

text \<open>How a wait ends: with the result or the error of its last look, or with the timeout, never early.\<close>

definition ended :: "('p \<Rightarrow> (client_error + 'a option) \<times> 'p) \<Rightarrow> nanos \<Rightarrow> (client_error + 'a) \<times> 'p \<Rightarrow> bool" where
  "ended poll deadline = (\<lambda>(r, p'). (case r of
       Inr x \<Rightarrow> \<exists>q. poll q = (Inr (Some x), p')
     | Inl e \<Rightarrow> (e = CE_Timeout \<and> deadline \<le> time p') \<or> (\<exists>q. poll q = (Inl e, p'))))"

lemma wait_loop_ends:
  assumes poll: "\<And>p. time p \<le> time (snd (poll p))" and "0 < delay_ms"
  shows "\<exists>res. wait_loop cs poll deadline delay_ms p = Some res \<and> ended poll deadline res"
  using assms(2)
proof (induction "deadline - time p" arbitrary: p delay_ms rule: less_induct)
  case less
  obtain t p1 where n: "cs_now cs p = (t, p1)" by force
  obtain r p2 where q: "poll p1 = (r, p2)" by force
  show ?case
  proof (cases "t < deadline \<and> r = Inr None")
    case False
    have "\<exists>p. poll p = (r, p2)" using q by blast
    with False now [OF n] show ?thesis
      by (subst wait_loop.simps, cases r) (auto simp: n q ended_def split: option.split)
  next
    case True
    let ?p = "cs_sleep cs (delay_ms * 1000000) p2"
    have "time p < time ?p"
      using now [OF n] poll [of p1] q sleep [of p2 "delay_ms * 1000000"] less.prems by simp
    then have "deadline - time ?p < deadline - time p" using True now [OF n] by (simp add: diff_less_mono2)
    moreover have "0 < next_delay delay_ms"
      using less.prems by (simp add: next_delay_def POLL_DELAY_MULTIPLIER_def MAX_POLL_DELAY_MS_def u64_max_def)
    ultimately have "\<exists>res. wait_loop cs poll deadline (next_delay delay_ms) ?p = Some res \<and> ended poll deadline res"
      by (rule less.hyps)
    then show ?thesis using True by (subst wait_loop.simps) (simp add: n q)
  qed
qed

lemma wait_for_ends:
  assumes "\<And>p. time p \<le> time (snd (poll p))"
  shows "\<exists>res. wait_for cs poll timeout p = Some res \<and> ended poll (time p + timeout) res"
proof -
  obtain t p1 where n: "cs_now cs p = (t, p1)" by force
  obtain r p2 where q: "poll p1 = (r, p2)" by force
  show ?thesis
  proof (cases "r = Inr None")
    case True
    then show ?thesis
      using wait_loop_ends [OF assms, of INITIAL_POLL_DELAY_MS "t + timeout" p2] now [OF n]
      by (simp add: wait_for_def n q INITIAL_POLL_DELAY_MS_def)
  next
    case False
    have "\<exists>p. poll p = (r, p2)" using q by blast
    with False show ?thesis by (cases r) (auto simp: wait_for_def n q ended_def split: option.split)
  qed
qed

lemma orchestration_wait_ends:
  "\<exists>r p'. wait_for_orchestration cs inst timeout p = Some (r, p')
     \<and> (case r of
          Inr s \<Rightarrow> is_terminal_status s \<and> (\<exists>q. get_orchestration_status cs inst q = (Inr s, p'))
        | Inl e \<Rightarrow> (e = CE_Timeout \<and> time p + timeout \<le> time p')
            \<or> (\<exists>q. get_orchestration_status cs inst q = (Inl e, p')))"
proof -
  obtain r p' where w: "wait_for_orchestration cs inst timeout p = Some (r, p')"
    and e: "ended (poll_terminal cs inst) (time p + timeout) (r, p')"
    using wait_for_ends [of "poll_terminal cs inst" timeout p, OF poll_terminal_time] by (auto simp: wait_for_orchestration_def)
  have err: "\<exists>q. get_orchestration_status cs inst q = (Inl x, p'')"
    if "\<exists>q. poll_terminal cs inst q = (Inl x, p'')" for x p''
  proof -
    from that obtain q where q: "poll_terminal cs inst q = (Inl x, p'')" by blast
    obtain z q' where z: "get_orchestration_status cs inst q = (z, q')" by force
    from q z show ?thesis by (cases z) (auto simp: poll_terminal_def)
  qed
  have val: "is_terminal_status x \<and> (\<exists>q. get_orchestration_status cs inst q = (Inr x, p''))"
    if "\<exists>q. poll_terminal cs inst q = (Inr (Some x), p'')" for x p''
  proof -
    from that obtain q where q: "poll_terminal cs inst q = (Inr (Some x), p'')" by blast
    obtain z q' where z: "get_orchestration_status cs inst q = (z, q')" by force
    from q z show ?thesis by (cases z) (auto simp: poll_terminal_def split: if_splits)
  qed
  show ?thesis
  proof (intro exI conjI, rule w)
    show "case r of Inl e \<Rightarrow> e = CE_Timeout \<and> time p + timeout \<le> time p'
            \<or> (\<exists>q. get_orchestration_status cs inst q = (Inl e, p'))
        | Inr s \<Rightarrow> is_terminal_status s \<and> (\<exists>q. get_orchestration_status cs inst q = (Inr s, p'))"
      using e err val by (cases r) (auto simp: ended_def)
  qed
qed

end

subsection \<open>The client on the SQLite provider\<close>

text \<open>
  \<open>others\<close> is what the other parties do to the store while the client sleeps. The clock is the one of
  the environment, which a sleep moves on. The walk through the instance tree has the value \<open>None\<close> only if it
  does not end, which does not happen on a reachable store (\<open>instance_tree_complete\<close>); the totalised results
  for that case are never used.
\<close>

definition env_read :: "string \<Rightarrow> (('d, 'w) db \<Rightarrow> provider_error + 'r) \<Rightarrow> ('d, 'w) sqlite_env
    \<Rightarrow> (provider_error + 'r) \<times> ('d, 'w) sqlite_env" where
  "env_read operation f = with_fault operation (\<lambda>env. (f (en_db env), env))"

definition tree_result :: "string list option \<Rightarrow> provider_error + string list" where
  "tree_result t = (case t of Some ids \<Rightarrow> Inr ids | None \<Rightarrow> Inr [])"

definition sqlite_management :: "('d, 'w) codec \<Rightarrow> ('d, 'w) sqlite_env management_store" where
  "sqlite_management cd =
     \<lparr>ms_list_instances = env_read ''latest_execution_id'' (\<lambda>db. Inr (list_instances db)),
      ms_list_instances_by_status = (\<lambda>s. env_read ''list_instances_by_status'' (\<lambda>db. Inr (list_instances_by_status s db))),
      ms_get_instance_info = (\<lambda>inst. env_read ''get_instance_info'' (get_instance_info inst)),
      ms_get_execution_info = (\<lambda>inst ex. env_read ''get_execution_info'' (get_execution_info inst ex)),
      ms_list_executions = (\<lambda>inst. env_read ''list_executions'' (\<lambda>db. Inr (list_executions inst db))),
      ms_read_history_with_execution_id = (\<lambda>inst ex.
        env_read ''read_history_with_execution_id'' (read_history_with_execution_id cd inst ex)),
      ms_get_system_metrics = env_read ''get_system_metrics'' (\<lambda>db. Inr (get_system_metrics db)),
      ms_get_queue_depths = env_read ''get_queue_depths'' (\<lambda>db. Inr (get_queue_depths db)),
      ms_get_instance_tree = (\<lambda>inst. env_read ''list_children'' (\<lambda>db. tree_result (get_instance_tree inst db))),
      ms_delete_instance = (\<lambda>inst force. with_fault ''delete_instances_atomic'' (on_db (\<lambda>db.
        case delete_instance inst force db of Some (r, db') \<Rightarrow> (r, db') | None \<Rightarrow> (Inr delete_result_default, db)))),
      ms_delete_instance_bulk = (\<lambda>flt. with_fault ''delete_instances_atomic'' (on_db (\<lambda>db.
        case delete_instance_bulk flt db of Some (r, db') \<Rightarrow> (r, db') | None \<Rightarrow> (Inr delete_result_default, db)))),
      ms_prune_executions = (\<lambda>inst options. with_fault ''prune_executions'' (on_db (prune_executions inst options))),
      ms_prune_executions_bulk = (\<lambda>flt options.
        with_fault ''prune_executions'' (on_db (prune_executions_bulk flt options)))\<rparr>"

definition sqlite_client ::
    "('d, 'w) codec \<Rightarrow> (('d, 'w) db \<Rightarrow> ('d, 'w) db) \<Rightarrow> ('d, 'w) sqlite_env client_store" where
  "sqlite_client cd others =
     \<lparr>cs_enqueue_for_orchestrator = (\<lambda>item delay. env_at_now ''enqueue_orchestrator_work''
        (\<lambda>now. enqueue_for_orchestrator cd now item delay)),
      cs_read = (\<lambda>inst. env_read ''read'' (read cd inst)),
      cs_get_custom_status = (\<lambda>inst v. env_read ''get_custom_status'' (\<lambda>db. Inr (get_custom_status inst v db))),
      cs_get_kv_value = (\<lambda>inst key. env_read ''get_kv_value'' (\<lambda>db. Inr (provider_get_kv_value inst key db))),
      cs_get_kv_all_values = (\<lambda>inst. env_read ''get_kv_all_values'' (\<lambda>db. Inr (provider_get_kv_all_values inst db))),
      cs_get_instance_stats = (\<lambda>inst. env_read ''get_instance_stats'' (get_instance_stats cd inst)),
      cs_management = Some (sqlite_management cd),
      cs_now = (\<lambda>env. (en_now env, env)),
      cs_sleep = (\<lambda>d env. env\<lparr>en_now := en_now env + d, en_db := others (en_db env)\<rparr>)\<rparr>"

lemma env_read_now [simp]: "en_now (snd (env_read operation f env)) = en_now env"
  by (simp add: env_read_def with_fault_def split: list.split option.split)

interpretation client: waiting "sqlite_client cd others" en_now for cd others
  by unfold_locales (simp_all add: sqlite_client_def)


subsection \<open>What the client sees of a commit\<close>

lemma update_key_image: "(\<And>r. P r \<Longrightarrow> key (f r) = key r) \<Longrightarrow> key ` set (sql_update P f t) = key ` set t"
  by (metis list.set_map map_sql_update_key)

lemma ack_execution_keys:
  assumes "ack_writes cd now tok inst req db = Inr db'"
  shows "execution_key ` set (db_executions db')
    = insert (inst, ar_execution_id req) (execution_key ` set (db_executions db))"
proof -
  let ?ex = "ar_execution_id req" and ?md = "ar_metadata req"
  from assms obtain db1 db2 where
    1: "ack_instance_row now inst ?ex ?md (delete_fetched tok db) = Inr db1" and
    2: "ack_history cd inst ?ex (ar_history_delta req) (ack_execution_row inst ?ex ?md db1) = Inr db2" and
    3: "db' = fold (ack_enqueue_orchestrator cd now) (ar_orchestrator_items req)
       (delete_cancelled (ar_cancelled_activities req)
         (fold (insert_worker_row cd now) (ar_worker_items req)
           (ack_kv now inst (ar_history_delta req) ?md
             (ack_custom_status inst (ar_history_delta req) (ack_status now inst ?ex ?md db2)))))"
    by (rule ack_writes_parts)
  have "db_executions db1 = db_executions db"
    using 1 by (auto simp: ack_instance_row_def delete_fetched_def Let_def split: option.splits if_splits)
  moreover have "execution_key ` set (db_executions (ack_execution_row inst ?ex ?md db1))
      = insert (inst, ?ex) (execution_key ` set (db_executions db1))"
    by (auto simp: ack_execution_row_def Let_def update_key_image execution_key_def sql_insert_ignore_def
        split: option.split)
  moreover have "db_executions db2 = db_executions (ack_execution_row inst ?ex ?md db1)"
    using 2 by (auto simp: ack_history_def append_history_in_tx_def and_then_def split: if_splits sum.splits)
  moreover have "execution_key ` set (db_executions db') = execution_key ` set (db_executions db2)"
    unfolding 3
    by (auto simp: frames ack_kv_def merge_kv_def Let_def ack_custom_status_def ack_status_def update_key_image
        execution_key_def split: option.split)
  ultimately show ?thesis by simp
qed

lemma ack_newest_execution:
  assumes "ack_writes cd now tok inst req db = Inr db1" and "db_executions db' = db_executions db1"
    and "max_execution_id inst db \<le> ar_execution_id req"
  shows "max_execution_id inst db' = ar_execution_id req"
proof -
  have ids: "set (map ex_execution_id (filter (\<lambda>r. ex_instance r = inst) (db_executions d)))
      = {x. (inst, x) \<in> execution_key ` set (db_executions d)}" for d :: "('a, 'b) db"
    by (auto simp: execution_key_def)
  have new: "set (map ex_execution_id (filter (\<lambda>r. ex_instance r = inst) (db_executions db')))
      = insert (ar_execution_id req) (set (map ex_execution_id (filter (\<lambda>r. ex_instance r = inst) (db_executions db))))"
    unfolding ids assms(2) ack_execution_keys [OF assms(1)] by auto
  have "x \<le> ar_execution_id req"
    if "x \<in> set (map ex_execution_id (filter (\<lambda>r. ex_instance r = inst) (db_executions db)))" for x
  proof -
    have "map ex_execution_id (filter (\<lambda>r. ex_instance r = inst) (db_executions db)) \<noteq> []" using that by (metis empty_iff list.set(1))
    then have "Max (set (map ex_execution_id (filter (\<lambda>r. ex_instance r = inst) (db_executions db)))) \<le> ar_execution_id req"
      using assms(3) unfolding max_execution_id_def Let_def by (simp only: if_False)
    with Max_ge [OF finite_set that] show ?thesis by (rule order_trans)
  qed
  then have "Max (insert (ar_execution_id req)
      (set (map ex_execution_id (filter (\<lambda>r. ex_instance r = inst) (db_executions db))))) = ar_execution_id req"
    by (intro Max_eqI) auto
  moreover have "map ex_execution_id (filter (\<lambda>r. ex_instance r = inst) (db_executions db')) \<noteq> []"
    using new by (metis insert_not_empty list.set(1))
  ultimately show ?thesis unfolding max_execution_id_def Let_def by (simp only: if_False new)
qed

lemma status_of_completed:
  assumes "ev_kind ev = OrchestrationCompleted output"
    and "list_all (\<lambda>e. \<not> is_completed_or_failed (ev_kind e)) after"
  shows "status_of (before @ ev # after) cs v = OS_Completed output cs v"
proof -
  have "find_map (\<lambda>e. case ev_kind e of
      OrchestrationCompleted output \<Rightarrow> Some (OS_Completed output cs v)
    | OrchestrationFailed details \<Rightarrow> Some (OS_Failed details cs v) | _ \<Rightarrow> None) (rev after @ ev # rev before)
    = Some (OS_Completed output cs v)"
    using assms(2) by (induction after rule: rev_induct) (auto simp: assms(1) split: event_kind.splits)
  then show ?thesis by (simp add: status_of_def)
qed

text \<open>C19. The client sees what was committed: after the acknowledgement of a turn of the newest execution whose last terminal event
  is a completion, the status of the instance is Completed with exactly the output of that event, whatever the history was.\<close>

theorem client_sees_committed_result:
  assumes "codec_ok cd" and "instance_of_token tok db = Some inst"
    and "ack_orchestration_item cd now chk tok req db = (Inr u, en_db env)"
    and "sorted_wrt (<) (map ev_event_id (ar_history_delta req))"
    and "\<And>r ev. r \<in> set (execution_rows inst (ar_execution_id req) db) \<Longrightarrow> ev \<in> set (ar_history_delta req)
           \<Longrightarrow> hi_event_id r < ev_event_id ev"
    and "read_with_execution cd inst (ar_execution_id req) db = Inr old"
    and "max_execution_id inst db \<le> ar_execution_id req"
    and "ar_history_delta req = before @ ev # after" and "ev_kind ev = OrchestrationCompleted output"
    and "list_all (\<lambda>e. \<not> is_completed_or_failed (ev_kind e)) after"
    and "en_faults env = []"
  shows "\<exists>custom_status version env'. get_orchestration_status (sqlite_client cd others) inst env
     = (Inr (OS_Completed output custom_status version), env')"
proof -
  from assms(3,2) obtain db1 where w: "ack_writes cd now tok inst req db = Inr db1"
    and db': "en_db env = release_lock inst tok db1" by (rule ack_ok_writes)
  have m: "max_execution_id inst (en_db env) = ar_execution_id req"
    by (rule ack_newest_execution [OF w _ assms(7)]) (simp add: db' release_lock_def)
  have h: "read_with_execution cd inst (ar_execution_id req) (en_db env) = Inr (old @ ar_history_delta req)"
    using committed_delta_reads_back [OF assms(1-6)] by simp
  have "read cd inst (en_db env) = Inr (old @ ar_history_delta req)"
    using h by (auto simp: read_def read_with_execution_def m split: sum.splits)
  moreover have "status_of (old @ ar_history_delta req) cs v = OS_Completed output cs v" for cs v
    using status_of_completed [OF assms(9,10), of "old @ before"] by (simp add: assms(8))
  ultimately show ?thesis using assms(11)
    by (simp add: get_orchestration_status_def sqlite_client_def env_read_def with_fault_def case_prod_unfold Let_def)
qed

definition completing_request :: "sem_ver ack_request" where
  "completing_request = started_request\<lparr>ar_history_delta :=
     [with_event_id 1 ''i'' 1 None (OrchestrationStarted ''o'' ''1.0.0'' ''x'' None None None None),
      with_event_id 2 ''i'' 1 None (OrchestrationCompleted ''done'')]\<rparr>"

definition completed_env :: "(event, work_item) sqlite_env" where
  "completed_env = \<lparr>en_db = snd (ack_orchestration_item plain_codec 6 6 ''t'' completing_request fetched_start),
     en_now = 0, en_clock = [], en_faults = [], en_pid = 7\<rparr>"

theorem client_sees_committed_result_witness:
  "\<exists>custom_status version env'. get_orchestration_status (sqlite_client plain_codec (\<lambda>db. db)) ''i'' completed_env
     = (Inr (OS_Completed ''done'' custom_status version), env')"
proof -
  note defs = fetched_start_def two_starts_def start_item_def completing_request_def started_request_def
    metadata_default_def with_event_id_def sql_eval
  have a: "ack_orchestration_item plain_codec 6 6 ''t'' completing_request fetched_start = (Inr (), en_db completed_env)"
    by (simp add: completed_env_def defs)
  have d: "ar_history_delta completing_request
      = [with_event_id 1 ''i'' 1 None (OrchestrationStarted ''o'' ''1.0.0'' ''x'' None None None None)]
        @ with_event_id 2 ''i'' 1 None (OrchestrationCompleted ''done'') # []"
    by (simp add: completing_request_def)
  have e: "ar_execution_id completing_request = ar_execution_id started_request"
    by (simp add: completing_request_def)
  have o: "read_with_execution plain_codec ''i'' (ar_execution_id completing_request) fetched_start = Inr []"
    by (simp add: read_with_execution_def fetched_start_simps e)
  have m: "max_execution_id ''i'' fetched_start \<le> ar_execution_id completing_request"
    by (simp add: defs)
  show ?thesis
    by (rule client_sees_committed_result [OF plain_codec_ok fetched_start_simps(1) a _ _ o m d])
      (simp_all add: completing_request_def started_request_def fetched_start_simps e completed_env_def
        fetched_start_simps(2) [unfolded started_request_def, simplified])
qed

subsection \<open>Deletion errors\<close>

lemma contains_str_append: "contains_str s p \<Longrightarrow> contains_str (a @ s @ b) p"
proof (induction a)
  case Nil
  then show ?case
  proof (induction s)
    case Nil
    then show ?case by (cases b) (simp_all add: starts_with_def)
  next
    case (Cons c s)
    have "starts_with (c # s @ b) p" if "starts_with (c # s) p"
      using that by (metis starts_with_conv append_Cons append_assoc)
    with Cons show ?case by auto
  qed
qed simp

lemma to_lowercase_append: "to_lowercase (a @ b) = to_lowercase a @ to_lowercase b"
  by (simp add: to_lowercase_def)

text \<open>The translation of deletion errors can be fooled by a name: it searches the message for phrases, and the message contains the
  instance id. A running instance whose id contains \<open>not found\<close> is reported as not existing instead of as still running.\<close>

theorem running_instance_reported_missing:
  assumes "find_instance inst (en_db env) = Some i" and "in_parent_instance_id i = None"
    and "current_status i (en_db env) = Some ''Running''" and "list_children inst (en_db env) = []"
    and "contains_str (to_lowercase inst) ''not found''" and "en_faults env = []"
  shows "fst (client_delete_instance (sqlite_client cd others) inst False env) = Inl (CE_InstanceNotFound inst)"
proof -
  let ?db = "en_db env"
  have p: "get_parent_id inst ?db = Inr None" using assms(1,2) by (simp add: get_parent_id_def)
  have t: "get_instance_tree inst ?db = Some [inst]" by (simp add: get_instance_tree_def tree_loop.simps assms(4))
  have i: "i \<in> set (db_instances ?db)" "in_instance i = inst"
    using assms(1) by (auto simp: find_instance_def dest: find_Some_mem)
  obtain j where j: "still_running [inst] ?db = Some j" "in_instance j = inst"
  proof (cases "still_running [inst] ?db")
    case None
    with i assms(3) show ?thesis by (auto simp: still_running_def find_None_all)
  next
    case (Some j)
    then have "in_instance j = inst" by (auto simp: still_running_def dest: find_Some_mem)
    with Some that show ?thesis by blast
  qed
  let ?m = "''Instance '' @ inst @ '' is still running. Use force=true to delete anyway, or cancel first.''"
  let ?e = "permanent_error ''delete_instances_atomic'' ?m"
  have d: "delete_instance inst False ?db = Some (Inl ?e, ?db)"
    by (simp add: delete_instance_def p t delete_instances_atomic_def delete_tx_def run_tx_def j)
  have "provider_error_text ?e = (''delete_instances_atomic: Instance '') @ inst
      @ '' is still running. Use force=true to delete anyway, or cancel first.''"
    by (simp add: provider_error_text_def permanent_error_def)
  then have "contains_str (to_lowercase (provider_error_text ?e)) ''not found''"
    by (simp only: to_lowercase_append contains_str_append [OF assms(5)])
  then show ?thesis
    by (simp add: client_delete_instance_def with_management_def sqlite_client_def sqlite_management_def
        with_fault_def assms(6) on_db_def d translate_delete_error_def Let_def)
qed

definition misleading_env :: "(event, work_item) sqlite_env" where
  "misleading_env = \<lparr>en_db = empty_db\<lparr>
       db_instances := [\<lparr>in_instance = ''page not found'', in_orchestration_name = ''o'',
         in_orchestration_version = Some ''1.0.0'', in_current_execution_id = 1, in_custom_status = None,
         in_custom_status_version = 0, in_parent_instance_id = None, in_created_at = 0\<rparr>],
       db_executions := [\<lparr>ex_instance = ''page not found'', ex_execution_id = 1, ex_status = ''Running'',
         ex_output = None, ex_pinned = None, ex_completed_at = None\<rparr>]\<rparr>,
     en_now = 0, en_clock = [], en_faults = [], en_pid = 7\<rparr>"

theorem running_instance_reported_missing_witness:
  "fst (client_delete_instance (sqlite_client plain_codec (\<lambda>db. db)) ''page not found'' False misleading_env)
     = Inl (CE_InstanceNotFound ''page not found'')"
proof -
  let ?i = "hd (db_instances (en_db misleading_env))"
  have f: "find_instance ''page not found'' (en_db misleading_env) = Some ?i"
    by (simp add: misleading_env_def find_instance_def empty_db_def)
  have p: "in_parent_instance_id ?i = None" by (simp add: misleading_env_def)
  have c: "current_status ?i (en_db misleading_env) = Some ''Running''"
    by (simp add: misleading_env_def current_status_def current_execution_def find_execution_def empty_db_def)
  have l: "list_children ''page not found'' (en_db misleading_env) = []"
    by (simp add: misleading_env_def list_children_def empty_db_def)
  have s: "contains_str (to_lowercase ''page not found'') ''not found''" by code_simp
  show ?thesis by (rule running_instance_reported_missing [OF f p c l s]) (simp add: misleading_env_def)
qed

end
