(* ===== verification/Metrics.thy ===== *)
theory Metrics
  imports Orch_Props Execution_Props Worker_Props
begin

text \<open>
  The metrics provider (\<open>src/src/runtime/observability.rs\<close>), the places where the runtime calls it, and the
  provider that records metrics around another (\<open>src/src/providers/instrumented.rs\<close>). What goes to the
  recorder of the \<open>metrics\<close> facade is a log of calls; durations are given in nanoseconds.
\<close>

subsection \<open>The metrics provider\<close>

datatype facade_call =
    Counter string "(string \<times> string) list" nat
  | Gauge string int
  | Histogram string "(string \<times> string) list" nat

record metrics =
  mt_orch_starts :: "64 word"
  mt_orch_completions :: "64 word"
  mt_orch_failures :: "64 word"
  mt_orch_application_errors :: "64 word"
  mt_orch_infrastructure_errors :: "64 word"
  mt_orch_configuration_errors :: "64 word"
  mt_orch_poison :: "64 word"
  mt_activity_success :: "64 word"
  mt_activity_app_errors :: "64 word"
  mt_activity_infra_errors :: "64 word"
  mt_activity_config_errors :: "64 word"
  mt_activity_poison :: "64 word"
  mt_orch_dispatcher_items_fetched :: "64 word"
  mt_worker_dispatcher_items_fetched :: "64 word"
  mt_orch_continue_as_new :: "64 word"
  mt_suborchestration_calls :: "64 word"
  mt_provider_errors :: "64 word"
  mt_orch_queue_depth :: "64 word"
  mt_worker_queue_depth :: "64 word"
  mt_active_orchestrations :: "64 word"
  mt_emitted :: "facade_call list"

definition metrics_new :: metrics where
  "metrics_new = \<lparr>mt_orch_starts = 0, mt_orch_completions = 0, mt_orch_failures = 0,
     mt_orch_application_errors = 0, mt_orch_infrastructure_errors = 0, mt_orch_configuration_errors = 0,
     mt_orch_poison = 0, mt_activity_success = 0, mt_activity_app_errors = 0, mt_activity_infra_errors = 0,
     mt_activity_config_errors = 0, mt_activity_poison = 0, mt_orch_dispatcher_items_fetched = 0,
     mt_worker_dispatcher_items_fetched = 0, mt_orch_continue_as_new = 0, mt_suborchestration_calls = 0,
     mt_provider_errors = 0, mt_orch_queue_depth = 0, mt_worker_queue_depth = 0,
     mt_active_orchestrations = 0, mt_emitted = []\<rparr>"

definition emit :: "facade_call list \<Rightarrow> metrics \<Rightarrow> metrics" where
  "emit calls m = m\<lparr>mt_emitted := mt_emitted m @ calls\<rparr>"

lemma emit_simps [simp]:
  "mt_orch_starts (emit c m) = mt_orch_starts m" "mt_orch_failures (emit c m) = mt_orch_failures m"
  "mt_orch_completions (emit c m) = mt_orch_completions m" "mt_activity_success (emit c m) = mt_activity_success m"
  "mt_activity_app_errors (emit c m) = mt_activity_app_errors m" "mt_orch_poison (emit c m) = mt_orch_poison m"
  "mt_activity_infra_errors (emit c m) = mt_activity_infra_errors m"
  "mt_active_orchestrations (emit c m) = mt_active_orchestrations m"
  by (simp_all add: emit_def)

definition record_orchestration_start :: "string \<Rightarrow> string \<Rightarrow> string \<Rightarrow> metrics \<Rightarrow> metrics" where
  "record_orchestration_start name version initiated_by m =
     (emit [Counter ''duroxide_orchestration_starts_total''
        [(''orchestration_name'', name), (''version'', version), (''initiated_by'', initiated_by)] 1] m)
     \<lparr>mt_orch_starts := mt_orch_starts m + 1\<rparr>"

definition turn_bucket :: "nat \<Rightarrow> string" where
  "turn_bucket n =
     (if 1 \<le> n \<and> n \<le> 5 then ''1-5'' else if 6 \<le> n \<and> n \<le> 10 then ''6-10''
      else if 11 \<le> n \<and> n \<le> 50 then ''11-50'' else ''50+'')"

definition record_orchestration_completion ::
    "string \<Rightarrow> string \<Rightarrow> string \<Rightarrow> nanos \<Rightarrow> nat \<Rightarrow> nat \<Rightarrow> metrics \<Rightarrow> metrics" where
  "record_orchestration_completion name version status duration turn_count history_events m =
     (emit [Counter ''duroxide_orchestration_completions_total''
          [(''orchestration_name'', name), (''version'', version), (''status'', status),
           (''final_turn_count'', turn_bucket turn_count)] 1,
        Histogram ''duroxide_orchestration_duration_seconds''
          [(''orchestration_name'', name), (''version'', version), (''status'', status)] duration,
        Histogram ''duroxide_orchestration_turns'' [(''orchestration_name'', name)] turn_count,
        Histogram ''duroxide_orchestration_history_size'' [(''orchestration_name'', name)] history_events] m)
     \<lparr>mt_orch_completions := mt_orch_completions m + 1\<rparr>"

definition record_orchestration_failure :: "string \<Rightarrow> string \<Rightarrow> string \<Rightarrow> string \<Rightarrow> metrics \<Rightarrow> metrics" where
  "record_orchestration_failure name version error_type error_category m =
     (let m1 = (emit [Counter ''duroxide_orchestration_failures_total''
            [(''orchestration_name'', name), (''version'', version), (''error_type'', error_type),
             (''error_category'', error_category)] 1] m) \<lparr>mt_orch_failures := mt_orch_failures m + 1\<rparr>;
          labels = [(''orchestration_name'', name), (''error_category'', error_category)]
      in if error_type = ''app_error''
         then m1\<lparr>mt_orch_application_errors := mt_orch_application_errors m1 + 1\<rparr>
         else if error_type = ''infrastructure_error''
         then emit [Counter ''duroxide_orchestration_infrastructure_errors_total'' labels 1]
                (m1\<lparr>mt_orch_infrastructure_errors := mt_orch_infrastructure_errors m1 + 1\<rparr>)
         else if error_type = ''config_error''
         then emit [Counter ''duroxide_orchestration_configuration_errors_total'' labels 1]
                (m1\<lparr>mt_orch_configuration_errors := mt_orch_configuration_errors m1 + 1\<rparr>)
         else m1)"

definition record_orchestration_application_error :: "metrics \<Rightarrow> metrics" where
  "record_orchestration_application_error m =
     (emit [Counter ''duroxide_orchestration_failures_total'' [(''error_type'', ''app_error'')] 1] m)
     \<lparr>mt_orch_failures := mt_orch_failures m + 1,
      mt_orch_application_errors := mt_orch_application_errors m + 1\<rparr>"

definition record_orchestration_infrastructure_error :: "metrics \<Rightarrow> metrics" where
  "record_orchestration_infrastructure_error m =
     (emit [Counter ''duroxide_orchestration_failures_total'' [(''error_type'', ''infrastructure_error'')] 1,
        Counter ''duroxide_orchestration_infrastructure_errors_total'' [] 1] m)
     \<lparr>mt_orch_failures := mt_orch_failures m + 1,
      mt_orch_infrastructure_errors := mt_orch_infrastructure_errors m + 1\<rparr>"

definition record_orchestration_configuration_error :: "metrics \<Rightarrow> metrics" where
  "record_orchestration_configuration_error m =
     (emit [Counter ''duroxide_orchestration_failures_total'' [(''error_type'', ''config_error'')] 1,
        Counter ''duroxide_orchestration_configuration_errors_total'' [] 1] m)
     \<lparr>mt_orch_failures := mt_orch_failures m + 1,
      mt_orch_configuration_errors := mt_orch_configuration_errors m + 1\<rparr>"

definition record_continue_as_new :: "string \<Rightarrow> id64 \<Rightarrow> metrics \<Rightarrow> metrics" where
  "record_continue_as_new name execution_id m =
     (emit [Counter ''duroxide_orchestration_continue_as_new_total''
        [(''orchestration_name'', name), (''execution_id'', show_nat execution_id)] 1] m)
     \<lparr>mt_orch_continue_as_new := mt_orch_continue_as_new m + 1\<rparr>"

definition retry_label :: "nat \<Rightarrow> string" where
  "retry_label n = (if n = 0 then ''0'' else if n = 1 then ''1'' else if n = 2 then ''2'' else ''3+'')"

definition record_activity_execution ::
    "string \<Rightarrow> string \<Rightarrow> nanos \<Rightarrow> nat \<Rightarrow> string option \<Rightarrow> metrics \<Rightarrow> metrics" where
  "record_activity_execution name outcome duration retry tag m =
     (let tag_label = (case tag of Some t \<Rightarrow> t | None \<Rightarrow> ''default'');
          m1 = emit [Counter ''duroxide_activity_executions_total''
               [(''activity_name'', name), (''outcome'', outcome),
                (''retry_attempt'', retry_label retry), (''tag'', tag_label)] 1,
             Histogram ''duroxide_activity_duration_seconds''
               [(''activity_name'', name), (''outcome'', outcome), (''tag'', tag_label)] duration] m
      in if outcome = ''success'' then m1\<lparr>mt_activity_success := mt_activity_success m1 + 1\<rparr>
         else if outcome = ''app_error'' then m1\<lparr>mt_activity_app_errors := mt_activity_app_errors m1 + 1\<rparr>
         else if outcome = ''infra_error''
         then emit [Counter ''duroxide_activity_infrastructure_errors_total'' [(''activity_name'', name)] 1]
                (m1\<lparr>mt_activity_infra_errors := mt_activity_infra_errors m1 + 1\<rparr>)
         else if outcome = ''config_error''
         then emit [Counter ''duroxide_activity_configuration_errors_total'' [(''activity_name'', name)] 1]
                (m1\<lparr>mt_activity_config_errors := mt_activity_config_errors m1 + 1\<rparr>)
         else m1)"

definition record_activity_success :: "metrics \<Rightarrow> metrics" where
  "record_activity_success m =
     (emit [Counter ''duroxide_activity_executions_total'' [(''outcome'', ''success'')] 1] m)
     \<lparr>mt_activity_success := mt_activity_success m + 1\<rparr>"

definition record_activity_app_error :: "metrics \<Rightarrow> metrics" where
  "record_activity_app_error m =
     (emit [Counter ''duroxide_activity_executions_total'' [(''outcome'', ''app_error'')] 1] m)
     \<lparr>mt_activity_app_errors := mt_activity_app_errors m + 1\<rparr>"

definition record_activity_infra_error :: "metrics \<Rightarrow> metrics" where
  "record_activity_infra_error m =
     (emit [Counter ''duroxide_activity_executions_total'' [(''outcome'', ''infra_error'')] 1,
        Counter ''duroxide_activity_infrastructure_errors_total'' [] 1] m)
     \<lparr>mt_activity_infra_errors := mt_activity_infra_errors m + 1\<rparr>"

definition record_activity_config_error :: "metrics \<Rightarrow> metrics" where
  "record_activity_config_error m =
     (emit [Counter ''duroxide_activity_executions_total'' [(''outcome'', ''config_error'')] 1,
        Counter ''duroxide_activity_configuration_errors_total'' [] 1] m)
     \<lparr>mt_activity_config_errors := mt_activity_config_errors m + 1\<rparr>"

definition record_orchestration_poison :: "metrics \<Rightarrow> metrics" where
  "record_orchestration_poison m =
     emit [Counter ''duroxide_orchestration_poison_total'' [] 1] (m\<lparr>mt_orch_poison := mt_orch_poison m + 1\<rparr>)"

definition record_activity_poison :: "metrics \<Rightarrow> metrics" where
  "record_activity_poison m =
     emit [Counter ''duroxide_activity_poison_total'' [] 1] (m\<lparr>mt_activity_poison := mt_activity_poison m + 1\<rparr>)"

definition record_suborchestration_call :: "string \<Rightarrow> string \<Rightarrow> string \<Rightarrow> metrics \<Rightarrow> metrics" where
  "record_suborchestration_call parent child outcome m =
     (emit [Counter ''duroxide_suborchestration_calls_total''
        [(''parent_orchestration'', parent), (''child_orchestration'', child), (''outcome'', outcome)] 1] m)
     \<lparr>mt_suborchestration_calls := mt_suborchestration_calls m + 1\<rparr>"

definition record_suborchestration_duration :: "string \<Rightarrow> string \<Rightarrow> nanos \<Rightarrow> string \<Rightarrow> metrics \<Rightarrow> metrics" where
  "record_suborchestration_duration parent child duration outcome =
     emit [Histogram ''duroxide_suborchestration_duration_seconds''
       [(''parent_orchestration'', parent), (''child_orchestration'', child), (''outcome'', outcome)] duration]"

definition record_provider_operation :: "string \<Rightarrow> nanos \<Rightarrow> string \<Rightarrow> metrics \<Rightarrow> metrics" where
  "record_provider_operation operation duration status =
     emit [Histogram ''duroxide_provider_operation_duration_seconds''
       [(''operation'', operation), (''status'', status)] duration]"

definition record_provider_error :: "string \<Rightarrow> string \<Rightarrow> metrics \<Rightarrow> metrics" where
  "record_provider_error operation error_type m =
     (emit [Counter ''duroxide_provider_errors_total'' [(''operation'', operation), (''error_type'', error_type)] 1] m)
     \<lparr>mt_provider_errors := mt_provider_errors m + 1\<rparr>"

definition record_orch_dispatcher_items_fetched :: "nat \<Rightarrow> metrics \<Rightarrow> metrics" where
  "record_orch_dispatcher_items_fetched n m =
     (emit [Counter ''duroxide_orchestration_dispatcher_items_fetched'' [] n] m)
     \<lparr>mt_orch_dispatcher_items_fetched := mt_orch_dispatcher_items_fetched m + of_nat n\<rparr>"

definition record_orch_dispatcher_processing_duration :: "nat \<Rightarrow> metrics \<Rightarrow> metrics" where
  "record_orch_dispatcher_processing_duration duration_ms =
     emit [Histogram ''duroxide_orchestration_dispatcher_processing_duration_ms'' [] duration_ms]"

definition record_worker_dispatcher_items_fetched :: "nat \<Rightarrow> metrics \<Rightarrow> metrics" where
  "record_worker_dispatcher_items_fetched n m =
     (emit [Counter ''duroxide_worker_dispatcher_items_fetched'' [] n] m)
     \<lparr>mt_worker_dispatcher_items_fetched := mt_worker_dispatcher_items_fetched m + of_nat n\<rparr>"

definition record_worker_dispatcher_execution_duration :: "nat \<Rightarrow> metrics \<Rightarrow> metrics" where
  "record_worker_dispatcher_execution_duration duration_ms =
     emit [Histogram ''duroxide_worker_dispatcher_execution_duration_ms'' [] duration_ms]"

definition update_queue_depths :: "64 word \<Rightarrow> 64 word \<Rightarrow> metrics \<Rightarrow> metrics" where
  "update_queue_depths orch_depth worker_depth m =
     emit [Gauge ''duroxide_orchestrator_queue_depth'' (uint orch_depth),
           Gauge ''duroxide_worker_queue_depth'' (uint worker_depth)]
       (m\<lparr>mt_orch_queue_depth := orch_depth, mt_worker_queue_depth := worker_depth\<rparr>)"

definition get_queue_depth_gauges :: "metrics \<Rightarrow> 64 word \<times> 64 word" where
  "get_queue_depth_gauges m = (mt_orch_queue_depth m, mt_worker_queue_depth m)"

text \<open>The gauge is an \<open>AtomicI64\<close>; its value is read as signed.\<close>

definition set_active_orchestrations :: "64 word \<Rightarrow> metrics \<Rightarrow> metrics" where
  "set_active_orchestrations n m =
     emit [Gauge ''duroxide_active_orchestrations'' (sint n)] (m\<lparr>mt_active_orchestrations := n\<rparr>)"

definition increment_active_orchestrations :: "metrics \<Rightarrow> metrics" where
  "increment_active_orchestrations m =
     (let count = mt_active_orchestrations m + 1
      in emit [Gauge ''duroxide_active_orchestrations'' (sint count)] (m\<lparr>mt_active_orchestrations := count\<rparr>))"

definition decrement_active_orchestrations :: "metrics \<Rightarrow> metrics" where
  "decrement_active_orchestrations m =
     (let count = mt_active_orchestrations m - 1
      in emit [Gauge ''duroxide_active_orchestrations'' (sint count)] (m\<lparr>mt_active_orchestrations := count\<rparr>))"

definition get_active_orchestrations :: "metrics \<Rightarrow> int" where
  "get_active_orchestrations m = sint (mt_active_orchestrations m)"

subsection \<open>The places that record\<close>

text \<open>A worker: the end of the activity's run, and what became of its acknowledgement.\<close>

fun outcome_label :: "activity_outcome \<Rightarrow> string" where
  "outcome_label AO_Success = ''success''"
| "outcome_label AO_AppError = ''app_error''"
| "outcome_label AO_Cancelled = ''cancelled''"

definition outcome_metrics :: "provider_error + unit \<Rightarrow> activity_outcome \<Rightarrow> metrics \<Rightarrow> metrics" where
  "outcome_metrics ack_result outcome m =
     (case ack_result of
        Inr _ \<Rightarrow> (case outcome of AO_Success \<Rightarrow> record_activity_success m
                 | AO_AppError \<Rightarrow> record_activity_app_error m | AO_Cancelled \<Rightarrow> m)
      | Inl _ \<Rightarrow> record_activity_infra_error m)"

definition activity_metrics ::
    "activity_work_context \<Rightarrow> nanos \<Rightarrow> provider_error + unit \<Rightarrow> activity_outcome \<Rightarrow> metrics \<Rightarrow> metrics" where
  "activity_metrics ctx duration ack_result outcome m =
     outcome_metrics ack_result outcome
       (record_activity_execution (aw_activity_name ctx) (outcome_label outcome) duration 0 (aw_tag ctx) m)"

text \<open>The orchestration dispatcher: a failed turn, the start of an item's processing, and its end.\<close>

definition turn_metrics :: "turn_result \<Rightarrow> metrics \<Rightarrow> metrics" where
  "turn_metrics res m =
     (case res of
        TR_Failed (Application _ _ _) \<Rightarrow> record_orchestration_application_error m
      | TR_Failed (Infrastructure _ _ _) \<Rightarrow> record_orchestration_infrastructure_error m
      | TR_Failed (Configuration _ _ _) \<Rightarrow> record_orchestration_configuration_error m
      | TR_Failed (Poison _ _ _ _) \<Rightarrow> record_orchestration_poison m
      | _ \<Rightarrow> m)"

definition start_metrics :: "work_item_reader \<Rightarrow> string \<Rightarrow> history_manager \<Rightarrow> metrics \<Rightarrow> metrics" where
  "start_metrics reader version history_mgr m =
     (let initiated_by = (if wr_is_continue_as_new reader then ''continueAsNew'' else ''client'');
          m1 = record_orchestration_start (wr_orchestration_name reader) version initiated_by m
      in if is_full_history_empty history_mgr \<and> \<not> wr_is_continue_as_new reader
         then increment_active_orchestrations m1 else m1)"

definition failure_labels :: "event list \<Rightarrow> string \<times> string" where
  "failure_labels delta =
     (case find_map (\<lambda>ev. case ev_kind ev of
         OrchestrationFailed details \<Rightarrow>
           (let c = category details;
                error_type = (if c = ''infrastructure'' then ''infrastructure_error''
                  else if c = ''configuration'' then ''config_error''
                  else if c = ''application'' then ''app_error'' else ''unknown'')
            in Some (error_type, c))
       | _ \<Rightarrow> None) delta of
        Some labels \<Rightarrow> labels | None \<Rightarrow> (''unknown'', ''unknown''))"

definition end_metrics ::
    "work_item_reader \<Rightarrow> string \<Rightarrow> event list \<Rightarrow> 'v execution_metadata \<Rightarrow> id64 \<Rightarrow> history_manager \<Rightarrow> nanos
       \<Rightarrow> metrics \<Rightarrow> metrics" where
  "end_metrics reader version delta metadata execution_id history_mgr duration m =
     (let orch_name = (if has_orchestration_name reader then wr_orchestration_name reader else ''unknown'');
          version' = (case em_orchestration_version metadata of Some v \<Rightarrow> v | None \<Rightarrow> version);
          event_count = full_history_len history_mgr
      in if em_status metadata = Some ''Completed''
         then decrement_active_orchestrations
                (record_orchestration_completion orch_name version' ''success'' duration 1 event_count m)
         else if em_status metadata = Some ''Failed''
         then (let (error_type, error_category) = failure_labels delta
               in decrement_active_orchestrations
                    (record_orchestration_completion orch_name version' ''failed'' duration 1 event_count
                      (record_orchestration_failure orch_name version' error_type error_category m)))
         else if em_status metadata = Some ''ContinuedAsNew''
         then record_orchestration_completion orch_name version' ''continuedAsNew'' duration 1 event_count
                (record_continue_as_new orch_name execution_id m)
         else m)"

lemma record_active [simp]:
  "mt_active_orchestrations (record_orchestration_start n v i m) = mt_active_orchestrations m"
  "mt_active_orchestrations (record_orchestration_completion n v s d t h m) = mt_active_orchestrations m"
  "mt_active_orchestrations (record_orchestration_failure n v ty c m) = mt_active_orchestrations m"
  "mt_active_orchestrations (record_continue_as_new n x m) = mt_active_orchestrations m"
  "mt_active_orchestrations (decrement_active_orchestrations m) = mt_active_orchestrations m - 1"
  by (simp_all add: record_orchestration_start_def record_orchestration_completion_def record_orchestration_failure_def
      record_continue_as_new_def decrement_active_orchestrations_def Let_def)

subsection \<open>The gauge of active orchestrations\<close>

lemma output_not_empty:
  assumes "\<not> is_full_history_empty m"
  shows "\<not> is_full_history_empty (to_history (turn_result_output i x n pl res pending m ids))"
proof -
  have h: "is_full_history_empty m' \<longleftrightarrow> full_history m' = []" for m'
    by (simp add: is_full_history_empty_def full_history_def)
  obtain bs where b: "full_history (snd (outstanding_and_breadcrumbs i x m)) = full_history m @ bs"
    using breadcrumbs_prefix [of i x "get_outstanding_schedule_ids (full_history m)" m]
    by (auto simp: outstanding_and_breadcrumbs_def Let_def)
  have "full_history m \<noteq> []" using assms by (simp add: h)
  with b show ?thesis
    unfolding h
    by (cases res) (auto simp: turn_result_output_def continue_output_def completed_output_def failed_output_def
        cancelled_output_def continued_output_def append_failed_def hm_append_def full_history_def
        case_prod_unfold Let_def)
qed

text \<open>The gauge of active orchestrations is never incremented. Processing an item raises it only if the
  history is still empty after the handler was resolved and run; but that step has appended the start event
  by then. Ending still lowers it. So each orchestration a runtime starts and finishes takes the gauge
  one further down, until the poller next resets it.\<close>

theorem active_gauge_only_falls:
  assumes "resolve_and_execute_orchestration_handler rt inst m reader x kv ids = Some (Inr out)"
  shows "mt_active_orchestrations (end_metrics reader version delta metadata x hm duration
       (start_metrics reader version (to_history out) ms))
     = mt_active_orchestrations ms
       - (if em_status metadata \<in> {Some ''Completed'', Some ''Failed''} then 1 else 0)"
proof -
  from assms obtain v h where vh: "resolve_for_item rt reader = Some (v, h)"
    by (auto simp: resolve_and_execute_orchestration_handler_def split: option.splits)
  define m' where "m' = (if hm_is_empty m
    then hm_append (new_execution_event inst x (rt_show_version rt v) reader) m else m)"
  from assms vh have run: "run_single_execution_atomic h inst m' reader x (rt_show_version rt v) kv ids = Some out"
    by (auto simp: resolve_and_execute_orchestration_handler_def Let_def m'_def)
  have "\<not> is_full_history_empty m'"
    by (simp add: m'_def hm_is_empty_def is_full_history_empty_def hm_append_def)
  then have "\<not> is_full_history_empty (hm_extend d m')" for d
    by (auto simp: is_full_history_empty_def hm_extend_def)
  from output_not_empty [OF this] run have "\<not> is_full_history_empty (to_history out)"
    by (auto simp: run_single_execution_atomic_def Let_def split: option.splits prod.splits)
  then show ?thesis
    by (simp add: start_metrics_def end_metrics_def Let_def split: prod.split)
qed

definition completed_metadata :: "nat execution_metadata" where
  "completed_metadata = metadata_default\<lparr>em_status := Some ''Completed''\<rparr>"

theorem active_gauge_only_falls_witness:
  "\<exists>out. resolve_and_execute_orchestration_handler sample_runtime ''p::sub::2'' (from_history []) continued_reader 2 []
       Map.empty = Some (Inr out)
     \<and> mt_active_orchestrations (end_metrics continued_reader ''1.0.0'' [] completed_metadata 2 (from_history []) 0
         (start_metrics continued_reader ''1.0.0'' (to_history out) metrics_new)) = - 1"
proof -
  from continued_resolves obtain out where r: "resolve_and_execute_orchestration_handler sample_runtime ''p::sub::2''
     (from_history []) continued_reader 2 [] Map.empty = Some (Inr out)" by blast
  have "mt_active_orchestrations metrics_new = 0" by (simp add: metrics_new_def)
  moreover have "em_status completed_metadata = Some ''Completed''" by (simp add: completed_metadata_def)
  ultimately show ?thesis
    using r active_gauge_only_falls [OF r, of "''1.0.0''" "[]" completed_metadata "from_history []" 0 metrics_new]
    by (intro exI [of _ out]) simp
qed

subsection \<open>Counts of failures and successes\<close>

text \<open>Ends are counted twice: an activity that succeeds and is acknowledged adds two to
  \<open>activity_success\<close>, one that fails adds two to \<open>activity_app_errors\<close>; an orchestration whose turn
  fails adds two to \<open>orch_failures\<close>, once when the turn ends and once when the item's processing does.\<close>

theorem ends_counted_twice:
  shows "mt_activity_success (activity_metrics ctx duration (Inr ()) AO_Success ms) = mt_activity_success ms + 2
    \<and> mt_activity_app_errors (activity_metrics ctx duration (Inr ()) AO_AppError ms) = mt_activity_app_errors ms + 2
    \<and> mt_orch_failures (end_metrics reader version delta (metadata\<lparr>em_status := Some ''Failed''\<rparr>) x hm duration
         (start_metrics reader version hm' (turn_metrics (TR_Failed (Application kind msg retryable)) ms)))
       = mt_orch_failures ms + 2"
proof -
  have "mt_orch_failures (record_orchestration_failure n v ty c m) = mt_orch_failures m + 1" for n v ty c m
    by (simp add: record_orchestration_failure_def Let_def)
  moreover have "mt_orch_failures (start_metrics reader version hm' m) = mt_orch_failures m" for m
    by (simp add: start_metrics_def record_orchestration_start_def increment_active_orchestrations_def Let_def)
  ultimately show ?thesis
    by (simp add: activity_metrics_def outcome_metrics_def record_activity_execution_def record_activity_success_def
        record_activity_app_error_def end_metrics_def turn_metrics_def record_orchestration_application_error_def
        record_orchestration_completion_def decrement_active_orchestrations_def Let_def split: prod.split)
qed

end
