(* ===== verification/Provider.thy ===== *)
theory Provider
  imports Client_Props Metrics
begin

text \<open>
  The provider interface as the runtime and the client see it (trait \<open>Provider\<close> of
  \<open>src/src/providers/mod.rs\<close>) as a record of state transformers, the SQLite provider as an instance of it, and
  the provider that records metrics around another (\<open>src/src/providers/instrumented.rs\<close>) with the proof that
  nobody can tell them apart by their answers.
\<close>

subsection \<open>The interface\<close>

type_synonym ('r, 'p) op = "'p \<Rightarrow> (provider_error + 'r) \<times> 'p"

record 'p provider =
  pv_name :: string
  pv_version :: string
  pv_fetch_orchestration_item :: "nanos \<Rightarrow> nanos \<Rightarrow> sem_ver semver_range list option
    \<Rightarrow> ((orchestration_item \<times> string \<times> nat) option, 'p) op"
  pv_ack_orchestration_item :: "string \<Rightarrow> sem_ver ack_request \<Rightarrow> (unit, 'p) op"
  pv_abandon_orchestration_item :: "string \<Rightarrow> nanos option \<Rightarrow> bool \<Rightarrow> (unit, 'p) op"
  pv_read :: "string \<Rightarrow> (event list, 'p) op"
  pv_read_with_execution :: "string \<Rightarrow> id64 \<Rightarrow> (event list, 'p) op"
  pv_append_with_execution :: "string \<Rightarrow> id64 \<Rightarrow> event list \<Rightarrow> (unit, 'p) op"
  pv_enqueue_for_worker :: "work_item \<Rightarrow> (unit, 'p) op"
  pv_fetch_work_item :: "nanos \<Rightarrow> nanos \<Rightarrow> session_fetch_config option \<Rightarrow> tag_filter
    \<Rightarrow> ((work_item \<times> string \<times> nat) option, 'p) op"
  pv_ack_work_item :: "string \<Rightarrow> work_item option \<Rightarrow> (unit, 'p) op"
  pv_renew_work_item_lock :: "string \<Rightarrow> nanos \<Rightarrow> (unit, 'p) op"
  pv_renew_session_lock :: "string list \<Rightarrow> nanos \<Rightarrow> nanos \<Rightarrow> (nat, 'p) op"
  pv_cleanup_orphaned_sessions :: "nanos \<Rightarrow> (nat, 'p) op"
  pv_abandon_work_item :: "string \<Rightarrow> nanos option \<Rightarrow> bool \<Rightarrow> (unit, 'p) op"
  pv_renew_orchestration_item_lock :: "string \<Rightarrow> nanos \<Rightarrow> (unit, 'p) op"
  pv_enqueue_for_orchestrator :: "work_item \<Rightarrow> nanos option \<Rightarrow> (unit, 'p) op"
  pv_management :: "'p management_store option"
  pv_get_custom_status :: "string \<Rightarrow> nat \<Rightarrow> ((string option \<times> nat) option, 'p) op"
  pv_get_kv_value :: "string \<Rightarrow> string \<Rightarrow> (string option, 'p) op"
  pv_get_kv_all_values :: "string \<Rightarrow> (string \<rightharpoonup> string, 'p) op"
  pv_get_instance_stats :: "string \<Rightarrow> (system_stats option, 'p) op"

text \<open>The SQLite provider: it does not long-poll, so the poll timeout is not used.\<close>

definition sqlite_provider :: "('d, 'w) codec \<Rightarrow> ('d, 'w) sqlite_env provider" where
  "sqlite_provider cd =
     \<lparr>pv_name = ''sqlite'', pv_version = ''0.1.28'',
      pv_fetch_orchestration_item = (\<lambda>lock_timeout _ flt. with_fault ''fetch_orchestration_item'' (\<lambda>env.
        let (t, env1) = read_clock env; (now, env2) = read_clock env1
        in on_db (fetch_orchestration_item cd (now_millis now) (generate_lock_token t (en_pid env)) lock_timeout flt) env2)),
      pv_ack_orchestration_item = env_ack_orchestration_item cd,
      pv_abandon_orchestration_item = (\<lambda>tok delay ignore_attempt. env_at_now ''abandon_orchestration_item''
        (\<lambda>now. abandon_orchestration_item now tok delay ignore_attempt)),
      pv_read = (\<lambda>inst. env_read ''read'' (read cd inst)),
      pv_read_with_execution = (\<lambda>inst x. env_read ''read_with_execution'' (read_with_execution cd inst x)),
      pv_append_with_execution = (\<lambda>inst x evs. with_fault ''append_with_execution''
        (on_db (append_with_execution cd inst x evs))),
      pv_enqueue_for_worker = (\<lambda>item. env_at_now ''enqueue_for_worker'' (\<lambda>now. enqueue_for_worker cd now item)),
      pv_fetch_work_item = (\<lambda>lock_timeout _. env_fetch_work_item cd lock_timeout),
      pv_ack_work_item = (\<lambda>tok c. env_at_now ''ack_work_item'' (\<lambda>now. ack_work_item cd now tok c)),
      pv_renew_work_item_lock = (\<lambda>tok extend_for.
        env_at_now ''renew_work_item_lock'' (\<lambda>now. renew_work_item_lock now tok extend_for)),
      pv_renew_session_lock = (\<lambda>owner_ids extend_for idle_timeout.
        env_at_now ''renew_session_lock'' (\<lambda>now. renew_session_lock now owner_ids extend_for idle_timeout)),
      pv_cleanup_orphaned_sessions = (\<lambda>_. env_at_now ''cleanup_orphaned_sessions'' cleanup_orphaned_sessions),
      pv_abandon_work_item = (\<lambda>tok delay ignore_attempt.
        env_at_now ''abandon_work_item'' (\<lambda>now. abandon_work_item now tok delay ignore_attempt)),
      pv_renew_orchestration_item_lock = (\<lambda>tok extend_for. env_at_now ''renew_orchestration_item_lock''
        (\<lambda>now. renew_orchestration_item_lock now tok extend_for)),
      pv_enqueue_for_orchestrator = (\<lambda>item delay. env_at_now ''enqueue_orchestrator_work''
        (\<lambda>now. enqueue_for_orchestrator cd now item delay)),
      pv_management = Some (sqlite_management cd),
      pv_get_custom_status = (\<lambda>inst v. env_read ''get_custom_status'' (\<lambda>db. Inr (get_custom_status inst v db))),
      pv_get_kv_value = (\<lambda>inst key. env_read ''get_kv_value'' (\<lambda>db. Inr (provider_get_kv_value inst key db))),
      pv_get_kv_all_values = (\<lambda>inst. env_read ''get_kv_all_values'' (\<lambda>db. Inr (provider_get_kv_all_values inst db))),
      pv_get_instance_stats = (\<lambda>inst. env_read ''get_instance_stats'' (get_instance_stats cd inst))\<rparr>"

subsection \<open>The instrumented provider\<close>

text \<open>Its state is that of the inner provider and the metrics, if there are any. How long a call takes is a parameter.\<close>

definition record_operation :: "string \<Rightarrow> nanos \<Rightarrow> string \<Rightarrow> metrics option \<Rightarrow> metrics option" where
  "record_operation operation duration status = map_option (record_provider_operation operation duration status)"

definition provider_error_type :: "provider_error \<Rightarrow> string" where
  "provider_error_type e =
     (if contains_str (pe_message e) ''deadlock'' then ''deadlock''
      else if contains_str (pe_message e) ''timeout'' then ''timeout''
      else if contains_str (pe_message e) ''connection'' then ''connection'' else ''other'')"

definition record_error :: "string \<Rightarrow> provider_error \<Rightarrow> metrics option \<Rightarrow> metrics option" where
  "record_error operation e = map_option (record_provider_error operation (provider_error_type e))"

definition forward :: "('p \<Rightarrow> 'r \<times> 'p) \<Rightarrow> 'p \<times> metrics option \<Rightarrow> 'r \<times> 'p \<times> metrics option" where
  "forward f pm = (let (r, p') = f (fst pm) in (r, p', snd pm))"

definition recorded ::
    "('p \<Rightarrow> nanos) \<Rightarrow> string \<Rightarrow> ('r, 'p) op \<Rightarrow> ('r, 'p \<times> metrics option) op" where
  "recorded elapsed operation f pm =
     (let (r, p') = f (fst pm);
          m1 = record_operation operation (elapsed (fst pm)) (case r of Inr _ \<Rightarrow> ''success'' | Inl _ \<Rightarrow> ''error'') (snd pm);
          m2 = (case r of Inl e \<Rightarrow> record_error operation e m1 | Inr _ \<Rightarrow> m1)
      in (r, p', m2))"

definition forward_management :: "'p management_store \<Rightarrow> ('p \<times> metrics option) management_store" where
  "forward_management ms =
     \<lparr>ms_list_instances = forward (ms_list_instances ms),
      ms_list_instances_by_status = (\<lambda>s. forward (ms_list_instances_by_status ms s)),
      ms_get_instance_info = (\<lambda>i. forward (ms_get_instance_info ms i)),
      ms_get_execution_info = (\<lambda>i x. forward (ms_get_execution_info ms i x)),
      ms_list_executions = (\<lambda>i. forward (ms_list_executions ms i)),
      ms_read_history_with_execution_id = (\<lambda>i x. forward (ms_read_history_with_execution_id ms i x)),
      ms_get_system_metrics = forward (ms_get_system_metrics ms),
      ms_get_queue_depths = forward (ms_get_queue_depths ms),
      ms_get_instance_tree = (\<lambda>i. forward (ms_get_instance_tree ms i)),
      ms_delete_instance = (\<lambda>i b. forward (ms_delete_instance ms i b)),
      ms_delete_instance_bulk = (\<lambda>f. forward (ms_delete_instance_bulk ms f)),
      ms_prune_executions = (\<lambda>i po. forward (ms_prune_executions ms i po)),
      ms_prune_executions_bulk = (\<lambda>f po. forward (ms_prune_executions_bulk ms f po))\<rparr>"

definition instrumented :: "('p \<Rightarrow> nanos) \<Rightarrow> 'p provider \<Rightarrow> ('p \<times> metrics option) provider" where
  "instrumented elapsed inner =
     \<lparr>pv_name = pv_name inner, pv_version = pv_version inner,
      pv_fetch_orchestration_item = (\<lambda>lt pt flt. recorded elapsed ''fetch_orchestration_item''
        (pv_fetch_orchestration_item inner lt pt flt)),
      pv_ack_orchestration_item = (\<lambda>tok req. recorded elapsed ''ack_orchestration_item''
        (pv_ack_orchestration_item inner tok req)),
      pv_abandon_orchestration_item = (\<lambda>tok d ig. forward (pv_abandon_orchestration_item inner tok d ig)),
      pv_read = (\<lambda>i. recorded elapsed ''read'' (pv_read inner i)),
      pv_read_with_execution = (\<lambda>i x. forward (pv_read_with_execution inner i x)),
      pv_append_with_execution = (\<lambda>i x evs. forward (pv_append_with_execution inner i x evs)),
      pv_enqueue_for_worker = (\<lambda>item. forward (pv_enqueue_for_worker inner item)),
      pv_fetch_work_item = (\<lambda>lt pt ses tf. recorded elapsed ''fetch_work_item''
        (pv_fetch_work_item inner lt pt ses tf)),
      pv_ack_work_item = (\<lambda>tok c. recorded elapsed ''ack_work_item'' (pv_ack_work_item inner tok c)),
      pv_renew_work_item_lock = (\<lambda>tok ext. forward (pv_renew_work_item_lock inner tok ext)),
      pv_renew_session_lock = (\<lambda>os ext idle. recorded elapsed ''renew_session_lock''
        (pv_renew_session_lock inner os ext idle)),
      pv_cleanup_orphaned_sessions = (\<lambda>idle. recorded elapsed ''cleanup_orphaned_sessions''
        (pv_cleanup_orphaned_sessions inner idle)),
      pv_abandon_work_item = (\<lambda>tok d ig. forward (pv_abandon_work_item inner tok d ig)),
      pv_renew_orchestration_item_lock = (\<lambda>tok ext. forward (pv_renew_orchestration_item_lock inner tok ext)),
      pv_enqueue_for_orchestrator = (\<lambda>item d. recorded elapsed ''enqueue_orchestrator''
        (pv_enqueue_for_orchestrator inner item d)),
      pv_management = map_option forward_management (pv_management inner),
      pv_get_custom_status = (\<lambda>i v. forward (pv_get_custom_status inner i v)),
      pv_get_kv_value = (\<lambda>i k. forward (pv_get_kv_value inner i k)),
      pv_get_kv_all_values = (\<lambda>i. forward (pv_get_kv_all_values inner i)),
      pv_get_instance_stats = (\<lambda>i. forward (pv_get_instance_stats inner i))\<rparr>"

subsection \<open>Programs over the interface\<close>

text \<open>
  Everything that uses a provider is a program of calls: it chooses the next call by the answers so far, lets
  time pass, and ends with a verdict. The dispatchers, the client and the provider's test suites are such programs.
\<close>

datatype provider_call =
    PC_Fetch_Orchestration nanos nanos "sem_ver semver_range list option"
  | PC_Ack_Orchestration string "sem_ver ack_request"
  | PC_Abandon_Orchestration string "nanos option" bool
  | PC_Read string
  | PC_Read_With_Execution string id64
  | PC_Append string id64 "event list"
  | PC_Enqueue_Worker work_item
  | PC_Fetch_Work nanos nanos "session_fetch_config option" tag_filter
  | PC_Ack_Work string "work_item option"
  | PC_Renew_Work string nanos
  | PC_Renew_Sessions "string list" nanos nanos
  | PC_Cleanup_Sessions nanos
  | PC_Abandon_Work string "nanos option" bool
  | PC_Renew_Orchestration string nanos
  | PC_Enqueue_Orchestrator work_item "nanos option"
  | PC_Get_Custom_Status string nat
  | PC_Get_Kv_Value string string
  | PC_Get_Kv_All_Values string
  | PC_Get_Instance_Stats string
  | PC_List_Instances
  | PC_List_Instances_By_Status string
  | PC_Get_Instance_Info string
  | PC_Get_Execution_Info string id64
  | PC_List_Executions string
  | PC_Read_History string id64
  | PC_Get_System_Metrics
  | PC_Get_Queue_Depths
  | PC_Get_Instance_Tree string
  | PC_Delete_Instance string bool
  | PC_Delete_Instance_Bulk instance_filter
  | PC_Prune string prune_options
  | PC_Prune_Bulk instance_filter prune_options

datatype provider_answer =
    PA_Error provider_error
  | PA_Unit
  | PA_Item "(orchestration_item \<times> string \<times> nat) option"
  | PA_Work "(work_item \<times> string \<times> nat) option"
  | PA_Events "event list"
  | PA_Nat nat
  | PA_Custom_Status "(string option \<times> nat) option"
  | PA_Value "string option"
  | PA_Values "string \<rightharpoonup> string"
  | PA_Stats "system_stats option"
  | PA_Names "string list"
  | PA_Info instance_info
  | PA_Execution execution_info
  | PA_Ids "id64 list"
  | PA_Metrics system_metrics
  | PA_Depths queue_depths
  | PA_Deleted delete_instance_result
  | PA_Pruned prune_result
  | PA_No_Management

definition answer :: "('r \<Rightarrow> provider_answer) \<Rightarrow> (provider_error + 'r) \<times> 'p \<Rightarrow> provider_answer \<times> 'p" where
  "answer f rp = (case rp of (Inl e, p) \<Rightarrow> (PA_Error e, p) | (Inr r, p) \<Rightarrow> (f r, p))"

definition manage ::
    "'p provider \<Rightarrow> ('p management_store \<Rightarrow> provider_answer \<times> 'p) \<Rightarrow> 'p \<Rightarrow> provider_answer \<times> 'p" where
  "manage pv f p = (case pv_management pv of None \<Rightarrow> (PA_No_Management, p) | Some ms \<Rightarrow> f ms)"

primrec perform :: "'p provider \<Rightarrow> provider_call \<Rightarrow> 'p \<Rightarrow> provider_answer \<times> 'p" where
  "perform pv (PC_Fetch_Orchestration lt pt flt) p = answer PA_Item (pv_fetch_orchestration_item pv lt pt flt p)"
| "perform pv (PC_Ack_Orchestration tok req) p = answer (\<lambda>_. PA_Unit) (pv_ack_orchestration_item pv tok req p)"
| "perform pv (PC_Abandon_Orchestration tok d ig) p = answer (\<lambda>_. PA_Unit) (pv_abandon_orchestration_item pv tok d ig p)"
| "perform pv (PC_Read i) p = answer PA_Events (pv_read pv i p)"
| "perform pv (PC_Read_With_Execution i x) p = answer PA_Events (pv_read_with_execution pv i x p)"
| "perform pv (PC_Append i x evs) p = answer (\<lambda>_. PA_Unit) (pv_append_with_execution pv i x evs p)"
| "perform pv (PC_Enqueue_Worker w) p = answer (\<lambda>_. PA_Unit) (pv_enqueue_for_worker pv w p)"
| "perform pv (PC_Fetch_Work lt pt ses tf) p = answer PA_Work (pv_fetch_work_item pv lt pt ses tf p)"
| "perform pv (PC_Ack_Work tok c) p = answer (\<lambda>_. PA_Unit) (pv_ack_work_item pv tok c p)"
| "perform pv (PC_Renew_Work tok ext) p = answer (\<lambda>_. PA_Unit) (pv_renew_work_item_lock pv tok ext p)"
| "perform pv (PC_Renew_Sessions os ext idle) p = answer PA_Nat (pv_renew_session_lock pv os ext idle p)"
| "perform pv (PC_Cleanup_Sessions idle) p = answer PA_Nat (pv_cleanup_orphaned_sessions pv idle p)"
| "perform pv (PC_Abandon_Work tok d ig) p = answer (\<lambda>_. PA_Unit) (pv_abandon_work_item pv tok d ig p)"
| "perform pv (PC_Renew_Orchestration tok ext) p = answer (\<lambda>_. PA_Unit) (pv_renew_orchestration_item_lock pv tok ext p)"
| "perform pv (PC_Enqueue_Orchestrator w d) p = answer (\<lambda>_. PA_Unit) (pv_enqueue_for_orchestrator pv w d p)"
| "perform pv (PC_Get_Custom_Status i v) p = answer PA_Custom_Status (pv_get_custom_status pv i v p)"
| "perform pv (PC_Get_Kv_Value i k) p = answer PA_Value (pv_get_kv_value pv i k p)"
| "perform pv (PC_Get_Kv_All_Values i) p = answer PA_Values (pv_get_kv_all_values pv i p)"
| "perform pv (PC_Get_Instance_Stats i) p = answer PA_Stats (pv_get_instance_stats pv i p)"
| "perform pv PC_List_Instances p = manage pv (\<lambda>ms. answer PA_Names (ms_list_instances ms p)) p"
| "perform pv (PC_List_Instances_By_Status st) p = manage pv (\<lambda>ms. answer PA_Names (ms_list_instances_by_status ms st p)) p"
| "perform pv (PC_Get_Instance_Info i) p = manage pv (\<lambda>ms. answer PA_Info (ms_get_instance_info ms i p)) p"
| "perform pv (PC_Get_Execution_Info i x) p = manage pv (\<lambda>ms. answer PA_Execution (ms_get_execution_info ms i x p)) p"
| "perform pv (PC_List_Executions i) p = manage pv (\<lambda>ms. answer PA_Ids (ms_list_executions ms i p)) p"
| "perform pv (PC_Read_History i x) p = manage pv (\<lambda>ms. answer PA_Events (ms_read_history_with_execution_id ms i x p)) p"
| "perform pv PC_Get_System_Metrics p = manage pv (\<lambda>ms. answer PA_Metrics (ms_get_system_metrics ms p)) p"
| "perform pv PC_Get_Queue_Depths p = manage pv (\<lambda>ms. answer PA_Depths (ms_get_queue_depths ms p)) p"
| "perform pv (PC_Get_Instance_Tree i) p = manage pv (\<lambda>ms. answer PA_Names (ms_get_instance_tree ms i p)) p"
| "perform pv (PC_Delete_Instance i force) p = manage pv (\<lambda>ms. answer PA_Deleted (ms_delete_instance ms i force p)) p"
| "perform pv (PC_Delete_Instance_Bulk flt) p = manage pv (\<lambda>ms. answer PA_Deleted (ms_delete_instance_bulk ms flt p)) p"
| "perform pv (PC_Prune i options) p = manage pv (\<lambda>ms. answer PA_Pruned (ms_prune_executions ms i options p)) p"
| "perform pv (PC_Prune_Bulk flt options) p = manage pv (\<lambda>ms. answer PA_Pruned (ms_prune_executions_bulk ms flt options p)) p"

datatype program =
    Ends bool
  | Calls provider_call "provider_answer \<Rightarrow> program"
  | Sleeps nanos program

primrec run_program :: "'p provider \<Rightarrow> (nanos \<Rightarrow> 'p \<Rightarrow> 'p) \<Rightarrow> program \<Rightarrow> 'p \<Rightarrow> bool \<times> 'p" where
  "run_program pv sleep (Ends b) p = (b, p)"
| "run_program pv sleep (Calls c k) p = (let (a, p') = perform pv c p in run_program pv sleep (k a) p')"
| "run_program pv sleep (Sleeps d k) p = run_program pv sleep k (sleep d p)"

subsection \<open>Recording metrics changes nothing\<close>

text \<open>What is left of a result when the metrics are forgotten.\<close>

definition unmetered :: "'a \<times> 'p \<times> metrics option \<Rightarrow> 'a \<times> 'p" where
  "unmetered = (\<lambda>(r, p, _). (r, p))"

lemma unmetered_forward: "unmetered (forward f (p, m)) = f p"
  by (simp add: unmetered_def forward_def split: prod.split)

lemma unmetered_recorded: "unmetered (recorded elapsed operation f (p, m)) = f p"
  by (simp add: unmetered_def recorded_def Let_def split: prod.split)

lemma unmetered_answer: "unmetered (answer g rp) = answer g (unmetered rp)"
  by (simp add: unmetered_def answer_def split: prod.split sum.split)

lemma unmetered_manage:
  "unmetered (manage (instrumented elapsed pv) f (p, m)) =
     (case pv_management pv of None \<Rightarrow> (PA_No_Management, p) | Some ms \<Rightarrow> unmetered (f (forward_management ms)))"
  by (simp add: manage_def instrumented_def unmetered_def split: option.split)

lemmas unmetered_simps = unmetered_forward unmetered_recorded unmetered_answer unmetered_manage

lemma perform_instrumented: "unmetered (perform (instrumented elapsed pv) c (p, m)) = perform pv c p"
proof (cases c)
qed (simp_all add: unmetered_simps, simp_all add: instrumented_def forward_management_def unmetered_simps manage_def
    split: option.split)

text \<open>C39. Metrics change nothing. A provider wrapped in the instrumented provider answers every program of calls
  as the provider itself does, whatever the program, whether metrics are on, and however long the calls take: the
  verdict is the same, and so is the provider's state afterwards.\<close>

theorem instrumented_transparent:
  "unmetered (run_program (instrumented elapsed pv) (\<lambda>d (p, m). (sleep d p, m)) prog (p, m)) = run_program pv sleep prog p"
proof (induction prog arbitrary: p m)
  case (Ends b)
  show ?case by (simp add: unmetered_def)
next
  case (Calls c k)
  obtain r p1 m1 where r: "perform (instrumented elapsed pv) c (p, m) = (r, p1, m1)" by (metis prod_cases3)
  with perform_instrumented [of elapsed pv c p m] have "perform pv c p = (r, p1)" by (simp add: unmetered_def)
  with r Calls [OF rangeI, of r p1 m1] show ?case by simp
next
  case (Sleeps d prog)
  then show ?case by simp
qed

end
