(* ===== verification/Programs.thy ===== *)
theory Programs
  imports Provider
begin

text \<open>
  Writing programs of provider calls the way the Rust code that makes them is written: \<open>unwrap\<close>, \<open>is_none\<close>,
  \<open>is_err\<close>, assertions, sleeps; and running them on the SQLite provider by simplification.
\<close>

subsection \<open>Calls and what is expected of their answers\<close>

text \<open>A call takes a microsecond. \<open>expect\<close> gives up (a panic) when the answer is not of the expected kind.\<close>

definition expect :: "(provider_answer \<Rightarrow> 'r option) \<Rightarrow> provider_call \<Rightarrow> ('r \<Rightarrow> program) \<Rightarrow> program" where
  "expect sel c k = Sleeps 1000 (Calls c (\<lambda>a. case sel a of Some r \<Rightarrow> k r | None \<Rightarrow> Ends False))"

definition assert_that :: "bool \<Rightarrow> program \<Rightarrow> program" where
  "assert_that b k = (if b then k else Ends False)"

fun unit_of :: "provider_answer \<Rightarrow> unit option" where
  "unit_of PA_Unit = Some ()"
| "unit_of _ = None"

fun item_of :: "provider_answer \<Rightarrow> (orchestration_item \<times> string \<times> nat) option" where
  "item_of (PA_Item i) = i"
| "item_of _ = None"

fun no_item :: "provider_answer \<Rightarrow> unit option" where
  "no_item (PA_Item None) = Some ()"
| "no_item _ = None"

fun work_of :: "provider_answer \<Rightarrow> (work_item \<times> string \<times> nat) option" where
  "work_of (PA_Work w) = w"
| "work_of _ = None"

fun no_work :: "provider_answer \<Rightarrow> unit option" where
  "no_work (PA_Work None) = Some ()"
| "no_work _ = None"

fun error_of :: "provider_answer \<Rightarrow> provider_error option" where
  "error_of (PA_Error e) = Some e"
| "error_of _ = None"

fun events_of :: "provider_answer \<Rightarrow> event list option" where
  "events_of (PA_Events evs) = Some evs"
| "events_of _ = None"

fun nat_of :: "provider_answer \<Rightarrow> nat option" where
  "nat_of (PA_Nat n) = Some n"
| "nat_of _ = None"

fun any_answer :: "provider_answer \<Rightarrow> provider_answer option" where
  "any_answer a = Some a"

text \<open>A loop over a list.\<close>

fun for_each :: "'a list \<Rightarrow> ('a \<Rightarrow> program \<Rightarrow> program) \<Rightarrow> program \<Rightarrow> program" where
  "for_each [] f k = k"
| "for_each (x # xs) f k = f x (for_each xs f k)"

lemma run_expect:
  "run_program pv sleep (expect sel c k) p =
     (case perform pv c (sleep 1000 p) of (a, p') \<Rightarrow>
        (case sel a of Some r \<Rightarrow> run_program pv sleep (k r) p' | None \<Rightarrow> (False, p')))"
  by (simp add: expect_def split: prod.split option.split)

lemma run_assert:
  "run_program pv sleep (assert_that b k) p = (if b then run_program pv sleep k p else (False, p))"
  by (simp add: assert_that_def)

subsection \<open>Running on SQLite\<close>

text \<open>The SQLite provider without database faults at a moment.\<close>

definition at :: "nanos \<Rightarrow> (event, work_item) db \<Rightarrow> (event, work_item) sqlite_env" where
  "at now db = \<lparr>en_db = db, en_now = now, en_clock = [], en_faults = [], en_pid = 7\<rparr>"

definition advance :: "nanos \<Rightarrow> ('d, 'w) sqlite_env \<Rightarrow> ('d, 'w) sqlite_env" where
  "advance d env = env\<lparr>en_now := en_now env + d\<rparr>"

definition passes :: "program \<Rightarrow> bool" where
  "passes prog = fst (run_program (sqlite_provider plain_codec) advance prog (at 1000000000 empty_db))"

lemma advance_at: "advance d (at now db) = at (now + d) db"
  by (simp add: advance_def at_def)

lemma at_now:
  "env_at_now operation f (at now db) = (case f (now_millis now) db of (r, db') \<Rightarrow> (r, at now db'))"
  by (simp add: env_at_now_def with_fault_def read_clock_def on_db_def at_def split: prod.split)

lemma at_read: "env_read operation f (at now db) = (f db, at now db)"
  by (simp add: env_read_def with_fault_def at_def)

lemma sqlite_at:
  "pv_fetch_orchestration_item (sqlite_provider cd) lt pt flt (at now db) =
     (case fetch_orchestration_item cd (now_millis now) (generate_lock_token now 7) lt flt db of (r, db') \<Rightarrow> (r, at now db'))"
  "pv_fetch_work_item (sqlite_provider cd) lt pt ses tf (at now db) =
     (if tf = TF_None then (Inr None, at now db)
      else case fetch_work_item cd (now_millis now) (generate_lock_token now 7) lt ses tf db of (r, db') \<Rightarrow> (r, at now db'))"
  "pv_abandon_orchestration_item (sqlite_provider cd) tok d ig (at now db) =
     (case abandon_orchestration_item (now_millis now) tok d ig db of (r, db') \<Rightarrow> (r, at now db'))"
  "pv_read (sqlite_provider cd) i (at now db) = (read cd i db, at now db)"
  "pv_read_with_execution (sqlite_provider cd) i x (at now db) = (read_with_execution cd i x db, at now db)"
  "pv_append_with_execution (sqlite_provider cd) i x evs (at now db) =
     (case append_with_execution cd i x evs db of (r, db') \<Rightarrow> (r, at now db'))"
  "pv_enqueue_for_worker (sqlite_provider cd) w (at now db) =
     (case enqueue_for_worker cd (now_millis now) w db of (r, db') \<Rightarrow> (r, at now db'))"
  "pv_ack_work_item (sqlite_provider cd) tok c (at now db) =
     (case ack_work_item cd (now_millis now) tok c db of (r, db') \<Rightarrow> (r, at now db'))"
  "pv_renew_work_item_lock (sqlite_provider cd) tok ext (at now db) =
     (case renew_work_item_lock (now_millis now) tok ext db of (r, db') \<Rightarrow> (r, at now db'))"
  "pv_renew_session_lock (sqlite_provider cd) os ext idle (at now db) =
     (case renew_session_lock (now_millis now) os ext idle db of (r, db') \<Rightarrow> (r, at now db'))"
  "pv_cleanup_orphaned_sessions (sqlite_provider cd) idle (at now db) =
     (case cleanup_orphaned_sessions (now_millis now) db of (r, db') \<Rightarrow> (r, at now db'))"
  "pv_abandon_work_item (sqlite_provider cd) tok d ig (at now db) =
     (case abandon_work_item (now_millis now) tok d ig db of (r, db') \<Rightarrow> (r, at now db'))"
  "pv_renew_orchestration_item_lock (sqlite_provider cd) tok ext (at now db) =
     (case renew_orchestration_item_lock (now_millis now) tok ext db of (r, db') \<Rightarrow> (r, at now db'))"
  "pv_enqueue_for_orchestrator (sqlite_provider cd) w d (at now db) =
     (case enqueue_for_orchestrator cd (now_millis now) w d db of (r, db') \<Rightarrow> (r, at now db'))"
  by (simp_all add: sqlite_provider_def env_fetch_work_item_def with_fault_def read_clock_def on_db_def at_now at_read)
    (simp_all add: with_fault_def read_clock_def on_db_def at_def split: prod.split)

lemma sqlite_at_more:
  "pv_ack_orchestration_item (sqlite_provider cd) tok req (at now db) =
     (case ack_orchestration_item cd (now_millis now) (now_millis now) tok req db of (r, db') \<Rightarrow> (r, at now db'))"
  "pv_get_custom_status (sqlite_provider cd) i v (at now db) = (Inr (get_custom_status i v db), at now db)"
  "pv_get_kv_value (sqlite_provider cd) i k (at now db) = (Inr (provider_get_kv_value i k db), at now db)"
  "pv_get_kv_all_values (sqlite_provider cd) i (at now db) = (Inr (provider_get_kv_all_values i db), at now db)"
  "pv_get_instance_stats (sqlite_provider cd) i (at now db) = (get_instance_stats cd i db, at now db)"
  by (simp_all add: sqlite_provider_def env_ack_orchestration_item_def at_read)
    (simp_all add: with_fault_def read_clock_def on_db_def at_def split: prod.split)

lemma management_at:
  "manage (sqlite_provider cd) f (at now db) = f (sqlite_management cd)"
  "ms_list_instances (sqlite_management cd) (at now db) = (Inr (list_instances db), at now db)"
  "ms_list_instances_by_status (sqlite_management cd) st (at now db) = (Inr (list_instances_by_status st db), at now db)"
  "ms_get_instance_info (sqlite_management cd) i (at now db) = (get_instance_info i db, at now db)"
  "ms_get_execution_info (sqlite_management cd) i x (at now db) = (get_execution_info i x db, at now db)"
  "ms_list_executions (sqlite_management cd) i (at now db) = (Inr (list_executions i db), at now db)"
  "ms_read_history_with_execution_id (sqlite_management cd) i x (at now db) = (read_history_with_execution_id cd i x db, at now db)"
  "ms_get_system_metrics (sqlite_management cd) (at now db) = (Inr (get_system_metrics db), at now db)"
  "ms_get_queue_depths (sqlite_management cd) (at now db) = (Inr (get_queue_depths db), at now db)"
  "ms_get_instance_tree (sqlite_management cd) i (at now db) = (tree_result (get_instance_tree i db), at now db)"
  "ms_delete_instance (sqlite_management cd) i force (at now db) =
     (case delete_instance i force db of Some (r, db') \<Rightarrow> (r, at now db') | None \<Rightarrow> (Inr delete_result_default, at now db))"
  "ms_delete_instance_bulk (sqlite_management cd) flt (at now db) =
     (case delete_instance_bulk flt db of Some (r, db') \<Rightarrow> (r, at now db') | None \<Rightarrow> (Inr delete_result_default, at now db))"
  "ms_prune_executions (sqlite_management cd) i po (at now db) =
     (case prune_executions i po db of (r, db') \<Rightarrow> (r, at now db'))"
  "ms_prune_executions_bulk (sqlite_management cd) flt po (at now db) =
     (case prune_executions_bulk flt po db of (r, db') \<Rightarrow> (r, at now db'))"
  by (simp_all add: sqlite_provider_def sqlite_management_def manage_def at_read)
    (simp_all add: with_fault_def on_db_def at_def split: prod.split option.split)

text \<open>Tokens are compared without writing their digits out.\<close>

lemma token_eq:
  "generate_lock_token t p = generate_lock_token t' p' \<longleftrightarrow> t = t' \<and> p = p'"
  "(generate_lock_token t p = c # s) = (c = CHR ''l'' \<and> tl (generate_lock_token t p) = s)"
  "(c # s = generate_lock_token t p) = (c = CHR ''l'' \<and> s = tl (generate_lock_token t p))"
  "generate_lock_token t p \<noteq> []"
  by (auto simp: generate_lock_token_inj) (auto simp: generate_lock_token_def)

lemma plain_sel:
  "cd_event plain_codec ev = ev" "cd_read_event plain_codec ev = Inr ev"
  "cd_item plain_codec wi = wi" "cd_read_item plain_codec wi = Inr wi" "cd_event_length plain_codec ev = 0"
  by (simp_all add: plain_codec_def)

lemmas prog_eval = run_expect run_assert advance_at sqlite_at sqlite_at_more management_at token_eq plain_sel
  answer_def now_millis_def from_secs_def from_millis_def sql_eval fetch_work_item_def fetch_work_tx_def

end
