(* ===== verification/Lock_Renewal.thy ===== *)
theory Lock_Renewal
  imports Provider
begin

text \<open>
  The lock renewal task that the orchestration dispatcher runs beside a turn
  (\<open>spawn_orchestration_lock_renewal_task\<close> of \<open>src/src/runtime/dispatchers/orchestration.rs\<close>), and what it
  is for: a turn may take longer than the lock timeout.
\<close>

text \<open>
  Each tick comes with the shutdown flag it reads and what the other parties did since the tick before.
  The task ends at shutdown and when a renewal fails; the dispatcher aborts it when the turn is over, which is
  the end of the list.
\<close>

fun lock_renewal_task ::
    "'p provider \<Rightarrow> string \<Rightarrow> nanos \<Rightarrow> (bool \<times> ('p \<Rightarrow> 'p)) list \<Rightarrow> 'p \<Rightarrow> 'p" where
  "lock_renewal_task store tok lock_timeout [] p = p"
| "lock_renewal_task store tok lock_timeout ((shutdown, others) # ticks) p =
     (if shutdown then fold (\<lambda>(_, f). f) ticks (others p)
      else case pv_renew_orchestration_item_lock store tok lock_timeout (others p) of
             (Inr _, p') \<Rightarrow> lock_renewal_task store tok lock_timeout ticks p'
           | (Inl _, p') \<Rightarrow> fold (\<lambda>(_, f). f) ticks p')"

text \<open>A tick on the SQLite provider: calls of the others, and the time at which it fires.\<close>

type_synonym tick = "sql_op list \<times> nanos"

definition tick_of :: "('d, 'w) codec \<Rightarrow> tick \<Rightarrow> bool \<times> (('d, 'w) sqlite_env \<Rightarrow> ('d, 'w) sqlite_env)" where
  "tick_of cd x = (False, \<lambda>env. env\<lparr>en_db := run_all cd (fst x) (en_db env), en_now := snd x\<rparr>)"

definition after_tick :: "('d, 'w) codec \<Rightarrow> string \<Rightarrow> nanos \<Rightarrow> tick \<Rightarrow> ('d, 'w) db \<Rightarrow> ('d, 'w) db" where
  "after_tick cd tok lock_timeout x db =
     sql_run cd (OP_Renew_Orchestration (now_millis (snd x)) tok lock_timeout) (run_all cd (fst x) db)"

text \<open>Every tick fires before the lock expires, and what the others do is well formed and not done with the token.\<close>

fun on_time :: "('d, 'w) codec \<Rightarrow> nanos \<Rightarrow> string \<Rightarrow> string \<Rightarrow> int \<Rightarrow> tick list \<Rightarrow> ('d, 'w) db \<Rightarrow> bool" where
  "on_time cd lock_timeout inst tok u [] db = True"
| "on_time cd lock_timeout inst tok u (x # ticks) db =
     (run_before cd u inst tok (fst x) db \<and> now_millis (snd x) < u
      \<and> on_time cd lock_timeout inst tok (timestamp_after (now_millis (snd x)) lock_timeout) ticks
          (after_tick cd tok lock_timeout x db))"

definition expiry :: "nanos \<Rightarrow> int \<Rightarrow> tick list \<Rightarrow> int" where
  "expiry lock_timeout u ticks =
     (if ticks = [] then u else timestamp_after (now_millis (snd (last ticks))) lock_timeout)"

lemma renewal_extends:
  assumes "holds_lock inst tok u db" and "now < u"
  shows "fst (renew_orchestration_item_lock now tok ext db) = Inr ()"
    and "holds_lock inst tok (timestamp_after now ext) (snd (renew_orchestration_item_lock now tok ext db))"
proof -
  from assms obtain l where l: "l \<in> set (db_instance_locks db)" "il_instance l = inst" "il_lock_token l = tok"
    "now < il_locked_until l" by (auto simp: holds_lock_def)
  then have c: "sql_count (\<lambda>l. il_lock_token l = tok \<and> now < il_locked_until l) (db_instance_locks db) \<noteq> 0"
    by (auto simp: sql_count_0)
  then show "fst (renew_orchestration_item_lock now tok ext db) = Inr ()"
    by (simp add: renew_orchestration_item_lock_def run_tx_def Let_def)
  have "l\<lparr>il_locked_until := timestamp_after now ext\<rparr> \<in> set (sql_update (\<lambda>l. il_lock_token l = tok \<and> now < il_locked_until l)
      (\<lambda>l. l\<lparr>il_locked_until := timestamp_after now ext\<rparr>) (db_instance_locks db))"
    using l by (force simp: sql_update_def)
  with l(2,3) have "holds_lock inst tok (timestamp_after now ext)
      (db\<lparr>db_instance_locks := sql_update (\<lambda>l. il_lock_token l = tok \<and> now < il_locked_until l)
         (\<lambda>l. l\<lparr>il_locked_until := timestamp_after now ext\<rparr>) (db_instance_locks db)\<rparr>)"
    unfolding holds_lock_def
    by (intro bexI [of _ "l\<lparr>il_locked_until := timestamp_after now ext\<rparr>"]) simp_all
  with c show "holds_lock inst tok (timestamp_after now ext) (snd (renew_orchestration_item_lock now tok ext db))"
    by (simp add: renew_orchestration_item_lock_def run_tx_def Let_def)
qed

lemma renew_at_tick:
  assumes "en_clock env = []" and "en_faults env = []"
  shows "pv_renew_orchestration_item_lock (sqlite_provider cd) tok ext env =
    (case renew_orchestration_item_lock (now_millis (en_now env)) tok ext (en_db env) of (r, db') \<Rightarrow> (r, env\<lparr>en_db := db'\<rparr>))"
  using assms by (simp add: sqlite_provider_def env_at_now_def with_fault_def read_clock_def on_db_def split: prod.split)

text \<open>The task keeps the lock: with ticks on time, all renewals succeed and the lock lasts a timeout from the last one.\<close>

lemma renewal_keeps_lock:
  assumes "holds_lock inst tok u (en_db env)" and "db_ok (en_db env)" and "en_clock env = []" and "en_faults env = []"
    and "on_time cd lock_timeout inst tok u ticks (en_db env)"
  defines "env' \<equiv> lock_renewal_task (sqlite_provider cd) tok lock_timeout (map (tick_of cd) ticks) env"
  shows "holds_lock inst tok (expiry lock_timeout u ticks) (en_db env') \<and> db_ok (en_db env')"
  using assms(1-5) unfolding env'_def
proof (induction ticks arbitrary: u env)
  case Nil
  then show ?case by (simp add: expiry_def)
next
  case (Cons x ticks)
  let ?now = "now_millis (snd x)" and ?db = "run_all cd (fst x) (en_db env)"
  let ?env = "env\<lparr>en_db := ?db, en_now := snd x\<rparr>"
  from Cons.prems have b: "run_before cd u inst tok (fst x) (en_db env)" and t: "?now < u"
    and rest: "on_time cd lock_timeout inst tok (timestamp_after ?now lock_timeout) ticks
      (after_tick cd tok lock_timeout x (en_db env))" by simp_all
  from run_all_keeps_lock [OF Cons.prems(1,2) b] have h: "holds_lock inst tok u ?db" "db_ok ?db" by simp_all
  obtain db2 where r: "renew_orchestration_item_lock ?now tok lock_timeout ?db = (Inr (), db2)"
    and h2: "holds_lock inst tok (timestamp_after ?now lock_timeout) db2"
    using renewal_extends [OF h(1) t, of lock_timeout] by (metis prod.collapse)
  have a: "after_tick cd tok lock_timeout x (en_db env) = db2" by (simp add: after_tick_def r)
  have "db_ok db2" using sql_run_ok [OF h(2), of "OP_Renew_Orchestration ?now tok lock_timeout"] r by simp
  moreover have "lock_renewal_task (sqlite_provider cd) tok lock_timeout (map (tick_of cd) (x # ticks)) env
      = lock_renewal_task (sqlite_provider cd) tok lock_timeout (map (tick_of cd) ticks) (?env\<lparr>en_db := db2\<rparr>)"
    using Cons.prems(3,4) r by (simp add: tick_of_def renew_at_tick)
  moreover have "expiry lock_timeout u (x # ticks) = expiry lock_timeout (timestamp_after ?now lock_timeout) ticks"
    by (simp add: expiry_def)
  ultimately show ?case
    using Cons.IH [of "timestamp_after ?now lock_timeout" "?env\<lparr>en_db := db2\<rparr>"] h2 rest Cons.prems(3,4) by (simp add: a)
qed


definition two_ticks :: "tick list" where
  "two_ticks = [([], 900000000), (other_calls, 1700000000)]"

definition long_turn :: "(event, work_item) sqlite_env" where
  "long_turn = \<lparr>en_db = snd (fetch_orchestration_item plain_codec 5 ''t'' 1000000000 None two_starts),
     en_now = 5000000, en_clock = [], en_faults = [], en_pid = 7\<rparr>"


end
