(* ===== verification/Guid.thy ===== *)
theory Guid
  imports Worker Client "HOL-Library.AList"
begin

text \<open>
  The built-in activities every runtime registers (\<open>inject_builtin_activities\<close> of \<open>src/src/runtime/mod.rs\<close>)
  and the identifiers one of them generates (\<open>generate_guid\<close> of \<open>src/src/lib.rs\<close>).
\<close>

subsection \<open>Hexadecimal numbers\<close>

definition hex_digit :: "nat \<Rightarrow> char" where
  "hex_digit d = char_of (if d < 10 then 48 + d else 87 + d)"

definition hex_value :: "char \<Rightarrow> nat" where
  "hex_value c = (if of_char c < (58::nat) then of_char c - 48 else of_char c - 87)"

fun show_hex :: "nat \<Rightarrow> string" where
  "show_hex n = (if n < 16 then [hex_digit n] else show_hex (n div 16) @ [hex_digit (n mod 16)])"

declare show_hex.simps [simp del]

text \<open>The format \<open>{:0wx}\<close>.\<close>

definition hex_padded :: "nat \<Rightarrow> nat \<Rightarrow> string" where
  "hex_padded w n = replicate (w - length (show_hex n)) CHR ''0'' @ show_hex n"

definition read_hex :: "string \<Rightarrow> nat" where
  "read_hex s = foldl (\<lambda>a c. 16 * a + hex_value c) 0 s"

lemma hex_digit_value: "d < 16 \<Longrightarrow> hex_value (hex_digit d) = d"
  by (auto simp: hex_value_def hex_digit_def)

lemma read_show_hex: "read_hex (show_hex n) = n"
proof (induction n rule: show_hex.induct)
  case (1 n)
  then show ?case
    by (cases "n < 16") (simp_all add: show_hex.simps [of n] read_hex_def hex_digit_value)
qed

lemma read_hex_padded: "read_hex (hex_padded w n) = n"
proof -
  have z: "foldl (\<lambda>a c. 16 * a + hex_value c) 0 (replicate k CHR ''0'') = 0" for k
    by (induction k) (simp_all add: hex_value_def)
  show ?thesis using read_show_hex [of n] by (simp add: read_hex_def hex_padded_def z)
qed

lemma hex_padded_inj: "hex_padded w m = hex_padded w n \<longleftrightarrow> m = n"
  by (metis read_hex_padded)

lemma show_hex_length: "n < 16 ^ Suc w \<Longrightarrow> length (show_hex n) \<le> Suc w"
proof (induction w arbitrary: n)
  case 0
  then show ?case by (simp add: show_hex.simps [of n])
next
  case (Suc w)
  show ?case
  proof (cases "n < 16")
    case True
    then show ?thesis by (simp add: show_hex.simps [of n])
  next
    case False
    from Suc.prems have "n div 16 < 16 ^ Suc w" by (simp add: less_mult_imp_div_less mult.commute)
    from Suc.IH [OF this] False show ?thesis by (simp add: show_hex.simps [of n])
  qed
qed

lemma hex_padded_length: "n < 16 ^ w \<Longrightarrow> 0 < w \<Longrightarrow> length (hex_padded w n) = w"
  using show_hex_length [of n "w - 1"] by (simp add: hex_padded_def)

subsection \<open>Identifiers\<close>

text \<open>The timestamp is the \<open>u128\<close> number of nanoseconds since 1970, the counter the thread's \<open>u32\<close> counter.\<close>

definition generate_guid :: "nat \<Rightarrow> nat \<Rightarrow> string" where
  "generate_guid timestamp counter =
     hex_padded 8 (take_bit 32 (drop_bit 96 timestamp)) @ ''-''
     @ hex_padded 4 (take_bit 16 (drop_bit 80 timestamp)) @ ''-''
     @ hex_padded 4 (take_bit 16 counter) @ ''-''
     @ hex_padded 4 (take_bit 16 (drop_bit 64 timestamp)) @ ''-''
     @ hex_padded 12 (take_bit 48 timestamp)"

text \<open>Generated identifiers repeat. Bits 48 to 63 of the clock's nanoseconds are in no group of the
  identifier, so as long as the clock fits 64 bits (until the year 2554) two identifiers are equal exactly when
  the clock differs by a multiple of \<open>2 ^ 48\<close> nanoseconds (about 3.26 days) and the counters, which
  every thread starts at zero, agree in their low 16 bits.\<close>

theorem guid_equal_iff:
  assumes "t < 2 ^ 64" and "t' < 2 ^ 64"
  shows "generate_guid t c = generate_guid t' c' \<longleftrightarrow> t mod 2 ^ 48 = t' mod 2 ^ 48 \<and> c mod 2 ^ 16 = c' mod 2 ^ 16"
proof -
  have high: "drop_bit n x = 0" if "x < 2 ^ 64" "64 \<le> n" for x n :: nat
  proof -
    have "(2::nat) ^ 64 \<le> 2 ^ n" by (rule power_increasing) (use that(2) in simp_all)
    with that(1) show ?thesis by (simp add: drop_bit_eq_div)
  qed
  have l4: "length (hex_padded 4 (x mod 65536)) = 4" for x :: nat
    by (rule hex_padded_length) simp_all
  show ?thesis
    using assms
    by (simp add: generate_guid_def high append_eq_append_conv l4 hex_padded_inj take_bit_eq_mod) auto
qed

theorem guid_equal_iff_witness:
  "generate_guid (1750000000000000000 + 2 ^ 48) 0 = generate_guid 1750000000000000000 0"
  using guid_equal_iff [of "1750000000000000000 + 2 ^ 48" 1750000000000000000 0 0] by simp

subsection \<open>The built-in activities\<close>

definition SYSCALL_ACTIVITY_NEW_GUID :: string where
  "SYSCALL_ACTIVITY_NEW_GUID = SYSCALL_ACTIVITY_PREFIX @ ''new_guid''"

definition SYSCALL_ACTIVITY_UTC_NOW_MS :: string where
  "SYSCALL_ACTIVITY_UTC_NOW_MS = SYSCALL_ACTIVITY_PREFIX @ ''utc_now_ms''"

definition SYSCALL_ACTIVITY_GET_KV_VALUE :: string where
  "SYSCALL_ACTIVITY_GET_KV_VALUE = SYSCALL_ACTIVITY_PREFIX @ ''get_kv_value''"

text \<open>What a run of a built-in reads: the clock, the thread's counter, the values of other instances, and JSON.\<close>

record builtin_env =
  be_timestamp :: nanos
  be_counter :: nat
  be_get_kv_value :: "string \<Rightarrow> string \<Rightarrow> client_error + string option"
  be_parse_input :: "string \<Rightarrow> string + string option \<times> string option"
  be_value_json :: "string option \<Rightarrow> string + string"

definition new_guid_activity :: "builtin_env \<Rightarrow> activity_handler" where
  "new_guid_activity e = (\<lambda>_ _. Task_Returned (Inr (generate_guid (be_timestamp e) (be_counter e))))"

definition utc_now_ms_activity :: "builtin_env \<Rightarrow> activity_handler" where
  "utc_now_ms_activity e = (\<lambda>_ _. Task_Returned (Inr (show_nat (be_timestamp e div 1000000 mod 2 ^ 64))))"

definition get_kv_value_activity :: "builtin_env \<Rightarrow> activity_handler" where
  "get_kv_value_activity e = (\<lambda>_ input. Task_Returned
     (case be_parse_input e input of
        Inl err \<Rightarrow> Inl (''get_kv_value: invalid input: '' @ err)
      | Inr (None, _) \<Rightarrow> Inl ''get_kv_value: missing instance_id''
      | Inr (Some _, None) \<Rightarrow> Inl ''get_kv_value: missing key''
      | Inr (Some instance_id, Some key) \<Rightarrow>
          (case be_get_kv_value e instance_id key of
             Inl err \<Rightarrow> Inl (''get_kv_value client error: '' @ client_error_text err)
           | Inr val \<Rightarrow>
               (case be_value_json e val of
                  Inl err \<Rightarrow> Inl (''get_kv_value serialization error: '' @ err)
                | Inr json \<Rightarrow> Inr json))))"

text \<open>\<open>None\<close> is the panic of \<open>expect\<close>.\<close>

definition inject_builtin_activities ::
    "('v::linorder \<Rightarrow> string) \<Rightarrow> 'v \<Rightarrow> builtin_env \<Rightarrow> ('v, activity_handler) registry
       \<Rightarrow> ('v, activity_handler) registry option" where
  "inject_builtin_activities show_version default_version e user_registry =
     (case build_result
        (register_builtin show_version default_version SYSCALL_ACTIVITY_GET_KV_VALUE (get_kv_value_activity e)
          (register_builtin show_version default_version SYSCALL_ACTIVITY_UTC_NOW_MS (utc_now_ms_activity e)
            (register_builtin show_version default_version SYSCALL_ACTIVITY_NEW_GUID (new_guid_activity e)
              (builder_from user_registry)))) of
        Inl _ \<Rightarrow> None | Inr r \<Rightarrow> Some r)"

text \<open>No name of the registry is reserved: what every registry built with \<open>register_activity\<close> satisfies.\<close>

definition unreserved :: "('v, 'h) handler_map \<Rightarrow> (string \<rightharpoonup> 'v version_policy) \<Rightarrow> bool" where
  "unreserved m pol \<longleftrightarrow> (\<forall>name. starts_with name SYSCALL_ACTIVITY_PREFIX \<longrightarrow> map_of m name = None \<and> pol name = None)"

lemma unreserved_builder: "unreserved (rb_map builder) (rb_policy builder)"
  by (simp add: unreserved_def builder_def)

lemma register_activity_unreserved:
  "unreserved (rb_map b) (rb_policy b)
    \<Longrightarrow> unreserved (rb_map (register_activity s d name h b)) (rb_policy (register_activity s d name h b))"
  by (auto simp: register_activity_def check_reserved_prefix_def register_builtin_def check_duplicate_def set_policy_def
      insert_handler_def unreserved_def update_conv' Let_def)

lemma register_fresh:
  assumes "map_of (rb_map b) name = None"
  shows "rb_errors (register_builtin s d name h b) = rb_errors b"
    and "map_of (rb_map (register_builtin s d name h b)) = (map_of (rb_map b))(name \<mapsto> [(d, h)])"
    and "rb_policy (register_builtin s d name h b) = (rb_policy b)(name \<mapsto> Latest)"
  using assms by (simp_all add: register_builtin_def check_duplicate_def versions_of_def opt_or_def bt_get_def
      set_policy_def insert_handler_def update_conv' Let_def)

lemma builtin_names:
  "SYSCALL_ACTIVITY_NEW_GUID \<noteq> SYSCALL_ACTIVITY_UTC_NOW_MS" "SYSCALL_ACTIVITY_NEW_GUID \<noteq> SYSCALL_ACTIVITY_GET_KV_VALUE"
  "SYSCALL_ACTIVITY_UTC_NOW_MS \<noteq> SYSCALL_ACTIVITY_GET_KV_VALUE"
  "starts_with SYSCALL_ACTIVITY_NEW_GUID SYSCALL_ACTIVITY_PREFIX"
  "starts_with SYSCALL_ACTIVITY_UTC_NOW_MS SYSCALL_ACTIVITY_PREFIX"
  "starts_with SYSCALL_ACTIVITY_GET_KV_VALUE SYSCALL_ACTIVITY_PREFIX"
  by (simp_all add: SYSCALL_ACTIVITY_NEW_GUID_def SYSCALL_ACTIVITY_UTC_NOW_MS_def SYSCALL_ACTIVITY_GET_KV_VALUE_def
      SYSCALL_ACTIVITY_PREFIX_def starts_with_def)

text \<open>Every runtime has the built-in activities: adding them to a registry that the public interface can
  build never panics, the three system calls of the orchestration context resolve to them, and what the user
  registered still resolves as before.\<close>

theorem builtins_available:
  assumes "unreserved (rg_inner reg) (rg_policy reg)"
  obtains r where "inject_builtin_activities s d e reg = Some r"
    and "resolve_handler SYSCALL_ACTIVITY_NEW_GUID r = Some (d, new_guid_activity e)"
    and "resolve_handler SYSCALL_ACTIVITY_UTC_NOW_MS r = Some (d, utc_now_ms_activity e)"
    and "resolve_handler SYSCALL_ACTIVITY_GET_KV_VALUE r = Some (d, get_kv_value_activity e)"
    and "\<And>name. \<not> starts_with name SYSCALL_ACTIVITY_PREFIX \<Longrightarrow> resolve_handler name r = resolve_handler name reg"
proof -
  define b0 where "b0 = builder_from reg"
  define b1 where "b1 = register_builtin s d SYSCALL_ACTIVITY_NEW_GUID (new_guid_activity e) b0"
  define b2 where "b2 = register_builtin s d SYSCALL_ACTIVITY_UTC_NOW_MS (utc_now_ms_activity e) b1"
  define b3 where "b3 = register_builtin s d SYSCALL_ACTIVITY_GET_KV_VALUE (get_kv_value_activity e) b2"
  have free: "map_of (rb_map b0) name = None" if "starts_with name SYSCALL_ACTIVITY_PREFIX" for name
    using assms that by (auto simp: b0_def builder_from_def unreserved_def)
  note b1 = register_fresh [OF free [OF builtin_names(4)], of s d "new_guid_activity e", folded b1_def]
  have "map_of (rb_map b1) SYSCALL_ACTIVITY_UTC_NOW_MS = None"
    using b1(2) free [OF builtin_names(5)] builtin_names(1) by simp
  note b2 = register_fresh [OF this, of s d "utc_now_ms_activity e", folded b2_def]
  have "map_of (rb_map b2) SYSCALL_ACTIVITY_GET_KV_VALUE = None"
    using b1(2) b2(2) free [OF builtin_names(6)] builtin_names(2,3) by simp
  note b3 = register_fresh [OF this, of s d "get_kv_value_activity e", folded b3_def]
  have "inject_builtin_activities s d e reg = Some (build b3)"
    using b1(1) b2(1) b3(1)
    by (simp add: inject_builtin_activities_def build_result_def b0_def [symmetric] b1_def [symmetric] b2_def [symmetric]
        b3_def [symmetric]) (simp add: b0_def builder_from_def)
  moreover note maps = b1(2,3) b2(2,3) b3(2,3)
  have "resolve_handler SYSCALL_ACTIVITY_NEW_GUID (build b3) = Some (d, new_guid_activity e)"
    "resolve_handler SYSCALL_ACTIVITY_UTC_NOW_MS (build b3) = Some (d, utc_now_ms_activity e)"
    "resolve_handler SYSCALL_ACTIVITY_GET_KV_VALUE (build b3) = Some (d, get_kv_value_activity e)"
    using builtin_names by (simp_all add: resolve_handler_def build_def maps opt_or_def bt_last_def)
  moreover have "resolve_handler name (build b3) = resolve_handler name reg"
    if "\<not> starts_with name SYSCALL_ACTIVITY_PREFIX" for name
  proof -
    from that builtin_names(4-6) have "name \<noteq> SYSCALL_ACTIVITY_NEW_GUID" "name \<noteq> SYSCALL_ACTIVITY_UTC_NOW_MS"
      "name \<noteq> SYSCALL_ACTIVITY_GET_KV_VALUE" by auto
    then have "map_of (rg_inner (build b3)) name = map_of (rg_inner reg) name"
      "rg_policy (build b3) name = rg_policy reg name"
      by (simp_all add: build_def maps) (simp_all add: b0_def builder_from_def)
    then show ?thesis
      by (cases "opt_or (rg_policy reg name) Latest") (auto simp: resolve_handler_def cong: option.case_cong)
  qed
  ultimately show thesis using that by blast
qed

end
