(* ===== verification/Runtime_Start.thy ===== *)
theory Runtime_Start
  imports Programs Lock_Renewal Guid
begin

text \<open>
  The runtime around its dispatchers (\<open>src/src/runtime/mod.rs\<close>): options and their check, the
  gauges and their poller, the tasks that \<open>start_with_options\<close> spawns and what \<open>shutdown\<close> does to them.
\<close>

subsection \<open>Options\<close>

datatype log_format = LF_Json | LF_Pretty | LF_Compact

record observability_config =
  oc_log_format :: log_format
  oc_log_level :: string
  oc_service_name :: string
  oc_service_version :: "string option"
  oc_gauge_poll_interval :: nanos

definition observability_default :: observability_config where
  "observability_default = \<lparr>oc_log_format = LF_Pretty, oc_log_level = ''info'', oc_service_name = ''duroxide'',
     oc_service_version = None, oc_gauge_poll_interval = from_secs 60\<rparr>"

definition default_filter_expression :: "string \<Rightarrow> string" where
  "default_filter_expression level = ''warn,duroxide::orchestration='' @ level @ '',duroxide::activity='' @ level"

record runtime_options =
  ro_dispatcher_min_poll_interval :: nanos
  ro_dispatcher_long_poll_timeout :: nanos
  ro_orchestration_concurrency :: nat
  ro_worker_concurrency :: nat
  ro_orchestrator_lock_timeout :: nanos
  ro_orchestrator_lock_renewal_buffer :: nanos
  ro_worker_lock_timeout :: nanos
  ro_worker_lock_renewal_buffer :: nanos
  ro_observability :: observability_config
  ro_base_delay :: nanos
  ro_max_delay :: nanos
  ro_max_attempts :: nat
  ro_activity_cancellation_grace_period :: nanos
  ro_supported_replay_versions :: "sem_ver semver_range option"
  ro_session_lock_timeout :: nanos
  ro_session_lock_renewal_buffer :: nanos
  ro_session_idle_timeout :: nanos
  ro_session_cleanup_interval :: nanos
  ro_max_sessions_per_runtime :: nat
  ro_worker_node_id :: "string option"
  ro_worker_tag_filter :: tag_filter

text \<open>\<open>UnregisteredBackoffConfig::default\<close> and \<open>RuntimeOptions::default\<close>.\<close>

definition unregistered_backoff_default :: "nanos \<times> nanos" where
  "unregistered_backoff_default = (from_secs 1, from_secs 60)"

definition runtime_options_default :: runtime_options where
  "runtime_options_default =
     \<lparr>ro_dispatcher_min_poll_interval = from_millis 100, ro_dispatcher_long_poll_timeout = from_secs 30,
      ro_orchestration_concurrency = 2, ro_worker_concurrency = 2,
      ro_orchestrator_lock_timeout = from_secs 5, ro_orchestrator_lock_renewal_buffer = from_secs 2,
      ro_worker_lock_timeout = from_secs 30, ro_worker_lock_renewal_buffer = from_secs 5,
      ro_observability = observability_default, ro_base_delay = fst unregistered_backoff_default,
      ro_max_delay = snd unregistered_backoff_default, ro_max_attempts = 10,
      ro_activity_cancellation_grace_period = from_secs 10, ro_supported_replay_versions = None,
      ro_session_lock_timeout = from_secs 30, ro_session_lock_renewal_buffer = from_secs 5,
      ro_session_idle_timeout = from_secs 300, ro_session_cleanup_interval = from_secs 300,
      ro_max_sessions_per_runtime = 10, ro_worker_node_id = None, ro_worker_tag_filter = TF_DefaultOnly\<rparr>"

text \<open>What the worker dispatcher reads of the options.\<close>

definition worker_options_of :: "runtime_options \<Rightarrow> worker_options" where
  "worker_options_of opts =
     \<lparr>wo_max_sessions_per_runtime = ro_max_sessions_per_runtime opts,
      wo_session_lock_timeout = ro_session_lock_timeout opts,
      wo_session_idle_timeout = ro_session_idle_timeout opts,
      wo_worker_lock_timeout = ro_worker_lock_timeout opts,
      wo_worker_tag_filter = ro_worker_tag_filter opts, wo_max_attempts = ro_max_attempts opts,
      wo_base_delay = ro_base_delay opts, wo_max_delay = ro_max_delay opts\<rparr>"

text \<open>The replay versions the dispatcher asks for, and the range it checks again after the fetch.\<close>

definition range_for_build :: "sem_ver \<Rightarrow> sem_ver semver_range" where
  "range_for_build build_version = \<lparr>sr_min = Sem_Ver 0 0 0, sr_max = build_version\<rparr>"

definition capability_filter :: "sem_ver \<Rightarrow> runtime_options \<Rightarrow> sem_ver semver_range list" where
  "capability_filter build_version opts =
     (case ro_supported_replay_versions opts of Some r \<Rightarrow> [r] | None \<Rightarrow> [range_for_build build_version])"

definition runtime_supported_range :: "sem_ver \<Rightarrow> runtime_options \<Rightarrow> sem_ver semver_range" where
  "runtime_supported_range build_version opts =
     (case ro_supported_replay_versions opts of Some r \<Rightarrow> r | None \<Rightarrow> range_for_build build_version)"

lemma filter_is_range: "is_compatible v (capability_filter b opts) \<longleftrightarrow> range_contains v (runtime_supported_range b opts)"
  by (simp add: is_compatible_def capability_filter_def runtime_supported_range_def split: option.split)

text \<open>The check of \<open>start_with_options\<close>: \<open>Some\<close> is the panic's message.\<close>

definition worker_renewal_interval :: "runtime_options \<Rightarrow> nanos" where
  "worker_renewal_interval opts =
     (if ro_worker_lock_renewal_buffer opts \<le> ro_worker_lock_timeout opts
      then ro_worker_lock_timeout opts - ro_worker_lock_renewal_buffer opts else from_secs 1)"

definition options_panic :: "runtime_options \<Rightarrow> string option" where
  "options_panic opts =
     (if ro_session_idle_timeout opts \<le> worker_renewal_interval opts
      then Some (''session_idle_timeout ('' @ show_nat (ro_session_idle_timeout opts div 1000000000)
        @ ''s) must be greater than worker lock renewal interval ('' @ show_nat (worker_renewal_interval opts div 1000000000)
        @ ''s). Sessions would unpin during long-running activity execution. ''
        @ ''Increase session_idle_timeout or decrease worker_lock_timeout.'')
      else None)"

text \<open>The check keeps sessions: with a lock timeout of at least 15 seconds, and a buffer that leaves at least
  a second of it, an activity's lock, and with it its session's activity time, is renewed before the session counts as idle.\<close>

theorem accepted_options_keep_sessions:
  assumes "options_panic opts = None" and "from_secs 15 \<le> ro_worker_lock_timeout opts"
    and "ro_worker_lock_renewal_buffer opts + from_secs 1 \<le> ro_worker_lock_timeout opts"
  shows "calculate_renewal_interval (ro_worker_lock_timeout opts) (ro_worker_lock_renewal_buffer opts)
      < ro_session_idle_timeout opts"
  using assms by (auto simp: options_panic_def worker_renewal_interval_def calculate_renewal_interval_def Let_def
      split: if_splits)

theorem accepted_options_keep_sessions_witness:
  "calculate_renewal_interval (from_secs 30) (from_secs 5) < from_secs 300"
  using accepted_options_keep_sessions [of runtime_options_default]
  by (simp add: runtime_options_default_def options_panic_def worker_renewal_interval_def from_secs_def)

definition session_work :: "nat \<Rightarrow> work_item" where
  "session_work i = WI_ActivityExecute ''inst'' 1 i ''act'' ''{}'' (Some ''session'') None"

definition short_lock_options :: runtime_options where
  "short_lock_options = runtime_options_default\<lparr>ro_worker_lock_timeout := from_secs 10,
     ro_worker_lock_renewal_buffer := from_secs 9, ro_session_lock_timeout := from_secs 8,
     ro_session_idle_timeout := from_secs 2\<rparr>"

text \<open>
  A runtime with these options and one with the same options on another node: the activity's owner
  renews its lock and its sessions at the intervals its dispatcher computes, for as long as the activity runs.
\<close>

definition session_taken_over :: "runtime_options \<Rightarrow> program" where
  "session_taken_over opts =
     (let lock_timeout = ro_worker_lock_timeout opts;
          renewal = calculate_renewal_interval lock_timeout (ro_worker_lock_renewal_buffer opts);
          session_renewal = calculate_renewal_interval (ro_session_lock_timeout opts) (ro_session_lock_renewal_buffer opts);
          idle = ro_session_idle_timeout opts;
          fetch = (\<lambda>owner. PC_Fetch_Work lock_timeout 0
            (Some \<lparr>sf_owner_id = owner, sf_lock_timeout = ro_session_lock_timeout opts\<rparr>) TF_DefaultOnly);
          renew_sessions = PC_Renew_Sessions [''owner''] (ro_session_lock_timeout opts) idle
      in expect unit_of (PC_Enqueue_Worker (session_work 1)) (\<lambda>_.
         expect unit_of (PC_Enqueue_Worker (session_work 2)) (\<lambda>_.
         expect work_of (fetch ''owner'') (\<lambda>(w1, tok1, _).
         Sleeps session_renewal (
         expect nat_of renew_sessions (\<lambda>renewed.
         assert_that (w1 = session_work 1 \<and> renewed = 0) (
         Sleeps (renewal - session_renewal) (
         expect unit_of (PC_Renew_Work tok1 lock_timeout) (\<lambda>_.
         Sleeps (2 * session_renewal - renewal) (
         expect nat_of renew_sessions (\<lambda>renewed.
         assert_that (renewed = 0) (
         expect work_of (fetch ''other'') (\<lambda>(w2, _, _).
         Ends (w2 = session_work 2))))))))))))))"

text \<open>The check of the options is not the one its message promises. Options it accepts let a session be
  taken from a runtime that is alive and renews everything on time: below 15 seconds the lock is
  renewed at half its timeout, not at timeout minus buffer, so the session counts as idle between two renewals of its running
  activity, its lock is not renewed and expires, and another worker gets the session's next activity.\<close>

theorem options_check_too_weak:
  "options_panic short_lock_options = None \<and> passes (session_taken_over short_lock_options)"
  by (simp add: short_lock_options_def runtime_options_default_def options_panic_def worker_renewal_interval_def
      passes_def session_taken_over_def calculate_renewal_interval_def session_work_def prog_eval
      renew_session_lock_def renew_work_item_lock_def del: plain_codec_def cong: let_weak_cong)

subsection \<open>Gauges\<close>

record metrics_snapshot =
  sn_orch_starts :: nat
  sn_orch_completions :: nat
  sn_orch_failures :: nat
  sn_orch_application_errors :: nat
  sn_orch_infrastructure_errors :: nat
  sn_orch_configuration_errors :: nat
  sn_orch_poison :: nat
  sn_activity_success :: nat
  sn_activity_app_errors :: nat
  sn_activity_infra_errors :: nat
  sn_activity_config_errors :: nat
  sn_activity_poison :: nat
  sn_orch_dispatcher_items_fetched :: nat
  sn_worker_dispatcher_items_fetched :: nat
  sn_orch_continue_as_new :: nat
  sn_suborchestration_calls :: nat
  sn_provider_errors :: nat

definition snapshot :: "metrics \<Rightarrow> metrics_snapshot" where
  "snapshot m = \<lparr>sn_orch_starts = unat (mt_orch_starts m), sn_orch_completions = unat (mt_orch_completions m),
     sn_orch_failures = unat (mt_orch_failures m),
     sn_orch_application_errors = unat (mt_orch_application_errors m),
     sn_orch_infrastructure_errors = unat (mt_orch_infrastructure_errors m),
     sn_orch_configuration_errors = unat (mt_orch_configuration_errors m), sn_orch_poison = unat (mt_orch_poison m),
     sn_activity_success = unat (mt_activity_success m), sn_activity_app_errors = unat (mt_activity_app_errors m),
     sn_activity_infra_errors = unat (mt_activity_infra_errors m),
     sn_activity_config_errors = unat (mt_activity_config_errors m), sn_activity_poison = unat (mt_activity_poison m),
     sn_orch_dispatcher_items_fetched = unat (mt_orch_dispatcher_items_fetched m),
     sn_worker_dispatcher_items_fetched = unat (mt_worker_dispatcher_items_fetched m),
     sn_orch_continue_as_new = unat (mt_orch_continue_as_new m),
     sn_suborchestration_calls = unat (mt_suborchestration_calls m), sn_provider_errors = unat (mt_provider_errors m)\<rparr>"

text \<open>Both queries are made whatever the other gives; a gauge whose query failed keeps its value.\<close>

definition refresh_gauges :: "'p provider \<Rightarrow> metrics \<Rightarrow> 'p \<Rightarrow> metrics \<times> 'p" where
  "refresh_gauges store m p =
     (case pv_management store of
        None \<Rightarrow> (m, p)
      | Some admin \<Rightarrow>
          (let (system_result, p1) = ms_get_system_metrics admin p;
               (queue_result, p2) = ms_get_queue_depths admin p1;
               m1 = (case system_result of
                       Inr sm \<Rightarrow> set_active_orchestrations (of_nat (sm_running_instances sm)) m | Inl _ \<Rightarrow> m);
               m2 = (case queue_result of
                       Inr d \<Rightarrow> update_queue_depths (of_nat (qd_orchestrator_queue d)) (of_nat (qd_worker_queue d)) m1
                     | Inl _ \<Rightarrow> m1)
           in (m2, p2)))"

text \<open>At the start the queries are made also when there are no metrics.\<close>

definition initialize_gauges :: "'p provider \<Rightarrow> metrics option \<Rightarrow> 'p \<Rightarrow> metrics option \<times> 'p" where
  "initialize_gauges store mo p =
     (case pv_management store of
        None \<Rightarrow> (mo, p)
      | Some admin \<Rightarrow>
          (let (system_result, p1) = ms_get_system_metrics admin p;
               (queue_result, p2) = ms_get_queue_depths admin p1
           in (map_option (\<lambda>m.
                 let m1 = (case system_result of
                             Inr sm \<Rightarrow> set_active_orchestrations (of_nat (sm_running_instances sm)) m | Inl _ \<Rightarrow> m)
                 in case queue_result of
                      Inr d \<Rightarrow> update_queue_depths (of_nat (qd_orchestrator_queue d)) (of_nat (qd_worker_queue d)) m1
                    | Inl _ \<Rightarrow> m1) mo, p2)))"

text \<open>The poller: what the others do before each tick, and the shutdown flag it then reads.\<close>

fun gauge_poller :: "'p provider \<Rightarrow> (bool \<times> ('p \<Rightarrow> 'p)) list \<Rightarrow> metrics \<times> 'p \<Rightarrow> metrics \<times> 'p" where
  "gauge_poller store [] mp = mp"
| "gauge_poller store ((shutdown, others) # ticks) mp =
     (let p = others (snd mp)
      in if shutdown then (fst mp, fold (\<lambda>(_, f). f) ticks p)
         else gauge_poller store ticks (refresh_gauges store (fst mp) p))"

text \<open>After a refresh the gauges are those of the store: what the counting missed is made up for.\<close>

lemma refresh_gauges_exact:
  assumes "en_faults env = []"
  shows "\<exists>m'. refresh_gauges (sqlite_provider cd) m env = (m', env)
    \<and> mt_active_orchestrations m' = of_nat (sm_running_instances (get_system_metrics (en_db env)))
    \<and> mt_orch_queue_depth m' = of_nat (qd_orchestrator_queue (get_queue_depths (en_db env)))
    \<and> mt_worker_queue_depth m' = of_nat (qd_worker_queue (get_queue_depths (en_db env)))"
  using assms
  by (simp add: refresh_gauges_def sqlite_provider_def sqlite_management_def env_read_def with_fault_def
      update_queue_depths_def set_active_orchestrations_def emit_def)

end
