(* ===== verification/Runtime_Tasks.thy ===== *)
theory Runtime_Tasks
  imports Runtime_Start
begin

text \<open>
  The tasks of a runtime (\<open>start_with_options\<close>, \<open>shutdown\<close> of \<open>src/src/runtime/mod.rs\<close>; the two
  \<open>start_\<dots>_dispatcher\<close> functions of \<open>src/src/runtime/dispatchers\<close>) as a step relation. What a slot does with the work it
  finds is in the theories of the dispatchers; here it counts only when slots begin to fetch. Spawned tasks run
  detached: when a task is aborted or its join handle is dropped, the tasks it spawned go on (the documented behaviour of
  \<open>tokio::spawn\<close>). A slot whose task panics, which ends it as well, is left out.
\<close>

subsection \<open>Tasks\<close>

datatype task =
    Gauge_Poller
  | Orch_Dispatcher
  | Work_Dispatcher
  | Orch_Slot nat
  | Work_Slot nat
  | Session_Manager

fun is_dispatcher :: "task \<Rightarrow> bool" where
  "is_dispatcher Orch_Dispatcher = True"
| "is_dispatcher Work_Dispatcher = True"
| "is_dispatcher _ = False"

fun is_slot :: "task \<Rightarrow> bool" where
  "is_slot (Orch_Slot _) = True"
| "is_slot (Work_Slot _) = True"
| "is_slot _ = False"

text \<open>What a dispatcher's task spawns when it first runs, and then waits for.\<close>

fun spawned_by :: "runtime_options \<Rightarrow> task \<Rightarrow> task list" where
  "spawned_by opts Orch_Dispatcher = map Orch_Slot [0..<ro_orchestration_concurrency opts]"
| "spawned_by opts Work_Dispatcher = map Work_Slot [0..<ro_worker_concurrency opts] @ [Session_Manager]"
| "spawned_by opts _ = []"

record runtime_state =
  rs_running :: "task list"
  rs_entered :: "task list"
  rs_busy :: "task list"
  rs_joins :: "task list"
  rs_shutdown_flag :: bool
  rs_fetches :: nat

text \<open>\<open>start_with_options\<close>; \<open>None\<close> is the panic of the check of the options.\<close>

definition start_runtime :: "runtime_options \<Rightarrow> bool \<Rightarrow> runtime_state option" where
  "start_runtime opts observed =
     (if options_panic opts \<noteq> None then None
      else let joins = (if observed then [Gauge_Poller] else []) @ [Orch_Dispatcher, Work_Dispatcher]
           in Some \<lparr>rs_running = joins, rs_entered = [], rs_busy = [], rs_joins = joins,
                rs_shutdown_flag = False, rs_fetches = 0\<rparr>)"

definition end_task :: "task \<Rightarrow> runtime_state \<Rightarrow> runtime_state" where
  "end_task t s = s\<lparr>rs_running := filter (\<lambda>x. x \<noteq> t) (rs_running s)\<rparr>"

text \<open>
  A slot that is not busy reads the flag: it ends, or it fetches and, when it finds work, is busy until it has processed it.
  The poller of the gauges and the session manager read the flag at their ticks; a tick that finds it clear changes nothing here.
\<close>

inductive runtime_step :: "runtime_options \<Rightarrow> runtime_state \<Rightarrow> runtime_state \<Rightarrow> bool" for opts where
  step_enter: "t \<in> set (rs_running s) \<Longrightarrow> is_dispatcher t \<Longrightarrow> t \<notin> set (rs_entered s) \<Longrightarrow>
     runtime_step opts s (s\<lparr>rs_running := rs_running s @ spawned_by opts t, rs_entered := t # rs_entered s\<rparr>)"
| step_joined: "t \<in> set (rs_running s) \<Longrightarrow> is_dispatcher t \<Longrightarrow> t \<in> set (rs_entered s) \<Longrightarrow>
     set (spawned_by opts t) \<inter> set (rs_running s) = {} \<Longrightarrow> runtime_step opts s (end_task t s)"
| step_exit: "t \<in> set (rs_running s) \<Longrightarrow> \<not> is_dispatcher t \<Longrightarrow> t \<notin> set (rs_busy s) \<Longrightarrow> rs_shutdown_flag s \<Longrightarrow>
     runtime_step opts s (end_task t s)"
| step_fetch: "t \<in> set (rs_running s) \<Longrightarrow> is_slot t \<Longrightarrow> t \<notin> set (rs_busy s) \<Longrightarrow> \<not> rs_shutdown_flag s \<Longrightarrow>
     runtime_step opts s (s\<lparr>rs_fetches := rs_fetches s + 1, rs_busy := (if found then t # rs_busy s else rs_busy s)\<rparr>)"
| step_processed: "t \<in> set (rs_busy s) \<Longrightarrow>
     runtime_step opts s (s\<lparr>rs_busy := filter (\<lambda>x. x \<noteq> t) (rs_busy s)\<rparr>)"

text \<open>\<open>shutdown\<close>: without a timeout the tasks it has handles of are aborted and nothing else is done; otherwise the flag is set,
  time passes (steps of the runtime), and then the handles are aborted.\<close>

definition abort_joins :: "runtime_state \<Rightarrow> runtime_state" where
  "abort_joins s = s\<lparr>rs_running := filter (\<lambda>t. t \<notin> set (rs_joins s)) (rs_running s), rs_joins := []\<rparr>"

definition set_shutdown_flag :: "runtime_state \<Rightarrow> runtime_state" where
  "set_shutdown_flag s = s\<lparr>rs_shutdown_flag := True\<rparr>"

inductive shutdown :: "runtime_options \<Rightarrow> nat option \<Rightarrow> runtime_state \<Rightarrow> runtime_state \<Rightarrow> bool" for opts where
  shutdown_now: "shutdown opts (Some 0) s (abort_joins s)"
| shutdown_gracefully: "timeout_ms \<noteq> Some 0 \<Longrightarrow> (runtime_step opts)\<^sup>*\<^sup>* (set_shutdown_flag s) s' \<Longrightarrow>
     shutdown opts timeout_ms s (abort_joins s')"

inductive_cases shutdown_now_cases: "shutdown opts (Some 0) s s'"
inductive_cases shutdown_cases: "shutdown opts timeout_ms s s'"

subsection \<open>Immediate shutdown\<close>

lemma slot_not_dispatcher: "is_slot t \<Longrightarrow> \<not> is_dispatcher t"
  by (cases t) simp_all

lemma step_keeps:
  assumes "runtime_step opts s s'" and "\<not> rs_shutdown_flag s"
  shows "\<not> rs_shutdown_flag s' \<and> (is_slot t \<longrightarrow> t \<in> set (rs_running s) \<longrightarrow> t \<in> set (rs_running s'))"
  using assms by (cases rule: runtime_step.cases) (auto simp: end_task_def dest: slot_not_dispatcher)

lemma steps_keep:
  assumes "(runtime_step opts)\<^sup>*\<^sup>* s s'" and "\<not> rs_shutdown_flag s" and "is_slot t" and "t \<in> set (rs_running s)"
  shows "\<not> rs_shutdown_flag s' \<and> t \<in> set (rs_running s')"
  using assms by (induction rule: rtranclp_induct) (auto dest: step_keeps)

lemma slot_not_joined: "start_runtime opts observed = Some s0 \<Longrightarrow> is_slot t \<Longrightarrow> t \<notin> set (rs_joins s0)"
  by (auto simp: start_runtime_def Let_def split: if_splits)

lemma step_joins: "runtime_step opts s s' \<Longrightarrow> rs_joins s' = rs_joins s"
  by (cases rule: runtime_step.cases) (auto simp: end_task_def)

lemma steps_joins: "(runtime_step opts)\<^sup>*\<^sup>* s s' \<Longrightarrow> rs_joins s' = rs_joins s"
  by (induction rule: rtranclp_induct) (auto dest: step_joins)

lemma started_flag: "start_runtime opts observed = Some s0 \<Longrightarrow> \<not> rs_shutdown_flag s0"
  by (auto simp: start_runtime_def Let_def split: if_splits)

lemma slot_fetches:
  assumes "is_slot t" and "t \<in> set (rs_running s)" and "\<not> rs_shutdown_flag s" and "t \<notin> set (rs_busy s)"
  obtains s' where "runtime_step opts s s'" and "rs_fetches s' = rs_fetches s + 1"
  using step_fetch [OF assms(2,1,4,3), of opts False] by (rule that) simp

lemma fetches_again:
  assumes "is_slot t" and "t \<in> set (rs_running s)" and "\<not> rs_shutdown_flag s"
  shows "\<exists>s'. (runtime_step opts)\<^sup>*\<^sup>* s s' \<and> rs_fetches s' = rs_fetches s + 1"
proof (cases "t \<in> set (rs_busy s)")
  case True
  define s1 where "s1 = s\<lparr>rs_busy := filter (\<lambda>x. x \<noteq> t) (rs_busy s)\<rparr>"
  have first: "runtime_step opts s s1" unfolding s1_def by (rule step_processed [OF True])
  obtain s2 where "runtime_step opts s1 s2" "rs_fetches s2 = rs_fetches s1 + 1"
    by (rule slot_fetches [of t s1]) (use assms in \<open>simp_all add: s1_def\<close>)
  with first show ?thesis by (intro exI [of _ s2]) (auto simp: s1_def intro: rtranclp.intros)
next
  case False
  with assms obtain s' where "runtime_step opts s s'" "rs_fetches s' = rs_fetches s + 1"
    by (rule slot_fetches)
  then show ?thesis by blast
qed

text \<open>C40. Immediate shutdown does not stop the runtime. \<open>shutdown(Some(0))\<close> aborts the dispatchers' own tasks,
  which only wait, and does not set the shutdown flag: every slot a dispatcher has started goes on for ever, and can
  fetch again from every state it comes to, so a process that shut its runtime down still takes and runs work.\<close>

theorem immediate_shutdown_keeps_slots:
  assumes "start_runtime opts observed = Some s0" and "(runtime_step opts)\<^sup>*\<^sup>* s0 s"
    and "is_slot t" and "t \<in> set (rs_running s)" and "shutdown opts (Some 0) s s1" and "(runtime_step opts)\<^sup>*\<^sup>* s1 s2"
  shows "t \<in> set (rs_running s2) \<and> (\<exists>s3. (runtime_step opts)\<^sup>*\<^sup>* s2 s3 \<and> rs_fetches s3 = rs_fetches s2 + 1)"
proof -
  from assms(5) have s1: "s1 = abort_joins s" by (cases rule: shutdown_now_cases) simp_all
  have "rs_joins s = rs_joins s0" by (rule steps_joins [OF assms(2)])
  then have r: "t \<in> set (rs_running s1)"
    using slot_not_joined [OF assms(1,3)] assms(4) by (simp add: s1 abort_joins_def)
  have "\<not> rs_shutdown_flag s"
    using assms(2) started_flag [OF assms(1)] by (induction rule: rtranclp_induct) (auto dest: step_keeps)
  then have f: "\<not> rs_shutdown_flag s1" by (simp add: s1 abort_joins_def)
  from steps_keep [OF assms(6) f assms(3) r] have "\<not> rs_shutdown_flag s2" "t \<in> set (rs_running s2)" by simp_all
  with fetches_again [OF assms(3)] show ?thesis by blast
qed

text \<open>A run of a runtime with two slots of each kind: both dispatchers start, a worker slot has work, then \<open>shutdown(Some(0))\<close>.\<close>

definition started :: runtime_state where
  "started = \<lparr>rs_running = [Orch_Dispatcher, Work_Dispatcher], rs_entered = [], rs_busy = [],
     rs_joins = [Orch_Dispatcher, Work_Dispatcher], rs_shutdown_flag = False, rs_fetches = 0\<rparr>"

definition working :: runtime_state where
  "working = started\<lparr>rs_running := [Orch_Dispatcher, Work_Dispatcher, Work_Slot 0, Work_Slot 1, Session_Manager],
     rs_entered := [Work_Dispatcher]\<rparr>"

lemma started_working: "runtime_step runtime_options_default started working"
  using step_enter [of Work_Dispatcher started runtime_options_default]
  by (simp add: started_def working_def runtime_options_default_def upt_rec)

theorem immediate_shutdown_keeps_slots_witness:
  "Work_Slot 1 \<in> set (rs_running (abort_joins working))
   \<and> (\<exists>s3. (runtime_step runtime_options_default)\<^sup>*\<^sup>* (abort_joins working) s3 \<and> rs_fetches s3 = 1)"
proof -
  have "start_runtime runtime_options_default False = Some started"
    by (simp add: start_runtime_def started_def options_panic_def worker_renewal_interval_def runtime_options_default_def
        from_secs_def Let_def)
  moreover have "(runtime_step runtime_options_default)\<^sup>*\<^sup>* started working"
    using started_working by (rule r_into_rtranclp)
  moreover have "Work_Slot 1 \<in> set (rs_running working)" by (simp add: working_def)
  moreover have "rs_fetches (abort_joins working) = 0" by (simp add: abort_joins_def working_def started_def)
  ultimately show ?thesis
    using immediate_shutdown_keeps_slots [of runtime_options_default False started working "Work_Slot 1"
        "abort_joins working" "abort_joins working"] shutdown_now by simp
qed

subsection \<open>Graceful shutdown\<close>

text \<open>What is left to do once the flag is set.\<close>

definition to_spawn :: "runtime_options \<Rightarrow> task \<Rightarrow> runtime_state \<Rightarrow> nat" where
  "to_spawn opts t s = (if t \<in> set (rs_running s) \<and> t \<notin> set (rs_entered s) then length (spawned_by opts t) + 1 else 0)"

definition left_to_do :: "runtime_options \<Rightarrow> runtime_state \<Rightarrow> nat" where
  "left_to_do opts s = length (rs_running s) + length (rs_busy s)
     + to_spawn opts Orch_Dispatcher s + to_spawn opts Work_Dispatcher s"

lemma filter_shorter: "t \<in> set xs \<Longrightarrow> length (filter (\<lambda>x. x \<noteq> t) xs) < length xs"
  by (rule length_filter_less) simp_all

lemma spawned_not_dispatchers: "t \<in> set (spawned_by opts d) \<Longrightarrow> \<not> is_dispatcher t"
  by (cases d) auto

lemma shutting_down_step:
  assumes "runtime_step opts s s'" and "rs_shutdown_flag s"
  shows "rs_shutdown_flag s' \<and> rs_fetches s' = rs_fetches s \<and> left_to_do opts s' < left_to_do opts s"
  using assms
proof (cases rule: runtime_step.cases)
  case (step_enter t)
  have d: "x \<notin> set (spawned_by opts t)" if "is_dispatcher x" for x
    using spawned_not_dispatchers that by blast
  from step_enter(3) have "t = Orch_Dispatcher \<or> t = Work_Dispatcher" by (cases t) simp_all
  with step_enter(2,4) assms(2) show ?thesis
    by (auto simp: step_enter(1) left_to_do_def to_spawn_def)
next
  case (step_joined t)
  from filter_shorter [OF step_joined(2)] assms(2) show ?thesis
    by (auto simp: step_joined(1) left_to_do_def to_spawn_def end_task_def)
next
  case (step_exit t)
  from filter_shorter [OF step_exit(2)] assms(2) show ?thesis
    by (auto simp: step_exit(1) left_to_do_def to_spawn_def end_task_def)
next
  case (step_processed t)
  from filter_shorter [OF step_processed(2)] assms(2) show ?thesis
    by (simp add: step_processed(1) left_to_do_def to_spawn_def)
qed simp_all

lemma stuck_has_ended:
  assumes "rs_shutdown_flag s" and stuck: "\<And>s'. \<not> runtime_step opts s s'"
  shows "rs_running s = []"
proof -
  have "rs_busy s = []" using stuck step_processed by (metis list.set_intros(1) neq_Nil_conv)
  then have n: "is_dispatcher t" if "t \<in> set (rs_running s)" for t
    using step_exit [OF that] assms by fastforce
  then have e: "t \<in> set (rs_entered s)" if "t \<in> set (rs_running s)" for t
    using step_enter [OF that] stuck that by blast
  have "set (spawned_by opts t) \<inter> set (rs_running s) = {}" for t
    using n spawned_not_dispatchers by blast
  then have "t \<notin> set (rs_running s)" for t
    using step_joined [of t s opts] n e stuck by blast
  then show ?thesis by (meson last_in_set)
qed

text \<open>C35. Graceful shutdown ends. Once the flag is set no slot fetches any more and every run of the runtime's tasks is
  finite, whatever the tasks do in which order; when none can go on, every task has ended. So all
  tasks end without being aborted if the timeout is long enough for the work at hand. (An activity that hangs takes no
  step: its slot then outlives the shutdown, since only the dispatchers' own tasks are aborted.)\<close>

theorem graceful_shutdown_ends:
  assumes "rs_shutdown_flag s"
  shows "(\<nexists>f. f 0 = s \<and> (\<forall>i. runtime_step opts (f i) (f (Suc i))))
    \<and> (\<forall>s'. (runtime_step opts)\<^sup>*\<^sup>* s s' \<longrightarrow> rs_fetches s' = rs_fetches s
         \<and> ((\<nexists>s''. runtime_step opts s' s'') \<longrightarrow> rs_running s' = []))"
proof (intro conjI allI impI)
  have keep: "rs_shutdown_flag s' \<and> rs_fetches s' = rs_fetches s" if "(runtime_step opts)\<^sup>*\<^sup>* s s'" for s'
    using that assms by (induction rule: rtranclp_induct) (auto dest: shutting_down_step)
  show "rs_fetches s' = rs_fetches s" if "(runtime_step opts)\<^sup>*\<^sup>* s s'" for s' using keep [OF that] by simp
  show "rs_running s' = []" if "(runtime_step opts)\<^sup>*\<^sup>* s s'" "\<nexists>s''. runtime_step opts s' s''" for s'
    using keep [OF that(1)] that(2) stuck_has_ended by blast
  show "\<nexists>f. f 0 = s \<and> (\<forall>i. runtime_step opts (f i) (f (Suc i)))"
  proof
    assume "\<exists>f. f 0 = s \<and> (\<forall>i. runtime_step opts (f i) (f (Suc i)))"
    then obtain f where f: "f 0 = s" "\<And>i. runtime_step opts (f i) (f (Suc i))" by blast
    have flag: "rs_shutdown_flag (f i)" for i
      by (induction i) (use f assms shutting_down_step in auto)
    have "left_to_do opts (f i) + i \<le> left_to_do opts s" for i
    proof (induction i)
      case (Suc i)
      with shutting_down_step [OF f(2) flag, of i] show ?case by linarith
    qed (simp add: f(1))
    from this [of "Suc (left_to_do opts s)"] show False by simp
  qed
qed

theorem graceful_shutdown_ends_witness:
  "\<nexists>f. f 0 = set_shutdown_flag working \<and> (\<forall>i. runtime_step runtime_options_default (f i) (f (Suc i)))"
  using graceful_shutdown_ends [of "set_shutdown_flag working" runtime_options_default]
  by (simp add: set_shutdown_flag_def)

end
