(* ===== verification/Typed.thy ===== *)
theory Typed
  imports Guid Retry Kv_Store
begin

text \<open>
  The typed layer: the private codec of \<open>src/src/lib.rs\<close> (\<open>_typed_codec\<close>), the typed variants of the scheduling
  API, of the client (\<open>src/src/client/mod.rs\<close>) and of registration (\<open>src/src/runtime/registry.rs\<close>), and the calls of
  the orchestration context that go through the built-in activities. \<open>serde_json\<close> is a parameter: how a type is
  turned into a JSON value and back, and how values are written and parsed.
\<close>

subsection \<open>The codec\<close>

datatype json =
    J_Null
  | J_Bool bool
  | J_Number string
  | J_String string
  | J_Array "json list"
  | J_Object "(string \<times> json) list"

record 't serde =
  sd_to_value :: "'t \<Rightarrow> string + json"
  sd_from_value :: "json \<Rightarrow> string + 't"
  sd_show :: "json \<Rightarrow> string"
  sd_parse :: "string \<Rightarrow> string + json"

text \<open>\<open>serde_json::from_str\<close> and \<open>to_string\<close> at a type.\<close>

definition from_str :: "'t serde \<Rightarrow> string \<Rightarrow> string + 't" where
  "from_str sd s = and_then (sd_parse sd s) (sd_from_value sd)"

definition to_json :: "'t serde \<Rightarrow> 't \<Rightarrow> string + string" where
  "to_json sd v = and_then (sd_to_value sd v) (\<lambda>j. Inr (sd_show sd j))"

text \<open>A JSON string is written without its quotes; what is not the JSON of the type is read as a string.\<close>

definition json_encode :: "'t serde \<Rightarrow> 't \<Rightarrow> string + string" where
  "json_encode sd v =
     (case sd_to_value sd v of
        Inr (J_String s) \<Rightarrow> Inr s
      | Inr j \<Rightarrow> Inr (sd_show sd j)
      | Inl e \<Rightarrow> Inl e)"

definition json_decode :: "'t serde \<Rightarrow> string \<Rightarrow> string + 't" where
  "json_decode sd s =
     (case from_str sd s of
        Inr v \<Rightarrow> Inr v
      | Inl _ \<Rightarrow> sd_from_value sd (J_String s))"

subsection \<open>Typed futures\<close>

text \<open>\<open>DurableFuture::map\<close> keeps the token, the kind and with them what dropping the future does.\<close>

definition typed_poll ::
    "(fut_output \<Rightarrow> 'a) \<Rightarrow> durable_future \<Rightarrow> ctx_inner \<Rightarrow> 'a option \<times> durable_future \<times> ctx_inner" where
  "typed_poll g f c = (case df_poll f c of (r, f', c') \<Rightarrow> (map_option g r, f', c'))"

text \<open>The result of an activity or a sub-orchestration; the other outputs do not occur for their kinds.\<close>

definition decode_result :: "'t serde \<Rightarrow> fut_output \<Rightarrow> string + 't" where
  "decode_result sd r = (case r of FO_Result x \<Rightarrow> and_then x (json_decode sd) | _ \<Rightarrow> Inl [])"

text \<open>The data of an event; \<open>None\<close> is the panic of \<open>expect("decode")\<close>.\<close>

definition decode_data :: "'t serde \<Rightarrow> fut_output \<Rightarrow> 't option" where
  "decode_data sd r =
     (case r of FO_Data s \<Rightarrow> (case json_decode sd s of Inr v \<Rightarrow> Some v | Inl _ \<Rightarrow> None) | _ \<Rightarrow> None)"

text \<open>Scheduling with an encoded input; \<open>None\<close> is the panic of \<open>expect("encode")\<close>.\<close>

definition with_payload :: "'i serde \<Rightarrow> 'i \<Rightarrow> (string \<Rightarrow> 'r) \<Rightarrow> 'r option" where
  "with_payload sd input f = (case json_encode sd input of Inr payload \<Rightarrow> Some (f payload) | Inl _ \<Rightarrow> None)"

definition schedule_activity_typed ::
    "'i serde \<Rightarrow> string \<Rightarrow> 'i \<Rightarrow> ctx_inner \<Rightarrow> (durable_future \<times> ctx_inner) option" where
  "schedule_activity_typed sd name input c = with_payload sd input (\<lambda>payload. schedule_activity name payload c)"

definition schedule_activity_on_session_typed ::
    "'i serde \<Rightarrow> string \<Rightarrow> 'i \<Rightarrow> string \<Rightarrow> ctx_inner \<Rightarrow> (durable_future \<times> ctx_inner) option" where
  "schedule_activity_on_session_typed sd name input session_id c =
     with_payload sd input (\<lambda>payload. schedule_activity_on_session name payload session_id c)"

definition schedule_sub_orchestration_typed ::
    "'i serde \<Rightarrow> string \<Rightarrow> 'i \<Rightarrow> ctx_inner \<Rightarrow> (durable_future \<times> ctx_inner) option" where
  "schedule_sub_orchestration_typed sd name input c =
     with_payload sd input (\<lambda>payload. schedule_sub_orchestration_internal name None None payload c)"

definition schedule_sub_orchestration_with_id_typed ::
    "'i serde \<Rightarrow> string \<Rightarrow> string \<Rightarrow> 'i \<Rightarrow> ctx_inner \<Rightarrow> (durable_future \<times> ctx_inner) option" where
  "schedule_sub_orchestration_with_id_typed sd name inst input c =
     with_payload sd input (\<lambda>payload. schedule_sub_orchestration_internal name None (Some inst) payload c)"

definition schedule_orchestration_typed ::
    "'i serde \<Rightarrow> string \<Rightarrow> string \<Rightarrow> 'i \<Rightarrow> ctx_inner \<Rightarrow> ctx_inner option" where
  "schedule_orchestration_typed sd name inst input c =
     with_payload sd input (\<lambda>payload. schedule_orchestration name inst payload c)"

definition schedule_orchestration_versioned_typed ::
    "'i serde \<Rightarrow> string \<Rightarrow> string option \<Rightarrow> string \<Rightarrow> 'i \<Rightarrow> ctx_inner \<Rightarrow> ctx_inner option" where
  "schedule_orchestration_versioned_typed sd name version inst input c =
     with_payload sd input (\<lambda>payload. schedule_orchestration_versioned name version inst payload c)"

definition continue_as_new_typed :: "'i serde \<Rightarrow> 'i \<Rightarrow> ctx_inner \<Rightarrow> ctx_inner option" where
  "continue_as_new_typed sd input c = with_payload sd input (\<lambda>payload. continue_as_new payload c)"

text \<open>The retry loop is that of the untyped call; its result is decoded once, at the end.\<close>

definition retry_call_typed :: "'i serde \<Rightarrow> string \<Rightarrow> 'i \<Rightarrow> string option \<Rightarrow> retry_call option" where
  "retry_call_typed sd name input sess =
     with_payload sd input (\<lambda>payload. \<lparr>rc_name = name, rc_input = payload, rc_session = sess\<rparr>)"

definition retry_result_typed :: "'t serde \<Rightarrow> string + string \<Rightarrow> string + 't" where
  "retry_result_typed sd r = and_then r (json_decode sd)"

subsection \<open>Values\<close>

text \<open>Values of the key-value store keep their quotes: they use \<open>to_string\<close> and \<open>from_str\<close>.\<close>

definition set_kv_value_typed :: "'t serde \<Rightarrow> millis \<Rightarrow> string \<Rightarrow> 't \<Rightarrow> ctx_inner \<Rightarrow> ctx_inner option" where
  "set_kv_value_typed sd now key v c =
     (case to_json sd v of Inr s \<Rightarrow> Some (set_kv_value now key s c) | Inl _ \<Rightarrow> None)"

definition get_kv_value_typed :: "'t serde \<Rightarrow> string \<Rightarrow> ctx_inner \<Rightarrow> string + 't option" where
  "get_kv_value_typed sd key c =
     (case get_kv_value key c of
        None \<Rightarrow> Inr None
      | Some s \<Rightarrow>
          (case from_str sd s of
             Inr v \<Rightarrow> Inr (Some v)
           | Inl e \<Rightarrow> Inl (''KV deserialization error for key '' @ CHR 0x27 # key @ CHR 0x27 # '': '' @ e)))"

text \<open>The values of another instance, read by the built-in activity; the input of the activity is an object of two strings.\<close>

definition get_kv_value_from_instance ::
    "(string \<Rightarrow> string \<Rightarrow> string) \<Rightarrow> string \<Rightarrow> string \<Rightarrow> ctx_inner \<Rightarrow> durable_future \<times> ctx_inner" where
  "get_kv_value_from_instance input_json instance_id key =
     schedule_activity SYSCALL_ACTIVITY_GET_KV_VALUE (input_json instance_id key)"

definition instance_value :: "string option serde \<Rightarrow> fut_output \<Rightarrow> string + string option" where
  "instance_value sd r =
     (case r of
        FO_Result (Inr json_str) \<Rightarrow>
          (case from_str sd json_str of
             Inr v \<Rightarrow> Inr v
           | Inl e \<Rightarrow> Inl (''get_kv_value_from_instance deserialization error: '' @ e))
      | FO_Result (Inl e) \<Rightarrow> Inl e
      | _ \<Rightarrow> Inl [])"

definition instance_value_typed :: "string option serde \<Rightarrow> 't serde \<Rightarrow> fut_output \<Rightarrow> string + 't option" where
  "instance_value_typed sdo sd r =
     (case instance_value sdo r of
        Inr None \<Rightarrow> Inr None
      | Inr (Some s) \<Rightarrow>
          (case from_str sd s of
             Inr v \<Rightarrow> Inr (Some v)
           | Inl e \<Rightarrow> Inl (''get_kv_value_from_instance_typed deserialization error: '' @ e))
      | Inl e \<Rightarrow> Inl e)"

subsection \<open>Identifiers and time\<close>

definition new_guid :: "ctx_inner \<Rightarrow> durable_future \<times> ctx_inner" where
  "new_guid = schedule_activity SYSCALL_ACTIVITY_NEW_GUID []"

definition utc_now :: "ctx_inner \<Rightarrow> durable_future \<times> ctx_inner" where
  "utc_now = schedule_activity SYSCALL_ACTIVITY_UTC_NOW_MS []"

text \<open>\<open>str::parse::<u64>\<close>.\<close>

fun parse_digits :: "nat \<Rightarrow> string \<Rightarrow> string + nat" where
  "parse_digits acc [] = Inr acc"
| "parse_digits acc (c # cs) =
     (if \<not> (48 \<le> (of_char c :: nat) \<and> of_char c < (58 :: nat)) then Inl ''invalid digit found in string''
      else let v = acc * 10 + (of_char c - 48)
           in if u64_max < v then Inl ''number too large to fit in target type'' else parse_digits v cs)"

definition parse_u64 :: "string \<Rightarrow> string + nat" where
  "parse_u64 s =
     (case s of
        [] \<Rightarrow> Inl ''cannot parse integer from empty string''
      | c # cs \<Rightarrow> if c = CHR ''+'' \<and> cs \<noteq> [] then parse_digits 0 cs else parse_digits 0 s)"

text \<open>The time in milliseconds since 1970 that the awaited activity gives.\<close>

definition utc_now_result :: "fut_output \<Rightarrow> string + millis" where
  "utc_now_result r = (case r of FO_Result x \<Rightarrow> and_then x parse_u64 | _ \<Rightarrow> Inl [])"

lemma parse_digits_append:
  "parse_digits a (xs @ [c]) = and_then (parse_digits a xs) (\<lambda>v. parse_digits v [c])"
  by (induction xs arbitrary: a) (auto simp: and_then_def Let_def)

lemma parse_show_nat: "n \<le> u64_max \<Longrightarrow> parse_digits 0 (show_nat n) = Inr n"
proof (induction n rule: show_nat.induct)
  case (1 n)
  show ?case
  proof (cases "n < 10")
    case True
    with "1.prems" show ?thesis by (simp add: show_nat.simps [of n])
  next
    case False
    then have "parse_digits 0 (show_nat (n div 10)) = Inr (n div 10)"
      using "1.IH" "1.prems" by (meson div_le_dividend le_trans)
    with False "1.prems" show ?thesis
      by (simp add: show_nat.simps [of n] parse_digits_append and_then_def)
  qed
qed

text \<open>The time an orchestration reads is the one the built-in activity saw, in whole milliseconds.\<close>

lemma utc_now_reads_clock:
  assumes "utc_now_ms_activity e ctx input = Task_Returned r"
  shows "utc_now_result (FO_Result r) = Inr (be_timestamp e div 1000000 mod 2 ^ 64)"
proof -
  have plus: "hd (show_nat n) \<noteq> CHR ''+''" and ne: "show_nat n \<noteq> []" for n
  proof -
    show "show_nat n \<noteq> []" by (simp add: show_nat.simps [of n])
    show "hd (show_nat n) \<noteq> CHR ''+''"
    proof (induction n rule: show_nat.induct)
      case (1 n)
      have "show_nat (n div 10) \<noteq> []" by (simp add: show_nat.simps [of "n div 10"])
      moreover have "char_of (48 + n) \<noteq> CHR ''+''" if "n < 10"
      proof
        assume "char_of (48 + n) = CHR ''+''"
        then have "of_char (char_of (48 + n) :: char) = (43 :: nat)" by simp
        with that show False by simp
      qed
      ultimately show ?case using 1 by (simp add: show_nat.simps [of n])
    qed
  qed
  let ?n = "be_timestamp e div 1000000 mod 2 ^ 64"
  have "parse_u64 (show_nat ?n) = Inr ?n"
    using plus [of ?n] ne [of ?n] parse_show_nat [of ?n]
    by (cases "show_nat ?n") (simp_all add: parse_u64_def u64_max_def)
  with assms show ?thesis by (auto simp: utc_now_ms_activity_def utc_now_result_def and_then_def)
qed

subsection \<open>The typed client\<close>

text \<open>Where the client maps an encoding error; \<open>None\<close> is a panic, or a wait that does not end.\<close>

definition encoded_input ::
    "'i serde \<Rightarrow> 'i \<Rightarrow> (string \<Rightarrow> 'p \<Rightarrow> (client_error + unit) \<times> 'p) \<Rightarrow> 'p \<Rightarrow> (client_error + unit) \<times> 'p" where
  "encoded_input sd input f p =
     (case json_encode sd input of
        Inl e \<Rightarrow> (Inl (CE_InvalidInput (''encode: '' @ e)), p)
      | Inr payload \<Rightarrow> f payload p)"

definition start_orchestration_typed ::
    "'p client_store \<Rightarrow> 'i serde \<Rightarrow> string \<Rightarrow> string \<Rightarrow> 'i \<Rightarrow> 'p \<Rightarrow> (client_error + unit) \<times> 'p" where
  "start_orchestration_typed cs sd inst orchestration input =
     encoded_input sd input (start_orchestration cs inst orchestration)"

definition start_orchestration_versioned_typed ::
    "'p client_store \<Rightarrow> 'i serde \<Rightarrow> string \<Rightarrow> string \<Rightarrow> string \<Rightarrow> 'i \<Rightarrow> 'p \<Rightarrow> (client_error + unit) \<times> 'p" where
  "start_orchestration_versioned_typed cs sd inst orchestration version input =
     encoded_input sd input (start_orchestration_versioned cs inst orchestration version)"

definition raise_event_typed ::
    "'p client_store \<Rightarrow> 't serde \<Rightarrow> string \<Rightarrow> string \<Rightarrow> 't \<Rightarrow> 'p \<Rightarrow> ((client_error + unit) \<times> 'p) option" where
  "raise_event_typed cs sd inst event_name v p = with_payload sd v (\<lambda>payload. raise_event cs inst event_name payload p)"

definition enqueue_event_typed ::
    "'p client_store \<Rightarrow> 't serde \<Rightarrow> string \<Rightarrow> string \<Rightarrow> 't \<Rightarrow> 'p \<Rightarrow> ((client_error + unit) \<times> 'p) option" where
  "enqueue_event_typed cs sd inst queue v p = with_payload sd v (\<lambda>payload. enqueue_event cs inst queue payload p)"

text \<open>A wait that returns a status that is not terminal would be the \<open>unreachable!\<close> panic.\<close>

definition wait_for_orchestration_typed ::
    "'p client_store \<Rightarrow> 't serde \<Rightarrow> string \<Rightarrow> nanos \<Rightarrow> 'p \<Rightarrow> ((client_error + (string + 't)) \<times> 'p) option" where
  "wait_for_orchestration_typed cs sd inst timeout p =
     (case wait_for_orchestration cs inst timeout p of
        None \<Rightarrow> None
      | Some (Inl e, p') \<Rightarrow> Some (Inl e, p')
      | Some (Inr (OS_Completed output _ _), p') \<Rightarrow>
          Some ((case json_decode sd output of
                   Inr v \<Rightarrow> Inr (Inr v) | Inl e \<Rightarrow> Inl (CE_InvalidInput (''decode failed: '' @ e))), p')
      | Some (Inr (OS_Failed details _ _), p') \<Rightarrow> Some (Inr (Inl (display_message details)), p')
      | Some (Inr _, p') \<Rightarrow> None)"

definition decode_kv :: "'t serde \<Rightarrow> string \<Rightarrow> client_error + 't" where
  "decode_kv sd s =
     (case from_str sd s of Inr v \<Rightarrow> Inr v | Inl e \<Rightarrow> Inl (CE_InvalidInput (''KV deserialization error: '' @ e)))"

definition client_get_kv_value_typed ::
    "'p client_store \<Rightarrow> 't serde \<Rightarrow> string \<Rightarrow> string \<Rightarrow> 'p \<Rightarrow> (client_error + 't option) \<times> 'p" where
  "client_get_kv_value_typed cs sd inst key p =
     (case client_get_kv_value cs inst key p of
        (Inl e, p') \<Rightarrow> (Inl e, p')
      | (Inr None, p') \<Rightarrow> (Inr None, p')
      | (Inr (Some s), p') \<Rightarrow> (and_then (decode_kv sd s) (\<lambda>v. Inr (Some v)), p'))"

definition wait_for_kv_value_typed ::
    "'p client_store \<Rightarrow> 't serde \<Rightarrow> string \<Rightarrow> string \<Rightarrow> nanos \<Rightarrow> 'p \<Rightarrow> ((client_error + 't) \<times> 'p) option" where
  "wait_for_kv_value_typed cs sd inst key timeout p =
     map_option (\<lambda>(r, p'). (and_then r (decode_kv sd), p')) (wait_for_kv_value cs inst key timeout p)"

subsection \<open>Typed handlers\<close>

text \<open>The wrapper around a typed activity, and its registration.\<close>

definition typed_activity ::
    "'i serde \<Rightarrow> 'o serde \<Rightarrow> (activity_context \<Rightarrow> 'i \<Rightarrow> string + 'o) \<Rightarrow> activity_context \<Rightarrow> string \<Rightarrow> string + string" where
  "typed_activity sdi sdo f ctx input_s =
     and_then (json_decode sdi input_s) (\<lambda>input. and_then (f ctx input) (json_encode sdo))"

definition register_activity_typed ::
    "('v::linorder \<Rightarrow> string) \<Rightarrow> 'v \<Rightarrow> 'i serde \<Rightarrow> 'o serde \<Rightarrow> string \<Rightarrow> (activity_context \<Rightarrow> 'i \<Rightarrow> string + 'o)
       \<Rightarrow> ('v, activity_handler) registry_builder \<Rightarrow> ('v, activity_handler) registry_builder" where
  "register_activity_typed show_version default_version sdi sdo name f =
     register_activity show_version default_version name (\<lambda>ctx input. Task_Returned (typed_activity sdi sdo f ctx input))"

subsection \<open>What survives the codec\<close>


definition quoted :: string where
  "quoted = [CHR 0x22, CHR ''a'', CHR 0x22]"

text \<open>Enough of \<open>String\<close>'s JSON for the example: strings of letters in quotes.\<close>

definition letters_serde :: "string serde" where
  "letters_serde = \<lparr>sd_to_value = (\<lambda>s. Inr (J_String s)),
     sd_from_value = (\<lambda>j. case j of J_String s \<Rightarrow> Inr s | _ \<Rightarrow> Inl ''expected a string''),
     sd_show = (\<lambda>j. case j of J_String s \<Rightarrow> CHR 0x22 # s @ [CHR 0x22] | _ \<Rightarrow> ''null''),
     sd_parse = (\<lambda>s. case s of
        c # cs \<Rightarrow> if c = CHR 0x22 \<and> cs \<noteq> [] \<and> last cs = CHR 0x22 then Inr (J_String (butlast cs)) else Inl ''syntax''
      | [] \<Rightarrow> Inl ''EOF'')\<rparr>"


end
