(* ===== verification/Turso_Pool.thy ===== *)
theory Turso_Pool
  imports Sql_Provider Client
begin

text \<open>
  \<open>src/providers/turso.rs\<close>, module \<open>sqlx\<close>: the values and rows of the compatibility layer and its connection
  pool. The engine is the crate \<open>turso\<close>: how a connection of type \<open>'c\<close> executes a statement is the parameter
  \<open>exec\<close>, and what the pool relies on of it is \<open>engine_ok\<close>.
\<close>

subsection \<open>Errors\<close>

datatype turso_error = Busy string | Busy_Snapshot string | Turso_Err string | Turso_Other string

datatype sqlx_error = SE_Turso turso_error | SE_Protocol string | Row_Not_Found

definition is_turso_transaction_retryable :: "sqlx_error \<Rightarrow> bool" where
  "is_turso_transaction_retryable e =
     (case e of
        SE_Turso (Busy _) \<Rightarrow> True
      | SE_Turso (Busy_Snapshot _) \<Rightarrow> True
      | SE_Turso (Turso_Err msg) \<Rightarrow> contains_str (to_lowercase msg) ''conflict''
      | _ \<Rightarrow> False)"

definition is_no_active_transaction_error :: "turso_error \<Rightarrow> bool" where
  "is_no_active_transaction_error e =
     (case e of
        Turso_Err msg \<Rightarrow> contains_str (to_lowercase msg) ''cannot rollback''
          \<and> contains_str (to_lowercase msg) ''no transaction is active''
      | _ \<Rightarrow> False)"

subsection \<open>Values\<close>

text \<open>
  \<open>turso::Value\<close>; the type of its reals, their text and their conversion to \<open>i64\<close>, and the decoding of
  UTF-8 are parameters.
\<close>

datatype 'r turso_value = TV_Null | TV_Integer int | TV_Real 'r | TV_Text string | TV_Blob string

record 'r value_host =
  vh_real_text :: "'r \<Rightarrow> string"
  vh_real_int :: "'r \<Rightarrow> int"
  vh_utf8 :: "string \<Rightarrow> string + string"

text \<open>\<open>i64::to_string\<close> and \<open>str::parse::<i64>\<close>.\<close>

definition show_i64 :: "int \<Rightarrow> string" where
  "show_i64 i = (if i < 0 then ''-'' @ show_nat (nat (- i)) else show_nat (nat i))"

definition digit_value :: "char \<Rightarrow> nat option" where
  "digit_value c = (let n = of_char c :: nat in if 48 \<le> n \<and> n \<le> 57 then Some (n - 48) else None)"

fun magnitude :: "nat \<Rightarrow> string \<Rightarrow> nat option" where
  "magnitude acc [] = Some acc"
| "magnitude acc (c # cs) = (case digit_value c of None \<Rightarrow> None | Some d \<Rightarrow> magnitude (10 * acc + d) cs)"

definition parse_i64 :: "string \<Rightarrow> string + int" where
  "parse_i64 s =
     (if s = '''' then Inl ''cannot parse integer from empty string''
      else let negative = (hd s = CHR ''-'');
               ds = (if hd s = CHR ''-'' \<or> hd s = CHR ''+'' then tl s else s)
           in if ds = '''' then Inl ''invalid digit found in string''
              else case magnitude 0 ds of
                None \<Rightarrow> Inl ''invalid digit found in string''
              | Some n \<Rightarrow>
                  if negative
                  then (if int n > 2 ^ 63 then Inl ''number too small to fit in target type'' else Inr (- int n))
                  else (if int n > i64_max then Inl ''number too large to fit in target type'' else Inr (int n)))"

definition string_of_value :: "'r value_host \<Rightarrow> 'r turso_value option \<Rightarrow> sqlx_error + string" where
  "string_of_value h value =
     (case value of
        Some (TV_Text v) \<Rightarrow> Inr v
      | Some (TV_Integer v) \<Rightarrow> Inr (show_i64 v)
      | Some (TV_Real v) \<Rightarrow> Inr (vh_real_text h v)
      | Some (TV_Blob v) \<Rightarrow>
          (case vh_utf8 h v of Inr s \<Rightarrow> Inr s | Inl e \<Rightarrow> Inl (SE_Protocol (''invalid UTF-8 blob: '' @ e)))
      | Some TV_Null \<Rightarrow> Inl (SE_Protocol ''unexpected NULL'')
      | None \<Rightarrow> Inl (SE_Protocol ''missing column''))"

definition i64_of_value :: "'r value_host \<Rightarrow> 'r turso_value option \<Rightarrow> sqlx_error + int" where
  "i64_of_value h value =
     (case value of
        Some (TV_Integer v) \<Rightarrow> Inr v
      | Some (TV_Text v) \<Rightarrow>
          (case parse_i64 v of
             Inr i \<Rightarrow> Inr i
           | Inl e \<Rightarrow> Inl (SE_Protocol (''failed to parse integer '' @ [CHR 0x27] @ v @ [CHR 0x27] @ '': '' @ e)))
      | Some (TV_Real v) \<Rightarrow> Inr (vh_real_int h v)
      | Some TV_Null \<Rightarrow> Inl (SE_Protocol ''unexpected NULL'')
      | Some (TV_Blob _) \<Rightarrow> Inl (SE_Protocol ''unexpected BLOB'')
      | None \<Rightarrow> Inl (SE_Protocol ''missing column''))"

definition optional_value ::
    "('r turso_value option \<Rightarrow> sqlx_error + 'a) \<Rightarrow> 'r turso_value option \<Rightarrow> sqlx_error + 'a option" where
  "optional_value f value =
     (case value of
        Some TV_Null \<Rightarrow> Inr None | None \<Rightarrow> Inr None
      | Some v \<Rightarrow> map_sum id Some (f (Some v)))"

text \<open>\<open>u64_to_turso_integer\<close> panics beyond \<open>i64::MAX\<close>.\<close>

definition u64_to_turso_integer :: "64 word \<Rightarrow> int option" where
  "u64_to_turso_integer value = (if int (unat value) \<le> i64_max then Some (int (unat value)) else None)"

definition value_of_u64 :: "64 word \<Rightarrow> 'r turso_value option" where
  "value_of_u64 value = map_option TV_Integer (u64_to_turso_integer value)"

definition value_of_option :: "('a \<Rightarrow> 'r turso_value) \<Rightarrow> 'a option \<Rightarrow> 'r turso_value" where
  "value_of_option f v = (case v of Some x \<Rightarrow> f x | None \<Rightarrow> TV_Null)"

text \<open>Rows: \<open>columns\<close> maps a name to the index of its last column of that name.\<close>

record 'r db_row =
  dr_values :: "'r turso_value list"
  dr_columns :: "string \<rightharpoonup> nat"

definition column_map :: "string list \<Rightarrow> string \<rightharpoonup> nat" where
  "column_map names = map_of (rev (zip names [0 ..< length names]))"

definition column_at :: "nat \<Rightarrow> 'r db_row \<Rightarrow> sqlx_error + nat" where
  "column_at i row =
     (if i < length (dr_values row) then Inr i
      else Inl (SE_Protocol (''column index '' @ show_nat i @ '' out of bounds'')))"

definition column_named :: "string \<Rightarrow> 'r db_row \<Rightarrow> sqlx_error + nat" where
  "column_named name row =
     (case dr_columns row name of
        Some i \<Rightarrow> Inr i
      | None \<Rightarrow> Inl (SE_Protocol (''column '' @ [CHR 0x27] @ name @ [CHR 0x27] @ '' not found'')))"

definition try_get ::
    "('r turso_value option \<Rightarrow> sqlx_error + 'a) \<Rightarrow> (sqlx_error + nat) \<Rightarrow> 'r db_row \<Rightarrow> sqlx_error + 'a" where
  "try_get f index row =
     (case index of
        Inl e \<Rightarrow> Inl e
      | Inr i \<Rightarrow> f (if i < length (dr_values row) then Some (dr_values row ! i) else None))"

subsection \<open>The pool\<close>

record 'c conn_state =
  cs_conn :: 'c
  cs_rollback_needed :: bool

text \<open>The idle connections (a stack, its top at the end), the permits of the semaphore, the configuration.\<close>

record 'c conn_pool =
  po_idle :: "'c conn_state list"
  po_available :: nat
  po_size :: nat
  po_begin_statement :: string

type_synonym 'c engine = "string \<Rightarrow> 'c \<Rightarrow> (turso_error + nat) \<times> 'c"

text \<open>\<open>PoolOptions::max_connections\<close> is at least one.\<close>

definition pool_connect :: "'c \<Rightarrow> nat \<Rightarrow> string \<Rightarrow> 'c conn_pool" where
  "pool_connect conn max_connections begin_statement =
     (let n = max max_connections 1
      in \<lparr>po_idle = replicate n \<lparr>cs_conn = conn, cs_rollback_needed = False\<rparr>, po_available = n, po_size = n,
          po_begin_statement = begin_statement\<rparr>)"

definition rollback_if_needed :: "'c engine \<Rightarrow> 'c conn_state \<Rightarrow> (sqlx_error + unit) \<times> 'c conn_state" where
  "rollback_if_needed exec st =
     (if \<not> cs_rollback_needed st then (Inr (), st)
      else case exec ''ROLLBACK'' (cs_conn st) of
        (Inr _, c) \<Rightarrow> (Inr (), \<lparr>cs_conn = c, cs_rollback_needed = False\<rparr>)
      | (Inl e, c) \<Rightarrow>
          if is_no_active_transaction_error e then (Inr (), \<lparr>cs_conn = c, cs_rollback_needed = False\<rparr>)
          else (Inl (SE_Turso e), \<lparr>cs_conn = c, cs_rollback_needed = True\<rparr>))"

text \<open>A \<open>PooledConnection\<close> that is dropped goes back on the stack, and then its permit.\<close>

definition drop_conn :: "'c conn_state \<Rightarrow> 'c conn_pool \<Rightarrow> 'c conn_pool" where
  "drop_conn st p = p\<lparr>po_idle := po_idle p @ [st], po_available := Suc (po_available p)\<rparr>"

text \<open>\<open>None\<close>: no permit is available, the call waits.\<close>

definition pool_acquire :: "'c engine \<Rightarrow> 'c conn_pool \<Rightarrow> ((sqlx_error + 'c conn_state) \<times> 'c conn_pool) option" where
  "pool_acquire exec p =
     (if po_available p = 0 then None
      else if po_idle p = [] then Some (Inl (SE_Protocol ''Turso connection pool exhausted''), p)
      else let p' = p\<lparr>po_idle := butlast (po_idle p), po_available := po_available p - 1\<rparr>
           in case rollback_if_needed exec (last (po_idle p)) of
             (Inr _, st) \<Rightarrow> Some (Inr st, p')
           | (Inl e, st) \<Rightarrow> Some (Inl e, drop_conn st p'))"

text \<open>What is checked out: a plain connection, or a transaction with its \<open>active\<close> flag.\<close>

datatype 'c guard = G_Conn "'c conn_state" | G_Tx "'c conn_state" bool

definition pool_begin :: "'c engine \<Rightarrow> 'c conn_pool \<Rightarrow> ((sqlx_error + 'c guard) \<times> 'c conn_pool) option" where
  "pool_begin exec p =
     (case pool_acquire exec p of
        None \<Rightarrow> None
      | Some (Inl e, p') \<Rightarrow> Some (Inl e, p')
      | Some (Inr st, p') \<Rightarrow>
          (case exec (po_begin_statement p) (cs_conn st) of
             (Inr _, c) \<Rightarrow> Some (Inr (G_Tx (st\<lparr>cs_conn := c\<rparr>) True), p')
           | (Inl e, c) \<Rightarrow> Some (Inl (SE_Turso e), drop_conn (st\<lparr>cs_conn := c\<rparr>) p')))"

text \<open>\<open>Transaction::drop\<close> marks the connection of a transaction that is still active.\<close>

fun drop_guard :: "'c guard \<Rightarrow> 'c conn_pool \<Rightarrow> 'c conn_pool" where
  "drop_guard (G_Conn st) p = drop_conn st p"
| "drop_guard (G_Tx st active) p = drop_conn (if active then st\<lparr>cs_rollback_needed := True\<rparr> else st) p"

text \<open>\<open>Transaction::commit\<close> and \<open>Transaction::rollback\<close> consume the transaction: it is dropped at their end.\<close>

definition tx_end :: "'c engine \<Rightarrow> string \<Rightarrow> 'c conn_state \<Rightarrow> 'c conn_pool \<Rightarrow> (sqlx_error + unit) \<times> 'c conn_pool" where
  "tx_end exec statement st p =
     (case exec statement (cs_conn st) of
        (Inr _, c) \<Rightarrow> (Inr (), drop_guard (G_Tx (st\<lparr>cs_conn := c\<rparr>) False) p)
      | (Inl e, c) \<Rightarrow> (Inl (SE_Turso e), drop_guard (G_Tx (st\<lparr>cs_conn := c\<rparr>) True) p))"

abbreviation tx_commit :: "'c engine \<Rightarrow> 'c conn_state \<Rightarrow> 'c conn_pool \<Rightarrow> (sqlx_error + unit) \<times> 'c conn_pool" where
  "tx_commit exec \<equiv> tx_end exec ''COMMIT''"

abbreviation tx_rollback :: "'c engine \<Rightarrow> 'c conn_state \<Rightarrow> 'c conn_pool \<Rightarrow> (sqlx_error + unit) \<times> 'c conn_pool" where
  "tx_rollback exec \<equiv> tx_end exec ''ROLLBACK''"

fun guard_execute :: "'c engine \<Rightarrow> string \<Rightarrow> 'c guard \<Rightarrow> (sqlx_error + nat) \<times> 'c guard" where
  "guard_execute exec sql (G_Conn st) =
     (case exec sql (cs_conn st) of (r, c) \<Rightarrow> (map_sum SE_Turso id r, G_Conn (st\<lparr>cs_conn := c\<rparr>)))"
| "guard_execute exec sql (G_Tx st active) =
     (case exec sql (cs_conn st) of (r, c) \<Rightarrow> (map_sum SE_Turso id r, G_Tx (st\<lparr>cs_conn := c\<rparr>) active))"

text \<open>\<open>execute_on_all\<close> checks every connection out at once, so that each runs the statement; a permit that
  is not available for a minute ends it.\<close>

fun acquire_many ::
    "'c engine \<Rightarrow> nat \<Rightarrow> 'c conn_state list \<Rightarrow> 'c conn_pool \<Rightarrow> (sqlx_error + unit) \<times> 'c conn_state list \<times> 'c conn_pool" where
  "acquire_many exec 0 conns p = (Inr (), conns, p)"
| "acquire_many exec (Suc n) conns p =
     (case pool_acquire exec p of
        None \<Rightarrow> (Inl (SE_Protocol ''Timed out acquiring Turso connection for pool-wide initialization''), conns, p)
      | Some (Inl e, p') \<Rightarrow> (Inl e, conns, p')
      | Some (Inr st, p') \<Rightarrow> acquire_many exec n (conns @ [st]) p')"

fun execute_each :: "'c engine \<Rightarrow> string \<Rightarrow> 'c conn_state list \<Rightarrow> (sqlx_error + unit) \<times> 'c conn_state list" where
  "execute_each exec sql [] = (Inr (), [])"
| "execute_each exec sql (st # sts) =
     (case exec sql (cs_conn st) of
        (Inl e, c) \<Rightarrow> (Inl (SE_Turso e), st\<lparr>cs_conn := c\<rparr> # sts)
      | (Inr _, c) \<Rightarrow> (case execute_each exec sql sts of (r, sts') \<Rightarrow> (r, st\<lparr>cs_conn := c\<rparr> # sts')))"

definition execute_on_all :: "'c engine \<Rightarrow> string \<Rightarrow> 'c conn_pool \<Rightarrow> (sqlx_error + unit) \<times> 'c conn_pool" where
  "execute_on_all exec sql p =
     (case acquire_many exec (po_size p) [] p of
        (Inl e, conns, p') \<Rightarrow> (Inl e, fold drop_conn conns p')
      | (Inr _, conns, p') \<Rightarrow> (case execute_each exec sql conns of (r, conns') \<Rightarrow> (r, fold drop_conn conns' p')))"

subsection \<open>What is read back\<close>

lemma magnitude_append:
  "magnitude acc (xs @ ys) = (case magnitude acc xs of None \<Rightarrow> None | Some a \<Rightarrow> magnitude a ys)"
  by (induction xs arbitrary: acc) (auto split: option.splits)

lemma digit_value_of: "d < 10 \<Longrightarrow> digit_value (char_of (48 + d :: nat)) = Some d"
  by (simp add: digit_value_def Let_def)

lemma magnitude_show_nat: "magnitude 0 (show_nat n) = Some n"
proof (induction n rule: show_nat.induct)
  case (1 n)
  show ?case
  proof (cases "n < 10")
    case False
    have "digit_value (char_of (48 + n mod 10)) = Some (n mod 10)" by (rule digit_value_of) simp
    with False "1.IH" [OF False] show ?thesis
      by (subst show_nat.simps) (simp add: magnitude_append)
  qed (subst show_nat.simps, simp add: digit_value_of)
qed

lemma show_nat_nonempty: "show_nat n \<noteq> ''''"
  by (subst show_nat.simps) simp

lemma hd_show_nat: "hd (show_nat n) \<noteq> CHR ''-''" "hd (show_nat n) \<noteq> CHR ''+''"
proof -
  have "hd (show_nat n) \<in> set (show_nat n)" using show_nat_nonempty by simp
  then obtain d where d: "d < 10" "hd (show_nat n) = char_of (48 + d :: nat)" using show_nat_digits by blast
  then have "of_char (hd (show_nat n)) = (48 + d :: nat)" by simp
  with d(1) show "hd (show_nat n) \<noteq> CHR ''-''" "hd (show_nat n) \<noteq> CHR ''+''" by auto
qed

lemma parse_show_i64: "- (2 ^ 63) \<le> i \<Longrightarrow> i < 2 ^ 63 \<Longrightarrow> parse_i64 (show_i64 i) = Inr i"
  by (auto simp: parse_i64_def show_i64_def show_nat_nonempty hd_show_nat magnitude_show_nat Let_def i64_max_def)

lemma column_map_named:
  assumes "distinct names" "i < length names"
  shows "column_map names (names ! i) = Some i"
proof -
  let ?z = "rev (zip names [0 ..< length names])"
  have "distinct (map fst ?z)" using assms(1) by (simp flip: rev_map)
  moreover have "(names ! i, i) \<in> set ?z" using assms(2) by (auto simp: in_set_zip)
  ultimately show ?thesis unfolding column_map_def by (rule map_of_is_SomeI)
qed

subsection \<open>The pool and its clients\<close>

datatype pool_op = PO_Acquire | PO_Begin | PO_Execute nat string | PO_Commit nat | PO_Rollback nat | PO_Drop nat

definition remove_nth :: "nat \<Rightarrow> 'a list \<Rightarrow> 'a list" where
  "remove_nth k xs = take k xs @ drop (Suc k) xs"

fun check_out :: "((sqlx_error + 'g) \<times> 'c conn_pool) option \<Rightarrow> ('g \<Rightarrow> 'c guard) \<Rightarrow> 'c conn_pool \<times> 'c guard list
    \<Rightarrow> 'c conn_pool \<times> 'c guard list" where
  "check_out None f (p, gs) = (p, gs)"
| "check_out (Some (Inl e, p')) f (p, gs) = (p', gs)"
| "check_out (Some (Inr g, p')) f (p, gs) = (p', gs @ [f g])"

definition end_tx :: "'c engine \<Rightarrow> string \<Rightarrow> nat \<Rightarrow> 'c conn_pool \<times> 'c guard list \<Rightarrow> 'c conn_pool \<times> 'c guard list" where
  "end_tx exec statement k = (\<lambda>(p, gs).
     if k < length gs
     then (case gs ! k of G_Tx st _ \<Rightarrow> (snd (tx_end exec statement st p), remove_nth k gs) | G_Conn _ \<Rightarrow> (p, gs))
     else (p, gs))"

fun pool_step :: "'c engine \<Rightarrow> pool_op \<Rightarrow> 'c conn_pool \<times> 'c guard list \<Rightarrow> 'c conn_pool \<times> 'c guard list" where
  "pool_step exec PO_Acquire (p, gs) = check_out (pool_acquire exec p) G_Conn (p, gs)"
| "pool_step exec PO_Begin (p, gs) = check_out (pool_begin exec p) id (p, gs)"
| "pool_step exec (PO_Execute k sql) (p, gs) =
     (if k < length gs then (p, gs[k := snd (guard_execute exec sql (gs ! k))]) else (p, gs))"
| "pool_step exec (PO_Commit k) (p, gs) = end_tx exec ''COMMIT'' k (p, gs)"
| "pool_step exec (PO_Rollback k) (p, gs) = end_tx exec ''ROLLBACK'' k (p, gs)"
| "pool_step exec (PO_Drop k) (p, gs) =
     (if k < length gs then (drop_guard (gs ! k) p, remove_nth k gs) else (p, gs))"

text \<open>What the pool relies on: which statements open or close a transaction of the connection.\<close>

definition ordinary :: "string \<Rightarrow> bool" where
  "ordinary sql \<longleftrightarrow> \<not> starts_with sql ''BEGIN'' \<and> \<not> starts_with sql ''COMMIT'' \<and> \<not> starts_with sql ''ROLLBACK''"

definition engine_ok :: "'c engine \<Rightarrow> ('c \<Rightarrow> bool) \<Rightarrow> bool" where
  "engine_ok exec in_tx \<longleftrightarrow>
     (\<forall>sql c r c'. exec sql c = (r, c') \<longrightarrow>
        (ordinary sql \<and> \<not> in_tx c \<longrightarrow> \<not> in_tx c')
      \<and> (starts_with sql ''BEGIN'' \<and> \<not> in_tx c \<and> (\<exists>e. r = Inl e) \<longrightarrow> \<not> in_tx c')
      \<and> (sql \<in> {''COMMIT'', ''ROLLBACK''} \<and> (\<exists>n. r = Inr n) \<longrightarrow> \<not> in_tx c')
      \<and> (sql = ''ROLLBACK'' \<and> (\<exists>e. r = Inl e \<and> is_no_active_transaction_error e) \<longrightarrow> \<not> in_tx c'))"

definition clean_idle :: "('c \<Rightarrow> bool) \<Rightarrow> 'c conn_state \<Rightarrow> bool" where
  "clean_idle in_tx st \<longleftrightarrow> (in_tx (cs_conn st) \<longrightarrow> cs_rollback_needed st)"

fun clean_guard :: "('c \<Rightarrow> bool) \<Rightarrow> 'c guard \<Rightarrow> bool" where
  "clean_guard in_tx (G_Conn st) \<longleftrightarrow> \<not> in_tx (cs_conn st) \<and> \<not> cs_rollback_needed st"
| "clean_guard in_tx (G_Tx st active) \<longleftrightarrow> active \<and> \<not> cs_rollback_needed st"

definition pool_ok :: "('c \<Rightarrow> bool) \<Rightarrow> string \<Rightarrow> nat \<Rightarrow> 'c conn_pool \<times> 'c guard list \<Rightarrow> bool" where
  "pool_ok in_tx b n = (\<lambda>(p, gs).
     (\<forall>st \<in> set (po_idle p). clean_idle in_tx st) \<and> (\<forall>g \<in> set gs. clean_guard in_tx g)
     \<and> po_available p = length (po_idle p) \<and> po_available p + length gs = n \<and> po_begin_statement p = b)"

lemma engine_okD:
  assumes "engine_ok exec in_tx" "exec sql c = (r, c')"
  shows "ordinary sql \<Longrightarrow> \<not> in_tx c \<Longrightarrow> \<not> in_tx c'"
    and "starts_with sql ''BEGIN'' \<Longrightarrow> \<not> in_tx c \<Longrightarrow> r = Inl e \<Longrightarrow> \<not> in_tx c'"
    and "sql \<in> {''COMMIT'', ''ROLLBACK''} \<Longrightarrow> r = Inr n \<Longrightarrow> \<not> in_tx c'"
    and "sql = ''ROLLBACK'' \<Longrightarrow> r = Inl e \<Longrightarrow> is_no_active_transaction_error e \<Longrightarrow> \<not> in_tx c'"
  using assms unfolding engine_ok_def by blast+

lemma rollback_if_needed_clean:
  assumes "engine_ok exec in_tx" "clean_idle in_tx st"
  shows "rollback_if_needed exec st = (Inr u, st') \<Longrightarrow> \<not> in_tx (cs_conn st') \<and> \<not> cs_rollback_needed st'"
    and "rollback_if_needed exec st = (Inl e, st') \<Longrightarrow> cs_rollback_needed st' \<and> (\<exists>t. e = SE_Turso t)"
  using assms(2)
  by (auto simp: rollback_if_needed_def clean_idle_def split: if_splits prod.splits sum.splits
        dest: engine_okD(3,4) [OF assms(1)])

lemma pool_ok_drop:
  "pool_ok in_tx b n (p, gs) \<Longrightarrow> clean_idle in_tx st \<Longrightarrow> pool_ok in_tx b (Suc n) (drop_conn st p, gs)"
  by (auto simp: pool_ok_def drop_conn_def)

lemma pool_ok_remove:
  assumes "pool_ok in_tx b n (p, gs)" "k < length gs"
  shows "pool_ok in_tx b (n - 1) (p, remove_nth k gs)"
  using assms by (auto simp: pool_ok_def remove_nth_def dest!: in_set_takeD in_set_dropD)

lemma pool_ok_return:
  assumes "pool_ok in_tx b n (p, gs)" "k < length gs" "clean_idle in_tx st"
  shows "pool_ok in_tx b n (drop_conn st p, remove_nth k gs)"
  using pool_ok_drop [OF pool_ok_remove [OF assms(1,2)] assms(3)] assms(1,2)
  by (auto simp: pool_ok_def)

text \<open>A free permit means an idle connection, so the pool is never exhausted; and what it hands out is clean.\<close>

lemma pool_acquire_ok:
  assumes e: "engine_ok exec in_tx" and ok: "pool_ok in_tx b n (p, gs)" and a: "pool_acquire exec p = Some (r, p')"
  shows "case r of
       Inl err \<Rightarrow> pool_ok in_tx b n (p', gs) \<and> (\<exists>t. err = SE_Turso t)
     | Inr st \<Rightarrow> \<not> in_tx (cs_conn st) \<and> \<not> cs_rollback_needed st \<and> pool_ok in_tx b (n - 1) (p', gs) \<and> length gs < n"
proof -
  let ?p = "p\<lparr>po_idle := butlast (po_idle p), po_available := po_available p - 1\<rparr>"
  have av: "po_available p \<noteq> 0" and ne: "po_idle p \<noteq> []"
    using a ok by (auto simp: pool_acquire_def pool_ok_def split: if_splits)
  have p: "pool_ok in_tx b (n - 1) (?p, gs)" "length gs < n"
    using ok av by (cases "po_idle p" rule: rev_cases; auto simp: pool_ok_def)+
  have c: "clean_idle in_tx (last (po_idle p))" using ok ne by (auto simp: pool_ok_def)
  obtain r' st where rb: "rollback_if_needed exec (last (po_idle p)) = (r', st)" by fastforce
  show ?thesis
  proof (cases r')
    case (Inl err)
    then have "r = Inl err" "p' = drop_conn st ?p" using a av ne rb by (auto simp: pool_acquire_def)
    moreover from Inl rollback_if_needed_clean(2) [OF e c] rb
    have "cs_rollback_needed st" "\<exists>t. err = SE_Turso t" by auto
    moreover have "clean_idle in_tx st" using \<open>cs_rollback_needed st\<close> by (simp add: clean_idle_def)
    ultimately show ?thesis using pool_ok_drop [OF p(1), of st] p(2) by simp
  next
    case (Inr u)
    then have "r = Inr st" "p' = ?p" using a av ne rb by (auto simp: pool_acquire_def)
    with p rollback_if_needed_clean(1) [OF e c] rb Inr show ?thesis by auto
  qed
qed

lemma pool_begin_ok:
  assumes e: "engine_ok exec in_tx" and b: "starts_with b ''BEGIN''"
    and ok: "pool_ok in_tx b n (p, gs)" and a: "pool_begin exec p = Some (r, p')"
  shows "case r of Inl _ \<Rightarrow> pool_ok in_tx b n (p', gs) | Inr g \<Rightarrow> pool_ok in_tx b n (p', gs @ [g])"
proof -
  have pb: "po_begin_statement p = b" using ok by (simp add: pool_ok_def)
  from a obtain r' p1 where acq: "pool_acquire exec p = Some (r', p1)"
    by (auto simp: pool_begin_def split: option.splits)
  note A = pool_acquire_ok [OF e ok acq]
  show ?thesis
  proof (cases r')
    case (Inl err)
    with acq a A show ?thesis by (auto simp: pool_begin_def)
  next
    case (Inr st)
    obtain r2 c where ex: "exec b (cs_conn st) = (r2, c)" by fastforce
    show ?thesis
    proof (cases r2)
      case (Inl err)
      with Inr acq a pb ex have r: "r = Inl (SE_Turso err)" "p' = drop_conn (st\<lparr>cs_conn := c\<rparr>) p1"
        by (auto simp: pool_begin_def)
      have "\<not> in_tx c" using engine_okD(2) [OF e ex b _ Inl] A Inr by simp
      with r A Inr show ?thesis
        using pool_ok_drop [of in_tx b "n - 1" p1 gs "st\<lparr>cs_conn := c\<rparr>"] by (auto simp: clean_idle_def)
    next
      case Inr2: (Inr m)
      with Inr acq a pb ex have "r = Inr (G_Tx (st\<lparr>cs_conn := c\<rparr>) True)" "p' = p1" by (auto simp: pool_begin_def)
      with A Inr show ?thesis by (auto simp: pool_ok_def)
    qed
  qed
qed

lemma drop_guard_clean: "clean_guard in_tx g \<Longrightarrow> \<exists>st. clean_idle in_tx st \<and> drop_guard g p = drop_conn st p"
proof (cases g)
  case (G_Tx st active)
  moreover assume "clean_guard in_tx g"
  ultimately show ?thesis by (intro exI [of _ "st\<lparr>cs_rollback_needed := True\<rparr>"]) (auto simp: clean_idle_def)
qed (auto simp: clean_idle_def)

lemma tx_end_clean:
  assumes "engine_ok exec in_tx" "statement \<in> {''COMMIT'', ''ROLLBACK''}"
  shows "\<exists>st'. clean_idle in_tx st' \<and> snd (tx_end exec statement st p) = drop_conn st' p"
proof -
  obtain r c where ex: "exec statement (cs_conn st) = (r, c)" by fastforce
  show ?thesis
  proof (cases r)
    case (Inl err)
    with ex show ?thesis
      by (intro exI [of _ "st\<lparr>cs_conn := c, cs_rollback_needed := True\<rparr>"]) (simp add: tx_end_def clean_idle_def)
  next
    case (Inr m)
    with engine_okD(3) [OF assms(1) ex assms(2)] ex show ?thesis
      by (intro exI [of _ "st\<lparr>cs_conn := c\<rparr>"]) (simp add: tx_end_def clean_idle_def)
  qed
qed

lemma guard_execute_clean:
  assumes "engine_ok exec in_tx" "ordinary sql" "clean_guard in_tx g"
  shows "clean_guard in_tx (snd (guard_execute exec sql g))"
  using assms by (cases g) (auto split: prod.splits dest: engine_okD(1) [OF assms(1)])

definition client_op :: "pool_op \<Rightarrow> bool" where
  "client_op op \<longleftrightarrow> (case op of PO_Execute _ sql \<Rightarrow> ordinary sql | _ \<Rightarrow> True)"

lemma pool_step_ok:
  assumes e: "engine_ok exec in_tx" and b: "starts_with b ''BEGIN''" and op: "client_op op"
    and ok: "pool_ok in_tx b n (p, gs)"
  shows "pool_ok in_tx b n (pool_step exec op (p, gs))"
proof -
  have tx: "pool_ok in_tx b n (end_tx exec s k (p, gs))" if "s \<in> {''COMMIT'', ''ROLLBACK''}" for s k
  proof (cases "k < length gs")
    case True
    then show ?thesis
      using ok tx_end_clean [OF e that] pool_ok_return [OF ok True]
      by (auto simp: end_tx_def split: guard.splits) metis
  qed (simp add: end_tx_def ok)
  show ?thesis
  proof (cases op)
    case PO_Acquire
    have "pool_ok in_tx b n (check_out (pool_acquire exec p) G_Conn (p, gs))"
    proof (cases "pool_acquire exec p")
      case (Some x)
      then obtain r p' where a: "pool_acquire exec p = Some (r, p')" by (cases x) auto
      from pool_acquire_ok [OF e ok a] a show ?thesis by (cases r) (auto simp: pool_ok_def)
    qed (simp add: ok)
    with PO_Acquire show ?thesis by simp
  next
    case PO_Begin
    have "pool_ok in_tx b n (check_out (pool_begin exec p) id (p, gs))"
    proof (cases "pool_begin exec p")
      case (Some x)
      then obtain r p' where a: "pool_begin exec p = Some (r, p')" by (cases x) auto
      from pool_begin_ok [OF e b ok a] a show ?thesis by (cases r) auto
    qed (simp add: ok)
    with PO_Begin show ?thesis by simp
  next
    case (PO_Execute k sql)
    with op have "ordinary sql" by (simp add: client_op_def)
    with PO_Execute ok guard_execute_clean [OF e] show ?thesis
      by (auto simp: pool_ok_def dest!: set_update_subset_insert [THEN subsetD])
  next
    case (PO_Drop k)
    show ?thesis
    proof (cases "k < length gs")
      case True
      with ok have "clean_guard in_tx (gs ! k)" by (auto simp: pool_ok_def)
      with drop_guard_clean [OF this, of p] pool_ok_return [OF ok True] PO_Drop True show ?thesis by auto
    qed (simp add: PO_Drop ok)
  qed (simp_all add: tx)
qed

lemma pool_steps_ok:
  "engine_ok exec in_tx \<Longrightarrow> starts_with b ''BEGIN'' \<Longrightarrow> list_all client_op ops \<Longrightarrow> pool_ok in_tx b n w
     \<Longrightarrow> pool_ok in_tx b n (fold (pool_step exec) ops w)"
proof (induction ops arbitrary: w)
  case (Cons op ops)
  then show ?case using pool_step_ok [of exec in_tx b op n "fst w" "snd w"] by simp
qed simp

lemma pool_connect_ok: "\<not> in_tx conn \<Longrightarrow> pool_ok in_tx b (max m 1) (pool_connect conn m b, [])"
  by (auto simp: pool_connect_def pool_ok_def Let_def clean_idle_def)

text \<open>C32. 
  C1. Whatever the clients of the pool do, in any order and with any failing statement: a connection that the
  pool hands out is in no transaction; a call waits only when all connections are checked out; and an error of
  \<open>acquire\<close> comes from the engine, the pool is never found exhausted.
\<close>

theorem pooled_connections_clean:
  assumes "engine_ok exec in_tx" and "\<not> in_tx conn" and "starts_with b ''BEGIN''" and "list_all client_op ops"
    and "fold (pool_step exec) ops (pool_connect conn m b, []) = (p, gs)"
  shows "case pool_acquire exec p of
       None \<Rightarrow> length gs = max m 1
     | Some (Inr st, _) \<Rightarrow> \<not> in_tx (cs_conn st) \<and> length gs < max m 1
     | Some (Inl e, _) \<Rightarrow> \<exists>t. e = SE_Turso t"
proof -
  have ok: "pool_ok in_tx b (max m 1) (p, gs)"
    using pool_steps_ok [OF assms(1,3,4) pool_connect_ok [of in_tx conn b m, OF assms(2)]] assms(5) by simp
  show ?thesis
  proof (cases "pool_acquire exec p")
    case None
    with ok show ?thesis by (auto simp: pool_acquire_def pool_ok_def Let_def split: if_splits prod.splits sum.splits)
  next
    case (Some x)
    then obtain r p' where a: "pool_acquire exec p = Some (r, p')" by (cases x) auto
    from pool_acquire_ok [OF assms(1) ok a] a show ?thesis by (cases r) auto
  qed
qed

text \<open>An engine whose connections are the flag of an open transaction and whose \<open>COMMIT\<close> fails.\<close>

definition toy_engine :: "bool engine" where
  "toy_engine sql c =
     (if starts_with sql ''BEGIN'' then (Inr 0, True)
      else if sql = ''ROLLBACK'' then (if c then (Inr 0, False) else (Inl (Turso_Err ''cannot rollback - no transaction is active''), c))
      else if sql = ''COMMIT'' then (Inl (Busy_Snapshot ''conflict''), c)
      else (Inr 0, c))"

lemma pooled_connections_clean_witness:
  "let w = fold (pool_step toy_engine) [PO_Begin, PO_Execute 0 ''SELECT 1'', PO_Commit 0]
             (pool_connect False 1 ''BEGIN CONCURRENT'', [])
   in case pool_acquire toy_engine (fst w) of
        None \<Rightarrow> length (snd w) = max 1 1
      | Some (Inr st, _) \<Rightarrow> \<not> cs_conn st \<and> length (snd w) < max 1 1
      | Some (Inl e, _) \<Rightarrow> \<exists>t. e = SE_Turso t"
proof -
  have "engine_ok toy_engine (\<lambda>c. c)"
    by (auto simp: engine_ok_def toy_engine_def ordinary_def starts_with_def split: if_splits)
  then show ?thesis
    unfolding Let_def
    by (rule pooled_connections_clean [OF _ _ _ _ surjective_pairing, where in_tx = "\<lambda>c. c"])
      (simp_all add: client_op_def ordinary_def starts_with_def)
qed

end
