(* ===== verification/Turso_Delete.thy ===== *)
theory Turso_Delete
  imports Sql_Admin_Props Turso_Pool
begin

text \<open>
  \<open>src/providers/sqlite_common.rs\<close>, \<open>leaf_first_instance_delete\<close>: the order in which the Turso provider deletes
  the rows of \<open>instances\<close>, one statement each, where SQLite deletes them in one statement. Every statement is
  checked against the foreign key \<open>parent_instance_id\<close>.
\<close>

subsection \<open>The order\<close>

definition children_of :: "string list \<Rightarrow> instance_row list \<Rightarrow> string \<Rightarrow> string list" where
  "children_of ids rows parent =
     map in_instance (filter (\<lambda>r. in_instance r \<in> set ids \<and> in_parent_instance_id r = Some parent \<and> parent \<in> set ids) rows)"

text \<open>\<open>push_instance_delete_order\<close>: the visited instances and the order. The fuel bounds the depth of the
  recursion, every level of which visits another instance of the list.\<close>

fun push_instance_delete_order ::
    "nat \<Rightarrow> (string \<Rightarrow> string list) \<Rightarrow> string \<Rightarrow> string list \<times> string list \<Rightarrow> string list \<times> string list" where
  "push_instance_delete_order 0 children i s = s"
| "push_instance_delete_order (Suc n) children i (visited, order) =
     (if i \<in> set visited then (visited, order)
      else case fold (push_instance_delete_order n children) (children i) (i # visited, order) of
        (visited', order') \<Rightarrow> (visited', order' @ [i]))"

definition instance_delete_order :: "string list \<Rightarrow> instance_row list \<Rightarrow> string list" where
  "instance_delete_order ids rows =
     snd (fold (push_instance_delete_order (length ids) (children_of ids rows)) ids ([], []))"

definition references :: "string \<Rightarrow> instance_row list \<Rightarrow> bool" where
  "references i rows \<longleftrightarrow> (\<exists>r \<in> set rows. in_parent_instance_id r = Some i \<and> in_instance r \<noteq> i)"

definition delete_instance_row :: "string \<Rightarrow> instance_row list \<Rightarrow> provider_error + instance_row list" where
  "delete_instance_row i rows =
     (if references i rows then Inl (sqlx_to_provider_error ''delete_instances_atomic'' ''FOREIGN KEY constraint failed'')
      else Inr (sql_delete (\<lambda>r. in_instance r = i) rows))"

fun delete_in_order :: "string list \<Rightarrow> instance_row list \<Rightarrow> provider_error + instance_row list" where
  "delete_in_order [] rows = Inr rows"
| "delete_in_order (i # is) rows =
     (case delete_instance_row i rows of Inl e \<Rightarrow> Inl e | Inr rows' \<Rightarrow> delete_in_order is rows')"

definition turso_delete_tx :: "string list \<Rightarrow> bool \<Rightarrow> (delete_instance_result, 'd, 'w) tx" where
  "turso_delete_tx ids force db =
     (case delete_tx ids force db of
        Inl e \<Rightarrow> Inl e
      | Inr (res, db') \<Rightarrow>
          if ids = [] then Inr (res, db')
          else (case delete_in_order (instance_delete_order ids (db_instances db)) (db_instances db) of
                  Inl e \<Rightarrow> Inl e
                | Inr rows \<Rightarrow> Inr (res, db'\<lparr>db_instances := rows\<rparr>)))"

definition turso_delete_instances_atomic ::
    "string list \<Rightarrow> bool \<Rightarrow> ('d, 'w) db \<Rightarrow> (provider_error + delete_instance_result) \<times> ('d, 'w) db" where
  "turso_delete_instances_atomic ids force = run_tx (turso_delete_tx ids force)"

subsection \<open>Children come first\<close>

definition leaf_first :: "(string \<Rightarrow> string list) \<Rightarrow> string list \<Rightarrow> bool" where
  "leaf_first ch order \<longleftrightarrow> (\<forall>k < length order. set (ch (order ! k)) \<subseteq> set (take k order))"

lemma leaf_first_snoc: "leaf_first ch (xs @ [x]) \<longleftrightarrow> leaf_first ch xs \<and> set (ch x) \<subseteq> set xs"
  by (auto simp: leaf_first_def less_Suc_eq nth_append)

text \<open>
  Between visits: the order lists visited instances once, children first; the instances that are visited but
  not in the order are the ancestors that are being visited, all of a lower rank than the next one.
\<close>

definition visit_ok :: "(string \<Rightarrow> string list) \<Rightarrow> string set \<Rightarrow> (string \<Rightarrow> nat) \<Rightarrow> string set \<Rightarrow> string list \<times> string list \<Rightarrow> bool" where
  "visit_ok ch S rank grey = (\<lambda>(v, order).
     leaf_first ch order \<and> distinct order \<and> set v \<subseteq> S \<and> set order \<subseteq> set v \<and> set v - set order = grey)"

definition visit_post :: "(string \<Rightarrow> string list) \<Rightarrow> string set \<Rightarrow> (string \<Rightarrow> nat) \<Rightarrow> string set \<Rightarrow> string set
    \<Rightarrow> string list \<times> string list \<Rightarrow> string list \<times> string list \<Rightarrow> bool" where
  "visit_post ch S rank grey goals s s' \<longleftrightarrow>
     visit_ok ch S rank grey s' \<and> set (fst s) \<union> goals \<subseteq> set (fst s')"

lemma push_ok:
  assumes fin: "finite S" and ch: "\<And>p c. c \<in> set (ch p) \<Longrightarrow> c \<in> S \<and> rank p < rank c"
  shows "visit_ok ch S rank grey s \<Longrightarrow> card (S - set (fst s)) \<le> n \<Longrightarrow> i \<in> S \<Longrightarrow> \<forall>g \<in> grey. rank g < rank i
    \<Longrightarrow> visit_post ch S rank grey {i} s (push_instance_delete_order n ch i s)"
proof (induction n arbitrary: i s grey)
  case 0
  then show ?case using fin by (auto simp: visit_post_def)
next
  case (Suc n)
  obtain v order where s: "s = (v, order)" by fastforce
  show ?case
  proof (cases "i \<in> set v")
    case True
    with Suc.prems(1) s show ?thesis by (simp add: visit_post_def)
  next
    case False
    have each: "visit_ok ch S rank (insert i grey) t \<Longrightarrow> card (S - set (fst t)) \<le> n \<Longrightarrow> set cs \<subseteq> set (ch i)
        \<Longrightarrow> visit_post ch S rank (insert i grey) (set cs) t (fold (push_instance_delete_order n ch) cs t)" for cs t
    proof (induction cs arbitrary: t)
      case (Cons c cs)
      let ?t = "push_instance_delete_order n ch c t"
      have "visit_post ch S rank (insert i grey) {c} t ?t"
        using Cons.prems ch [of c i] Suc.prems(4) by (intro Suc.IH) (auto intro: less_trans)
      then have t: "visit_ok ch S rank (insert i grey) ?t" "set (fst t) \<union> {c} \<subseteq> set (fst ?t)"
        by (simp_all add: visit_post_def)
      then have "card (S - set (fst ?t)) \<le> card (S - set (fst t))" using fin by (intro card_mono) auto
      with Cons.IH [OF t(1)] Cons.prems t(2) show ?case by (auto simp: visit_post_def)
    qed (simp add: visit_post_def)
    let ?s = "(i # v, order)"
    have "visit_ok ch S rank (insert i grey) ?s"
      using Suc.prems(1,3) False s by (auto simp: visit_ok_def)
    moreover have "card (S - set (fst ?s)) \<le> n"
    proof -
      have "S - set (i # v) = (S - set v) - {i}" by auto
      moreover have "i \<in> S - set v" using False Suc.prems(3) by simp
      ultimately show ?thesis using Suc.prems(2) s fin by (simp add: card_Diff_singleton)
    qed
    ultimately have post: "visit_post ch S rank (insert i grey) (set (ch i)) ?s
        (fold (push_instance_delete_order n ch) (ch i) ?s)" by (intro each) auto
    obtain v' order' where f: "fold (push_instance_delete_order n ch) (ch i) ?s = (v', order')" by fastforce
    have i: "i \<notin> set order'" "i \<notin> grey"
      using post f Suc.prems(1,4) s False by (auto simp: visit_post_def visit_ok_def)
    have "set (ch i) \<subseteq> set order'"
    proof
      fix c assume c: "c \<in> set (ch i)"
      with post f have "c \<in> set v'" "set v' - set order' = insert i grey" by (auto simp: visit_post_def visit_ok_def)
      moreover have "c \<notin> insert i grey" using ch [OF c] Suc.prems(4) by (auto dest: less_asym)
      ultimately show "c \<in> set order'" by auto
    qed
    with post f i s False Suc.prems(1) show ?thesis
      by (auto simp: visit_post_def visit_ok_def leaf_first_snoc)
  qed
qed

lemma push_all_ok:
  assumes "finite S" and "\<And>p c. c \<in> set (ch p) \<Longrightarrow> c \<in> S \<and> rank p < rank c"
  shows "visit_ok ch S rank {} s \<Longrightarrow> card S \<le> n \<Longrightarrow> set is \<subseteq> S
    \<Longrightarrow> visit_post ch S rank {} (set is) s (fold (push_instance_delete_order n ch) is s)"
proof (induction "is" arbitrary: s)
  case (Cons i "is")
  have "card (S - set (fst s)) \<le> n" using card_mono [OF assms(1), of "S - set (fst s)"] Cons.prems(2) by simp
  with push_ok [OF assms Cons.prems(1)] Cons.prems
  have p: "visit_post ch S rank {} {i} s (push_instance_delete_order n ch i s)" by simp
  with Cons.IH [of "push_instance_delete_order n ch i s"] Cons.prems show ?case
    by (auto simp: visit_post_def)
qed (simp add: visit_post_def)

lemma delete_order:
  assumes "parents_ok db" and "distinct (map in_instance (db_instances db))"
  shows "set (instance_delete_order ids (db_instances db)) = set ids"
    and "distinct (instance_delete_order ids (db_instances db))"
    and "leaf_first (children_of ids (db_instances db)) (instance_delete_order ids (db_instances db))"
proof -
  let ?rows = "db_instances db" and ?ch = "children_of ids (db_instances db)"
  have "visit_post ?ch (set ids) (row_index ?rows) {} (set ids) ([], [])
      (fold (push_instance_delete_order (length ids) ?ch) ids ([], []))"
  proof (rule push_all_ok)
    fix p c assume "c \<in> set (?ch p)"
    then show "c \<in> set ids \<and> row_index ?rows p < row_index ?rows c"
      using assms by (auto simp: children_of_def parents_ok_def intro: child_index)
  qed (auto simp: visit_ok_def leaf_first_def card_length)
  then show "set (instance_delete_order ids ?rows) = set ids" "distinct (instance_delete_order ids ?rows)"
    "leaf_first ?ch (instance_delete_order ids ?rows)"
    by (auto simp: visit_post_def visit_ok_def instance_delete_order_def split: prod.splits)
qed

lemma delete_in_order_all:
  assumes "leaf_first (children_of ids rows) (done @ todo)" and "set (done @ todo) \<subseteq> set ids"
    and closed: "\<And>r p. r \<in> set rows \<Longrightarrow> in_parent_instance_id r = Some p \<Longrightarrow> p \<in> set ids \<Longrightarrow> in_instance r \<in> set ids"
  shows "delete_in_order todo (sql_delete (\<lambda>r. in_instance r \<in> set done) rows)
       = Inr (sql_delete (\<lambda>r. in_instance r \<in> set (done @ todo)) rows)"
  using assms(1,2)
proof (induction todo arbitrary: "done")
  case (Cons i todo)
  have "set (children_of ids rows i) \<subseteq> set done"
    using Cons.prems(1) unfolding leaf_first_def by (elim allE [of _ "length done"]) simp
  then have "\<not> references i (sql_delete (\<lambda>r. in_instance r \<in> set done) rows)"
    using Cons.prems(2) closed by (auto simp: references_def sql_delete_def children_of_def)
  moreover have "sql_delete (\<lambda>r. in_instance r = i) (sql_delete (\<lambda>r. in_instance r \<in> set done) rows)
      = sql_delete (\<lambda>r. in_instance r \<in> set (done @ [i])) rows"
    by (simp add: sql_delete_def) (rule filter_cong, auto)
  ultimately show ?case using Cons.IH [of "done @ [i]"] Cons.prems by (simp add: delete_instance_row_def)
qed simp

lemma find_orphan_None:
  "find_orphan ids db = None \<Longrightarrow> r \<in> set (db_instances db) \<Longrightarrow> in_parent_instance_id r = Some p \<Longrightarrow> p \<in> set ids
     \<Longrightarrow> in_instance r \<in> set ids"
  unfolding find_orphan_def find_None_iff by auto

text \<open>C31. 
  C2. On a well-formed store, deleting the rows of \<open>instances\<close> one by one, children first, is refused by no
  foreign key and leaves the store that SQLite's single statement leaves: the Turso provider's deletion has the
  result and the effect of the SQLite provider's on every list of instances, errors included.
\<close>

theorem leaf_first_delete_equals_bulk:
  assumes "db_ok db"
  shows "turso_delete_instances_atomic ids force db = delete_instances_atomic ids force db"
proof -
  have ok: "parents_ok db" "distinct (map in_instance (db_instances db))"
    using assms by (simp_all add: db_ok_defs)
  have "turso_delete_tx ids force db = delete_tx ids force db"
  proof (cases "delete_tx ids force db")
    case (Inr x)
    obtain res db' where x: "x = (res, db')" by fastforce
    show ?thesis
    proof (cases "ids = []")
      case False
      with Inr x have o: "find_orphan ids db = None" and db': "db' = delete_rows ids db"
        by (auto simp: delete_tx_def split: option.splits if_splits)
      have "delete_in_order (instance_delete_order ids (db_instances db)) (db_instances db)
          = Inr (sql_delete (\<lambda>r. in_instance r \<in> set ids) (db_instances db))"
        using delete_in_order_all [of ids "db_instances db" "[]" "instance_delete_order ids (db_instances db)"]
          delete_order [OF ok] find_orphan_None [OF o] by (simp add: sql_delete_def)
      then show ?thesis by (simp add: turso_delete_tx_def Inr x False db' delete_rows_def)
    next
      case True
      with Inr x show ?thesis by (simp add: turso_delete_tx_def)
    qed
  qed (simp add: turso_delete_tx_def)
  then show ?thesis
    by (simp add: turso_delete_instances_atomic_def delete_instances_atomic_def run_tx_def)
qed

text \<open>A parent, its child and its grandchild, listed from the root.\<close>

definition family_row :: "string \<Rightarrow> string option \<Rightarrow> instance_row" where
  "family_row i parent = \<lparr>in_instance = i, in_orchestration_name = ''O'', in_orchestration_version = None,
     in_current_execution_id = 1, in_custom_status = None, in_custom_status_version = 0,
     in_parent_instance_id = parent, in_created_at = 0\<rparr>"

definition family :: "(event, work_item) db" where
  "family = empty_db\<lparr>db_instances := [family_row ''a'' None, family_row ''b'' (Some ''a''), family_row ''c'' (Some ''b'')]\<rparr>"

lemma family_order: "instance_delete_order [''a'', ''b'', ''c''] (db_instances family) = [''c'', ''b'', ''a'']"
  by code_simp

lemma family_root_first: "delete_in_order [''a'', ''b'', ''c''] (db_instances family)
    = Inl (sqlx_to_provider_error ''delete_instances_atomic'' ''FOREIGN KEY constraint failed'')"
  by (simp add: family_def family_row_def delete_instance_row_def references_def)

lemma leaf_first_delete_equals_bulk_witness:
  "turso_delete_instances_atomic [''a'', ''b'', ''c''] True family = delete_instances_atomic [''a'', ''b'', ''c''] True family"
proof (rule leaf_first_delete_equals_bulk)
  show "db_ok family" by (simp add: family_def family_row_def empty_db_def db_ok_defs queue_sorted_def)
qed

end
