(* ===== verification/Turso.thy ===== *)
theory Turso
  imports Turso_Delete
begin

text \<open>
  \<open>src/providers/turso.rs\<close>: the options of the Turso provider and the statements of its set-up, and the two
  strategies in which its operations differ from SQLite's (\<open>src/providers/sqlite_common.rs\<close>): the lock extension
  at the start of \<open>ack_orchestration_item\<close>, and repeating an operation whose transaction met a conflict.
\<close>

subsection \<open>Options\<close>

datatype turso_journal_mode =
  TJ_Auto | TJ_Delete | TJ_Truncate | TJ_Persist | TJ_Memory | TJ_Wal | TJ_Off | TJ_Mvcc | TJ_Custom string

definition journal_pragma_value :: "turso_journal_mode \<Rightarrow> bool \<Rightarrow> string" where
  "journal_pragma_value m is_memory =
     (case m of
        TJ_Auto \<Rightarrow> (if is_memory then ''MEMORY'' else ''WAL'')
      | TJ_Delete \<Rightarrow> ''DELETE'' | TJ_Truncate \<Rightarrow> ''TRUNCATE'' | TJ_Persist \<Rightarrow> ''PERSIST''
      | TJ_Memory \<Rightarrow> ''MEMORY'' | TJ_Wal \<Rightarrow> ''WAL'' | TJ_Off \<Rightarrow> ''OFF'' | TJ_Mvcc \<Rightarrow> ''mvcc''
      | TJ_Custom value \<Rightarrow> value)"

definition requires_mvcc_schema_compat :: "turso_journal_mode \<Rightarrow> bool" where
  "requires_mvcc_schema_compat m =
     (case m of TJ_Mvcc \<Rightarrow> True | TJ_Custom value \<Rightarrow> contains_str (to_lowercase value) ''mvcc'' | _ \<Rightarrow> False)"

datatype turso_synchronous = TS_Auto | TS_Off | TS_Normal | TS_Full | TS_Extra | TS_Custom string

definition synchronous_pragma_value :: "turso_synchronous \<Rightarrow> bool \<Rightarrow> string" where
  "synchronous_pragma_value s is_memory =
     (case s of
        TS_Auto \<Rightarrow> (if is_memory then ''OFF'' else ''NORMAL'')
      | TS_Off \<Rightarrow> ''OFF'' | TS_Normal \<Rightarrow> ''NORMAL'' | TS_Full \<Rightarrow> ''FULL'' | TS_Extra \<Rightarrow> ''EXTRA''
      | TS_Custom value \<Rightarrow> value)"

datatype turso_transaction_mode = TT_Immediate | TT_Concurrent

definition begin_statement :: "turso_transaction_mode \<Rightarrow> string" where
  "begin_statement m = (case m of TT_Immediate \<Rightarrow> ''BEGIN IMMEDIATE'' | TT_Concurrent \<Rightarrow> ''BEGIN CONCURRENT'')"

record turso_options =
  to_max_connections :: nat
  to_busy_timeout :: nanos
  to_journal_mode :: turso_journal_mode
  to_synchronous :: turso_synchronous
  to_wal_autocheckpoint :: "nat option"
  to_cache_size :: "int option"
  to_transaction_mode :: turso_transaction_mode
  to_transaction_max_retries :: nat
  to_transaction_retry_initial_backoff :: nanos
  to_transaction_retry_max_backoff :: nanos
  to_ack_lock_extension :: "nanos option"

definition turso_options_default :: turso_options where
  "turso_options_default =
     \<lparr>to_max_connections = 5, to_busy_timeout = 60000000000, to_journal_mode = TJ_Auto, to_synchronous = TS_Auto,
      to_wal_autocheckpoint = Some 10000, to_cache_size = Some (- 64000), to_transaction_mode = TT_Immediate,
      to_transaction_max_retries = 8, to_transaction_retry_initial_backoff = 1000000,
      to_transaction_retry_max_backoff = 50000000, to_ack_lock_extension = Some 300000000000\<rparr>"

subsection \<open>Set-up\<close>

definition strip_prefix :: "string \<Rightarrow> string \<Rightarrow> string option" where
  "strip_prefix s p = (if starts_with s p then Some (drop (length p) s) else None)"

definition normalize_database_path :: "string \<Rightarrow> string" where
  "normalize_database_path url =
     (if url = '':memory:'' \<or> url = ''turso::memory:'' \<or> url = ''sqlite::memory:'' \<or> contains_str url ''mode=memory''
      then '':memory:''
      else case strip_prefix url ''turso:'' of
        Some path \<Rightarrow> path
      | None \<Rightarrow> (case strip_prefix url ''sqlite:'' of Some path \<Rightarrow> path | None \<Rightarrow> url))"

text \<open>The pragmas whose errors are only logged, in their order.\<close>

definition optional_pragmas :: "turso_options \<Rightarrow> bool \<Rightarrow> string list" where
  "optional_pragmas o1 is_memory =
     [''PRAGMA journal_mode = '' @ journal_pragma_value (to_journal_mode o1) is_memory,
      ''PRAGMA synchronous = '' @ synchronous_pragma_value (to_synchronous o1) is_memory]
     @ (if is_memory then []
        else (case to_wal_autocheckpoint o1 of None \<Rightarrow> [] | Some n \<Rightarrow> [''PRAGMA wal_autocheckpoint = '' @ show_nat n])
          @ (case to_cache_size o1 of None \<Rightarrow> [] | Some n \<Rightarrow> [''PRAGMA cache_size = '' @ show_i64 n]))"

definition queue_id_column :: "turso_options \<Rightarrow> string" where
  "queue_id_column o1 =
     (if requires_mvcc_schema_compat (to_journal_mode o1) then ''id INTEGER PRIMARY KEY''
      else ''id INTEGER PRIMARY KEY AUTOINCREMENT'')"

record turso_provider_config =
  tp_transaction_mode :: turso_transaction_mode
  tp_transaction_max_retries :: nat
  tp_transaction_retry_initial_backoff :: nanos
  tp_transaction_retry_max_backoff :: nanos
  tp_ack_lock_extension :: "nanos option"

text \<open>\<open>TursoProvider::new\<close> on a database whose connections all start as \<open>conn\<close>; creating the schema is the
  parameter \<open>create_schema\<close>.\<close>

definition turso_new ::
    "'c engine \<Rightarrow> (string \<Rightarrow> 'c conn_pool \<Rightarrow> (sqlx_error + unit) \<times> 'c conn_pool) \<Rightarrow> (string \<Rightarrow> 'c) \<Rightarrow> string
       \<Rightarrow> turso_options option \<Rightarrow> (sqlx_error + turso_provider_config) \<times> 'c conn_pool" where
  "turso_new exec create_schema open_conn url opts =
     (let o1 = opt_or opts turso_options_default;
          path = normalize_database_path url;
          p0 = pool_connect (open_conn path) (to_max_connections o1) (begin_statement (to_transaction_mode o1));
          p1 = fold (\<lambda>sql p. snd (execute_on_all exec sql p)) (optional_pragmas o1 (path = '':memory:'')) p0
      in case execute_on_all exec ''PRAGMA foreign_keys = ON'' p1 of
           (Inl e, p2) \<Rightarrow> (Inl e, p2)
         | (Inr _, p2) \<Rightarrow>
             (case create_schema (queue_id_column o1) p2 of
                (Inl e, p3) \<Rightarrow> (Inl e, p3)
              | (Inr _, p3) \<Rightarrow>
                  (Inr \<lparr>tp_transaction_mode = to_transaction_mode o1,
                       tp_transaction_max_retries = to_transaction_max_retries o1,
                       tp_transaction_retry_initial_backoff = to_transaction_retry_initial_backoff o1,
                       tp_transaction_retry_max_backoff = to_transaction_retry_max_backoff o1,
                       tp_ack_lock_extension = to_ack_lock_extension o1\<rparr>, p3)))"

subsection \<open>Errors and repetition\<close>

definition sqlx_error_text :: "sqlx_error \<Rightarrow> string" where
  "sqlx_error_text e =
     (case e of
        SE_Turso t \<Rightarrow> (case t of Busy m \<Rightarrow> m | Busy_Snapshot m \<Rightarrow> m | Turso_Err m \<Rightarrow> m | Turso_Other m \<Rightarrow> m)
      | SE_Protocol m \<Rightarrow> m
      | Row_Not_Found \<Rightarrow> ''query returned no rows'')"

definition turso_to_provider_error :: "string \<Rightarrow> sqlx_error \<Rightarrow> provider_error" where
  "turso_to_provider_error operation e =
     (if is_turso_transaction_retryable e
      then retryable_error operation (''Turso transaction retry: '' @ sqlx_error_text e)
      else sqlx_to_provider_error operation (sqlx_error_text e))"

definition should_retry_transaction_operation :: "turso_provider_config \<Rightarrow> provider_error \<Rightarrow> nat \<Rightarrow> bool" where
  "should_retry_transaction_operation cfg e retry_count \<longleftrightarrow>
     tp_transaction_mode cfg = TT_Concurrent \<and> retry_count < tp_transaction_max_retries cfg
     \<and> pe_retryable e \<and> contains_str (pe_message e) ''Turso transaction retry''"

definition transaction_retry_backoff :: "turso_provider_config \<Rightarrow> nat \<Rightarrow> nanos" where
  "transaction_retry_backoff cfg retry_count =
     min (duration_saturating_mul (tp_transaction_retry_initial_backoff cfg) (2 ^ min retry_count 10))
       (tp_transaction_retry_max_backoff cfg)"

text \<open>\<open>run_provider_operation\<close> of the strategy \<open>retry_concurrent_transactions\<close>.\<close>

function run_turso_operation ::
    "turso_provider_config \<Rightarrow> (nanos \<Rightarrow> 's \<Rightarrow> 's) \<Rightarrow> ('s \<Rightarrow> (provider_error + 'r) \<times> 's) \<Rightarrow> nat \<Rightarrow> 's
       \<Rightarrow> (provider_error + 'r) \<times> 's" where
  "run_turso_operation cfg sleep attempt retry_count s =
     (case attempt s of
        (Inr v, s') \<Rightarrow> (Inr v, s')
      | (Inl e, s') \<Rightarrow>
          if should_retry_transaction_operation cfg e retry_count
          then run_turso_operation cfg sleep attempt (Suc retry_count)
                 (sleep (transaction_retry_backoff cfg retry_count) s')
          else (Inl e, s'))"
  by pat_completeness auto

termination
  by (relation "measure (\<lambda>(cfg, _, _, k, _). tp_transaction_max_retries cfg - k)")
    (auto simp: should_retry_transaction_operation_def)

declare run_turso_operation.simps [simp del]

subsection \<open>Acknowledging\<close>

text \<open>\<open>extend_ack_lock_at_ack_start\<close>, with the clock readings of \<open>timestamp_after\<close> and of \<open>now_millis\<close>.\<close>

definition extend_ack_lock :: "nanos option \<Rightarrow> int \<Rightarrow> int \<Rightarrow> string \<Rightarrow> ('d, 'w) db \<Rightarrow> provider_error + ('d, 'w) db" where
  "extend_ack_lock extension now_ext now tok db =
     (case extension of
        None \<Rightarrow> Inr db
      | Some extend_for \<Rightarrow>
          (let P = (\<lambda>l. il_lock_token l = tok \<and> now < il_locked_until l)
           in if sql_count P (db_instance_locks db) = 0
              then Inl (permanent_error ''ack_orchestration_item'' ''Invalid, expired, or stolen lock token'')
              else Inr (db\<lparr>db_instance_locks :=
                sql_update P (\<lambda>l. l\<lparr>il_locked_until := max (il_locked_until l) (timestamp_after now_ext extend_for)\<rparr>)
                  (db_instance_locks db)\<rparr>)))"

definition turso_ack_tx ::
    "nanos option \<Rightarrow> int \<Rightarrow> int \<Rightarrow> ('d, 'w) codec \<Rightarrow> int \<Rightarrow> int \<Rightarrow> string \<Rightarrow> sem_ver ack_request \<Rightarrow> (unit, 'd, 'w) tx" where
  "turso_ack_tx extension now_ext now_start cd now now_check tok req db =
     (case instance_of_token tok db of
        None \<Rightarrow> Inl (permanent_error ''ack_orchestration_item'' ''Invalid lock token'')
      | Some _ \<Rightarrow> and_then (extend_ack_lock extension now_ext now_start tok db)
                    (ack_orchestration_tx cd now now_check tok req))"

definition turso_ack_orchestration_item ::
    "nanos option \<Rightarrow> int \<Rightarrow> int \<Rightarrow> ('d, 'w) codec \<Rightarrow> int \<Rightarrow> int \<Rightarrow> string \<Rightarrow> sem_ver ack_request \<Rightarrow> ('d, 'w) db
       \<Rightarrow> (provider_error + unit) \<times> ('d, 'w) db" where
  "turso_ack_orchestration_item extension now_ext now_start cd now now_check tok req =
     run_tx (turso_ack_tx extension now_ext now_start cd now now_check tok req)"

text \<open>The environment: the store with its clock, and the errors the engine gives to the coming transactions.\<close>

record ('d, 'w) turso_env =
  tu_store :: "('d, 'w) sqlite_env"
  tu_faults :: "sqlx_error option list"

definition turso_attempt ::
    "string \<Rightarrow> (('d, 'w) sqlite_env \<Rightarrow> (provider_error + 'r) \<times> ('d, 'w) sqlite_env) \<Rightarrow> ('d, 'w) turso_env
       \<Rightarrow> (provider_error + 'r) \<times> ('d, 'w) turso_env" where
  "turso_attempt operation body env =
     (case tu_faults env of
        Some e # fs \<Rightarrow> (Inl (turso_to_provider_error operation e), env\<lparr>tu_faults := fs\<rparr>)
      | fs \<Rightarrow> (case body (tu_store env) of (r, st) \<Rightarrow> (r, env\<lparr>tu_store := st, tu_faults := tl fs\<rparr>)))"

definition turso_sleep :: "nanos \<Rightarrow> ('d, 'w) turso_env \<Rightarrow> ('d, 'w) turso_env" where
  "turso_sleep d env = env\<lparr>tu_store := (tu_store env)\<lparr>en_now := en_now (tu_store env) + d\<rparr>\<rparr>"

definition turso_ack_body ::
    "turso_provider_config \<Rightarrow> ('d, 'w) codec \<Rightarrow> string \<Rightarrow> sem_ver ack_request \<Rightarrow> ('d, 'w) sqlite_env
       \<Rightarrow> (provider_error + unit) \<times> ('d, 'w) sqlite_env" where
  "turso_ack_body cfg cd tok req env =
     (let (t1, env1) = read_clock env; (t2, env2) = read_clock env1;
          (t3, env3) = read_clock env2; (t4, env4) = read_clock env3
      in on_db (turso_ack_orchestration_item (tp_ack_lock_extension cfg) (now_millis t1) (now_millis t2) cd
                 (now_millis t3) (now_millis t4) tok req) env4)"

definition turso_ack ::
    "turso_provider_config \<Rightarrow> ('d, 'w) codec \<Rightarrow> string \<Rightarrow> sem_ver ack_request \<Rightarrow> ('d, 'w) turso_env
       \<Rightarrow> (provider_error + unit) \<times> ('d, 'w) turso_env" where
  "turso_ack cfg cd tok req =
     run_turso_operation cfg turso_sleep (turso_attempt ''ack_orchestration_item'' (turso_ack_body cfg cd tok req)) 0"

subsection \<open>The extension keeps the lock through the acknowledgement\<close>

abbreviation with_locks :: "lock_row list \<Rightarrow> ('d, 'w) db \<Rightarrow> ('d, 'w) db" where
  "with_locks L db \<equiv> db\<lparr>db_instance_locks := L\<rparr>"

lemma ack_enqueue_locks: "ack_enqueue_orchestrator cd now w (with_locks L db) = with_locks L (ack_enqueue_orchestrator cd now w db)"
  by (simp add: ack_enqueue_orchestrator_def insert_orch_row_def Let_def split: option.split)

lemma insert_worker_locks: "insert_worker_row cd now w (with_locks L db) = with_locks L (insert_worker_row cd now w db)"
  by (cases w) (simp_all add: insert_worker_row_def Let_def)

lemma fold_commutes: "(\<And>x s. f x (g s) = g (f x s)) \<Longrightarrow> fold f xs (g s) = g (fold f xs s)"
  by (induction xs arbitrary: s) simp_all

lemma ack_instance_locks:
  "ack_instance_row now inst x md (with_locks L db) = map_sum id (with_locks L) (ack_instance_row now inst x md db)"
  by (auto simp: ack_instance_row_def find_instance_def Let_def split: option.split)

lemma ack_execution_locks: "ack_execution_row inst x md (with_locks L db) = with_locks L (ack_execution_row inst x md db)"
  by (simp add: ack_execution_row_def Let_def split: option.split)

lemma ack_history_locks:
  "ack_history cd inst x delta (with_locks L db) = map_sum id (with_locks L) (ack_history cd inst x delta db)"
  by (cases "insert_events cd inst x delta (db_history db)") (auto simp: ack_history_def append_history_in_tx_def)

lemma ack_status_locks: "ack_status now inst x md (with_locks L db) = with_locks L (ack_status now inst x md db)"
  by (simp add: ack_status_def split: option.split)

lemma ack_custom_status_locks:
  "ack_custom_status inst delta (with_locks L db) = with_locks L (ack_custom_status inst delta db)"
  by (simp add: ack_custom_status_def split: option.split)

lemma ack_kv_locks: "ack_kv now inst delta md (with_locks L db) = with_locks L (ack_kv now inst delta md db)"
  by (simp add: ack_kv_def merge_kv_def Let_def)

lemma ack_delete_locks:
  "delete_fetched tok (with_locks L db) = with_locks L (delete_fetched tok db)"
  "delete_cancelled cs (with_locks L db) = with_locks L (delete_cancelled cs db)"
  by (simp_all add: delete_fetched_def delete_cancelled_def)

lemma fold_locks:
  "fold (ack_enqueue_orchestrator cd now) ws (with_locks L db) = with_locks L (fold (ack_enqueue_orchestrator cd now) ws db)"
  "fold (insert_worker_row cd now) ws (with_locks L db) = with_locks L (fold (insert_worker_row cd now) ws db)"
  by (rule fold_commutes, rule ack_enqueue_locks) (rule fold_commutes, rule insert_worker_locks)

lemmas ack_locks = ack_instance_locks ack_execution_locks ack_history_locks ack_status_locks ack_custom_status_locks
  ack_kv_locks ack_delete_locks fold_locks

lemma and_then_map: "and_then (map_sum id g x) f = and_then x (\<lambda>v. f (g v))"
  by (simp add: and_then_def split: sum.split)

lemma ack_writes_locks:
  "ack_writes cd now tok inst req (with_locks L db) = map_sum id (with_locks L) (ack_writes cd now tok inst req db)"
  by (simp add: ack_writes_def Let_def ack_locks and_then_map) (simp add: and_then_def split: sum.split)

lemma lock_row_unique:
  assumes "distinct (map il_lock_token (db_instance_locks db))" "instance_of_token tok db = Some i"
  shows "l \<in> set (db_instance_locks db) \<Longrightarrow> il_lock_token l = tok \<Longrightarrow> il_instance l = i"
  using assms by (auto simp: instance_of_token_def find_Some_iff in_set_conv_nth distinct_conv_nth split: option.splits)

lemma extended_locks:
  fixes now now_check :: int and db db' :: "('d, 'w) db"
  assumes d: "distinct (map il_lock_token (db_instance_locks db))" and i: "instance_of_token tok db = Some i"
    and later: "now_check < timestamp_after now_ext ext"
  defines "L \<equiv> sql_update (\<lambda>l. il_lock_token l = tok \<and> now < il_locked_until l)
      (\<lambda>l. l\<lparr>il_locked_until := max (il_locked_until l) (timestamp_after now_ext ext)\<rparr>) (db_instance_locks db)"
  shows "instance_of_token tok (with_locks L db) = Some i"
    and "lock_valid now i tok db \<Longrightarrow> db_instance_locks db' = L \<Longrightarrow> lock_valid now_check i tok db'"
    and "sql_delete (\<lambda>l. il_instance l = i \<and> il_lock_token l = tok) L
       = sql_delete (\<lambda>l. il_instance l = i \<and> il_lock_token l = tok) (db_instance_locks db)"
proof -
  have u: "map (\<lambda>l. (il_instance l, il_lock_token l)) L = map (\<lambda>l. (il_instance l, il_lock_token l)) (db_instance_locks db)"
    by (simp add: L_def sql_update_def)
  have f: "map_option il_instance (List.find (\<lambda>l. il_lock_token l = tok) ls)
      = map_option fst (List.find (\<lambda>(_, t). t = tok) (map (\<lambda>l. (il_instance l, il_lock_token l)) ls))" for ls
    by (induction ls) auto
  show "instance_of_token tok (with_locks L db) = Some i"
    using i unfolding instance_of_token_def f by (simp add: u)
  show "lock_valid now_check i tok db'" if "lock_valid now i tok db" "db_instance_locks db' = L"
  proof -
    from that(1) obtain l where l: "l \<in> set (db_instance_locks db)" "il_instance l = i" "il_lock_token l = tok" "now < il_locked_until l"
      by (auto simp: lock_valid_def sql_count_def filter_empty_conv)
    let ?l = "l\<lparr>il_locked_until := max (il_locked_until l) (timestamp_after now_ext ext)\<rparr>"
    have "?l \<in> set L" using l by (auto simp: L_def sql_update_def image_iff intro!: bexI [of _ l])
    moreover have "il_instance ?l = i" "il_lock_token ?l = tok" "now_check < il_locked_until ?l" using l later by simp_all
    ultimately have "\<exists>l' \<in> set L. il_instance l' = i \<and> il_lock_token l' = tok \<and> now_check < il_locked_until l'" by blast
    with that(2) show ?thesis by (auto simp: lock_valid_def sql_count_def filter_empty_conv)
  qed
  have "filter (\<lambda>l. \<not> (il_instance l = i \<and> il_lock_token l = tok)) (map g ls)
      = filter (\<lambda>l. \<not> (il_instance l = i \<and> il_lock_token l = tok)) ls"
    if "\<And>l. l \<in> set ls \<Longrightarrow> g l = l \<or> (il_instance l = i \<and> il_lock_token l = tok)"
      "\<And>l. l \<in> set ls \<Longrightarrow> il_instance (g l) = il_instance l \<and> il_lock_token (g l) = il_lock_token l" for g ls
    using that by (induction ls) auto
  from this [of "db_instance_locks db"] lock_row_unique [OF d i]
  show "sql_delete (\<lambda>l. il_instance l = i \<and> il_lock_token l = tok) L
      = sql_delete (\<lambda>l. il_instance l = i \<and> il_lock_token l = tok) (db_instance_locks db)"
    by (simp add: L_def sql_update_def sql_delete_def)
qed

lemma release_locks: "release_lock i tok (with_locks L db) = with_locks (sql_delete (\<lambda>l. il_instance l = i \<and> il_lock_token l = tok) L) db"
  by (simp add: release_lock_def)

text \<open>
  C3. With the extension, an acknowledgement whose lock is valid when it starts, and whose final check reads the
  clock before the extension ends, does what an acknowledgement does whose final check is made at its start:
  the writes may outlast the lock. A lock that has expired when the acknowledgement starts is not revived: the
  call fails for good and the store is left as it was.
\<close>

theorem turso_ack_outlasts_lock:
  assumes "distinct (map il_lock_token (db_instance_locks db))" and "instance_of_token tok db = Some i"
    and "now_check < timestamp_after now_ext ext"
  shows "turso_ack_orchestration_item (Some ext) now_ext now_start cd now now_check tok req db =
     (if lock_valid now_start i tok db
      then ack_orchestration_item cd now now_start tok req db
      else (Inl (permanent_error ''ack_orchestration_item'' ''Invalid, expired, or stolen lock token''), db))"
proof -
  let ?P = "\<lambda>l. il_lock_token l = tok \<and> now_start < il_locked_until l"
  let ?L = "sql_update ?P (\<lambda>l. l\<lparr>il_locked_until := max (il_locked_until l) (timestamp_after now_ext ext)\<rparr>)
      (db_instance_locks db)"
  note E = extended_locks [OF assms, of now_start]
  have valid: "lock_valid now_start i tok db \<longleftrightarrow> sql_count ?P (db_instance_locks db) \<noteq> 0"
    using lock_row_unique [OF assms(1,2)] by (auto simp: lock_valid_def sql_count_def filter_empty_conv)
  show ?thesis
  proof (cases "lock_valid now_start i tok db")
    case True
    have "ack_orchestration_tx cd now now_check tok req (with_locks ?L db) = ack_orchestration_tx cd now now_start tok req db"
    proof (cases "ack_writes cd now tok i req db")
      case (Inr db')
      have l: "db_instance_locks db' = db_instance_locks db" by (rule ack_writes_tables(2) [OF Inr])
      then have "lock_valid now_start i tok db'" using True by (simp add: lock_valid_def)
      moreover have "lock_valid now_check i tok (with_locks ?L db')" using E(2) [OF True] by simp
      moreover have "release_lock i tok (with_locks ?L db') = release_lock i tok db'"
        by (simp add: release_lock_def E(3) l)
      ultimately show ?thesis
        using E(1) assms(2) Inr by (simp add: ack_orchestration_tx_def ack_writes_locks)
    qed (use E(1) assms(2) in \<open>simp add: ack_orchestration_tx_def ack_writes_locks\<close>)
    with True valid assms(2) show ?thesis
      by (simp add: turso_ack_orchestration_item_def turso_ack_tx_def ack_orchestration_item_def extend_ack_lock_def
          Let_def run_tx_def)
  next
    case False
    with valid assms(2) show ?thesis
      by (simp add: turso_ack_orchestration_item_def turso_ack_tx_def extend_ack_lock_def Let_def run_tx_def)
  qed
qed

definition locked_store :: "(event, work_item) db" where
  "locked_store = empty_db\<lparr>db_instance_locks :=
     [\<lparr>il_instance = ''i'', il_lock_token = ''t'', il_locked_until = 100, il_locked_at = 0\<rparr>]\<rparr>"

lemma turso_ack_outlasts_lock_witness:
  "turso_ack_orchestration_item (Some 1000000000) 50 50 plain_codec 60 900 ''t'' (empty_request 1) locked_store
     = ack_orchestration_item plain_codec 60 50 ''t'' (empty_request 1) locked_store"
proof -
  have "distinct (map il_lock_token (db_instance_locks locked_store))" "instance_of_token ''t'' locked_store = Some ''i''"
    "900 < timestamp_after 50 1000000000" "lock_valid 50 ''i'' ''t'' locked_store"
    by (simp_all add: locked_store_def instance_of_token_def lock_valid_def sql_count_def timestamp_after_def
        as_millis_def i64_wrap_def)
  from turso_ack_outlasts_lock [OF this(1-3)] this(4) show ?thesis by simp
qed

subsection \<open>Repeated operations\<close>

lemma run_turso_operation_last:
  fixes D :: "'s \<Rightarrow> 'd" and count :: "'s \<Rightarrow> nat"
  assumes failed: "\<And>s e s'. attempt s = (Inl e, s') \<Longrightarrow> D s' = D s"
    and counted: "\<And>s r s'. attempt s = (r, s') \<Longrightarrow> count s \<le> Suc (count s')"
    and slept: "\<And>d s. D (sleep d s) = D s" "\<And>d s. count (sleep d s) = count s"
  shows "run_turso_operation cfg sleep attempt k s = (r, s') \<Longrightarrow>
     (\<exists>s1. D s1 = D s \<and> attempt s1 = (r, s')) \<and> count s \<le> count s' + Suc (tp_transaction_max_retries cfg - k)"
proof (induction "tp_transaction_max_retries cfg - k" arbitrary: k s rule: less_induct)
  case less
  obtain r1 s1 where a: "attempt s = (r1, s1)" by fastforce
  show ?case
  proof (cases "\<exists>e. r1 = Inl e \<and> should_retry_transaction_operation cfg e k")
    case True
    then obtain e where e: "r1 = Inl e" "should_retry_transaction_operation cfg e k" by blast
    let ?s = "sleep (transaction_retry_backoff cfg k) s1"
    from e a less.prems have run: "run_turso_operation cfg sleep attempt (Suc k) ?s = (r, s')"
      by (simp add: run_turso_operation.simps [of cfg sleep attempt k])
    have k: "k < tp_transaction_max_retries cfg" using e(2) by (simp add: should_retry_transaction_operation_def)
    then have "(\<exists>s2. D s2 = D ?s \<and> attempt s2 = (r, s')) \<and> count ?s \<le> count s' + Suc (tp_transaction_max_retries cfg - Suc k)"
      using less.hyps [OF _ run] by simp
    moreover have "D ?s = D s" using failed a e(1) by (simp add: slept)
    moreover have "count s \<le> Suc (count ?s)" using counted [OF a] by (simp add: slept)
    ultimately show ?thesis using k by auto
  next
    case False
    with a less.prems have "r1 = r" "s1 = s'"
      by (auto simp: run_turso_operation.simps [of cfg sleep attempt k] split: sum.splits if_splits)
    with a counted [OF a] show ?thesis by auto
  qed
qed

lemma turso_ack_body_db:
  assumes "turso_ack_body cfg cd tok req env = (r, env')"
  obtains t1 t2 t3 t4 where "turso_ack_orchestration_item (tp_ack_lock_extension cfg) t1 t2 cd t3 t4 tok req (en_db env)
      = (r, en_db env')"
proof -
  obtain c1 e1 where c1: "read_clock env = (c1, e1)" by fastforce
  obtain c2 e2 where c2: "read_clock e1 = (c2, e2)" by fastforce
  obtain c3 e3 where c3: "read_clock e2 = (c3, e3)" by fastforce
  obtain c4 e4 where c4: "read_clock e3 = (c4, e4)" by fastforce
  have db: "en_db e4 = en_db env" using c1 c2 c3 c4 by simp
  let ?f = "turso_ack_orchestration_item (tp_ack_lock_extension cfg) (now_millis c1) (now_millis c2) cd
    (now_millis c3) (now_millis c4) tok req"
  have "on_db ?f e4 = (r, env')" using assms c1 c2 c3 c4 by (simp add: turso_ack_body_def)
  then have "?f (en_db env) = (r, en_db env')" by (auto simp: on_db_def db split: prod.splits)
  then show thesis by (rule that)
qed

lemma turso_attempt_cases:
  assumes "turso_attempt operation body env = (r, env')"
  shows "length (tu_faults env) \<le> Suc (length (tu_faults env'))"
    and "(\<exists>e. r = Inl e) \<and> tu_store env' = tu_store env \<or> body (tu_store env) = (r, tu_store env')"
  using assms by (auto simp: turso_attempt_def split: list.splits option.splits prod.splits)

lemma turso_ack_attempt_error:
  assumes "turso_attempt op (turso_ack_body cfg cd tok req) env = (Inl e, env')"
  shows "en_db (tu_store env') = en_db (tu_store env)"
  using turso_attempt_cases(2) [OF assms]
  by (auto elim!: turso_ack_body_db simp: turso_ack_orchestration_item_def dest: run_tx_error)


text \<open>Conflicts within the limit only delay the operation, by the sum of the back-offs.\<close>

lemma conflict_message: "contains_str (''Turso transaction retry: '' @ m) ''Turso transaction retry''"
  by (simp add: starts_with_def)

lemma conflict_retried:
  "tp_transaction_mode cfg = TT_Concurrent \<Longrightarrow> k < tp_transaction_max_retries cfg \<Longrightarrow> is_turso_transaction_retryable e
     \<Longrightarrow> should_retry_transaction_operation cfg (turso_to_provider_error operation e) k"
  using conflict_message [of "sqlx_error_text e"]
  by (simp add: should_retry_transaction_operation_def turso_to_provider_error_def retryable_error_def)

lemma conflicts_absorbed:
  assumes "tp_transaction_mode cfg = TT_Concurrent"
  shows "list_all is_turso_transaction_retryable es \<Longrightarrow> k + length es \<le> tp_transaction_max_retries cfg
    \<Longrightarrow> tu_faults env = map Some es @ fs
    \<Longrightarrow> run_turso_operation cfg turso_sleep (turso_attempt operation body) k env
      = run_turso_operation cfg turso_sleep (turso_attempt operation body) (k + length es)
          (turso_sleep (\<Sum>j\<leftarrow>[k ..< k + length es]. transaction_retry_backoff cfg j) (env\<lparr>tu_faults := fs\<rparr>))"
proof (induction es arbitrary: k env)
  case (Cons e es)
  let ?env = "turso_sleep (transaction_retry_backoff cfg k) (env\<lparr>tu_faults := map Some es @ fs\<rparr>)"
  have "run_turso_operation cfg turso_sleep (turso_attempt operation body) k env
      = run_turso_operation cfg turso_sleep (turso_attempt operation body) (Suc k) ?env"
    using Cons.prems conflict_retried [OF assms, of k e operation]
    by (subst run_turso_operation.simps) (simp add: turso_attempt_def)
  also have "\<dots> = run_turso_operation cfg turso_sleep (turso_attempt operation body) (Suc k + length es)
      (turso_sleep (\<Sum>j\<leftarrow>[Suc k ..< Suc k + length es]. transaction_retry_backoff cfg j) (?env\<lparr>tu_faults := fs\<rparr>))"
    using Cons.prems by (intro Cons.IH) (simp_all add: turso_sleep_def)
  also have "turso_sleep (\<Sum>j\<leftarrow>[Suc k ..< Suc k + length es]. transaction_retry_backoff cfg j) (?env\<lparr>tu_faults := fs\<rparr>)
      = turso_sleep (\<Sum>j\<leftarrow>[k ..< k + length (e # es)]. transaction_retry_backoff cfg j) (env\<lparr>tu_faults := fs\<rparr>)"
    by (simp add: turso_sleep_def upt_conv_Cons del: upt_Suc)
  finally show ?case by simp
next
  case Nil
  then have "env\<lparr>tu_faults := fs\<rparr> = env" by (cases env) simp
  then show ?case by (simp add: turso_sleep_def)
qed

lemma backoff_bounded: "transaction_retry_backoff cfg k \<le> tp_transaction_retry_max_backoff cfg"
  by (simp add: transaction_retry_backoff_def)

definition concurrent_config :: turso_provider_config where
  "concurrent_config =
     \<lparr>tp_transaction_mode = TT_Concurrent, tp_transaction_max_retries = 8,
      tp_transaction_retry_initial_backoff = 1000000, tp_transaction_retry_max_backoff = 50000000,
      tp_ack_lock_extension = Some 300000000000\<rparr>"

definition conflicted_env :: "(event, work_item) turso_env" where
  "conflicted_env =
     \<lparr>tu_store = \<lparr>en_db = locked_store, en_now = 50000000, en_clock = [], en_faults = [], en_pid = 7\<rparr>,
      tu_faults = [Some (SE_Turso (Busy_Snapshot ''conflict'')), Some (SE_Turso (Busy ''busy''))]\<rparr>"


end
