(* ===== verification/Validation.thy ===== *)
theory Validation
  imports Programs
begin

text \<open>
  \<open>src/provider_validation/mod.rs\<close>: the helpers of the validation suites, the tests every provider must pass. A test
  is a program of provider calls and assertions; it passes when it runs to its end. \<open>factory.lock_timeout()\<close> has its
  default of five seconds.
\<close>

definition start_work :: "string \<Rightarrow> work_item" where
  "start_work inst = WI_StartOrchestration inst ''TestOrch'' ''{}'' (Some ''1.0.0'') None None 1"

definition test_metadata :: "sem_ver execution_metadata" where
  "test_metadata = metadata_default\<lparr>em_orchestration_name := Some ''TestOrch'', em_orchestration_version := Some ''1.0.0''\<rparr>"

definition enqueue :: "work_item \<Rightarrow> program \<Rightarrow> program" where
  "enqueue w k = expect unit_of (PC_Enqueue_Orchestrator w None) (\<lambda>_. k)"

definition fetch :: "nanos \<Rightarrow> (orchestration_item \<Rightarrow> string \<Rightarrow> nat \<Rightarrow> program) \<Rightarrow> program" where
  "fetch lock_timeout k = expect item_of (PC_Fetch_Orchestration lock_timeout 0 None) (\<lambda>(item, tok, n). k item tok n)"

definition fetch_none :: "nanos \<Rightarrow> program \<Rightarrow> program" where
  "fetch_none lock_timeout k = expect no_item (PC_Fetch_Orchestration lock_timeout 0 None) (\<lambda>_. k)"

definition ack_call ::
    "string \<Rightarrow> id64 \<Rightarrow> event list \<Rightarrow> work_item list \<Rightarrow> work_item list \<Rightarrow> sem_ver execution_metadata \<Rightarrow> provider_call" where
  "ack_call tok x delta workers orchs md = PC_Ack_Orchestration tok
     \<lparr>ar_execution_id = x, ar_history_delta = delta, ar_worker_items = workers, ar_orchestrator_items = orchs,
      ar_metadata = md, ar_cancelled_activities = []\<rparr>"

definition acked :: "provider_call \<Rightarrow> program \<Rightarrow> program" where
  "acked c k = expect unit_of c (\<lambda>_. k)"

definition rejected :: "provider_call \<Rightarrow> program \<Rightarrow> program" where
  "rejected c k = expect error_of c (\<lambda>_. k)"

definition start_event :: "string \<Rightarrow> event" where
  "start_event inst = with_event_id 1 inst 1 None (OrchestrationStarted ''TestOrch'' ''1.0.0'' ''{}'' None None None None)"

definition create_instance :: "string \<Rightarrow> program \<Rightarrow> program" where
  "create_instance inst k =
     enqueue (start_work inst) (fetch (from_secs 30) (\<lambda>_ tok _.
     acked (ack_call tok 1 [start_event inst] [] [] test_metadata) k))"

definition lock_timeout :: nanos where "lock_timeout = from_secs 5"

definition enqueue_work :: "work_item \<Rightarrow> program \<Rightarrow> program" where
  "enqueue_work w k = expect unit_of (PC_Enqueue_Worker w) (\<lambda>_. k)"

definition fetch_work :: "nanos \<Rightarrow> (work_item \<Rightarrow> string \<Rightarrow> nat \<Rightarrow> program) \<Rightarrow> program" where
  "fetch_work lt k = expect work_of (PC_Fetch_Work lt 0 None TF_DefaultOnly) (\<lambda>(w, tok, n). k w tok n)"

definition fetch_work_none :: "nanos \<Rightarrow> program \<Rightarrow> program" where
  "fetch_work_none lt k = expect no_work (PC_Fetch_Work lt 0 None TF_DefaultOnly) (\<lambda>_. k)"

text \<open>\<open>unwrap_or_default\<close> on a history.\<close>

fun history_of :: "provider_answer \<Rightarrow> event list option" where
  "history_of (PA_Events evs) = Some evs"
| "history_of (PA_Error _) = Some []"
| "history_of _ = None"

abbreviation history_read :: "string \<Rightarrow> (event list \<Rightarrow> program) \<Rightarrow> program" where
  "history_read inst \<equiv> expect history_of (PC_Read inst)"

abbreviation read_execution :: "string \<Rightarrow> id64 \<Rightarrow> (event list \<Rightarrow> program) \<Rightarrow> program" where
  "read_execution inst x \<equiv> expect history_of (PC_Read_With_Execution inst x)"

fun completed_ids :: "work_item list \<Rightarrow> nat list" where
  "completed_ids [] = []"
| "completed_ids (WI_ActivityCompleted _ _ i _ # ws) = i # completed_ids ws"
| "completed_ids (_ # ws) = completed_ids ws"

abbreviation started_kind :: "string \<Rightarrow> event_kind" where
  "started_kind input \<equiv> OrchestrationStarted ''TestOrch'' ''1.0.0'' input None None None None"

fun event_letter :: "event_kind \<Rightarrow> char" where
  "event_letter (OrchestrationStarted _ _ _ _ _ _ _) = CHR ''S''"
| "event_letter (ActivityScheduled _ _ _ _) = CHR ''A''"
| "event_letter (OrchestrationCompleted _) = CHR ''C''"
| "event_letter _ = CHR ''?''"

fun scheduled_name :: "event_kind \<Rightarrow> string option" where
  "scheduled_name (ActivityScheduled name _ _ _) = Some name"
| "scheduled_name _ = None"

text \<open>\<open>matches!\<close> on the kinds of a history, and the name of its only activity.\<close>

definition letters :: "event list \<Rightarrow> string" where
  "letters evs = map (\<lambda>e. event_letter (ev_kind e)) evs"

definition only_activity :: "event list \<Rightarrow> string \<Rightarrow> bool" where
  "only_activity evs name \<longleftrightarrow> length evs = 1 \<and> scheduled_name (ev_kind (evs ! 0)) = Some name"

fun is_activity :: "work_item \<Rightarrow> bool" where
  "is_activity (WI_ActivityExecute _ _ _ _ _ _ _) = True"
| "is_activity _ = False"

text \<open>Work fetched under a session configuration and a tag filter.\<close>

definition fetch_as ::
    "session_fetch_config option \<Rightarrow> tag_filter \<Rightarrow> nanos \<Rightarrow> (work_item \<Rightarrow> string \<Rightarrow> nat \<Rightarrow> program) \<Rightarrow> program" where
  "fetch_as cfg flt lt k = expect work_of (PC_Fetch_Work lt 0 cfg flt) (\<lambda>(w, tok, n). k w tok n)"

definition fetch_as_none :: "session_fetch_config option \<Rightarrow> tag_filter \<Rightarrow> nanos \<Rightarrow> program \<Rightarrow> program" where
  "fetch_as_none cfg flt lt k = expect no_work (PC_Fetch_Work lt 0 cfg flt) (\<lambda>_. k)"

text \<open>\<open>match\<close> with a panic for other items, and \<open>if let\<close> without one.\<close>

definition is_execute :: "(id64 \<Rightarrow> string \<Rightarrow> string option \<Rightarrow> string option \<Rightarrow> bool) \<Rightarrow> work_item \<Rightarrow> bool" where
  "is_execute P w = (case w of WI_ActivityExecute _ _ i name _ sid tag \<Rightarrow> P i name sid tag | _ \<Rightarrow> False)"

definition when_execute :: "work_item \<Rightarrow> (id64 \<Rightarrow> string option \<Rightarrow> program \<Rightarrow> program) \<Rightarrow> program \<Rightarrow> program" where
  "when_execute w f k = (case w of WI_ActivityExecute _ _ i _ _ sid _ \<Rightarrow> f i sid k | _ \<Rightarrow> k)"

text \<open>Run on an empty store with a clock of November 2023 (one test has a timer of January 1970).\<close>

definition validated :: "program \<Rightarrow> bool" where
  "validated prog = fst (run_program (sqlite_provider plain_codec) advance prog (at 1700000000000000000 empty_db))"

lemma show_digit:
  "show_nat 0 = ''0''" "show_nat (Suc 0) = ''1''" "show_nat 2 = ''2''" "show_nat 3 = ''3''" "show_nat 4 = ''4''"
  "show_nat 5 = ''5''" "show_nat 6 = ''6''" "show_nat 7 = ''7''" "show_nat 8 = ''8''" "show_nat 9 = ''9''"
  by code_simp+

lemmas val_eval = sql_in_def fetch_as_def fetch_as_none_def is_execute_def when_execute_def show_digit letters_def only_activity_def prog_eval start_work_def test_metadata_def enqueue_def fetch_def fetch_none_def ack_call_def acked_def
  rejected_def start_event_def create_instance_def lock_timeout_def with_event_id_def metadata_default_def
  enqueue_work_def fetch_work_def fetch_work_none_def
  renew_orchestration_item_lock_def renew_work_item_lock_def abandon_work_item_def ack_work_item_def ack_work_tx_def
  touch_session_def work_locked_def read_def read_with_execution_def append_with_execution_def upsert_delta_def
  insert_tombstone_def materialize_kv_def merge_row_def renew_session_lock_def cleanup_orphaned_sessions_def

subsection \<open>Instance locking\<close>

definition test_exclusive_instance_lock :: program where
  "test_exclusive_instance_lock =
     enqueue (start_work ''instance-A'') (fetch lock_timeout (\<lambda>_ tok1 _. fetch_none lock_timeout
     (Sleeps (lock_timeout + from_millis 100) (fetch lock_timeout (\<lambda>_ tok2 _. assert_that (tok2 \<noteq> tok1) (Ends True))))))"

definition test_lock_token_uniqueness :: program where
  "test_lock_token_uniqueness =
     for_each [0, 1, 2, 3, 4] (\<lambda>i. enqueue (start_work (''inst-'' @ show_nat i)))
     (fetch (from_secs 30) (\<lambda>_ t0 _. fetch (from_secs 30) (\<lambda>_ t1 _. fetch (from_secs 30) (\<lambda>_ t2 _.
      fetch (from_secs 30) (\<lambda>_ t3 _. fetch (from_secs 30) (\<lambda>_ t4 _.
      assert_that (distinct [t0, t1, t2, t3, t4]) (Ends True)))))))"

definition test_invalid_lock_token_rejection :: program where
  "test_invalid_lock_token_rejection =
     enqueue (start_work ''instance-A'') (fetch (from_secs 30) (\<lambda>_ _ _.
     rejected (ack_call ''invalid-token'' 1 [] [] [] metadata_default)
     (rejected (PC_Abandon_Orchestration ''invalid-token'' None False)
     (fetch_none (from_secs 30) (Ends True)))))"

definition test_completions_arriving_during_lock_blocked :: program where
  "test_completions_arriving_during_lock_blocked =
     enqueue (start_work ''instance-A'') (fetch lock_timeout (\<lambda>item1 _ _.
     assert_that (oi_instance item1 = ''instance-A'')
     (for_each [1, 2, 3] (\<lambda>i. enqueue (WI_ActivityCompleted ''instance-A'' 1 i (''result-'' @ show_nat i)))
     (fetch_none lock_timeout
     (Sleeps (lock_timeout + from_millis 100)
     (fetch lock_timeout (\<lambda>item3 _ _.
     assert_that (oi_instance item3 = ''instance-A'')
     (assert_that (length (oi_messages item3) = 4)
     (assert_that (completed_ids (oi_messages item3) = [1, 2, 3]) (Ends True))))))))))"

definition test_cross_instance_lock_isolation :: program where
  "test_cross_instance_lock_isolation =
     create_instance ''instance-A'' (create_instance ''instance-B''
     (enqueue (start_work ''instance-A'') (enqueue (start_work ''instance-B'')
     (fetch (from_secs 30) (\<lambda>item_a _ _. assert_that (oi_instance item_a = ''instance-A'')
     (fetch (from_secs 30) (\<lambda>item_b tok_b _. assert_that (oi_instance item_b = ''instance-B'')
     (acked (ack_call tok_b 1 [] [] [] test_metadata)
     (enqueue (WI_ActivityCompleted ''instance-B'' 1 1 ''done'')
     (fetch (from_secs 30) (\<lambda>item_b2 _ _. assert_that (oi_instance item_b2 = ''instance-B'')
     (assert_that (oi_instance item_a \<noteq> oi_instance item_b) (Ends True)))))))))))))"

definition test_message_tagging_during_lock :: program where
  "test_message_tagging_during_lock =
     create_instance ''instance-A''
     (enqueue (WI_ActivityCompleted ''instance-A'' 1 1 ''msg1'') (enqueue (WI_ActivityCompleted ''instance-A'' 1 2 ''msg2'')
     (fetch (from_secs 30) (\<lambda>item tok _.
     assert_that (oi_instance item = ''instance-A'') (assert_that (length (oi_messages item) = 2)
     (enqueue (WI_ActivityCompleted ''instance-A'' 1 3 ''msg3'')
     (acked (ack_call tok 1 [] [] [] metadata_default)
     (fetch (from_secs 30) (\<lambda>item2 _ _.
     assert_that (oi_instance item2 = ''instance-A'') (assert_that (length (oi_messages item2) = 1)
     (assert_that (completed_ids [oi_messages item2 ! 0] = [3]) (Ends True))))))))))))"

definition test_ack_only_affects_locked_messages :: program where
  "test_ack_only_affects_locked_messages =
     create_instance ''instance-A''
     (enqueue (WI_ActivityCompleted ''instance-A'' 1 1 ''msg1'')
     (fetch (from_secs 30) (\<lambda>item1 tok _. assert_that (length (oi_messages item1) = 1)
     (enqueue (WI_ActivityCompleted ''instance-A'' 1 2 ''msg2'') (enqueue (WI_ActivityCompleted ''instance-A'' 1 3 ''msg3'')
     (fetch_none (from_secs 30)
     (acked (ack_call tok 1 [] [] [] metadata_default)
     (fetch (from_secs 30) (\<lambda>item2 _ _.
     assert_that (oi_instance item2 = ''instance-A'') (assert_that (length (oi_messages item2) = 2)
     (assert_that (completed_ids (oi_messages item2) = [2, 3]) (Ends True))))))))))))"

lemma exclusive_instance_lock: "validated test_exclusive_instance_lock"
  by (simp add: validated_def test_exclusive_instance_lock_def val_eval del: plain_codec_def cong: let_weak_cong)

lemma lock_token_uniqueness: "validated test_lock_token_uniqueness"
  by (simp add: validated_def test_lock_token_uniqueness_def val_eval del: plain_codec_def cong: let_weak_cong)

lemma invalid_lock_token_rejection: "validated test_invalid_lock_token_rejection"
  by (simp add: validated_def test_invalid_lock_token_rejection_def val_eval del: plain_codec_def cong: let_weak_cong)

lemma completions_arriving_during_lock_blocked: "validated test_completions_arriving_during_lock_blocked"
  by (simp add: validated_def test_completions_arriving_during_lock_blocked_def val_eval del: plain_codec_def cong: let_weak_cong)

lemma cross_instance_lock_isolation: "validated test_cross_instance_lock_isolation"
  by (simp add: validated_def test_cross_instance_lock_isolation_def val_eval del: plain_codec_def cong: let_weak_cong)

lemma message_tagging_during_lock: "validated test_message_tagging_during_lock"
  by (simp add: validated_def test_message_tagging_during_lock_def val_eval del: plain_codec_def cong: let_weak_cong)

lemma ack_only_affects_locked_messages: "validated test_ack_only_affects_locked_messages"
  by (simp add: validated_def test_ack_only_affects_locked_messages_def val_eval del: plain_codec_def cong: let_weak_cong)

end
