(* ===== verification/Val_Expiration.thy ===== *)
theory Val_Expiration
  imports Validation
begin

text \<open>
  \<open>src/provider_validation/lock_expiration.rs\<close>: locks of instances and of work items expire, are renewed, released and
  delayed. The test that spawns concurrent fetches is left out.
\<close>

definition test_lock_expires_after_timeout :: program where
  "test_lock_expires_after_timeout =
     enqueue (start_work ''instance-A'') (fetch lock_timeout (\<lambda>_ tok _. fetch_none lock_timeout
     (Sleeps (lock_timeout + from_millis 100)
     (fetch lock_timeout (\<lambda>item2 tok2 _. assert_that (oi_instance item2 = ''instance-A'') (assert_that (tok2 \<noteq> tok)
     (rejected (ack_call tok 1 [] [] [] metadata_default) (Ends True))))))))"

definition test_abandon_releases_lock_immediately :: program where
  "test_abandon_releases_lock_immediately =
     enqueue (start_work ''instance-A'') (fetch lock_timeout (\<lambda>_ tok _. fetch_none lock_timeout
     (acked (PC_Abandon_Orchestration tok None False)
     (fetch lock_timeout (\<lambda>item2 _ _. assert_that (oi_instance item2 = ''instance-A'') (Ends True))))))"

definition test_lock_renewal_on_ack :: program where
  "test_lock_renewal_on_ack =
     enqueue (start_work ''instance-A'') (fetch lock_timeout (\<lambda>_ tok _. fetch_none lock_timeout
     (enqueue (start_work ''instance-A'') (fetch_none lock_timeout
     (acked (ack_call tok 1 [start_event ''instance-A''] [] [] metadata_default)
     (fetch lock_timeout (\<lambda>item2 _ _. assert_that (oi_instance item2 = ''instance-A'') (Ends True))))))))"

definition activity_work :: "string \<Rightarrow> work_item" where
  "activity_work inst = WI_ActivityExecute inst 1 1 ''TestActivity'' ''test'' None None"

definition test_worker_lock_renewal_success :: program where
  "test_worker_lock_renewal_success =
     enqueue_work (activity_work ''test-instance'') (fetch_work lock_timeout (\<lambda>_ tok _. fetch_work_none lock_timeout
     (Sleeps (from_millis 100) (acked (PC_Renew_Work tok lock_timeout) (fetch_work_none lock_timeout (Ends True))))))"

definition test_worker_lock_renewal_invalid_token :: program where
  "test_worker_lock_renewal_invalid_token = rejected (PC_Renew_Work ''invalid-token-123'' (from_secs 30)) (Ends True)"

definition test_worker_lock_renewal_after_expiration :: program where
  "test_worker_lock_renewal_after_expiration =
     enqueue_work (activity_work ''test-instance'') (fetch_work (from_secs 1) (\<lambda>_ tok _.
     Sleeps (lock_timeout + from_millis 100) (rejected (PC_Renew_Work tok lock_timeout) (Ends True))))"

text \<open>\<open>lock_timeout.mul_f64(0.6)\<close> is three seconds.\<close>

definition test_worker_lock_renewal_extends_timeout :: program where
  "test_worker_lock_renewal_extends_timeout =
     enqueue (start_work ''test-lock-renewal-extends'') (fetch (from_secs 30) (\<lambda>_ otok _.
     acked (ack_call otok 1 [start_event ''test-lock-renewal-extends''] [activity_work ''test-lock-renewal-extends''] []
       (metadata_default\<lparr>em_orchestration_name := Some ''TestOrch'', em_status := Some ''Running''\<rparr>))
     (fetch_work lock_timeout (\<lambda>_ tok _. Sleeps (from_secs 3) (acked (PC_Renew_Work tok lock_timeout)
     (Sleeps (lock_timeout - from_secs 3) (fetch_work_none lock_timeout (Ends True))))))))"

definition completed_work :: "string \<Rightarrow> work_item" where
  "completed_work inst = WI_ActivityCompleted inst 1 1 ''done''"

definition test_worker_lock_renewal_after_ack :: program where
  "test_worker_lock_renewal_after_ack =
     enqueue_work (activity_work ''test-instance'') (fetch_work lock_timeout (\<lambda>_ tok _.
     acked (PC_Ack_Work tok (Some (completed_work ''test-instance''))) (rejected (PC_Renew_Work tok lock_timeout) (Ends True))))"

definition test_abandon_work_item_releases_lock :: program where
  "test_abandon_work_item_releases_lock =
     enqueue_work (activity_work ''test-abandon-work'') (fetch_work lock_timeout (\<lambda>w tok _. assert_that (is_activity w)
     (fetch_work_none lock_timeout (acked (PC_Abandon_Work tok None False)
     (fetch_work lock_timeout (\<lambda>w2 tok2 _. assert_that (is_activity w2) (assert_that (tok \<noteq> tok2)
     (acked (PC_Ack_Work tok2 (Some (completed_work ''test-abandon-work''))) (Ends True)))))))))"

definition test_abandon_work_item_with_delay :: program where
  "test_abandon_work_item_with_delay =
     enqueue_work (activity_work ''test-abandon-delay'') (fetch_work lock_timeout (\<lambda>_ tok _.
     acked (PC_Abandon_Work tok (Some (from_millis 500)) False) (fetch_work_none lock_timeout
     (Sleeps (from_millis 500 + from_millis 100)
     (fetch_work lock_timeout (\<lambda>w2 tok2 _. assert_that (is_activity w2)
     (acked (PC_Ack_Work tok2 (Some (completed_work ''test-abandon-delay''))) (Ends True))))))))"

definition test_worker_ack_fails_after_lock_expiry :: program where
  "test_worker_ack_fails_after_lock_expiry =
     enqueue_work (activity_work ''ack-expiry-test'') (fetch_work (from_secs 1) (\<lambda>_ tok _.
     Sleeps (from_secs 1 + from_millis 200) (rejected (PC_Ack_Work tok (Some (completed_work ''ack-expiry-test'')))
     (fetch_work (from_secs 5) (\<lambda>_ _ _. Ends True)))))"

definition test_orchestration_lock_renewal_after_expiration :: program where
  "test_orchestration_lock_renewal_after_expiration =
     enqueue (start_work ''orch-renewal-expiry'') (fetch lock_timeout (\<lambda>_ tok _.
     Sleeps (lock_timeout + from_millis 100) (rejected (PC_Renew_Orchestration tok lock_timeout) (Ends True))))"

lemmas exp_eval = val_eval activity_work_def completed_work_def validated_def

lemma lock_expires_after_timeout: "validated test_lock_expires_after_timeout"
  by (simp add: test_lock_expires_after_timeout_def exp_eval del: plain_codec_def cong: let_weak_cong)

lemma abandon_releases_lock_immediately: "validated test_abandon_releases_lock_immediately"
  by (simp add: test_abandon_releases_lock_immediately_def exp_eval del: plain_codec_def cong: let_weak_cong)

lemma lock_renewal_on_ack: "validated test_lock_renewal_on_ack"
  by (simp add: test_lock_renewal_on_ack_def exp_eval del: plain_codec_def cong: let_weak_cong)

lemma worker_lock_renewal_success: "validated test_worker_lock_renewal_success"
  by (simp add: test_worker_lock_renewal_success_def exp_eval del: plain_codec_def cong: let_weak_cong)

lemma worker_lock_renewal_invalid_token: "validated test_worker_lock_renewal_invalid_token"
  by (simp add: test_worker_lock_renewal_invalid_token_def exp_eval del: plain_codec_def cong: let_weak_cong)

lemma worker_lock_renewal_after_expiration: "validated test_worker_lock_renewal_after_expiration"
  by (simp add: test_worker_lock_renewal_after_expiration_def exp_eval del: plain_codec_def cong: let_weak_cong)

lemma worker_lock_renewal_extends_timeout: "validated test_worker_lock_renewal_extends_timeout"
  by (simp add: test_worker_lock_renewal_extends_timeout_def exp_eval del: plain_codec_def cong: let_weak_cong)

lemma worker_lock_renewal_after_ack: "validated test_worker_lock_renewal_after_ack"
  by (simp add: test_worker_lock_renewal_after_ack_def exp_eval del: plain_codec_def cong: let_weak_cong)

lemma abandon_work_item_releases_lock: "validated test_abandon_work_item_releases_lock"
  by (simp add: test_abandon_work_item_releases_lock_def exp_eval del: plain_codec_def cong: let_weak_cong)

lemma abandon_work_item_with_delay: "validated test_abandon_work_item_with_delay"
  by (simp add: test_abandon_work_item_with_delay_def exp_eval del: plain_codec_def cong: let_weak_cong)

lemma worker_ack_fails_after_lock_expiry: "validated test_worker_ack_fails_after_lock_expiry"
  by (simp add: test_worker_ack_fails_after_lock_expiry_def exp_eval del: plain_codec_def cong: let_weak_cong)

lemma orchestration_lock_renewal_after_expiration: "validated test_orchestration_lock_renewal_after_expiration"
  by (simp add: test_orchestration_lock_renewal_after_expiration_def exp_eval del: plain_codec_def cong: let_weak_cong)

end
