(* ===== verification/Val_Executions.thy ===== *)
theory Val_Executions
  imports Validation
begin

text \<open>\<open>src/provider_validation/multi_execution.rs\<close>: the executions of an instance and their histories.\<close>

definition start_execution :: "id64 \<Rightarrow> work_item" where
  "start_execution x = WI_StartOrchestration ''instance-A'' ''TestOrch'' ''{}'' (Some ''1.0.0'') None None x"

definition exec_event :: "id64 \<Rightarrow> id64 \<Rightarrow> event_kind \<Rightarrow> event" where
  "exec_event x i kind = with_event_id i ''instance-A'' x None kind"

text \<open>An execution: its start message, the fetch, and the acknowledgement of its history.\<close>

definition run_execution :: "id64 \<Rightarrow> event list \<Rightarrow> sem_ver execution_metadata \<Rightarrow> program \<Rightarrow> program" where
  "run_execution x delta md k =
     enqueue (start_execution x) (fetch (from_secs 30) (\<lambda>_ tok _. acked (ack_call tok x delta [] [] md) k))"

definition test_execution_isolation :: program where
  "test_execution_isolation =
     run_execution 1 [exec_event 1 1 (started_kind ''{}''), exec_event 1 2 (ActivityScheduled ''Activity1'' ''input1'' None None),
         exec_event 1 3 (OrchestrationCompleted ''result1'')] metadata_default
     (run_execution 2 [exec_event 2 1 (started_kind ''{}''), exec_event 2 2 (OrchestrationCompleted ''result2'')] metadata_default
     (read_execution ''instance-A'' 1 (\<lambda>h1. assert_that (letters h1 = ''SAC'')
     (read_execution ''instance-A'' 2 (\<lambda>h2. assert_that (letters h2 = ''SC'')
     (history_read ''instance-A'' (\<lambda>latest. assert_that (letters latest = ''SC'') (Ends True))))))))"

definition test_latest_execution_detection :: program where
  "test_latest_execution_detection =
     run_execution 1 [exec_event 1 1 (ActivityScheduled ''A'' '''' None None)] metadata_default
     (run_execution 2 [exec_event 2 1 (ActivityScheduled ''B'' '''' None None)] metadata_default
     (history_read ''instance-A'' (\<lambda>latest. assert_that (only_activity latest ''B'')
     (read_execution ''instance-A'' 1 (\<lambda>h1. assert_that (only_activity h1 ''A'') (Ends True))))))"

definition test_execution_id_sequencing :: program where
  "test_execution_id_sequencing =
     enqueue (start_execution 1) (fetch (from_secs 30) (\<lambda>item1 tok1 _. assert_that (oi_execution_id item1 = 1)
     (acked (ack_call tok1 1 [exec_event 1 1 (started_kind ''{}'')] [] [] test_metadata)
     (run_execution 2 [exec_event 2 1 (started_kind ''{}'')] test_metadata
     (enqueue (start_execution 3) (fetch (from_secs 30) (\<lambda>item3 _ _. assert_that (oi_execution_id item3 = 2) (Ends True))))))))"

definition test_continue_as_new_creates_new_execution :: program where
  "test_continue_as_new_creates_new_execution =
     run_execution 1 [exec_event 1 1 (started_kind ''{}'')] metadata_default
     (enqueue (WI_ContinueAsNew ''instance-A'' ''TestOrch'' ''new-input'' (Some ''1.0.0'') [] None)
     (fetch (from_secs 30) (\<lambda>_ tok2 _. acked (ack_call tok2 2 [exec_event 2 1 (started_kind ''new-input'')] [] [] metadata_default)
     (expect any_answer (PC_Fetch_Orchestration (from_secs 30) 0 None) (\<lambda>a.
      case item_of a of Some (item, _) \<Rightarrow> assert_that (oi_execution_id item = 2) (Ends True)
                      | None \<Rightarrow> assert_that (no_item a \<noteq> None) (Ends True))))))"

definition test_execution_history_persistence :: program where
  "test_execution_history_persistence =
     for_each [1, 2, 3] (\<lambda>x. run_execution x
         [exec_event x 1 (ActivityScheduled (''Activity-'' @ show_nat x) (''input-'' @ show_nat x) None None)] metadata_default)
     (for_each [1, 2, 3] (\<lambda>x k. read_execution ''instance-A'' x (\<lambda>h. assert_that (only_activity h (''Activity-'' @ show_nat x)) k))
     (history_read ''instance-A'' (\<lambda>latest. assert_that (only_activity latest ''Activity-3'') (Ends True))))"

lemmas exec_eval = val_eval start_execution_def exec_event_def run_execution_def validated_def

lemma execution_isolation: "validated test_execution_isolation"
  by (simp add: test_execution_isolation_def exec_eval del: plain_codec_def cong: let_weak_cong)

lemma latest_execution_detection: "validated test_latest_execution_detection"
  by (simp add: test_latest_execution_detection_def exec_eval del: plain_codec_def cong: let_weak_cong)

lemma execution_id_sequencing: "validated test_execution_id_sequencing"
  by (simp add: test_execution_id_sequencing_def exec_eval del: plain_codec_def cong: let_weak_cong)

lemma continue_as_new_creates_new_execution: "validated test_continue_as_new_creates_new_execution"
  by (simp add: test_continue_as_new_creates_new_execution_def exec_eval del: plain_codec_def cong: let_weak_cong)

lemma execution_history_persistence: "validated test_execution_history_persistence"
  by (simp add: test_execution_history_persistence_def exec_eval del: plain_codec_def cong: let_weak_cong)

end
