(* ===== verification/Val_Atomicity.thy ===== *)
theory Val_Atomicity
  imports Validation
begin

text \<open>
  \<open>src/provider_validation/atomicity.rs\<close>, \<open>error_handling.rs\<close>, \<open>instance_creation.rs\<close>: an acknowledgement happens as a
  whole or not at all, bad tokens and repeated event ids are refused, and instances come from the metadata of an
  acknowledgement. The tests that corrupt rows behind the provider's back are left out.
\<close>

subsection \<open>Atomicity\<close>

definition test_atomicity_failure_rollback :: program where
  "test_atomicity_failure_rollback =
     enqueue (start_work ''instance-A'') (fetch (from_secs 30) (\<lambda>_ tok _.
     acked (ack_call tok 1 [start_event ''instance-A''] [] [] metadata_default)
     (history_read ''instance-A'' (\<lambda>h. assert_that (length h = 1)
     (enqueue (start_work ''instance-A'') (fetch (from_secs 30) (\<lambda>_ tok2 _.
     rejected (ack_call tok2 1 [start_event ''instance-A''] [] [] metadata_default)
     (history_read ''instance-A'' (\<lambda>h2. assert_that (length h2 = 1)
     (fetch_none (from_secs 30) (Ends True)))))))))))"

definition work_n :: "nat \<Rightarrow> work_item" where
  "work_n i = WI_ActivityExecute ''instance-A'' 1 i (''Activity'' @ show_nat i) (''input'' @ show_nat i) None None"

definition big_delta :: "event list" where
  "big_delta = start_event ''instance-A''
     # map (\<lambda>i. with_event_id (i + 1) ''instance-A'' 1 None
         (ActivityScheduled (''Activity'' @ show_nat i) (''input'' @ show_nat i) None None)) [1, 2, 3]
     @ [with_event_id 5 ''instance-A'' 1 None (TimerCreated 1234567890)]"

definition is_timer :: "work_item \<Rightarrow> bool" where
  "is_timer w = (case w of WI_TimerFired _ _ _ _ \<Rightarrow> True | _ \<Rightarrow> False)"

definition is_external :: "work_item \<Rightarrow> bool" where
  "is_external w = (case w of WI_ExternalRaised _ _ _ \<Rightarrow> True | _ \<Rightarrow> False)"

definition test_multi_operation_atomic_ack :: program where
  "test_multi_operation_atomic_ack =
     enqueue (start_work ''instance-A'') (fetch (from_secs 30) (\<lambda>_ tok _.
     acked (ack_call tok 1 big_delta (map work_n [1, 2, 3])
       [WI_TimerFired ''instance-A'' 1 1 1234567890, WI_ExternalRaised ''instance-A'' ''TestEvent'' ''test-data''] metadata_default)
     (history_read ''instance-A'' (\<lambda>h. assert_that (length h = 5)
     (for_each [0 :: nat, 1, 2] (\<lambda>_ k. fetch_work (from_secs 30) (\<lambda>_ _ _. k))
     (fetch_work_none (from_secs 30)
     (fetch (from_secs 30) (\<lambda>item1 _ _. assert_that (length (oi_messages item1) = 2)
     (assert_that (is_timer (oi_messages item1 ! 0)) (assert_that (is_external (oi_messages item1 ! 1)) (Ends True)))))))))))"

definition test_lock_released_only_on_successful_ack :: program where
  "test_lock_released_only_on_successful_ack =
     enqueue (start_work ''instance-A'') (fetch lock_timeout (\<lambda>_ _ _. fetch_none lock_timeout
     (rejected (ack_call ''invalid-lock-token'' 1 [with_event_id 2 ''instance-A'' 1 None (started_kind ''{}'')] [] [] metadata_default)
     (fetch_none lock_timeout
     (Sleeps (lock_timeout + from_millis 100)
     (fetch lock_timeout (\<lambda>item2 _ _. assert_that (oi_instance item2 = ''instance-A'') (Ends True))))))))"

text \<open>The two acknowledgements of \<open>test_concurrent_ack_prevention\<close>, in one of their two orders.\<close>

definition test_concurrent_ack_prevention :: program where
  "test_concurrent_ack_prevention =
     enqueue (start_work ''instance-A'') (fetch (from_secs 30) (\<lambda>_ tok _.
     acked (ack_call tok 1 [start_event ''instance-A''] [] [] metadata_default)
     (rejected (ack_call tok 1 [start_event ''instance-A''] [] [] metadata_default) (Ends True))))"

subsection \<open>Errors\<close>

definition test_invalid_lock_token_on_ack :: program where
  "test_invalid_lock_token_on_ack =
     expect error_of (ack_call ''invalid-token'' 1 [] [] [] metadata_default) (\<lambda>e.
     assert_that (contains_str (pe_message e) ''Invalid lock token'' \<or> contains_str (pe_message e) ''lock_token'') (Ends True))"

definition test_duplicate_event_id_rejection :: program where
  "test_duplicate_event_id_rejection =
     enqueue (start_work ''instance-A'') (fetch (from_secs 30) (\<lambda>_ tok _.
     acked (ack_call tok 1 [start_event ''instance-A''] [] [] metadata_default)
     (enqueue (start_work ''instance-A'') (fetch (from_secs 30) (\<lambda>_ tok2 _.
     rejected (ack_call tok2 1 [with_event_id 1 ''instance-A'' 1 None (ActivityScheduled ''Activity'' ''{}'' None None)] []
       [] metadata_default)
     (history_read ''instance-A'' (\<lambda>h. assert_that (letters h = ''S'') (Ends True))))))))"

definition test_missing_instance_metadata :: program where
  "test_missing_instance_metadata = history_read ''non-existent-instance'' (\<lambda>h. assert_that (length h = 0) (Ends True))"

definition test_lock_expiration_during_ack :: program where
  "test_lock_expiration_during_ack =
     enqueue (start_work ''instance-A'') (fetch lock_timeout (\<lambda>_ tok _. Sleeps (lock_timeout + from_millis 100)
     (rejected (ack_call tok 1 [start_event ''instance-A''] [] [] metadata_default) (Ends True))))"

subsection \<open>Creating instances\<close>

definition version_metadata :: "string \<Rightarrow> string \<Rightarrow> sem_ver execution_metadata" where
  "version_metadata name v = metadata_default\<lparr>em_orchestration_name := Some name, em_orchestration_version := Some v\<rparr>"

definition versioned_start :: "string \<Rightarrow> string \<Rightarrow> string \<Rightarrow> string option \<Rightarrow> id64 option \<Rightarrow> event" where
  "versioned_start inst name v parent parent_id =
     with_event_id 1 inst 1 None (OrchestrationStarted name v ''{}'' parent parent_id None None)"

definition test_instance_creation_via_metadata :: program where
  "test_instance_creation_via_metadata =
     enqueue (start_work ''instance-A'') (fetch (from_secs 30) (\<lambda>item tok _.
     assert_that (oi_instance item = ''instance-A'') (assert_that (oi_orchestration_name item = ''TestOrch'')
     (assert_that (oi_execution_id item = 1) (assert_that (length (oi_history item) = 0)
     (acked (ack_call tok 1 [versioned_start ''instance-A'' ''TestOrch'' ''2.0.0'' None None] [] [] (version_metadata ''TestOrch'' ''2.0.0''))
     (enqueue (start_work ''instance-A'') (fetch (from_secs 30) (\<lambda>item2 tok2 _.
     assert_that (oi_instance item2 = ''instance-A'') (assert_that (oi_orchestration_name item2 = ''TestOrch'')
     (assert_that (oi_version item2 = ''2.0.0'') (assert_that (oi_execution_id item2 = 1)
     (assert_that (length (oi_history item2) = 1)
     (acked (ack_call tok2 1 [] [] [] metadata_default) (Ends True)))))))))))))))"

definition test_no_instance_creation_on_enqueue :: program where
  "test_no_instance_creation_on_enqueue =
     enqueue (start_work ''instance-B'') (fetch (from_secs 30) (\<lambda>item tok _.
     assert_that (oi_instance item = ''instance-B'')
     (acked (ack_call tok 1 [start_event ''instance-B''] [] [] test_metadata) (Ends True))))"

definition test_null_version_handling :: program where
  "test_null_version_handling =
     enqueue (WI_StartOrchestration ''instance-C'' ''TestOrch'' ''{}'' None None None 1) (fetch (from_secs 30) (\<lambda>item tok _.
     assert_that (oi_instance item = ''instance-C'')
     (acked (ack_call tok 1 [versioned_start ''instance-C'' ''TestOrch'' ''3.0.0'' None None] [] [] (version_metadata ''TestOrch'' ''3.0.0''))
     (enqueue (start_work ''instance-C'') (fetch (from_secs 30) (\<lambda>item2 tok2 _. assert_that (oi_version item2 = ''3.0.0'')
     (acked (ack_call tok2 1 [] [] [] metadata_default) (Ends True))))))))"

abbreviation child_id :: string where
  "child_id \<equiv> ''parent-instance::child-instance''"

definition test_sub_orchestration_instance_creation :: program where
  "test_sub_orchestration_instance_creation =
     enqueue (start_work ''parent-instance'') (fetch (from_secs 30) (\<lambda>_ ptok _.
     acked (ack_call ptok 1 [versioned_start ''parent-instance'' ''ParentOrch'' ''1.0.0'' None None] []
       [WI_StartOrchestration child_id ''ChildOrch'' ''{}'' None (Some ''parent-instance'') (Some 1) 1]
       (version_metadata ''ParentOrch'' ''1.0.0''))
     (fetch (from_secs 30) (\<lambda>child ctok _.
     assert_that (oi_instance child = child_id) (assert_that (oi_orchestration_name child = ''ChildOrch'')
     (acked (ack_call ctok 1 [versioned_start child_id ''ChildOrch'' ''1.5.0'' (Some ''parent-instance'') (Some 1)] [] []
       (version_metadata ''ChildOrch'' ''1.5.0''))
     (enqueue (WI_StartOrchestration child_id ''ChildOrch'' ''{}'' None None None 1)
     (fetch (from_secs 30) (\<lambda>child2 ctok2 _. assert_that (oi_instance child2 = child_id)
     (assert_that (oi_version child2 = ''1.5.0'')
     (acked (ack_call ctok2 1 [] [] [] metadata_default) (Ends True))))))))))))"

lemmas atom_eval = val_eval work_n_def big_delta_def is_timer_def is_external_def version_metadata_def versioned_start_def validated_def

lemma atomicity_failure_rollback: "validated test_atomicity_failure_rollback"
  by (simp add: test_atomicity_failure_rollback_def atom_eval del: plain_codec_def cong: let_weak_cong)

lemma multi_operation_atomic_ack: "validated test_multi_operation_atomic_ack"
  by (simp add: test_multi_operation_atomic_ack_def atom_eval del: plain_codec_def cong: let_weak_cong)

lemma lock_released_only_on_successful_ack: "validated test_lock_released_only_on_successful_ack"
  by (simp add: test_lock_released_only_on_successful_ack_def atom_eval del: plain_codec_def cong: let_weak_cong)

lemma concurrent_ack_prevention: "validated test_concurrent_ack_prevention"
  by (simp add: test_concurrent_ack_prevention_def atom_eval del: plain_codec_def cong: let_weak_cong)

lemma invalid_lock_token_on_ack: "validated test_invalid_lock_token_on_ack"
  by (simp add: test_invalid_lock_token_on_ack_def atom_eval permanent_error_def starts_with_def del: plain_codec_def cong: let_weak_cong)

lemma duplicate_event_id_rejection: "validated test_duplicate_event_id_rejection"
  by (simp add: test_duplicate_event_id_rejection_def atom_eval del: plain_codec_def cong: let_weak_cong)

lemma missing_instance_metadata: "validated test_missing_instance_metadata"
  by (simp add: test_missing_instance_metadata_def atom_eval del: plain_codec_def cong: let_weak_cong)

lemma lock_expiration_during_ack: "validated test_lock_expiration_during_ack"
  by (simp add: test_lock_expiration_during_ack_def atom_eval del: plain_codec_def cong: let_weak_cong)

lemma instance_creation_via_metadata: "validated test_instance_creation_via_metadata"
  by (simp add: test_instance_creation_via_metadata_def atom_eval del: plain_codec_def cong: let_weak_cong)

lemma no_instance_creation_on_enqueue: "validated test_no_instance_creation_on_enqueue"
  by (simp add: test_no_instance_creation_on_enqueue_def atom_eval del: plain_codec_def cong: let_weak_cong)

lemma null_version_handling: "validated test_null_version_handling"
  by (simp add: test_null_version_handling_def atom_eval del: plain_codec_def cong: let_weak_cong)

lemma sub_orchestration_instance_creation: "validated test_sub_orchestration_instance_creation"
  by (simp add: test_sub_orchestration_instance_creation_def atom_eval del: plain_codec_def cong: let_weak_cong)

end
