(* ===== verification/Val_Queues.thy ===== *)
theory Val_Queues
  imports Validation
begin

text \<open>
  \<open>src/provider_validation/queue_semantics.rs\<close> and \<open>poison_message.rs\<close>: order and visibility of queued work, and
  attempt counts.
\<close>

subsection \<open>Queues\<close>

definition numbered_work :: "string \<Rightarrow> id64 \<Rightarrow> string \<Rightarrow> string \<Rightarrow> work_item" where
  "numbered_work inst i name input = WI_ActivityExecute inst 1 i name input None None"

definition is_work :: "work_item \<Rightarrow> id64 \<Rightarrow> string \<Rightarrow> bool" where
  "is_work w i name = (case w of WI_ActivityExecute _ _ j n _ _ _ \<Rightarrow> j = i \<and> n = name | _ \<Rightarrow> False)"

definition has_id :: "work_item \<Rightarrow> id64 \<Rightarrow> bool" where
  "has_id w i = (case w of WI_ActivityExecute _ _ j _ _ _ _ \<Rightarrow> j = i | _ \<Rightarrow> False)"

definition test_worker_queue_fifo_ordering :: program where
  "test_worker_queue_fifo_ordering =
     for_each [0, 1, 2, 3, 4] (\<lambda>i. enqueue_work (numbered_work ''instance-A'' i (''Activity'' @ show_nat i) (''input'' @ show_nat i)))
     (for_each [0, 1, 2, 3, 4] (\<lambda>i k. fetch_work (from_secs 30) (\<lambda>w _ _. assert_that (is_work w i (''Activity'' @ show_nat i)) k))
     (fetch_work_none (from_secs 30) (Ends True)))"

definition test_worker_peek_lock_semantics :: program where
  "test_worker_peek_lock_semantics =
     enqueue_work (numbered_work ''instance-A'' 1 ''Activity1'' ''input1'') (fetch_work (from_secs 30) (\<lambda>w tok _.
     assert_that (is_activity w) (fetch_work_none (from_secs 30)
     (acked (PC_Ack_Work tok (Some (WI_ActivityCompleted ''instance-A'' 1 1 ''result1'')))
     (fetch_work_none (from_secs 30) (Ends True))))))"

definition test_worker_ack_atomicity :: program where
  "test_worker_ack_atomicity =
     enqueue (start_work ''instance-A'') (fetch (from_secs 30) (\<lambda>_ tok _.
     acked (ack_call tok 1 [start_event ''instance-A''] [] [] metadata_default)
     (enqueue_work (numbered_work ''instance-A'' 1 ''Activity1'' ''input1'') (fetch_work (from_secs 30) (\<lambda>_ wtok _.
     acked (PC_Ack_Work wtok (Some (WI_ActivityCompleted ''instance-A'' 1 1 ''result1'')))
     (fetch_work_none (from_secs 30)
     (fetch (from_secs 30) (\<lambda>item _ _. assert_that (oi_instance item = ''instance-A'')
     (assert_that (length (oi_messages item) = 1) (assert_that (length (completed_ids [oi_messages item ! 0]) = 1) (Ends True)))))))))))"

definition is_fired :: "work_item \<Rightarrow> bool" where
  "is_fired w = (case w of WI_TimerFired _ _ _ _ \<Rightarrow> True | _ \<Rightarrow> False)"

definition test_timer_delayed_visibility :: program where
  "test_timer_delayed_visibility =
     enqueue (start_work ''instance-A'') (fetch (from_secs 30) (\<lambda>_ tok _.
     acked (ack_call tok 1 [start_event ''instance-A''] [] [] metadata_default)
     (acked (PC_Enqueue_Orchestrator (WI_TimerFired ''instance-A'' 1 1 0) (Some (from_secs 5)))
     (fetch_none (from_secs 30) (Sleeps (from_millis 5100)
     (fetch (from_secs 30) (\<lambda>item2 _ _. assert_that (oi_instance item2 = ''instance-A'')
     (assert_that (length (oi_messages item2) = 1) (assert_that (is_fired (oi_messages item2 ! 0)) (Ends True))))))))))"

definition test_lost_lock_token_handling :: program where
  "test_lost_lock_token_handling =
     enqueue_work (numbered_work ''instance-A'' 1 ''Activity1'' ''input1'') (fetch_work lock_timeout (\<lambda>_ _ _.
     fetch_work_none lock_timeout (Sleeps (lock_timeout + from_millis 100)
     (fetch_work lock_timeout (\<lambda>w2 _ _. assert_that (is_activity w2) (Ends True))))))"

definition test_worker_item_immediate_visibility :: program where
  "test_worker_item_immediate_visibility =
     enqueue_work (numbered_work ''test-immediate-vis'' 1 ''TestActivity'' ''test'') (fetch_work lock_timeout (\<lambda>w tok _.
     assert_that (is_work w 1 ''TestActivity'')
     (acked (PC_Ack_Work tok (Some (WI_ActivityCompleted ''test-immediate-vis'' 1 1 ''done''))) (Ends True))))"

definition test_worker_delayed_visibility_skips_future_items :: program where
  "test_worker_delayed_visibility_skips_future_items =
     enqueue_work (numbered_work ''test-delayed-vis'' 1 ''Activity1'' ''first'')
     (enqueue_work (numbered_work ''test-delayed-vis'' 2 ''Activity2'' ''second'')
     (fetch_work lock_timeout (\<lambda>w1 tok1 _. assert_that (has_id w1 1)
     (acked (PC_Abandon_Work tok1 (Some (from_millis 500)) False)
     (fetch_work lock_timeout (\<lambda>w2 tok2 _. assert_that (has_id w2 2)
     (fetch_work_none lock_timeout
     (Sleeps (from_millis 500 + from_millis 100)
     (fetch_work lock_timeout (\<lambda>w3 tok3 _. assert_that (has_id w3 1)
     (acked (PC_Ack_Work tok2 (Some (WI_ActivityCompleted ''test-delayed-vis'' 1 2 ''done'')))
     (acked (PC_Ack_Work tok3 (Some (WI_ActivityCompleted ''test-delayed-vis'' 1 1 ''done''))) (Ends True)))))))))))))"

definition test_orphan_queue_messages_dropped :: program where
  "test_orphan_queue_messages_dropped =
     enqueue (WI_QueueMessage ''orphan-test'' ''ConfigUpdate'' ''v1'') (enqueue (WI_QueueMessage ''orphan-test'' ''ConfigUpdate'' ''v2'')
     (fetch_none (from_secs 5) (fetch_none (from_secs 5)
     (create_instance ''orphan-test-existing''
     (enqueue (WI_QueueMessage ''orphan-test-existing'' ''ConfigUpdate'' ''v3'')
     (fetch (from_secs 5) (\<lambda>item tok _. assert_that (oi_instance item = ''orphan-test-existing'')
     (assert_that (list_ex (\<lambda>m. case m of WI_QueueMessage _ name data \<Rightarrow> name = ''ConfigUpdate'' \<and> data = ''v3'' | _ \<Rightarrow> False)
        (oi_messages item))
     (acked (ack_call tok (oi_execution_id item) [] [] [] metadata_default) (Ends True))))))))))"

subsection \<open>Attempt counts\<close>

definition test_orchestration_attempt_count_starts_at_one :: program where
  "test_orchestration_attempt_count_starts_at_one =
     enqueue (start_work ''poison-test-1'') (fetch lock_timeout (\<lambda>_ tok n. assert_that (n = 1)
     (acked (ack_call tok 1 [] [] [] metadata_default) (Ends True))))"

definition test_orchestration_attempt_count_increments_on_refetch :: program where
  "test_orchestration_attempt_count_increments_on_refetch =
     enqueue (start_work ''poison-test-2'')
     (fetch lock_timeout (\<lambda>_ tok1 n1. assert_that (n1 = 1) (acked (PC_Abandon_Orchestration tok1 None False)
     (fetch lock_timeout (\<lambda>_ tok2 n2. assert_that (n2 = 2) (acked (PC_Abandon_Orchestration tok2 None False)
     (fetch lock_timeout (\<lambda>_ tok3 n3. assert_that (n3 = 3)
     (acked (ack_call tok3 1 [] [] [] metadata_default) (Ends True))))))))))"

definition poison_work :: "string \<Rightarrow> work_item" where
  "poison_work inst = numbered_work inst 1 ''TestActivity'' ''{}''"

definition work_done :: "string \<Rightarrow> id64 \<Rightarrow> work_item option" where
  "work_done inst i = Some (WI_ActivityCompleted inst 1 i ''done'')"

definition test_worker_attempt_count_starts_at_one :: program where
  "test_worker_attempt_count_starts_at_one =
     enqueue_work (poison_work ''poison-test-3'') (fetch_work lock_timeout (\<lambda>w tok n. assert_that (n = 1)
     (acked (PC_Ack_Work tok (work_done ''poison-test-3'' 1)) (assert_that (is_activity w) (Ends True)))))"

definition test_worker_attempt_count_increments_on_lock_expiry :: program where
  "test_worker_attempt_count_increments_on_lock_expiry =
     enqueue_work (poison_work ''poison-test-4'') (fetch_work (from_secs 1) (\<lambda>_ _ n1. assert_that (n1 = 1)
     (Sleeps (from_millis 1100)
     (fetch_work (from_secs 1) (\<lambda>_ tok2 n2. assert_that (n2 = 2)
     (acked (PC_Ack_Work tok2 (work_done ''poison-test-4'' 1)) (Ends True)))))))"

fun execute_id :: "work_item \<Rightarrow> id64 option" where
  "execute_id (WI_ActivityExecute _ _ i _ _ _ _) = Some i"
| "execute_id _ = None"

definition test_attempt_count_is_per_message :: program where
  "test_attempt_count_is_per_message =
     enqueue_work (numbered_work ''poison-test-5a'' 1 ''Activity1'' ''{}'') (enqueue_work (numbered_work ''poison-test-5b'' 2 ''Activity2'' ''{}'')
     (fetch_work lock_timeout (\<lambda>w1 tok1 n1. assert_that (n1 = 1)
     (fetch_work lock_timeout (\<lambda>w2 tok2 n2. assert_that (n2 = 1)
     (case (execute_id w1, execute_id w2) of
        (Some i1, Some i2) \<Rightarrow> assert_that (i1 \<noteq> i2)
          (acked (PC_Ack_Work tok1 (work_done ''poison-test-5a'' i1)) (acked (PC_Ack_Work tok2 (work_done ''poison-test-5b'' i2)) (Ends True)))
      | _ \<Rightarrow> Ends False))))))"

definition test_abandon_work_item_ignore_attempt_decrements :: program where
  "test_abandon_work_item_ignore_attempt_decrements =
     enqueue_work (poison_work ''poison-test-ignore-1'')
     (fetch_work lock_timeout (\<lambda>_ tok1 n1. assert_that (n1 = 1) (acked (PC_Abandon_Work tok1 None False)
     (fetch_work lock_timeout (\<lambda>_ tok2 n2. assert_that (n2 = 2) (acked (PC_Abandon_Work tok2 None True)
     (fetch_work lock_timeout (\<lambda>_ tok3 n3. assert_that (n3 = 2)
     (acked (PC_Ack_Work tok3 (work_done ''poison-test-ignore-1'' 1)) (Ends True))))))))))"

definition test_abandon_orchestration_item_ignore_attempt_decrements :: program where
  "test_abandon_orchestration_item_ignore_attempt_decrements =
     enqueue (start_work ''poison-test-ignore-2'')
     (fetch lock_timeout (\<lambda>_ tok1 n1. assert_that (n1 = 1) (acked (PC_Abandon_Orchestration tok1 None False)
     (fetch lock_timeout (\<lambda>_ tok2 n2. assert_that (n2 = 2) (acked (PC_Abandon_Orchestration tok2 None True)
     (fetch lock_timeout (\<lambda>_ tok3 n3. assert_that (n3 = 2)
     (acked (ack_call tok3 1 [] [] [] metadata_default) (Ends True))))))))))"

definition test_ignore_attempt_never_goes_negative :: program where
  "test_ignore_attempt_never_goes_negative =
     enqueue_work (poison_work ''poison-test-never-neg'')
     (fetch_work lock_timeout (\<lambda>_ tok1 n1. assert_that (n1 = 1) (acked (PC_Abandon_Work tok1 None True)
     (fetch_work lock_timeout (\<lambda>_ tok2 n2. assert_that (n2 = 1) (acked (PC_Abandon_Work tok2 None True)
     (fetch_work lock_timeout (\<lambda>_ tok3 n3. assert_that (n3 = 1)
     (acked (PC_Ack_Work tok3 (work_done ''poison-test-never-neg'' 1)) (Ends True))))))))))"

definition test_max_attempt_count_across_message_batch :: program where
  "test_max_attempt_count_across_message_batch =
     enqueue (start_work ''poison-batch-test'')
     (fetch lock_timeout (\<lambda>item1 tok1 n1. assert_that (n1 = 1) (assert_that (length (oi_messages item1) = 1)
     (acked (PC_Abandon_Orchestration tok1 None False)
     (fetch lock_timeout (\<lambda>_ tok2 n2. assert_that (n2 = 2)
     (enqueue (WI_ActivityCompleted ''poison-batch-test'' 1 1 ''activity result'')
     (acked (PC_Abandon_Orchestration tok2 None False)
     (fetch lock_timeout (\<lambda>item3 tok3 n3. assert_that (length (oi_messages item3) = 2) (assert_that (n3 = 3)
     (acked (ack_call tok3 1 [] [] [] metadata_default) (Ends True)))))))))))))"

lemmas queue_eval = val_eval numbered_work_def is_work_def has_id_def is_fired_def poison_work_def work_done_def validated_def

lemma worker_queue_fifo_ordering: "validated test_worker_queue_fifo_ordering"
  by (simp add: test_worker_queue_fifo_ordering_def queue_eval del: plain_codec_def cong: let_weak_cong)

lemma worker_peek_lock_semantics: "validated test_worker_peek_lock_semantics"
  by (simp add: test_worker_peek_lock_semantics_def queue_eval del: plain_codec_def cong: let_weak_cong)

lemma worker_ack_atomicity: "validated test_worker_ack_atomicity"
  by (simp add: test_worker_ack_atomicity_def queue_eval del: plain_codec_def cong: let_weak_cong)

lemma timer_delayed_visibility: "validated test_timer_delayed_visibility"
  by (simp add: test_timer_delayed_visibility_def queue_eval del: plain_codec_def cong: let_weak_cong)

lemma lost_lock_token_handling: "validated test_lost_lock_token_handling"
  by (simp add: test_lost_lock_token_handling_def queue_eval del: plain_codec_def cong: let_weak_cong)

lemma worker_item_immediate_visibility: "validated test_worker_item_immediate_visibility"
  by (simp add: test_worker_item_immediate_visibility_def queue_eval del: plain_codec_def cong: let_weak_cong)

lemma worker_delayed_visibility_skips_future_items: "validated test_worker_delayed_visibility_skips_future_items"
  by (simp add: test_worker_delayed_visibility_skips_future_items_def queue_eval del: plain_codec_def cong: let_weak_cong)

lemma orphan_queue_messages_dropped: "validated test_orphan_queue_messages_dropped"
  by (simp add: test_orphan_queue_messages_dropped_def queue_eval del: plain_codec_def cong: let_weak_cong)

lemma orchestration_attempt_count_starts_at_one: "validated test_orchestration_attempt_count_starts_at_one"
  by (simp add: test_orchestration_attempt_count_starts_at_one_def queue_eval del: plain_codec_def cong: let_weak_cong)

lemma orchestration_attempt_count_increments_on_refetch: "validated test_orchestration_attempt_count_increments_on_refetch"
  by (simp add: test_orchestration_attempt_count_increments_on_refetch_def queue_eval del: plain_codec_def cong: let_weak_cong)

lemma worker_attempt_count_starts_at_one: "validated test_worker_attempt_count_starts_at_one"
  by (simp add: test_worker_attempt_count_starts_at_one_def queue_eval del: plain_codec_def cong: let_weak_cong)

lemma worker_attempt_count_increments_on_lock_expiry: "validated test_worker_attempt_count_increments_on_lock_expiry"
  by (simp add: test_worker_attempt_count_increments_on_lock_expiry_def queue_eval del: plain_codec_def cong: let_weak_cong)

lemma attempt_count_is_per_message: "validated test_attempt_count_is_per_message"
  by (simp add: test_attempt_count_is_per_message_def queue_eval del: plain_codec_def cong: let_weak_cong)

lemma abandon_work_item_ignore_attempt_decrements: "validated test_abandon_work_item_ignore_attempt_decrements"
  by (simp add: test_abandon_work_item_ignore_attempt_decrements_def queue_eval del: plain_codec_def cong: let_weak_cong)

lemma abandon_orchestration_item_ignore_attempt_decrements: "validated test_abandon_orchestration_item_ignore_attempt_decrements"
  by (simp add: test_abandon_orchestration_item_ignore_attempt_decrements_def queue_eval del: plain_codec_def cong: let_weak_cong)

lemma ignore_attempt_never_goes_negative: "validated test_ignore_attempt_never_goes_negative"
  by (simp add: test_ignore_attempt_never_goes_negative_def queue_eval del: plain_codec_def cong: let_weak_cong)

lemma max_attempt_count_across_message_batch: "validated test_max_attempt_count_across_message_batch"
  by (simp add: test_max_attempt_count_across_message_batch_def queue_eval del: plain_codec_def cong: let_weak_cong)

end
