(* ===== verification/Val_Tags.thy ===== *)
theory Val_Tags
  imports Validation
begin

text \<open>
  \<open>src/provider_validation/tag_filtering.rs\<close>: activities are routed to workers by their tags.
\<close>

definition tagged_activity :: "string \<Rightarrow> id64 \<Rightarrow> string option \<Rightarrow> work_item" where
  "tagged_activity inst i tag = WI_ActivityExecute inst 1 i (''Activity'' @ show_nat i) ''{}'' None tag"

definition fetch_tag :: "tag_filter \<Rightarrow> (id64 \<Rightarrow> string option \<Rightarrow> bool) \<Rightarrow> program \<Rightarrow> program" where
  "fetch_tag flt P k = fetch_as None flt (from_secs 5) (\<lambda>w _ _. assert_that (is_execute (\<lambda>i _ _ tag. P i tag) w) k)"

definition test_default_only_fetches_untagged :: program where
  "test_default_only_fetches_untagged =
     enqueue_work (tagged_activity ''inst-1'' 1 None) (enqueue_work (tagged_activity ''inst-1'' 2 (Some ''gpu''))
     (enqueue_work (tagged_activity ''inst-1'' 3 None)
     (fetch_tag TF_DefaultOnly (\<lambda>i tag. i = 1 \<and> tag = None) (fetch_tag TF_DefaultOnly (\<lambda>i tag. i = 3 \<and> tag = None)
     (fetch_as_none None TF_DefaultOnly (from_secs 5) (Ends True))))))"

definition test_tags_fetches_only_matching :: program where
  "test_tags_fetches_only_matching =
     enqueue_work (tagged_activity ''inst-1'' 1 None) (enqueue_work (tagged_activity ''inst-1'' 2 (Some ''gpu''))
     (enqueue_work (tagged_activity ''inst-1'' 3 (Some ''cpu'')) (enqueue_work (tagged_activity ''inst-1'' 4 (Some ''gpu''))
     (fetch_tag (TF_Tags [''gpu'']) (\<lambda>i tag. i = 2 \<and> tag = Some ''gpu'')
     (fetch_tag (TF_Tags [''gpu'']) (\<lambda>i tag. i = 4 \<and> tag = Some ''gpu'')
     (fetch_as_none None (TF_Tags [''gpu'']) (from_secs 5) (Ends True)))))))"

definition test_default_and_fetches_untagged_and_matching :: program where
  "test_default_and_fetches_untagged_and_matching =
     enqueue_work (tagged_activity ''inst-1'' 1 None) (enqueue_work (tagged_activity ''inst-1'' 2 (Some ''gpu''))
     (enqueue_work (tagged_activity ''inst-1'' 3 (Some ''cpu''))
     (fetch_tag (TF_DefaultAnd [''gpu'']) (\<lambda>i _. i = 1) (fetch_tag (TF_DefaultAnd [''gpu'']) (\<lambda>i tag. i = 2 \<and> tag = Some ''gpu'')
     (fetch_as_none None (TF_DefaultAnd [''gpu'']) (from_secs 5) (Ends True))))))"

definition test_none_filter_returns_nothing :: program where
  "test_none_filter_returns_nothing =
     enqueue_work (tagged_activity ''inst-1'' 1 None) (enqueue_work (tagged_activity ''inst-1'' 2 (Some ''gpu''))
     (fetch_as_none None TF_None (from_secs 5) (Ends True)))"

definition test_multi_tag_filter :: program where
  "test_multi_tag_filter =
     enqueue_work (tagged_activity ''inst-1'' 1 (Some ''gpu'')) (enqueue_work (tagged_activity ''inst-1'' 2 (Some ''tpu''))
     (enqueue_work (tagged_activity ''inst-1'' 3 (Some ''cpu'')) (enqueue_work (tagged_activity ''inst-1'' 4 None)
     (fetch_tag (TF_Tags [''gpu'', ''tpu'']) (\<lambda>_ tag. tag = Some ''gpu'') (fetch_tag (TF_Tags [''gpu'', ''tpu'']) (\<lambda>_ tag. tag = Some ''tpu'')
     (fetch_as_none None (TF_Tags [''gpu'', ''tpu'']) (from_secs 5) (Ends True)))))))"

definition test_tag_round_trip_preservation :: program where
  "test_tag_round_trip_preservation =
     enqueue_work (tagged_activity ''inst-1'' 1 (Some ''gpu''))
     (fetch_as None (TF_Tags [''gpu'']) (from_secs 5) (\<lambda>w _ _.
     assert_that (is_execute (\<lambda>_ name _ tag. tag = Some ''gpu'' \<and> name = ''Activity1'') w) (Ends True)))"

definition test_any_filter_fetches_everything :: program where
  "test_any_filter_fetches_everything =
     enqueue_work (tagged_activity ''inst-1'' 1 None) (enqueue_work (tagged_activity ''inst-2'' 2 (Some ''gpu''))
     (enqueue_work (tagged_activity ''inst-3'' 3 (Some ''cpu''))
     (for_each [0 :: nat, 1, 2] (\<lambda>_ k. fetch_as None TF_Any (from_secs 5) (\<lambda>_ _ _. k))
     (fetch_as_none None TF_Any (from_secs 5) (Ends True)))))"

definition test_tag_survives_abandon_and_refetch :: program where
  "test_tag_survives_abandon_and_refetch =
     enqueue_work (tagged_activity ''inst-1'' 1 (Some ''gpu'')) (enqueue_work (tagged_activity ''inst-1'' 2 None)
     (fetch_as None (TF_Tags [''gpu'']) (from_secs 5) (\<lambda>w tok _. assert_that (is_execute (\<lambda>i _ _ tag. i = 1 \<and> tag = Some ''gpu'') w)
     (acked (PC_Abandon_Work tok None False)
     (fetch_as None (TF_Tags [''gpu'']) (from_secs 5) (\<lambda>w2 tok2 n2. assert_that (is_execute (\<lambda>i _ _ tag. i = 1 \<and> tag = Some ''gpu'') w2)
     (assert_that (2 \<le> n2) (assert_that (tok \<noteq> tok2)
     (fetch_tag TF_DefaultOnly (\<lambda>i tag. i = 2 \<and> tag = None) (Ends True))))))))))"

definition fetch_tag30 :: "tag_filter \<Rightarrow> (id64 \<Rightarrow> string option \<Rightarrow> bool) \<Rightarrow> program \<Rightarrow> program" where
  "fetch_tag30 flt P k = fetch_as None flt (from_secs 30) (\<lambda>w _ _. assert_that (is_execute (\<lambda>i _ _ tag. P i tag) w) k)"

definition test_multi_runtime_tag_isolation :: program where
  "test_multi_runtime_tag_isolation =
     enqueue_work (tagged_activity ''inst-1'' 1 None) (enqueue_work (tagged_activity ''inst-2'' 2 (Some ''gpu''))
     (enqueue_work (tagged_activity ''inst-3'' 3 (Some ''cpu'')) (enqueue_work (tagged_activity ''inst-4'' 4 (Some ''fpga''))
     (enqueue_work (tagged_activity ''inst-5'' 5 (Some ''gpu''))
     (fetch_tag30 TF_DefaultOnly (\<lambda>i tag. i = 1 \<and> tag = None) (fetch_as_none None TF_DefaultOnly (from_secs 30)
     (fetch_as None (TF_Tags [''gpu'', ''cpu'']) (from_secs 30) (\<lambda>w1 _ _.
     fetch_as None (TF_Tags [''gpu'', ''cpu'']) (from_secs 30) (\<lambda>w2 _ _.
     assert_that (is_execute (\<lambda>i1 _ _ _. is_execute (\<lambda>i2 _ _ _. sort [i1, i2] = [2, 3]) w2) w1)
     (fetch_tag30 (TF_Tags [''cpu'', ''fpga'']) (\<lambda>i tag. i = 4 \<and> tag = Some ''fpga'')
     (fetch_as_none None (TF_Tags [''cpu'', ''fpga'']) (from_secs 30)
     (fetch_tag30 TF_Any (\<lambda>i tag. i = 5 \<and> tag = Some ''gpu'') (fetch_as_none None TF_Any (from_secs 30) (Ends True))))))))))))))"

definition test_tag_preserved_through_ack_orchestration_item :: program where
  "test_tag_preserved_through_ack_orchestration_item =
     enqueue (start_work ''tag-ack-inst'') (fetch (from_secs 30) (\<lambda>_ tok _.
     acked (ack_call tok 1 [start_event ''tag-ack-inst'']
       [WI_ActivityExecute ''tag-ack-inst'' 1 10 ''GpuWork'' (CHR 0x22 # ''model-v3'' @ [CHR 0x22]) None (Some ''gpu''),
        WI_ActivityExecute ''tag-ack-inst'' 1 11 ''CpuWork'' (CHR 0x22 # ''data'' @ [CHR 0x22]) None None] [] metadata_default)
     (fetch_as None TF_DefaultOnly (from_secs 30) (\<lambda>w wtok _.
     assert_that (is_execute (\<lambda>_ name _ tag. name = ''CpuWork'' \<and> tag = None) w)
     (acked (PC_Ack_Work wtok None) (fetch_as_none None TF_DefaultOnly (from_secs 30)
     (fetch_as None (TF_Tags [''gpu'']) (from_secs 30) (\<lambda>w2 _ _.
     assert_that (is_execute (\<lambda>_ name _ tag. name = ''GpuWork'' \<and> tag = Some ''gpu'') w2) (Ends True)))))))))"

lemmas tag_eval = val_eval tagged_activity_def fetch_tag_def
  fetch_tag30_def collect_tag_values_def validated_def

lemma default_only_fetches_untagged: "validated test_default_only_fetches_untagged"
  by (simp add: test_default_only_fetches_untagged_def tag_eval del: plain_codec_def cong: let_weak_cong)

lemma tags_fetches_only_matching: "validated test_tags_fetches_only_matching"
  by (simp add: test_tags_fetches_only_matching_def tag_eval del: plain_codec_def cong: let_weak_cong)

lemma default_and_fetches_untagged_and_matching: "validated test_default_and_fetches_untagged_and_matching"
  by (simp add: test_default_and_fetches_untagged_and_matching_def tag_eval del: plain_codec_def cong: let_weak_cong)

lemma none_filter_returns_nothing: "validated test_none_filter_returns_nothing"
  by (simp add: test_none_filter_returns_nothing_def tag_eval del: plain_codec_def cong: let_weak_cong)

lemma multi_tag_filter: "validated test_multi_tag_filter"
  by (simp add: test_multi_tag_filter_def tag_eval del: plain_codec_def cong: let_weak_cong)

lemma tag_round_trip_preservation: "validated test_tag_round_trip_preservation"
  by (simp add: test_tag_round_trip_preservation_def tag_eval del: plain_codec_def cong: let_weak_cong)

lemma any_filter_fetches_everything: "validated test_any_filter_fetches_everything"
  by (simp add: test_any_filter_fetches_everything_def tag_eval del: plain_codec_def cong: let_weak_cong)

lemma tag_survives_abandon_and_refetch: "validated test_tag_survives_abandon_and_refetch"
  by (simp add: test_tag_survives_abandon_and_refetch_def tag_eval del: plain_codec_def cong: let_weak_cong)

lemma multi_runtime_tag_isolation: "validated test_multi_runtime_tag_isolation"
  by (simp add: test_multi_runtime_tag_isolation_def tag_eval del: plain_codec_def cong: let_weak_cong)

lemma tag_preserved_through_ack_orchestration_item: "validated test_tag_preserved_through_ack_orchestration_item"
  by (simp add: test_tag_preserved_through_ack_orchestration_item_def tag_eval del: plain_codec_def cong: let_weak_cong)

end
