(* ===== verification/Val_Sessions.thy ===== *)
theory Val_Sessions
  imports Validation
begin

text \<open>
  \<open>src/provider_validation/sessions.rs\<close>: a session pins its activities to the worker that claimed it, until its lock
  lapses.
\<close>

definition session_activity :: "string \<Rightarrow> id64 \<Rightarrow> string \<Rightarrow> work_item" where
  "session_activity inst i sid = WI_ActivityExecute inst 1 i ''SessionActivity'' ''{}'' (Some sid) None"

definition plain_activity :: "string \<Rightarrow> id64 \<Rightarrow> work_item" where
  "plain_activity inst i = WI_ActivityExecute inst 1 i ''PlainActivity'' ''{}'' None None"

definition standard_config :: "string \<Rightarrow> session_fetch_config" where
  "standard_config owner = \<lparr>sf_owner_id = owner, sf_lock_timeout = from_secs 30\<rparr>"

definition session_config_with_lock :: "string \<Rightarrow> nanos \<Rightarrow> session_fetch_config" where
  "session_config_with_lock owner lt = \<lparr>sf_owner_id = owner, sf_lock_timeout = lt\<rparr>"

text \<open>The fetches of a worker process, by default with its standard session lock and a lock of five seconds on the item.\<close>

definition fetch_with :: "session_fetch_config \<Rightarrow> (work_item \<Rightarrow> string \<Rightarrow> nat \<Rightarrow> program) \<Rightarrow> program" where
  "fetch_with cfg k = fetch_as (Some cfg) TF_DefaultOnly (from_secs 5) k"

definition fetch_from :: "string \<Rightarrow> (work_item \<Rightarrow> string \<Rightarrow> nat \<Rightarrow> program) \<Rightarrow> program" where
  "fetch_from owner k = fetch_with (standard_config owner) k"

definition nothing_for :: "string \<Rightarrow> program \<Rightarrow> program" where
  "nothing_for owner k = fetch_as_none (Some (standard_config owner)) TF_DefaultOnly (from_secs 5) k"

definition done_with :: "string \<Rightarrow> program \<Rightarrow> program" where
  "done_with tok k = acked (PC_Ack_Work tok None) k"

definition renews :: "nanos \<Rightarrow> nanos \<Rightarrow> nat \<Rightarrow> program \<Rightarrow> program" where
  "renews ext idle n k = expect nat_of (PC_Renew_Sessions [''worker-A''] ext idle) (\<lambda>count. assert_that (count = n) k)"

definition cleans :: "nat \<Rightarrow> program \<Rightarrow> program" where
  "cleans n k = expect nat_of (PC_Cleanup_Sessions (from_secs 300)) (\<lambda>count. assert_that (count = n) k)"

text \<open>A session activity is queued, fetched under a configuration and acknowledged.\<close>

definition claims :: "session_fetch_config \<Rightarrow> string \<Rightarrow> string \<Rightarrow> program \<Rightarrow> program" where
  "claims cfg inst sid k =
     enqueue_work (session_activity inst 1 sid) (fetch_with cfg (\<lambda>_ tok _. done_with tok k))"

definition test_non_session_items_fetchable_by_any_worker :: program where
  "test_non_session_items_fetchable_by_any_worker =
     enqueue_work (plain_activity ''inst-1'' 1) (fetch_from ''worker-A'' (\<lambda>_ _ _. Ends True))"

definition test_session_item_claimable_when_no_session :: program where
  "test_session_item_claimable_when_no_session =
     enqueue_work (session_activity ''inst-1'' 1 ''session-1'') (
     fetch_from ''worker-A'' (\<lambda>w _ _. assert_that (is_execute (\<lambda>_ _ sid _. sid = Some ''session-1'') w) (Ends True)))"

definition test_session_affinity_same_worker :: program where
  "test_session_affinity_same_worker =
     claims (standard_config ''worker-A'') ''inst-1'' ''session-1'' (
     enqueue_work (session_activity ''inst-1'' 2 ''session-1'') (fetch_from ''worker-A'' (\<lambda>_ _ _. Ends True)))"

definition test_session_affinity_blocks_other_worker :: program where
  "test_session_affinity_blocks_other_worker =
     claims (standard_config ''worker-A'') ''inst-1'' ''session-1'' (
     enqueue_work (session_activity ''inst-1'' 2 ''session-1'') (nothing_for ''worker-B'' (Ends True)))"

definition test_different_sessions_different_workers :: program where
  "test_different_sessions_different_workers =
     claims (standard_config ''worker-A'') ''inst-1'' ''session-1'' (claims (standard_config ''worker-B'') ''inst-2'' ''session-2'' (
     enqueue_work (session_activity ''inst-1'' 2 ''session-1'') (enqueue_work (session_activity ''inst-2'' 2 ''session-2'') (
     fetch_from ''worker-A'' (\<lambda>w _ _. when_execute w (\<lambda>_ sid k. assert_that (sid = Some ''session-1'') k) (
     fetch_from ''worker-B'' (\<lambda>w _ _. when_execute w (\<lambda>_ sid k. assert_that (sid = Some ''session-2'') k) (Ends True))))))))"

definition test_mixed_session_and_non_session_items :: program where
  "test_mixed_session_and_non_session_items =
     claims (standard_config ''worker-A'') ''inst-1'' ''session-1'' (
     enqueue_work (session_activity ''inst-1'' 2 ''session-1'') (enqueue_work (plain_activity ''inst-2'' 1) (
     fetch_from ''worker-B'' (\<lambda>w _ _. when_execute w (\<lambda>_ sid k. assert_that (sid = None) k) (Ends True)))))"

definition test_session_claimable_after_lock_expiry :: program where
  "test_session_claimable_after_lock_expiry =
     claims (session_config_with_lock ''worker-A'' (from_millis 50)) ''inst-1'' ''session-1'' (Sleeps (from_millis 100) (
     enqueue_work (session_activity ''inst-1'' 2 ''session-1'') (fetch_from ''worker-B'' (\<lambda>_ _ _. Ends True))))"

definition test_none_session_skips_session_items :: program where
  "test_none_session_skips_session_items =
     enqueue_work (session_activity ''inst-1'' 1 ''session-1'') (enqueue_work (plain_activity ''inst-2'' 2) (
     fetch_work (from_secs 5) (\<lambda>w tok _.
     when_execute w (\<lambda>i sid k. assert_that (sid = None) (assert_that (i = 2) (done_with tok k)))
     (fetch_work_none (from_secs 5)
     (fetch_from ''worker-A'' (\<lambda>w _ _. when_execute w (\<lambda>_ sid k. assert_that (sid = Some ''session-1'') k) (Ends True)))))))"

text \<open>\<open>for _ in 0..n\<close>, the ids pushed to a vector.\<close>

fun fetches :: "nat \<Rightarrow> id64 list \<Rightarrow> (id64 list \<Rightarrow> program) \<Rightarrow> program" where
  "fetches 0 ids k = k ids"
| "fetches (Suc n) ids k = fetch_from ''shared-proc'' (\<lambda>w tok _. done_with tok
     (fetches n (case w of WI_ActivityExecute _ _ i _ _ _ _ \<Rightarrow> ids @ [i] | _ \<Rightarrow> ids) k))"

lemma fetches_numeral:
  "fetches (numeral n) ids k = fetch_from ''shared-proc'' (\<lambda>w tok _. done_with tok
     (fetches (pred_numeral n) (case w of WI_ActivityExecute _ _ i _ _ _ _ \<Rightarrow> ids @ [i] | _ \<Rightarrow> ids) k))"
  by (simp add: numeral_eq_Suc)

definition test_some_session_returns_all_items :: program where
  "test_some_session_returns_all_items =
     enqueue_work (session_activity ''inst-1'' 1 ''sess-A'') (enqueue_work (session_activity ''inst-2'' 2 ''sess-B'') (
     enqueue_work (session_activity ''inst-3'' 3 ''sess-C'') (enqueue_work (plain_activity ''inst-4'' 4) (
     fetches 4 [] (\<lambda>ids. assert_that (ids = [1, 2, 3, 4]) (nothing_for ''shared-proc'' (Ends True)))))))"

definition test_renew_session_lock_active :: program where
  "test_renew_session_lock_active =
     claims (session_config_with_lock ''worker-A'' (from_secs 5)) ''inst-1'' ''session-1'' (renews (from_secs 30) (from_secs 300) 1 (
     claims (standard_config ''worker-A'') ''inst-2'' ''session-2'' (renews (from_secs 30) (from_secs 300) 2 (Ends True))))"

definition test_renew_session_lock_skips_idle :: program where
  "test_renew_session_lock_skips_idle =
     claims (standard_config ''worker-A'') ''inst-1'' ''session-1'' (renews (from_secs 30) 0 0 (Ends True))"

definition test_renew_session_lock_no_sessions :: program where
  "test_renew_session_lock_no_sessions =
     renews (from_secs 30) (from_secs 300) 0 (Ends True)"

definition test_cleanup_removes_expired_no_items :: program where
  "test_cleanup_removes_expired_no_items =
     claims (session_config_with_lock ''worker-A'' (from_millis 50)) ''inst-1'' ''session-1'' (Sleeps (from_millis 100) (cleans 1 (Ends True)))"

definition test_cleanup_keeps_sessions_with_pending_items :: program where
  "test_cleanup_keeps_sessions_with_pending_items =
     claims (session_config_with_lock ''worker-A'' (from_millis 50)) ''inst-1'' ''session-1'' (
     enqueue_work (session_activity ''inst-1'' 2 ''session-1'') (Sleeps (from_millis 100) (cleans 0 (Ends True))))"

definition test_cleanup_keeps_active_sessions :: program where
  "test_cleanup_keeps_active_sessions =
     claims (session_config_with_lock ''worker-A'' (from_secs 300)) ''inst-1'' ''session-1'' (cleans 0 (Ends True))"

definition test_ack_updates_session_last_activity :: program where
  "test_ack_updates_session_last_activity =
     enqueue_work (session_activity ''inst-1'' 1 ''session-1'') (fetch_from ''worker-A'' (\<lambda>_ tok _.
     Sleeps (from_millis 200 + from_millis 50)
     (acked (PC_Ack_Work tok (Some (WI_ActivityCompleted ''inst-1'' 1 1 ''ok'')))
     (renews (from_secs 30) (from_millis 200) 1 (Ends True)))))"

definition test_renew_work_item_updates_session_last_activity :: program where
  "test_renew_work_item_updates_session_last_activity =
     enqueue_work (session_activity ''inst-1'' 1 ''session-1'') (fetch_from ''worker-A'' (\<lambda>_ tok _.
     Sleeps (from_millis 200 + from_millis 50) (acked (PC_Renew_Work tok (from_secs 30))
     (renews (from_secs 30) (from_millis 200) 1 (Ends True)))))"

definition test_session_items_processed_in_order :: program where
  "test_session_items_processed_in_order =
     for_each [1 :: id64, 2, 3] (\<lambda>i. enqueue_work (session_activity ''inst-1'' i ''session-1''))
     (for_each [1 :: id64, 2, 3] (\<lambda>i k. fetch_from ''worker-A'' (\<lambda>w tok _.
     when_execute w (\<lambda>j _ k. assert_that (j = i) k) (done_with tok k)))
     (Ends True))"

definition test_non_session_items_returned_with_session_config :: program where
  "test_non_session_items_returned_with_session_config =
     claims (standard_config ''worker-A'') ''inst-1'' ''session-1'' (enqueue_work (plain_activity ''inst-2'' 1) (
     fetch_from ''worker-A'' (\<lambda>w _ _. when_execute w (\<lambda>_ sid k. assert_that (sid = None) k) (Ends True))))"

definition test_shared_worker_id_any_caller_can_fetch_owned_session :: program where
  "test_shared_worker_id_any_caller_can_fetch_owned_session =
     enqueue_work (session_activity ''inst-1'' 1 ''shared-sess'') (enqueue_work (session_activity ''inst-1'' 2 ''shared-sess'') (
     fetch_from ''process-1'' (\<lambda>w tok _. when_execute w (\<lambda>i _ k. assert_that (i = 1) k) (done_with tok (
     fetch_from ''process-1'' (\<lambda>w tok2 _. when_execute w (\<lambda>i _ k. assert_that (i = 2) k) (done_with tok2 (
     enqueue_work (session_activity ''inst-1'' 3 ''shared-sess'') (nothing_for ''process-2'' (Ends True))))))))))"

definition test_concurrent_session_claim_only_one_wins :: program where
  "test_concurrent_session_claim_only_one_wins =
     enqueue_work (session_activity ''inst-1'' 1 ''contested-sess'') (enqueue_work (session_activity ''inst-1'' 2 ''contested-sess'') (
     fetch_from ''worker-A'' (\<lambda>_ tok _. nothing_for ''worker-B'' (done_with tok (Ends True)))))"

definition test_session_takeover_after_lock_expiry :: program where
  "test_session_takeover_after_lock_expiry =
     claims (session_config_with_lock ''worker-A'' (from_millis 50)) ''inst-1'' ''takeover-sess'' (
     enqueue_work (session_activity ''inst-1'' 2 ''takeover-sess'') (Sleeps (from_millis 100)
     (fetch_from ''worker-B'' (\<lambda>w _ _. when_execute w (\<lambda>_ sid k. assert_that (sid = Some ''takeover-sess'') k) (Ends True)))))"

definition test_cleanup_then_new_item_recreates_session :: program where
  "test_cleanup_then_new_item_recreates_session =
     claims (session_config_with_lock ''worker-A'' (from_millis 50)) ''inst-1'' ''ephemeral-sess'' (Sleeps (from_millis 100) (cleans 1 (
     enqueue_work (session_activity ''inst-1'' 2 ''ephemeral-sess'') (fetch_from ''worker-B'' (\<lambda>w _ _.
     when_execute w (\<lambda>i sid k. assert_that (sid = Some ''ephemeral-sess'') (assert_that (i = 2) k)) (Ends True))))))"

definition test_abandoned_session_item_retryable :: program where
  "test_abandoned_session_item_retryable =
     enqueue_work (session_activity ''inst-1'' 1 ''retry-sess'') (fetch_from ''worker-A'' (\<lambda>w tok n. assert_that (n = 1) (when_execute w (\<lambda>i _ k. assert_that (i = 1) k) (
     acked (PC_Abandon_Work tok None False) (
     fetch_from ''worker-A'' (\<lambda>w tok2 n2. assert_that (n2 = 2) (when_execute w (\<lambda>i _ k. assert_that (i = 1) k) (done_with tok2 (
     nothing_for ''worker-A'' (Ends True))))))))))"

definition test_abandoned_session_item_ignore_attempt :: program where
  "test_abandoned_session_item_ignore_attempt =
     enqueue_work (session_activity ''inst-1'' 1 ''ignore-sess'') (fetch_from ''worker-A'' (\<lambda>_ tok n. assert_that (n = 1)
     (acked (PC_Abandon_Work tok (Some (from_millis 1)) True) (Sleeps (from_millis 10)
     (fetch_from ''worker-A'' (\<lambda>_ tok2 n2. assert_that (n2 = 1) (done_with tok2 (Ends True))))))))"

definition test_renew_session_lock_after_expiry_returns_zero :: program where
  "test_renew_session_lock_after_expiry_returns_zero =
     claims (session_config_with_lock ''worker-A'' (from_millis 50)) ''inst-1'' ''expired-sess'' (Sleeps (from_millis 100)
     (renews (from_secs 30) (from_secs 300) 0 (Ends True)))"

definition test_original_worker_reclaims_expired_session :: program where
  "test_original_worker_reclaims_expired_session =
     claims (session_config_with_lock ''worker-A'' (from_millis 50)) ''inst-1'' ''reclaim-sess'' (
     enqueue_work (session_activity ''inst-1'' 2 ''reclaim-sess'') (Sleeps (from_millis 100)
     (fetch_from ''worker-A'' (\<lambda>w _ _. when_execute w (\<lambda>i sid k. assert_that (i = 2) (assert_that (sid = Some ''reclaim-sess'') k)) (Ends True)))))"

definition test_activity_lock_expires_session_lock_valid_same_worker_refetches :: program where
  "test_activity_lock_expires_session_lock_valid_same_worker_refetches =
     enqueue_work (session_activity ''inst-1'' 1 ''sticky-sess'') (
     fetch_as (Some (standard_config ''worker-A'')) TF_DefaultOnly (from_millis 500) (\<lambda>_ _ _.
     Sleeps (from_millis 500 + from_millis 100) (nothing_for ''worker-B''
     (fetch_from ''worker-A'' (\<lambda>w tok n.
     when_execute w (\<lambda>i _ k. assert_that (i = 1) (assert_that (n = 2) (done_with tok k))) (Ends True))))))"

definition test_session_lock_expires_new_owner_gets_redelivery :: program where
  "test_session_lock_expires_new_owner_gets_redelivery =
     enqueue_work (session_activity ''inst-1'' 1 ''takeover2-sess'') (
     fetch_with (session_config_with_lock ''worker-A'' (from_millis 200)) (\<lambda>_ tok_a _.
     Sleeps (from_millis 200 + from_millis 100) (
     enqueue_work (session_activity ''inst-1'' 2 ''takeover2-sess'') (fetch_from ''worker-B'' (\<lambda>w tok_b _.
     when_execute w (\<lambda>i sid k. assert_that (i = 2) (assert_that (sid = Some ''takeover2-sess'') (done_with tok_b k)))
     (expect any_answer (PC_Abandon_Work tok_a None False) (\<lambda>_.
     fetch_from ''worker-B'' (\<lambda>w tok n.
     when_execute w (\<lambda>i _ k. assert_that (i = 1) (assert_that (n = 2) (done_with tok k))) (Ends True)))))))))"

definition test_session_lock_expires_same_worker_reacquires :: program where
  "test_session_lock_expires_same_worker_reacquires =
     claims (session_config_with_lock ''worker-A'' (from_millis 200)) ''inst-1'' ''reacq-sess'' (Sleeps (from_millis 200 + from_millis 100) (
     enqueue_work (session_activity ''inst-1'' 2 ''reacq-sess'') (fetch_with (session_config_with_lock ''worker-A'' (from_millis 200)) (\<lambda>w tok _.
     when_execute w (\<lambda>i sid k. assert_that (i = 2) (assert_that (sid = Some ''reacq-sess'') (done_with tok k))) (Ends True)))))"

definition test_both_locks_expire_different_worker_claims :: program where
  "test_both_locks_expire_different_worker_claims =
     enqueue_work (session_activity ''inst-1'' 1 ''both-expire-sess'') (
     fetch_as (Some (session_config_with_lock ''worker-A'' (from_millis 200))) TF_DefaultOnly (from_millis 200) (\<lambda>_ _ _.
     Sleeps (from_millis 200 + from_millis 200) (fetch_from ''worker-B'' (\<lambda>w tok n.
     when_execute w (\<lambda>i sid k.
     assert_that (i = 1) (assert_that (sid = Some ''both-expire-sess'') (assert_that (n = 2) (done_with tok k)))) (Ends True)))))"

definition test_session_lock_expires_activity_lock_valid_ack_succeeds :: program where
  "test_session_lock_expires_activity_lock_valid_ack_succeeds =
     enqueue_work (session_activity ''inst-1'' 1 ''sess-expires'') (
     fetch_as (Some (session_config_with_lock ''worker-A'' (from_millis 200))) TF_DefaultOnly (from_secs 30) (\<lambda>_ tok _.
     Sleeps (from_millis 200 + from_millis 100)
     (acked (PC_Ack_Work tok (Some (WI_ActivityCompleted ''inst-1'' 1 1 ''done''))) (Ends True))))"

definition test_session_lock_renewal_extends_past_original_timeout :: program where
  "test_session_lock_renewal_extends_past_original_timeout =
     claims (session_config_with_lock ''worker-A'' (from_secs 1)) ''inst-1'' ''renew-ext-sess'' (Sleeps (from_millis 600)
     (renews (from_secs 1) (from_secs 300) 1 (Sleeps (from_millis 400) (
     enqueue_work (session_activity ''inst-1'' 2 ''renew-ext-sess'') (nothing_for ''worker-B'' (
     fetch_from ''worker-A'' (\<lambda>_ _ _. Ends True)))))))"

lemmas session_eval = val_eval session_activity_def plain_activity_def standard_config_def session_config_with_lock_def
  fetch_with_def fetch_from_def nothing_for_def done_with_def renews_def cleans_def claims_def fetches_numeral validated_def

lemma non_session_items_fetchable_by_any_worker: "validated test_non_session_items_fetchable_by_any_worker"
  by (simp add: test_non_session_items_fetchable_by_any_worker_def session_eval del: plain_codec_def cong: let_weak_cong)

lemma session_item_claimable_when_no_session: "validated test_session_item_claimable_when_no_session"
  by (simp add: test_session_item_claimable_when_no_session_def session_eval del: plain_codec_def cong: let_weak_cong)

lemma session_affinity_same_worker: "validated test_session_affinity_same_worker"
  by (simp add: test_session_affinity_same_worker_def session_eval del: plain_codec_def cong: let_weak_cong)

lemma session_affinity_blocks_other_worker: "validated test_session_affinity_blocks_other_worker"
  by (simp add: test_session_affinity_blocks_other_worker_def session_eval del: plain_codec_def cong: let_weak_cong)

lemma different_sessions_different_workers: "validated test_different_sessions_different_workers"
  by (simp add: test_different_sessions_different_workers_def session_eval del: plain_codec_def cong: let_weak_cong)

lemma mixed_session_and_non_session_items: "validated test_mixed_session_and_non_session_items"
  by (simp add: test_mixed_session_and_non_session_items_def session_eval del: plain_codec_def cong: let_weak_cong)

lemma session_claimable_after_lock_expiry: "validated test_session_claimable_after_lock_expiry"
  by (simp add: test_session_claimable_after_lock_expiry_def session_eval del: plain_codec_def cong: let_weak_cong)

lemma none_session_skips_session_items: "validated test_none_session_skips_session_items"
  by (simp add: test_none_session_skips_session_items_def session_eval del: plain_codec_def cong: let_weak_cong)

lemma some_session_returns_all_items: "validated test_some_session_returns_all_items"
  by (simp add: test_some_session_returns_all_items_def session_eval del: plain_codec_def cong: let_weak_cong)

lemma renew_session_lock_active: "validated test_renew_session_lock_active"
  by (simp add: test_renew_session_lock_active_def session_eval del: plain_codec_def cong: let_weak_cong)

lemma renew_session_lock_skips_idle: "validated test_renew_session_lock_skips_idle"
  by (simp add: test_renew_session_lock_skips_idle_def session_eval del: plain_codec_def cong: let_weak_cong)

lemma renew_session_lock_no_sessions: "validated test_renew_session_lock_no_sessions"
  by (simp add: test_renew_session_lock_no_sessions_def session_eval del: plain_codec_def cong: let_weak_cong)

lemma cleanup_removes_expired_no_items: "validated test_cleanup_removes_expired_no_items"
  by (simp add: test_cleanup_removes_expired_no_items_def session_eval del: plain_codec_def cong: let_weak_cong)

lemma cleanup_keeps_sessions_with_pending_items: "validated test_cleanup_keeps_sessions_with_pending_items"
  by (simp add: test_cleanup_keeps_sessions_with_pending_items_def session_eval del: plain_codec_def cong: let_weak_cong)

lemma cleanup_keeps_active_sessions: "validated test_cleanup_keeps_active_sessions"
  by (simp add: test_cleanup_keeps_active_sessions_def session_eval del: plain_codec_def cong: let_weak_cong)

lemma ack_updates_session_last_activity: "validated test_ack_updates_session_last_activity"
  by (simp add: test_ack_updates_session_last_activity_def session_eval del: plain_codec_def cong: let_weak_cong)

lemma renew_work_item_updates_session_last_activity: "validated test_renew_work_item_updates_session_last_activity"
  by (simp add: test_renew_work_item_updates_session_last_activity_def session_eval del: plain_codec_def cong: let_weak_cong)

lemma session_items_processed_in_order: "validated test_session_items_processed_in_order"
  by (simp add: test_session_items_processed_in_order_def session_eval del: plain_codec_def cong: let_weak_cong)

lemma non_session_items_returned_with_session_config: "validated test_non_session_items_returned_with_session_config"
  by (simp add: test_non_session_items_returned_with_session_config_def session_eval del: plain_codec_def cong: let_weak_cong)

lemma shared_worker_id_any_caller_can_fetch_owned_session: "validated test_shared_worker_id_any_caller_can_fetch_owned_session"
  by (simp add: test_shared_worker_id_any_caller_can_fetch_owned_session_def session_eval del: plain_codec_def cong: let_weak_cong)

lemma concurrent_session_claim_only_one_wins: "validated test_concurrent_session_claim_only_one_wins"
  by (simp add: test_concurrent_session_claim_only_one_wins_def session_eval del: plain_codec_def cong: let_weak_cong)

lemma session_takeover_after_lock_expiry: "validated test_session_takeover_after_lock_expiry"
  by (simp add: test_session_takeover_after_lock_expiry_def session_eval del: plain_codec_def cong: let_weak_cong)

lemma cleanup_then_new_item_recreates_session: "validated test_cleanup_then_new_item_recreates_session"
  by (simp add: test_cleanup_then_new_item_recreates_session_def session_eval del: plain_codec_def cong: let_weak_cong)

lemma abandoned_session_item_retryable: "validated test_abandoned_session_item_retryable"
  by (simp add: test_abandoned_session_item_retryable_def session_eval del: plain_codec_def cong: let_weak_cong)

lemma abandoned_session_item_ignore_attempt: "validated test_abandoned_session_item_ignore_attempt"
  by (simp add: test_abandoned_session_item_ignore_attempt_def session_eval del: plain_codec_def cong: let_weak_cong)

lemma renew_session_lock_after_expiry_returns_zero: "validated test_renew_session_lock_after_expiry_returns_zero"
  by (simp add: test_renew_session_lock_after_expiry_returns_zero_def session_eval del: plain_codec_def cong: let_weak_cong)

lemma original_worker_reclaims_expired_session: "validated test_original_worker_reclaims_expired_session"
  by (simp add: test_original_worker_reclaims_expired_session_def session_eval del: plain_codec_def cong: let_weak_cong)

lemma activity_lock_expires_session_lock_valid_same_worker_refetches: "validated test_activity_lock_expires_session_lock_valid_same_worker_refetches"
  by (simp add: test_activity_lock_expires_session_lock_valid_same_worker_refetches_def session_eval del: plain_codec_def cong: let_weak_cong)

lemma session_lock_expires_new_owner_gets_redelivery: "validated test_session_lock_expires_new_owner_gets_redelivery"
  by (simp add: test_session_lock_expires_new_owner_gets_redelivery_def session_eval del: plain_codec_def cong: let_weak_cong)

lemma session_lock_expires_same_worker_reacquires: "validated test_session_lock_expires_same_worker_reacquires"
  by (simp add: test_session_lock_expires_same_worker_reacquires_def session_eval del: plain_codec_def cong: let_weak_cong)

lemma both_locks_expire_different_worker_claims: "validated test_both_locks_expire_different_worker_claims"
  by (simp add: test_both_locks_expire_different_worker_claims_def session_eval del: plain_codec_def cong: let_weak_cong)

lemma session_lock_expires_activity_lock_valid_ack_succeeds: "validated test_session_lock_expires_activity_lock_valid_ack_succeeds"
  by (simp add: test_session_lock_expires_activity_lock_valid_ack_succeeds_def session_eval del: plain_codec_def cong: let_weak_cong)

lemma session_lock_renewal_extends_past_original_timeout: "validated test_session_lock_renewal_extends_past_original_timeout"
  by (simp add: test_session_lock_renewal_extends_past_original_timeout_def session_eval del: plain_codec_def cong: let_weak_cong)

end
