(* ===== verification/Validation_Suites.thy ===== *)
theory Validation_Suites
  imports Val_Expiration Val_Executions Val_Atomicity Val_Queues Val_Tags Val_Sessions
begin

text \<open>
  The suites together (\<open>src/provider_validations.rs\<close>): the tests that run one provider from one task. The tests that spawn
  concurrent tasks, read the wall clock or corrupt rows behind the provider's back are left out.
\<close>

definition validation_tests :: "program list" where
  "validation_tests = [
     test_exclusive_instance_lock, test_lock_token_uniqueness, test_invalid_lock_token_rejection,
     test_completions_arriving_during_lock_blocked, test_cross_instance_lock_isolation,
     test_message_tagging_during_lock, test_ack_only_affects_locked_messages, test_lock_expires_after_timeout,
     test_abandon_releases_lock_immediately, test_lock_renewal_on_ack, test_worker_lock_renewal_success,
     test_worker_lock_renewal_invalid_token, test_worker_lock_renewal_after_expiration,
     test_worker_lock_renewal_extends_timeout, test_worker_lock_renewal_after_ack,
     test_abandon_work_item_releases_lock, test_abandon_work_item_with_delay,
     test_worker_ack_fails_after_lock_expiry, test_orchestration_lock_renewal_after_expiration,
     test_execution_isolation, test_latest_execution_detection, test_execution_id_sequencing,
     test_continue_as_new_creates_new_execution, test_execution_history_persistence,
     test_atomicity_failure_rollback, test_multi_operation_atomic_ack, test_lock_released_only_on_successful_ack,
     test_concurrent_ack_prevention, test_invalid_lock_token_on_ack, test_duplicate_event_id_rejection,
     test_missing_instance_metadata, test_lock_expiration_during_ack, test_instance_creation_via_metadata,
     test_no_instance_creation_on_enqueue, test_null_version_handling, test_sub_orchestration_instance_creation,
     test_worker_queue_fifo_ordering, test_worker_peek_lock_semantics, test_worker_ack_atomicity,
     test_timer_delayed_visibility, test_lost_lock_token_handling, test_worker_item_immediate_visibility,
     test_worker_delayed_visibility_skips_future_items, test_orphan_queue_messages_dropped,
     test_orchestration_attempt_count_starts_at_one, test_orchestration_attempt_count_increments_on_refetch,
     test_worker_attempt_count_starts_at_one, test_worker_attempt_count_increments_on_lock_expiry,
     test_attempt_count_is_per_message, test_abandon_work_item_ignore_attempt_decrements,
     test_abandon_orchestration_item_ignore_attempt_decrements, test_ignore_attempt_never_goes_negative,
     test_max_attempt_count_across_message_batch, test_default_only_fetches_untagged,
     test_tags_fetches_only_matching, test_default_and_fetches_untagged_and_matching,
     test_none_filter_returns_nothing, test_multi_tag_filter, test_tag_round_trip_preservation,
     test_any_filter_fetches_everything, test_tag_survives_abandon_and_refetch, test_multi_runtime_tag_isolation,
     test_tag_preserved_through_ack_orchestration_item, test_non_session_items_fetchable_by_any_worker,
     test_session_item_claimable_when_no_session, test_session_affinity_same_worker,
     test_session_affinity_blocks_other_worker, test_different_sessions_different_workers,
     test_mixed_session_and_non_session_items, test_session_claimable_after_lock_expiry,
     test_none_session_skips_session_items, test_some_session_returns_all_items, test_renew_session_lock_active,
     test_renew_session_lock_skips_idle, test_renew_session_lock_no_sessions,
     test_cleanup_removes_expired_no_items, test_cleanup_keeps_sessions_with_pending_items,
     test_cleanup_keeps_active_sessions, test_ack_updates_session_last_activity,
     test_renew_work_item_updates_session_last_activity, test_session_items_processed_in_order,
     test_non_session_items_returned_with_session_config, test_shared_worker_id_any_caller_can_fetch_owned_session,
     test_concurrent_session_claim_only_one_wins, test_session_takeover_after_lock_expiry,
     test_cleanup_then_new_item_recreates_session, test_abandoned_session_item_retryable,
     test_abandoned_session_item_ignore_attempt, test_renew_session_lock_after_expiry_returns_zero,
     test_original_worker_reclaims_expired_session,
     test_activity_lock_expires_session_lock_valid_same_worker_refetches,
     test_session_lock_expires_new_owner_gets_redelivery, test_session_lock_expires_same_worker_reacquires,
     test_both_locks_expire_different_worker_claims, test_session_lock_expires_activity_lock_valid_ack_succeeds,
     test_session_lock_renewal_extends_past_original_timeout]"

lemmas tests_pass =
  exclusive_instance_lock lock_token_uniqueness invalid_lock_token_rejection
  completions_arriving_during_lock_blocked cross_instance_lock_isolation message_tagging_during_lock
  ack_only_affects_locked_messages lock_expires_after_timeout abandon_releases_lock_immediately lock_renewal_on_ack
  worker_lock_renewal_success worker_lock_renewal_invalid_token worker_lock_renewal_after_expiration
  worker_lock_renewal_extends_timeout worker_lock_renewal_after_ack abandon_work_item_releases_lock
  abandon_work_item_with_delay worker_ack_fails_after_lock_expiry orchestration_lock_renewal_after_expiration
  execution_isolation latest_execution_detection execution_id_sequencing continue_as_new_creates_new_execution
  execution_history_persistence atomicity_failure_rollback multi_operation_atomic_ack
  lock_released_only_on_successful_ack concurrent_ack_prevention invalid_lock_token_on_ack
  duplicate_event_id_rejection missing_instance_metadata lock_expiration_during_ack instance_creation_via_metadata
  no_instance_creation_on_enqueue null_version_handling sub_orchestration_instance_creation
  worker_queue_fifo_ordering worker_peek_lock_semantics worker_ack_atomicity timer_delayed_visibility
  lost_lock_token_handling worker_item_immediate_visibility worker_delayed_visibility_skips_future_items
  orphan_queue_messages_dropped orchestration_attempt_count_starts_at_one
  orchestration_attempt_count_increments_on_refetch worker_attempt_count_starts_at_one
  worker_attempt_count_increments_on_lock_expiry attempt_count_is_per_message
  abandon_work_item_ignore_attempt_decrements abandon_orchestration_item_ignore_attempt_decrements
  ignore_attempt_never_goes_negative max_attempt_count_across_message_batch default_only_fetches_untagged
  tags_fetches_only_matching default_and_fetches_untagged_and_matching none_filter_returns_nothing multi_tag_filter
  tag_round_trip_preservation any_filter_fetches_everything tag_survives_abandon_and_refetch
  multi_runtime_tag_isolation tag_preserved_through_ack_orchestration_item
  non_session_items_fetchable_by_any_worker session_item_claimable_when_no_session session_affinity_same_worker
  session_affinity_blocks_other_worker different_sessions_different_workers mixed_session_and_non_session_items
  session_claimable_after_lock_expiry none_session_skips_session_items some_session_returns_all_items
  renew_session_lock_active renew_session_lock_skips_idle renew_session_lock_no_sessions
  cleanup_removes_expired_no_items cleanup_keeps_sessions_with_pending_items cleanup_keeps_active_sessions
  ack_updates_session_last_activity renew_work_item_updates_session_last_activity session_items_processed_in_order
  non_session_items_returned_with_session_config shared_worker_id_any_caller_can_fetch_owned_session
  concurrent_session_claim_only_one_wins session_takeover_after_lock_expiry cleanup_then_new_item_recreates_session
  abandoned_session_item_retryable abandoned_session_item_ignore_attempt
  renew_session_lock_after_expiry_returns_zero original_worker_reclaims_expired_session
  activity_lock_expires_session_lock_valid_same_worker_refetches session_lock_expires_new_owner_gets_redelivery
  session_lock_expires_same_worker_reacquires both_locks_expire_different_worker_claims
  session_lock_expires_activity_lock_valid_ack_succeeds session_lock_renewal_extends_past_original_timeout


end
