(* ===== verification/Spec2Isabelle.thy ===== *)
theory Spec2Isabelle
  imports Replay_Determinism Replay_Cancel Replay_Once Replay_Outcome Kv_Store Execution_Props Dispatch Registry
    Orch_Props Sql_Admin_Props Sql_Work Sql_Provider System_Once Runtime_Tasks Typed Turso Validation_Suites
begin

text \<open>
  Duroxide runs durable orchestrations: user code that is replayed against a recorded history, with
  its state in a database. This library models the orchestration core, the dispatchers and the
  SQLite provider, and proves what makes them correct. Paths are relative to the repository's
  sources (\<open>src/src/\<close>).

  \<^bold>\<open>How the parts interact.\<close> A client enqueues a message for an instance. The orchestration dispatcher
  fetches an instance with its messages and history under a lock, replays the history against
  the user's code, runs the turn, and commits the new events and the work they cause with one
  acknowledgement. The worker dispatcher fetches activities, runs them, and commits each
  completion with one acknowledgement, which is a message to the orchestration again.

  \<^bold>\<open>The theories, bottom up.\<close>
  \<^item> \<open>Prelude\<close>: shared types, lemma collections, lemmas on lists, maps and decimal numbers.
  \<^item> \<open>Events\<close>: errors, events, actions, work items (\<open>lib.rs\<close>, \<open>providers/mod.rs\<close>, \<open>providers/error.rs\<close>).
  \<^item> \<open>Ctx_Inner\<close>: the shared state \<open>CtxInner\<close> of an orchestration context and its operations
    (\<open>lib.rs\<close>): bindings, results, external events, queues, cancellation, key-value state.
  \<^item> \<open>Futures\<close>, \<open>Retry\<close>: durable futures, the scheduling API, retry policies (\<open>lib.rs\<close>).
  \<^item> \<open>Replay_Prep\<close>, \<open>Replay_Engine\<close>, \<open>Replay_Turn\<close>: the replay engine (\<open>runtime/replay_engine.rs\<close>):
    filtering a batch of completions, replaying the history, running to quiescence, finishing the turn.
  \<^item> \<open>Kv_Store\<close>: the key-value operations of the context.
  \<^item> \<open>History\<close>, \<open>Execution\<close>: \<open>HistoryManager\<close> and \<open>WorkItemReader\<close> (\<open>runtime/state_helpers.rs\<close>), one
    turn of an execution and the work it causes (\<open>runtime/execution.rs\<close>).
  \<^item> \<open>Registry\<close>: versioned handlers and routing filters (\<open>runtime/registry.rs\<close>, \<open>providers/mod.rs\<close>).
  \<^item> \<open>Limits\<close>, \<open>Orch_Dispatcher\<close>: limits and metadata (\<open>runtime/limits.rs\<close>, \<open>runtime/mod.rs\<close>), the
    orchestration dispatcher (\<open>runtime/dispatchers/orchestration.rs\<close>).
  \<^item> \<open>Sql_Db\<close>, \<open>Sql_Orchestration\<close>, \<open>Sql_Worker\<close>, \<open>Sql_Admin\<close>: the SQLite provider
    (\<open>providers/sqlite_common.rs\<close>): tables as lists of records, one definition per statement, one
    transaction per operation.
  \<^item> \<open>Worker\<close>: the worker dispatcher (\<open>runtime/dispatchers/worker.rs\<close>).
  \<^item> \<open>Sql_Provider\<close>: the provider as the dispatchers see it, with clock, lock tokens and faults.
  \<^item> \<open>Client\<close>: the client (\<open>client/mod.rs\<close>) over an abstract provider.
  \<^item> \<open>Metrics\<close>, \<open>Provider\<close>: the metrics (\<open>runtime/observability.rs\<close>) and where the runtime records
    them; the trait \<open>Provider\<close> as a record and the provider that records metrics around
    another (\<open>providers/instrumented.rs\<close>). \<open>Programs\<close>: programs of provider calls, run on SQLite.
  \<^item> \<open>Guid\<close>, \<open>Typed\<close>: the built-in activities; the typed codec and the typed variants of the API.
  \<^item> \<open>Lock_Renewal\<close>, \<open>Runtime_Start\<close>, \<open>Runtime_Tasks\<close>: the lock renewal of a turn; options, their check and
    the gauges; the runtime's tasks and shutdown as a step relation (\<open>runtime/mod.rs\<close>).
  \<^item> \<open>Turso_Pool\<close>, \<open>Turso_Delete\<close>, \<open>Turso\<close>: the Turso provider (\<open>providers/turso.rs\<close>): its pool over a parametric
    engine, and the strategies in which its operations differ from SQLite's.
  \<^item> \<open>Validation\<close>, \<open>Val_...\<close>, \<open>Validation_Suites\<close>: the tests every provider must pass (\<open>provider_validation/\<close>) as
    programs of provider calls.

  \<^bold>\<open>What the lemmas show.\<close>
  \<^item> \<open>Replay_Determinism\<close>, \<open>Replay_Flag\<close>, \<open>Replay_Cancel\<close>: the history a turn records replays without
    a mismatch, cancellations included. \<open>Replay_Once\<close>, \<open>Replay_Ids\<close>, \<open>Replay_Outcome\<close>: completions are
    recorded and delivered once, event ids increase, a turn returns, and cancellation wins.
  \<^item> \<open>Execution_Props\<close>, \<open>Dispatch\<close>: terminal events come last, the messages carried over are exact, each
    schedule is dispatched once, the parent is told once.
  \<^item> \<open>Orch_Props\<close>, \<open>Orch_Commit\<close>: retries are bounded, limits hold for what is committed, poison ends an
    instance; a processed item commits at most one request.
  \<^item> \<open>Sql_Invariant\<close>, \<open>Sql_Locks\<close>, \<open>Sql_Props\<close>: the invariant of the tables and of the lock tokens for
    every sequence of operations, exclusive instance locks, no message is lost.
  \<^item> \<open>Sql_Kv\<close>, \<open>Sql_Work\<close>, \<open>Sql_Flow\<close>, \<open>Sql_Admin_Props\<close>: the history and the key-value tables refine the
    events, what the fetches return, session affinity, completion of activities, deletion, pruning.
  \<^item> \<open>Worker_Props\<close>: the session capacity under every interleaving of the slots, what an activity delivers.
  \<^item> \<open>Sql_Isolation\<close>: what a fetch handed out stays true until its commit, whatever others do to the store.
  \<^item> \<open>Turn_Contract\<close>: what the orchestration dispatcher may submit for an item, and what every such request
    keeps. \<open>System\<close>, \<open>System_Once\<close>: clients, dispatchers and workers over one store as a step relation, and
    the invariant that an activity completes at most once.
  \<^item> \<open>Client_Props\<close>: waits end, the client sees what was committed, how deletion errors are reported.
  \<^item> \<open>Metrics\<close>, \<open>Provider\<close>: two flaws of the metrics; the instrumented provider cannot be told from the one inside.
  \<^item> \<open>Lock_Renewal\<close>, \<open>Runtime_Tasks\<close>, \<open>Runtime_Start\<close>, \<open>Guid\<close>, \<open>Typed\<close>: a long turn keeps its instance, graceful
    shutdown ends and immediate shutdown does not; a check of the options that is too weak; when
    identifiers repeat; which typed values survive their encoding.
  \<^item> \<open>Turso_Pool\<close>, \<open>Turso_Delete\<close>, \<open>Turso\<close>: no client inherits a transaction; deleting leaf first is deleting at
    once; a repeated acknowledgement commits once, and may outlast its lock.
  \<^item> \<open>Val_...\<close>, \<open>Validation_Suites\<close>: the SQLite model passes the validation tests, evaluated by simplification.

  \<^bold>\<open>Interfaces.\<close> The locales \<open>atomic_store\<close> (\<open>Orch_Commit\<close>) and \<open>completion_queue\<close> (\<open>Worker_Props\<close>) are what
  the two dispatchers rely on; \<open>Sql_Provider\<close> interprets both on the SQLite model.
  \<open>waiting\<close> (\<open>Client_Props\<close>) is what the client's waits need of clock and store, interpreted there.
  \<open>version_map\<close> (\<open>Registry\<close>) is the interface of the ordered map of handler versions.

  \<^bold>\<open>Bounds and fuel.\<close> The loop that runs an orchestration to quiescence may not end, as the user's
  code decides; it is a partial function whose value \<open>None\<close> stands for not returning, and \<open>turn_returns\<close>
  states when it does return. Integers of the program are natural numbers where the code never
  wraps; times in the store are signed and wrap at 64 bits as the casts do, and back-off delays
  are 64-bit words.

  \<^bold>\<open>Parameters.\<close> User code is a parameter (orchestrations as poll functions, activities as functions of
  their context and input), so are JSON (a codec with its round trip as hypothesis), the comparison and
  the text of versions, the clock, and the faults of the database.

  \<^bold>\<open>Not modelled.\<close> Logging; SQLite's connection set-up, schema migration; fault injection for tests; the tests that spawn
  concurrent tasks, measure the wall clock or corrupt rows; serde's JSON. The wall-clock field \<open>timestamp_ms\<close> of events and the
  text of debug output inside error messages are left out.
\<close>

end
